(* ===== verification/Prelude.thy ===== *)
theory Prelude
  imports Main "HOL-Library.Sublist"
begin

text \<open>
  What the components share.  Go error values are values of \<open>gerror\<close>; a function
  that returns \<open>(T, error)\<close> returns \<open>gerror + T\<close>; an operation with effects is an
  \<open>act\<close>: it takes the state of the world and returns its result and the new state.
  Go strings are byte lists (\<open>string\<close>); the functions of Go's \<open>strings\<close> and
  \<open>strconv\<close> packages that the program calls are written out here for ASCII text.
\<close>

section \<open>Error values\<close>

text \<open>
  \<open>ErrNotFound\<close> is the package's sentinel, \<open>ErrNotExist\<close> is \<open>os.ErrNotExist\<close>,
  \<open>DeadlineExceeded\<close> is \<open>context.DeadlineExceeded\<close>.  \<open>Msg\<close> is an error made from a
  text (the texts are shortened), \<open>Wrap\<close> is \<open>fmt.Errorf\<close> with \<open>%w\<close>, \<open>Joined\<close> is
  \<open>errors.Join\<close>, and \<open>IPCollision\<close> is the \<open>*haRuntimeIPCollision\<close> error: the address
  and the identifiers of the runtime member and of the stable member.
\<close>

datatype gerror =
    ErrNotFound
  | ErrNotExist
  | ErrNoCurrentCluster
  | DeadlineExceeded
  | Msg string
  | Wrap string gerror
  | Joined "gerror list"
  | IPCollision string int int

fun errorsIs :: "gerror \<Rightarrow> gerror \<Rightarrow> bool" where
  "errorsIs (Wrap s e) t = (Wrap s e = t \<or> errorsIs e t)"
| "errorsIs (Joined es) t = (Joined es = t \<or> (\<exists>e\<in>set es. errorsIs e t))"
| "errorsIs e t = (e = t)"

text \<open>\<open>errors.As(err, &collision)\<close>: the first collision in the error tree.\<close>

fun errorsAsCollision :: "gerror \<Rightarrow> (string \<times> int \<times> int) option" where
  "errorsAsCollision (IPCollision a r s) = Some (a, r, s)"
| "errorsAsCollision (Wrap _ e) = errorsAsCollision e"
| "errorsAsCollision (Joined es) =
     foldr (\<lambda>e r. case errorsAsCollision e of Some c \<Rightarrow> Some c | None \<Rightarrow> r) es None"
| "errorsAsCollision _ = None"

text \<open>\<open>errors.Join\<close> drops the nil errors and is nil when all are.\<close>

definition errorsJoin :: "gerror option list \<Rightarrow> gerror option" where
  "errorsJoin es = (case List.map_filter id es of [] \<Rightarrow> None | xs \<Rightarrow> Some (Joined xs))"

definition errOf :: "gerror + 'a \<Rightarrow> gerror option" where
  "errOf r = (case r of Inl e \<Rightarrow> Some e | Inr _ \<Rightarrow> None)"

definition okOf :: "gerror + 'a \<Rightarrow> 'a option" where
  "okOf r = (case r of Inl _ \<Rightarrow> None | Inr x \<Rightarrow> Some x)"

definition isOk :: "'e + 'a \<Rightarrow> bool" where
  "isOk r = (case r of Inl _ \<Rightarrow> False | Inr _ \<Rightarrow> True)"

lemma errOf_simps [simp]: "errOf (Inl e) = Some e" "errOf (Inr x) = None"
  by (simp_all add: errOf_def)

lemma okOf_simps [simp]: "okOf (Inl e) = None" "okOf (Inr x) = Some x"
  by (simp_all add: okOf_def)

lemma okOf_eq_Some [simp]: "okOf r = Some x \<longleftrightarrow> r = Inr x"
  by (cases r) auto

lemma isOk_simps [simp]: "isOk (Inr x)" "\<not> isOk (Inl e)"
  by (simp_all add: isOk_def)

lemma isOkE: "isOk r \<Longrightarrow> (\<And>x. r = Inr x \<Longrightarrow> P) \<Longrightarrow> P"
  by (cases r) auto

lemma errorsJoin_simps [simp]:
  "errorsJoin [] = None"
  "errorsJoin (None # es) = errorsJoin es"
  "errorsJoin [Some e] = Some (Joined [e])"
  by (simp_all add: errorsJoin_def List.map_filter_simps)

lemma errorsJoin_None_iff: "errorsJoin es = None \<longleftrightarrow> (\<forall>e\<in>set es. e = None)"
  by (induction es) (auto simp: errorsJoin_def List.map_filter_simps split: list.splits option.splits)

text \<open>\<open>x, err := r; if err != nil { return err }; f(x)\<close> for a function with no effect.\<close>

definition tryS :: "gerror + 'a \<Rightarrow> ('a \<Rightarrow> gerror + 'b) \<Rightarrow> gerror + 'b" where
  "tryS r f = (case r of Inl e \<Rightarrow> Inl e | Inr x \<Rightarrow> f x)"

definition wrapS :: "string \<Rightarrow> gerror + 'a \<Rightarrow> gerror + 'a" where
  "wrapS msg r = (case r of Inl e \<Rightarrow> Inl (Wrap msg e) | Inr x \<Rightarrow> Inr x)"

lemma tryS_simps [simp]: "tryS (Inl e) f = Inl e" "tryS (Inr x) f = f x"
  by (simp_all add: tryS_def)

lemma wrapS_simps [simp]: "wrapS msg (Inl e) = Inl (Wrap msg e)" "wrapS msg (Inr x) = Inr x"
  by (simp_all add: wrapS_def)

lemma tryS_eq_Inr [simp]: "tryS r f = Inr y \<longleftrightarrow> (\<exists>x. r = Inr x \<and> f x = Inr y)"
  by (cases r) auto

lemma wrapS_eq_Inr [simp]: "wrapS msg r = Inr y \<longleftrightarrow> r = Inr y"
  by (cases r) auto

lemma if_eq_Inr [simp]:
  "(if b then Inl e else x) = Inr y \<longleftrightarrow> \<not> b \<and> x = Inr y"
  "(if b then x else Inl e) = Inr y \<longleftrightarrow> b \<and> x = Inr y"
  by auto

lemma isOk_tryS [simp]: "isOk (tryS r f) \<longleftrightarrow> (\<exists>x. r = Inr x \<and> isOk (f x))"
  by (cases r) auto

section \<open>Actions: state passing with early return\<close>

type_synonym ('s, 'a) act = "'s \<Rightarrow> (gerror + 'a) \<times> 's"

definition retA :: "'a \<Rightarrow> ('s, 'a) act" where
  "retA x = (\<lambda>s. (Inr x, s))"

definition errA :: "gerror \<Rightarrow> ('s, 'a) act" where
  "errA e = (\<lambda>s. (Inl e, s))"

definition liftA :: "gerror + 'a \<Rightarrow> ('s, 'a) act" where
  "liftA r = (\<lambda>s. (r, s))"

definition getA :: "('s \<Rightarrow> 'a) \<Rightarrow> ('s, 'a) act" where
  "getA f = (\<lambda>s. (Inr (f s), s))"

definition updA :: "('s \<Rightarrow> 's) \<Rightarrow> ('s, unit) act" where
  "updA f = (\<lambda>s. (Inr (), f s))"

text \<open>
  \<open>catchA m h\<close> is a call whose error the code looks at; \<open>tryA m f\<close> is
  \<open>x, err := m(); if err != nil { return err }; f(x)\<close>; \<open>wrapA\<close> wraps the error;
  \<open>tryWrapA\<close> is \<open>tryA\<close> with the error wrapped.
\<close>

definition catchA :: "('s, 'a) act \<Rightarrow> (gerror + 'a \<Rightarrow> ('s, 'b) act) \<Rightarrow> ('s, 'b) act" where
  "catchA m h = (\<lambda>s. case m s of (r, s') \<Rightarrow> h r s')"

definition tryA :: "('s, 'a) act \<Rightarrow> ('a \<Rightarrow> ('s, 'b) act) \<Rightarrow> ('s, 'b) act" where
  "tryA m f = catchA m (\<lambda>r. case r of Inl e \<Rightarrow> errA e | Inr x \<Rightarrow> f x)"

definition wrapA :: "string \<Rightarrow> ('s, 'a) act \<Rightarrow> ('s, 'a) act" where
  "wrapA msg m = catchA m (\<lambda>r. case r of Inl e \<Rightarrow> errA (Wrap msg e) | Inr x \<Rightarrow> retA x)"

definition tryWrapA :: "string \<Rightarrow> ('s, 'a) act \<Rightarrow> ('a \<Rightarrow> ('s, 'b) act) \<Rightarrow> ('s, 'b) act" where
  "tryWrapA msg m f = tryA (wrapA msg m) f"

text \<open>A \<open>for\<close> loop whose body may return an error, and one with an accumulator.\<close>

fun forA :: "'b list \<Rightarrow> ('b \<Rightarrow> ('s, unit) act) \<Rightarrow> ('s, unit) act" where
  "forA [] f = retA ()"
| "forA (x # xs) f = tryA (f x) (\<lambda>_. forA xs f)"

fun foldA :: "('c \<Rightarrow> 'b \<Rightarrow> ('s, 'c) act) \<Rightarrow> 'c \<Rightarrow> 'b list \<Rightarrow> ('s, 'c) act" where
  "foldA f acc [] = retA acc"
| "foldA f acc (x # xs) = tryA (f acc x) (\<lambda>acc'. foldA f acc' xs)"

lemma retA_apply [simp]: "retA x s = (Inr x, s)"
  by (simp add: retA_def)

lemma errA_apply [simp]: "errA e s = (Inl e, s)"
  by (simp add: errA_def)

lemma liftA_apply [simp]: "liftA r s = (r, s)"
  by (simp add: liftA_def)

lemma getA_apply [simp]: "getA f s = (Inr (f s), s)"
  by (simp add: getA_def)

lemma updA_apply [simp]: "updA f s = (Inr (), f s)"
  by (simp add: updA_def)

lemma catchA_apply: "catchA m h s = (case m s of (r, s') \<Rightarrow> h r s')"
  by (simp add: catchA_def)

lemma tryA_apply:
  "tryA m f s = (case m s of (Inl e, s') \<Rightarrow> (Inl e, s') | (Inr x, s') \<Rightarrow> f x s')"
  by (auto simp: tryA_def catchA_def split: prod.splits sum.splits)

lemma wrapA_apply:
  "wrapA msg m s = (case m s of (Inl e, s') \<Rightarrow> (Inl (Wrap msg e), s') | (Inr x, s') \<Rightarrow> (Inr x, s'))"
  by (auto simp: wrapA_def catchA_def split: prod.splits sum.splits)

lemmas act_apply = catchA_apply tryA_apply wrapA_apply tryWrapA_def

text \<open>Inversion of a successful call: the shape most proofs about results start from.\<close>

lemma tryA_InrE:
  assumes "tryA m f s = (Inr y, s'')"
  obtains x s' where "m s = (Inr x, s')" and "f x s' = (Inr y, s'')"
  using assms by (auto simp: tryA_apply split: prod.splits sum.splits)

lemma tryWrapA_InrE:
  assumes "tryWrapA msg m f s = (Inr y, s'')"
  obtains x s' where "m s = (Inr x, s')" and "f x s' = (Inr y, s'')"
  using assms by (auto simp: act_apply split: prod.splits sum.splits)

section \<open>Operations that only read\<close>

text \<open>\<open>reads m\<close>: \<open>m\<close> leaves the state as it found it.\<close>

definition reads :: "('s, 'a) act \<Rightarrow> bool" where
  "reads m \<longleftrightarrow> (\<forall>s. snd (m s) = s)"

named_theorems readonly

lemma readsI: "(\<And>s. snd (m s) = s) \<Longrightarrow> reads m"
  by (simp add: reads_def)

lemma reads_state: "reads m \<Longrightarrow> m s = (r, s') \<Longrightarrow> s' = s"
  unfolding reads_def by (metis snd_conv)

lemma reads_silent [readonly]: "reads (retA x)" "reads (errA e)" "reads (liftA r)" "reads (getA f)"
  by (simp_all add: reads_def)

lemma reads_catchA [readonly]: "reads m \<Longrightarrow> (\<And>r. reads (h r)) \<Longrightarrow> reads (catchA m h)"
  by (auto simp: reads_def catchA_apply split: prod.split) (metis snd_conv)

lemma reads_tryA [readonly]: "reads m \<Longrightarrow> (\<And>x. reads (f x)) \<Longrightarrow> reads (tryA m f)"
  unfolding tryA_def by (rule reads_catchA) (auto split: sum.split intro: readonly)

lemma reads_wrapA [readonly]: "reads m \<Longrightarrow> reads (wrapA msg m)"
  unfolding wrapA_def by (rule reads_catchA) (auto split: sum.split intro: readonly)

lemma reads_tryWrapA [readonly]: "reads m \<Longrightarrow> (\<And>x. reads (f x)) \<Longrightarrow> reads (tryWrapA msg m f)"
  unfolding tryWrapA_def by (intro readonly)

lemma reads_if [readonly]: "(b \<Longrightarrow> reads m) \<Longrightarrow> (\<not> b \<Longrightarrow> reads n) \<Longrightarrow> reads (if b then m else n)"
  by simp

lemma reads_case_option [readonly]:
  "(x = None \<Longrightarrow> reads m) \<Longrightarrow> (\<And>y. x = Some y \<Longrightarrow> reads (f y)) \<Longrightarrow> reads (case x of None \<Rightarrow> m | Some y \<Rightarrow> f y)"
  by (cases x) auto

lemma reads_case_sum [readonly]:
  "(\<And>e. x = Inl e \<Longrightarrow> reads (f e)) \<Longrightarrow> (\<And>y. x = Inr y \<Longrightarrow> reads (g y)) \<Longrightarrow> reads (case x of Inl e \<Rightarrow> f e | Inr y \<Rightarrow> g y)"
  by (cases x) auto

lemma reads_case_prod [readonly]:
  "(\<And>a b. x = (a, b) \<Longrightarrow> reads (f a b)) \<Longrightarrow> reads (case x of (a, b) \<Rightarrow> f a b)"
  by (cases x) auto

lemma reads_forA [readonly]: "(\<And>x. x \<in> set xs \<Longrightarrow> reads (f x)) \<Longrightarrow> reads (forA xs f)"
  by (induction xs) (auto intro: readonly)

lemma catchA_reads: "reads m \<Longrightarrow> catchA m h s = h (fst (m s)) s"
  unfolding reads_def by (simp add: catchA_apply split: prod.split) (metis fst_conv snd_conv)

lemma tryA_reads:
  "reads m \<Longrightarrow> tryA m f s = (case fst (m s) of Inl e \<Rightarrow> (Inl e, s) | Inr x \<Rightarrow> f x s)"
  unfolding tryA_def by (simp add: catchA_reads split: sum.split)

lemma tryA_reads_cases:
  assumes "tryA m f s = (r, s')" "reads m"
  obtains (failed) e where "r = Inl e" "s' = s" | (passed) x where "m s = (Inr x, s)" "f x s = (r, s')"
proof -
  obtain r1 s1 where m: "m s = (r1, s1)" by fastforce
  with reads_state [OF assms(2) m] assms(1) that show ?thesis
    by (cases r1) (auto simp: tryA_apply)
qed

end
