(* ===== verification/GoStrings.thy ===== *)
theory GoStrings
  imports Prelude "HOL-Library.Word"
begin

text \<open>
  The functions of Go's \<open>strings\<close>, \<open>strconv\<close>, \<open>path/filepath\<close> and \<open>regexp\<close> packages
  that the program calls, on byte strings.  Case folding and white space are those of
  ASCII.  \<open>dnsLabel\<close> and \<open>immutableImageReference\<close> are the two regular expressions of
  \<open>internal/cluster/cluster.go\<close> and \<open>internal/cluster/upgrade.go\<close>.
\<close>

unbundle bit_operations_syntax

section \<open>Characters\<close>

abbreviation code :: "char \<Rightarrow> nat" where
  "code c \<equiv> of_char c"

definition isDigit :: "char \<Rightarrow> bool" where
  "isDigit c \<longleftrightarrow> 48 \<le> code c \<and> code c \<le> 57"

definition isLowerAlpha :: "char \<Rightarrow> bool" where
  "isLowerAlpha c \<longleftrightarrow> 97 \<le> code c \<and> code c \<le> 122"

definition isUpperAlpha :: "char \<Rightarrow> bool" where
  "isUpperAlpha c \<longleftrightarrow> 65 \<le> code c \<and> code c \<le> 90"

definition isHexDigit :: "char \<Rightarrow> bool" where
  "isHexDigit c \<longleftrightarrow> isDigit c \<or> (97 \<le> code c \<and> code c \<le> 102) \<or> (65 \<le> code c \<and> code c \<le> 70)"

definition alphanumeric :: "char \<Rightarrow> bool" where
  "alphanumeric c \<longleftrightarrow> isLowerAlpha c \<or> isUpperAlpha c \<or> isDigit c"

definition isSpace :: "char \<Rightarrow> bool" where
  "isSpace c \<longleftrightarrow> (9 \<le> code c \<and> code c \<le> 13) \<or> code c = 32"

definition hexVal :: "char \<Rightarrow> nat" where
  "hexVal c = (if isDigit c then code c - 48
     else if 97 \<le> code c then code c - 87 else code c - 55)"

definition lowerChar :: "char \<Rightarrow> char" where
  "lowerChar c = (if isUpperAlpha c then char_of (code c + 32) else c)"

definition upperChar :: "char \<Rightarrow> char" where
  "upperChar c = (if isLowerAlpha c then char_of (code c - 32) else c)"

definition digitChar :: "nat \<Rightarrow> char" where
  "digitChar n = char_of (48 + n)"

definition hexChar :: "nat \<Rightarrow> char" where
  "hexChar n = (if n < 10 then char_of (48 + n) else char_of (87 + n))"

section \<open>The strings package\<close>

definition toLower :: "string \<Rightarrow> string" where
  "toLower s = map lowerChar s"

definition toUpper :: "string \<Rightarrow> string" where
  "toUpper s = map upperChar s"

definition equalFold :: "string \<Rightarrow> string \<Rightarrow> bool" where
  "equalFold a b \<longleftrightarrow> toLower a = toLower b"

definition trimLeft :: "string \<Rightarrow> string" where
  "trimLeft s = dropWhile isSpace s"

definition trimSpace :: "string \<Rightarrow> string" where
  "trimSpace s = rev (trimLeft (rev (trimLeft s)))"

definition hasPrefix :: "string \<Rightarrow> string \<Rightarrow> bool" where
  "hasPrefix s p \<longleftrightarrow> take (length p) s = p"

definition hasSuffix :: "string \<Rightarrow> string \<Rightarrow> bool" where
  "hasSuffix s p \<longleftrightarrow> hasPrefix (rev s) (rev p)"

definition trimPrefix :: "string \<Rightarrow> string \<Rightarrow> string" where
  "trimPrefix s p = (if hasPrefix s p then drop (length p) s else s)"

definition trimSuffix :: "string \<Rightarrow> string \<Rightarrow> string" where
  "trimSuffix s p = (if hasSuffix s p then take (length s - length p) s else s)"

fun containsStr :: "string \<Rightarrow> string \<Rightarrow> bool" where
  "containsStr [] p = (p = [])"
| "containsStr (c # cs) p = (hasPrefix (c # cs) p \<or> containsStr cs p)"

definition containsAny :: "string \<Rightarrow> string \<Rightarrow> bool" where
  "containsAny s chars \<longleftrightarrow> list_ex (\<lambda>c. c \<in> set chars) s"

text \<open>\<open>strings.Split\<close> on a one-byte separator: always at least one field.\<close>

fun splitOn :: "char \<Rightarrow> string \<Rightarrow> string list" where
  "splitOn sep [] = [[]]"
| "splitOn sep (c # cs) =
     (if c = sep then [] # splitOn sep cs
      else (case splitOn sep cs of f # fs \<Rightarrow> (c # f) # fs | [] \<Rightarrow> [[c]]))"

fun joinWith :: "string \<Rightarrow> string list \<Rightarrow> string" where
  "joinWith sep [] = []"
| "joinWith sep [x] = x"
| "joinWith sep (x # y # xs) = x @ sep @ joinWith sep (y # xs)"

text \<open>\<open>strings.Fields\<close>.\<close>

fun fieldsAcc :: "string \<Rightarrow> string \<Rightarrow> string list" where
  "fieldsAcc cur [] = (if cur = [] then [] else [rev cur])"
| "fieldsAcc cur (c # cs) =
     (if isSpace c then (if cur = [] then fieldsAcc [] cs else rev cur # fieldsAcc [] cs)
      else fieldsAcc (c # cur) cs)"

definition fields :: "string \<Rightarrow> string list" where
  "fields s = fieldsAcc [] s"

text \<open>The text before the first \<open>sep\<close>, and after it when there is one (\<open>strings.Cut\<close>).\<close>

definition cutAt :: "char \<Rightarrow> string \<Rightarrow> string \<times> string \<times> bool" where
  "cutAt sep s = (let k = takeWhile (\<lambda>c. c \<noteq> sep) s in
     if length k < length s then (k, drop (Suc (length k)) s, True) else (s, [], False))"

section \<open>The strconv package\<close>

function natToDec :: "int \<Rightarrow> string" where
  "natToDec n = (if n < 10 then [digitChar (nat n)]
     else natToDec (n div 10) @ [digitChar (nat (n mod 10))])"
  by auto
termination by (relation "measure nat") auto

declare natToDec.simps [simp del]

definition itoa :: "int \<Rightarrow> string" where
  "itoa i = (if i < 0 then CHR ''-'' # natToDec (- i) else natToDec i)"

function natToHex :: "int \<Rightarrow> string" where
  "natToHex n = (if n < 16 then [hexChar (nat n)]
     else natToHex (n div 16) @ [hexChar (nat (n mod 16))])"
  by auto
termination by (relation "measure nat") auto

declare natToHex.simps [simp del]

definition decVal :: "string \<Rightarrow> int" where
  "decVal s = foldl (\<lambda>v c. v * 10 + int (code c - 48)) 0 s"

definition hexNum :: "string \<Rightarrow> int" where
  "hexNum s = foldl (\<lambda>v c. v * 16 + int (hexVal c)) 0 s"

text \<open>\<open>strconv.ParseUint(s, 10, 64)\<close> and \<open>strconv.ParseUint(s, 16, 64)\<close>.\<close>

definition parseUint10 :: "string \<Rightarrow> int option" where
  "parseUint10 s = (if s \<noteq> [] \<and> list_all isDigit s \<and> decVal s < 2 ^ 64 then Some (decVal s) else None)"

definition parseUint16 :: "string \<Rightarrow> int option" where
  "parseUint16 s = (if s \<noteq> [] \<and> list_all isHexDigit s \<and> hexNum s < 2 ^ 64 then Some (hexNum s) else None)"

text \<open>\<open>strconv.Atoi\<close>: an optional sign, then decimal digits, in the range of \<open>int64\<close>.\<close>

definition atoi :: "string \<Rightarrow> int option" where
  "atoi s = (let neg = (s \<noteq> [] \<and> hd s = CHR ''-'');
                 body = (if s \<noteq> [] \<and> (hd s = CHR ''-'' \<or> hd s = CHR ''+'') then tl s else s)
             in if body = [] \<or> \<not> list_all isDigit body then None
                else if neg then (if decVal body \<le> 2 ^ 63 then Some (- decVal body) else None)
                else (if decVal body < 2 ^ 63 then Some (decVal body) else None))"

section \<open>The filepath package\<close>

fun cleanComponents :: "bool \<Rightarrow> string list \<Rightarrow> string list \<Rightarrow> string list" where
  "cleanComponents rooted stack [] = rev stack"
| "cleanComponents rooted stack (c # cs) =
     (if c = [] \<or> c = ''.'' then cleanComponents rooted stack cs
      else if c = ''..'' then
        (case stack of
           [] \<Rightarrow> (if rooted then cleanComponents rooted [] cs else cleanComponents rooted [''..''] cs)
         | t # ts \<Rightarrow> (if t = ''..'' then cleanComponents rooted (''..'' # stack) cs
                     else cleanComponents rooted ts cs))
      else cleanComponents rooted (c # stack) cs)"

definition isAbsPath :: "string \<Rightarrow> bool" where
  "isAbsPath p \<longleftrightarrow> hasPrefix p ''/''"

definition cleanPath :: "string \<Rightarrow> string" where
  "cleanPath p = (let comps = cleanComponents (isAbsPath p) [] (splitOn CHR ''/'' p)
     in if isAbsPath p then CHR ''/'' # joinWith ''/'' comps
        else if comps = [] then ''.'' else joinWith ''/'' comps)"

definition joinPath :: "string list \<Rightarrow> string" where
  "joinPath ps = (let qs = filter (\<lambda>p. p \<noteq> []) ps
     in if qs = [] then [] else cleanPath (joinWith ''/'' qs))"

text \<open>\<open>filepath.Dir\<close> and \<open>filepath.Base\<close>.\<close>

definition dirPath :: "string \<Rightarrow> string" where
  "dirPath p = cleanPath (rev (dropWhile (\<lambda>c. c \<noteq> CHR ''/'') (rev p)))"

definition basePath :: "string \<Rightarrow> string" where
  "basePath p = (if p = [] then ''.''
     else let q = dropWhile (\<lambda>c. c = CHR ''/'') (rev p)
          in if q = [] then ''/'' else rev (takeWhile (\<lambda>c. c \<noteq> CHR ''/'') q))"

section \<open>The regular expressions\<close>

definition labelChar :: "char \<Rightarrow> bool" where
  "labelChar c \<longleftrightarrow> isLowerAlpha c \<or> isDigit c"

text \<open>\<open>^[a-z0-9](?:[a-z0-9-]{0,61}[a-z0-9])?$\<close>\<close>

definition dnsLabel :: "string \<Rightarrow> bool" where
  "dnsLabel s \<longleftrightarrow> s \<noteq> [] \<and> length s \<le> 63 \<and> labelChar (hd s) \<and> labelChar (last s)
     \<and> list_all (\<lambda>c. labelChar c \<or> c = CHR ''-'') s"

text \<open>\<open>^[^\s]+@sha256:[0-9a-fA-F]{64}$\<close>; the class \<open>\s\<close> is tab, newline, form feed,
  carriage return and space.\<close>

definition immutableImageReference :: "string \<Rightarrow> bool" where
  "immutableImageReference s \<longleftrightarrow> 72 < length s
     \<and> list_all isHexDigit (drop (length s - 64) s)
     \<and> take 8 (drop (length s - 72) s) = ''@sha256:''
     \<and> list_all (\<lambda>c. code c \<notin> {9, 10, 12, 13, 32}) (take (length s - 72) s)"

section \<open>Lemmas\<close>

lemma splitOn_nonempty [simp]: "splitOn sep s \<noteq> []"
  by (induction s) (auto split: list.splits)

lemma splitOn_no_sep: "f \<in> set (splitOn sep s) \<Longrightarrow> sep \<notin> set f"
proof (induction s arbitrary: f)
  case Nil
  then show ?case by simp
next
  case (Cons c cs)
  show ?case
  proof (cases "c = sep")
    case True
    with Cons show ?thesis by auto
  next
    case False
    obtain g gs where g: "splitOn sep cs = g # gs"
      by (cases "splitOn sep cs") auto
    with False Cons.prems have "f = c # g \<or> f \<in> set gs" by auto
    then show ?thesis using Cons.IH g False by auto
  qed
qed

lemma splitOn_no_occurrence: "sep \<notin> set s \<Longrightarrow> splitOn sep s = [s]"
  by (induction s) auto

lemma splitOn_append_sep: "sep \<notin> set s \<Longrightarrow> splitOn sep (s @ sep # t) = s # splitOn sep t"
  by (induction s) auto

lemma equalFold_refl [simp]: "equalFold s s"
  by (simp add: equalFold_def)

lemma equalFold_sym: "equalFold a b \<Longrightarrow> equalFold b a"
  by (simp add: equalFold_def)

lemma equalFold_trans: "equalFold a b \<Longrightarrow> equalFold b c \<Longrightarrow> equalFold a c"
  by (simp add: equalFold_def)

lemma hasPrefix_append [simp]: "hasPrefix (p @ s) p"
  by (simp add: hasPrefix_def)

lemma trimPrefix_append [simp]: "trimPrefix (p @ s) p = s"
  by (simp add: trimPrefix_def)

lemma hasPrefix_Nil [simp]: "hasPrefix s []"
  by (simp add: hasPrefix_def)

lemma digitChar_isDigit [simp]: "n < 10 \<Longrightarrow> isDigit (digitChar n)"
  by (simp add: isDigit_def digitChar_def)

lemma code_digitChar: "n < 10 \<Longrightarrow> code (digitChar n) = 48 + n"
  by (simp add: digitChar_def)

lemma natToDec_small: "n < 10 \<Longrightarrow> natToDec n = [digitChar (nat n)]"
  by (subst natToDec.simps) simp

lemma natToDec_large: "\<not> n < 10 \<Longrightarrow> natToDec n = natToDec (n div 10) @ [digitChar (nat (n mod 10))]"
  by (subst natToDec.simps) simp

lemma natToDec_digits: "list_all isDigit (natToDec n)"
proof (induction n rule: natToDec.induct)
  case (1 n)
  then show ?case by (cases "n < 10") (auto simp: natToDec_small natToDec_large)
qed

lemma natToDec_nonempty [simp]: "natToDec n \<noteq> []"
  by (subst natToDec.simps) simp

lemma decVal_append: "decVal (s @ [c]) = decVal s * 10 + int (code c - 48)"
  by (simp add: decVal_def)

lemma decVal_natToDec [simp]: "0 \<le> n \<Longrightarrow> decVal (natToDec n) = n"
proof (induction n rule: natToDec.induct)
  case (1 n)
  show ?case
  proof (cases "n < 10")
    case True
    with 1 show ?thesis by (simp add: natToDec_small decVal_def code_digitChar)
  next
    case False
    with 1 show ?thesis
      by (simp add: natToDec_large decVal_append code_digitChar)
  qed
qed

lemma natToDec_inject: "0 \<le> m \<Longrightarrow> 0 \<le> n \<Longrightarrow> natToDec m = natToDec n \<longleftrightarrow> m = n"
  by (metis decVal_natToDec)

lemma not_isDigit_minus: "\<not> isDigit CHR ''-''"
  by (simp add: isDigit_def)

lemma natToDec_hd_digit: "isDigit (hd (natToDec n))"
  using natToDec_digits [of n] by (cases "natToDec n") auto

lemma natToDec_hd_nonzero: "0 < n \<Longrightarrow> hd (natToDec n) \<noteq> CHR ''0''"
proof (induction n rule: natToDec.induct)
  case (1 n)
  show ?case
  proof (cases "n < 10")
    case True
    then have "code (digitChar (nat n)) \<noteq> code CHR ''0''"
      using 1 by (simp add: code_digitChar)
    then have "digitChar (nat n) \<noteq> CHR ''0''" by metis
    with True show ?thesis by (simp add: natToDec_small)
  next
    case False
    with 1 show ?thesis by (simp add: natToDec_large)
  qed
qed

lemma natToDec_no_char: "\<not> isDigit c \<Longrightarrow> c \<notin> set (natToDec n)"
  using natToDec_digits [of n] by (auto simp: list_all_iff)

lemma itoa_inject: "itoa i = itoa j \<longleftrightarrow> i = j"
proof -
  have neq: "CHR ''-'' # s \<noteq> natToDec n" for s n
    using natToDec_hd_digit [of n] not_isDigit_minus by (metis list.sel(1))
  show ?thesis
    using neq [of _ i] neq [of _ j] natToDec_inject [of i j] natToDec_inject [of "- i" "- j"]
    by (auto simp: itoa_def) (metis neq)+
qed

lemma dnsLabel_chars: "dnsLabel s \<Longrightarrow> c \<in> set s \<Longrightarrow> labelChar c \<or> c = CHR ''-''"
  by (auto simp: dnsLabel_def list_all_iff)

lemma dnsLabel_no_slash: "dnsLabel s \<Longrightarrow> CHR ''/'' \<notin> set s"
  by (auto dest!: dnsLabel_chars simp: labelChar_def isLowerAlpha_def isDigit_def)

lemma splitOn_append: "splitOn sep (s @ sep # t) = splitOn sep s @ splitOn sep t"
  by (induction s) (auto split: list.split simp: splitOn_nonempty)

lemma joinWith_snoc: "xs \<noteq> [] \<Longrightarrow> joinWith sep (xs @ [x]) = joinWith sep xs @ sep @ x"
  by (induction xs rule: induct_list012) auto

lemma joinWith_parts: "joinWith sep (c # cs) = (if cs = [] then c else c @ sep @ joinWith sep cs)"
  by (cases cs) auto

lemma splitOn_joinWith:
  "comps \<noteq> [] \<Longrightarrow> (\<And>c. c \<in> set comps \<Longrightarrow> sep \<notin> set c) \<Longrightarrow> splitOn sep (joinWith [sep] comps) = comps"
proof (induction comps)
  case (Cons c cs)
  then show ?case by (cases "cs = []") (auto simp: joinWith_parts splitOn_no_occurrence splitOn_append_sep)
qed simp

end
