(* ===== verification/NetAddr.thy ===== *)
theory NetAddr
  imports GoStrings
begin

text \<open>
  The parts of Go's \<open>net/netip\<close> and \<open>net\<close> packages that the program uses: IPv4
  addresses as \<open>32 word\<close>, prefixes, \<open>net.ParseIP\<close> as a test, MAC addresses, and
  \<open>net.JoinHostPort\<close>.  \<open>parseAddr4\<close> and \<open>parsePrefix4\<close> succeed where the Go parser
  succeeds and the address \<open>Is4\<close>: the program rejects every other outcome alike.
  The last part models \<open>lastIPv4Address\<close> of \<open>internal/cluster/ha.go\<close>.
\<close>

type_synonym ipv4 = "32 word"

section \<open>IPv4 addresses\<close>

definition parseOctet :: "string \<Rightarrow> int option" where
  "parseOctet s = (if s \<noteq> [] \<and> list_all isDigit s \<and> (length s = 1 \<or> hd s \<noteq> CHR ''0'') \<and> decVal s \<le> 255
     then Some (decVal s) else None)"

definition ipv4Of :: "int \<Rightarrow> int \<Rightarrow> int \<Rightarrow> int \<Rightarrow> ipv4" where
  "ipv4Of a b c d = of_int (((a * 256 + b) * 256 + c) * 256 + d)"

definition parseAddr4 :: "string \<Rightarrow> ipv4 option" where
  "parseAddr4 s = (case splitOn CHR ''.'' s of
       [a, b, c, d] \<Rightarrow>
         (case (parseOctet a, parseOctet b, parseOctet c, parseOctet d) of
            (Some a', Some b', Some c', Some d') \<Rightarrow> Some (ipv4Of a' b' c' d')
          | _ \<Rightarrow> None)
     | _ \<Rightarrow> None)"

definition addrString :: "ipv4 \<Rightarrow> string" where
  "addrString w = (let n = uint w in
     natToDec (n div 16777216) @ ''.'' @ natToDec (n div 65536 mod 256) @ ''.'' @
     natToDec (n div 256 mod 256) @ ''.'' @ natToDec (n mod 256))"

text \<open>\<open>Addr.Next\<close>: the zero \<open>Addr\<close>, which is not valid, after the last address.\<close>

definition addrNext :: "ipv4 \<Rightarrow> ipv4 option" where
  "addrNext w = (if w = - 1 then None else Some (w + 1))"

section \<open>Prefixes\<close>

definition hostMask :: "nat \<Rightarrow> ipv4" where
  "hostMask bits = push_bit (32 - bits) 1 - 1"

definition maskedAddr :: "ipv4 \<Rightarrow> nat \<Rightarrow> ipv4" where
  "maskedAddr w bits = w AND NOT (hostMask bits)"

definition parsePrefix4 :: "string \<Rightarrow> (ipv4 \<times> nat) option" where
  "parsePrefix4 s = (let revAddr = dropWhile (\<lambda>c. c \<noteq> CHR ''/'') (rev s);
                         bits = rev (takeWhile (\<lambda>c. c \<noteq> CHR ''/'') (rev s))
     in if revAddr = [] then None
        else (case parseAddr4 (rev (tl revAddr)) of
            None \<Rightarrow> None
          | Some w \<Rightarrow>
              if 1 < length bits \<and> \<not> (isDigit (hd bits) \<and> hd bits \<noteq> CHR ''0'') then None
              else (case atoi bits of
                  None \<Rightarrow> None
                | Some n \<Rightarrow> if n < 0 \<or> 32 < n then None else Some (w, nat n))))"

definition prefixContains :: "ipv4 \<times> nat \<Rightarrow> ipv4 \<Rightarrow> bool" where
  "prefixContains p w \<longleftrightarrow> maskedAddr w (snd p) = maskedAddr (fst p) (snd p)"

definition prefixMasked :: "ipv4 \<times> nat \<Rightarrow> ipv4 \<times> nat" where
  "prefixMasked p = (maskedAddr (fst p) (snd p), snd p)"

definition prefixString :: "ipv4 \<times> nat \<Rightarrow> string" where
  "prefixString p = addrString (fst p) @ ''/'' @ natToDec (int (snd p))"

definition lastIPv4Address :: "ipv4 \<times> nat \<Rightarrow> ipv4" where
  "lastIPv4Address p = (let address = maskedAddr (fst p) (snd p); hostBits = 32 - snd p
     in address OR (push_bit hostBits 1 - 1))"

section \<open>IP addresses of either family\<close>

text \<open>
  The loop of \<open>netip.parseIPv6\<close>: the number of 16-bit groups still to fill, the text
  that is left, and whether \<open>::\<close> has been seen.
\<close>

fun v6Groups :: "nat \<Rightarrow> string \<Rightarrow> bool \<Rightarrow> bool" where
  "v6Groups 0 s ellipsis = (s = [] \<and> \<not> ellipsis)"
| "v6Groups (Suc r) s ellipsis =
     (let digits = takeWhile isHexDigit s; rest = drop (length digits) s
      in if digits = [] \<or> 4 < length digits then False
         else if rest = [] then (if r = 0 then \<not> ellipsis else ellipsis)
         else if hd rest = CHR ''.'' then
           (ellipsis \<or> r = 1) \<and> 1 \<le> r \<and> parseAddr4 s \<noteq> None \<and> (if r = 1 then \<not> ellipsis else ellipsis)
         else if hd rest \<noteq> CHR '':'' \<or> tl rest = [] then False
         else if hd (tl rest) = CHR '':'' then
           \<not> ellipsis \<and> (if tl (tl rest) = [] then 0 < r else v6Groups r (tl (tl rest)) True)
         else v6Groups r (tl rest) ellipsis)"

definition parsesIPv6 :: "string \<Rightarrow> bool" where
  "parsesIPv6 s = (if hasPrefix s ''::'' then drop 2 s = [] \<or> v6Groups 8 (drop 2 s) True
                   else v6Groups 8 s False)"

text \<open>\<open>net.ParseIP(s) != nil\<close>: an address of either family with no zone.\<close>

definition parsesIP :: "string \<Rightarrow> bool" where
  "parsesIP s = (if CHR ''%'' \<in> set s then False
     else (case find (\<lambda>c. c = CHR ''.'' \<or> c = CHR '':'') s of
         None \<Rightarrow> False
       | Some c \<Rightarrow> if c = CHR ''.'' then parseAddr4 s \<noteq> None else parsesIPv6 s))"

definition joinHostPort :: "string \<Rightarrow> string \<Rightarrow> string" where
  "joinHostPort host port = (if CHR '':'' \<in> set host then ''['' @ host @ '']:'' @ port
     else host @ '':'' @ port)"

section \<open>MAC addresses\<close>

definition parseMAC :: "string \<Rightarrow> int list option" where
  "parseMAC s = (if length s < 14 then None
     else if s ! 2 = CHR '':'' \<or> s ! 2 = CHR ''-'' then
       (let fs = splitOn (s ! 2) s in
        if length fs \<in> {6, 8, 20} \<and> list_all (\<lambda>f. length f = 2 \<and> list_all isHexDigit f) fs
        then Some (map hexNum fs) else None)
     else if s ! 4 = CHR ''.'' then
       (let fs = splitOn CHR ''.'' s in
        if length fs \<in> {3, 4, 10} \<and> list_all (\<lambda>f. length f = 4 \<and> list_all isHexDigit f) fs
        then Some (concat (map (\<lambda>f. [hexNum (take 2 f), hexNum (drop 2 f)]) fs)) else None)
     else None)"

section \<open>Lemmas\<close>

lemma parseOctet_natToDec: "0 \<le> n \<Longrightarrow> n \<le> 255 \<Longrightarrow> parseOctet (natToDec n) = Some n"
  using natToDec_digits [of n] natToDec_hd_nonzero [of n]
  by (cases "n = 0") (simp add: parseOctet_def natToDec_small decVal_def digitChar_def isDigit_def,
    auto simp: parseOctet_def)

lemma dot_notin_natToDec: "CHR ''.'' \<notin> set (natToDec n)"
  by (rule natToDec_no_char) (simp add: isDigit_def)

lemma splitOn_addrString:
  "splitOn CHR ''.'' (addrString w) =
     [natToDec (uint w div 16777216), natToDec (uint w div 65536 mod 256),
      natToDec (uint w div 256 mod 256), natToDec (uint w mod 256)]"
  by (simp add: addrString_def Let_def splitOn_append_sep splitOn_no_occurrence dot_notin_natToDec)

lemma octets_recombine:
  fixes n :: int
  shows "((n div 16777216 * 256 + n div 65536 mod 256) * 256 + n div 256 mod 256) * 256 + n mod 256 = n"
proof -
  have d2: "n div 65536 = n div 256 div 256" and d3: "n div 16777216 = n div 256 div 256 div 256"
    by (simp_all add: zdiv_zmult2_eq)
  show ?thesis unfolding d2 d3 by simp
qed

text \<open>Printing an address and parsing it again gives the address back.\<close>

lemma parseAddr4_addrString [simp]: "parseAddr4 (addrString w) = Some w"
proof -
  have bound: "uint w < 4294967296" "0 \<le> uint w"
    using unsigned_less [of w, where 'a = int] by simp_all
  have o1: "uint w div 16777216 \<le> 255" "0 \<le> uint w div 16777216" using bound by linarith+
  have o2: "n mod 256 \<le> 255" "0 \<le> n mod 256" for n :: int
    by (simp_all add: zle_diff1_eq [symmetric])
  have "ipv4Of (uint w div 16777216) (uint w div 65536 mod 256) (uint w div 256 mod 256) (uint w mod 256) = w"
    unfolding ipv4Of_def octets_recombine by simp
  then show ?thesis
    by (simp add: parseAddr4_def splitOn_addrString parseOctet_natToDec o1 o2)
qed

lemma addrString_inject [simp]: "addrString v = addrString w \<longleftrightarrow> v = w"
  by (metis option.inject parseAddr4_addrString)

lemma hostMask_eq_mask: "hostMask bits = mask (32 - bits)"
  by (simp add: hostMask_def mask_eq_decr_exp push_bit_of_1)

lemma maskedAddr_idem [simp]: "maskedAddr (maskedAddr w b) b = maskedAddr w b"
  by (simp add: maskedAddr_def ac_simps)

lemma prefixContains_masked [simp]: "prefixContains (prefixMasked p) w = prefixContains p w"
  by (simp add: prefixContains_def prefixMasked_def)

lemma prefixMasked_idem [simp]: "prefixMasked (prefixMasked p) = prefixMasked p"
  by (simp add: prefixMasked_def)

lemma lastIPv4Address_masked: "lastIPv4Address (prefixMasked p) = lastIPv4Address p"
  by (simp add: lastIPv4Address_def prefixMasked_def)

lemma lastIPv4Address_or: "lastIPv4Address p = maskedAddr (fst p) (snd p) OR hostMask (snd p)"
  by (simp add: lastIPv4Address_def hostMask_def Let_def)

text \<open>The last address of a prefix is in the prefix, and no address of the prefix is above it.\<close>

lemma masked_split: "w = maskedAddr w b OR (w AND hostMask b)"
  unfolding maskedAddr_def by (rule bit_eqI) (auto simp: bit_simps)

lemma lastIPv4Address_contained: "prefixContains p (lastIPv4Address p)"
  unfolding prefixContains_def lastIPv4Address_or maskedAddr_def
  by (rule bit_eqI) (auto simp: bit_simps)

lemma lastIPv4Address_upper:
  assumes "prefixContains p w"
  shows "w \<le> lastIPv4Address p"
proof -
  have "maskedAddr w (snd p) = maskedAddr (fst p) (snd p)"
    using assms by (simp add: prefixContains_def)
  then have "lastIPv4Address p = w AND NOT (hostMask (snd p)) OR hostMask (snd p)"
    by (simp add: lastIPv4Address_or maskedAddr_def)
  then have "w AND lastIPv4Address p = w"
    by (auto simp: bit_eq_iff bit_simps)
  then show ?thesis by (metis word_and_le1)
qed

text \<open>
  \<open>lastIPv4Address\<close> is the greatest address of its prefix, for every prefix length
  from 0 to 32 (the shift by 32 wraps to zero as in Go): it is one of the prefix's addresses
  and every address of the prefix is at most it.
\<close>

lemma lastIPv4Address_greatest:
  "prefixContains p (lastIPv4Address p) \<and> {w. prefixContains p w} \<subseteq> {.. lastIPv4Address p}"
  using lastIPv4Address_contained [of p] lastIPv4Address_upper [of p] by auto

text \<open>Printing a prefix and parsing it again.\<close>

lemma natToDec_no_slash: "CHR ''/'' \<notin> set (natToDec n)"
  by (rule natToDec_no_char) (simp add: isDigit_def)

lemma atoi_natToDec: "0 \<le> n \<Longrightarrow> n < 2 ^ 63 \<Longrightarrow> atoi (natToDec n) = Some n"
  using natToDec_hd_digit [of n] natToDec_digits [of n]
  by (auto simp: atoi_def Let_def isDigit_def)

lemma parsePrefix4_prefixString:
  assumes "snd p \<le> 32"
  shows "parsePrefix4 (prefixString p) = Some p"
proof -
  let ?d = "natToDec (int (snd p))"
  have tw: "takeWhile (\<lambda>c. c \<noteq> CHR ''/'') (rev (prefixString p)) = rev ?d"
    and dw: "dropWhile (\<lambda>c. c \<noteq> CHR ''/'') (rev (prefixString p)) = CHR ''/'' # rev (addrString (fst p))"
    using natToDec_no_slash [of "int (snd p)"]
    by (auto simp: prefixString_def takeWhile_append dropWhile_append)
  have "\<not> (1 < length ?d \<and> \<not> (isDigit (hd ?d) \<and> hd ?d \<noteq> CHR ''0''))"
    using natToDec_hd_digit [of "int (snd p)"] natToDec_hd_nonzero [of "int (snd p)"]
    by (cases "snd p = 0") (auto simp: natToDec_small)
  then show ?thesis
    using assms by (simp add: parsePrefix4_def tw dw atoi_natToDec Let_def)
qed

end
