(* ===== verification/HAConfig.thy ===== *)
theory HAConfig
  imports NetAddr
begin

text \<open>
  The configuration of a three-server cluster (\<open>internal/cluster/ha.go\<close> lines 28 to 342
  and the derived proxy port of \<open>internal/cluster/ha_proxy.go\<close>): the records, the
  default configuration, names and paths, byte sizes as 64-bit words, and
  \<open>normalizeHAConfig\<close> with the invariant of what it accepts.
  \<open>hostEnv\<close> holds the two host queries the code makes here, \<open>os.UserConfigDir\<close> and
  \<open>os.Getwd\<close>.  Durations are nanoseconds.
\<close>

section \<open>Records and constants\<close>

definition haMemberCount :: int where
  "haMemberCount = 3"

definition second :: int where
  "second = 1000000000"

record HAMember =
  hm_ID :: int
  hm_NodeName :: string
  hm_StableIP :: string
  hm_MAC :: string
  hm_HostAPIPort :: int

record HAConfig =
  hc_Name :: string
  hc_NetworkName :: string
  hc_Subnet :: string
  hc_Image :: string
  hc_ListenAddress :: string
  hc_CPUs :: int
  hc_Memory :: string
  hc_VolumeSize :: string
  hc_StartupTimeout :: int
  hc_KubeconfigPath :: string
  hc_TokenFile :: string
  hc_DisableTraefik :: bool
  hc_Members :: "HAMember list"

record hostEnv =
  he_UserConfigDir :: "gerror + string"
  he_Getwd :: "gerror + string"

definition defaultK3sImage :: string where
  "defaultK3sImage = ''docker.io/rancher/k3s@sha256:6a47cea22c4b834d4ba72c89d291696b79ebe406251f90b446e4dff03513dd87''"

definition haTokenFilename :: string where
  "haTokenFilename = ''server-token''"

section \<open>Names and paths\<close>

definition defaultHANodeName :: "string \<Rightarrow> int \<Rightarrow> string" where
  "defaultHANodeName name memberID = (if name = ''ha-lab'' then ''apc-ha-'' @ itoa memberID
     else ''apc-'' @ name @ ''-'' @ itoa memberID)"

definition HAContainerName :: "string \<Rightarrow> int \<Rightarrow> string" where
  "HAContainerName name memberID = ''apc-k3s-'' @ name @ ''-server-'' @ itoa memberID"

definition HAVolumeName :: "string \<Rightarrow> int \<Rightarrow> string" where
  "HAVolumeName name memberID = HAContainerName name memberID @ ''-data''"

definition HANetworkName :: "string \<Rightarrow> string" where
  "HANetworkName name = ''apc-ha-'' @ trimPrefix name ''ha-''"

definition HAConfigPath :: "hostEnv \<Rightarrow> string \<Rightarrow> gerror + string" where
  "HAConfigPath H name = (if \<not> dnsLabel name then Inl (Msg ''cluster name must be a lowercase DNS label'')
     else tryS (wrapS ''resolve user configuration directory'' (he_UserConfigDir H)) (\<lambda>root.
       Inr (joinPath [root, ''apc'', ''clusters'', name, ''ha.json''])))"

definition haTokenPath :: "hostEnv \<Rightarrow> string \<Rightarrow> gerror + string" where
  "haTokenPath H name = tryS (HAConfigPath H name) (\<lambda>configPath.
     Inr (joinPath [dirPath configPath, haTokenFilename]))"

definition KubeconfigPath :: "hostEnv \<Rightarrow> string \<Rightarrow> gerror + string" where
  "KubeconfigPath H clusterName =
     tryS (wrapS ''resolve user configuration directory'' (he_UserConfigDir H)) (\<lambda>root.
       Inr (joinPath [root, ''apc'', ''clusters'', clusterName, ''kubeconfig'']))"

text \<open>\<open>filepath.Abs\<close>.\<close>

definition absPath :: "hostEnv \<Rightarrow> string \<Rightarrow> gerror + string" where
  "absPath H p = (if isAbsPath p then Inr (cleanPath p)
     else tryS (he_Getwd H) (\<lambda>wd. Inr (joinPath [wd, p])))"

section \<open>The default configuration\<close>

definition hex2 :: "int \<Rightarrow> string" where
  "hex2 i = (let s = natToHex i in if length s < 2 then ''0'' @ s else s)"

definition defaultHAMember :: "string \<Rightarrow> int \<Rightarrow> HAMember" where
  "defaultHAMember name mid = \<lparr>hm_ID = mid, hm_NodeName = defaultHANodeName name mid,
     hm_StableIP = addrString (ipv4Of 192 168 96 241 + of_int (mid - 1)),
     hm_MAC = ''02:ac:96:00:00:'' @ hex2 mid, hm_HostAPIPort = 17443 + mid - 1\<rparr>"

definition DefaultHAConfig :: "hostEnv \<Rightarrow> string \<Rightarrow> gerror + HAConfig" where
  "DefaultHAConfig H name0 = (let name = (if name0 = [] then ''ha-lab'' else name0) in
     if \<not> dnsLabel name then Inl (Msg ''cluster name must be a lowercase DNS label'')
     else tryS (KubeconfigPath H name) (\<lambda>kubeconfig.
       tryS (haTokenPath H name) (\<lambda>tokenFile.
       Inr \<lparr>hc_Name = name, hc_NetworkName = HANetworkName name, hc_Subnet = ''192.168.96.0/24'',
            hc_Image = defaultK3sImage, hc_ListenAddress = ''127.0.0.1'', hc_CPUs = 2,
            hc_Memory = ''2G'', hc_VolumeSize = ''8G'', hc_StartupTimeout = 180 * second,
            hc_KubeconfigPath = kubeconfig, hc_TokenFile = tokenFile, hc_DisableTraefik = True,
            hc_Members = map (defaultHAMember name) [1, 2, 3]\<rparr>)))"

section \<open>Byte sizes\<close>

definition sizeMultiplier :: "char \<Rightarrow> (64 word) option" where
  "sizeMultiplier c =
     (if isDigit c then Some 1
      else if c = CHR ''K'' then Some (push_bit 10 1)
      else if c = CHR ''M'' then Some (push_bit 20 1)
      else if c = CHR ''G'' then Some (push_bit 30 1)
      else if c = CHR ''T'' then Some (push_bit 40 1)
      else if c = CHR ''P'' then Some (push_bit 50 1)
      else None)"

definition parseHAByteSize :: "string \<Rightarrow> gerror + 64 word" where
  "parseHAByteSize value0 = (let value = trimSpace (toUpper value0) in
     if value = [] then Inl (Msg ''size is empty'')
     else (case sizeMultiplier (last value) of
         None \<Rightarrow> Inl (Msg ''unsupported size suffix'')
       | Some multiplier \<Rightarrow>
           (let digits = (if isDigit (last value) then value else butlast value) in
            case parseUint10 digits of
              None \<Rightarrow> Inl (Msg ''size must be a positive integer'')
            | Some n \<Rightarrow>
                (let number = (of_int n :: 64 word) in
                 if number = 0 then Inl (Msg ''size must be a positive integer'')
                 else if NOT 0 div multiplier < number then Inl (Msg ''size overflows'')
                 else Inr (number * multiplier)))))"

definition sameHAByteSize :: "string \<Rightarrow> string \<Rightarrow> bool" where
  "sameHAByteSize left right = (case (parseHAByteSize left, parseHAByteSize right) of
     (Inr leftBytes, Inr rightBytes) \<Rightarrow> leftBytes = rightBytes | _ \<Rightarrow> False)"

section \<open>Members\<close>

fun memberByID :: "HAMember list \<Rightarrow> int \<Rightarrow> HAMember" where
  "memberByID [] i = \<lparr>hm_ID = i, hm_NodeName = [], hm_StableIP = [], hm_MAC = [], hm_HostAPIPort = 0\<rparr>"
| "memberByID (m # ms) i = (if hm_ID m = i then m else memberByID ms i)"

definition containsString :: "string list \<Rightarrow> string \<Rightarrow> bool" where
  "containsString values expected = list_ex (\<lambda>v. v = expected) values"

definition apiEndpoint :: "HAMember \<Rightarrow> string \<Rightarrow> string" where
  "apiEndpoint member listenAddress =
     (let host = (if listenAddress = [] \<or> listenAddress = ''0.0.0.0'' \<or> listenAddress = ''::''
                  then ''127.0.0.1'' else listenAddress)
      in ''https://'' @ joinHostPort host (itoa (hm_HostAPIPort member)))"

section \<open>The proxy port\<close>

fun haProxyScan :: "HAMember list \<Rightarrow> int list \<Rightarrow> int \<Rightarrow> gerror + int" where
  "haProxyScan [] memberPorts minimum = Inr minimum"
| "haProxyScan (m # ms) memberPorts minimum =
     (if hm_HostAPIPort m < 1 \<or> 65535 < hm_HostAPIPort m then Inl (Msg ''HA member has invalid API port'')
      else if hm_HostAPIPort m \<in> set memberPorts then Inl (Msg ''HA member API port is duplicated'')
      else haProxyScan ms (hm_HostAPIPort m # memberPorts)
             (if hm_HostAPIPort m < minimum then hm_HostAPIPort m else minimum))"

definition haProxyPort :: "HAConfig \<Rightarrow> gerror + int" where
  "haProxyPort config =
     (if hc_Members config = [] then Inl (Msg ''HA proxy requires at least one configured API member'')
      else tryS (haProxyScan (hc_Members config) [] 65536) (\<lambda>minimum.
        let proxyPort = minimum - 1 in
        if proxyPort < 1024 \<or> 65535 < proxyPort then Inl (Msg ''derived HA proxy port is invalid or privileged'')
        else if proxyPort \<in> set (map hm_HostAPIPort (hc_Members config))
        then Inl (Msg ''derived HA proxy port collides with a member API port'')
        else Inr proxyPort))"

definition haProxyEndpoint :: "HAConfig \<Rightarrow> gerror + string" where
  "haProxyEndpoint config = tryS (haProxyPort config) (\<lambda>proxyPort.
     Inr (''https://'' @ joinHostPort ''127.0.0.1'' (itoa proxyPort)))"

section \<open>Lemmas on names and sizes\<close>

lemma haMemberCount_simp [simp]: "haMemberCount = 3"
  by (simp add: haMemberCount_def)

lemma HAContainerName_inject [simp]:
  "HAContainerName name i = HAContainerName name j \<longleftrightarrow> i = j"
  by (simp add: HAContainerName_def itoa_inject)

lemma HAVolumeName_inject [simp]: "HAVolumeName name i = HAVolumeName name j \<longleftrightarrow> i = j"
  by (simp add: HAVolumeName_def)

lemma memberByID_ID [simp]: "hm_ID (memberByID ms i) = i"
  by (induction ms) auto

lemma memberByID_in: "i \<in> set (map hm_ID ms) \<Longrightarrow> memberByID ms i \<in> set ms"
  by (induction ms) auto

lemma memberByID_unique:
  "distinct (map hm_ID ms) \<Longrightarrow> m \<in> set ms \<Longrightarrow> memberByID ms (hm_ID m) = m"
  by (induction ms) (auto simp: image_iff)

lemma sizeMultiplier_cases:
  "sizeMultiplier c = Some m \<Longrightarrow> m \<in> {1, 2 ^ 10, 2 ^ 20, 2 ^ 30, 2 ^ 40, 2 ^ 50}"
  by (auto simp: sizeMultiplier_def push_bit_eq_mult split: if_splits)

lemma sizeMultiplier_pos: "sizeMultiplier c = Some m \<Longrightarrow> 0 < uint m"
  by (auto dest!: sizeMultiplier_cases)

text \<open>What an accepted size is: the number read times the suffix's multiplier.\<close>

definition byteSizeOf :: "string \<Rightarrow> (int \<times> int) option" where
  "byteSizeOf value = (if value = [] then None
     else if isDigit (last value) then (case parseUint10 value of None \<Rightarrow> None | Some n \<Rightarrow> Some (n, 1))
     else (case (sizeMultiplier (last value), parseUint10 (butlast value)) of
        (Some m, Some n) \<Rightarrow> Some (n, uint m) | _ \<Rightarrow> None))"

lemma decVal_nonneg: "0 \<le> decVal s"
proof -
  have "0 \<le> v \<Longrightarrow> 0 \<le> foldl (\<lambda>v c. v * 10 + int (code c - 48)) v s" for v
    by (induction s arbitrary: v) auto
  then show ?thesis by (simp add: decVal_def)
qed

lemma parseUint10_bounds: "parseUint10 s = Some n \<Longrightarrow> 0 \<le> n \<and> n < 2 ^ 64"
  by (auto simp: parseUint10_def decVal_nonneg split: if_splits)

lemma div_less_bound:
  fixes a b n :: int
  assumes "0 < b"
  shows "a div b < n \<longleftrightarrow> a < n * b"
proof
  assume "a div b < n"
  then have "(a div b + 1) * b \<le> n * b" using assms by simp
  then have "a div b * b + b \<le> n * b" by (simp add: distrib_right)
  moreover have "a div b * b + a mod b = a" by (rule div_mult_mod_eq)
  moreover have "a mod b < b" using assms by simp
  ultimately show "a < n * b" by linarith
next
  assume "a < n * b"
  then show "a div b < n" using assms
    by (metis div_mult_mod_eq add_increasing2 mult_right_mono not_less order_less_imp_le pos_mod_sign)
qed

lemma overflow_test:
  fixes m :: "64 word"
  assumes "0 \<le> n" "n < 2 ^ 64" "0 < uint m"
  shows "NOT 0 div m < word_of_int n \<longleftrightarrow> 2 ^ 64 \<le> n * uint m"
proof -
  have u: "uint (word_of_int n :: 64 word) = n" using assms by (simp add: uint_word_of_int)
  have "NOT 0 div m < word_of_int n \<longleftrightarrow> (2 ^ 64 - 1) div uint m < n"
    by (simp add: word_less_def u uint_div unsigned_minus_1_eq_mask mask_eq_exp_minus_1)
  also have "\<dots> \<longleftrightarrow> 2 ^ 64 - 1 < n * uint m"
    using div_less_bound [OF assms(3)] .
  finally show ?thesis by auto
qed

lemma product_uint:
  fixes m :: "64 word"
  assumes "0 \<le> n" "n * uint m < 2 ^ 64"
  shows "uint (word_of_int n * m) = n * uint m"
proof -
  have "word_of_int n * m = word_of_int (n * uint m)" by simp
  then show ?thesis using assms by (simp only: uint_word_of_int) (simp add: uint_word_of_int)
qed

lemma sizeMultiplier_digit: "isDigit c \<Longrightarrow> sizeMultiplier c = Some 1"
  by (simp add: sizeMultiplier_def)

lemma word_of_int_eq_0_small:
  "0 \<le> n \<Longrightarrow> n < 2 ^ 64 \<Longrightarrow> (word_of_int n :: 64 word) = 0 \<longleftrightarrow> n = 0"
proof
  assume "0 \<le> n" "n < 2 ^ 64" "(word_of_int n :: 64 word) = 0"
  then have "uint (word_of_int n :: 64 word) = 0" by simp
  with \<open>0 \<le> n\<close> \<open>n < 2 ^ 64\<close> show "n = 0" by (simp add: uint_word_of_int)
qed simp

text \<open>
  C23: \<open>parseHAByteSize\<close> accepts exactly the sizes whose number is positive and whose product
  with the suffix's multiplier fits in 64 bits, and returns that product: the 64-bit
  multiplication never wraps around on an accepted size.
\<close>

theorem parseHAByteSize_exact:
  "map_option uint (okOf (parseHAByteSize value)) =
     (case byteSizeOf (trimSpace (toUpper value)) of
        None \<Rightarrow> None
      | Some (n, m) \<Rightarrow> if 0 < n \<and> n * m < 2 ^ 64 then Some (n * m) else None)"
proof -
  let ?v = "trimSpace (toUpper value)"
  have core: "map_option uint (okOf (if (word_of_int n :: 64 word) = 0 then Inl (Msg a)
        else if NOT 0 div m < word_of_int n then Inl (Msg b) else Inr (word_of_int n * m)))
      = (if 0 < n \<and> n * uint m < 2 ^ 64 then Some (n * uint m) else None)"
    if "parseUint10 ds = Some n" "sizeMultiplier c = Some m" for n m ds c a b
    using parseUint10_bounds [OF that(1)] sizeMultiplier_pos [OF that(2)] overflow_test [of n m]
    by (auto simp: word_of_int_eq_0_small product_uint)
  show ?thesis
  proof (cases "?v = []")
    case True
    then show ?thesis by (simp add: parseHAByteSize_def byteSizeOf_def)
  next
    case False
    note d = parseHAByteSize_def byteSizeOf_def Let_def
    show ?thesis
    proof (cases "isDigit (last ?v)")
      case True
      then show ?thesis using False core [OF _ sizeMultiplier_digit [OF True], of ?v]
        by (cases "parseUint10 ?v") (simp_all only: d if_False if_True sizeMultiplier_digit option.case
            prod.case uint_1 okOf_simps option.map)
    next
      case False': False
      show ?thesis
      proof (cases "sizeMultiplier (last ?v)")
        case None
        with False False' show ?thesis by (simp add: d)
      next
        case (Some m)
        then show ?thesis using False False' core [OF _ Some, of "butlast ?v"]
          by (cases "parseUint10 (butlast ?v)")
            (simp_all only: d if_False if_True option.case prod.case okOf_simps option.map)
      qed
    qed
  qed
qed

text \<open>The scan finds the smallest port of a list of valid, distinct ports.\<close>

definition validPort :: "int \<Rightarrow> bool" where
  "validPort p \<longleftrightarrow> 1 \<le> p \<and> p \<le> 65535"

lemma haProxyScan_ok:
  "okOf (haProxyScan ms seen minimum) =
     (if list_all validPort (map hm_HostAPIPort ms) \<and> distinct (map hm_HostAPIPort ms)
         \<and> set (map hm_HostAPIPort ms) \<inter> set seen = {}
      then Some (foldl min minimum (map hm_HostAPIPort ms)) else None)"
proof (induction ms arbitrary: seen minimum)
  case Nil
  then show ?case by simp
next
  case (Cons m ms)
  have "(if hm_HostAPIPort m < minimum then hm_HostAPIPort m else minimum) = min minimum (hm_HostAPIPort m)"
    by (simp add: min_def)
  with Cons show ?case by (auto simp: validPort_def)
qed

lemma foldl_min_Min: "foldl min (a :: int) ps = Min (insert a (set ps))"
proof (induction ps arbitrary: a)
  case (Cons p ps)
  then show ?case by (cases "ps = []") (simp_all add: min.assoc min.left_commute)
qed simp

lemma foldl_min_bounded:
  assumes "ps \<noteq> []" "list_all validPort ps"
  shows "foldl min 65536 ps = Min (set ps)"
proof -
  have "Min (set ps) \<in> set ps" using assms(1) by simp
  then have "Min (set ps) \<le> 65535" using assms(2) by (auto simp: list_all_iff validPort_def)
  with assms(1) show ?thesis by (simp add: foldl_min_Min)
qed

text \<open>
  \<open>haProxyPort\<close> succeeds exactly on a non-empty list of distinct valid ports whose
  smallest is at least 1025, and its result is the port just below the smallest: it is
  unprivileged and, being below every member port, collides with none (the last check of
  the source can never fail).
\<close>

lemma haProxyPort_exact:
  "okOf (haProxyPort config) =
     (let ports = map hm_HostAPIPort (hc_Members config) in
      if ports \<noteq> [] \<and> list_all validPort ports \<and> distinct ports \<and> 1025 \<le> Min (set ports)
      then Some (Min (set ports) - 1) else None)"
proof (cases "hc_Members config = []")
  case True
  then show ?thesis by (simp add: haProxyPort_def)
next
  case ne: False
  let ?ports = "map hm_HostAPIPort (hc_Members config)"
  note scan = haProxyScan_ok [of "hc_Members config" "[]" 65536]
  show ?thesis
  proof (cases "list_all validPort ?ports \<and> distinct ?ports")
    case False
    with scan have "okOf (haProxyScan (hc_Members config) [] 65536) = None" by auto
    then obtain e where "haProxyScan (hc_Members config) [] 65536 = Inl e"
      by (cases "haProxyScan (hc_Members config) [] 65536") auto
    with ne False show ?thesis by (auto simp: haProxyPort_def)
  next
    case True
    define m where "m = Min (set ?ports)"
    from True scan foldl_min_bounded [of ?ports] ne have s: "haProxyScan (hc_Members config) [] 65536 = Inr m"
      by (simp add: m_def)
    have "m \<in> set ?ports" unfolding m_def using ne by (intro Min_in) auto
    with True have "m \<le> 65535" by (auto simp: list_all_iff validPort_def)
    moreover have "m - 1 \<notin> set ?ports"
      using Min_le [of "set ?ports" "m - 1"] by (auto simp: m_def)
    ultimately show ?thesis using ne True s unfolding Let_def m_def [symmetric]
      by (auto simp: haProxyPort_def Let_def)
  qed
qed

end
