(* ===== verification/HANormalize.thy ===== *)
theory HANormalize
  imports HAConfig
begin

text \<open>
  \<open>normalizeHAConfig\<close> of \<open>internal/cluster/ha.go\<close> in three steps that follow its text:
  the scalar fields, the loop over the members with the five \<open>seen\<close> maps (lists here),
  and the derived proxy endpoint.  \<open>wf_HAConfig\<close> is the invariant of an accepted
  configuration; the other theories rely on it for every configuration that
  \<open>loadHAConfig\<close> returns.
\<close>

section \<open>Scalar fields\<close>

definition orDefault :: "string \<Rightarrow> string \<Rightarrow> string" where
  "orDefault v d = (if v = [] then d else v)"

definition normalizeHAPaths :: "hostEnv \<Rightarrow> HAConfig \<Rightarrow> gerror + HAConfig" where
  "normalizeHAPaths H config =
     tryS (wrapS ''resolve HA kubeconfig path'' (absPath H (hc_KubeconfigPath config))) (\<lambda>kubeconfigPath.
     tryS (wrapS ''resolve HA token path'' (absPath H (hc_TokenFile config))) (\<lambda>tokenFile.
     if basePath tokenFile \<noteq> haTokenFilename then Inl (Msg ''HA token file must be named server-token'')
     else tryS (HAConfigPath H (hc_Name config)) (\<lambda>configPath.
       let p0 = cleanPath configPath; p1 = cleanPath kubeconfigPath; p2 = cleanPath tokenFile in
       if p0 = p1 \<or> p0 = p2 \<or> p1 = p2
       then Inl (Msg ''HA config, kubeconfig and token paths must be pairwise distinct'')
       else Inr (config\<lparr>hc_KubeconfigPath := kubeconfigPath, hc_TokenFile := tokenFile\<rparr>))))"

definition normalizeHAScalars :: "hostEnv \<Rightarrow> HAConfig \<Rightarrow> gerror + HAConfig \<times> (ipv4 \<times> nat)" where
  "normalizeHAScalars H config0 =
     tryS (DefaultHAConfig H (hc_Name config0)) (\<lambda>defaults.
     let config = config0\<lparr>hc_Name := orDefault (hc_Name config0) (hc_Name defaults),
                          hc_NetworkName := orDefault (hc_NetworkName config0) (hc_NetworkName defaults),
                          hc_Subnet := orDefault (hc_Subnet config0) (hc_Subnet defaults)\<rparr> in
     if \<not> dnsLabel (hc_NetworkName config) then Inl (Msg ''HA network name must be a lowercase DNS label'')
     else (case parsePrefix4 (hc_Subnet config) of
       None \<Rightarrow> Inl (Msg ''HA subnet must be a usable IPv4 prefix'')
     | Some prefix0 \<Rightarrow>
       if 30 < snd prefix0 then Inl (Msg ''HA subnet must be a usable IPv4 prefix'')
       else
       let pfx = prefixMasked prefix0;
           config = config\<lparr>hc_Subnet := prefixString pfx,
                           hc_Image := orDefault (hc_Image config) (hc_Image defaults),
                           hc_ListenAddress := orDefault (hc_ListenAddress config) (hc_ListenAddress defaults),
                           hc_CPUs := (if hc_CPUs config = 0 then hc_CPUs defaults else hc_CPUs config),
                           hc_Memory := orDefault (hc_Memory config) (hc_Memory defaults),
                           hc_VolumeSize := orDefault (hc_VolumeSize config) (hc_VolumeSize defaults),
                           hc_StartupTimeout := (if hc_StartupTimeout config = 0 then hc_StartupTimeout defaults
                                                 else hc_StartupTimeout config),
                           hc_KubeconfigPath := orDefault (hc_KubeconfigPath config) (hc_KubeconfigPath defaults),
                           hc_TokenFile := orDefault (hc_TokenFile config) (hc_TokenFile defaults),
                           hc_Members := (if hc_Members config = [] then hc_Members defaults
                                          else hc_Members config)\<rparr> in
       if \<not> parsesIP (hc_ListenAddress config) then Inl (Msg ''HA listen address must be an IP address'')
       else if hc_CPUs config < 2 then Inl (Msg ''each K3s HA server requires at least 2 CPUs'')
       else tryS (wrapS ''invalid HA memory size'' (parseHAByteSize (hc_Memory config))) (\<lambda>_.
       tryS (wrapS ''invalid HA volume size'' (parseHAByteSize (hc_VolumeSize config))) (\<lambda>_.
       if hc_StartupTimeout config < second then Inl (Msg ''HA startup timeout must be at least 1s'')
       else tryS (normalizeHAPaths H config) (\<lambda>config. Inr (config, pfx))))))"

section \<open>Clean paths\<close>

lemma cleanComponents_set: "set (cleanComponents rooted stack cs) \<subseteq> set stack \<union> set cs \<union> {''..''}"
  by (induction rooted stack cs rule: cleanComponents.induct) (auto split: list.splits if_splits)

lemma cleaned_no_slash: "c \<in> set (cleanComponents rooted [] (splitOn CHR ''/'' p)) \<Longrightarrow> CHR ''/'' \<notin> set c"
  using cleanComponents_set [of rooted "[]" "splitOn CHR ''/'' p"] by (auto dest: splitOn_no_sep)

lemma cleanComponents_nonempty:
  "(\<forall>c\<in>set stack. c \<noteq> []) \<Longrightarrow> c \<in> set (cleanComponents rooted stack cs) \<Longrightarrow> c \<noteq> []"
  by (induction rooted stack cs rule: cleanComponents.induct) (auto split: list.splits if_splits)

lemma cleanComponents_rooted:
  "(\<forall>c\<in>set stack. c \<notin> {[], ''.'', ''..''}) \<Longrightarrow> c \<in> set (cleanComponents True stack cs) \<Longrightarrow> c \<notin> {[], ''.'', ''..''}"
  by (induction True stack cs rule: cleanComponents.induct) (auto split: list.splits if_splits)

lemma cleanComponents_fixed: "\<forall>c\<in>set cs. c \<notin> {[], ''.'', ''..''} \<Longrightarrow> cleanComponents rooted stack cs = rev stack @ cs"
  by (induction cs arbitrary: stack) auto

lemma cleanPath_rooted:
  assumes p: "isAbsPath p"
  shows "isAbsPath (cleanPath p)" "cleanPath (cleanPath p) = cleanPath p"
proof -
  let ?cs = "cleanComponents True [] (splitOn CHR ''/'' p)"
  have clean: "cleanPath p = CHR ''/'' # joinWith ''/'' ?cs" using p by (simp add: cleanPath_def Let_def)
  show rooted: "isAbsPath (cleanPath p)" by (simp add: clean isAbsPath_def hasPrefix_def)
  have "cleanComponents True [] (splitOn CHR ''/'' (joinWith ''/'' ?cs)) = ?cs"
  proof (cases "?cs = []")
    case False
    then have "splitOn CHR ''/'' (joinWith ''/'' ?cs) = ?cs" by (rule splitOn_joinWith) (rule cleaned_no_slash)
    moreover have "\<forall>c\<in>set ?cs. c \<notin> {[], ''.'', ''..''}" by (intro ballI, rule cleanComponents_rooted [of "[]"]) simp_all
    ultimately show ?thesis using cleanComponents_fixed [of ?cs True "[]"] by simp
  qed simp
  then have "cleanComponents True [] (splitOn CHR ''/'' (cleanPath p)) = ?cs" by (simp add: clean)
  then have "cleanPath (cleanPath p) = CHR ''/'' # joinWith ''/'' ?cs"
    by (simp only: cleanPath_def [of "cleanPath p"] Let_def rooted if_True)
  then show "cleanPath (cleanPath p) = cleanPath p" by (simp only: clean)
qed

text \<open>\<open>os.Getwd\<close> returns an absolute path.\<close>

definition workingDirectory :: "hostEnv \<Rightarrow> bool" where
  "workingDirectory H \<longleftrightarrow> (case he_Getwd H of Inl _ \<Rightarrow> True | Inr wd \<Rightarrow> isAbsPath wd)"

lemma absPath_rooted:
  assumes "workingDirectory H" "absPath H p = Inr q"
  shows "isAbsPath q \<and> cleanPath q = q"
proof (cases "isAbsPath p")
  case True
  then show ?thesis using assms(2) cleanPath_rooted by (auto simp: absPath_def)
next
  case False
  then obtain wd where wd: "isAbsPath wd" "q = joinPath [wd, p]"
    using assms by (auto simp: absPath_def workingDirectory_def)
  then have "wd \<noteq> []" by (auto simp: isAbsPath_def hasPrefix_def)
  moreover from wd(1) have "isAbsPath (wd @ ''/'' @ p)" by (cases wd) (auto simp: isAbsPath_def hasPrefix_def)
  ultimately show ?thesis using wd cleanPath_rooted by (auto simp: joinPath_def)
qed

section \<open>Members\<close>

record haSeen =
  seenIDs :: "int list"
  seenNodes :: "string list"
  seenIPs :: "ipv4 list"
  seenMACs :: "string list"
  seenPorts :: "int list"

definition noneSeen :: haSeen where
  "noneSeen = \<lparr>seenIDs = [], seenNodes = [], seenIPs = [], seenMACs = [], seenPorts = []\<rparr>"

definition usableStableIP :: "ipv4 \<times> nat \<Rightarrow> ipv4 \<Rightarrow> bool" where
  "usableStableIP pfx address \<longleftrightarrow> prefixContains pfx address \<and> address \<noteq> fst pfx
     \<and> address \<noteq> fst pfx + 1 \<and> address \<noteq> lastIPv4Address pfx"

definition localUnicastMAC :: "string \<Rightarrow> bool" where
  "localUnicastMAC mac = (case parseMAC mac of
     None \<Rightarrow> False
   | Some bytes \<Rightarrow> length bytes = 6 \<and> hd bytes mod 2 = 0 \<and> hd bytes div 2 mod 2 = 1)"

definition normalizeHAMember :: "string \<Rightarrow> ipv4 \<times> nat \<Rightarrow> haSeen \<Rightarrow> HAMember \<Rightarrow> gerror + HAMember \<times> haSeen" where
  "normalizeHAMember name pfx seen member0 =
     (if hm_ID member0 < 1 \<or> haMemberCount < hm_ID member0 \<or> hm_ID member0 \<in> set (seenIDs seen)
      then Inl (Msg ''HA member IDs must be unique values 1, 2, and 3'')
      else let member = member0\<lparr>hm_NodeName := orDefault (hm_NodeName member0) (defaultHANodeName name (hm_ID member0))\<rparr> in
      if \<not> dnsLabel (hm_NodeName member) \<or> hm_NodeName member \<in> set (seenNodes seen)
      then Inl (Msg ''HA node names must be unique lowercase DNS labels'')
      else (case parseAddr4 (hm_StableIP member) of
        None \<Rightarrow> Inl (Msg ''HA member stable IP must be a unique usable address'')
      | Some address \<Rightarrow>
        if \<not> usableStableIP pfx address \<or> address \<in> set (seenIPs seen)
        then Inl (Msg ''HA member stable IP must be a unique usable address'')
        else let normalizedMAC = toLower (hm_MAC member) in
        if \<not> localUnicastMAC (hm_MAC member) \<or> normalizedMAC \<in> set (seenMACs seen)
        then Inl (Msg ''HA member MAC must be a unique locally administered unicast address'')
        else if hm_HostAPIPort member < 1 \<or> 65535 < hm_HostAPIPort member \<or> hm_HostAPIPort member \<in> set (seenPorts seen)
        then Inl (Msg ''HA member API ports must be unique values between 1 and 65535'')
        else Inr (member\<lparr>hm_MAC := normalizedMAC\<rparr>,
                  \<lparr>seenIDs = hm_ID member # seenIDs seen, seenNodes = hm_NodeName member # seenNodes seen,
                   seenIPs = address # seenIPs seen, seenMACs = normalizedMAC # seenMACs seen,
                   seenPorts = hm_HostAPIPort member # seenPorts seen\<rparr>)))"

fun normalizeHAMembers :: "string \<Rightarrow> ipv4 \<times> nat \<Rightarrow> haSeen \<Rightarrow> HAMember list \<Rightarrow> gerror + HAMember list" where
  "normalizeHAMembers name pfx seen [] = Inr []"
| "normalizeHAMembers name pfx seen (m # ms) =
     tryS (normalizeHAMember name pfx seen m) (\<lambda>(m', seen').
     tryS (normalizeHAMembers name pfx seen' ms) (\<lambda>ms'. Inr (m' # ms')))"

section \<open>The whole normalization\<close>

definition normalizeHAConfig :: "hostEnv \<Rightarrow> HAConfig \<Rightarrow> gerror + HAConfig" where
  "normalizeHAConfig H config0 =
     tryS (normalizeHAScalars H config0) (\<lambda>(config, pfx).
     if int (length (hc_Members config)) \<noteq> haMemberCount
     then Inl (Msg ''embedded-etcd HA requires exactly three servers in this release'')
     else tryS (normalizeHAMembers (hc_Name config) pfx noneSeen (sort_key hm_ID (hc_Members config))) (\<lambda>members.
       let config = config\<lparr>hc_Members := members\<rparr> in
       tryS (wrapS ''invalid derived HA proxy endpoint'' (haProxyEndpoint config)) (\<lambda>_. Inr config)))"

section \<open>The invariant of an accepted configuration\<close>

text \<open>
  An address a member may have: inside the subnet, not its own address, not its gateway (the first one after it), and not the
  last one, which is for broadcasts.
\<close>

definition memberAddress :: "ipv4 \<times> nat \<Rightarrow> ipv4 \<Rightarrow> bool" where
  "memberAddress pfx a \<longleftrightarrow> prefixContains pfx a \<and> a \<noteq> fst pfx \<and> a \<noteq> fst pfx + 1 \<and> (\<exists>b. prefixContains pfx b \<and> a < b)"

text \<open>Six bytes in lower case; in the first one the group bit is clear and the bit for a locally administered address is set.\<close>

definition localMAC :: "string \<Rightarrow> bool" where
  "localMAC mac \<longleftrightarrow> toLower mac = mac
     \<and> (\<exists>b bs. parseMAC mac = Some (b # bs) \<and> length bs = 5 \<and> even b \<and> odd (b div 2))"

definition wf_HAMembers :: "ipv4 \<times> nat \<Rightarrow> HAMember list \<Rightarrow> bool" where
  "wf_HAMembers pfx ms \<longleftrightarrow>
     map hm_ID ms = [1, 2, 3] \<and> distinct (map hm_NodeName ms)
     \<and> list_all (\<lambda>m. dnsLabel (hm_NodeName m)) ms
     \<and> distinct (map (\<lambda>m. parseAddr4 (hm_StableIP m)) ms)
     \<and> list_all (\<lambda>m. case parseAddr4 (hm_StableIP m) of None \<Rightarrow> False | Some a \<Rightarrow> memberAddress pfx a) ms
     \<and> distinct (map hm_MAC ms) \<and> list_all (\<lambda>m. localMAC (hm_MAC m)) ms
     \<and> distinct (map hm_HostAPIPort ms)
     \<and> list_all (\<lambda>m. 1025 \<le> hm_HostAPIPort m \<and> hm_HostAPIPort m \<le> 65535) ms"

definition wf_HAConfig :: "HAConfig \<Rightarrow> bool" where
  "wf_HAConfig config \<longleftrightarrow> dnsLabel (hc_Name config) \<and> dnsLabel (hc_NetworkName config)
     \<and> (case parsePrefix4 (hc_Subnet config) of None \<Rightarrow> False
        | Some pfx \<Rightarrow> hc_Subnet config = prefixString pfx \<and> snd pfx \<le> 30 \<and> prefixMasked pfx = pfx
            \<and> wf_HAMembers pfx (hc_Members config))
     \<and> hc_Image config \<noteq> [] \<and> parsesIP (hc_ListenAddress config)
     \<and> 2 \<le> hc_CPUs config \<and> second \<le> hc_StartupTimeout config
     \<and> isOk (parseHAByteSize (hc_Memory config)) \<and> isOk (parseHAByteSize (hc_VolumeSize config))
     \<and> basePath (hc_TokenFile config) = haTokenFilename"

text \<open>
  On a host: the paths of the kubeconfig and of the token are absolute and clean, and with the path of the configuration
  they are three different files.
\<close>

definition wf_HAOn :: "hostEnv \<Rightarrow> HAConfig \<Rightarrow> bool" where
  "wf_HAOn H config \<longleftrightarrow> wf_HAConfig config
     \<and> list_all (\<lambda>p. isAbsPath p \<and> cleanPath p = p) [hc_KubeconfigPath config, hc_TokenFile config]
     \<and> (case HAConfigPath H (hc_Name config) of Inl _ \<Rightarrow> False
        | Inr p \<Rightarrow> distinct [cleanPath p, hc_KubeconfigPath config, hc_TokenFile config])"

lemma wf_member_ids: "wf_HAConfig config \<Longrightarrow> map hm_ID (hc_Members config) = [1, 2, 3]"
  by (auto simp: wf_HAConfig_def wf_HAMembers_def split: option.splits)

lemma wf_members_3: "wf_HAConfig config \<Longrightarrow> int (length (hc_Members config)) = haMemberCount"
  by (drule wf_member_ids, drule arg_cong [of _ _ length]) simp

text \<open>The two ways to say which addresses and which hardware addresses are usable.\<close>

lemma usableStableIP_member: "usableStableIP pfx a \<longleftrightarrow> memberAddress pfx a"
proof -
  have "a \<noteq> lastIPv4Address pfx \<longleftrightarrow> (\<exists>b. prefixContains pfx b \<and> a < b)" if "prefixContains pfx a"
    using lastIPv4Address_upper [OF that] lastIPv4Address_upper [of pfx] lastIPv4Address_contained [of pfx]
    by (metis leD order_le_less)
  then show ?thesis by (auto simp: usableStableIP_def memberAddress_def)
qed

lemma lowerChar_idem [simp]: "lowerChar (lowerChar c) = lowerChar c"
  by (auto simp: lowerChar_def isUpperAlpha_def)

lemma toLower_idem [simp]: "toLower (toLower s) = toLower s"
  by (simp add: toLower_def comp_def)

lemma lowerChar_sep: "\<not> isLowerAlpha sep \<Longrightarrow> \<not> isUpperAlpha sep \<Longrightarrow> lowerChar c = sep \<longleftrightarrow> c = sep"
  by (auto simp: lowerChar_def isUpperAlpha_def isLowerAlpha_def)

lemma splitOn_lower:
  "\<not> isLowerAlpha sep \<Longrightarrow> \<not> isUpperAlpha sep \<Longrightarrow> splitOn sep (map lowerChar s) = map (map lowerChar) (splitOn sep s)"
  by (induction s) (auto simp: lowerChar_sep split: list.split)

lemma hex_lower [simp]: "isHexDigit (lowerChar c) = isHexDigit c" "isHexDigit c \<Longrightarrow> hexVal (lowerChar c) = hexVal c"
  by (auto simp: isHexDigit_def lowerChar_def isUpperAlpha_def isDigit_def hexVal_def)

lemma hexNum_lower: "list_all isHexDigit f \<Longrightarrow> hexNum (map lowerChar f) = hexNum f"
proof -
  have "list_all isHexDigit f \<Longrightarrow> foldl (\<lambda>v c. v * 16 + int (hexVal c)) k (map lowerChar f) = foldl (\<lambda>v c. v * 16 + int (hexVal c)) k f" for k
    by (induction f arbitrary: k) simp_all
  then show "list_all isHexDigit f \<Longrightarrow> hexNum (map lowerChar f) = hexNum f" by (simp add: hexNum_def)
qed

text \<open>The fields of a hardware address, whatever separates them.\<close>

lemma parseMAC_lower: "parseMAC (toLower mac) = parseMAC mac"
proof (cases "length mac < 14")
  case False
  then have at: "toLower mac ! 2 = lowerChar (mac ! 2)" "toLower mac ! 4 = lowerChar (mac ! 4)" by (simp_all add: toLower_def)
  have seps: "\<not> isLowerAlpha c \<and> \<not> isUpperAlpha c" if "c \<in> {CHR '':'', CHR ''-'', CHR ''.''}" for c
    using that by (auto simp: isLowerAlpha_def isUpperAlpha_def)
  have same: "lowerChar c = d \<longleftrightarrow> c = d" if "d \<in> {CHR '':'', CHR ''-'', CHR ''.''}" for c d
    using seps [OF that] lowerChar_sep by blast
  have split: "splitOn d (toLower mac) = map (map lowerChar) (splitOn d mac)" if "d \<in> {CHR '':'', CHR ''-'', CHR ''.''}" for d
    unfolding toLower_def using seps [OF that] splitOn_lower by blast
  have two: "map (hexNum \<circ> map lowerChar) fs = map hexNum fs" if "list_all (\<lambda>f. length f = 2 \<and> list_all isHexDigit f) fs" for fs
    using that by (induction fs) (simp_all add: hexNum_lower)
  have four: "concat (map (\<lambda>f. [hexNum (take 2 (map lowerChar f)), hexNum (drop 2 (map lowerChar f))]) fs)
      = concat (map (\<lambda>f. [hexNum (take 2 f), hexNum (drop 2 f)]) fs)"
    if "list_all (\<lambda>f. length f = 4 \<and> list_all isHexDigit f) fs" for fs
  proof -
    have "list_all isHexDigit f \<Longrightarrow> list_all isHexDigit (take 2 f) \<and> list_all isHexDigit (drop 2 f)" for f
      by (metis append_take_drop_id list_all_append)
    then show ?thesis using that by (induction fs) (simp_all add: take_map drop_map hexNum_lower)
  qed
  have each: "list_all (\<lambda>f. length f = n \<and> list_all isHexDigit f) (map (map lowerChar) fs) = list_all (\<lambda>f. length f = n \<and> list_all isHexDigit f) fs" for n fs
    by (simp add: list.pred_map comp_def list_all_iff)
  consider "mac ! 2 \<in> {CHR '':'', CHR ''-''}" | "mac ! 2 \<notin> {CHR '':'', CHR ''-''}" by blast
  then show ?thesis
  proof cases
    case 1
    then have "lowerChar (mac ! 2) = mac ! 2" using same [of "mac ! 2" "mac ! 2"] by blast
    with 1 show ?thesis
      using split [of "mac ! 2"] each [of 2] two False by (simp add: parseMAC_def at Let_def) (auto simp: toLower_def)
  next
    case 2
    then show ?thesis
      using split [of "CHR ''.''"] each [of 4] four False same [of "CHR '':''" "mac ! 2"] same [of "CHR ''-''" "mac ! 2"] same [of "CHR ''.''" "mac ! 4"]
      by (simp add: parseMAC_def at Let_def) (auto simp: toLower_def comp_def)
  qed
qed (simp add: parseMAC_def toLower_def)

lemma localUnicastMAC_local: "localUnicastMAC mac \<longleftrightarrow> localMAC (toLower mac)"
proof -
  have bytes: "(\<exists>b bs. bytes = b # bs \<and> length bs = 5 \<and> even b \<and> odd (b div 2))
      = (length bytes = 6 \<and> hd bytes mod 2 = 0 \<and> hd bytes div 2 mod 2 = 1)" for bytes :: "int list"
  proof (cases bytes)
    case (Cons b bs)
    have "even b \<longleftrightarrow> b mod 2 = 0" "odd (b div 2) \<longleftrightarrow> b div 2 mod 2 = 1" by presburger+
    then show ?thesis unfolding Cons by simp
  qed simp
  then show ?thesis
    unfolding localUnicastMAC_def localMAC_def parseMAC_lower toLower_idem
    by (cases "parseMAC mac") (simp_all add: bytes)
qed

text \<open>The loop invariant of \<open>normalizeHAMembers\<close>: what is seen is kept apart.\<close>

lemma normalizeHAMember_sound:
  assumes "normalizeHAMember name pfx seen m = Inr (m', seen')"
  obtains a where "1 \<le> hm_ID m'" "hm_ID m' \<le> 3" "hm_ID m' = hm_ID m" "hm_ID m' \<notin> set (seenIDs seen)"
    "dnsLabel (hm_NodeName m')" "hm_NodeName m' \<notin> set (seenNodes seen)"
    "parseAddr4 (hm_StableIP m') = Some a" "usableStableIP pfx a" "a \<notin> set (seenIPs seen)"
    "localMAC (hm_MAC m')" "hm_MAC m' \<notin> set (seenMACs seen)"
    "1 \<le> hm_HostAPIPort m'" "hm_HostAPIPort m' \<le> 65535" "hm_HostAPIPort m' \<notin> set (seenPorts seen)"
    "seen' = \<lparr>seenIDs = hm_ID m' # seenIDs seen, seenNodes = hm_NodeName m' # seenNodes seen,
       seenIPs = a # seenIPs seen, seenMACs = hm_MAC m' # seenMACs seen,
       seenPorts = hm_HostAPIPort m' # seenPorts seen\<rparr>"
  using assms by (auto simp: normalizeHAMember_def Let_def localUnicastMAC_local split: if_splits option.splits)

definition memberOutside :: "ipv4 \<times> nat \<Rightarrow> haSeen \<Rightarrow> HAMember \<Rightarrow> bool" where
  "memberOutside pfx seen m \<longleftrightarrow> 1 \<le> hm_ID m \<and> hm_ID m \<le> 3 \<and> hm_ID m \<notin> set (seenIDs seen)
     \<and> dnsLabel (hm_NodeName m) \<and> hm_NodeName m \<notin> set (seenNodes seen)
     \<and> (\<exists>a. parseAddr4 (hm_StableIP m) = Some a \<and> usableStableIP pfx a \<and> a \<notin> set (seenIPs seen))
     \<and> localMAC (hm_MAC m) \<and> hm_MAC m \<notin> set (seenMACs seen)
     \<and> 1 \<le> hm_HostAPIPort m \<and> hm_HostAPIPort m \<le> 65535 \<and> hm_HostAPIPort m \<notin> set (seenPorts seen)"

lemma normalizeHAMember_outside:
  assumes "normalizeHAMember name pfx seen m = Inr (m', seen')"
  shows "memberOutside pfx seen m'"
    and "memberOutside pfx seen' x \<Longrightarrow> memberOutside pfx seen x \<and> hm_ID x \<noteq> hm_ID m'
      \<and> hm_NodeName x \<noteq> hm_NodeName m' \<and> parseAddr4 (hm_StableIP x) \<noteq> parseAddr4 (hm_StableIP m')
      \<and> hm_MAC x \<noteq> hm_MAC m' \<and> hm_HostAPIPort x \<noteq> hm_HostAPIPort m'"
  using assms by (auto simp: memberOutside_def elim!: normalizeHAMember_sound)

lemma normalizeHAMembers_each:
  "normalizeHAMembers name pfx seen ms = Inr ms' \<Longrightarrow> x \<in> set ms' \<Longrightarrow> memberOutside pfx seen x"
proof (induction ms arbitrary: seen ms')
  case Nil
  then show ?case by simp
next
  case (Cons m ms)
  from Cons.prems obtain m' seen' rest where
    m': "normalizeHAMember name pfx seen m = Inr (m', seen')" and
    rest: "normalizeHAMembers name pfx seen' ms = Inr rest" and "x = m' \<or> x \<in> set rest"
    by auto
  then show ?case
    using normalizeHAMember_outside [OF m'] Cons.IH [OF rest] by blast
qed

lemma normalizeHAMembers_distinct:
  "normalizeHAMembers name pfx seen ms = Inr ms' \<Longrightarrow>
     distinct (map hm_NodeName ms') \<and> distinct (map (\<lambda>m. parseAddr4 (hm_StableIP m)) ms')
     \<and> distinct (map hm_MAC ms') \<and> distinct (map hm_HostAPIPort ms') \<and> distinct (map hm_ID ms')"
proof (induction ms arbitrary: seen ms')
  case Nil
  then show ?case by simp
next
  case (Cons m ms)
  from Cons.prems obtain m' seen' rest where
    m': "normalizeHAMember name pfx seen m = Inr (m', seen')" and
    rest: "normalizeHAMembers name pfx seen' ms = Inr rest" and ms': "ms' = m' # rest"
    by auto
  have "hm_ID x \<noteq> hm_ID m' \<and> hm_NodeName x \<noteq> hm_NodeName m'
      \<and> parseAddr4 (hm_StableIP x) \<noteq> parseAddr4 (hm_StableIP m')
      \<and> hm_MAC x \<noteq> hm_MAC m' \<and> hm_HostAPIPort x \<noteq> hm_HostAPIPort m'" if "x \<in> set rest" for x
    using normalizeHAMember_outside(2) [OF m' normalizeHAMembers_each [OF rest that]] by blast
  with Cons.IH [OF rest] show ?case
    unfolding ms' by (force simp: image_iff)
qed

lemma normalizeHAMembers_IDs:
  "normalizeHAMembers name pfx seen ms = Inr ms' \<Longrightarrow> map hm_ID ms' = map hm_ID ms"
proof (induction ms arbitrary: seen ms')
  case Nil
  then show ?case by simp
next
  case (Cons m ms)
  then show ?case
    by (auto dest!: Cons.IH elim!: normalizeHAMember_sound)
qed

text \<open>Three distinct sorted identifiers between 1 and 3 are 1, 2 and 3.\<close>

lemma three_sorted_ids:
  fixes ns :: "int list"
  assumes "sorted ns" "distinct ns" "length ns = 3" "\<forall>i\<in>set ns. 1 \<le> i \<and> i \<le> 3"
  shows "ns = [1, 2, 3]"
proof -
  from assms(3) obtain a b c where "ns = [a, b, c]"
    by (auto simp: numeral_3_eq_3 length_Suc_conv)
  with assms show ?thesis by auto
qed

lemma haProxyScan_minimum: "haProxyScan ms seen k = Inr n \<Longrightarrow> n \<le> k \<and> (\<forall>m\<in>set ms. n \<le> hm_HostAPIPort m)"
  by (induction ms seen k rule: haProxyScan.induct) (fastforce split: if_splits)+

lemma haProxyPort_members: "haProxyPort config = Inr port \<Longrightarrow> m \<in> set (hc_Members config) \<Longrightarrow> 1025 \<le> hm_HostAPIPort m"
  by (fastforce simp: haProxyPort_def Let_def dest!: haProxyScan_minimum split: if_splits)

lemma normalizeHAMembers_wf:
  assumes "normalizeHAMembers name pfx noneSeen (sort_key hm_ID ms) = Inr ms'" "length ms = 3"
    and ports: "\<forall>m\<in>set ms'. 1025 \<le> hm_HostAPIPort m"
  shows "wf_HAMembers pfx ms'"
proof -
  note d = normalizeHAMembers_distinct [OF assms(1)] and e = normalizeHAMembers_each [OF assms(1)]
    and ids = normalizeHAMembers_IDs [OF assms(1)]
  have "map hm_ID ms' = [1, 2, 3]"
  proof (rule three_sorted_ids)
    show "sorted (map hm_ID ms')" using ids by simp
    show "distinct (map hm_ID ms')" using d by simp
    show "length (map hm_ID ms') = 3" unfolding ids using assms(2) by simp
    show "\<forall>i\<in>set (map hm_ID ms'). 1 \<le> i \<and> i \<le> 3" using e by (auto simp: memberOutside_def)
  qed
  with d e ports show ?thesis
    by (auto simp: wf_HAMembers_def memberOutside_def usableStableIP_member list_all_iff split: option.splits) fastforce+
qed

text \<open>The scalar part, and the whole.\<close>

definition wf_HAScalars :: "HAConfig \<Rightarrow> ipv4 \<times> nat \<Rightarrow> bool" where
  "wf_HAScalars config pfx \<longleftrightarrow> dnsLabel (hc_Name config) \<and> dnsLabel (hc_NetworkName config)
     \<and> hc_Subnet config = prefixString pfx \<and> snd pfx \<le> 30 \<and> prefixMasked pfx = pfx
     \<and> hc_Image config \<noteq> [] \<and> 2 \<le> hc_CPUs config \<and> second \<le> hc_StartupTimeout config
     \<and> isOk (parseHAByteSize (hc_Memory config)) \<and> isOk (parseHAByteSize (hc_VolumeSize config))
     \<and> parsesIP (hc_ListenAddress config) \<and> basePath (hc_TokenFile config) = haTokenFilename"

definition wf_HAPaths :: "hostEnv \<Rightarrow> HAConfig \<Rightarrow> bool" where
  "wf_HAPaths H config \<longleftrightarrow> list_all (\<lambda>p. isAbsPath p \<and> cleanPath p = p) [hc_KubeconfigPath config, hc_TokenFile config]
     \<and> (case HAConfigPath H (hc_Name config) of Inl _ \<Rightarrow> False
        | Inr p \<Rightarrow> distinct [cleanPath p, hc_KubeconfigPath config, hc_TokenFile config])"

lemma wf_HAOn_paths: "wf_HAOn H config \<longleftrightarrow> wf_HAConfig config \<and> wf_HAPaths H config"
  by (simp add: wf_HAOn_def wf_HAPaths_def)

lemma DefaultHAConfig_name:
  "DefaultHAConfig H name = Inr d \<Longrightarrow> dnsLabel (orDefault name (hc_Name d)) \<and> hc_Image d \<noteq> []"
  by (auto simp: DefaultHAConfig_def orDefault_def defaultK3sImage_def Let_def split: if_splits)

lemma normalizeHAPaths_Inr:
  assumes "normalizeHAPaths H config = Inr c"
  shows "\<exists>k t. c = config\<lparr>hc_KubeconfigPath := k, hc_TokenFile := t\<rparr> \<and> basePath t = haTokenFilename
     \<and> (workingDirectory H \<longrightarrow> wf_HAPaths H c)"
proof -
  obtain k t p where c: "absPath H (hc_KubeconfigPath config) = Inr k" "absPath H (hc_TokenFile config) = Inr t"
    "basePath t = haTokenFilename" "HAConfigPath H (hc_Name config) = Inr p"
    "\<not> (cleanPath p = cleanPath k \<or> cleanPath p = cleanPath t \<or> cleanPath k = cleanPath t)"
    "c = config\<lparr>hc_KubeconfigPath := k, hc_TokenFile := t\<rparr>"
    using assms by (auto simp: normalizeHAPaths_def Let_def wrapS_def split: if_splits sum.splits)
  then show ?thesis
    using absPath_rooted [OF _ c(1)] absPath_rooted [OF _ c(2)]
    by (intro exI [of _ k] exI [of _ t]) (auto simp: wf_HAPaths_def)
qed

lemma normalizeHAScalars_sound:
  assumes "normalizeHAScalars H config0 = Inr (config, pfx)"
  shows "wf_HAScalars config pfx \<and> (workingDirectory H \<longrightarrow> wf_HAPaths H config)"
proof -
  from assms obtain d where d: "DefaultHAConfig H (hc_Name config0) = Inr d"
    by (auto simp: normalizeHAScalars_def)
  note name = DefaultHAConfig_name [OF d]
  obtain c where c: "normalizeHAPaths H c = Inr config" and pfx: "hc_Subnet c = prefixString pfx" "snd pfx \<le> 30" "prefixMasked pfx = pfx"
    and fields: "hc_Name c = orDefault (hc_Name config0) (hc_Name d)" "hc_Image c = orDefault (hc_Image config0) (hc_Image d)"
      "dnsLabel (hc_NetworkName c)" "parsesIP (hc_ListenAddress c)" "2 \<le> hc_CPUs c" "second \<le> hc_StartupTimeout c"
      "isOk (parseHAByteSize (hc_Memory c))" "isOk (parseHAByteSize (hc_VolumeSize c))"
    using assms unfolding normalizeHAScalars_def d tryS_simps Let_def
    by (clarsimp split: if_split_asm option.split_asm) (auto simp: prefixMasked_def wrapS_def tryS_eq_Inr split: sum.splits)
  have "hc_Image c \<noteq> []" using name fields(2) by (simp add: orDefault_def)
  then show ?thesis
    using normalizeHAPaths_Inr [OF c] pfx fields name by (auto simp: wf_HAScalars_def)
qed

lemma wf_HAPaths_members [simp]: "wf_HAPaths H (config\<lparr>hc_Members := ms\<rparr>) = wf_HAPaths H config"
  by (cases "HAConfigPath H (hc_Name config)") (simp_all add: wf_HAPaths_def)

lemma normalizeHAConfig_sound:
  assumes "normalizeHAConfig H config0 = Inr config"
  shows "wf_HAConfig config \<and> (workingDirectory H \<longrightarrow> wf_HAPaths H config)"
proof -
  from assms obtain c pfx ms where
    c: "normalizeHAScalars H config0 = Inr (c, pfx)" and n: "length (hc_Members c) = 3" and
    ms: "normalizeHAMembers (hc_Name c) pfx noneSeen (sort_key hm_ID (hc_Members c)) = Inr ms" and
    proxy: "isOk (haProxyEndpoint (c\<lparr>hc_Members := ms\<rparr>))" and config: "config = c\<lparr>hc_Members := ms\<rparr>"
    by (auto simp: normalizeHAConfig_def Let_def split: if_splits)
  from proxy obtain port where "haProxyPort config = Inr port"
    by (cases "haProxyPort config") (simp_all add: haProxyEndpoint_def config)
  then have "\<forall>m\<in>set ms. 1025 \<le> hm_HostAPIPort m" using haProxyPort_members [of config port] by (simp add: config)
  from normalizeHAScalars_sound [OF c] normalizeHAMembers_wf [OF ms n this] show ?thesis
    by (auto simp: config wf_HAScalars_def wf_HAConfig_def parsePrefix4_prefixString)
qed

lemma normalizeHAConfig_accepts: "normalizeHAConfig H config0 = Inr config \<Longrightarrow> wf_HAConfig config"
  using normalizeHAConfig_sound by blast

section \<open>Well-formed configurations are normal\<close>

lemma three_members:
  assumes "map hm_ID ms = [1, 2, 3]"
  obtains a b c where "ms = [a, b, c]" "hm_ID a = 1" "hm_ID b = 2" "hm_ID c = 3"
  using assms by (auto simp: map_eq_Cons_conv)

lemma wf_HAMembers_normal:
  assumes "wf_HAMembers pfx ms"
  shows "normalizeHAMembers name pfx noneSeen (sort_key hm_ID ms) = Inr ms"
proof -
  obtain a b c where ms: "ms = [a, b, c]" "hm_ID a = 1" "hm_ID b = 2" "hm_ID c = 3"
    using assms by (auto simp: wf_HAMembers_def elim: three_members)
  have one: "normalizeHAMember name pfx seen m = Inr (m, \<lparr>seenIDs = hm_ID m # seenIDs seen, seenNodes = hm_NodeName m # seenNodes seen,
      seenIPs = the (parseAddr4 (hm_StableIP m)) # seenIPs seen, seenMACs = hm_MAC m # seenMACs seen, seenPorts = hm_HostAPIPort m # seenPorts seen\<rparr>)"
    if m: "m \<in> set ms" and fresh: "hm_ID m \<notin> set (seenIDs seen)" "hm_NodeName m \<notin> set (seenNodes seen)"
      "the (parseAddr4 (hm_StableIP m)) \<notin> set (seenIPs seen)" "hm_MAC m \<notin> set (seenMACs seen)" "hm_HostAPIPort m \<notin> set (seenPorts seen)" for m seen
  proof -
    obtain addr where "parseAddr4 (hm_StableIP m) = Some addr" "usableStableIP pfx addr"
      using assms m by (auto simp: wf_HAMembers_def list_all_iff usableStableIP_member split: option.splits)
    moreover have "localMAC (hm_MAC m)" "dnsLabel (hm_NodeName m)" "1025 \<le> hm_HostAPIPort m" "hm_HostAPIPort m \<le> 65535"
      using assms m by (auto simp: wf_HAMembers_def list_all_iff)
    moreover from this have "toLower (hm_MAC m) = hm_MAC m" "hm_NodeName m \<noteq> []" by (auto simp: localMAC_def dnsLabel_def)
    moreover have "1 \<le> hm_ID m" "hm_ID m \<le> 3" using m ms by auto
    ultimately show ?thesis using fresh
      by (simp add: normalizeHAMember_def orDefault_def localUnicastMAC_local Let_def)
  qed
  have some: "\<exists>addr. parseAddr4 (hm_StableIP m) = Some addr" if "m \<in> set ms" for m
    using assms that by (auto simp: wf_HAMembers_def list_all_iff split: option.splits)
  have "sort_key hm_ID ms = ms" by (rule sort_key_id_if_sorted) (simp add: ms)
  moreover have "distinct (map (\<lambda>m. the (parseAddr4 (hm_StableIP m))) ms)"
    using assms some [of a] some [of b] some [of c] by (auto simp: wf_HAMembers_def ms(1))
  moreover let ?after = "\<lambda>m seen. \<lparr>seenIDs = hm_ID m # seenIDs seen, seenNodes = hm_NodeName m # seenNodes seen,
      seenIPs = the (parseAddr4 (hm_StableIP m)) # seenIPs seen, seenMACs = hm_MAC m # seenMACs seen, seenPorts = hm_HostAPIPort m # seenPorts seen\<rparr>"
  have "normalizeHAMember name pfx noneSeen a = Inr (a, ?after a noneSeen)"
    by (rule one) (simp_all add: ms(1) noneSeen_def)
  moreover have "normalizeHAMember name pfx (?after a noneSeen) b = Inr (b, ?after b (?after a noneSeen))"
    by (rule one) (use assms calculation(2) in \<open>auto simp: ms noneSeen_def wf_HAMembers_def\<close>)
  moreover have "normalizeHAMember name pfx (?after b (?after a noneSeen)) c = Inr (c, ?after c (?after b (?after a noneSeen)))"
    by (rule one) (use assms calculation(2) in \<open>auto simp: ms noneSeen_def wf_HAMembers_def\<close>)
  ultimately show ?thesis by (simp add: ms(1))
qed

lemma haProxyScan_accepts:
  "list_all (\<lambda>m. 1 \<le> hm_HostAPIPort m \<and> hm_HostAPIPort m \<le> 65535) ms \<Longrightarrow> distinct (map hm_HostAPIPort ms) \<Longrightarrow>
   (\<forall>m\<in>set ms. hm_HostAPIPort m \<notin> set seen) \<Longrightarrow> \<exists>n. haProxyScan ms seen k = Inr n \<and> (n = k \<or> n \<in> set (map hm_HostAPIPort ms))"
proof (induction ms arbitrary: seen k)
  case (Cons m ms)
  let ?k = "if hm_HostAPIPort m < k then hm_HostAPIPort m else k"
  have "\<forall>x\<in>set ms. hm_HostAPIPort x \<notin> set (hm_HostAPIPort m # seen)" using Cons.prems by (simp add: image_iff) metis
  then obtain n where "haProxyScan ms (hm_HostAPIPort m # seen) ?k = Inr n" "n = ?k \<or> n \<in> set (map hm_HostAPIPort ms)"
    using Cons.IH [of "hm_HostAPIPort m # seen" ?k] Cons.prems by auto
  then show ?case using Cons.prems by (auto split: if_splits)
qed simp

lemma wf_HAMembers_proxy:
  assumes "wf_HAMembers pfx (hc_Members config)"
  shows "isOk (haProxyEndpoint config)"
proof -
  let ?ms = "hc_Members config"
  have range: "\<forall>m\<in>set ?ms. 1025 \<le> hm_HostAPIPort m \<and> hm_HostAPIPort m \<le> 65535" and ne: "?ms \<noteq> []"
    using assms by (auto simp: wf_HAMembers_def list_all_iff)
  then obtain n where n: "haProxyScan ?ms [] 65536 = Inr n" "n = 65536 \<or> n \<in> set (map hm_HostAPIPort ?ms)"
    using assms haProxyScan_accepts [of ?ms "[]" 65536] by (fastforce simp: wf_HAMembers_def list_all_iff)
  have low: "\<forall>m\<in>set ?ms. n \<le> hm_HostAPIPort m" using haProxyScan_minimum [OF n(1)] by blast
  with range ne have "n \<le> 65535" by (metis last_in_set order_trans)
  moreover from this n(2) range have "1025 \<le> n" by auto
  moreover have "n - 1 \<notin> set (map hm_HostAPIPort ?ms)" using low by force
  ultimately show ?thesis using ne n(1) by (simp add: haProxyEndpoint_def haProxyPort_def Let_def)
qed

lemma prefixString_nonempty: "prefixString pfx \<noteq> []"
  by (simp add: prefixString_def)

lemma parsesIP_nonempty: "parsesIP s \<Longrightarrow> s \<noteq> []"
  by (auto simp: parsesIP_def)

lemma parseHAByteSize_nonempty: "isOk (parseHAByteSize s) \<Longrightarrow> s \<noteq> []"
  by (auto simp: parseHAByteSize_def toUpper_def trimSpace_def trimLeft_def)

lemma wf_HAPaths_normal:
  assumes "wf_HAPaths H config" "basePath (hc_TokenFile config) = haTokenFilename"
  shows "normalizeHAPaths H config = Inr config"
  using assms by (auto simp: wf_HAPaths_def normalizeHAPaths_def absPath_def wrapS_def Let_def split: sum.splits)

lemma HAConfigPath_default: "HAConfigPath H name = Inr p \<Longrightarrow> isOk (DefaultHAConfig H name)"
  by (auto simp: DefaultHAConfig_def haTokenPath_def KubeconfigPath_def HAConfigPath_def dnsLabel_def Let_def split: if_splits)

lemma wf_HAOn_normal:
  assumes "wf_HAOn H config"
  shows "normalizeHAConfig H config = Inr config"
proof -
  have wf: "wf_HAConfig config" and paths: "wf_HAPaths H config" using assms by (simp_all add: wf_HAOn_paths)
  obtain pfx where pfx: "parsePrefix4 (hc_Subnet config) = Some pfx" "hc_Subnet config = prefixString pfx" "snd pfx \<le> 30"
      "prefixMasked pfx = pfx" and ms: "wf_HAMembers pfx (hc_Members config)"
    using wf by (auto simp: wf_HAConfig_def split: option.splits)
  obtain d where d: "DefaultHAConfig H (hc_Name config) = Inr d"
    using paths by (auto simp: wf_HAPaths_def dest!: HAConfigPath_default elim: isOkE split: sum.splits)
  have given: "hc_Name config \<noteq> []" "hc_NetworkName config \<noteq> []" "hc_Subnet config \<noteq> []" "hc_Image config \<noteq> []" "hc_ListenAddress config \<noteq> []"
    "hc_Memory config \<noteq> []" "hc_VolumeSize config \<noteq> []" "hc_CPUs config \<noteq> 0" "hc_StartupTimeout config \<noteq> 0" "hc_Members config \<noteq> []"
    "hc_KubeconfigPath config \<noteq> []" "hc_TokenFile config \<noteq> []"
    using wf paths ms pfx(2) prefixString_nonempty parsesIP_nonempty parseHAByteSize_nonempty
    by (auto simp: wf_HAConfig_def dnsLabel_def second_def wf_HAPaths_def wf_HAMembers_def isAbsPath_def hasPrefix_def)
  obtain memory volume where sizes: "parseHAByteSize (hc_Memory config) = Inr memory" "parseHAByteSize (hc_VolumeSize config) = Inr volume"
    using wf by (auto simp: wf_HAConfig_def elim!: isOkE)
  have "normalizeHAPaths H config = Inr config"
    using wf_HAPaths_normal [OF paths] wf by (simp add: wf_HAConfig_def)
  then have "normalizeHAScalars H config = Inr (config, pfx)"
    using wf given sizes pfx d by (cases config) (simp add: normalizeHAScalars_def orDefault_def wf_HAConfig_def wrapS_def)
  then show ?thesis
    using wf_members_3 [OF wf] wf_HAMembers_normal [OF ms] wf_HAMembers_proxy [OF ms]
    by (auto simp: normalizeHAConfig_def wrapS_def elim!: isOkE)
qed

section \<open>Properties\<close>

text \<open>
  C1: \<open>normalizeHAConfig\<close> accepts well-formed configurations only, and these are exactly its fixed points.  Well formed means: exactly
  the members 1, 2, 3 in order, with distinct DNS labels, distinct addresses inside the subnet that are neither the network's, nor
  the gateway's, nor the broadcast address, distinct texts of hardware addresses, in lower case, that are locally administered and not
  multicast, and distinct ports that leave an unprivileged port for the proxy; a canonical subnet of at most 30 bits, an image, a listen
  address, at least two CPUs, valid sizes, a timeout of at least one second; and absolute clean paths for the
  configuration, the kubeconfig and the token, which are three different files.
\<close>

theorem normalizeHAConfig_wf:
  assumes "workingDirectory H"
  shows "(case normalizeHAConfig H config0 of Inl _ \<Rightarrow> True | Inr config \<Rightarrow> wf_HAOn H config)
    \<and> (normalizeHAConfig H config = Inr config) = wf_HAOn H config"
  using normalizeHAConfig_sound [of H] wf_HAOn_normal [of H config] assms by (auto simp: wf_HAOn_paths split: sum.split)

text \<open>An example: the configuration with every field left to its default.\<close>

definition exampleHost :: hostEnv where
  "exampleHost = \<lparr>he_UserConfigDir = Inr ''/home/u/.config'', he_Getwd = Inr ''/home/u''\<rparr>"

definition emptyHAConfig :: "string \<Rightarrow> HAConfig" where
  "emptyHAConfig name = \<lparr>hc_Name = name, hc_NetworkName = [], hc_Subnet = [], hc_Image = [],
     hc_ListenAddress = [], hc_CPUs = 0, hc_Memory = [], hc_VolumeSize = [], hc_StartupTimeout = 0,
     hc_KubeconfigPath = [], hc_TokenFile = [], hc_DisableTraefik = True, hc_Members = []\<rparr>"

definition exampleMember :: "int \<Rightarrow> string \<Rightarrow> string \<Rightarrow> string \<Rightarrow> HAMember" where
  "exampleMember i node ip mac = \<lparr>hm_ID = i, hm_NodeName = node, hm_StableIP = ip, hm_MAC = mac,
     hm_HostAPIPort = 17442 + i\<rparr>"

definition exampleConfig :: HAConfig where
  "exampleConfig = \<lparr>hc_Name = ''ha-lab'', hc_NetworkName = ''apc-ha-lab'', hc_Subnet = ''192.168.96.0/24'',
     hc_Image = defaultK3sImage, hc_ListenAddress = ''127.0.0.1'', hc_CPUs = 2, hc_Memory = ''2G'',
     hc_VolumeSize = ''8G'', hc_StartupTimeout = 180000000000,
     hc_KubeconfigPath = ''/home/u/.config/apc/clusters/ha-lab/kubeconfig'',
     hc_TokenFile = ''/home/u/.config/apc/clusters/ha-lab/server-token'', hc_DisableTraefik = True,
     hc_Members = [exampleMember 1 ''apc-ha-1'' ''192.168.96.241'' ''02:ac:96:00:00:01'',
       exampleMember 2 ''apc-ha-2'' ''192.168.96.242'' ''02:ac:96:00:00:02'',
       exampleMember 3 ''apc-ha-3'' ''192.168.96.243'' ''02:ac:96:00:00:03'']\<rparr>"

lemma exampleConfig_accepted:
  "normalizeHAConfig exampleHost (emptyHAConfig ''ha-lab'') = Inr exampleConfig"
  by code_simp

text \<open>
  The texts are compared, not the addresses they stand for: two members may have the same hardware address when it is
  written with different separators.
\<close>

lemma same_hardware_address_accepted:
  "isOk (normalizeHAConfig exampleHost (exampleConfig\<lparr>hc_Members :=
     [exampleMember 1 ''apc-ha-1'' ''192.168.96.241'' ''02:ac:96:00:00:01'',
      exampleMember 2 ''apc-ha-2'' ''192.168.96.242'' ''02-ac-96-00-00-01'',
      exampleMember 3 ''apc-ha-3'' ''192.168.96.243'' ''02:ac:96:00:00:03'']\<rparr>))"
  "parseMAC ''02-ac-96-00-00-01'' = parseMAC ''02:ac:96:00:00:01''"
  by code_simp+

theorem normalizeHAConfig_wf_witness:
  "wf_HAOn exampleHost exampleConfig \<and> normalizeHAConfig exampleHost exampleConfig = Inr exampleConfig
   \<and> map hm_HostAPIPort (hc_Members exampleConfig) = [17443, 17444, 17445]"
proof (intro conjI)
  have host: "workingDirectory exampleHost" by code_simp
  show wf: "wf_HAOn exampleHost exampleConfig"
    using normalizeHAConfig_wf [OF host, of "emptyHAConfig ''ha-lab''"] by (simp add: exampleConfig_accepted)
  then show "normalizeHAConfig exampleHost exampleConfig = Inr exampleConfig"
    using normalizeHAConfig_wf [OF host, of _ exampleConfig] by simp
  show "map hm_HostAPIPort (hc_Members exampleConfig) = [17443, 17444, 17445]" by code_simp
qed

end
