(* ===== verification/GoSort.thy ===== *)
theory GoSort
  imports GoStrings
begin

text \<open>
  The order of strings by their bytes and \<open>sort.Strings\<close>, as an insertion sort, with the facts the components share: the
  result is sorted, and it is the only sorted list with these elements.
\<close>

text \<open>\<open>sort.Strings\<close>: by byte value.\<close>

fun stringLess :: "string \<Rightarrow> string \<Rightarrow> bool" where
  "stringLess [] [] = False"
| "stringLess [] (_ # _) = True"
| "stringLess (_ # _) [] = False"
| "stringLess (a # as) (b # bs) = (if code a < code b then True
     else if code b < code a then False else stringLess as bs)"

fun insertString :: "string \<Rightarrow> string list \<Rightarrow> string list" where
  "insertString x [] = [x]"
| "insertString x (y # ys) = (if stringLess y x then y # insertString x ys else x # y # ys)"

definition sortStrings :: "string list \<Rightarrow> string list" where
  "sortStrings xs = foldr insertString xs []"

lemma stringLess_irrefl [simp]: "\<not> stringLess a a"
  by (induction a) auto

lemma code_inject: "code a = code b \<longleftrightarrow> a = b"
  by (rule of_char_eq_iff)

lemma stringLess_linear: "stringLess a b \<or> a = b \<or> stringLess b a"
proof (induction a b rule: stringLess.induct)
  case (4 a as b bs)
  then show ?case using code_inject [of a b] by auto
qed auto

lemma stringLess_trans: "stringLess a b \<Longrightarrow> stringLess b c \<Longrightarrow> stringLess a c"
proof (induction a b arbitrary: c rule: stringLess.induct)
  case (2 b bs)
  then show ?case by (cases c) auto
next
  case (4 a as b bs)
  from 4 show ?case by (cases c) (auto split: if_splits)
qed auto

lemma stringLess_asym: "stringLess a b \<Longrightarrow> \<not> stringLess b a"
  using stringLess_trans stringLess_irrefl by blast

lemma set_insertString [simp]: "set (insertString x xs) = insert x (set xs)"
  by (induction xs) auto

lemma set_sortStrings [simp]: "set (sortStrings xs) = set xs"
  unfolding sortStrings_def by (induction xs) auto

lemma length_insertString [simp]: "length (insertString x xs) = Suc (length xs)"
  by (induction xs) auto

lemma length_sortStrings [simp]: "length (sortStrings xs) = length xs"
  unfolding sortStrings_def by (induction xs) auto

abbreviation stringLe :: "string \<Rightarrow> string \<Rightarrow> bool" where
  "stringLe a b \<equiv> \<not> stringLess b a"

lemma stringLe_trans: "stringLe a b \<Longrightarrow> stringLe b c \<Longrightarrow> stringLe a c"
  using stringLess_linear stringLess_trans by metis

lemma sorted_insertString: "sorted_wrt stringLe xs \<Longrightarrow> sorted_wrt stringLe (insertString x xs)"
proof (induction xs)
  case (Cons y ys)
  show ?case
  proof (cases "stringLess y x")
    case True
    with Cons show ?thesis by (simp add: stringLess_asym)
  next
    case False
    with Cons.prems stringLe_trans [where a = x and b = y] show ?thesis by simp
  qed
qed simp

lemma sorted_sortStrings: "sorted_wrt stringLe (sortStrings xs)"
  unfolding sortStrings_def by (induction xs) (simp_all add: sorted_insertString)

text \<open>A sorted list is determined by its elements with their multiplicities; here, by its set when distinct.\<close>

lemma sorted_distinct_strings_unique:
  "sorted_wrt stringLe xs \<Longrightarrow> sorted_wrt stringLe ys \<Longrightarrow> distinct xs \<Longrightarrow> distinct ys \<Longrightarrow> set xs = set ys \<Longrightarrow> xs = ys"
proof (induction xs arbitrary: ys)
  case (Cons x xs)
  then obtain y zs where ys: "ys = y # zs" by (cases ys) auto
  have "x = y"
  proof (rule ccontr)
    assume "x \<noteq> y"
    with Cons.prems(5) ys have "x \<in> set zs" "y \<in> set xs" by auto
    with Cons.prems(1,2) ys have "stringLe y x" "stringLe x y" by simp_all
    with \<open>x \<noteq> y\<close> stringLess_linear show False by blast
  qed
  moreover have "set xs = set zs" using Cons.prems ys \<open>x = y\<close> by auto
  ultimately show ?case using Cons ys by simp
qed simp

lemma distinct_insertString: "distinct (insertString x xs) \<longleftrightarrow> x \<notin> set xs \<and> distinct xs"
  by (induction xs) auto

lemma distinct_sortStrings [simp]: "distinct (sortStrings xs) = distinct xs"
  unfolding sortStrings_def
  by (induction xs) (auto simp: distinct_insertString simp flip: sortStrings_def)

end
