(* ===== verification/HAArgs.thy ===== *)
theory HAArgs
  imports HANormalize GoSort
begin

text \<open>
  The argument vectors of a server envelope (\<open>internal/cluster/ha.go\<close> lines 344 to 420):
  what \<open>container run\<close> is called with, the guarded init script, and the legacy script
  that is still recognised.
\<close>

definition haTokenMountPath :: string where
  "haTokenMountPath = ''/run/secrets/apc/server-token''"

definition haRuntimeIPCollisionMarker :: string where
  "haRuntimeIPCollisionMarker = ''APC_HA_RUNTIME_IP_COLLISION=''"

definition quoted :: "string \<Rightarrow> string" where
  "quoted s = [CHR 0x22] @ s @ [CHR 0x22]"

definition haInitArgumentsWithScript :: "HAConfig \<Rightarrow> HAMember \<Rightarrow> string \<Rightarrow> string list" where
  "haInitArgumentsWithScript config member script =
     [''-c'', script, ''apc-k3s'', ''server'']
     @ (if hm_ID member = 1 then [''--cluster-init'']
        else [''--server'', ''https://'' @ joinHostPort (hm_StableIP (memberByID (hc_Members config) 1)) ''6443''])
     @ [''--token-file'', haTokenMountPath, ''--node-name'', hm_NodeName member,
        ''--node-ip'', hm_StableIP member, ''--advertise-address'', hm_StableIP member,
        ''--write-kubeconfig-mode'', ''600'', ''--flannel-backend'', ''vxlan'',
        ''--tls-san'', hc_ListenAddress config]
     @ concat (map (\<lambda>peer. [''--tls-san'', hm_StableIP peer]) (hc_Members config))
     @ (if hc_DisableTraefik config then [''--disable'', ''traefik'', ''--disable'', ''servicelb''] else [])"

definition haPrefixBits :: "HAConfig \<Rightarrow> string" where
  "haPrefixBits config = (case parsePrefix4 (hc_Subnet config) of Some p \<Rightarrow> itoa (int (snd p)) | None \<Rightarrow> ''-1'')"

definition haReservedByPeers :: "HAConfig \<Rightarrow> HAMember \<Rightarrow> string list" where
  "haReservedByPeers config member =
     sortStrings (map hm_StableIP (filter (\<lambda>peer. hm_ID peer \<noteq> hm_ID member) (hc_Members config)))"

definition haInitScript :: "HAConfig \<Rightarrow> HAMember \<Rightarrow> string" where
  "haInitScript config member =
     ''PRIMARY_IP=$(ip -o -4 addr show dev eth0 scope global | awk '' @ [CHR 0x27]
     @ ''NR == 1 {split($4, address, '' @ quoted ''/'' @ ''); print address[1]}'' @ [CHR 0x27] @ ''); case ''
     @ quoted ''$PRIMARY_IP'' @ '' in '' @ joinWith ''|'' (haReservedByPeers config member) @ '') echo ''
     @ quoted (haRuntimeIPCollisionMarker @ ''$PRIMARY_IP'') @ '' >&2; exit 78;; esac; ip address add ''
     @ hm_StableIP member @ ''/'' @ haPrefixBits config @ '' dev eth0 2>/dev/null || true; ip route replace ''
     @ hc_Subnet config @ '' dev eth0 src '' @ hm_StableIP member @ ''; exec /bin/k3s '' @ quoted ''$@''"

definition haInitArguments :: "HAConfig \<Rightarrow> HAMember \<Rightarrow> string list" where
  "haInitArguments config member = haInitArgumentsWithScript config member (haInitScript config member)"

definition legacyHAInitScript :: "HAConfig \<Rightarrow> HAMember \<Rightarrow> string" where
  "legacyHAInitScript config member = ''ip address add '' @ hm_StableIP member @ ''/'' @ haPrefixBits config
     @ '' dev eth0 2>/dev/null || true; ip route replace '' @ hc_Subnet config @ '' dev eth0 src ''
     @ hm_StableIP member @ ''; exec /bin/k3s '' @ quoted ''$@''"

definition legacyHAInitArguments :: "HAConfig \<Rightarrow> HAMember \<Rightarrow> string list" where
  "legacyHAInitArguments config member = haInitArgumentsWithScript config member (legacyHAInitScript config member)"

text \<open>
  \<open>HAServerRunArguments\<close> ignores the error of \<open>normalizeHAConfig\<close>: on an error the
  configuration is the zero value.
\<close>

definition zeroHAConfig :: HAConfig where
  "zeroHAConfig = \<lparr>hc_Name = [], hc_NetworkName = [], hc_Subnet = [], hc_Image = [], hc_ListenAddress = [],
     hc_CPUs = 0, hc_Memory = [], hc_VolumeSize = [], hc_StartupTimeout = 0, hc_KubeconfigPath = [],
     hc_TokenFile = [], hc_DisableTraefik = False, hc_Members = []\<rparr>"

definition HAServerRunArguments :: "hostEnv \<Rightarrow> HAConfig \<Rightarrow> HAMember \<Rightarrow> string list" where
  "HAServerRunArguments H config0 member0 =
     (let config = (case normalizeHAConfig H config0 of Inr c \<Rightarrow> c | Inl _ \<Rightarrow> zeroHAConfig);
          member = memberByID (hc_Members config) (hm_ID member0) in
      [''run'', ''--detach'', ''--name'', HAContainerName (hc_Name config) (hm_ID member),
       ''--arch'', ''arm64'', ''--cpus'', itoa (hc_CPUs config), ''--memory'', hc_Memory config,
       ''--cap-add'', ''ALL'',
       ''--network'', hc_NetworkName config @ '',mac='' @ hm_MAC member @ '',mtu=1280'',
       ''--entrypoint'', ''/bin/sh'',
       ''--volume'', HAVolumeName (hc_Name config) (hm_ID member) @ '':/var/lib/rancher/k3s'',
       ''--mount'', ''type=bind,source='' @ dirPath (hc_TokenFile config) @ '',target=/run/secrets/apc,readonly'',
       ''--publish'', hc_ListenAddress config @ '':'' @ itoa (hm_HostAPIPort member) @ '':6443/tcp'',
       ''--label'', ''apc.dev/managed=true'',
       ''--label'', ''apc.dev/cluster='' @ hc_Name config,
       ''--label'', ''apc.dev/role=server'',
       ''--label'', ''apc.dev/member='' @ itoa (hm_ID member),
       ''--progress'', ''plain'', hc_Image config]
      @ haInitArguments config member)"

end
