(* ===== verification/GoJSON.thy ===== *)
theory GoJSON
  imports GoStrings
begin

text \<open>
  JSON values and the part of \<open>encoding/json\<close> the program uses.  \<open>parseJSON\<close> parses
  ASCII text; \<open>JNum\<close> keeps the literal of a number.  A \<open>document\<close> is what a command
  prints or a file holds: text, or \<open>Json j\<close> for any text whose JSON value is \<open>j\<close> (what
  \<open>json.MarshalIndent\<close> writes).  The decoders follow \<open>json.Unmarshal\<close>: \<open>null\<close> and an absent
  field leave the zero value, a field name is matched without regard to case and the last
  occurrence wins, any other shape is an error.  \<open>onlyFields\<close> is
  \<open>DisallowUnknownFields\<close>.
\<close>

section \<open>Values and the parser\<close>

datatype json = JNull | JBool bool | JNum string | JStr string | JArr "json list"
  | JObj "(string \<times> json) list"

datatype document = Text string | Json json

definition skipWs :: "string \<Rightarrow> string" where
  "skipWs s = dropWhile (\<lambda>c. code c \<in> {9, 10, 13, 32}) s"

fun hexDigits4 :: "string \<Rightarrow> (int \<times> string) option" where
  "hexDigits4 (a # b # c # d # s) =
     (if list_all isHexDigit [a, b, c, d] then Some (hexNum [a, b, c, d], s) else None)"
| "hexDigits4 _ = None"

text \<open>The UTF-8 encoding of a code point below 65536.\<close>

definition utf8 :: "int \<Rightarrow> string" where
  "utf8 n = (if n < 128 then [char_of (nat n)]
     else if n < 2048 then [char_of (nat (192 + n div 64)), char_of (nat (128 + n mod 64))]
     else [char_of (nat (224 + n div 4096)), char_of (nat (128 + n div 64 mod 64)),
           char_of (nat (128 + n mod 64))])"

definition simpleEscape :: "char \<Rightarrow> char option" where
  "simpleEscape c = map_of [(CHR 0x22, CHR 0x22), (CHR 0x5C, CHR 0x5C), (CHR ''/'', CHR ''/''),
     (CHR ''b'', CHR 0x08), (CHR ''f'', CHR 0x0C), (CHR ''n'', CHR 0x0A),
     (CHR ''r'', CHR 0x0D), (CHR ''t'', CHR 0x09)] c"

text \<open>The rest of a string literal, after its opening quote.\<close>

function stringRest :: "string \<Rightarrow> (string \<times> string) option" where
  "stringRest [] = None"
| "stringRest (c # s) =
     (if c = CHR 0x22 then Some ([], s)
      else if code c < 32 then None
      else if c \<noteq> CHR 0x5C then map_option (\<lambda>(v, r). (c # v, r)) (stringRest s)
      else (case s of
          [] \<Rightarrow> None
        | d # t \<Rightarrow>
            if d = CHR ''u'' then
              (case t of
                 a # b # x # y # r \<Rightarrow>
                   if list_all isHexDigit [a, b, x, y]
                   then map_option (\<lambda>(v, r'). (utf8 (hexNum [a, b, x, y]) @ v, r')) (stringRest r)
                   else None
               | _ \<Rightarrow> None)
            else (case simpleEscape d of
                None \<Rightarrow> None
              | Some e \<Rightarrow> map_option (\<lambda>(v, r). (e # v, r)) (stringRest t))))"
  by pat_completeness auto
termination by (relation "measure length") auto

definition numberChar :: "char \<Rightarrow> bool" where
  "numberChar c \<longleftrightarrow> isDigit c \<or> c \<in> {CHR ''-'', CHR ''+'', CHR ''.'', CHR ''e'', CHR ''E''}"

text \<open>The grammar of a number: sign, integer part without a leading zero, fraction, exponent.\<close>

definition validNumber :: "string \<Rightarrow> bool" where
  "validNumber s = (let s1 = (if s \<noteq> [] \<and> hd s = CHR ''-'' then tl s else s);
       ip = takeWhile isDigit s1; s2 = drop (length ip) s1;
       fracOK = (s2 \<noteq> [] \<and> hd s2 = CHR ''.''); fp = (if fracOK then takeWhile isDigit (tl s2) else []);
       s3 = (if fracOK then drop (length fp) (tl s2) else s2);
       expOK = (s3 \<noteq> [] \<and> (hd s3 = CHR ''e'' \<or> hd s3 = CHR ''E''));
       e1 = (if expOK then tl s3 else []);
       e2 = (if e1 \<noteq> [] \<and> (hd e1 = CHR ''-'' \<or> hd e1 = CHR ''+'') then tl e1 else e1)
     in ip \<noteq> [] \<and> (length ip = 1 \<or> hd ip \<noteq> CHR ''0'') \<and> (fracOK \<longrightarrow> fp \<noteq> [])
        \<and> (if expOK then e2 \<noteq> [] \<and> list_all isDigit e2 else s3 = []))"

text \<open>
  A value, the elements of an array and the members of an object after its opening
  bracket.  The fuel bounds the nesting and the number of elements: one more than the
  length of the text is enough, as every call consumes a character.
\<close>

fun jValue :: "nat \<Rightarrow> string \<Rightarrow> (json \<times> string) option"
  and jElems :: "nat \<Rightarrow> string \<Rightarrow> (json list \<times> string) option"
  and jMembers :: "nat \<Rightarrow> string \<Rightarrow> ((string \<times> json) list \<times> string) option" where
  "jValue 0 s = None"
| "jValue (Suc n) s0 = (let s = skipWs s0 in
     if s = [] then None
     else if hd s = CHR 0x22 then map_option (\<lambda>(v, r). (JStr v, r)) (stringRest (tl s))
     else if hd s = CHR ''['' then
       (let r = skipWs (tl s) in if r \<noteq> [] \<and> hd r = CHR '']'' then Some (JArr [], tl r)
        else map_option (\<lambda>(v, r). (JArr v, r)) (jElems n (tl s)))
     else if hd s = CHR ''{'' then
       (let r = skipWs (tl s) in if r \<noteq> [] \<and> hd r = CHR ''}'' then Some (JObj [], tl r)
        else map_option (\<lambda>(v, r). (JObj v, r)) (jMembers n (tl s)))
     else if hasPrefix s ''null'' then Some (JNull, drop 4 s)
     else if hasPrefix s ''true'' then Some (JBool True, drop 4 s)
     else if hasPrefix s ''false'' then Some (JBool False, drop 5 s)
     else let t = takeWhile numberChar s in
       if validNumber t then Some (JNum t, drop (length t) s) else None)"
| "jElems 0 s = None"
| "jElems (Suc n) s = (case jValue n s of
     None \<Rightarrow> None
   | Some (v, r0) \<Rightarrow> (let r = skipWs r0 in
       if r = [] then None
       else if hd r = CHR '']'' then Some ([v], tl r)
       else if hd r = CHR '','' then map_option (\<lambda>(vs, r'). (v # vs, r')) (jElems n (tl r))
       else None))"
| "jMembers 0 s = None"
| "jMembers (Suc n) s0 = (let s = skipWs s0 in
     if s = [] \<or> hd s \<noteq> CHR 0x22 then None
     else (case stringRest (tl s) of
       None \<Rightarrow> None
     | Some (k, r1) \<Rightarrow> (let r2 = skipWs r1 in
         if r2 = [] \<or> hd r2 \<noteq> CHR '':'' then None
         else (case jValue n (tl r2) of
           None \<Rightarrow> None
         | Some (v, r3) \<Rightarrow> (let r = skipWs r3 in
             if r = [] then None
             else if hd r = CHR ''}'' then Some ([(k, v)], tl r)
             else if hd r = CHR '','' then map_option (\<lambda>(ms, r'). ((k, v) # ms, r')) (jMembers n (tl r))
             else None)))))"

definition parseJSON :: "string \<Rightarrow> json option" where
  "parseJSON s = (case jValue (2 * length s + 2) s of
     Some (v, r) \<Rightarrow> if skipWs r = [] then Some v else None | None \<Rightarrow> None)"

definition docJSON :: "document \<Rightarrow> json option" where
  "docJSON d = (case d of Json j \<Rightarrow> Some j | Text s \<Rightarrow> parseJSON s)"

section \<open>Decoding into Go values\<close>

type_synonym 'a decoder = "json \<Rightarrow> gerror + 'a"

definition jsonError :: "gerror + 'a" where
  "jsonError = Inl (Msg ''json: cannot unmarshal value'')"

fun dString :: "string decoder" where
  "dString JNull = Inr []" | "dString (JStr s) = Inr s" | "dString _ = jsonError"

fun dBool :: "bool decoder" where
  "dBool JNull = Inr False" | "dBool (JBool b) = Inr b" | "dBool _ = jsonError"

fun dInt :: "int decoder" where
  "dInt JNull = Inr 0"
| "dInt (JNum s) = (case atoi s of Some n \<Rightarrow> Inr n | None \<Rightarrow> jsonError)"
| "dInt _ = jsonError"

fun mapS :: "('a \<Rightarrow> gerror + 'b) \<Rightarrow> 'a list \<Rightarrow> gerror + 'b list" where
  "mapS f [] = Inr []"
| "mapS f (x # xs) = tryS (f x) (\<lambda>y. tryS (mapS f xs) (\<lambda>ys. Inr (y # ys)))"

fun dList :: "'a decoder \<Rightarrow> 'a list decoder" where
  "dList d JNull = Inr []" | "dList d (JArr xs) = mapS d xs" | "dList d _ = jsonError"

text \<open>A string map, as an association list whose last entry for a key wins.\<close>

fun dStringMap :: "(string \<times> string) list decoder" where
  "dStringMap JNull = Inr []"
| "dStringMap (JObj kvs) = mapS (\<lambda>(k, v). tryS (dString v) (\<lambda>s. Inr (k, s))) (rev kvs)"
| "dStringMap _ = jsonError"

text \<open>Go's map index: the zero value for an absent key.\<close>

definition mapGet :: "(string \<times> string) list \<Rightarrow> string \<Rightarrow> string" where
  "mapGet m k = (case map_of m k of Some v \<Rightarrow> v | None \<Rightarrow> [])"

definition jField :: "(string \<times> json) list \<Rightarrow> string \<Rightarrow> json" where
  "jField kvs name = (case filter (\<lambda>kv. equalFold (fst kv) name) (rev kvs) of [] \<Rightarrow> JNull | kv # _ \<Rightarrow> snd kv)"

text \<open>The members of an object; \<open>null\<close> leaves the whole struct at its zero value.\<close>

fun objFields :: "json \<Rightarrow> gerror + (string \<times> json) list" where
  "objFields JNull = Inr []" | "objFields (JObj kvs) = Inr kvs" | "objFields _ = jsonError"

text \<open>A pointer to a struct: nil for \<open>null\<close> and for an absent field.\<close>

fun dPtr :: "'a decoder \<Rightarrow> 'a option decoder" where
  "dPtr d JNull = Inr None" | "dPtr d j = tryS (d j) (\<lambda>x. Inr (Some x))"

definition onlyFields :: "string list \<Rightarrow> (string \<times> json) list \<Rightarrow> bool" where
  "onlyFields names kvs = list_all (\<lambda>kv. list_ex (\<lambda>n. equalFold (fst kv) n) names) kvs"

definition decodeDoc :: "'a decoder \<Rightarrow> document \<Rightarrow> gerror + 'a" where
  "decodeDoc d doc = (case docJSON doc of None \<Rightarrow> Inl (Msg ''invalid JSON'') | Some j \<Rightarrow> d j)"

definition JInt :: "int \<Rightarrow> json" where
  "JInt i = JNum (itoa i)"

definition docText :: "document \<Rightarrow> string" where
  "docText d = (case d of Text s \<Rightarrow> s | Json _ \<Rightarrow> [])"

section \<open>Lemmas\<close>

lemma dInt_JInt: "- (2 ^ 63) \<le> i \<Longrightarrow> i < 2 ^ 63 \<Longrightarrow> dInt (JInt i) = Inr i"
proof (cases "i < 0")
  case True
  assume b: "- (2 ^ 63) \<le> i"
  have "atoi (itoa i) = Some i"
    using True b natToDec_digits [of "- i"]
    by (simp add: atoi_def itoa_def Let_def)
  then show ?thesis by (simp add: JInt_def)
next
  case False
  assume "i < 2 ^ 63"
  then show ?thesis
    using False natToDec_hd_digit [of i] natToDec_digits [of i]
    by (auto simp: JInt_def atoi_def itoa_def Let_def isDigit_def)
qed

lemma decodeDoc_Json [simp]: "decodeDoc d (Json j) = d j"
  by (simp add: decodeDoc_def docJSON_def)

lemma mapS_map: "(\<And>x. x \<in> set xs \<Longrightarrow> f (g x) = Inr (h x)) \<Longrightarrow> mapS f (map g xs) = Inr (map h xs)"
  by (induction xs) auto

lemma dList_JArr_map:
  "(\<And>x. x \<in> set xs \<Longrightarrow> d (e x) = Inr x) \<Longrightarrow> dList d (JArr (map e xs)) = Inr xs"
  using mapS_map [of xs d e "\<lambda>x. x"] by simp

end
