(* ===== verification/Inspect.thy ===== *)
theory Inspect
  imports HAArgs GoJSON
begin

text \<open>
  What the container runtime reports, and when a reported resource is the declared one
  (\<open>internal/cluster/ha.go\<close> lines 447 to 695 and 954 to 991): the inspect records with
  their JSON decoders, and the validators of labels, containers, volumes and networks.
  The nested Go structs are flattened into one record; a field keeps its last name.
\<close>

section \<open>Records\<close>

record inspectNetwork =
  in_Network :: string
  in_MAC :: string
  in_MTU :: int

record inspectPort =
  ip_ContainerPort :: int
  ip_Count :: int
  ip_HostAddress :: string
  ip_HostPort :: int
  ip_Proto :: string

record inspectMount =
  im_Destination :: string
  im_Source :: string
  im_Options :: "string list"
  im_Volume :: "string option"
  im_VirtioFS :: bool

record haContainerInspect =
  ci_Architecture :: string
  ci_OS :: string
  ci_Labels :: "(string \<times> string) list option"
  ci_Image :: string
  ci_Arguments :: "string list"
  ci_Executable :: string
  ci_Terminal :: bool
  ci_UserID :: "(int \<times> int) option"
  ci_CapAdd :: "string list"
  ci_CapDrop :: "string list"
  ci_Networks :: "inspectNetwork list"
  ci_Ports :: "inspectPort list"
  ci_Sockets :: nat
  ci_Mounts :: "inspectMount list"
  ci_CPUs :: int
  ci_Memory :: int
  ci_ReadOnly :: bool
  ci_Rosetta :: bool
  ci_SSH :: bool
  ci_Sysctls :: nat
  ci_UseInit :: bool
  ci_Virtualization :: bool
  ci_State :: string
  ci_Addresses :: "string list"

record haVolumeInspect =
  vi_Name :: string
  vi_Labels :: "(string \<times> string) list"
  vi_Options :: "(string \<times> string) list"

record haNetworkInspect =
  ni_Name :: string
  ni_Subnet :: string
  ni_Labels :: "(string \<times> string) list"

record haNodeDocument =
  nd_Name :: string
  nd_Conditions :: "(string \<times> string) list"
  nd_KubeletVersion :: string

section \<open>Decoders\<close>

text \<open>\<open>at d name kvs k\<close> decodes the field \<open>name\<close> and goes on with its value.\<close>

definition at :: "'a decoder \<Rightarrow> string \<Rightarrow> (string \<times> json) list \<Rightarrow> ('a \<Rightarrow> gerror + 'b) \<Rightarrow> gerror + 'b" where
  "at d name kvs k = tryS (d (jField kvs name)) k"

text \<open>A map of which only the number of entries matters, and an optional map.\<close>

definition dMapSize :: "nat decoder" where
  "dMapSize j = tryS (dStringMap j) (\<lambda>m. Inr (length (remdups (map fst m))))"

definition dOptMap :: "(string \<times> string) list option decoder" where
  "dOptMap j = dPtr dStringMap j"

definition dUserID :: "(int \<times> int) decoder" where
  "dUserID j = tryS (objFields j) (\<lambda>kvs. at dInt ''uid'' kvs (\<lambda>u. at dInt ''gid'' kvs (\<lambda>g. Inr (u, g))))"

definition dInspectNetwork :: "inspectNetwork decoder" where
  "dInspectNetwork j = tryS (objFields j) (\<lambda>kvs. at dString ''network'' kvs (\<lambda>n.
     at objFields ''options'' kvs (\<lambda>opt. at dString ''macAddress'' opt (\<lambda>mac. at dInt ''mtu'' opt (\<lambda>mtu.
       Inr \<lparr>in_Network = n, in_MAC = mac, in_MTU = mtu\<rparr>)))))"

definition dInspectPort :: "inspectPort decoder" where
  "dInspectPort j = tryS (objFields j) (\<lambda>kvs. at dInt ''containerPort'' kvs (\<lambda>cp. at dInt ''count'' kvs (\<lambda>c.
     at dString ''hostAddress'' kvs (\<lambda>ha. at dInt ''hostPort'' kvs (\<lambda>hp. at dString ''proto'' kvs (\<lambda>p.
       Inr \<lparr>ip_ContainerPort = cp, ip_Count = c, ip_HostAddress = ha, ip_HostPort = hp, ip_Proto = p\<rparr>))))))"

definition dVolumeName :: "string decoder" where
  "dVolumeName j = tryS (objFields j) (\<lambda>kvs. at dString ''name'' kvs Inr)"

definition dInspectMount :: "inspectMount decoder" where
  "dInspectMount j = tryS (objFields j) (\<lambda>kvs. at dString ''destination'' kvs (\<lambda>d. at dString ''source'' kvs (\<lambda>s.
     at (dList dString) ''options'' kvs (\<lambda>os. at objFields ''type'' kvs (\<lambda>t.
     at (dPtr dVolumeName) ''volume'' t (\<lambda>v. at (dPtr objFields) ''virtiofs'' t (\<lambda>fs.
       Inr \<lparr>im_Destination = d, im_Source = s, im_Options = os, im_Volume = v, im_VirtioFS = (fs \<noteq> None)\<rparr>)))))))"

definition dAddress :: "string decoder" where
  "dAddress j = tryS (objFields j) (\<lambda>kvs. at dString ''ipv4Address'' kvs Inr)"

definition dContainerInspect :: "haContainerInspect decoder" where
  "dContainerInspect j = tryS (objFields j) (\<lambda>top.
     at objFields ''configuration'' top (\<lambda>c. at objFields ''platform'' c (\<lambda>pl.
     at dString ''architecture'' pl (\<lambda>arch. at dString ''os'' pl (\<lambda>os. at dOptMap ''labels'' c (\<lambda>labels.
     at objFields ''image'' c (\<lambda>img. at dString ''reference'' img (\<lambda>image.
     at objFields ''initProcess'' c (\<lambda>ip. at (dList dString) ''arguments'' ip (\<lambda>args.
     at dString ''executable'' ip (\<lambda>exe. at dBool ''terminal'' ip (\<lambda>term. at objFields ''user'' ip (\<lambda>user.
     at (dPtr dUserID) ''id'' user (\<lambda>uid. at (dList dString) ''capAdd'' c (\<lambda>capAdd.
     at (dList dString) ''capDrop'' c (\<lambda>capDrop. at (dList dInspectNetwork) ''networks'' c (\<lambda>nets.
     at (dList dInspectPort) ''publishedPorts'' c (\<lambda>ports. at (dList Inr) ''publishedSockets'' c (\<lambda>socks.
     at (dList dInspectMount) ''mounts'' c (\<lambda>mounts. at objFields ''resources'' c (\<lambda>res.
     at dInt ''cpus'' res (\<lambda>cpus. at dInt ''memoryInBytes'' res (\<lambda>mem. at dBool ''readOnly'' c (\<lambda>ro.
     at dBool ''rosetta'' c (\<lambda>ros. at dBool ''ssh'' c (\<lambda>ssh. at dMapSize ''sysctls'' c (\<lambda>sys.
     at dBool ''useInit'' c (\<lambda>ui. at dBool ''virtualization'' c (\<lambda>virt.
     at objFields ''status'' top (\<lambda>st. at dString ''state'' st (\<lambda>state.
     at (dList dAddress) ''networks'' st (\<lambda>addrs.
       Inr \<lparr>ci_Architecture = arch, ci_OS = os, ci_Labels = labels, ci_Image = image,
            ci_Arguments = args, ci_Executable = exe, ci_Terminal = term, ci_UserID = uid,
            ci_CapAdd = capAdd, ci_CapDrop = capDrop, ci_Networks = nets, ci_Ports = ports,
            ci_Sockets = length socks, ci_Mounts = mounts, ci_CPUs = cpus, ci_Memory = mem,
            ci_ReadOnly = ro, ci_Rosetta = ros, ci_SSH = ssh, ci_Sysctls = sys, ci_UseInit = ui,
            ci_Virtualization = virt, ci_State = state,
            ci_Addresses = addrs\<rparr>))))))))))))))))))))))))))))))))"

definition dVolumeInspect :: "haVolumeInspect decoder" where
  "dVolumeInspect j = tryS (objFields j) (\<lambda>top. at objFields ''configuration'' top (\<lambda>c.
     at dString ''name'' c (\<lambda>n. at dStringMap ''labels'' c (\<lambda>l. at dStringMap ''options'' c (\<lambda>os.
       Inr \<lparr>vi_Name = n, vi_Labels = l, vi_Options = os\<rparr>)))))"

definition dNetworkInspect :: "haNetworkInspect decoder" where
  "dNetworkInspect j = tryS (objFields j) (\<lambda>top. at objFields ''configuration'' top (\<lambda>c.
     at dString ''name'' c (\<lambda>n. at dString ''ipv4Subnet'' c (\<lambda>s. at dStringMap ''labels'' c (\<lambda>l.
       Inr \<lparr>ni_Name = n, ni_Subnet = s, ni_Labels = l\<rparr>)))))"

definition dCondition :: "(string \<times> string) decoder" where
  "dCondition j = tryS (objFields j) (\<lambda>kvs. at dString ''type'' kvs (\<lambda>t. at dString ''status'' kvs (\<lambda>s. Inr (t, s))))"

definition dNodeDocument :: "haNodeDocument decoder" where
  "dNodeDocument j = tryS (objFields j) (\<lambda>top. at objFields ''metadata'' top (\<lambda>m. at dString ''name'' m (\<lambda>n.
     at objFields ''status'' top (\<lambda>st. at (dList dCondition) ''conditions'' st (\<lambda>cs.
     at objFields ''nodeInfo'' st (\<lambda>ni. at dString ''kubeletVersion'' ni (\<lambda>v.
       Inr \<lparr>nd_Name = n, nd_Conditions = cs, nd_KubeletVersion = v\<rparr>)))))))"

text \<open>The zero value of the struct, which a Go map lookup returns for an absent member.\<close>

definition zeroContainer :: haContainerInspect where
  "zeroContainer = \<lparr>ci_Architecture = [], ci_OS = [], ci_Labels = None, ci_Image = [],
     ci_Arguments = [], ci_Executable = [], ci_Terminal = False, ci_UserID = None, ci_CapAdd = [],
     ci_CapDrop = [], ci_Networks = [], ci_Ports = [], ci_Sockets = 0, ci_Mounts = [], ci_CPUs = 0,
     ci_Memory = 0, ci_ReadOnly = False, ci_Rosetta = False, ci_SSH = False, ci_Sysctls = 0,
     ci_UseInit = False, ci_Virtualization = False, ci_State = [], ci_Addresses = []\<rparr>"

definition labelsOf :: "haContainerInspect \<Rightarrow> (string \<times> string) list" where
  "labelsOf record0 = (case ci_Labels record0 of None \<Rightarrow> [] | Some m \<Rightarrow> m)"

definition stateIs :: "haContainerInspect \<Rightarrow> string \<Rightarrow> bool" where
  "stateIs record0 s = equalFold (ci_State record0) s"

section \<open>Validators\<close>

definition check :: "bool \<Rightarrow> string \<Rightarrow> gerror + unit" where
  "check ok msg = (if ok then Inr () else Inl (Msg msg))"

definition validateHALabels :: "(string \<times> string) list \<Rightarrow> string \<Rightarrow> string \<Rightarrow> int \<Rightarrow> gerror + unit" where
  "validateHALabels labels clusterName role memberID =
     (if mapGet labels ''apc.dev/managed'' \<noteq> ''true'' \<or> mapGet labels ''apc.dev/cluster'' \<noteq> clusterName
         \<or> mapGet labels ''apc.dev/role'' \<noteq> role
      then Inl (Msg ''resource is not the expected APC resource'')
      else if 0 < memberID \<and> mapGet labels ''apc.dev/member'' \<noteq> itoa memberID
      then Inl (Msg ''resource is not the expected APC HA member'')
      else Inr ())"

definition initProcessMatches :: "haContainerInspect \<Rightarrow> HAConfig \<Rightarrow> HAMember \<Rightarrow> bool" where
  "initProcessMatches record0 config member \<longleftrightarrow> ci_Executable record0 = ''/bin/sh'' \<and> \<not> ci_Terminal record0
     \<and> ci_UserID record0 = Some (0, 0)
     \<and> (ci_Arguments record0 = haInitArguments config member
        \<or> ci_Arguments record0 = legacyHAInitArguments config member)"

definition networkMatches :: "haContainerInspect \<Rightarrow> HAConfig \<Rightarrow> HAMember \<Rightarrow> bool" where
  "networkMatches record0 config member = (case ci_Networks record0 of
     [n] \<Rightarrow> in_Network n = hc_NetworkName config \<and> equalFold (in_MAC n) (hm_MAC member) \<and> in_MTU n = 1280
   | _ \<Rightarrow> False)"

definition portMatches :: "haContainerInspect \<Rightarrow> HAConfig \<Rightarrow> HAMember \<Rightarrow> bool" where
  "portMatches record0 config member = (ci_Sockets record0 = 0 \<and> (case ci_Ports record0 of
     [p] \<Rightarrow> ip_ContainerPort p = 6443 \<and> ip_Count p = 1 \<and> ip_HostPort p = hm_HostAPIPort member
            \<and> ip_HostAddress p = hc_ListenAddress config \<and> ip_Proto p = ''tcp''
   | _ \<Rightarrow> False))"

definition volumeMount :: "HAConfig \<Rightarrow> HAMember \<Rightarrow> inspectMount \<Rightarrow> bool" where
  "volumeMount config member m \<longleftrightarrow> im_Destination m = ''/var/lib/rancher/k3s''
     \<and> im_Volume m = Some (HAVolumeName (hc_Name config) (hm_ID member)) \<and> \<not> im_VirtioFS m \<and> im_Options m = []"

definition tokenMount :: "HAConfig \<Rightarrow> inspectMount \<Rightarrow> bool" where
  "tokenMount config m \<longleftrightarrow> im_Destination m = ''/run/secrets/apc'' \<and> im_Source m = dirPath (hc_TokenFile config)
     \<and> im_VirtioFS m \<and> im_Volume m = None \<and> im_Options m = [''ro'']"

definition mountsMatch :: "haContainerInspect \<Rightarrow> HAConfig \<Rightarrow> HAMember \<Rightarrow> bool" where
  "mountsMatch record0 config member \<longleftrightarrow> length (ci_Mounts record0) = 2
     \<and> list_ex (volumeMount config member) (ci_Mounts record0) \<and> list_ex (tokenMount config) (ci_Mounts record0)"

text \<open>The memory comparison is between 64-bit words: the reported value is cast to \<open>uint64\<close>.\<close>

definition resourcesMatch :: "haContainerInspect \<Rightarrow> HAConfig \<Rightarrow> bool" where
  "resourcesMatch record0 config \<longleftrightarrow> ci_CPUs record0 = hc_CPUs config
     \<and> (of_int (ci_Memory record0) :: 64 word)
        = (case parseHAByteSize (hc_Memory config) of Inr b \<Rightarrow> b | Inl _ \<Rightarrow> 0)"

definition featuresOff :: "haContainerInspect \<Rightarrow> bool" where
  "featuresOff record0 \<longleftrightarrow> \<not> (ci_ReadOnly record0 \<or> ci_Rosetta record0 \<or> ci_SSH record0 \<or> ci_UseInit record0
     \<or> ci_Virtualization record0 \<or> ci_Sysctls record0 \<noteq> 0)"

definition validateHAContainer :: "haContainerInspect \<Rightarrow> HAConfig \<Rightarrow> HAMember \<Rightarrow> gerror + unit" where
  "validateHAContainer record0 config member =
     tryS (wrapS ''container'' (validateHALabels (labelsOf record0) (hc_Name config) ''server'' (hm_ID member))) (\<lambda>_.
     tryS (check (ci_Image record0 = hc_Image config) ''container uses another image'') (\<lambda>_.
     tryS (check (ci_OS record0 = ''linux'' \<and> ci_Architecture record0 = ''arm64'')
       ''container does not use the declared linux/arm64 platform'') (\<lambda>_.
     tryS (check (initProcessMatches record0 config member)
       ''container does not match the declared root, non-TTY K3s init process'') (\<lambda>_.
     tryS (check (ci_CapAdd record0 = [''ALL''] \<and> ci_CapDrop record0 = [])
       ''container does not use exactly cap-add ALL with no dropped capabilities'') (\<lambda>_.
     tryS (check (networkMatches record0 config member) ''container does not match network, MAC and MTU 1280'') (\<lambda>_.
     tryS (check (portMatches record0 config member) ''container does not publish the declared API endpoint'') (\<lambda>_.
     tryS (check (mountsMatch record0 config member)
       ''container does not use exactly the declared data volume and read-only token mount'') (\<lambda>_.
     tryS (check (resourcesMatch record0 config) ''container does not match the declared CPU and memory resources'') (\<lambda>_.
     check (featuresOff record0) ''container enables an unexpected runtime feature'')))))))))"

definition haContainerUsesLegacyInit :: "haContainerInspect \<Rightarrow> HAConfig \<Rightarrow> HAMember \<Rightarrow> bool" where
  "haContainerUsesLegacyInit record0 config member \<longleftrightarrow> ci_Arguments record0 = legacyHAInitArguments config member"

definition validateHAVolume :: "haVolumeInspect \<Rightarrow> HAConfig \<Rightarrow> HAMember \<Rightarrow> gerror + unit" where
  "validateHAVolume record0 config member =
     (if vi_Name record0 \<noteq> [] \<and> vi_Name record0 \<noteq> HAVolumeName (hc_Name config) (hm_ID member)
      then Inl (Msg ''volume inspect returned unexpected volume'')
      else tryS (wrapS ''volume'' (validateHALabels (vi_Labels record0) (hc_Name config) ''server'' (hm_ID member))) (\<lambda>_.
        let size = mapGet (vi_Options record0) ''size'' in
        check (size = [] \<or> sameHAByteSize size (hc_VolumeSize config)) ''volume has another size''))"

definition maskedPrefix :: "string \<Rightarrow> (ipv4 \<times> nat) option" where
  "maskedPrefix s = map_option prefixMasked (parsePrefix4 s)"

definition validateHANetwork :: "haNetworkInspect \<Rightarrow> HAConfig \<Rightarrow> gerror + unit" where
  "validateHANetwork record0 config =
     (if ni_Name record0 \<noteq> [] \<and> ni_Name record0 \<noteq> hc_NetworkName config
      then Inl (Msg ''network inspect returned unexpected network'')
      else if mapGet (ni_Labels record0) ''apc.dev/managed'' \<noteq> ''true''
              \<or> mapGet (ni_Labels record0) ''apc.dev/cluster'' \<noteq> hc_Name config
      then Inl (Msg ''network exists but is not owned by the APC cluster'')
      else check (maskedPrefix (ni_Subnet record0) \<noteq> None
                  \<and> maskedPrefix (ni_Subnet record0) = maskedPrefix (hc_Subnet config))
             ''network uses another subnet'')"

definition nodeDocumentReady :: "haNodeDocument \<Rightarrow> bool" where
  "nodeDocumentReady node = list_ex (\<lambda>c. c = (''Ready'', ''True'')) (nd_Conditions node)"

section \<open>Lemmas\<close>

lemma check_Inr [simp]: "check ok msg = Inr u \<longleftrightarrow> ok"
  by (simp add: check_def)

lemma validateHALabels_Inr:
  "validateHALabels labels c r i = Inr u \<longleftrightarrow> mapGet labels ''apc.dev/managed'' = ''true''
     \<and> mapGet labels ''apc.dev/cluster'' = c \<and> mapGet labels ''apc.dev/role'' = r
     \<and> (i \<le> 0 \<or> mapGet labels ''apc.dev/member'' = itoa i)"
  by (auto simp: validateHALabels_def)

text \<open>
  The specification of an accepted container: every part of the record is the declared one.
\<close>

definition declaredContainer :: "haContainerInspect \<Rightarrow> HAConfig \<Rightarrow> HAMember \<Rightarrow> bool" where
  "declaredContainer r config member \<longleftrightarrow>
     isOk (validateHALabels (labelsOf r) (hc_Name config) ''server'' (hm_ID member))
     \<and> ci_Image r = hc_Image config \<and> ci_OS r = ''linux'' \<and> ci_Architecture r = ''arm64''
     \<and> initProcessMatches r config member \<and> ci_CapAdd r = [''ALL''] \<and> ci_CapDrop r = []
     \<and> networkMatches r config member \<and> portMatches r config member \<and> mountsMatch r config member
     \<and> resourcesMatch r config \<and> featuresOff r"

lemma validateHAContainer_Inr:
  "validateHAContainer r config member = Inr u \<longleftrightarrow> declaredContainer r config member"
  by (auto simp: validateHAContainer_def declaredContainer_def elim!: isOkE)

end
