(* ===== verification/World.thy ===== *)
theory World
  imports Inspect
begin

text \<open>
  The world an operation runs in.  \<open>env\<close> holds the code the program calls and cannot see
  (the \<open>container\<close> command line, the API probe, locks, clocks, context expiry, directories,
  file-system faults, the SHA-256 digest, the files a container leaves in a mounted directory) as functions on an abstract state \<open>'x\<close>; nothing is assumed of them.  \<open>world\<close> is
  that state with the files the program keeps and the trace of its effects.
  The rest of the theory is a small calculus on traces: \<open>emits P m\<close> (every effect of \<open>m\<close>
  satisfies \<open>P\<close>) and \<open>guarded P Q m\<close> (every \<open>Q\<close> effect of \<open>m\<close> comes after a \<open>P\<close> effect),
  with one rule for each way operations are composed.
\<close>

section \<open>Environment, files, effects\<close>

record cmdResult =
  cr_stdout :: document
  cr_stderr :: string
  cr_err :: "gerror option"
  cr_ctxErr :: "gerror option"

record fileInfo =
  fi_symlink :: bool
  fi_regular :: bool
  fi_dir :: bool
  fi_perm :: int
  fi_uid :: int
  fi_gid :: int
  fi_inode :: int
  fi_size :: int

record fileNode =
  fn_info :: fileInfo
  fn_doc :: document

datatype writeStep = MkdirAll | ChmodDir | CreateTemp | ChmodTemp | WriteTemp | SyncTemp
  | CloseTemp | RenameTemp | SyncDir

text \<open>
  A parsed YAML document (\<open>yaml.Node\<close> of \<open>gopkg.in/yaml.v3\<close>, whose parser and printer are
  parameters of the model): its kind, its scalar value and its children.
\<close>

datatype yamlKind = YDocument | YMapping | YSequence | YScalar | YAlias

datatype yamlNode = YNode yamlKind string "yamlNode list"

text \<open>
  \<open>Cmd b args\<close> is a call of the runtime binary, with the timeout put on it in nanoseconds
  (\<open>None\<close> when the caller's context is used as it is).
\<close>

datatype event = Cmd "int option" "string list" | Wrote string document | Removed string
  | Renamed string string | Locked string | Unlocked string

text \<open>
  An entry of a tar stream as \<open>archive/tar\<close> reads it: its name, and the target of a hard or a symbolic link.
\<close>

datatype tarKind = TarHardLink | TarSymlink | TarOther

record tarHeader =
  th_Name :: string
  th_Kind :: tarKind
  th_Linkname :: string

text \<open>
  \<open>e_interfaces\<close> lists the addresses of the host as \<open>net.InterfaceAddrs\<close> does, each in the form its \<open>String\<close> prints;
  \<open>e_feed\<close> gives the next command its standard input; \<open>e_tarEntries\<close> reads a tar stream.
\<close>

record 'x env =
  e_host :: hostEnv
  e_euid :: int
  e_egid :: int
  e_run :: "'x \<Rightarrow> int option \<Rightarrow> string list \<Rightarrow> cmdResult \<times> 'x"
  e_probeAPI :: "'x \<Rightarrow> HAConfig \<Rightarrow> HAMember \<Rightarrow> bool \<times> 'x"
  e_now :: "'x \<Rightarrow> int"
  e_ctxErr :: "'x \<Rightarrow> gerror option"
  e_ticks :: "'x \<Rightarrow> nat"
  e_lock :: "'x \<Rightarrow> string \<Rightarrow> (gerror + unit) \<times> 'x"
  e_unlock :: "'x \<Rightarrow> string \<Rightarrow> gerror option \<times> 'x"
  e_writeFault :: "'x \<Rightarrow> string \<Rightarrow> writeStep \<Rightarrow> gerror option"
  e_fileFault :: "'x \<Rightarrow> string \<Rightarrow> string \<Rightarrow> gerror option"
  e_docSize :: "document \<Rightarrow> int"
  e_random :: "'x \<Rightarrow> gerror + string"
  e_dirInfo :: "'x \<Rightarrow> string \<Rightarrow> gerror + fileInfo"
  e_yamlParse :: "document \<Rightarrow> gerror + yamlNode"
  e_yamlPrint :: "yamlNode \<Rightarrow> document"
  e_tlsConfig :: "document \<Rightarrow> gerror + unit"
  e_probeReady :: "'x \<Rightarrow> string \<Rightarrow> document \<Rightarrow> bool \<times> 'x"
  e_abs :: "string \<Rightarrow> gerror + string"
  e_evalLinks :: "'x \<Rightarrow> string \<Rightarrow> gerror + string"
  e_readDir :: "'x \<Rightarrow> string \<Rightarrow> gerror + string list"
  e_sha256 :: "document \<Rightarrow> string"
  e_stamp :: "'x \<Rightarrow> string"
  e_dirOp :: "'x \<Rightarrow> string \<Rightarrow> string \<Rightarrow> gerror option \<times> 'x"
  e_shared :: "'x \<Rightarrow> string \<Rightarrow> fileNode option"
  e_interfaces :: "'x \<Rightarrow> gerror + string list"
  e_feed :: "'x \<Rightarrow> document \<Rightarrow> 'x"
  e_tarEntries :: "document \<Rightarrow> gerror + tarHeader list"

record 'x world =
  w_ext :: 'x
  w_fs :: "string \<Rightarrow> fileNode option"
  w_inode :: int
  w_trace :: "event list"
  w_answers :: "(string list \<times> cmdResult) list"

type_synonym ('x, 'a) op = "('x world, 'a) act"

definition emitEvent :: "event \<Rightarrow> ('x, unit) op" where
  "emitEvent e = updA (\<lambda>w. w\<lparr>w_trace := w_trace w @ [e]\<rparr>)"

definition queryExt :: "('x \<Rightarrow> 'a \<times> 'x) \<Rightarrow> ('x, 'a) op" where
  "queryExt f = (\<lambda>w. case f (w_ext w) of (a, x) \<Rightarrow> (Inr a, w\<lparr>w_ext := x\<rparr>))"

definition askExt :: "('x \<Rightarrow> 'a) \<Rightarrow> ('x, 'a) op" where
  "askExt f = getA (\<lambda>w. f (w_ext w))"

text \<open>
  \<open>m.runner.Run(ctx, m.binary, args...)\<close>.  What each command answered is recorded in \<open>w_answers\<close>, which no operation reads:
  with it a theorem can say that an answer was given during a run.
\<close>

definition queryCmd :: "'x env \<Rightarrow> int option \<Rightarrow> string list \<Rightarrow> ('x, cmdResult) op" where
  "queryCmd E bound args = (\<lambda>w. case e_run E (w_ext w) bound args of (res, x) \<Rightarrow>
     (Inr res, w\<lparr>w_ext := x, w_answers := w_answers w @ [(args, res)]\<rparr>))"

definition runCmd :: "'x env \<Rightarrow> int option \<Rightarrow> string list \<Rightarrow> ('x, cmdResult) op" where
  "runCmd E bound args = tryA (emitEvent (Cmd bound args)) (\<lambda>_. queryCmd E bound args)"

section \<open>Helpers of \<open>cluster.go\<close>\<close>

definition isNotFound :: "string \<Rightarrow> bool" where
  "isNotFound stderr = (let value = toLower stderr in
     containsStr value ''not found'' \<or> containsStr value ''does not exist'')"

fun errorText :: "gerror \<Rightarrow> string" where
  "errorText (Msg s) = s"
| "errorText (Wrap s e) = s @ '': '' @ errorText e"
| "errorText (Joined es) = joinWith [CHR 0x0A] (map errorText es)"
| "errorText ErrNotFound = ''container not found''"
| "errorText ErrNotExist = ''file does not exist''"
| "errorText ErrNoCurrentCluster = ''no current cluster''"
| "errorText DeadlineExceeded = ''context deadline exceeded''"
| "errorText (IPCollision a r s) = ''runtime IP collision''"

definition commandError :: "string \<Rightarrow> string \<Rightarrow> gerror \<Rightarrow> gerror" where
  "commandError operation stderr err = (let detail = trimSpace stderr in
     Msg (operation @ '': '' @ (if detail = [] then errorText err else detail)))"

section \<open>Files\<close>

text \<open>\<open>writePrivateFileAtomicWithDirectorySync\<close>: only the rename changes the destination.\<close>

definition writeStepA :: "'x env \<Rightarrow> string \<Rightarrow> writeStep \<Rightarrow> string \<Rightarrow> ('x, unit) op" where
  "writeStepA E path s msg = (\<lambda>w. case e_writeFault E (w_ext w) path s of
     None \<Rightarrow> (Inr (), w) | Some e \<Rightarrow> (Inl (Wrap msg e), w))"

definition privateInfo :: "'x env \<Rightarrow> int \<Rightarrow> document \<Rightarrow> fileInfo" where
  "privateInfo E inode doc = \<lparr>fi_symlink = False, fi_regular = True, fi_dir = False, fi_perm = 384, fi_uid = e_euid E,
     fi_gid = e_egid E, fi_inode = inode, fi_size = e_docSize E doc\<rparr>"

definition placeFile :: "'x env \<Rightarrow> string \<Rightarrow> document \<Rightarrow> ('x, unit) op" where
  "placeFile E path doc = updA (\<lambda>w. w\<lparr>w_fs := (w_fs w)(path \<mapsto> \<lparr>fn_info = privateInfo E (w_inode w) doc, fn_doc = doc\<rparr>),
     w_inode := w_inode w + 1, w_trace := w_trace w @ [Wrote path doc]\<rparr>)"

definition writePrivateFileAtomic :: "'x env \<Rightarrow> string \<Rightarrow> document \<Rightarrow> ('x, unit) op" where
  "writePrivateFileAtomic E path data =
     tryA (writeStepA E path MkdirAll ''create private file directory'') (\<lambda>_.
     tryA (writeStepA E path ChmodDir ''secure private file directory'') (\<lambda>_.
     tryA (writeStepA E path CreateTemp ''create private temporary file'') (\<lambda>_.
     tryA (writeStepA E path ChmodTemp ''secure private temporary file'') (\<lambda>_.
     tryA (writeStepA E path WriteTemp ''write private temporary file'') (\<lambda>_.
     tryA (writeStepA E path SyncTemp ''sync private temporary file'') (\<lambda>_.
     tryA (writeStepA E path CloseTemp ''close private temporary file'') (\<lambda>_.
     tryA (writeStepA E path RenameTemp ''replace private file'') (\<lambda>_.
     tryA (placeFile E path data) (\<lambda>_.
     writeStepA E path SyncDir ''sync private file directory'')))))))))"

text \<open>\<open>os.Lstat\<close>, and \<open>os.Remove\<close>.\<close>

definition statFile :: "'x env \<Rightarrow> string \<Rightarrow> ('x, fileInfo) op" where
  "statFile E path = (\<lambda>w. case e_fileFault E (w_ext w) ''stat'' path of
       Some e \<Rightarrow> (Inl e, w)
     | None \<Rightarrow> (case w_fs w path of None \<Rightarrow> (Inl ErrNotExist, w) | Some n \<Rightarrow> (Inr (fn_info n), w)))"

text \<open>\<open>os.Stat\<close> follows links; where a link leads is what \<open>filepath.EvalSymlinks\<close> says.\<close>

definition statTarget :: "'x env \<Rightarrow> string \<Rightarrow> ('x, fileInfo) op" where
  "statTarget E path = (\<lambda>w. case w_fs w path of
       Some n \<Rightarrow> if fi_symlink (fn_info n)
         then (case e_evalLinks E (w_ext w) path of Inl e \<Rightarrow> (Inl e, w) | Inr target \<Rightarrow> statFile E target w)
         else statFile E path w
     | None \<Rightarrow> statFile E path w)"

definition readFile :: "'x env \<Rightarrow> string \<Rightarrow> ('x, document) op" where
  "readFile E path = (\<lambda>w. case e_fileFault E (w_ext w) ''read'' path of
       Some e \<Rightarrow> (Inl e, w)
     | None \<Rightarrow> (case w_fs w path of None \<Rightarrow> (Inl ErrNotExist, w) | Some n \<Rightarrow> (Inr (fn_doc n), w)))"

definition removeFile :: "'x env \<Rightarrow> string \<Rightarrow> ('x, unit) op" where
  "removeFile E path = (\<lambda>w. case e_fileFault E (w_ext w) ''remove'' path of
       Some e \<Rightarrow> (Inl e, w)
     | None \<Rightarrow> (case w_fs w path of None \<Rightarrow> (Inl ErrNotExist, w)
         | Some _ \<Rightarrow> (Inr (), w\<lparr>w_fs := (w_fs w)(path := None), w_trace := w_trace w @ [Removed path]\<rparr>)))"

text \<open>
  \<open>info.Mode().Perm()&0o077 != 0\<close>: some permission for the group or for others.
\<close>

definition groupOrOther :: "fileInfo \<Rightarrow> bool" where
  "groupOrOther info \<longleftrightarrow> fi_perm info mod 64 \<noteq> 0"

section \<open>Classes of effects\<close>

text \<open>
  \<open>readsOnly\<close> recognises the commands of the runtime that only read: inspect, list and
  logs, and the \<open>exec\<close> calls of \<open>kubectl get\<close>, the etcd probe and \<open>/bin/cat\<close>.
\<close>

definition isCmd :: "event \<Rightarrow> bool" where
  "isCmd e = (case e of Cmd _ _ \<Rightarrow> True | _ \<Rightarrow> False)"

definition cmdArgs :: "event \<Rightarrow> string list" where
  "cmdArgs e = (case e of Cmd _ args \<Rightarrow> args | _ \<Rightarrow> [])"

definition cmdIs :: "string list \<Rightarrow> event \<Rightarrow> bool" where
  "cmdIs pre e \<longleftrightarrow> isCmd e \<and> take (length pre) (cmdArgs e) = pre"

definition readsOnlyArgs :: "string list \<Rightarrow> bool" where
  "readsOnlyArgs args = (case args of
     v # rest \<Rightarrow> v \<in> {''inspect'', ''logs'', ''list''}
       \<or> (v \<in> {''volume'', ''network''} \<and> rest \<noteq> [] \<and> hd rest \<in> {''inspect'', ''list''})
       \<or> (v = ''exec'' \<and> (case rest of
            _ # c # tail \<Rightarrow> (c = ''kubectl'' \<and> tail \<noteq> [] \<and> hd tail = ''get'') \<or> c = ''/bin/cat''
              \<or> (c = ''/bin/sh'' \<and> length tail = 2
                 \<and> hasPrefix (last tail) ''set -eu; wget -q -T 3 -O - http://127.0.0.1:2381/health'')
          | _ \<Rightarrow> False))
   | [] \<Rightarrow> False)"

definition quiet :: "event \<Rightarrow> bool" where
  "quiet e = (case e of Cmd _ args \<Rightarrow> readsOnlyArgs args | _ \<Rightarrow> False)"

definition mutates :: "event \<Rightarrow> bool" where
  "mutates e \<longleftrightarrow> isCmd e \<and> \<not> quiet e"

section \<open>Traces\<close>

fun precedes :: "(event \<Rightarrow> bool) \<Rightarrow> (event \<Rightarrow> bool) \<Rightarrow> event list \<Rightarrow> bool" where
  "precedes P Q [] = True"
| "precedes P Q (e # es) = (\<not> Q e \<and> (P e \<or> precedes P Q es))"

text \<open>An answer that was recorded stays, and every new answer is that of a command in the trace.\<close>

definition answeredIn :: "event list \<Rightarrow> (string list \<times> cmdResult) list \<Rightarrow> bool" where
  "answeredIn es as \<longleftrightarrow> list_all (\<lambda>a. list_ex (\<lambda>e. \<exists>b. e = Cmd b (fst a)) es) as"

definition recorded :: "('x, 'a) op \<Rightarrow> bool" where
  "recorded m \<longleftrightarrow> (\<forall>w. \<exists>es as. w_trace (snd (m w)) = w_trace w @ es \<and> w_answers (snd (m w)) = w_answers w @ as \<and> answeredIn es as)"

definition emits :: "(event \<Rightarrow> bool) \<Rightarrow> ('x, 'a) op \<Rightarrow> bool" where
  "emits P m \<longleftrightarrow> (\<forall>w. \<exists>es. w_trace (snd (m w)) = w_trace w @ es \<and> list_all P es) \<and> recorded m"

definition guarded :: "(event \<Rightarrow> bool) \<Rightarrow> (event \<Rightarrow> bool) \<Rightarrow> ('x, 'a) op \<Rightarrow> bool" where
  "guarded P Q m \<longleftrightarrow> (\<forall>w. \<exists>es. w_trace (snd (m w)) = w_trace w @ es \<and> precedes P Q es)"

text \<open>\<open>ensures P m\<close>: when \<open>m\<close> succeeds it has had a \<open>P\<close> effect.\<close>

definition ensures :: "(event \<Rightarrow> bool) \<Rightarrow> ('x, 'a) op \<Rightarrow> bool" where
  "ensures P m \<longleftrightarrow> (\<forall>w. \<exists>es. w_trace (snd (m w)) = w_trace w @ es \<and> (isOk (fst (m w)) \<longrightarrow> list_ex P es))"

named_theorems effects

lemma answeredIn_Nil [simp]: "answeredIn es []"
  by (simp add: answeredIn_def)

lemma answeredIn_append: "answeredIn es as \<Longrightarrow> answeredIn fs bs \<Longrightarrow> answeredIn (es @ fs) (as @ bs)"
  by (auto simp: answeredIn_def list_all_iff)

lemma recorded_silent:
  "(\<And>w. \<exists>es. w_trace (snd (m w)) = w_trace w @ es) \<Longrightarrow> (\<And>w. w_answers (snd (m w)) = w_answers w) \<Longrightarrow> recorded m"
  unfolding recorded_def by (metis answeredIn_Nil append_Nil2)

lemma recorded_catchA:
  assumes "recorded m" "\<And>r. recorded (h r)"
  shows "recorded (catchA m h)"
  unfolding recorded_def
proof
  fix w
  obtain r w' where m: "m w = (r, w')" by (cases "m w")
  obtain es as where "w_trace w' = w_trace w @ es" "w_answers w' = w_answers w @ as" "answeredIn es as"
    using assms(1) m unfolding recorded_def by (metis snd_conv)
  moreover obtain fs bs where "w_trace (snd (h r w')) = w_trace w' @ fs" "w_answers (snd (h r w')) = w_answers w' @ bs" "answeredIn fs bs"
    using assms(2) unfolding recorded_def by blast
  ultimately show "\<exists>es as. w_trace (snd (catchA m h w)) = w_trace w @ es \<and> w_answers (snd (catchA m h w)) = w_answers w @ as \<and> answeredIn es as"
    by (intro exI [of _ "es @ fs"] exI [of _ "as @ bs"]) (simp add: catchA_apply m answeredIn_append)
qed

lemma emitsI: "(\<And>w. \<exists>es. w_trace (snd (m w)) = w_trace w @ es \<and> list_all P es) \<Longrightarrow> recorded m \<Longrightarrow> emits P m"
  by (simp add: emits_def)

lemma emits_recorded: "emits P m \<Longrightarrow> recorded m"
  by (simp add: emits_def)

lemma emitsE:
  assumes "emits P m"
  obtains es where "w_trace (snd (m w)) = w_trace w @ es" "list_all P es"
  using assms unfolding emits_def by blast

lemma emits_silent: "(\<And>w. w_trace (snd (m w)) = w_trace w \<and> w_answers (snd (m w)) = w_answers w) \<Longrightarrow> emits P m"
  by (auto simp: emits_def recorded_def intro: exI [of _ "[]"])

lemma emits_retA [effects, simp]: "emits P (retA x)" by (rule emits_silent) simp
lemma emits_errA [effects, simp]: "emits P (errA e)" by (rule emits_silent) simp
lemma emits_liftA [effects, simp]: "emits P (liftA r)" by (rule emits_silent) simp
lemma emits_getA [effects, simp]: "emits P (getA f)" by (rule emits_silent) simp
lemma emits_askExt [effects, simp]: "emits P (askExt f)" by (rule emits_silent) (simp add: askExt_def)
lemma emits_queryExt [effects, simp]: "emits P (queryExt f)"
  by (rule emits_silent) (simp add: queryExt_def split: prod.splits)
lemma emits_writeStepA [effects, simp]: "emits P (writeStepA E p s msg)"
  by (rule emits_silent) (simp add: writeStepA_def split: option.splits)
lemma emits_statFile [effects, simp]: "emits P (statFile E p)"
  by (rule emits_silent) (simp add: statFile_def split: option.splits)
lemma emits_statTarget [effects, simp]: "emits P (statTarget E p)"
  by (rule emits_silent) (simp add: statTarget_def statFile_def split: option.splits sum.splits)
lemma emits_readFile [effects, simp]: "emits P (readFile E p)"
  by (rule emits_silent) (simp add: readFile_def split: option.splits)

lemma reads_world [readonly]:
  "reads (askExt f)" "reads (writeStepA E p s msg)" "reads (statFile E p)" "reads (readFile E p)" "reads (statTarget E p)"
  by (auto simp: reads_def askExt_def writeStepA_def statTarget_def statFile_def readFile_def split: option.split sum.split)

lemma emits_reads: "reads m \<Longrightarrow> emits P m"
  by (rule emits_silent) (simp add: reads_def)

lemma emits_emitEvent [effects]: "P e \<Longrightarrow> emits P (emitEvent e)"
  by (rule emitsI) (simp_all add: emitEvent_def recorded_def)

lemma emits_catchA [effects]:
  assumes "emits P m" "\<And>r. emits P (h r)"
  shows "emits P (catchA m h)"
proof (rule emitsI)
  fix w
  obtain r w' where m: "m w = (r, w')" by (cases "m w")
  obtain es where "w_trace w' = w_trace w @ es" "list_all P es"
    using emitsE [OF assms(1), of w] by (auto simp: m)
  moreover obtain fs where "w_trace (snd (h r w')) = w_trace w' @ fs" "list_all P fs"
    using emitsE [OF assms(2)] .
  ultimately show "\<exists>es. w_trace (snd (catchA m h w)) = w_trace w @ es \<and> list_all P es"
    by (intro exI [of _ "es @ fs"]) (simp add: catchA_apply m)
qed (intro recorded_catchA emits_recorded [OF assms(1)] emits_recorded [OF assms(2)])

lemma emits_tryA [effects]: "emits P m \<Longrightarrow> (\<And>x. emits P (f x)) \<Longrightarrow> emits P (tryA m f)"
  unfolding tryA_def by (rule emits_catchA) (auto split: sum.splits)

lemma emits_wrapA [effects]: "emits P m \<Longrightarrow> emits P (wrapA msg m)"
  unfolding wrapA_def by (rule emits_catchA) (auto split: sum.splits)

lemma emits_tryWrapA [effects]: "emits P m \<Longrightarrow> (\<And>x. emits P (f x)) \<Longrightarrow> emits P (tryWrapA msg m f)"
  unfolding tryWrapA_def by (intro effects)

lemma emits_if [effects]: "(b \<Longrightarrow> emits P m) \<Longrightarrow> (\<not> b \<Longrightarrow> emits P n) \<Longrightarrow> emits P (if b then m else n)"
  by simp

lemma emits_case_option [effects]:
  "(x = None \<Longrightarrow> emits P m) \<Longrightarrow> (\<And>y. x = Some y \<Longrightarrow> emits P (f y)) \<Longrightarrow> emits P (case x of None \<Rightarrow> m | Some y \<Rightarrow> f y)"
  by (cases x) auto

lemma emits_case_sum [effects]:
  "(\<And>e. x = Inl e \<Longrightarrow> emits P (f e)) \<Longrightarrow> (\<And>y. x = Inr y \<Longrightarrow> emits P (g y)) \<Longrightarrow> emits P (case x of Inl e \<Rightarrow> f e | Inr y \<Rightarrow> g y)"
  by (cases x) auto

lemma emits_case_prod [effects]:
  "(\<And>a b. x = (a, b) \<Longrightarrow> emits P (f a b)) \<Longrightarrow> emits P (case x of (a, b) \<Rightarrow> f a b)"
  by (cases x) auto

lemma emits_Let [effects]: "(\<And>x. x = v \<Longrightarrow> emits P (f x)) \<Longrightarrow> emits P (Let v f)"
  by simp

lemma emits_forA [effects]: "(\<And>x. x \<in> set xs \<Longrightarrow> emits P (f x)) \<Longrightarrow> emits P (forA xs f)"
  by (induction xs) (auto intro: effects)

lemma emits_foldA [effects]:
  "(\<And>acc x. x \<in> set xs \<Longrightarrow> emits P (f acc x)) \<Longrightarrow> emits P (foldA f acc xs)"
  by (induction xs arbitrary: acc) (auto intro: effects)

lemma emits_runCmd [effects]: "P (Cmd b args) \<Longrightarrow> emits P (runCmd E b args)"
  by (rule emitsI)
    (auto simp: runCmd_def tryA_apply emitEvent_def queryCmd_def recorded_def answeredIn_def split: prod.splits)

lemma emits_placeFile [effects]: "P (Wrote p d) \<Longrightarrow> emits P (placeFile E p d)"
  by (rule emitsI) (simp_all add: placeFile_def recorded_def)

lemma emits_writePrivateFileAtomic [effects]: "P (Wrote p d) \<Longrightarrow> emits P (writePrivateFileAtomic E p d)"
  unfolding writePrivateFileAtomic_def by (intro effects)

lemma emits_removeFile [effects]: "P (Removed p) \<Longrightarrow> emits P (removeFile E p)"
  by (rule emitsI) (auto simp: removeFile_def recorded_def split: option.splits)

lemma emits_mono: "emits P m \<Longrightarrow> (\<And>e. P e \<Longrightarrow> Q e) \<Longrightarrow> emits Q m"
  unfolding emits_def list_all_iff by blast

section \<open>What a run was told\<close>

text \<open>\<open>told w w' args res\<close>: between \<open>w\<close> and \<open>w'\<close> the command \<open>args\<close> was answered with \<open>res\<close>.\<close>

definition told :: "'x world \<Rightarrow> 'x world \<Rightarrow> string list \<Rightarrow> cmdResult \<Rightarrow> bool" where
  "told w w' args res \<longleftrightarrow> (\<exists>as. w_answers w' = w_answers w @ as \<and> (args, res) \<in> set as)"

lemma recordedE:
  assumes "recorded m" "m w = (r, w')"
  obtains as where "w_answers w' = w_answers w @ as"
  using assms unfolding recorded_def by (metis snd_conv)

text \<open>What is true of every effect of an operation is true of the commands it was told answers of.\<close>

lemma emits_answers:
  assumes "emits P m" "m w = (r, w')"
  obtains as where "w_answers w' = w_answers w @ as" "list_all (\<lambda>a. \<exists>b. P (Cmd b (fst a))) as"
proof -
  obtain es as where "w_trace w' = w_trace w @ es" "w_answers w' = w_answers w @ as" "answeredIn es as"
    using emits_recorded [OF assms(1)] assms(2) unfolding recorded_def by (metis snd_conv)
  moreover obtain fs where "w_trace w' = w_trace w @ fs" "list_all P fs"
    using emitsE [OF assms(1), of w] assms(2) by auto
  ultimately show thesis by (intro that [of as]) (auto simp: answeredIn_def list_all_iff list_ex_iff)
qed

lemma told_until: "told w w' args res \<Longrightarrow> w_answers w2 = w_answers w' @ as \<Longrightarrow> told w w2 args res"
  by (auto simp: told_def)

lemma told_from: "told w w' args res \<Longrightarrow> w_answers w = w_answers w0 @ as \<Longrightarrow> told w0 w' args res"
  by (auto simp: told_def)

lemma runCmd_told: "runCmd E b args w = (r, w') \<Longrightarrow> \<exists>res. r = Inr res \<and> told w w' args res"
  by (auto simp: runCmd_def tryA_apply emitEvent_def queryCmd_def told_def split: prod.splits)

lemma told_later: "emits P m \<Longrightarrow> m w' = (r, w2) \<Longrightarrow> told w w' args res \<Longrightarrow> told w w2 args res"
  by (drule emits_recorded, erule recordedE) (auto simp: told_def)

lemma told_earlier: "emits P m \<Longrightarrow> m w0 = (r, w) \<Longrightarrow> told w w' args res \<Longrightarrow> told w0 w' args res"
  by (drule emits_recorded, erule recordedE) (auto simp: told_def)

section \<open>Ordering\<close>

lemma precedes_none: "list_all (\<lambda>e. \<not> Q e) es \<Longrightarrow> precedes P Q es"
  by (induction es) auto

lemma precedes_append_found:
  "precedes P Q es \<Longrightarrow> list_ex P es \<Longrightarrow> precedes P Q (es @ fs)"
  by (induction es) auto

lemma precedes_append: "precedes P Q es \<Longrightarrow> precedes P Q fs \<Longrightarrow> precedes P Q (es @ fs)"
  by (induction es) auto

lemma precedes_mono:
  "precedes P Q es \<Longrightarrow> (\<And>e. P e \<Longrightarrow> P' e) \<Longrightarrow> (\<And>e. Q' e \<Longrightarrow> Q e) \<Longrightarrow> precedes P' Q' es"
  by (induction es) auto

text \<open>What the recursive test says: before every \<open>Q\<close> there is a \<open>P\<close>.\<close>

lemma precedes_iff: "precedes P Q es \<longleftrightarrow> (\<forall>i<length es. Q (es ! i) \<longrightarrow> (\<exists>j<i. P (es ! j)))"
proof (induction es)
  case (Cons e es)
  show ?case
  proof
    assume l: "precedes P Q (e # es)"
    show "\<forall>i<length (e # es). Q ((e # es) ! i) \<longrightarrow> (\<exists>j<i. P ((e # es) ! j))"
    proof (intro allI impI)
      fix i assume i: "i < length (e # es)" "Q ((e # es) ! i)"
      with l obtain k where k: "i = Suc k" by (cases i) auto
      show "\<exists>j<i. P ((e # es) ! j)"
      proof (cases "P e")
        case True then show ?thesis using k by (intro exI [of _ 0]) simp
      next
        case False
        with l i k Cons.IH obtain j where "j < k" "P (es ! j)" by auto
        then show ?thesis using k by (intro exI [of _ "Suc j"]) simp
      qed
    qed
  next
    assume r: "\<forall>i<length (e # es). Q ((e # es) ! i) \<longrightarrow> (\<exists>j<i. P ((e # es) ! j))"
    have "\<not> Q e" using r by fastforce
    moreover have "precedes P Q es" if "\<not> P e"
      unfolding Cons.IH
    proof (intro allI impI)
      fix i assume "i < length es" "Q (es ! i)"
      with r obtain j where "j < Suc i" "P ((e # es) ! j)" by fastforce
      with that obtain k where "j = Suc k" "k < i" "P (es ! k)" by (cases j) auto
      then show "\<exists>j<i. P (es ! j)" by blast
    qed
    ultimately show "precedes P Q (e # es)" by auto
  qed
qed simp

named_theorems ordering

lemma guardedI: "(\<And>w. \<exists>es. w_trace (snd (m w)) = w_trace w @ es \<and> precedes P Q es) \<Longrightarrow> guarded P Q m"
  by (simp add: guarded_def)

lemma guardedE:
  assumes "guarded P Q m"
  obtains es where "w_trace (snd (m w)) = w_trace w @ es" "precedes P Q es"
  using assms unfolding guarded_def by blast

lemma guarded_emits: "emits (\<lambda>e. \<not> Q e) m \<Longrightarrow> guarded P Q m"
  unfolding emits_def guarded_def using precedes_none by blast

lemma guarded_catchA [ordering]:
  assumes "guarded P Q m" "\<And>r. guarded P Q (h r)"
  shows "guarded P Q (catchA m h)"
proof (rule guardedI)
  fix w
  obtain r w' where m: "m w = (r, w')" by (cases "m w")
  obtain es where "w_trace w' = w_trace w @ es" "precedes P Q es"
    using guardedE [OF assms(1), of w] by (auto simp: m)
  moreover obtain fs where "w_trace (snd (h r w')) = w_trace w' @ fs" "precedes P Q fs"
    using guardedE [OF assms(2)] .
  ultimately show "\<exists>es. w_trace (snd (catchA m h w)) = w_trace w @ es \<and> precedes P Q es"
    by (intro exI [of _ "es @ fs"]) (simp add: catchA_apply m precedes_append)
qed

lemma guarded_silent [ordering]: "guarded P Q (retA x)" "guarded P Q (errA e)" "guarded P Q (liftA r)"
  by (intro guarded_emits effects)+

lemma guarded_tryA [ordering]: "guarded P Q m \<Longrightarrow> (\<And>x. guarded P Q (f x)) \<Longrightarrow> guarded P Q (tryA m f)"
  unfolding tryA_def by (rule guarded_catchA) (auto split: sum.splits intro: ordering)

lemma guarded_wrapA [ordering]: "guarded P Q m \<Longrightarrow> guarded P Q (wrapA msg m)"
  unfolding wrapA_def by (rule guarded_catchA) (auto split: sum.splits intro: ordering)

lemma guarded_tryWrapA [ordering]:
  "guarded P Q m \<Longrightarrow> (\<And>x. guarded P Q (f x)) \<Longrightarrow> guarded P Q (tryWrapA msg m f)"
  unfolding tryWrapA_def by (intro ordering)

lemma guarded_if [ordering]:
  "(b \<Longrightarrow> guarded P Q m) \<Longrightarrow> (\<not> b \<Longrightarrow> guarded P Q n) \<Longrightarrow> guarded P Q (if b then m else n)"
  by simp

lemma guarded_case_option [ordering]:
  "(x = None \<Longrightarrow> guarded P Q m) \<Longrightarrow> (\<And>y. x = Some y \<Longrightarrow> guarded P Q (f y)) \<Longrightarrow>
     guarded P Q (case x of None \<Rightarrow> m | Some y \<Rightarrow> f y)"
  by (cases x) auto

lemma guarded_case_sum [ordering]:
  "(\<And>e. x = Inl e \<Longrightarrow> guarded P Q (f e)) \<Longrightarrow> (\<And>y. x = Inr y \<Longrightarrow> guarded P Q (g y)) \<Longrightarrow>
     guarded P Q (case x of Inl e \<Rightarrow> f e | Inr y \<Rightarrow> g y)"
  by (cases x) auto

lemma guarded_case_prod [ordering]:
  "(\<And>a b. x = (a, b) \<Longrightarrow> guarded P Q (f a b)) \<Longrightarrow> guarded P Q (case x of (a, b) \<Rightarrow> f a b)"
  by (cases x) auto

definition grows :: "('x, 'a) op \<Rightarrow> bool" where
  "grows m \<longleftrightarrow> (\<forall>w. \<exists>es. w_trace (snd (m w)) = w_trace w @ es)"

lemma emits_grows: "emits P m \<Longrightarrow> grows m"
  by (auto simp: emits_def grows_def)

text \<open>The step that gives the guarantee: once \<open>m\<close> has succeeded, the rest is free.\<close>

lemma guarded_after_grows:
  assumes "emits (\<lambda>e. \<not> Q e) m" "ensures P m" "\<And>x. grows (f x)"
  shows "guarded P Q (tryA m f)"
proof (rule guardedI)
  fix w
  obtain r w' where m: "m w = (r, w')" by (cases "m w")
  obtain es where es: "w_trace w' = w_trace w @ es" "list_all (\<lambda>e. \<not> Q e) es"
    using emitsE [OF assms(1), of w] by (auto simp: m)
  show "\<exists>es. w_trace (snd (tryA m f w)) = w_trace w @ es \<and> precedes P Q es"
  proof (cases r)
    case (Inl e)
    then show ?thesis using es by (auto simp: tryA_apply m intro: precedes_none)
  next
    case (Inr x)
    have "list_ex P es" using assms(2) es unfolding ensures_def
      by (metis Inr fst_conv isOk_simps(1) m same_append_eq snd_conv)
    moreover obtain fs where "w_trace (snd (f x w')) = w_trace w' @ fs"
      using assms(3) unfolding grows_def by blast
    ultimately show ?thesis using es Inr
      by (intro exI [of _ "es @ fs"]) (auto simp: tryA_apply m intro: precedes_append_found precedes_none)
  qed
qed

named_theorems growing

lemma grows_catchA [growing]:
  assumes "grows m" "\<And>r. grows (h r)"
  shows "grows (catchA m h)"
  unfolding grows_def
proof
  fix w
  obtain r w' where m: "m w = (r, w')" by (cases "m w")
  obtain es where "w_trace w' = w_trace w @ es" using assms(1) m unfolding grows_def by (metis snd_conv)
  moreover obtain fs where "w_trace (snd (h r w')) = w_trace w' @ fs" using assms(2) unfolding grows_def by blast
  ultimately show "\<exists>es. w_trace (snd (catchA m h w)) = w_trace w @ es" by (simp add: catchA_apply m)
qed

lemma grows_tryA [growing]: "grows m \<Longrightarrow> (\<And>x. grows (f x)) \<Longrightarrow> grows (tryA m f)"
  unfolding tryA_def by (rule grows_catchA) (auto split: sum.splits intro: emits_grows)

lemma grows_tryWrapA [growing]: "grows m \<Longrightarrow> (\<And>x. grows (f x)) \<Longrightarrow> grows (tryWrapA msg m f)"
  unfolding tryWrapA_def wrapA_def by (intro grows_tryA grows_catchA) (auto split: sum.splits intro: emits_grows)

lemma grows_case_option [growing]: "grows m \<Longrightarrow> (\<And>y. grows (f y)) \<Longrightarrow> grows (case x of None \<Rightarrow> m | Some y \<Rightarrow> f y)"
  by (cases x) auto

lemma guarded_after:
  "emits (\<lambda>e. \<not> Q e) m \<Longrightarrow> ensures P m \<Longrightarrow> (\<And>x. emits (\<lambda>_. True) (f x)) \<Longrightarrow> guarded P Q (tryA m f)"
  by (rule guarded_after_grows) (auto intro: emits_grows)

lemma ensuresE:
  assumes "ensures P m" and "m w = (r, w')"
  obtains es where "w_trace w' = w_trace w @ es" "isOk r \<Longrightarrow> list_ex P es"
  using assms unfolding ensures_def by (metis fst_conv snd_conv)

lemma ensuresI:
  assumes "\<And>w r w'. m w = (r, w') \<Longrightarrow> \<exists>es. w_trace w' = w_trace w @ es \<and> (isOk r \<longrightarrow> list_ex P es)"
  shows "ensures P m"
  unfolding ensures_def using assms by (metis prod.collapse)

lemma ensures_grows: "ensures P m \<Longrightarrow> grows m"
  by (auto simp: ensures_def grows_def)

lemma emits_ensuresE:
  assumes "grows m" and run: "m w = (r, w')"
  obtains es where "w_trace w' = w_trace w @ es" "ensures P m \<longrightarrow> isOk r \<longrightarrow> list_ex P es"
proof -
  obtain es where es: "w_trace w' = w_trace w @ es"
    using assms unfolding grows_def by (metis snd_conv)
  have "ensures P m \<longrightarrow> isOk r \<longrightarrow> list_ex P es"
    using es run unfolding ensures_def by (metis fst_conv snd_conv same_append_eq)
  with es show thesis by (rule that)
qed

lemma ensures_tryA_gen:
  assumes m: "grows m" and f: "\<And>x. grows (f x)"
    and one: "ensures P m \<or> (\<forall>x. ensures P (f x))"
  shows "ensures P (tryA m f)"
proof (rule ensuresI)
  fix w r w' assume run: "tryA m f w = (r, w')"
  obtain r1 w1 where m1: "m w = (r1, w1)" by (cases "m w")
  obtain es where es: "w_trace w1 = w_trace w @ es" "ensures P m \<longrightarrow> isOk r1 \<longrightarrow> list_ex P es"
    by (rule emits_ensuresE [where w = w and P = P, OF m m1])
  show "\<exists>es. w_trace w' = w_trace w @ es \<and> (isOk r \<longrightarrow> list_ex P es)"
  proof (cases r1)
    case (Inl e)
    then show ?thesis using run es by (auto simp: tryA_apply m1)
  next
    case (Inr x)
    with run have r2: "f x w1 = (r, w')" by (simp add: tryA_apply m1)
    obtain fs where fs: "w_trace w' = w_trace w1 @ fs" "ensures P (f x) \<longrightarrow> isOk r \<longrightarrow> list_ex P fs"
      by (rule emits_ensuresE [where w = w1 and P = P, OF f r2])
    then show ?thesis using es one Inr by (intro exI [of _ "es @ fs"]) auto
  qed
qed

lemma ensures_tryA_first: "ensures P m \<Longrightarrow> (\<And>x. emits (\<lambda>_. True) (f x)) \<Longrightarrow> ensures P (tryA m f)"
  by (rule ensures_tryA_gen) (auto intro: ensures_grows emits_grows)

lemma ensures_tryA_second: "emits (\<lambda>_. True) m \<Longrightarrow> (\<And>x. ensures P (f x)) \<Longrightarrow> ensures P (tryA m f)"
  by (rule ensures_tryA_gen) (auto intro: ensures_grows emits_grows)

lemma ensures_wrapA: "ensures P m \<Longrightarrow> ensures P (wrapA msg m)"
proof (rule ensuresI)
  fix w r w' assume "ensures P m" "wrapA msg m w = (r, w')"
  then show "\<exists>es. w_trace w' = w_trace w @ es \<and> (isOk r \<longrightarrow> list_ex P es)"
    by (cases "m w") (auto simp: wrapA_apply split: sum.splits elim!: ensuresE [where w = w])
qed

lemma ensures_tryWrapA_first:
  "ensures P m \<Longrightarrow> (\<And>x. emits (\<lambda>_. True) (f x)) \<Longrightarrow> ensures P (tryWrapA msg m f)"
  unfolding tryWrapA_def by (intro ensures_tryA_first ensures_wrapA)

lemma ensures_errA: "ensures P (errA e)"
  by (auto simp: ensures_def)

text \<open>From the calculus to the trace of a run that starts with an empty trace.\<close>

lemma guarded_run: "guarded P Q m \<Longrightarrow> precedes P Q (w_trace (snd (m (w\<lparr>w_trace := []\<rparr>))))"
  by (erule guardedE [of P Q m "w\<lparr>w_trace := []\<rparr>"]) simp

lemma emits_run: "emits P m \<Longrightarrow> list_all P (w_trace (snd (m (w\<lparr>w_trace := []\<rparr>))))"
  by (erule emitsE [of P m "w\<lparr>w_trace := []\<rparr>"]) simp

text \<open>The same for a run in the middle of an operation.\<close>

lemma emits_step:
  "emits P m \<Longrightarrow> m w = (r, w') \<Longrightarrow> list_all P (w_trace w) \<Longrightarrow> list_all P (w_trace w')"
  by (metis emitsE list_all_append snd_conv)

section \<open>How often\<close>

text \<open>\<open>atMost P k m\<close>: a run of \<open>m\<close> has at most \<open>k\<close> effects that satisfy \<open>P\<close>.\<close>

definition atMost :: "(event \<Rightarrow> bool) \<Rightarrow> nat \<Rightarrow> ('x, 'a) op \<Rightarrow> bool" where
  "atMost P k m \<longleftrightarrow> (\<forall>w. \<exists>es. w_trace (snd (m w)) = w_trace w @ es \<and> length (filter P es) \<le> k)"

lemma atMost_none: "emits (\<lambda>e. \<not> P e) m \<Longrightarrow> atMost P k m"
  unfolding emits_def atMost_def list_all_iff by (metis filter_False le0 list.size(3))

lemma atMost_catchA:
  assumes "atMost P j m" "\<And>r. atMost P k (h r)"
  shows "atMost P (j + k) (catchA m h)"
  unfolding atMost_def
proof
  fix w
  obtain r w' where m: "m w = (r, w')" by (cases "m w")
  obtain es where "w_trace w' = w_trace w @ es" "length (filter P es) \<le> j"
    using assms(1) [unfolded atMost_def, rule_format, of w] by (auto simp: m)
  moreover obtain fs where "w_trace (snd (h r w')) = w_trace w' @ fs" "length (filter P fs) \<le> k"
    using assms(2) [unfolded atMost_def, rule_format, of r w'] by auto
  ultimately show "\<exists>es. w_trace (snd (catchA m h w)) = w_trace w @ es \<and> length (filter P es) \<le> j + k"
    by (intro exI [of _ "es @ fs"]) (simp add: catchA_apply m)
qed

lemma atMost_tryA:
  assumes "atMost P j m" "\<And>x. atMost P k (f x)"
  shows "atMost P (j + k) (tryA m f)"
  unfolding tryA_def by (rule atMost_catchA [OF assms(1)]) (auto simp: assms(2) atMost_none split: sum.split)

lemma atMost_tryWrapA:
  assumes "atMost P j m" "\<And>x. atMost P k (f x)"
  shows "atMost P (j + k) (tryWrapA msg m f)"
proof -
  have "atMost P (j + 0) (wrapA msg m)"
    unfolding wrapA_def by (rule atMost_catchA [OF assms(1)]) (auto simp: atMost_none split: sum.split)
  then show ?thesis unfolding tryWrapA_def using atMost_tryA [OF _ assms(2), of _ m] assms(2)
    by (simp add: atMost_tryA)
qed

lemma atMost_runCmd: "atMost P 1 (runCmd E b args)"
  unfolding atMost_def runCmd_def
  by (auto simp: tryA_apply emitEvent_def queryCmd_def split: prod.splits)

lemma atMost_run: "atMost P k m \<Longrightarrow> length (filter P (w_trace (snd (m (w\<lparr>w_trace := []\<rparr>))))) \<le> k"
  unfolding atMost_def by (drule spec [of _ "w\<lparr>w_trace := []\<rparr>"]) auto

lemma quiet_not_mutates: "quiet e \<Longrightarrow> \<not> mutates e"
  by (simp add: mutates_def)

lemma mutates_simps [simp]:
  "\<not> mutates (Wrote p d)" "\<not> mutates (Removed p)" "\<not> mutates (Locked n)" "\<not> mutates (Unlocked n)"
  by (simp_all add: mutates_def isCmd_def)

lemma atMost_quiet: "emits quiet m \<Longrightarrow> atMost mutates k m"
  by (rule atMost_none, erule emits_mono) (rule quiet_not_mutates)

lemma atMost_before_catchA:
  "emits (\<lambda>e. \<not> P e) m \<Longrightarrow> (\<And>r. atMost P k (h r)) \<Longrightarrow> atMost P k (catchA m h)"
  using atMost_catchA [OF atMost_none, of P m k h 0] by simp

lemma atMost_after_catchA:
  "atMost P k m \<Longrightarrow> (\<And>r. emits (\<lambda>e. \<not> P e) (h r)) \<Longrightarrow> atMost P k (catchA m h)"
  using atMost_catchA [OF _ atMost_none, of P k m h 0] by simp

lemma atMost_cases:
  "(\<And>e. atMost P k (f e)) \<Longrightarrow> (\<And>y. atMost P k (g y)) \<Longrightarrow> atMost P k (case s of Inl e \<Rightarrow> f e | Inr y \<Rightarrow> g y)"
  "(\<And>a b. atMost P k (h a b)) \<Longrightarrow> atMost P k (case p of (a, b) \<Rightarrow> h a b)"
  "atMost P k m \<Longrightarrow> (\<And>z. atMost P k (i z)) \<Longrightarrow> atMost P k (case q of None \<Rightarrow> m | Some z \<Rightarrow> i z)"
  "atMost P k m \<Longrightarrow> atMost P k n \<Longrightarrow> atMost P k (if b then m else n)"
  by (simp_all split: sum.split prod.split option.split)

lemma emits_not_mutates: "emits quiet m \<Longrightarrow> emits (\<lambda>e. \<not> mutates e) m"
  by (erule emits_mono) (rule quiet_not_mutates)

lemma filter_at_most_one:
  assumes few: "length (filter P es) \<le> 1" and only: "list_all (\<lambda>e. P e \<longrightarrow> e = c) es"
  shows "filter P es = [] \<or> filter P es = [c]"
proof (cases "filter P es")
  case (Cons x xs)
  then have "x \<in> set (filter P es)" by simp
  then have "x = c" using only by (auto simp: list_all_iff)
  moreover have "xs = []" using few Cons by simp
  ultimately show ?thesis using Cons by simp
qed simp

section \<open>Whole traces\<close>

text \<open>\<open>traces \<Phi> m\<close>: the effects of every run of \<open>m\<close> satisfy \<open>\<Phi>\<close> together.\<close>

definition traces :: "(event list \<Rightarrow> bool) \<Rightarrow> ('x, 'a) op \<Rightarrow> bool" where
  "traces \<Phi> m \<longleftrightarrow> (\<forall>w. \<exists>es. w_trace (snd (m w)) = w_trace w @ es \<and> \<Phi> es)"

lemma tracesI: "(\<And>w. \<exists>es. w_trace (snd (m w)) = w_trace w @ es \<and> \<Phi> es) \<Longrightarrow> traces \<Phi> m"
  by (simp add: traces_def)

lemma tracesE:
  assumes "traces \<Phi> m" "m w = (r, w')"
  obtains es where "w_trace w' = w_trace w @ es" "\<Phi> es"
  using assms unfolding traces_def by (metis snd_conv)

lemma traces_run: "traces \<Phi> m \<Longrightarrow> \<Phi> (w_trace (snd (m (w\<lparr>w_trace := []\<rparr>))))"
  unfolding traces_def by (drule spec [of _ "w\<lparr>w_trace := []\<rparr>"]) auto

lemma traces_conj: "traces \<Phi> m \<Longrightarrow> traces \<Psi> m \<Longrightarrow> traces (\<lambda>es. \<Phi> es \<and> \<Psi> es) m"
  unfolding traces_def by (metis same_append_eq)

lemma traces_mono: "traces \<Phi> m \<Longrightarrow> (\<And>es. \<Phi> es \<Longrightarrow> \<Psi> es) \<Longrightarrow> traces \<Psi> m"
  unfolding traces_def by blast

lemma traces_emits: "emits P m \<Longrightarrow> traces (list_all P) m"
  by (simp add: traces_def emits_def)

lemma traces_guarded: "guarded P Q m \<Longrightarrow> traces (precedes P Q) m"
  by (simp add: traces_def guarded_def)

lemma traces_atMost: "atMost P k m \<Longrightarrow> traces (\<lambda>es. length (filter P es) \<le> k) m"
  by (simp add: traces_def atMost_def)

lemma traces_tryA_silent:
  assumes silent: "emits (\<lambda>_. False) m" and empty: "\<Phi> []"
    and f: "\<And>w x w'. m w = (Inr x, w') \<Longrightarrow> traces \<Phi> (f x)"
  shows "traces \<Phi> (tryA m f)"
proof (rule tracesI)
  fix w
  obtain r w' where m: "m w = (r, w')" by (cases "m w")
  have t: "w_trace w' = w_trace w"
    using emitsE [OF silent, of w] m by (metis append_Nil2 list.pred_inject(2) neq_Nil_conv snd_conv)
  show "\<exists>es. w_trace (snd (tryA m f w)) = w_trace w @ es \<and> \<Phi> es"
  proof (cases r)
    case (Inl e)
    then show ?thesis using t empty by (simp add: tryA_apply m)
  next
    case (Inr x)
    then obtain es where "w_trace (snd (f x w')) = w_trace w' @ es" "\<Phi> es"
      using f [of w x w'] m by (metis tracesE prod.collapse)
    then show ?thesis using t Inr by (auto simp: tryA_apply m)
  qed
qed

section \<open>Results\<close>

text \<open>\<open>yields R m\<close>: whenever \<open>m\<close> succeeds, its result satisfies \<open>R\<close>.\<close>

definition yields :: "('a \<Rightarrow> bool) \<Rightarrow> ('x, 'a) op \<Rightarrow> bool" where
  "yields R m \<longleftrightarrow> (\<forall>w x. fst (m w) = Inr x \<longrightarrow> R x)"

named_theorems results

lemma yieldsI: "(\<And>w x w'. m w = (Inr x, w') \<Longrightarrow> R x) \<Longrightarrow> yields R m"
  unfolding yields_def by (metis prod.collapse)

lemma yieldsD: "yields R m \<Longrightarrow> m w = (Inr x, w') \<Longrightarrow> R x"
  unfolding yields_def by (metis fst_conv)

lemma yields_run: "yields R m \<Longrightarrow> (case fst (m w) of Inl _ \<Rightarrow> True | Inr x \<Rightarrow> R x)"
  unfolding yields_def by (auto split: sum.split)

lemma yields_retA [results]: "R x \<Longrightarrow> yields R (retA x)"
  by (simp add: yields_def)

lemma yields_errA [results]: "yields R (errA e)"
  by (simp add: yields_def)

lemma yields_catchA [results]: "(\<And>r. yields R (h r)) \<Longrightarrow> yields R (catchA m h)"
  unfolding yields_def by (auto simp: catchA_apply split: prod.splits) 

lemma yields_tryA [results]: "(\<And>x. yields R (f x)) \<Longrightarrow> yields R (tryA m f)"
  unfolding tryA_def by (rule yields_catchA) (auto split: sum.splits intro: results)

text \<open>The result of the first part can be used in the second.\<close>

lemma yields_tryA_from: "yields Q m \<Longrightarrow> (\<And>x. Q x \<Longrightarrow> yields R (f x)) \<Longrightarrow> yields R (tryA m f)"
  unfolding yields_def by (auto simp: tryA_apply split: sum.splits prod.splits) (metis fst_conv)

lemma yields_catchA_from:
  "yields Q m \<Longrightarrow> (\<And>r. (\<And>x. r = Inr x \<Longrightarrow> Q x) \<Longrightarrow> yields R (h r)) \<Longrightarrow> yields R (catchA m h)"
  unfolding yields_def by (auto simp: catchA_apply split: prod.splits) (metis fst_conv)

lemma yields_wrapA [results]: "yields R m \<Longrightarrow> yields R (wrapA msg m)"
  unfolding yields_def by (auto simp: wrapA_apply split: sum.splits prod.splits) (metis fst_conv)

lemma yields_tryWrapA [results]: "(\<And>x. yields R (f x)) \<Longrightarrow> yields R (tryWrapA msg m f)"
  unfolding tryWrapA_def by (rule yields_tryA)

lemma yields_if [results]: "(b \<Longrightarrow> yields R m) \<Longrightarrow> (\<not> b \<Longrightarrow> yields R n) \<Longrightarrow> yields R (if b then m else n)"
  by simp

lemma yields_case_option [results]:
  "(x = None \<Longrightarrow> yields R m) \<Longrightarrow> (\<And>y. x = Some y \<Longrightarrow> yields R (f y)) \<Longrightarrow> yields R (case x of None \<Rightarrow> m | Some y \<Rightarrow> f y)"
  by (cases x) auto

lemma yields_case_sum [results]:
  "(\<And>e. x = Inl e \<Longrightarrow> yields R (f e)) \<Longrightarrow> (\<And>y. x = Inr y \<Longrightarrow> yields R (g y)) \<Longrightarrow> yields R (case x of Inl e \<Rightarrow> f e | Inr y \<Rightarrow> g y)"
  by (cases x) auto

lemma yields_case_prod [results]:
  "(\<And>a b. x = (a, b) \<Longrightarrow> yields R (f a b)) \<Longrightarrow> yields R (case x of (a, b) \<Rightarrow> f a b)"
  by (cases x) auto

lemma yields_mono: "yields Q m \<Longrightarrow> (\<And>x. Q x \<Longrightarrow> R x) \<Longrightarrow> yields R m"
  unfolding yields_def by blast

section \<open>An example environment\<close>

text \<open>
  A host without faults whose runtime answers with \<open>answer\<close>; the witnesses of the
  properties run on it.
\<close>

definition scriptedEnv :: "(string list \<Rightarrow> cmdResult) \<Rightarrow> unit env" where
  "scriptedEnv answer = \<lparr>e_host = exampleHost, e_euid = 501, e_egid = 20, e_run = (\<lambda>x b args. (answer args, x)),
     e_probeAPI = (\<lambda>x c m. (True, x)), e_now = (\<lambda>_. 1000), e_ctxErr = (\<lambda>_. None), e_ticks = (\<lambda>_. 2),
     e_lock = (\<lambda>x n. (Inr (), x)), e_unlock = (\<lambda>x n. (None, x)), e_writeFault = (\<lambda>_ _ _. None),
     e_fileFault = (\<lambda>_ _ _. None), e_docSize = (\<lambda>_. 100), e_random = (\<lambda>_. Inr ''ab12''),
     e_dirInfo = (\<lambda>_ _. Inr \<lparr>fi_symlink = False, fi_regular = False, fi_dir = True, fi_perm = 448,
       fi_uid = 501, fi_gid = 20, fi_inode = 2, fi_size = 64\<rparr>),
     e_yamlParse = (\<lambda>d. Inr (YNode YMapping [] [YNode YScalar ''server'' [], YNode YScalar [] []])),
     e_yamlPrint = (\<lambda>n. Text ''kubeconfig''), e_tlsConfig = (\<lambda>_. Inr ()),
     e_probeReady = (\<lambda>x _ _. (True, x)), e_abs = Inr, e_evalLinks = (\<lambda>_ p. Inr p), e_readDir = (\<lambda>_ _. Inr []),
     e_sha256 = (\<lambda>_. replicate 64 CHR ''0''), e_stamp = (\<lambda>_. ''20260101t000000z''),
     e_dirOp = (\<lambda>x _ _. (None, x)), e_shared = (\<lambda>_ _. None), e_interfaces = (\<lambda>_. Inr []),
     e_feed = (\<lambda>x _. x), e_tarEntries = (\<lambda>_. Inr [])\<rparr>"

definition okResult :: "document \<Rightarrow> cmdResult" where
  "okResult out = \<lparr>cr_stdout = out, cr_stderr = [], cr_err = None, cr_ctxErr = None\<rparr>"

definition failedResult :: "string \<Rightarrow> cmdResult" where
  "failedResult stderr = \<lparr>cr_stdout = Text [], cr_stderr = stderr, cr_err = Some (Msg ''exit status 1''), cr_ctxErr = None\<rparr>"

definition idleEnv :: "unit env" where
  "idleEnv = scriptedEnv (\<lambda>_. failedResult ''not found'')"

definition emptyWorld :: "unit world" where
  "emptyWorld = \<lparr>w_ext = (), w_fs = (\<lambda>_. None), w_inode = 1, w_trace = [], w_answers = []\<rparr>"

end
