(* ===== verification/Store.thy ===== *)
theory Store
  imports World
begin

text \<open>
  Protected state files.  \<open>readExactProtected\<close> is the text that
  \<open>readExactHADesiredStateFile\<close> (\<open>ha_desired_state.go\<close> lines 87 to 131) and
  \<open>readExactHARecoveryStateFile\<close> (\<open>ha_recovery.go\<close> lines 2707 to 2748) share, as a
  function of what each system call returns; \<open>observeFile\<close> is what they return for a file
  of the model that nobody changes meanwhile.  The locale \<open>atomic_store\<close> is the contract of a
  record kept in one file written with \<open>writePrivateFileAtomic\<close>: whatever faults the file
  system has, the file always holds a record that decodes and is valid.
  A time is its number of nanoseconds since year 1 (\<open>0\<close> is the zero time), and its RFC 3339
  text is represented by that number.
\<close>

section \<open>Reading a protected file\<close>

record fileObs =
  ob_lstat :: "gerror + fileInfo"
  ob_open :: "gerror option"
  ob_fstat :: "gerror + fileInfo"
  ob_read :: "gerror + document \<times> int"
  ob_final :: "gerror + fileInfo"
  ob_close :: "gerror option"

definition validateProtectedInfo :: "int \<Rightarrow> fileInfo \<Rightarrow> gerror + unit" where
  "validateProtectedInfo euid info =
     (if fi_symlink info \<or> \<not> fi_regular info \<or> groupOrOther info \<or> fi_uid info \<noteq> euid
      then Inl (Msg ''state must be one private regular file owned by the current user'') else Inr ())"

text \<open>The size of the opened file is checked by the reader of the desired state only.\<close>

definition readOpenedFile :: "int \<Rightarrow> int \<Rightarrow> bool \<Rightarrow> fileInfo \<Rightarrow> fileObs \<Rightarrow> gerror + document" where
  "readOpenedFile euid maximum checkSize pathInfo ob =
     tryS (wrapS ''inspect opened state'' (ob_fstat ob)) (\<lambda>openedInfo.
     tryS (validateProtectedInfo euid openedInfo) (\<lambda>_.
     if fi_inode pathInfo \<noteq> fi_inode openedInfo then Inl (Msg ''state changed while it was being opened'')
     else if checkSize \<and> maximum < fi_size openedInfo then Inl (Msg ''state exceeds maximum size'')
     else tryS (wrapS ''read state'' (ob_read ob)) (\<lambda>(data, n).
     if maximum < n then Inl (Msg ''state exceeds maximum size'')
     else tryS (wrapS ''reinspect state after reading'' (ob_final ob)) (\<lambda>finalInfo.
     tryS (validateProtectedInfo euid finalInfo) (\<lambda>_.
     if fi_inode openedInfo \<noteq> fi_inode finalInfo then Inl (Msg ''state changed while it was being read'')
     else Inr data)))))"

definition readExactProtected :: "int \<Rightarrow> int \<Rightarrow> bool \<Rightarrow> fileObs \<Rightarrow> gerror + document" where
  "readExactProtected euid maximum checkSize ob =
     tryS (wrapS ''read state'' (ob_lstat ob)) (\<lambda>pathInfo.
     tryS (validateProtectedInfo euid pathInfo) (\<lambda>_.
     case ob_open ob of
       Some e \<Rightarrow> Inl (Wrap ''open state without following links'' e)
     | None \<Rightarrow> (case ob_close ob of
           None \<Rightarrow> readOpenedFile euid maximum checkSize pathInfo ob
         | Some c \<Rightarrow> (case readOpenedFile euid maximum checkSize pathInfo ob of
               Inl e \<Rightarrow> Inl (Joined [e, c]) | Inr _ \<Rightarrow> Inl (Joined [c])))))"

definition observeFile :: "'x env \<Rightarrow> string \<Rightarrow> 'x world \<Rightarrow> fileObs" where
  "observeFile E path w = (let stat = fst (statFile E path w); fault = e_fileFault E (w_ext w) in
     \<lparr>ob_lstat = stat, ob_open = fault ''open'' path, ob_fstat = stat,
      ob_read = (case fst (readFile E path w) of Inl e \<Rightarrow> Inl e | Inr d \<Rightarrow> Inr (d, e_docSize E d)),
      ob_final = stat, ob_close = fault ''close'' path\<rparr>)"

section \<open>Times\<close>

definition parseInstant :: "string \<Rightarrow> int option" where
  "parseInstant s = (let neg = (s \<noteq> [] \<and> hd s = CHR ''-''); body = (if neg then tl s else s) in
     if body = [] \<or> \<not> list_all isDigit body then None
     else Some (if neg then - decVal body else decVal body))"

fun dTime :: "int decoder" where
  "dTime JNull = Inr 0"
| "dTime (JStr s) = (case parseInstant s of Some n \<Rightarrow> Inr n | None \<Rightarrow> jsonError)"
| "dTime _ = jsonError"

definition JTime :: "int \<Rightarrow> json" where
  "JTime t = JStr (itoa t)"

lemma parseInstant_itoa: "parseInstant (itoa t) = Some t"
  using natToDec_hd_digit [of t] not_isDigit_minus natToDec_digits [of t] natToDec_digits [of "- t"]
  by (auto simp: parseInstant_def itoa_def Let_def)

lemma dTime_JTime [simp]: "dTime (JTime t) = Inr t"
  by (simp add: JTime_def parseInstant_itoa)

section \<open>Lemmas on reading\<close>

definition protectedInfo :: "int \<Rightarrow> fileInfo \<Rightarrow> bool" where
  "protectedInfo euid info \<longleftrightarrow> \<not> fi_symlink info \<and> fi_regular info \<and> \<not> groupOrOther info \<and> fi_uid info = euid"

lemma validateProtectedInfo_Inr [simp]: "validateProtectedInfo euid info = Inr u \<longleftrightarrow> protectedInfo euid info"
  by (auto simp: validateProtectedInfo_def protectedInfo_def)

lemma readOpenedFile_Inr:
  "readOpenedFile euid maximum checkSize pathInfo ob = Inr d \<longleftrightarrow>
     (\<exists>opened n final. ob_fstat ob = Inr opened \<and> protectedInfo euid opened
       \<and> fi_inode pathInfo = fi_inode opened \<and> (checkSize \<longrightarrow> fi_size opened \<le> maximum)
       \<and> ob_read ob = Inr (d, n) \<and> n \<le> maximum \<and> ob_final ob = Inr final
       \<and> protectedInfo euid final \<and> fi_inode opened = fi_inode final)"
  unfolding readOpenedFile_def
  by (cases "ob_fstat ob"; cases "ob_read ob"; cases "ob_final ob") auto

text \<open>What a successful read has seen: one private regular file, before, while and after.\<close>

definition protectedRead :: "int \<Rightarrow> int \<Rightarrow> bool \<Rightarrow> fileObs \<Rightarrow> document \<Rightarrow> bool" where
  "protectedRead euid maximum checkSize ob d \<longleftrightarrow>
     (case (ob_lstat ob, ob_fstat ob, ob_read ob, ob_final ob) of
        (Inr path, Inr opened, Inr (d', n), Inr final) \<Rightarrow>
          d' = d \<and> list_all (protectedInfo euid) [path, opened, final]
          \<and> fi_inode path = fi_inode opened \<and> fi_inode opened = fi_inode final
          \<and> n \<le> maximum \<and> (checkSize \<longrightarrow> fi_size opened \<le> maximum)
      | _ \<Rightarrow> False)
     \<and> ob_open ob = None \<and> ob_close ob = None"

lemma readExactProtected_Inr:
  "readExactProtected euid maximum checkSize ob = Inr d \<longleftrightarrow> protectedRead euid maximum checkSize ob d"
proof -
  have "readExactProtected euid maximum checkSize ob = Inr d \<longleftrightarrow>
      (\<exists>path. ob_lstat ob = Inr path \<and> protectedInfo euid path \<and> ob_open ob = None \<and> ob_close ob = None
        \<and> readOpenedFile euid maximum checkSize path ob = Inr d)"
    unfolding readExactProtected_def
    by (cases "ob_close ob"; cases "ob_open ob"; cases "ob_lstat ob") (auto split: sum.split)
  then show ?thesis
    by (auto simp: protectedRead_def readOpenedFile_Inr split: sum.splits)
qed

lemma emits_observe [effects]: "emits P (getA (observeFile E path))"
  by (rule effects)

section \<open>Writing: what the file holds afterwards\<close>

definition contentAt :: "string \<Rightarrow> 'x world \<Rightarrow> document option" where
  "contentAt path w = map_option fn_doc (w_fs w path)"

lemma writeStepA_cases:
  "writeStepA E p s msg w = (r, w') \<Longrightarrow> w' = w"
  by (auto simp: writeStepA_def split: option.splits)

text \<open>
  The write either leaves every file as it was and fails, or replaces the one file; it
  can only fail after the replacement in the last step.
\<close>

definition placed :: "'x env \<Rightarrow> string \<Rightarrow> document \<Rightarrow> 'x world \<Rightarrow> 'x world" where
  "placed E path doc w = w\<lparr>w_fs := (w_fs w)(path \<mapsto> \<lparr>fn_info = privateInfo E (w_inode w) doc, fn_doc = doc\<rparr>),
     w_inode := w_inode w + 1, w_trace := w_trace w @ [Wrote path doc]\<rparr>"

lemma writePrivateFileAtomic_cases:
  assumes "writePrivateFileAtomic E path doc w = (r, w')"
  shows "(\<not> isOk r \<and> w' = w) \<or> w' = placed E path doc w"
  using assms unfolding writePrivateFileAtomic_def
  by (auto simp: tryA_apply writeStepA_def placeFile_def placed_def split: option.splits)

lemma writePrivateFileAtomic_ok:
  "writePrivateFileAtomic E path doc w = (Inr u, w') \<Longrightarrow> w' = placed E path doc w"
  using writePrivateFileAtomic_cases by fastforce

lemma placed_simps [simp]:
  "contentAt path (placed E path doc w) = Some doc"
  "q \<noteq> path \<Longrightarrow> contentAt q (placed E path doc w) = contentAt q w"
  "w_ext (placed E path doc w) = w_ext w"
  "w_trace (placed E path doc w) = w_trace w @ [Wrote path doc]"
  by (simp_all add: contentAt_def placed_def)

lemma ensures_writePrivateFileAtomic:
  assumes "P (Wrote path doc)"
  shows "ensures P (writePrivateFileAtomic E path doc)"
proof (rule ensuresI)
  fix w r w' assume "writePrivateFileAtomic E path doc w = (r, w')"
  from writePrivateFileAtomic_cases [OF this] assms
  show "\<exists>es. w_trace w' = w_trace w @ es \<and> (isOk r \<longrightarrow> list_ex P es)" by auto
qed

text \<open>A file just written is read back, when its size is allowed and no system call fails.\<close>

definition faultFree :: "'x env \<Rightarrow> string \<Rightarrow> 'x world \<Rightarrow> bool" where
  "faultFree E path w \<longleftrightarrow>
     list_all (\<lambda>call. e_fileFault E (w_ext w) call path = None) [''stat'', ''open'', ''read'', ''close'']"

lemma readExact_placed:
  assumes "faultFree E path w" "e_docSize E doc \<le> maximum"
  shows "readExactProtected (e_euid E) maximum checkSize (observeFile E path (placed E path doc w)) = Inr doc"
  unfolding readExactProtected_Inr using assms
  by (simp add: protectedRead_def observeFile_def Let_def statFile_def readFile_def faultFree_def
      placed_def privateInfo_def protectedInfo_def groupOrOther_def)

section \<open>The contract of a record kept in one file\<close>

text \<open>
  \<open>save x\<close> writes the encoding of \<open>norm w x\<close> (the record as the code completes it before
  writing) to the file \<open>content\<close> looks at, or fails; \<open>dec\<close> decodes; \<open>rep\<close> holds of the
  values Go can represent, and \<open>valid\<close> is the part of the record's validity that does not
  depend on the clock.
\<close>

locale atomic_store =
  fixes save :: "'s \<Rightarrow> ('w, unit) act"
    and content :: "'s \<Rightarrow> 'w \<Rightarrow> document option"
    and norm :: "'w \<Rightarrow> 's \<Rightarrow> 's"
    and enc :: "'s \<Rightarrow> document"
    and dec :: "document \<Rightarrow> gerror + 's"
    and rep :: "'s \<Rightarrow> bool"
    and valid :: "'s \<Rightarrow> bool"
  assumes save_cases: "rep x \<Longrightarrow> save x w = (r, w') \<Longrightarrow>
      (\<not> isOk r \<and> content x w' = content x w)
      \<or> (content x w' = Some (enc (norm w x)) \<and> valid (norm w x))"
    and dec_enc: "valid y \<Longrightarrow> dec (enc y) = Inr y"
begin

definition good :: "'s \<Rightarrow> 'w \<Rightarrow> bool" where
  "good x w \<longleftrightarrow> (case content x w of None \<Rightarrow> True
     | Some d \<Rightarrow> (case dec d of Inl _ \<Rightarrow> False | Inr y \<Rightarrow> valid y))"

text \<open>A successful save is read back; a failed one leaves the old record or the new one.\<close>

lemma read_back:
  "rep x \<Longrightarrow> save x w = (Inr u, w') \<Longrightarrow> map_option dec (content x w') = Some (Inr (norm w x))"
  using save_cases dec_enc by fastforce

lemma old_or_new:
  "rep x \<Longrightarrow> save x w = (r, w') \<Longrightarrow> content x w' = content x w \<or> content x w' = Some (enc (norm w x))"
  using save_cases by blast

lemma stays_good: "rep x \<Longrightarrow> good x w \<Longrightarrow> save x w = (r, w') \<Longrightarrow> good x w'"
  using save_cases [of x w r w'] dec_enc unfolding good_def by (auto split: option.splits)

lemma saved_good: "rep x \<Longrightarrow> save x w = (Inr u, w') \<Longrightarrow> good x w'"
  using save_cases [of x w "Inr u" w'] dec_enc unfolding good_def by auto

end

end
