(* ===== verification/Desired.thy ===== *)
theory Desired
  imports Store
begin

text \<open>
  Operator intent (\<open>internal/cluster/ha_desired_state.go\<close>): the record, its file, its
  validation, and the operations that change it.  Every operation loads the record, changes
  it and saves it; the record is valid, and its file always decodes to a valid record.
\<close>

section \<open>The record and its encoding\<close>

record HADesiredState =
  ds_APIVersion :: string
  ds_Kind :: string
  ds_Cluster :: string
  ds_ClusterState :: string
  ds_StoppedMembers :: "int list"
  ds_UpdatedAt :: int

definition haDesiredStateAPIVersion :: string where
  "haDesiredStateAPIVersion = ''apc.dev/v1alpha1''"

definition haDesiredStateKind :: string where
  "haDesiredStateKind = ''HADesiredState''"

definition haDesiredRunning :: string where
  "haDesiredRunning = ''Running''"

definition haDesiredStopped :: string where
  "haDesiredStopped = ''Stopped''"

definition haDesiredStateMaximum :: int where
  "haDesiredStateMaximum = 16384"

definition encodeDesired :: "HADesiredState \<Rightarrow> document" where
  "encodeDesired st = Json (JObj (
     [(''apiVersion'', JStr (ds_APIVersion st)), (''kind'', JStr (ds_Kind st)),
      (''cluster'', JStr (ds_Cluster st)), (''clusterState'', JStr (ds_ClusterState st))]
     @ (if ds_StoppedMembers st = [] then []
        else [(''stoppedMembers'', JArr (map JInt (ds_StoppedMembers st)))])
     @ [(''updatedAt'', JTime (ds_UpdatedAt st))]))"

definition dHADesiredState :: "HADesiredState decoder" where
  "dHADesiredState j = tryS (objFields j) (\<lambda>kvs.
     if \<not> onlyFields [''apiVersion'', ''kind'', ''cluster'', ''clusterState'', ''stoppedMembers'', ''updatedAt''] kvs
     then Inl (Msg ''json: unknown field'')
     else at dString ''apiVersion'' kvs (\<lambda>a. at dString ''kind'' kvs (\<lambda>k. at dString ''cluster'' kvs (\<lambda>c.
       at dString ''clusterState'' kvs (\<lambda>cs. at (dList dInt) ''stoppedMembers'' kvs (\<lambda>ms.
       at dTime ''updatedAt'' kvs (\<lambda>t.
         Inr \<lparr>ds_APIVersion = a, ds_Kind = k, ds_Cluster = c, ds_ClusterState = cs,
              ds_StoppedMembers = ms, ds_UpdatedAt = t\<rparr>)))))))"

section \<open>Operations\<close>

definition haDesiredStatePath :: "hostEnv \<Rightarrow> string \<Rightarrow> gerror + string" where
  "haDesiredStatePath H name = tryS (HAConfigPath H name) (\<lambda>configPath.
     Inr (joinPath [dirPath configPath, ''ha-desired-state.json'']))"

definition defaultHADesiredState :: "string \<Rightarrow> HADesiredState" where
  "defaultHADesiredState name = \<lparr>ds_APIVersion = haDesiredStateAPIVersion, ds_Kind = haDesiredStateKind,
     ds_Cluster = name, ds_ClusterState = haDesiredRunning, ds_StoppedMembers = [], ds_UpdatedAt = 0\<rparr>"

fun stoppedMembersSorted :: "int \<Rightarrow> int list \<Rightarrow> bool" where
  "stoppedMembersSorted previous [] = True"
| "stoppedMembersSorted previous (i # ids) =
     (\<not> (i < 1 \<or> haMemberCount < i \<or> i \<le> previous) \<and> stoppedMembersSorted i ids)"

definition validateHADesiredState :: "int \<Rightarrow> HADesiredState \<Rightarrow> string \<Rightarrow> gerror + unit" where
  "validateHADesiredState now st name =
     (if ds_APIVersion st \<noteq> haDesiredStateAPIVersion \<or> ds_Kind st \<noteq> haDesiredStateKind \<or> ds_Cluster st \<noteq> name
      then Inl (Msg ''HA desired state identity does not match cluster'')
      else if ds_ClusterState st \<noteq> haDesiredRunning \<and> ds_ClusterState st \<noteq> haDesiredStopped
      then Inl (Msg ''HA desired cluster state must be Running or Stopped'')
      else if 1 < length (ds_StoppedMembers st)
      then Inl (Msg ''HA desired state may intentionally stop at most one member while the cluster is running'')
      else if \<not> stoppedMembersSorted 0 (ds_StoppedMembers st)
      then Inl (Msg ''HA desired stopped members must be unique sorted IDs 1, 2, or 3'')
      else if ds_UpdatedAt st = 0 \<or> now + 300 * second < ds_UpdatedAt st
      then Inl (Msg ''HA desired state has an invalid update time'')
      else Inr ())"

definition readExactHADesiredStateFile :: "int \<Rightarrow> fileObs \<Rightarrow> gerror + document" where
  "readExactHADesiredStateFile euid ob = readExactProtected euid haDesiredStateMaximum True ob"

definition loadHADesiredState :: "'x env \<Rightarrow> string \<Rightarrow> ('x, HADesiredState) op" where
  "loadHADesiredState E name =
     tryA (liftA (haDesiredStatePath (e_host E) name)) (\<lambda>path.
     catchA (tryA (getA (observeFile E path)) (\<lambda>ob. liftA (readExactHADesiredStateFile (e_euid E) ob))) (\<lambda>r.
     case r of
       Inl e \<Rightarrow> if errorsIs e ErrNotExist then retA (defaultHADesiredState name) else errA e
     | Inr data \<Rightarrow>
         tryWrapA ''decode HA desired state'' (liftA (decodeDoc dHADesiredState data)) (\<lambda>st.
         tryA (askExt (e_now E)) (\<lambda>now.
         tryA (liftA (validateHADesiredState now st name)) (\<lambda>_. retA st)))))"

definition completeDesired :: "int \<Rightarrow> HADesiredState \<Rightarrow> HADesiredState" where
  "completeDesired now st = st\<lparr>ds_APIVersion := haDesiredStateAPIVersion, ds_Kind := haDesiredStateKind,
     ds_UpdatedAt := now, ds_StoppedMembers := sort (ds_StoppedMembers st)\<rparr>"

definition saveHADesiredState :: "'x env \<Rightarrow> HADesiredState \<Rightarrow> ('x, unit) op" where
  "saveHADesiredState E st0 =
     tryA (askExt (e_now E)) (\<lambda>now.
     let st = completeDesired now st0 in
     tryA (liftA (validateHADesiredState now st (ds_Cluster st))) (\<lambda>_.
     tryA (liftA (haDesiredStatePath (e_host E) (ds_Cluster st))) (\<lambda>path.
     wrapA ''save HA desired state'' (writePrivateFileAtomic E path (encodeDesired st)))))"

definition haMemberIntentionallyStopped :: "HADesiredState \<Rightarrow> int \<Rightarrow> bool" where
  "haMemberIntentionallyStopped st i = list_ex (\<lambda>stopped. stopped = i) (ds_StoppedMembers st)"

definition withMemberIntent :: "int \<Rightarrow> bool \<Rightarrow> HADesiredState \<Rightarrow> HADesiredState" where
  "withMemberIntent i stopped st = st\<lparr>ds_StoppedMembers :=
     filter (\<lambda>candidate. candidate \<noteq> i) (ds_StoppedMembers st) @ (if stopped then [i] else [])\<rparr>"

definition setHAMemberIntentLocked :: "'x env \<Rightarrow> string \<Rightarrow> int \<Rightarrow> bool \<Rightarrow> ('x, unit) op" where
  "setHAMemberIntentLocked E name i stopped =
     tryA (loadHADesiredState E name) (\<lambda>st. saveHADesiredState E (withMemberIntent i stopped st))"

definition markHAClusterStoppedLocked :: "'x env \<Rightarrow> string \<Rightarrow> ('x, unit) op" where
  "markHAClusterStoppedLocked E name =
     tryA (loadHADesiredState E name) (\<lambda>st.
       saveHADesiredState E (st\<lparr>ds_ClusterState := haDesiredStopped\<rparr>))"

definition markHAClusterRunningLocked :: "'x env \<Rightarrow> string \<Rightarrow> ('x, unit) op" where
  "markHAClusterRunningLocked E name =
     tryA (loadHADesiredState E name) (\<lambda>st.
       saveHADesiredState E (st\<lparr>ds_ClusterState := haDesiredRunning, ds_StoppedMembers := []\<rparr>))"

section \<open>The round trip through the file\<close>

lemmas field_eval = jField_def at_def equalFold_def toLower_def lowerChar_def isUpperAlpha_def onlyFields_def

definition validDesired :: "HADesiredState \<Rightarrow> bool" where
  "validDesired st \<longleftrightarrow> ds_APIVersion st = haDesiredStateAPIVersion \<and> ds_Kind st = haDesiredStateKind
     \<and> ds_ClusterState st \<in> {haDesiredRunning, haDesiredStopped} \<and> length (ds_StoppedMembers st) \<le> 1
     \<and> list_all (\<lambda>i. 1 \<le> i \<and> i \<le> 3) (ds_StoppedMembers st) \<and> ds_UpdatedAt st \<noteq> 0"

lemma stoppedMembersSorted_range: "stoppedMembersSorted p ids \<Longrightarrow> list_all (\<lambda>i. 1 \<le> i \<and> i \<le> 3) ids"
  by (induction ids arbitrary: p) auto

lemma validateHADesiredState_Inr:
  "validateHADesiredState now st name = Inr u \<longleftrightarrow>
     validDesired st \<and> ds_Cluster st = name \<and> ds_UpdatedAt st \<le> now + 300 * second"
proof -
  have "stoppedMembersSorted 0 ids \<longleftrightarrow> list_all (\<lambda>i. 1 \<le> i \<and> i \<le> 3) ids" if "length ids \<le> 1" for ids
    using that by (cases ids) auto
  then show ?thesis
    by (auto simp: validateHADesiredState_def validDesired_def)
qed

lemma dList_dInt_JInt:
  assumes "list_all (\<lambda>i. 1 \<le> i \<and> i \<le> 3) ids"
  shows "dList dInt (JArr (map JInt ids)) = Inr ids"
  using assms by (intro dList_JArr_map dInt_JInt) (auto simp: list_all_iff)

lemma decode_encodeDesired:
  assumes "validDesired st"
  shows "decodeDoc dHADesiredState (encodeDesired st) = Inr st"
proof -
  have ids: "dList dInt (JArr (map JInt (ds_StoppedMembers st))) = Inr (ds_StoppedMembers st)"
    using assms by (intro dList_dInt_JInt) (simp add: validDesired_def)
  show ?thesis
  proof (cases "ds_StoppedMembers st = []")
    case True
    then show ?thesis by (simp add: encodeDesired_def dHADesiredState_def field_eval)
  next
    case False
    then show ?thesis using ids
      by (simp add: encodeDesired_def dHADesiredState_def field_eval del: dList.simps)
  qed
qed

section \<open>The contract of the store\<close>

definition desiredContent :: "'x env \<Rightarrow> string \<Rightarrow> 'x world \<Rightarrow> document option" where
  "desiredContent E name w = (case haDesiredStatePath (e_host E) name of
     Inl _ \<Rightarrow> None | Inr path \<Rightarrow> contentAt path w)"

lemma completeDesired_Cluster [simp]: "ds_Cluster (completeDesired now st) = ds_Cluster st"
  by (simp add: completeDesired_def)

lemma saveHADesiredState_cases:
  assumes "saveHADesiredState E st w = (r, w')"
  defines "st' \<equiv> completeDesired (e_now E (w_ext w)) st"
  shows "(\<not> isOk r \<and> w' = w)
    \<or> (\<exists>path. haDesiredStatePath (e_host E) (ds_Cluster st) = Inr path
         \<and> w' = placed E path (encodeDesired st') w \<and> validDesired st')"
proof (cases "validateHADesiredState (e_now E (w_ext w)) st' (ds_Cluster st)")
  case (Inl e)
  then have "saveHADesiredState E st w = (Inl e, w)"
    by (simp add: saveHADesiredState_def act_apply askExt_def Let_def st'_def)
  with assms(1) show ?thesis by auto
next
  case v: (Inr u)
  then have valid: "validDesired st'" by (simp add: validateHADesiredState_Inr)
  show ?thesis
  proof (cases "haDesiredStatePath (e_host E) (ds_Cluster st)")
    case (Inl e)
    then have "saveHADesiredState E st w = (Inl e, w)" using v
      by (simp add: saveHADesiredState_def act_apply askExt_def Let_def st'_def)
    with assms(1) show ?thesis by auto
  next
    case (Inr path)
    obtain r1 w1 where wr: "writePrivateFileAtomic E path (encodeDesired st') w = (r1, w1)"
      by fastforce
    have "w' = w1 \<and> isOk r = isOk r1"
      using assms(1) v Inr wr unfolding st'_def
      by (auto simp: saveHADesiredState_def act_apply askExt_def Let_def split: sum.splits)
    with writePrivateFileAtomic_cases [OF wr] valid Inr show ?thesis by auto
  qed
qed

interpretation desired: atomic_store "saveHADesiredState E" "\<lambda>st. desiredContent E (ds_Cluster st)"
  "\<lambda>w. completeDesired (e_now E (w_ext w))" encodeDesired "decodeDoc dHADesiredState" "\<lambda>_. True" validDesired for E
proof (unfold_locales, goal_cases)
  case (1 st w r w')
  then show ?case
    by (auto dest!: saveHADesiredState_cases simp: desiredContent_def split: sum.splits)
next
  case (2 y)
  then show ?case by (rule decode_encodeDesired)
qed

lemma loadHADesiredState_world: "snd (loadHADesiredState E name w) = w"
  by (auto simp: loadHADesiredState_def act_apply askExt_def split: sum.splits)

lemma loadHADesiredState_sound:
  assumes "loadHADesiredState E name w = (Inr st, w')"
  shows "st = defaultHADesiredState name \<or> (validDesired st \<and> ds_Cluster st = name)"
  using assms by (auto simp: loadHADesiredState_def act_apply askExt_def validateHADesiredState_Inr
      split: sum.splits if_splits)

lemma loadHADesiredState_Cluster:
  assumes "loadHADesiredState E name w = (Inr st, w')"
  shows "ds_Cluster st = name" and "w' = w"
  using loadHADesiredState_sound [OF assms] loadHADesiredState_world [of E name w] assms
  by (auto simp: defaultHADesiredState_def)

lemma emits_loadHADesiredState [effects]: "emits P (loadHADesiredState E name)"
  by (rule emits_silent) (simp add: loadHADesiredState_world)

text \<open>Every operation that changes intent is a load, a change of the record and a save.\<close>

definition updateDesired :: "'x env \<Rightarrow> string \<Rightarrow> (HADesiredState \<Rightarrow> HADesiredState) \<Rightarrow> ('x, unit) op" where
  "updateDesired E name f = tryA (loadHADesiredState E name) (\<lambda>st. saveHADesiredState E (f st))"

lemma updateDesired_eqs:
  "setHAMemberIntentLocked E name i stopped = updateDesired E name (withMemberIntent i stopped)"
  "markHAClusterStoppedLocked E name = updateDesired E name (\<lambda>st. st\<lparr>ds_ClusterState := haDesiredStopped\<rparr>)"
  "markHAClusterRunningLocked E name =
     updateDesired E name (\<lambda>st. st\<lparr>ds_ClusterState := haDesiredRunning, ds_StoppedMembers := []\<rparr>)"
  by (simp_all add: updateDesired_def setHAMemberIntentLocked_def markHAClusterStoppedLocked_def
      markHAClusterRunningLocked_def)

lemma updateDesired_cases:
  assumes run: "updateDesired E name f w = (r, w')" and keeps: "\<And>st. ds_Cluster (f st) = ds_Cluster st"
  shows "(\<not> isOk r \<and> w' = w) \<or> (\<exists>st path. loadHADesiredState E name w = (Inr st, w)
     \<and> haDesiredStatePath (e_host E) name = Inr path
     \<and> w' = placed E path (encodeDesired (completeDesired (e_now E (w_ext w)) (f st))) w
     \<and> validDesired (completeDesired (e_now E (w_ext w)) (f st)))"
proof (cases "loadHADesiredState E name w")
  case (Pair r1 w1)
  have w1: "w1 = w" using loadHADesiredState_world [of E name w] Pair by simp
  show ?thesis
  proof (cases r1)
    case (Inl e)
    then show ?thesis using run Pair w1 by (auto simp: updateDesired_def act_apply)
  next
    case (Inr st)
    then have "saveHADesiredState E (f st) w = (r, w')"
      using run Pair w1 by (simp add: updateDesired_def act_apply)
    from saveHADesiredState_cases [OF this] show ?thesis
      using Inr Pair w1 keeps loadHADesiredState_Cluster(1) [of E name w st w] by auto
  qed
qed

lemma withMemberIntent_Cluster [simp]: "ds_Cluster (withMemberIntent i s st) = ds_Cluster st"
  by (simp add: withMemberIntent_def)

lemma emits_updateDesired:
  assumes "\<And>p d. P (Wrote p d)"
  shows "emits P (updateDesired E name f)"
  unfolding updateDesired_def saveHADesiredState_def by (intro effects assms)

section \<open>Intent on the trace\<close>

text \<open>The event is a write of the desired-state file of \<open>name\<close> with a record that satisfies \<open>Q\<close>.\<close>

definition wroteIntent :: "'x env \<Rightarrow> string \<Rightarrow> (HADesiredState \<Rightarrow> bool) \<Rightarrow> event \<Rightarrow> bool" where
  "wroteIntent E name Q e = (case e of
     Wrote path doc \<Rightarrow> haDesiredStatePath (e_host E) name = Inr path
       \<and> (case decodeDoc dHADesiredState doc of Inr st \<Rightarrow> Q st | Inl _ \<Rightarrow> False)
   | _ \<Rightarrow> False)"

lemma ensures_updateDesired:
  assumes keeps: "\<And>st. ds_Cluster (f st) = ds_Cluster st" and Q: "\<And>now st. Q (completeDesired now (f st))"
  shows "ensures (wroteIntent E name Q) (updateDesired E name f)"
proof (rule ensuresI)
  fix w r w' assume "updateDesired E name f w = (r, w')"
  from updateDesired_cases [OF this keeps] Q
  show "\<exists>es. w_trace w' = w_trace w @ es \<and> (isOk r \<longrightarrow> list_ex (wroteIntent E name Q) es)"
    by (auto simp: wroteIntent_def decode_encodeDesired)
qed

lemma emits_updateDesired_intent:
  assumes keeps: "\<And>st. ds_Cluster (f st) = ds_Cluster st" and Q: "\<And>now st. Q (completeDesired now (f st))"
  shows "emits (wroteIntent E name Q) (updateDesired E name f)"
proof (rule emitsI)
  fix w
  show "\<exists>es. w_trace (snd (updateDesired E name f w)) = w_trace w @ es \<and> list_all (wroteIntent E name Q) es"
    using updateDesired_cases [OF prod.collapse [symmetric] keeps, of E name w] Q
    by (auto simp: wroteIntent_def decode_encodeDesired)
next
  have "w_answers (snd (updateDesired E name f w)) = w_answers w" "\<exists>es. w_trace (snd (updateDesired E name f w)) = w_trace w @ es" for w
    using updateDesired_cases [OF prod.collapse [symmetric] keeps, of E name w] by (auto simp: placed_def)
  then show "recorded (updateDesired E name f)" by (intro recorded_silent)
qed

lemma ensures_setMemberIntent:
  "ensures (wroteIntent E name (\<lambda>st. haMemberIntentionallyStopped st i = b)) (setHAMemberIntentLocked E name i b)"
  unfolding updateDesired_eqs
  by (rule ensures_updateDesired)
    (auto simp: completeDesired_def withMemberIntent_def haMemberIntentionallyStopped_def list_ex_iff)

lemma ensures_markStopped:
  "ensures (wroteIntent E name (\<lambda>st. ds_ClusterState st = haDesiredStopped)) (markHAClusterStoppedLocked E name)"
  unfolding updateDesired_eqs by (rule ensures_updateDesired) (simp_all add: completeDesired_def)

lemma ensures_markRunning:
  "ensures (wroteIntent E name (\<lambda>st. ds_ClusterState st = haDesiredRunning \<and> ds_StoppedMembers st = []))
     (markHAClusterRunningLocked E name)"
  unfolding updateDesired_eqs by (rule ensures_updateDesired) (simp_all add: completeDesired_def)

section \<open>Histories of intent operations\<close>

text \<open>
  What can happen to the file of a cluster: any of the operations above, with any
  arguments and whatever its outcome, and any change of the outside world between two.
\<close>

inductive intentHistory :: "'x env \<Rightarrow> string \<Rightarrow> 'x world \<Rightarrow> bool" for E name where
  no_file: "desiredContent E name w = None \<Longrightarrow> intentHistory E name w"
| set_member: "intentHistory E name w \<Longrightarrow> intentHistory E name (snd (setHAMemberIntentLocked E name i b w))"
| mark_stopped: "intentHistory E name w \<Longrightarrow> intentHistory E name (snd (markHAClusterStoppedLocked E name w))"
| mark_running: "intentHistory E name w \<Longrightarrow> intentHistory E name (snd (markHAClusterRunningLocked E name w))"
| outside: "intentHistory E name w \<Longrightarrow> intentHistory E name (w\<lparr>w_ext := x\<rparr>)"

definition desiredGood :: "'x env \<Rightarrow> string \<Rightarrow> 'x world \<Rightarrow> bool" where
  "desiredGood E name w = (case desiredContent E name w of None \<Rightarrow> True
     | Some d \<Rightarrow> (case decodeDoc dHADesiredState d of Inl _ \<Rightarrow> False | Inr st \<Rightarrow> validDesired st))"

lemma desiredGood_store: "ds_Cluster st = name \<Longrightarrow> desiredGood E name w = desired.good E st w"
  by (simp add: desiredGood_def desired.good_def)

lemma updateDesired_good:
  assumes "desiredGood E name w" and keeps: "\<And>st. ds_Cluster (f st) = ds_Cluster st"
  shows "desiredGood E name (snd (updateDesired E name f w))"
proof (cases "loadHADesiredState E name w")
  case (Pair r w1)
  note w1 = loadHADesiredState_world [of E name w]
  show ?thesis
  proof (cases r)
    case (Inl e)
    with Pair w1 assms(1) show ?thesis by (simp add: updateDesired_def act_apply)
  next
    case (Inr st)
    have c: "ds_Cluster (f st) = name"
      using loadHADesiredState_Cluster(1) Pair Inr keeps by metis
    have "snd (updateDesired E name f w) = snd (saveHADesiredState E (f st) w)"
      using Pair w1 Inr by (simp add: updateDesired_def act_apply)
    with desired.stays_good [of E "f st" w _ "snd (saveHADesiredState E (f st) w)"] assms(1) show ?thesis
      by (metis c desiredGood_store prod.collapse)
  qed
qed

section \<open>Properties\<close>

text \<open>
  C2: in every history of intent operations, whatever fails, the desired-state file is
  absent or decodes to a valid record: a known cluster state, at most one intentionally
  stopped member with an ID from 1 to 3, and a non-zero update time.
\<close>

theorem intentHistory_good: "intentHistory E name w \<Longrightarrow> desiredGood E name w"
proof (induction rule: intentHistory.induct)
  case (no_file w)
  then show ?case by (simp add: desiredGood_def)
next
  case (outside w x)
  have "desiredContent E name (w\<lparr>w_ext := x\<rparr>) = desiredContent E name w"
    by (simp add: desiredContent_def contentAt_def split: sum.split)
  with outside show ?case by (simp add: desiredGood_def)
qed (auto simp: updateDesired_eqs intro!: updateDesired_good)

theorem intentHistory_good_witness:
  "desiredGood idleEnv ''ha-lab''
     (snd (setHAMemberIntentLocked idleEnv ''ha-lab'' 3 True
       (snd (setHAMemberIntentLocked idleEnv ''ha-lab'' 2 True emptyWorld))))
   \<and> desiredContent idleEnv ''ha-lab'' (snd (setHAMemberIntentLocked idleEnv ''ha-lab'' 2 True emptyWorld)) \<noteq> None"
proof
  have "desiredContent idleEnv ''ha-lab'' emptyWorld = None"
    by (simp add: desiredContent_def contentAt_def emptyWorld_def split: sum.split)
  then show "desiredGood idleEnv ''ha-lab''
     (snd (setHAMemberIntentLocked idleEnv ''ha-lab'' 3 True
       (snd (setHAMemberIntentLocked idleEnv ''ha-lab'' 2 True emptyWorld))))"
    by (intro intentHistory_good intentHistory.intros)
  show "desiredContent idleEnv ''ha-lab'' (snd (setHAMemberIntentLocked idleEnv ''ha-lab'' 2 True emptyWorld)) \<noteq> None"
    by code_simp
qed

text \<open>
  While one member is intentionally stopped, the intent to stop another one is refused,
  and nothing is written.
\<close>

lemma second_stop_refused:
  assumes "loadHADesiredState E name w = (Inr st, w)" "j \<in> set (ds_StoppedMembers st)" "j \<noteq> i"
  shows "\<not> isOk (fst (setHAMemberIntentLocked E name i True w)) \<and> snd (setHAMemberIntentLocked E name i True w) = w"
proof -
  obtain r w' where run: "setHAMemberIntentLocked E name i True w = (r, w')" by fastforce
  have "j \<in> set (ds_StoppedMembers (withMemberIntent i True st))"
    and "i \<in> set (ds_StoppedMembers (withMemberIntent i True st))"
    using assms(2,3) by (auto simp: withMemberIntent_def)
  then have "\<not> length (ds_StoppedMembers (withMemberIntent i True st)) \<le> 1"
    using assms(3) by (cases "ds_StoppedMembers (withMemberIntent i True st)") auto
  then have "\<not> validDesired (completeDesired now (withMemberIntent i True st))" for now
    by (simp add: validDesired_def completeDesired_def)
  then have "\<not> isOk r \<and> w' = w"
    using updateDesired_cases [OF run [unfolded updateDesired_eqs]] assms(1) by auto
  with run show ?thesis by simp
qed

theorem second_stop_refused_witness:
  "let w = snd (setHAMemberIntentLocked idleEnv ''ha-lab'' 2 True emptyWorld) in
     \<not> isOk (fst (setHAMemberIntentLocked idleEnv ''ha-lab'' 3 True w))"
proof -
  let ?w = "snd (setHAMemberIntentLocked idleEnv ''ha-lab'' 2 True emptyWorld)"
  let ?r = "fst (loadHADesiredState idleEnv ''ha-lab'' ?w)"
  have "map_option ds_StoppedMembers (okOf ?r) = Some [2]" by code_simp
  then obtain st where st: "?r = Inr st" "ds_StoppedMembers st = [2]" by auto
  have "loadHADesiredState idleEnv ''ha-lab'' ?w = (Inr st, ?w)"
    using st loadHADesiredState_world [of idleEnv "''ha-lab''" ?w] by (metis prod.collapse)
  from second_stop_refused [OF this, of 2 3] st show ?thesis by simp
qed

text \<open>
  A desired-state file is read only when it is one regular file, not a link, with no
  permission for group or others, owned by the current user, the same file before, while
  and after it is read, and at most 16 KiB: the acceptance condition is exact.
\<close>

lemma readExactHADesiredStateFile_exact:
  "readExactHADesiredStateFile euid ob = Inr d \<longleftrightarrow> protectedRead euid 16384 True ob d"
  by (simp add: readExactHADesiredStateFile_def haDesiredStateMaximum_def readExactProtected_Inr)

text \<open>
  A record that is saved is the record the next load returns, with its identity, update
  time and sorted member list filled in.
\<close>

lemma load_after_save:
  assumes save: "saveHADesiredState E st w = (Inr (), w')"
    and path: "haDesiredStatePath (e_host E) (ds_Cluster st) = Inr path" and free: "faultFree E path w"
    and small: "e_docSize E (encodeDesired (completeDesired (e_now E (w_ext w)) st)) \<le> 16384"
  shows "loadHADesiredState E (ds_Cluster st) w' = (Inr (completeDesired (e_now E (w_ext w)) st), w')"
proof -
  let ?st = "completeDesired (e_now E (w_ext w)) st"
  from saveHADesiredState_cases [OF save] path have w': "w' = placed E path (encodeDesired ?st) w"
    and valid: "validDesired ?st" by auto
  have "0 \<le> second" by (simp add: second_def)
  then have "validateHADesiredState (e_now E (w_ext w)) ?st (ds_Cluster st) = Inr ()"
    unfolding validateHADesiredState_Inr using valid by (simp add: completeDesired_def)
  then show ?thesis
    unfolding w' using path readExact_placed [OF free small, of True] decode_encodeDesired [OF valid]
    by (simp add: loadHADesiredState_def act_apply askExt_def readExactHADesiredStateFile_def
        haDesiredStateMaximum_def)
qed

theorem load_after_save_witness:
  "let st = defaultHADesiredState ''ha-lab'' in
     loadHADesiredState idleEnv ''ha-lab'' (snd (saveHADesiredState idleEnv st emptyWorld))
       = (Inr (completeDesired 1000 st), snd (saveHADesiredState idleEnv st emptyWorld))"
proof -
  let ?st = "defaultHADesiredState ''ha-lab''" and ?path = "''/home/u/.config/apc/clusters/ha-lab/ha-desired-state.json''"
  have c: "ds_Cluster ?st = ''ha-lab''" by (simp add: defaultHADesiredState_def)
  have ok: "fst (saveHADesiredState idleEnv ?st emptyWorld) = Inr ()" by code_simp
  have p: "haDesiredStatePath (e_host idleEnv) (ds_Cluster ?st) = Inr ?path" by code_simp
  have free: "faultFree idleEnv ?path emptyWorld" by code_simp
  have small: "e_docSize idleEnv d \<le> 16384" for d by (simp add: idleEnv_def scriptedEnv_def)
  have now: "e_now idleEnv (w_ext emptyWorld) = 1000" by (simp add: idleEnv_def scriptedEnv_def)
  have save: "saveHADesiredState idleEnv ?st emptyWorld = (Inr (), snd (saveHADesiredState idleEnv ?st emptyWorld))"
    using ok by (metis prod.collapse)
  from load_after_save [OF save p free small] show ?thesis unfolding now c by simp
qed

end
