(* ===== verification/Journal.thy ===== *)
theory Journal
  imports Desired
begin

text \<open>
  The recovery journal (\<open>internal/cluster/ha_recovery.go\<close> lines 36 to 44, 127 to 184, 697 to
  755 and 2654 to 2824): the record, its file and validation, the volume provenance and the
  gates that read it.
\<close>

section \<open>The record\<close>

record HARecoveryVolumeProvenance =
  vp_PreexistingMemberIDs :: "int list"
  vp_NewMemberIDs :: "int list"

record HARecoveryState =
  rs_APIVersion :: string
  rs_Kind :: string
  rs_Cluster :: string
  rs_ClusterIdentity :: string
  rs_SnapshotPath :: string
  rs_Phase :: string
  rs_StartedAt :: int
  rs_UpdatedAt :: int
  rs_CompletedAt :: int
  rs_RecoveryAttempted :: bool
  rs_RecoverySucceeded :: bool
  rs_Message :: string
  rs_NextAction :: string
  rs_VolumeProvenance :: "HARecoveryVolumeProvenance option"

definition haSnapshotAPIVersion :: string where
  "haSnapshotAPIVersion = ''apc.dev/v1alpha1''"

definition haRecoveryStateKind :: string where
  "haRecoveryStateKind = ''HARecoveryState''"

definition haRecoveryStateMaximum :: int where
  "haRecoveryStateMaximum = 65536"

text \<open>A nil slice is written as \<open>null\<close>.\<close>

definition jIDs :: "int list \<Rightarrow> json" where
  "jIDs ids = (if ids = [] then JNull else JArr (map JInt ids))"

definition encodeProvenance :: "HARecoveryVolumeProvenance \<Rightarrow> json" where
  "encodeProvenance p = JObj [(''preexistingMemberIDs'', jIDs (vp_PreexistingMemberIDs p)),
     (''newMemberIDs'', jIDs (vp_NewMemberIDs p))]"

definition encodeJournal :: "HARecoveryState \<Rightarrow> document" where
  "encodeJournal st = Json (JObj (
     [(''apiVersion'', JStr (rs_APIVersion st)), (''kind'', JStr (rs_Kind st)),
      (''cluster'', JStr (rs_Cluster st)), (''clusterIdentity'', JStr (rs_ClusterIdentity st)),
      (''snapshotPath'', JStr (rs_SnapshotPath st)), (''phase'', JStr (rs_Phase st)),
      (''startedAt'', JTime (rs_StartedAt st)), (''updatedAt'', JTime (rs_UpdatedAt st)),
      (''completedAt'', JTime (rs_CompletedAt st)),
      (''recoveryAttempted'', JBool (rs_RecoveryAttempted st)),
      (''recoverySucceeded'', JBool (rs_RecoverySucceeded st))]
     @ (if rs_Message st = [] then [] else [(''message'', JStr (rs_Message st))])
     @ (if rs_NextAction st = [] then [] else [(''nextAction'', JStr (rs_NextAction st))])
     @ (case rs_VolumeProvenance st of None \<Rightarrow> [] | Some p \<Rightarrow> [(''volumeProvenance'', encodeProvenance p)])))"

definition dProvenance :: "HARecoveryVolumeProvenance decoder" where
  "dProvenance j = tryS (objFields j) (\<lambda>kvs.
     if \<not> onlyFields [''preexistingMemberIDs'', ''newMemberIDs''] kvs then Inl (Msg ''json: unknown field'')
     else at (dList dInt) ''preexistingMemberIDs'' kvs (\<lambda>pre. at (dList dInt) ''newMemberIDs'' kvs (\<lambda>new.
       Inr \<lparr>vp_PreexistingMemberIDs = pre, vp_NewMemberIDs = new\<rparr>)))"

definition dHARecoveryState :: "HARecoveryState decoder" where
  "dHARecoveryState j = tryS (objFields j) (\<lambda>kvs.
     if \<not> onlyFields [''apiVersion'', ''kind'', ''cluster'', ''clusterIdentity'', ''snapshotPath'', ''phase'',
          ''startedAt'', ''updatedAt'', ''completedAt'', ''recoveryAttempted'', ''recoverySucceeded'', ''message'',
          ''nextAction'', ''volumeProvenance''] kvs
     then Inl (Msg ''json: unknown field'')
     else at dString ''apiVersion'' kvs (\<lambda>a. at dString ''kind'' kvs (\<lambda>k. at dString ''cluster'' kvs (\<lambda>c.
       at dString ''clusterIdentity'' kvs (\<lambda>ci. at dString ''snapshotPath'' kvs (\<lambda>sp. at dString ''phase'' kvs (\<lambda>ph.
       at dTime ''startedAt'' kvs (\<lambda>t1. at dTime ''updatedAt'' kvs (\<lambda>t2. at dTime ''completedAt'' kvs (\<lambda>t3.
       at dBool ''recoveryAttempted'' kvs (\<lambda>ra. at dBool ''recoverySucceeded'' kvs (\<lambda>rs.
       at dString ''message'' kvs (\<lambda>m. at dString ''nextAction'' kvs (\<lambda>na.
       at (dPtr dProvenance) ''volumeProvenance'' kvs (\<lambda>vp.
         Inr \<lparr>rs_APIVersion = a, rs_Kind = k, rs_Cluster = c, rs_ClusterIdentity = ci, rs_SnapshotPath = sp,
              rs_Phase = ph, rs_StartedAt = t1, rs_UpdatedAt = t2, rs_CompletedAt = t3,
              rs_RecoveryAttempted = ra, rs_RecoverySucceeded = rs, rs_Message = m, rs_NextAction = na,
              rs_VolumeProvenance = vp\<rparr>)))))))))))))))"

section \<open>Validation\<close>

fun provenanceScan :: "int \<Rightarrow> int list \<Rightarrow> int list \<Rightarrow> (int list) option" where
  "provenanceScan previous seen [] = Some seen"
| "provenanceScan previous seen (i # ids) =
     (if i < 1 \<or> haMemberCount < i \<or> i \<le> previous \<or> i \<in> set seen then None
      else provenanceScan i (i # seen) ids)"

definition validateHARecoveryVolumeProvenance :: "HARecoveryVolumeProvenance option \<Rightarrow> gerror + unit" where
  "validateHARecoveryVolumeProvenance vp = (case vp of
     None \<Rightarrow> Inr ()
   | Some p \<Rightarrow> (case provenanceScan 0 [] (vp_PreexistingMemberIDs p) of
         None \<Rightarrow> Inl (Msg ''HA recovery state has invalid member-volume provenance'')
       | Some seen1 \<Rightarrow> (case provenanceScan 0 seen1 (vp_NewMemberIDs p) of
           None \<Rightarrow> Inl (Msg ''HA recovery state has invalid member-volume provenance'')
         | Some seen \<Rightarrow> if int (length seen) \<noteq> haMemberCount
             then Inl (Msg ''HA recovery state has incomplete member-volume provenance'') else Inr ())))"

definition haRecoveryPhases :: "string list" where
  "haRecoveryPhases = [''validated'', ''stopping-members'', ''resetting-member-1'', ''starting-member-1'',
     ''rejoining-peers'', ''verifying'', ''failed'', ''completed'']"

definition validateHARecoveryState :: "int \<Rightarrow> HARecoveryState \<Rightarrow> gerror + unit" where
  "validateHARecoveryState now st =
     (let nowLimit = now + 300 * second in
      if \<not> list_ex (\<lambda>p. rs_Phase st = p) haRecoveryPhases then Inl (Msg ''HA recovery state has unknown phase'')
      else if trimSpace (rs_ClusterIdentity st) = [] then Inl (Msg ''HA recovery state has an empty cluster identity'')
      else if trimSpace (rs_SnapshotPath st) = [] \<or> \<not> isAbsPath (rs_SnapshotPath st)
           \<or> containsAny (rs_SnapshotPath st) [CHR 0x00, CHR 0x0D, CHR 0x0A]
      then Inl (Msg ''HA recovery state has an invalid snapshot path'')
      else if rs_StartedAt st = 0 \<or> rs_UpdatedAt st = 0 \<or> rs_UpdatedAt st < rs_StartedAt st
           \<or> nowLimit < rs_StartedAt st \<or> nowLimit < rs_UpdatedAt st
      then Inl (Msg ''HA recovery state has invalid start/update timestamps'')
      else tryS (validateHARecoveryVolumeProvenance (rs_VolumeProvenance st)) (\<lambda>_.
        if rs_Phase st = ''completed'' then
          (if \<not> rs_RecoverySucceeded st \<or> rs_CompletedAt st = 0 \<or> rs_CompletedAt st < rs_UpdatedAt st
              \<or> nowLimit < rs_CompletedAt st
           then Inl (Msg ''completed HA recovery state requires a successful, sane completion timestamp'')
           else Inr ())
        else if rs_Phase st = ''failed'' then
          (if \<not> rs_RecoveryAttempted st \<or> rs_CompletedAt st \<noteq> 0
           then Inl (Msg ''failed HA recovery state has inconsistent recovery flags or completion timestamp'')
           else Inr ())
        else
          (if rs_RecoveryAttempted st \<or> rs_RecoverySucceeded st \<or> rs_CompletedAt st \<noteq> 0
           then Inl (Msg ''in-progress HA recovery state has inconsistent terminal fields'') else Inr ())))"

section \<open>Operations\<close>

definition HARecoveryStatePath :: "hostEnv \<Rightarrow> string \<Rightarrow> gerror + string" where
  "HARecoveryStatePath H name = tryS (HAConfigPath H name) (\<lambda>configPath.
     Inr (joinPath [dirPath configPath, ''ha-recovery-state.json'']))"

definition readExactHARecoveryStateFile :: "int \<Rightarrow> fileObs \<Rightarrow> gerror + document" where
  "readExactHARecoveryStateFile euid ob = readExactProtected euid haRecoveryStateMaximum False ob"

definition LoadHARecoveryState :: "'x env \<Rightarrow> string \<Rightarrow> ('x, HARecoveryState) op" where
  "LoadHARecoveryState E name =
     tryA (liftA (HARecoveryStatePath (e_host E) name)) (\<lambda>path.
     tryA (getA (observeFile E path)) (\<lambda>ob.
     tryA (liftA (readExactHARecoveryStateFile (e_euid E) ob)) (\<lambda>data.
     tryWrapA ''decode HA recovery state'' (liftA (decodeDoc dHARecoveryState data)) (\<lambda>st.
     if rs_APIVersion st \<noteq> haSnapshotAPIVersion \<or> rs_Kind st \<noteq> haRecoveryStateKind \<or> rs_Cluster st \<noteq> name
     then errA (Msg ''HA recovery state identity does not match cluster'')
     else tryA (askExt (e_now E)) (\<lambda>now.
       tryA (liftA (validateHARecoveryState now st)) (\<lambda>_. retA st))))))"

definition truncateMessage :: "HARecoveryState \<Rightarrow> HARecoveryState" where
  "truncateMessage st = st\<lparr>rs_Message := (if 4096 < length (rs_Message st) then take 4096 (rs_Message st)
     else rs_Message st)\<rparr>"

definition saveHARecoveryState :: "'x env \<Rightarrow> HARecoveryState \<Rightarrow> ('x, unit) op" where
  "saveHARecoveryState E st =
     tryA (liftA (HARecoveryStatePath (e_host E) (rs_Cluster st))) (\<lambda>path.
     wrapA ''save HA recovery state'' (writePrivateFileAtomic E path (encodeJournal (truncateMessage st))))"

text \<open>\<open>updateHARecoveryPhase\<close> changes the record through a pointer: it returns it too.\<close>

definition withPhase :: "int \<Rightarrow> string \<Rightarrow> string \<Rightarrow> HARecoveryState \<Rightarrow> HARecoveryState" where
  "withPhase now phase nextAction st = st\<lparr>rs_Phase := phase, rs_UpdatedAt := now, rs_NextAction := nextAction\<rparr>"

definition updateHARecoveryPhase :: "'x env \<Rightarrow> HARecoveryState \<Rightarrow> string \<Rightarrow> string \<Rightarrow> ('x, HARecoveryState) op" where
  "updateHARecoveryPhase E st phase nextAction =
     tryA (askExt (e_now E)) (\<lambda>now. let st' = withPhase now phase nextAction st in
     tryA (saveHARecoveryState E st') (\<lambda>_. retA st'))"

section \<open>The gates\<close>

definition haRecoveryJournalRuntimeSafe :: "HARecoveryState \<Rightarrow> bool" where
  "haRecoveryJournalRuntimeSafe journal \<longleftrightarrow> rs_RecoverySucceeded journal
     \<and> (rs_Phase journal = ''completed'' \<or> (rs_Phase journal = ''failed'' \<and> rs_RecoveryAttempted journal))"

definition haRecoveryJournalRequiresRecover :: "HARecoveryState \<Rightarrow> bool" where
  "haRecoveryJournalRequiresRecover journal \<longleftrightarrow> \<not> haRecoveryJournalRuntimeSafe journal
     \<and> (case rs_VolumeProvenance journal of None \<Rightarrow> False | Some p \<Rightarrow> vp_NewMemberIDs p \<noteq> [])"

definition ensureHARecoveryJournalAllowsRestore :: "'x env \<Rightarrow> string \<Rightarrow> ('x, unit) op" where
  "ensureHARecoveryJournalAllowsRestore E name =
     catchA (LoadHARecoveryState E name) (\<lambda>r. case r of
       Inl e \<Rightarrow> if errorsIs e ErrNotExist then retA ()
               else errA (Wrap ''refusing HA restore because the protected recovery journal cannot be trusted'' e)
     | Inr journal \<Rightarrow> if \<not> haRecoveryJournalRequiresRecover journal then retA ()
         else errA (Msg ''refusing HA restore while the protected nonterminal recovery journal records newly created empty member volumes''))"

text \<open>\<open>volumeExists\<close> is the set of members whose volume the preflight found.\<close>

definition mergeHARecoveryVolumeProvenance ::
    "HAConfig \<Rightarrow> int list \<Rightarrow> HARecoveryVolumeProvenance option \<Rightarrow> HARecoveryVolumeProvenance" where
  "mergeHARecoveryVolumeProvenance config volumeExists prior =
     (let newMembers = (case prior of None \<Rightarrow> [] | Some p \<Rightarrow> vp_NewMemberIDs p)
            @ filter (\<lambda>i. i \<notin> set volumeExists) (map hm_ID (hc_Members config)) in
      \<lparr>vp_PreexistingMemberIDs = filter (\<lambda>i. i \<notin> set newMembers) (map hm_ID (hc_Members config)),
       vp_NewMemberIDs = filter (\<lambda>i. i \<in> set newMembers) (map hm_ID (hc_Members config))\<rparr>)"

section \<open>The store\<close>

definition goInt :: "int \<Rightarrow> bool" where
  "goInt i \<longleftrightarrow> - (2 ^ 63) \<le> i \<and> i < 2 ^ 63"

definition goJournal :: "HARecoveryState \<Rightarrow> bool" where
  "goJournal st = (case rs_VolumeProvenance st of None \<Rightarrow> True
     | Some p \<Rightarrow> list_all goInt (vp_PreexistingMemberIDs p) \<and> list_all goInt (vp_NewMemberIDs p))"

text \<open>The lower-case forms of the field names, computed once.\<close>

lemma lower_names:
  "toLower ''apiVersion'' = ''apiversion''"
  "toLower ''kind'' = ''kind''"
  "toLower ''cluster'' = ''cluster''"
  "toLower ''clusterIdentity'' = ''clusteridentity''"
  "toLower ''snapshotPath'' = ''snapshotpath''"
  "toLower ''phase'' = ''phase''"
  "toLower ''startedAt'' = ''startedat''"
  "toLower ''updatedAt'' = ''updatedat''"
  "toLower ''completedAt'' = ''completedat''"
  "toLower ''recoveryAttempted'' = ''recoveryattempted''"
  "toLower ''recoverySucceeded'' = ''recoverysucceeded''"
  "toLower ''message'' = ''message''"
  "toLower ''nextAction'' = ''nextaction''"
  "toLower ''volumeProvenance'' = ''volumeprovenance''"
  "toLower ''preexistingMemberIDs'' = ''preexistingmemberids''"
  "toLower ''newMemberIDs'' = ''newmemberids''"
  by (simp_all add: toLower_def lowerChar_def isUpperAlpha_def char_of_def bit_iff_odd)

lemmas journal_fields = jField_def at_def equalFold_def onlyFields_def lower_names

lemma dList_jIDs: "list_all goInt ids \<Longrightarrow> dList dInt (jIDs ids) = Inr ids"
  unfolding jIDs_def goInt_def list_all_iff
  by (auto intro!: dList_JArr_map dInt_JInt simp del: dList.simps(2))

lemma dProvenance_encode:
  assumes "list_all goInt (vp_PreexistingMemberIDs p)" "list_all goInt (vp_NewMemberIDs p)"
  shows "dProvenance (encodeProvenance p) = Inr p"
  using dList_jIDs [OF assms(1)] dList_jIDs [OF assms(2)]
  by (simp add: dProvenance_def encodeProvenance_def journal_fields)

lemma dPtr_encodeProvenance: "dPtr d (encodeProvenance p) = tryS (d (encodeProvenance p)) (\<lambda>x. Inr (Some x))"
  by (simp add: encodeProvenance_def)

lemma decode_encodeJournal:
  assumes "goJournal st"
  shows "decodeDoc dHARecoveryState (encodeJournal st) = Inr st"
  using assms
  by (cases "rs_VolumeProvenance st"; cases "rs_Message st = []"; cases "rs_NextAction st = []")
    (simp_all add: encodeJournal_def dHARecoveryState_def journal_fields dProvenance_encode dPtr_encodeProvenance goJournal_def)

definition journalContent :: "'x env \<Rightarrow> string \<Rightarrow> 'x world \<Rightarrow> document option" where
  "journalContent E name w = (case HARecoveryStatePath (e_host E) name of
     Inl _ \<Rightarrow> None | Inr path \<Rightarrow> contentAt path w)"

lemma truncateMessage_simps [simp]:
  "rs_Cluster (truncateMessage st) = rs_Cluster st"
  "rs_VolumeProvenance (truncateMessage st) = rs_VolumeProvenance st"
  "goJournal (truncateMessage st) = goJournal st"
  by (simp_all add: truncateMessage_def goJournal_def)

lemma saveHARecoveryState_cases:
  assumes "saveHARecoveryState E st w = (r, w')"
  shows "(\<not> isOk r \<and> w' = w)
    \<or> (\<exists>path. HARecoveryStatePath (e_host E) (rs_Cluster st) = Inr path
         \<and> w' = placed E path (encodeJournal (truncateMessage st)) w)"
proof (cases "HARecoveryStatePath (e_host E) (rs_Cluster st)")
  case (Inl e)
  then show ?thesis using assms by (auto simp: saveHARecoveryState_def act_apply)
next
  case (Inr path)
  obtain r1 w1 where wr: "writePrivateFileAtomic E path (encodeJournal (truncateMessage st)) w = (r1, w1)"
    by fastforce
  have "w' = w1 \<and> isOk r = isOk r1"
    using assms Inr wr by (auto simp: saveHARecoveryState_def act_apply split: sum.splits)
  with writePrivateFileAtomic_cases [OF wr] Inr show ?thesis by auto
qed

interpretation journal: atomic_store "saveHARecoveryState E" "\<lambda>st. journalContent E (rs_Cluster st)"
  "\<lambda>w. truncateMessage" encodeJournal "decodeDoc dHARecoveryState" goJournal goJournal for E
proof (unfold_locales, goal_cases)
  case (1 st w r w')
  then show ?case
    by (auto dest!: saveHARecoveryState_cases simp: journalContent_def split: sum.splits)
next
  case (2 y)
  then show ?case by (rule decode_encodeJournal)
qed

lemma LoadHARecoveryState_world: "snd (LoadHARecoveryState E name w) = w"
  by (auto simp: LoadHARecoveryState_def act_apply askExt_def split: sum.splits)

lemma emits_LoadHARecoveryState [effects]: "emits P (LoadHARecoveryState E name)"
  by (rule emits_silent) (simp add: LoadHARecoveryState_world)

lemma emits_saveHARecoveryState:
  assumes "\<And>p d. P (Wrote p d)"
  shows "emits P (saveHARecoveryState E st)"
  unfolding saveHARecoveryState_def by (intro effects assms)

lemma emits_ensureAllowsRestore [effects]: "emits P (ensureHARecoveryJournalAllowsRestore E name)"
  unfolding ensureHARecoveryJournalAllowsRestore_def by (intro effects)

section \<open>Provenance across retries\<close>

text \<open>One merge per attempt; \<open>observed\<close> is what each attempt's preflight found.\<close>

definition provenanceLineage ::
    "HAConfig \<Rightarrow> int list list \<Rightarrow> HARecoveryVolumeProvenance option \<Rightarrow> HARecoveryVolumeProvenance option" where
  "provenanceLineage config observed prior =
     fold (\<lambda>vols p. Some (mergeHARecoveryVolumeProvenance config vols p)) observed prior"

definition newMembers :: "HARecoveryVolumeProvenance option \<Rightarrow> int set" where
  "newMembers p = (case p of None \<Rightarrow> {} | Some q \<Rightarrow> set (vp_NewMemberIDs q))"

lemma merge_sets:
  assumes "map hm_ID (hc_Members config) = [1, 2, 3]"
    and "p = mergeHARecoveryVolumeProvenance config vols prior"
  shows "set (vp_NewMemberIDs p) = ({1, 2, 3} - set vols) \<union> ({1, 2, 3} \<inter> newMembers prior)"
    and "set (vp_PreexistingMemberIDs p) = {1, 2, 3} - set (vp_NewMemberIDs p)"
proof -
  have ids: "set (map hm_ID (hc_Members config)) = {1, 2, 3}" unfolding assms(1) by auto
  show "set (vp_NewMemberIDs p) = ({1, 2, 3} - set vols) \<union> ({1, 2, 3} \<inter> newMembers prior)"
    unfolding assms(2) mergeHARecoveryVolumeProvenance_def Let_def newMembers_def
    using ids by (cases prior) (simp_all only: HARecoveryVolumeProvenance.simps set_filter set_append option.case, auto)
  show "set (vp_PreexistingMemberIDs p) = {1, 2, 3} - set (vp_NewMemberIDs p)"
    unfolding assms(2) mergeHARecoveryVolumeProvenance_def Let_def
    using ids by (simp only: HARecoveryVolumeProvenance.simps set_filter, auto)
qed

lemma split_valid:
  "validateHARecoveryVolumeProvenance (Some \<lparr>vp_PreexistingMemberIDs = filter (\<lambda>i. \<not> P i) [1, 2, 3],
     vp_NewMemberIDs = filter P [1, 2, 3]\<rparr>) = Inr ()"
  by (cases "P 1"; cases "P 2"; cases "P 3") (simp_all add: validateHARecoveryVolumeProvenance_def)

lemma merge_valid:
  assumes "map hm_ID (hc_Members config) = [1, 2, 3]"
  shows "validateHARecoveryVolumeProvenance (Some (mergeHARecoveryVolumeProvenance config vols prior)) = Inr ()"
  unfolding mergeHARecoveryVolumeProvenance_def Let_def assms by (rule split_valid)

section \<open>Properties\<close>

text \<open>
  Volume provenance is monotone and always valid.  Over any number of attempts, a member
  whose volume some attempt found missing, or that was recorded as new before, is recorded
  as new at the end; and the recorded provenance passes the journal's validation (it splits
  the three members into two sorted lists).
\<close>

lemma provenance_monotone:
  assumes "map hm_ID (hc_Members config) = [1, 2, 3]" and "observed \<noteq> []"
  shows "newMembers (provenanceLineage config observed prior)
       = {1, 2, 3} \<inter> (newMembers prior \<union> (\<Union>vols \<in> set observed. - set vols))
    \<and> validateHARecoveryVolumeProvenance (provenanceLineage config observed prior) = Inr ()"
    using assms(2)
proof (induction observed arbitrary: prior rule: list_nonempty_induct)
    case (single vols)
    show ?case
      using merge_sets(1) [OF assms(1) refl, of vols prior] merge_valid [OF assms(1), of vols prior]
      by (auto simp: provenanceLineage_def newMembers_def [of "Some _"])
  next
    case (cons vols rest)
    let ?p = "Some (mergeHARecoveryVolumeProvenance config vols prior)"
    have "newMembers ?p = ({1, 2, 3} - set vols) \<union> ({1, 2, 3} \<inter> newMembers prior)"
      using merge_sets(1) [OF assms(1) refl, of vols prior] by (simp add: newMembers_def [of "Some _"])
    moreover have "provenanceLineage config (vols # rest) prior = provenanceLineage config rest ?p"
      by (simp add: provenanceLineage_def)
    ultimately show ?case using cons.IH [of ?p] by auto
  qed

theorem provenance_monotone_witness:
  "newMembers (provenanceLineage exampleConfig [[1, 2], [1, 2, 3]] None) = {3}
   \<and> validateHARecoveryVolumeProvenance (provenanceLineage exampleConfig [[1, 2], [1, 2, 3]] None) = Inr ()"
proof -
  have ids: "map hm_ID (hc_Members exampleConfig) = [1, 2, 3]" by code_simp
  have two: "[[1, 2], [1, 2, 3]] \<noteq> ([] :: int list list)" by simp
  show ?thesis
    using provenance_monotone [OF ids two, of None] by (auto simp: newMembers_def [of None])
qed

text \<open>
  For a journal that passes validation, \<open>RecoverySucceeded\<close> alone decides whether the
  runtime is safe: it is set only in the terminal phases \<open>completed\<close> and \<open>failed\<close> (there
  after an attempted recovery), and a completed journal has it set, with a completion time
  not before the update time.
\<close>

lemma valid_journal_safe:
  assumes "validateHARecoveryState now st = Inr ()"
  shows "(haRecoveryJournalRuntimeSafe st \<longleftrightarrow> rs_RecoverySucceeded st)
    \<and> (rs_RecoverySucceeded st \<or> rs_RecoveryAttempted st \<longrightarrow> rs_Phase st \<in> {''completed'', ''failed''})
    \<and> (rs_Phase st = ''completed'' \<longrightarrow> rs_RecoverySucceeded st \<and> rs_UpdatedAt st \<le> rs_CompletedAt st)"
  using assms
  by (auto simp: validateHARecoveryState_def haRecoveryJournalRuntimeSafe_def Let_def split: if_splits)

definition exampleJournal :: HARecoveryState where
  "exampleJournal = \<lparr>rs_APIVersion = haSnapshotAPIVersion, rs_Kind = haRecoveryStateKind, rs_Cluster = ''ha-lab'',
     rs_ClusterIdentity = ''identity'', rs_SnapshotPath = ''/backup/one'', rs_Phase = ''completed'',
     rs_StartedAt = 900, rs_UpdatedAt = 950, rs_CompletedAt = 960, rs_RecoveryAttempted = False,
     rs_RecoverySucceeded = True, rs_Message = [], rs_NextAction = [], rs_VolumeProvenance = None\<rparr>"

theorem valid_journal_safe_witness:
  "haRecoveryJournalRuntimeSafe exampleJournal \<and> validateHARecoveryState 1000 exampleJournal = Inr ()"
proof
  show v: "validateHARecoveryState 1000 exampleJournal = Inr ()" by code_simp
  show "haRecoveryJournalRuntimeSafe exampleJournal"
    using valid_journal_safe [OF v] by (simp add: exampleJournal_def)
qed

end
