(* ===== verification/ClusterFiles.thy ===== *)
theory ClusterFiles
  imports Journal
begin

text \<open>
  The files of a cluster other than intent and journal: the saved HA configuration
  (\<open>ha.go\<close> lines 1448 to 1565), the single-server configuration it must not collide with
  (\<open>cluster.go\<close>: \<open>Config\<close>, \<open>normalizeConfig\<close>, \<open>loadClusterConfig\<close>), the kubeconfig, the
  token, and the pointer to the current cluster.
\<close>

section \<open>The single-server configuration\<close>

record Config =
  cf_Name :: string
  cf_NodeName :: string
  cf_Image :: string
  cf_CPUs :: int
  cf_Memory :: string
  cf_ListenAddress :: string
  cf_AdvertiseAddress :: string
  cf_APIPort :: int
  cf_VXLANPort :: int
  cf_KubeletPort :: int
  cf_StartupTimeout :: int
  cf_KubeconfigPath :: string
  cf_DisableTraefik :: bool
  cf_EnableNetworkPolicy :: bool
  cf_StableNodeIP :: string

definition validPortRange :: "int \<Rightarrow> bool" where
  "validPortRange p \<longleftrightarrow> \<not> (p < 1 \<or> 65535 < p)"

definition normalizeConfig :: "hostEnv \<Rightarrow> Config \<Rightarrow> gerror + Config" where
  "normalizeConfig H config0 =
     (let config = config0\<lparr>cf_Name := orDefault (cf_Name config0) ''spike''\<rparr> in
      if \<not> dnsLabel (cf_Name config) then Inl (Msg ''cluster name must be a lowercase DNS label'')
      else let config = config\<lparr>cf_NodeName := orDefault (cf_NodeName config) (''apc-'' @ cf_Name config @ ''-server'')\<rparr> in
      if \<not> dnsLabel (cf_NodeName config) then Inl (Msg ''node name must be a lowercase DNS label'')
      else let config = config\<lparr>cf_Image := orDefault (cf_Image config) defaultK3sImage,
                               cf_CPUs := (if cf_CPUs config = 0 then 4 else cf_CPUs config)\<rparr> in
      if cf_CPUs config < 2 then Inl (Msg ''K3s server requires at least 2 CPUs'')
      else let config = config\<lparr>cf_Memory := orDefault (cf_Memory config) ''4G'',
                               cf_ListenAddress := orDefault (cf_ListenAddress config) ''127.0.0.1''\<rparr> in
      if \<not> parsesIP (cf_ListenAddress config) then Inl (Msg ''listen address must be an IP address'')
      else if cf_AdvertiseAddress config \<noteq> [] \<and> \<not> parsesIP (cf_AdvertiseAddress config)
      then Inl (Msg ''advertise address must be an IP address'')
      else if cf_StableNodeIP config \<noteq> [] \<and> \<not> parsesIP (cf_StableNodeIP config)
      then Inl (Msg ''stable node IP must be a valid IP address'')
      else if cf_ListenAddress config = ''0.0.0.0'' \<and> cf_AdvertiseAddress config = []
      then Inl (Msg ''advertise address is required when listening on all interfaces'')
      else let config = config\<lparr>cf_APIPort := (if cf_APIPort config = 0 then 16443 else cf_APIPort config),
                               cf_VXLANPort := (if cf_VXLANPort config = 0 then 8472 else cf_VXLANPort config),
                               cf_KubeletPort := (if cf_KubeletPort config = 0 then 10250 else cf_KubeletPort config)\<rparr> in
      if \<not> list_all validPortRange [cf_APIPort config, cf_VXLANPort config, cf_KubeletPort config]
      then Inl (Msg ''port must be between 1 and 65535'')
      else let config = config\<lparr>cf_StartupTimeout := (if cf_StartupTimeout config = 0 then 120 * second
                                 else cf_StartupTimeout config)\<rparr> in
      if cf_KubeconfigPath config \<noteq> [] then Inr config
      else tryS (KubeconfigPath H (cf_Name config)) (\<lambda>path. Inr (config\<lparr>cf_KubeconfigPath := path\<rparr>)))"

definition dConfig :: "Config decoder" where
  "dConfig j = tryS (objFields j) (\<lambda>kvs. at dString ''Name'' kvs (\<lambda>n. at dString ''NodeName'' kvs (\<lambda>nn.
     at dString ''Image'' kvs (\<lambda>im. at dInt ''CPUs'' kvs (\<lambda>cpus. at dString ''Memory'' kvs (\<lambda>mem.
     at dString ''ListenAddress'' kvs (\<lambda>la. at dString ''AdvertiseAddress'' kvs (\<lambda>aa. at dInt ''APIPort'' kvs (\<lambda>ap.
     at dInt ''VXLANPort'' kvs (\<lambda>vp. at dInt ''KubeletPort'' kvs (\<lambda>kp. at dInt ''StartupTimeout'' kvs (\<lambda>st.
     at dString ''KubeconfigPath'' kvs (\<lambda>kc. at dBool ''DisableTraefik'' kvs (\<lambda>dt.
     at dBool ''EnableNetworkPolicy'' kvs (\<lambda>np. at dString ''StableNodeIP'' kvs (\<lambda>ip.
       Inr \<lparr>cf_Name = n, cf_NodeName = nn, cf_Image = im, cf_CPUs = cpus, cf_Memory = mem, cf_ListenAddress = la,
            cf_AdvertiseAddress = aa, cf_APIPort = ap, cf_VXLANPort = vp, cf_KubeletPort = kp,
            cf_StartupTimeout = st, cf_KubeconfigPath = kc, cf_DisableTraefik = dt, cf_EnableNetworkPolicy = np,
            cf_StableNodeIP = ip\<rparr>))))))))))))))))"

definition clusterFile :: "hostEnv \<Rightarrow> string list \<Rightarrow> gerror + string" where
  "clusterFile H parts = tryS (wrapS ''resolve user configuration directory'' (he_UserConfigDir H)) (\<lambda>root.
     Inr (joinPath (root # ''apc'' # parts)))"

definition clusterConfigPath :: "hostEnv \<Rightarrow> string \<Rightarrow> gerror + string" where
  "clusterConfigPath H name = clusterFile H [''clusters'', name, ''cluster.json'']"

definition agentConfigPath :: "hostEnv \<Rightarrow> string \<Rightarrow> gerror + string" where
  "agentConfigPath H name = clusterFile H [''clusters'', name, ''agent.json'']"

definition currentClusterPath :: "hostEnv \<Rightarrow> gerror + string" where
  "currentClusterPath H = clusterFile H [''current-cluster'']"

definition loadClusterConfig :: "'x env \<Rightarrow> string \<Rightarrow> ('x, Config) op" where
  "loadClusterConfig E name = tryA (liftA (clusterConfigPath (e_host E) name)) (\<lambda>path.
     tryWrapA ''read cluster configuration'' (readFile E path) (\<lambda>data.
     tryWrapA ''decode cluster configuration'' (liftA (decodeDoc dConfig data)) (\<lambda>config.
     wrapA ''validate cluster configuration'' (liftA (normalizeConfig (e_host E) config)))))"

section \<open>The saved HA configuration\<close>

definition encodeHAMember :: "HAMember \<Rightarrow> json" where
  "encodeHAMember m = JObj [(''id'', JInt (hm_ID m)), (''nodeName'', JStr (hm_NodeName m)),
     (''stableIP'', JStr (hm_StableIP m)), (''mac'', JStr (hm_MAC m)), (''hostAPIPort'', JInt (hm_HostAPIPort m))]"

definition encodeHAConfig :: "HAConfig \<Rightarrow> document" where
  "encodeHAConfig c = Json (JObj [(''name'', JStr (hc_Name c)), (''networkName'', JStr (hc_NetworkName c)),
     (''subnet'', JStr (hc_Subnet c)), (''image'', JStr (hc_Image c)), (''listenAddress'', JStr (hc_ListenAddress c)),
     (''cpus'', JInt (hc_CPUs c)), (''memory'', JStr (hc_Memory c)), (''volumeSize'', JStr (hc_VolumeSize c)),
     (''startupTimeout'', JInt (hc_StartupTimeout c)), (''kubeconfigPath'', JStr (hc_KubeconfigPath c)),
     (''tokenFile'', JStr (hc_TokenFile c)), (''disableTraefik'', JBool (hc_DisableTraefik c)),
     (''members'', JArr (map encodeHAMember (hc_Members c)))])"

definition dHAMember :: "HAMember decoder" where
  "dHAMember j = tryS (objFields j) (\<lambda>kvs. at dInt ''id'' kvs (\<lambda>i. at dString ''nodeName'' kvs (\<lambda>n.
     at dString ''stableIP'' kvs (\<lambda>ip. at dString ''mac'' kvs (\<lambda>mac. at dInt ''hostAPIPort'' kvs (\<lambda>p.
       Inr \<lparr>hm_ID = i, hm_NodeName = n, hm_StableIP = ip, hm_MAC = mac, hm_HostAPIPort = p\<rparr>))))))"

definition dHAConfig :: "HAConfig decoder" where
  "dHAConfig j = tryS (objFields j) (\<lambda>kvs. at dString ''name'' kvs (\<lambda>n. at dString ''networkName'' kvs (\<lambda>nn.
     at dString ''subnet'' kvs (\<lambda>sn. at dString ''image'' kvs (\<lambda>im. at dString ''listenAddress'' kvs (\<lambda>la.
     at dInt ''cpus'' kvs (\<lambda>cpus. at dString ''memory'' kvs (\<lambda>mem. at dString ''volumeSize'' kvs (\<lambda>vs.
     at dInt ''startupTimeout'' kvs (\<lambda>st. at dString ''kubeconfigPath'' kvs (\<lambda>kc. at dString ''tokenFile'' kvs (\<lambda>tf.
     at dBool ''disableTraefik'' kvs (\<lambda>dt. at (dList dHAMember) ''members'' kvs (\<lambda>ms.
       Inr \<lparr>hc_Name = n, hc_NetworkName = nn, hc_Subnet = sn, hc_Image = im, hc_ListenAddress = la,
            hc_CPUs = cpus, hc_Memory = mem, hc_VolumeSize = vs, hc_StartupTimeout = st,
            hc_KubeconfigPath = kc, hc_TokenFile = tf, hc_DisableTraefik = dt, hc_Members = ms\<rparr>))))))))))))))"

definition saveHAConfig :: "'x env \<Rightarrow> HAConfig \<Rightarrow> ('x, unit) op" where
  "saveHAConfig E config = tryA (liftA (HAConfigPath (e_host E) (hc_Name config))) (\<lambda>path.
     wrapA ''save HA cluster configuration'' (writePrivateFileAtomic E path (encodeHAConfig config)))"

definition loadHAConfig :: "'x env \<Rightarrow> string \<Rightarrow> ('x, HAConfig) op" where
  "loadHAConfig E name = tryA (liftA (HAConfigPath (e_host E) name)) (\<lambda>path.
     tryWrapA ''read HA cluster configuration'' (statFile E path) (\<lambda>info.
     if \<not> fi_regular info \<or> groupOrOther info
     then errA (Msg ''HA cluster configuration must be a regular file with mode 0600 or stricter'')
     else tryWrapA ''read HA cluster configuration'' (readFile E path) (\<lambda>data.
       tryWrapA ''decode HA cluster configuration'' (liftA (decodeDoc dHAConfig data)) (\<lambda>config.
       wrapA ''validate HA cluster configuration'' (liftA (normalizeHAConfig (e_host E) config))))))"

definition sameHARuntimeConfig :: "HAConfig \<Rightarrow> HAConfig \<Rightarrow> bool" where
  "sameHARuntimeConfig left right \<longleftrightarrow> left\<lparr>hc_StartupTimeout := 0\<rparr> = right\<lparr>hc_StartupTimeout := 0\<rparr>"

definition checkHALegacyCollision :: "'x env \<Rightarrow> string \<Rightarrow> ('x, unit) op" where
  "checkHALegacyCollision E name =
     tryA (liftA (clusterConfigPath (e_host E) name)) (\<lambda>p1.
     tryA (liftA (agentConfigPath (e_host E) name)) (\<lambda>p2.
     forA [p1, p2] (\<lambda>path. catchA (statFile E path) (\<lambda>r. case r of
         Inr _ \<Rightarrow> errA (Msg ''refusing HA cluster because legacy APC state already exists'')
       | Inl e \<Rightarrow> if errorsIs e ErrNotExist then retA () else errA (Wrap ''inspect legacy APC state'' e)))))"

section \<open>The token\<close>

definition validatePrivateTokenFile :: "'x env \<Rightarrow> string \<Rightarrow> ('x, unit) op" where
  "validatePrivateTokenFile E path = tryWrapA ''read token file'' (statFile E path) (\<lambda>info.
     if \<not> fi_regular info then errA (Msg ''token file must be a regular file'')
     else if groupOrOther info then errA (Msg ''token file permissions must be 0600 or stricter'')
     else tryA (askExt (\<lambda>x. e_dirInfo E x (dirPath path))) (\<lambda>r.
       tryWrapA ''read token directory'' (liftA r) (\<lambda>directoryInfo.
       if \<not> fi_dir directoryInfo \<or> groupOrOther directoryInfo
       then errA (Msg ''token directory permissions must be 0700 or stricter'') else retA ())))"

definition whitespaceIn :: "string \<Rightarrow> bool" where
  "whitespaceIn s = containsAny s [CHR '' '', CHR 0x09, CHR 0x0D, CHR 0x0A]"

definition ensureHAToken :: "'x env \<Rightarrow> string \<Rightarrow> bool \<Rightarrow> ('x, unit) op" where
  "ensureHAToken E path create = catchA (statFile E path) (\<lambda>r. case r of
     Inr _ \<Rightarrow>
       tryWrapA ''validate HA token file'' (validatePrivateTokenFile E path) (\<lambda>_.
       catchA (readFile E path) (\<lambda>rd. case rd of
           Inl _ \<Rightarrow> errA (Msg ''HA token file does not contain one valid token'')
         | Inr data \<Rightarrow> let token = trimSpace (docText data) in
             if token = [] \<or> whitespaceIn token then errA (Msg ''HA token file does not contain one valid token'')
             else retA ()))
   | Inl e \<Rightarrow>
       if \<not> errorsIs e ErrNotExist then errA (Wrap ''inspect HA token file'' e)
       else if \<not> create then errA (Msg ''HA token file is missing for existing member data'')
       else tryA (askExt (e_random E)) (\<lambda>rnd.
         tryWrapA ''generate HA server token'' (liftA rnd) (\<lambda>secret.
         wrapA ''write HA server token'' (writePrivateFileAtomic E path (Text (secret @ [CHR 0x0A]))))))"

section \<open>The kubeconfig\<close>

text \<open>
  \<open>replaceScalar\<close> sets the first scalar value of key \<open>key\<close>, looking at a mapping's own
  pairs before its children, and reports whether it found one.
\<close>

fun replacePair :: "yamlNode list \<Rightarrow> string \<Rightarrow> string \<Rightarrow> yamlNode list option" where
  "replacePair (YNode kk kv kc # YNode vk vv vc # rest) key value =
     (if kv = key \<and> vk = YScalar then Some (YNode kk kv kc # YNode vk value vc # rest)
      else map_option (\<lambda>r. YNode kk kv kc # YNode vk vv vc # r) (replacePair rest key value))"
| "replacePair _ key value = None"

fun replaceScalar :: "yamlNode \<Rightarrow> string \<Rightarrow> string \<Rightarrow> yamlNode option"
  and replaceInChildren :: "yamlNode list \<Rightarrow> string \<Rightarrow> string \<Rightarrow> yamlNode list option" where
  "replaceScalar (YNode k v c) key value =
     (case (if k = YMapping then replacePair c key value else None) of
        Some c' \<Rightarrow> Some (YNode k v c')
      | None \<Rightarrow> map_option (YNode k v) (replaceInChildren c key value))"
| "replaceInChildren [] key value = None"
| "replaceInChildren (n # ns) key value = (case replaceScalar n key value of
     Some n' \<Rightarrow> Some (n' # ns) | None \<Rightarrow> map_option (\<lambda>r. n # r) (replaceInChildren ns key value))"

definition rewriteHAKubeconfigEndpoint :: "'x env \<Rightarrow> document \<Rightarrow> string \<Rightarrow> gerror + document" where
  "rewriteHAKubeconfigEndpoint E data endpoint =
     tryS (wrapS ''decode HA kubeconfig'' (e_yamlParse E data)) (\<lambda>doc.
     case replaceScalar doc ''server'' endpoint of
       None \<Rightarrow> Inl (Msg ''HA kubeconfig does not contain a server endpoint'')
     | Some doc' \<Rightarrow> Inr (e_yamlPrint E doc'))"

definition readKubeconfig :: "'x env \<Rightarrow> string \<Rightarrow> string \<Rightarrow> ('x, document) op" where
  "readKubeconfig E containerName endpoint =
     tryA (runCmd E None [''exec'', containerName, ''/bin/cat'', ''/etc/rancher/k3s/k3s.yaml'']) (\<lambda>res.
     case cr_err res of
       Some e \<Rightarrow> errA (commandError ''read kubeconfig'' (cr_stderr res) e)
     | None \<Rightarrow> liftA (rewriteHAKubeconfigEndpoint E (cr_stdout res) endpoint))"

section \<open>The current cluster\<close>

definition ResolvedKubeconfigPath :: "'x env \<Rightarrow> string \<Rightarrow> ('x, string) op" where
  "ResolvedKubeconfigPath E name =
     (if \<not> dnsLabel name then errA (Msg ''cluster name must be a lowercase DNS label'')
      else catchA (loadClusterConfig E name) (\<lambda>r. case r of
          Inr config \<Rightarrow> retA (cf_KubeconfigPath config)
        | Inl e \<Rightarrow> if \<not> errorsIs e ErrNotExist then errA e
            else catchA (loadHAConfig E name) (\<lambda>rh. case rh of
                Inr haConfig \<Rightarrow> retA (hc_KubeconfigPath haConfig)
              | Inl he \<Rightarrow> if \<not> errorsIs he ErrNotExist then errA he
                  else liftA (KubeconfigPath (e_host E) name))))"

text \<open>\<open>os.WriteFile\<close> truncates the file before it writes: a failed write leaves it empty.\<close>

definition writePrivateFile :: "'x env \<Rightarrow> string \<Rightarrow> document \<Rightarrow> ('x, unit) op" where
  "writePrivateFile E path data =
     tryA (writeStepA E path MkdirAll ''create private file directory'') (\<lambda>_.
     tryA (writeStepA E path ChmodDir ''secure private file directory'') (\<lambda>_.
     catchA (writeStepA E path WriteTemp ''write private file'') (\<lambda>r. case r of
         Inl e \<Rightarrow> tryA (placeFile E path (Text [])) (\<lambda>_. errA e)
       | Inr _ \<Rightarrow> tryA (placeFile E path data) (\<lambda>_. writeStepA E path ChmodTemp ''secure private file''))))"

definition SetCurrentCluster :: "'x env \<Rightarrow> string \<Rightarrow> ('x, unit) op" where
  "SetCurrentCluster E name =
     (if \<not> dnsLabel name then errA (Msg ''cluster name must be a lowercase DNS label'')
      else tryA (ResolvedKubeconfigPath E name) (\<lambda>kubeconfig.
        tryWrapA ''read kubeconfig for cluster'' (statFile E kubeconfig) (\<lambda>info.
        if \<not> fi_regular info then errA (Msg ''kubeconfig is not a regular file'')
        else if groupOrOther info then errA (Msg ''kubeconfig must have mode 0600 or stricter'')
        else tryA (liftA (currentClusterPath (e_host E))) (\<lambda>path.
          wrapA ''save current cluster'' (writePrivateFile E path (Text (name @ [CHR 0x0A])))))))"

definition CurrentCluster :: "'x env \<Rightarrow> ('x, string) op" where
  "CurrentCluster E = tryA (liftA (currentClusterPath (e_host E))) (\<lambda>path.
     catchA (readFile E path) (\<lambda>r. case r of
       Inl e \<Rightarrow> if errorsIs e ErrNotExist then errA ErrNoCurrentCluster else errA (Wrap ''read current cluster'' e)
     | Inr data \<Rightarrow> let name = trimSpace (docText data) in
         if \<not> dnsLabel name then errA (Msg ''current cluster file contains an invalid name'') else retA name))"

text \<open>\<open>os.Remove\<close> with an absent file ignored.\<close>

definition removeIfPresent :: "'x env \<Rightarrow> string \<Rightarrow> string \<Rightarrow> ('x, unit) op" where
  "removeIfPresent E msg path = catchA (removeFile E path) (\<lambda>r. case r of
     Inr _ \<Rightarrow> retA () | Inl e \<Rightarrow> if errorsIs e ErrNotExist then retA () else errA (Wrap msg e))"

fun removeExactPaths :: "'x env \<Rightarrow> string list \<Rightarrow> string list \<Rightarrow> ('x, unit) op" where
  "removeExactPaths E seen [] = retA ()"
| "removeExactPaths E seen (path # paths) =
     (if path = [] then removeExactPaths E seen paths
      else let clean = cleanPath path in
        if clean \<in> set seen then removeExactPaths E seen paths
        else tryA (removeIfPresent E ''remove APC configuration file'' clean) (\<lambda>_.
          removeExactPaths E (clean # seen) paths))"

definition removeExactFiles :: "'x env \<Rightarrow> string list \<Rightarrow> ('x, unit) op" where
  "removeExactFiles E paths = removeExactPaths E [] paths"

definition clearCurrentCluster :: "'x env \<Rightarrow> string \<Rightarrow> ('x, unit) op" where
  "clearCurrentCluster E name = catchA (CurrentCluster E) (\<lambda>r. case r of
     Inl _ \<Rightarrow> retA ()
   | Inr current \<Rightarrow> if current \<noteq> name then retA ()
       else tryA (liftA (currentClusterPath (e_host E))) (\<lambda>path. removeIfPresent E ''clear current cluster'' path))"

text \<open>
  \<open>removeEmptyClusterDirectory\<close>: directories are not part of the model's files, so
  removing one has an outcome only (\<open>None\<close> also stands for a directory that is absent or
  not empty, which the code accepts).
\<close>

definition removeEmptyClusterDirectory :: "'x env \<Rightarrow> string \<Rightarrow> ('x, unit) op" where
  "removeEmptyClusterDirectory E name = tryA (liftA (clusterConfigPath (e_host E) name)) (\<lambda>configPath.
     tryA (askExt (\<lambda>x. e_fileFault E x ''rmdir'' (dirPath configPath))) (\<lambda>fault.
     case fault of None \<Rightarrow> retA () | Some e \<Rightarrow> errA (Wrap ''remove empty APC cluster directory'' e)))"

end
