(* ===== verification/HARuntime.thy ===== *)
theory HARuntime
  imports ClusterFiles
begin

text \<open>
  Observing a cluster (\<open>ha.go\<close> lines 533 to 585, 697 to 745, 954 to 1086 and 1435 to 1446): the
  inspect commands, the preflight that checks every resource, the node document, status,
  and the polling loops.  A loop runs for the ticks its context still allows (\<open>e_ticks\<close>,
  asked when it starts); with no tick left the context is done, so every loop returns.
\<close>

section \<open>Commands\<close>

definition inspectWith :: "'x env \<Rightarrow> int option \<Rightarrow> string list \<Rightarrow> string \<Rightarrow> 'a decoder \<Rightarrow> ('x, 'a) op" where
  "inspectWith E bound args msg d =
     tryA (runCmd E bound args) (\<lambda>res.
     case cr_err res of
       Some e \<Rightarrow> if isNotFound (cr_stderr res) then errA ErrNotFound else errA (commandError msg (cr_stderr res) e)
     | None \<Rightarrow> tryWrapA (''decode output: '' @ msg) (liftA (decodeDoc (dList d) (cr_stdout res))) (\<lambda>records.
         case records of [r] \<Rightarrow> retA r | _ \<Rightarrow> errA (Msg (msg @ '' returned another number of records''))))"

definition inspectHAContainer :: "'x env \<Rightarrow> int option \<Rightarrow> string \<Rightarrow> ('x, haContainerInspect) op" where
  "inspectHAContainer E bound name = inspectWith E bound [''inspect'', name] ''inspect HA server'' dContainerInspect"

definition inspectHAVolume :: "'x env \<Rightarrow> string \<Rightarrow> ('x, haVolumeInspect) op" where
  "inspectHAVolume E name = inspectWith E None [''volume'', ''inspect'', name] ''inspect HA data volume'' dVolumeInspect"

definition inspectHANetwork :: "'x env \<Rightarrow> string \<Rightarrow> ('x, haNetworkInspect) op" where
  "inspectHANetwork E name = inspectWith E None [''network'', ''inspect'', name] ''inspect HA network'' dNetworkInspect"

definition haRuntimeOperationTimeout :: int where
  "haRuntimeOperationTimeout = 30 * second"

definition runHABounded :: "'x env \<Rightarrow> string \<Rightarrow> string list \<Rightarrow> ('x, unit) op" where
  "runHABounded E operation args =
     tryA (runCmd E (Some haRuntimeOperationTimeout) args) (\<lambda>res.
     case cr_err res of
       None \<Rightarrow> retA ()
     | Some e \<Rightarrow>
         if (case cr_ctxErr res of None \<Rightarrow> False | Some c \<Rightarrow> errorsIs c DeadlineExceeded)
         then errA (Wrap (operation @ '' timed out'') DeadlineExceeded)
         else errA (commandError operation (cr_stderr res) e))"

section \<open>Preflight\<close>

record haPreflight =
  pf_networkExists :: bool
  pf_volumeExists :: "int list"
  pf_containerRecord :: "(int \<times> haContainerInspect) list"

text \<open>An inspect whose \<open>ErrNotFound\<close> is an answer, followed by the check of the resource.\<close>

definition inspectIfPresent :: "('x, 'a) op \<Rightarrow> ('a \<Rightarrow> gerror + unit) \<Rightarrow> ('x, 'a option) op" where
  "inspectIfPresent m validate = catchA m (\<lambda>r. case r of
     Inr x \<Rightarrow> tryA (liftA (validate x)) (\<lambda>_. retA (Some x))
   | Inl e \<Rightarrow> if errorsIs e ErrNotFound then retA None else errA e)"

definition preflightMember :: "'x env \<Rightarrow> HAConfig \<Rightarrow> haPreflight \<Rightarrow> HAMember \<Rightarrow> ('x, haPreflight) op" where
  "preflightMember E config result member =
     tryA (inspectIfPresent (inspectHAVolume E (HAVolumeName (hc_Name config) (hm_ID member)))
             (\<lambda>v. validateHAVolume v config member)) (\<lambda>volume.
     let result = (case volume of None \<Rightarrow> result
         | Some _ \<Rightarrow> result\<lparr>pf_volumeExists := pf_volumeExists result @ [hm_ID member]\<rparr>) in
     tryA (inspectIfPresent (inspectHAContainer E None (HAContainerName (hc_Name config) (hm_ID member)))
             (\<lambda>c. validateHAContainer c config member)) (\<lambda>container.
     retA (case container of None \<Rightarrow> result
         | Some c \<Rightarrow> result\<lparr>pf_containerRecord := pf_containerRecord result @ [(hm_ID member, c)]\<rparr>)))"

definition preflightHA :: "'x env \<Rightarrow> HAConfig \<Rightarrow> bool \<Rightarrow> ('x, haPreflight) op" where
  "preflightHA E config allowPartialVolumes =
     tryA (inspectIfPresent (inspectHANetwork E (hc_NetworkName config)) (\<lambda>n. validateHANetwork n config)) (\<lambda>network.
     tryA (foldA (preflightMember E config)
             \<lparr>pf_networkExists = (network \<noteq> None), pf_volumeExists = [], pf_containerRecord = []\<rparr>
             (hc_Members config)) (\<lambda>result.
     let existingVolumes = int (length (pf_volumeExists result)) in
     if \<not> allowPartialVolumes \<and> existingVolumes \<noteq> 0 \<and> existingVolumes \<noteq> haMemberCount
     then errA (Msg ''refusing mixed HA state'') else retA result))"

definition recordOf :: "haPreflight \<Rightarrow> int \<Rightarrow> haContainerInspect option" where
  "recordOf preflight i = map_of (pf_containerRecord preflight) i"

section \<open>The node of a member\<close>

definition readHAMemberNode :: "'x env \<Rightarrow> HAConfig \<Rightarrow> HAMember \<Rightarrow> ('x, haNodeDocument) op" where
  "readHAMemberNode E config member =
     tryA (runCmd E None [''exec'', HAContainerName (hc_Name config) (hm_ID member), ''kubectl'', ''get'', ''node'',
             hm_NodeName member, ''-o'', ''json'']) (\<lambda>res.
     case cr_err res of
       Some e \<Rightarrow> errA (commandError ''read HA Kubernetes node'' (cr_stderr res) e)
     | None \<Rightarrow> tryWrapA ''decode HA Kubernetes node'' (liftA (decodeDoc dNodeDocument (cr_stdout res))) (\<lambda>node.
         if nd_Name node \<noteq> hm_NodeName member then errA (Msg ''Kubernetes returned another node'') else retA node))"

text \<open>The context is done: the error it gives, wrapped.\<close>

definition contextDone :: "'x env \<Rightarrow> string \<Rightarrow> ('x, 'a) op" where
  "contextDone E msg = tryA (askExt (e_ctxErr E)) (\<lambda>c.
     errA (Wrap msg (case c of Some e \<Rightarrow> e | None \<Rightarrow> DeadlineExceeded)))"

fun waitReadyLoop :: "'x env \<Rightarrow> HAConfig \<Rightarrow> HAMember \<Rightarrow> nat \<Rightarrow> ('x, unit) op" where
  "waitReadyLoop E config member 0 = catchA (readHAMemberNode E config member) (\<lambda>r.
     if (case r of Inr node \<Rightarrow> nodeDocumentReady node | Inl _ \<Rightarrow> False) then retA ()
     else contextDone E ''HA member did not become Ready'')"
| "waitReadyLoop E config member (Suc n) = catchA (readHAMemberNode E config member) (\<lambda>r.
     if (case r of Inr node \<Rightarrow> nodeDocumentReady node | Inl _ \<Rightarrow> False) then retA ()
     else waitReadyLoop E config member n)"

definition waitHAMemberReady :: "'x env \<Rightarrow> HAConfig \<Rightarrow> HAMember \<Rightarrow> ('x, unit) op" where
  "waitHAMemberReady E config member = tryA (askExt (e_ticks E)) (waitReadyLoop E config member)"

section \<open>Status\<close>

record HAMemberState =
  ms_ID :: int
  ms_NodeName :: string
  ms_Container :: string
  ms_RuntimeState :: string
  ms_StableIP :: string
  ms_VMAddress :: string
  ms_APIEndpoint :: string
  ms_APIReady :: bool
  ms_NodeReady :: bool
  ms_K3sVersion :: string

record HAState =
  st_Name :: string
  st_NetworkName :: string
  st_Subnet :: string
  st_Kubeconfig :: string
  st_Quorum :: int
  st_ReadyMembers :: int
  st_Healthy :: bool
  st_Members :: "HAMemberState list"

definition missingMemberState :: "HAConfig \<Rightarrow> HAMember \<Rightarrow> HAMemberState" where
  "missingMemberState config member = \<lparr>ms_ID = hm_ID member, ms_NodeName = hm_NodeName member,
     ms_Container = HAContainerName (hc_Name config) (hm_ID member), ms_RuntimeState = ''missing'',
     ms_StableIP = hm_StableIP member, ms_VMAddress = [], ms_APIEndpoint = apiEndpoint member (hc_ListenAddress config),
     ms_APIReady = False, ms_NodeReady = False, ms_K3sVersion = []\<rparr>"

definition vmAddressOf :: "haContainerInspect \<Rightarrow> string" where
  "vmAddressOf record0 = (case ci_Addresses record0 of [] \<Rightarrow> [] | a # _ \<Rightarrow> hd (splitOn CHR ''/'' a))"

definition memberStatus :: "'x env \<Rightarrow> HAConfig \<Rightarrow> HAMember \<Rightarrow> ('x, HAMemberState) op" where
  "memberStatus E config member =
     tryA (inspectIfPresent (inspectHAContainer E None (HAContainerName (hc_Name config) (hm_ID member)))
             (\<lambda>c. validateHAContainer c config member)) (\<lambda>found.
     case found of
       None \<Rightarrow> retA (missingMemberState config member)
     | Some record0 \<Rightarrow>
         let ms = (missingMemberState config member)\<lparr>ms_RuntimeState := ci_State record0,
                     ms_VMAddress := vmAddressOf record0\<rparr> in
         if \<not> stateIs record0 ''running'' then retA ms
         else tryA (queryExt (\<lambda>x. e_probeAPI E x config member)) (\<lambda>hostAPIReady.
           catchA (readHAMemberNode E config member) (\<lambda>r. case r of
               Inl _ \<Rightarrow> retA ms
             | Inr node \<Rightarrow> retA (ms\<lparr>ms_APIReady := hostAPIReady, ms_NodeReady := nodeDocumentReady node,
                 ms_K3sVersion := nd_KubeletVersion node\<rparr>))))"

definition memberReady :: "HAMemberState \<Rightarrow> bool" where
  "memberReady ms \<longleftrightarrow> ms_NodeReady ms \<and> ms_APIReady ms"

definition StatusHA :: "'x env \<Rightarrow> string \<Rightarrow> ('x, HAState) op" where
  "StatusHA E name = tryA (loadHAConfig E name) (\<lambda>config.
     tryA (foldA (\<lambda>acc member. tryA (memberStatus E config member) (\<lambda>ms. retA (acc @ [ms])))
             [] (hc_Members config)) (\<lambda>members.
     let quorum = int (length (hc_Members config)) div 2 + 1;
         ready = int (length (filter memberReady members)) in
     retA \<lparr>st_Name = hc_Name config, st_NetworkName = hc_NetworkName config, st_Subnet = hc_Subnet config,
       st_Kubeconfig = hc_KubeconfigPath config, st_Quorum = quorum, st_ReadyMembers = ready,
       st_Healthy = (quorum \<le> ready), st_Members = members\<rparr>))"

fun waitClusterLoop :: "'x env \<Rightarrow> HAConfig \<Rightarrow> nat \<Rightarrow> ('x, HAState) op" where
  "waitClusterLoop E config n = catchA (StatusHA E (hc_Name config)) (\<lambda>r.
     tryA (askExt (e_ctxErr E)) (\<lambda>ctxErr.
     case r of
       Inr state \<Rightarrow> if st_ReadyMembers state = haMemberCount then retA state
         else (case n of 0 \<Rightarrow> contextDone E ''HA cluster did not become Ready'' | Suc m \<Rightarrow> waitClusterLoop E config m)
     | Inl e \<Rightarrow> if ctxErr = None then errA e
         else (case n of 0 \<Rightarrow> contextDone E ''HA cluster did not become Ready'' | Suc m \<Rightarrow> waitClusterLoop E config m)))"

declare waitClusterLoop.simps [simp del]

definition waitHAClusterReady :: "'x env \<Rightarrow> HAConfig \<Rightarrow> ('x, HAState) op" where
  "waitHAClusterReady E config = tryA (askExt (e_ticks E)) (waitClusterLoop E config)"

section \<open>Readiness of the members\<close>

definition memberUp :: "HAMemberState \<Rightarrow> bool" where
  "memberUp ms \<longleftrightarrow> memberReady ms \<and> equalFold (ms_RuntimeState ms) ''running''"

fun haMemberStateByID :: "HAMemberState list \<Rightarrow> int \<Rightarrow> HAMemberState option" where
  "haMemberStateByID [] i = None"
| "haMemberStateByID (m # ms) i = (if ms_ID m = i then Some m else haMemberStateByID ms i)"

definition allHAMembersReady :: "HAState \<Rightarrow> bool" where
  "allHAMembersReady state \<longleftrightarrow> int (length (st_Members state)) = haMemberCount
     \<and> st_ReadyMembers state = haMemberCount \<and> list_all memberUp (st_Members state)"

definition otherHAMembersReady :: "HAState \<Rightarrow> int \<Rightarrow> bool" where
  "otherHAMembersReady state excludedID =
     (let others = filter (\<lambda>m. ms_ID m \<noteq> excludedID) (st_Members state) in
      list_all memberUp others \<and> int (length others) = haMemberCount - 1)"

section \<open>Effects: observing only reads\<close>

lemma emits_loadClusterConfig [effects]: "emits P (loadClusterConfig E name)"
  unfolding loadClusterConfig_def by (intro effects)

lemma emits_loadHAConfig [effects]: "emits P (loadHAConfig E name)"
  unfolding loadHAConfig_def by (intro effects)

lemma loadHAConfig_world: "snd (loadHAConfig E name w) = w"
  by (auto simp: loadHAConfig_def act_apply statFile_def readFile_def split: sum.splits option.splits)

lemma loadHAConfig_wf:
  assumes "loadHAConfig E name w = (Inr config, w')"
  shows "wf_HAConfig config \<and> w' = w"
proof -
  from assms obtain c where "normalizeHAConfig (e_host E) c = Inr config"
    by (auto simp: loadHAConfig_def act_apply split: sum.splits prod.splits if_splits)
  moreover have "w' = w" using loadHAConfig_world [of E name w] assms by simp
  ultimately show ?thesis using normalizeHAConfig_accepts by blast
qed

lemma emits_ResolvedKubeconfigPath [effects]: "emits P (ResolvedKubeconfigPath E name)"
  unfolding ResolvedKubeconfigPath_def by (intro effects)

lemma emits_checkHALegacyCollision [effects]: "emits P (checkHALegacyCollision E name)"
  unfolding checkHALegacyCollision_def by (intro effects)

lemma emits_contextDone [effects]: "emits P (contextDone E msg)"
  unfolding contextDone_def by (intro effects)

lemma emits_inspectWith: "P (Cmd b args) \<Longrightarrow> emits P (inspectWith E b args msg d)"
  unfolding inspectWith_def by (intro effects) (auto split: list.splits intro: effects)

lemma emits_inspectIfPresent [effects]: "emits P m \<Longrightarrow> emits P (inspectIfPresent m v)"
  unfolding inspectIfPresent_def by (intro effects)

lemma emits_runHABounded [effects]:
  "P (Cmd (Some haRuntimeOperationTimeout) args) \<Longrightarrow> emits P (runHABounded E msg args)"
  unfolding runHABounded_def by (intro effects)

text \<open>
  The observations as \<open>quiet\<close> operations; \<open>quietly\<close> turns that into any property that
  holds of the read-only commands.
\<close>

lemma quiet_inspects:
  "emits quiet (inspectHAContainer E b n)" "emits quiet (inspectHAVolume E n)" "emits quiet (inspectHANetwork E n)"
  unfolding inspectHAContainer_def inspectHAVolume_def inspectHANetwork_def
  by (rule emits_inspectWith; simp add: quiet_def readsOnlyArgs_def)+

lemma quiet_readHAMemberNode: "emits quiet (readHAMemberNode E config member)"
  unfolding readHAMemberNode_def by (intro effects) (simp add: quiet_def readsOnlyArgs_def)

lemma quiet_readKubeconfig: "emits quiet (readKubeconfig E n ep)"
  unfolding readKubeconfig_def by (intro effects) (simp add: quiet_def readsOnlyArgs_def)

lemma quiet_preflightHA: "emits quiet (preflightHA E config b)"
  unfolding preflightHA_def preflightMember_def by (intro effects quiet_inspects)

lemma quiet_waitReadyLoop: "emits quiet (waitReadyLoop E config member n)"
  by (induction n) (auto intro!: effects quiet_readHAMemberNode)

lemma quiet_waitHAMemberReady: "emits quiet (waitHAMemberReady E config member)"
  unfolding waitHAMemberReady_def by (intro effects quiet_waitReadyLoop)

lemma quiet_memberStatus: "emits quiet (memberStatus E config member)"
  unfolding memberStatus_def by (intro effects quiet_inspects quiet_readHAMemberNode)

lemma quiet_StatusHA: "emits quiet (StatusHA E name)"
  unfolding StatusHA_def by (intro effects quiet_memberStatus)

lemma quiet_waitClusterLoop: "emits quiet (waitClusterLoop E config n)"
proof (induction n)
  case 0
  show ?case by (subst waitClusterLoop.simps) (auto intro!: effects quiet_StatusHA)
next
  case (Suc n)
  show ?case by (subst waitClusterLoop.simps) (auto intro!: effects quiet_StatusHA Suc)
qed

lemma quiet_waitHAClusterReady: "emits quiet (waitHAClusterReady E config)"
  unfolding waitHAClusterReady_def by (intro effects quiet_waitClusterLoop)

lemmas quiet_observers = quiet_inspects quiet_readHAMemberNode quiet_readKubeconfig quiet_preflightHA
  quiet_waitHAMemberReady quiet_StatusHA quiet_waitHAClusterReady

lemma quietly: "emits quiet m \<Longrightarrow> (\<And>e. quiet e \<Longrightarrow> P e) \<Longrightarrow> emits P m"
  by (rule emits_mono)

section \<open>Results of the observers\<close>

lemma atMost_runHABounded: "atMost P 1 (runHABounded E msg args)"
proof -
  have "atMost P (1 + 0) (runHABounded E msg args)"
    unfolding runHABounded_def by (intro atMost_tryA atMost_runCmd atMost_none effects)
  then show ?thesis by simp
qed

lemma yields_contextDone [results]: "yields R (contextDone E msg)"
  unfolding contextDone_def by (intro results)

text \<open>What a status says: a member that counts as Ready is running.\<close>

definition statusConsistent :: "HAState \<Rightarrow> bool" where
  "statusConsistent st \<longleftrightarrow> int (length (st_Members st)) = haMemberCount
     \<and> st_ReadyMembers st = int (length (filter memberReady (st_Members st)))
     \<and> list_all (\<lambda>ms. memberReady ms \<longrightarrow> equalFold (ms_RuntimeState ms) ''running'') (st_Members st)"

lemma yields_memberStatus: "yields (\<lambda>ms. memberReady ms \<longrightarrow> equalFold (ms_RuntimeState ms) ''running'') (memberStatus E config member)"
  unfolding memberStatus_def Let_def
  by (intro results) (auto simp: missingMemberState_def memberReady_def stateIs_def)

lemma yields_StatusHA: "yields statusConsistent (StatusHA E name)"
  unfolding StatusHA_def
proof (rule yields_tryA_from [where Q = wf_HAConfig])
  show "yields wf_HAConfig (loadHAConfig E name)"
    by (rule yieldsI) (use loadHAConfig_wf in blast)
next
  fix config assume wf: "wf_HAConfig config"
  let ?ok = "\<lambda>ms. memberReady ms \<longrightarrow> equalFold (ms_RuntimeState ms) ''running''"
  have "yields (\<lambda>acc. list_all ?ok acc \<and> length acc = n + length xs)
      (foldA (\<lambda>acc member. tryA (memberStatus E config member) (\<lambda>ms. retA (acc @ [ms]))) acc xs)"
    if "list_all ?ok acc" "length acc = n" for n acc xs
    using that
  proof (induction xs arbitrary: acc n)
    case (Cons x xs)
    have "yields (\<lambda>a. list_all ?ok a \<and> length a = Suc n) (tryA (memberStatus E config x) (\<lambda>ms. retA (acc @ [ms])))"
      by (rule yields_tryA_from [OF yields_memberStatus], rule yields_retA) (use Cons.prems in auto)
    then have "yields (\<lambda>a. list_all ?ok a \<and> length a = Suc n + length xs)
        (foldA (\<lambda>acc member. tryA (memberStatus E config member) (\<lambda>ms. retA (acc @ [ms]))) acc (x # xs))"
      unfolding foldA.simps by (rule yields_tryA_from) (rule Cons.IH; simp)
    then show ?case by (simp del: retA_apply)
  next
    case Nil
    then show ?case unfolding foldA.simps by (intro yields_retA) simp
  qed
  note loop = this
  have members: "yields (\<lambda>acc. list_all ?ok acc \<and> length acc = 0 + length (hc_Members config))
      (foldA (\<lambda>acc member. tryA (memberStatus E config member) (\<lambda>ms. retA (acc @ [ms]))) [] (hc_Members config))"
    by (rule loop) simp_all
  show "yields statusConsistent (tryA (foldA (\<lambda>acc member. tryA (memberStatus E config member) (\<lambda>ms. retA (acc @ [ms])))
             [] (hc_Members config)) (\<lambda>members.
     let quorum = int (length (hc_Members config)) div 2 + 1;
         ready = int (length (filter memberReady members)) in
     retA \<lparr>st_Name = hc_Name config, st_NetworkName = hc_NetworkName config, st_Subnet = hc_Subnet config,
       st_Kubeconfig = hc_KubeconfigPath config, st_Quorum = quorum, st_ReadyMembers = ready,
       st_Healthy = (quorum \<le> ready), st_Members = members\<rparr>))"
    unfolding Let_def
    by (rule yields_tryA_from [OF members], rule yields_retA) (simp add: statusConsistent_def wf_members_3 [OF wf])
qed

lemma allHAMembersReady_iff:
  assumes "statusConsistent st"
  shows "allHAMembersReady st \<longleftrightarrow> st_ReadyMembers st = haMemberCount"
proof
  assume "st_ReadyMembers st = haMemberCount"
  with assms have "length (filter memberReady (st_Members st)) = length (st_Members st)"
    by (simp add: statusConsistent_def)
  then have "\<forall>ms\<in>set (st_Members st). memberReady ms"
    by (metis filter_id_conv filter_True length_filter_less less_irrefl)
  with assms show "allHAMembersReady st" using \<open>st_ReadyMembers st = haMemberCount\<close>
    by (auto simp: allHAMembersReady_def statusConsistent_def memberUp_def list_all_iff)
qed (simp add: allHAMembersReady_def)

lemma yields_waitClusterLoop: "yields allHAMembersReady (waitClusterLoop E config n)"
proof (induction n)
  case 0
  show ?case by (subst waitClusterLoop.simps)
    (auto simp: allHAMembersReady_iff split: sum.split
      intro!: yields_catchA_from [OF yields_StatusHA] yields_tryA yields_errA yields_contextDone yields_retA)
next
  case (Suc n)
  show ?case by (subst waitClusterLoop.simps)
    (auto simp: allHAMembersReady_iff split: sum.split
      intro!: yields_catchA_from [OF yields_StatusHA] yields_tryA yields_errA yields_contextDone yields_retA Suc)
qed

lemma yields_waitHAClusterReady: "yields allHAMembersReady (waitHAClusterReady E config)"
  unfolding waitHAClusterReady_def by (intro results yields_waitClusterLoop)

end
