(* ===== verification/Addresses.thy ===== *)
theory Addresses
  imports HARuntime
begin

text \<open>
  Runtime addresses (\<open>internal/cluster/ha_addresses.go\<close>): the runtime gives a started
  server an IPv4 of its own choice, which must not be the stable address of another member.
  \<open>runHAServerEnvelope\<close> starts a server, looks at its address, and removes the exact
  envelope and tries again, at most three times, when it collides.
\<close>

section \<open>Collisions\<close>

definition haRuntimeIPCollisionForAddress :: "HAConfig \<Rightarrow> HAMember \<Rightarrow> string \<Rightarrow> gerror option" where
  "haRuntimeIPCollisionForAddress config runtimeMember address = (case parseAddr4 address of
     None \<Rightarrow> None
   | Some parsed \<Rightarrow> (case find (\<lambda>s. \<not> (hm_ID s = hm_ID runtimeMember \<or> hm_StableIP s \<noteq> addrString parsed)) (hc_Members config) of
         None \<Rightarrow> None
       | Some stableMember \<Rightarrow> Some (IPCollision (addrString parsed) (hm_ID runtimeMember) (hm_ID stableMember))))"

definition haContainerRuntimeIPv4 :: "haContainerInspect \<Rightarrow> gerror + string" where
  "haContainerRuntimeIPv4 record0 = (case ci_Addresses record0 of
     [a] \<Rightarrow> (case parsePrefix4 a of None \<Rightarrow> Inl (Msg ''runtime reported invalid IPv4 address'')
             | Some p \<Rightarrow> Inr (addrString (fst p)))
   | _ \<Rightarrow> Inl (Msg ''runtime reported another number of network attachments, expected exactly one''))"

definition collisionOfLine :: "HAConfig \<Rightarrow> HAMember \<Rightarrow> string \<Rightarrow> gerror option" where
  "collisionOfLine config member line0 = (let line = trimSpace line0 in
     if \<not> hasPrefix line haRuntimeIPCollisionMarker then None
     else haRuntimeIPCollisionForAddress config member (trimSpace (trimPrefix line haRuntimeIPCollisionMarker)))"

fun firstCollision :: "HAConfig \<Rightarrow> HAMember \<Rightarrow> string list \<Rightarrow> gerror option" where
  "firstCollision config member [] = None"
| "firstCollision config member (l # ls) = (case collisionOfLine config member l of
     Some c \<Rightarrow> Some c | None \<Rightarrow> firstCollision config member ls)"

definition haRuntimeIPCollisionFromOutput :: "string \<Rightarrow> HAConfig \<Rightarrow> HAMember \<Rightarrow> gerror option" where
  "haRuntimeIPCollisionFromOutput output config member =
     firstCollision config member (splitOn CHR 0x0A output)"

definition checkReservation :: "HAConfig \<Rightarrow> int \<times> haContainerInspect \<Rightarrow> gerror + unit" where
  "checkReservation config ir = (case ir of (i, record0) \<Rightarrow>
     if \<not> stateIs record0 ''running'' \<or> ci_Addresses record0 = [] then Inr ()
     else tryS (wrapS ''inspect HA member runtime address'' (haContainerRuntimeIPv4 record0)) (\<lambda>address.
       case haRuntimeIPCollisionForAddress config (memberByID (hc_Members config) i) address of
         None \<Rightarrow> Inr ()
       | Some collision \<Rightarrow> Inl (Wrap ''recycle the member while all three members are healthy'' collision)))"

fun checkReservations :: "HAConfig \<Rightarrow> (int \<times> haContainerInspect) list \<Rightarrow> gerror + unit" where
  "checkReservations config [] = Inr ()"
| "checkReservations config (r # rs) = tryS (checkReservation config r) (\<lambda>_. checkReservations config rs)"

definition validateHACurrentRuntimeIPReservations ::
    "HAConfig \<Rightarrow> (int \<times> haContainerInspect) list \<Rightarrow> gerror + unit" where
  "validateHACurrentRuntimeIPReservations config records = checkReservations config (sort_key fst records)"

section \<open>Before a server is started\<close>

definition haRuntimeAddressProbeTimeout :: int where
  "haRuntimeAddressProbeTimeout = 5 * second"

definition peerRecord :: "'x env \<Rightarrow> HAConfig \<Rightarrow> (int \<times> haContainerInspect) list \<Rightarrow> HAMember
    \<Rightarrow> ('x, (int \<times> haContainerInspect) list) op" where
  "peerRecord E config records member =
     catchA (inspectHAContainer E (Some haRuntimeAddressProbeTimeout) (HAContainerName (hc_Name config) (hm_ID member))) (\<lambda>r.
     case r of
       Inl e \<Rightarrow> if errorsIs e ErrNotFound then retA records
         else tryA (askExt (e_ctxErr E)) (\<lambda>c. case c of
             Some ce \<Rightarrow> errA (Wrap ''inspect peer runtime addresses before starting HA member'' ce)
           | None \<Rightarrow> errA e)
     | Inr record0 \<Rightarrow> tryA (liftA (validateHAContainer record0 config member)) (\<lambda>_.
         retA (records @ [(hm_ID member, record0)])))"

definition validateHAPeerRuntimeIPReservations :: "'x env \<Rightarrow> HAConfig \<Rightarrow> HAMember \<Rightarrow> ('x, unit) op" where
  "validateHAPeerRuntimeIPReservations E config target =
     tryA (foldA (peerRecord E config) [] (filter (\<lambda>m. hm_ID m \<noteq> hm_ID target) (hc_Members config))) (\<lambda>records.
     liftA (validateHACurrentRuntimeIPReservations config records))"

section \<open>After it was started\<close>

definition stoppedBeforeAddress :: "'x env \<Rightarrow> HAConfig \<Rightarrow> HAMember \<Rightarrow> ('x, unit) op" where
  "stoppedBeforeAddress E config member =
     tryA (runCmd E (Some haRuntimeAddressProbeTimeout)
             [''logs'', ''-n'', ''20'', HAContainerName (hc_Name config) (hm_ID member)]) (\<lambda>res.
     case (if cr_err res = None
           then haRuntimeIPCollisionFromOutput (docText (cr_stdout res) @ cr_stderr res) config member else None) of
       Some collision \<Rightarrow> errA collision
     | None \<Rightarrow> errA (Msg ''newly started HA member stopped before reporting a runtime IPv4 address''))"

text \<open>\<open>Some r\<close>: the answer is \<open>r\<close>; \<open>None\<close>: no address yet, wait for the next tick.\<close>

definition addressStep :: "'x env \<Rightarrow> HAConfig \<Rightarrow> HAMember \<Rightarrow> ('x, unit option) op" where
  "addressStep E config member =
     catchA (inspectHAContainer E (Some haRuntimeAddressProbeTimeout) (HAContainerName (hc_Name config) (hm_ID member))) (\<lambda>r.
     case r of
       Inl e \<Rightarrow> if \<not> errorsIs e ErrNotFound then errA e else retA None
     | Inr record0 \<Rightarrow> tryA (liftA (validateHAContainer record0 config member)) (\<lambda>_.
         if length (ci_Addresses record0) = 1 then
           tryWrapA ''inspect newly started HA member'' (liftA (haContainerRuntimeIPv4 record0)) (\<lambda>address.
           case haRuntimeIPCollisionForAddress config member address of
             Some collision \<Rightarrow> errA collision | None \<Rightarrow> retA (Some ()))
         else if stateIs record0 ''stopped'' then tryA (stoppedBeforeAddress E config member) (\<lambda>_. retA None)
         else retA None))"

fun waitAddressLoop :: "'x env \<Rightarrow> HAConfig \<Rightarrow> HAMember \<Rightarrow> nat \<Rightarrow> ('x, unit) op" where
  "waitAddressLoop E config member n = tryA (addressStep E config member) (\<lambda>r. case r of
     Some _ \<Rightarrow> retA ()
   | None \<Rightarrow> (case n of 0 \<Rightarrow> contextDone E ''HA member did not report a runtime IPv4 address''
       | Suc m \<Rightarrow> waitAddressLoop E config member m))"

declare waitAddressLoop.simps [simp del]

definition waitHAServerRuntimeAddress :: "'x env \<Rightarrow> HAConfig \<Rightarrow> HAMember \<Rightarrow> ('x, unit) op" where
  "waitHAServerRuntimeAddress E config member = tryA (askExt (e_ticks E)) (waitAddressLoop E config member)"

section \<open>Removing the exact envelope\<close>

definition stopConflicting :: "'x env \<Rightarrow> HAConfig \<Rightarrow> HAMember \<Rightarrow> ('x, unit) op" where
  "stopConflicting E config member = (let name = HAContainerName (hc_Name config) (hm_ID member) in
     catchA (runHABounded E ''stop conflicting HA server'' [''stop'', name]) (\<lambda>r. case r of
       Inr _ \<Rightarrow> retA ()
     | Inl stopErr \<Rightarrow> catchA (inspectHAContainer E None name) (\<lambda>ri. case ri of
           Inl inspectErr \<Rightarrow> errA (Joined [stopErr, inspectErr])
         | Inr refreshed \<Rightarrow> (case validateHAContainer refreshed config member of
               Inl e \<Rightarrow> errA (Joined [stopErr, e])
             | Inr _ \<Rightarrow> if \<not> stateIs refreshed ''stopped'' then errA stopErr else retA ()))))"

definition deleteExactHAServerEnvelope :: "'x env \<Rightarrow> HAConfig \<Rightarrow> HAMember \<Rightarrow> ('x, unit) op" where
  "deleteExactHAServerEnvelope E config member = (let name = HAContainerName (hc_Name config) (hm_ID member) in
     tryA (inspectIfPresent (inspectHAContainer E None name) (\<lambda>c. validateHAContainer c config member)) (\<lambda>found.
     case found of
       None \<Rightarrow> retA ()
     | Some record0 \<Rightarrow>
         tryA (if stateIs record0 ''running'' then stopConflicting E config member else retA ()) (\<lambda>_.
         tryA (inspectHAContainer E None name) (\<lambda>record1.
         tryA (liftA (validateHAContainer record1 config member)) (\<lambda>_.
         if \<not> stateIs record1 ''stopped''
         then errA (Msg ''refusing to delete conflicting HA member because its exact envelope is not stopped'')
         else runHABounded E ''delete conflicting HA server'' [''delete'', name])))))"

section \<open>Starting a server\<close>

text \<open>\<open>Some collision\<close>: the server got a reserved address and must be replaced.\<close>

definition startEnvelope :: "'x env \<Rightarrow> HAConfig \<Rightarrow> HAMember \<Rightarrow> string \<Rightarrow> int \<Rightarrow> ('x, gerror option) op" where
  "startEnvelope E config member operation runTimeout =
     tryA (runCmd E (Some runTimeout) (HAServerRunArguments (e_host E) config member)) (\<lambda>res.
     case cr_ctxErr res of
       Some contextErr \<Rightarrow> errA (Wrap (operation @ '' timed out'') contextErr)
     | None \<Rightarrow> (case cr_err res of
         Some runErr \<Rightarrow> (case haRuntimeIPCollisionFromOutput (cr_stderr res) config member of
             None \<Rightarrow> errA (commandError operation (cr_stderr res) runErr)
           | Some collision \<Rightarrow> retA (Some collision))
       | None \<Rightarrow> catchA (waitHAServerRuntimeAddress E config member) (\<lambda>r. case r of
             Inr _ \<Rightarrow> retA None
           | Inl addressErr \<Rightarrow> (case errorsAsCollision addressErr of
               None \<Rightarrow> errA addressErr
             | Some (a, rid, sid) \<Rightarrow> retA (Some (IPCollision a rid sid))))))"

fun envelopeAttempts :: "'x env \<Rightarrow> HAConfig \<Rightarrow> HAMember \<Rightarrow> string \<Rightarrow> int \<Rightarrow> nat \<Rightarrow> ('x, unit) op" where
  "envelopeAttempts E config member operation runTimeout 0 =
     errA (Msg (operation @ '' could not obtain a non-reserved runtime IPv4''))"
| "envelopeAttempts E config member operation runTimeout (Suc n) =
     tryA (askExt (e_ctxErr E)) (\<lambda>c. case c of
       Some e \<Rightarrow> errA (Wrap operation e)
     | None \<Rightarrow>
         tryWrapA (operation @ '' preflight found a runtime/stable IP collision before creating member'')
           (validateHAPeerRuntimeIPReservations E config member) (\<lambda>_.
         tryA (startEnvelope E config member operation runTimeout) (\<lambda>r. case r of
           None \<Rightarrow> retA ()
         | Some collision \<Rightarrow> catchA (deleteExactHAServerEnvelope E config member) (\<lambda>rd. case rd of
               Inl e \<Rightarrow> errA (Joined [Wrap operation collision,
                          Wrap ''remove the exact conflicting envelope before retry'' e])
             | Inr _ \<Rightarrow> envelopeAttempts E config member operation runTimeout n))))"

definition runHAServerEnvelope :: "'x env \<Rightarrow> HAConfig \<Rightarrow> HAMember \<Rightarrow> string \<Rightarrow> int \<Rightarrow> ('x, unit) op" where
  "runHAServerEnvelope E config member operation runTimeout =
     envelopeAttempts E config member operation runTimeout (nat haMemberCount)"

section \<open>Lemmas\<close>

lemma quiet_peerReservations: "emits quiet (validateHAPeerRuntimeIPReservations E config target)"
  unfolding validateHAPeerRuntimeIPReservations_def peerRecord_def by (intro effects quiet_inspects)

lemma quiet_stoppedBeforeAddress: "emits quiet (stoppedBeforeAddress E config member)"
  unfolding stoppedBeforeAddress_def by (intro effects) (simp add: quiet_def readsOnlyArgs_def)

lemma quiet_addressStep: "emits quiet (addressStep E config member)"
  unfolding addressStep_def by (intro effects quiet_inspects quiet_stoppedBeforeAddress)

lemma quiet_waitAddressLoop: "emits quiet (waitAddressLoop E config member n)"
proof (induction n)
  case 0
  show ?case by (subst waitAddressLoop.simps) (auto intro!: effects quiet_addressStep)
next
  case (Suc n)
  show ?case by (subst waitAddressLoop.simps) (auto intro!: effects quiet_addressStep Suc)
qed

lemma quiet_waitHAServerRuntimeAddress: "emits quiet (waitHAServerRuntimeAddress E config member)"
  unfolding waitHAServerRuntimeAddress_def by (intro effects quiet_waitAddressLoop)

text \<open>The commands that starting a server may issue.\<close>

definition envelopeCommand :: "'x env \<Rightarrow> HAConfig \<Rightarrow> HAMember \<Rightarrow> event \<Rightarrow> bool" where
  "envelopeCommand E config member e \<longleftrightarrow> quiet e
     \<or> cmdArgs e = HAServerRunArguments (e_host E) config member
     \<or> cmdArgs e \<in> {[''stop'', HAContainerName (hc_Name config) (hm_ID member)],
                    [''delete'', HAContainerName (hc_Name config) (hm_ID member)]}"

lemma emits_deleteExact: "emits (envelopeCommand E config member) (deleteExactHAServerEnvelope E config member)"
  unfolding deleteExactHAServerEnvelope_def stopConflicting_def Let_def
  by (intro effects quietly [OF quiet_inspects(1)]) (simp_all add: envelopeCommand_def cmdArgs_def)

lemma emits_startEnvelope: "emits (envelopeCommand E config member) (startEnvelope E config member op t)"
  unfolding startEnvelope_def
  by (intro effects quietly [OF quiet_waitHAServerRuntimeAddress]) (simp_all add: envelopeCommand_def cmdArgs_def)

lemma emits_envelopeAttempts: "emits (envelopeCommand E config member) (envelopeAttempts E config member op t n)"
proof (induction n)
  case (Suc n)
  show ?case unfolding envelopeAttempts.simps
    by (intro effects quietly [OF quiet_peerReservations] emits_startEnvelope emits_deleteExact Suc)
      (simp add: envelopeCommand_def)
qed (simp only: envelopeAttempts.simps emits_errA)

lemma emits_runHAServerEnvelope:
  "emits (envelopeCommand E config member) (runHAServerEnvelope E config member op t)"
  unfolding runHAServerEnvelope_def by (rule emits_envelopeAttempts)

text \<open>A collision names the address, and the member it belongs to is another one.\<close>

lemma collision_sound:
  assumes "haRuntimeIPCollisionForAddress config m a = Some e"
  shows "\<exists>w s. parseAddr4 a = Some w \<and> s \<in> set (hc_Members config) \<and> hm_ID s \<noteq> hm_ID m
    \<and> hm_StableIP s = addrString w \<and> e = IPCollision (addrString w) (hm_ID m) (hm_ID s)"
proof -
  from assms obtain w s where w: "parseAddr4 a = Some w"
    and s: "find (\<lambda>s. \<not> (hm_ID s = hm_ID m \<or> hm_StableIP s \<noteq> addrString w)) (hc_Members config) = Some s"
    and e: "e = IPCollision (addrString w) (hm_ID m) (hm_ID s)"
    by (auto simp: haRuntimeIPCollisionForAddress_def split: option.splits)
  from s have "s \<in> set (hc_Members config) \<and> hm_ID s \<noteq> hm_ID m \<and> hm_StableIP s = addrString w"
    by (auto simp: find_Some_iff)
  with w e show ?thesis by blast
qed

lemma no_collision:
  assumes "haRuntimeIPCollisionForAddress config m (addrString w) = None" "s \<in> set (hc_Members config)"
    "hm_ID s \<noteq> hm_ID m"
  shows "hm_StableIP s \<noteq> addrString w"
  using assms by (auto simp: haRuntimeIPCollisionForAddress_def find_None_iff split: option.splits)

section \<open>Properties\<close>

definition isRun :: "event \<Rightarrow> bool" where
  "isRun e \<longleftrightarrow> cmdArgs e \<noteq> [] \<and> hd (cmdArgs e) = ''run''"

lemma isRun_quiet: "quiet e \<Longrightarrow> \<not> isRun e"
  by (auto simp: isRun_def quiet_def cmdArgs_def readsOnlyArgs_def split: event.splits list.splits)

lemma atMost_startEnvelope: "atMost isRun 1 (startEnvelope E config member op t)"
proof -
  have "atMost isRun (1 + 0) (startEnvelope E config member op t)"
    unfolding startEnvelope_def
    by (intro atMost_tryA atMost_runCmd atMost_none effects quietly [OF quiet_waitHAServerRuntimeAddress] isRun_quiet)
  then show ?thesis by simp
qed

lemma atMost_envelopeAttempts: "atMost isRun n (envelopeAttempts E config member op t n)"
proof (induction n)
  case 0
  show ?case by (simp only: envelopeAttempts.simps) (intro atMost_none effects)
next
  case (Suc n)
  have del: "emits (\<lambda>e. \<not> isRun e) (deleteExactHAServerEnvelope E config member)"
    unfolding deleteExactHAServerEnvelope_def stopConflicting_def Let_def
    by (intro effects quietly [OF quiet_inspects(1)]) (simp_all add: isRun_quiet, simp_all add: isRun_def cmdArgs_def)
  have rest: "atMost isRun (0 + n) (catchA (deleteExactHAServerEnvelope E config member) (\<lambda>rd. case rd of
      Inl e \<Rightarrow> errA (f e) | Inr _ \<Rightarrow> envelopeAttempts E config member op t n))" for f
    by (rule atMost_catchA [OF atMost_none [OF del]]) (auto intro: Suc atMost_none split: sum.split)
  have main: "atMost isRun (1 + n) (tryA (startEnvelope E config member op t) (\<lambda>r. case r of
      None \<Rightarrow> retA ()
    | Some collision \<Rightarrow> catchA (deleteExactHAServerEnvelope E config member) (\<lambda>rd. case rd of
          Inl e \<Rightarrow> errA (Joined [Wrap op collision, Wrap ''remove the exact conflicting envelope before retry'' e])
        | Inr _ \<Rightarrow> envelopeAttempts E config member op t n)))"
    using rest by (intro atMost_tryA atMost_startEnvelope) (auto intro: atMost_none split: option.split)
  have pre: "atMost isRun (0 + (1 + n)) (tryWrapA s (validateHAPeerRuntimeIPReservations E config member) (\<lambda>_.
      tryA (startEnvelope E config member op t) (\<lambda>r. case r of
      None \<Rightarrow> retA ()
    | Some collision \<Rightarrow> catchA (deleteExactHAServerEnvelope E config member) (\<lambda>rd. case rd of
          Inl e \<Rightarrow> errA (Joined [Wrap op collision, Wrap ''remove the exact conflicting envelope before retry'' e])
        | Inr _ \<Rightarrow> envelopeAttempts E config member op t n))))" for s
    by (intro atMost_tryWrapA main atMost_none quietly [OF quiet_peerReservations] isRun_quiet)
  have "atMost isRun (0 + (1 + n)) (envelopeAttempts E config member op t (Suc n))"
    unfolding envelopeAttempts.simps using pre
    by (intro atMost_tryA) (auto intro: atMost_none effects split: option.split)
  then show ?case by simp
qed

text \<open>
  However the runtime answers, starting one server issues at most three \<open>run\<close>
  commands: the retry loop over colliding addresses is bounded.
\<close>

lemma runHAServerEnvelope_bounded:
  "length (filter isRun (w_trace (snd (runHAServerEnvelope E config member op t (w\<lparr>w_trace := []\<rparr>))))) \<le> 3"
  unfolding runHAServerEnvelope_def using atMost_run [OF atMost_envelopeAttempts [where n = 3]] by simp

text \<open>
  When the reservation check accepts the inspected servers, the runtime address of
  every running one is not the stable address of any other member.
\<close>

lemma reservations_sound:
  assumes ok: "validateHACurrentRuntimeIPReservations config records = Inr ()"
    and r: "(i, record0) \<in> set records" "stateIs record0 ''running''" "ci_Addresses record0 = a # as"
    and s: "s \<in> set (hc_Members config)" "hm_ID s \<noteq> i"
  shows "as = [] \<and> (\<exists>p. parsePrefix4 a = Some p \<and> hm_StableIP s \<noteq> addrString (fst p))"
proof -
  have all: "checkReservations config rs = Inr () \<Longrightarrow> \<forall>x\<in>set rs. checkReservation config x = Inr ()" for rs
    by (induction rs) auto
  have "checkReservation config (i, record0) = Inr ()"
    using all [of "sort_key fst records"] ok r(1) by (auto simp: validateHACurrentRuntimeIPReservations_def)
  then obtain address where ad: "haContainerRuntimeIPv4 record0 = Inr address"
    and nc: "haRuntimeIPCollisionForAddress config (memberByID (hc_Members config) i) address = None"
    using r by (auto simp: checkReservation_def split: option.splits)
  from ad obtain p where p: "as = []" "parsePrefix4 a = Some p" "address = addrString (fst p)"
    using r(3) by (auto simp: haContainerRuntimeIPv4_def split: list.splits option.splits)
  then show ?thesis using no_collision [OF nc [unfolded p(3)] s(1)] s(2) by auto
qed

theorem reservations_sound_witness:
  "hm_StableIP (memberByID (hc_Members exampleConfig) 2) \<noteq> addrString (ipv4Of 192 168 96 7)"
proof -
  let ?r = "zeroContainer\<lparr>ci_State := ''Running'', ci_Addresses := [''192.168.96.7/24'']\<rparr>"
  have ok: "validateHACurrentRuntimeIPReservations exampleConfig [(1, ?r)] = Inr ()" by code_simp
  have run: "stateIs ?r ''running''" by code_simp
  have m: "memberByID (hc_Members exampleConfig) 2 \<in> set (hc_Members exampleConfig)" by code_simp
  have p: "parsePrefix4 ''192.168.96.7/24'' = Some (ipv4Of 192 168 96 7, 24)" by code_simp
  have in_list: "(1, ?r) \<in> set [(1, ?r)]" by simp
  have one: "ci_Addresses ?r = ''192.168.96.7/24'' # []" by simp
  have other: "hm_ID (memberByID (hc_Members exampleConfig) 2) \<noteq> 1" by simp
  from reservations_sound [OF ok in_list run one m other] p show ?thesis by auto
qed

end
