(* ===== verification/Etcd.thy ===== *)
theory Etcd
  imports Addresses
begin

text \<open>
  Embedded-etcd membership (\<open>internal/cluster/ha_etcd.go\<close>): the parser of the local probe
  (health document, separator, Prometheus metrics), the canonical server ID, the topology
  check of all three members and the quorum check of two.  \<open>ParseFloat\<close> is exact on decimal
  text within the range of a float64 (no hexadecimal floats), which the comparisons with
  0, 1 and integers need.
\<close>

section \<open>Text helpers\<close>

definition haEtcdOutputSeparator :: string where
  "haEtcdOutputSeparator = ''APC_ETCD_METRICS_BEGIN''"

definition haEtcdLocalProbeScript :: string where
  "haEtcdLocalProbeScript = ''set -eu; wget -q -T 3 -O - http://127.0.0.1:2381/health; printf '' @ [CHR 0x27, CHR 0x5C]
     @ ''n'' @ haEtcdOutputSeparator @ [CHR 0x5C] @ ''n'' @ [CHR 0x27] @ ''; wget -q -T 3 -O - http://127.0.0.1:2381/metrics''"

definition haEtcdLocalProbeTimeout :: int where
  "haEtcdLocalProbeTimeout = 5 * second"

text \<open>\<open>bytes.SplitN(s, sep, 2)\<close>: the text before and after the first occurrence.\<close>

fun splitFirst :: "string \<Rightarrow> string \<Rightarrow> (string \<times> string) option" where
  "splitFirst sep [] = (if sep = [] then Some ([], []) else None)"
| "splitFirst sep (c # cs) = (if hasPrefix (c # cs) sep then Some ([], drop (length sep) (c # cs))
     else map_option (\<lambda>(a, b). (c # a, b)) (splitFirst sep cs))"

text \<open>A float64: a decimal \<open>m * 10 ^ e\<close>, an infinity or NaN.\<close>

datatype goFloat = NaN | Infinite | Decimal int int

definition scaled :: "goFloat \<Rightarrow> int \<Rightarrow> bool" where
  "scaled v n = (case v of Decimal m e \<Rightarrow> (if 0 \<le> e then m * 10 ^ nat e = n else m = n * 10 ^ nat (- e)) | _ \<Rightarrow> False)"

definition positiveInteger :: "goFloat \<Rightarrow> bool" where
  "positiveInteger v = (case v of Decimal m e \<Rightarrow> 0 < m \<and> (0 \<le> e \<or> m mod 10 ^ nat (- e) = 0) | _ \<Rightarrow> False)"

definition decimalInRange :: "int \<Rightarrow> int \<Rightarrow> int \<Rightarrow> goFloat option" where
  "decimalInRange m digits e = (if m = 0 \<or> digits + e < - 323 then Some (Decimal 0 0)
     else if 309 < digits + e then None else Some (Decimal m e))"

definition parseFloat :: "string \<Rightarrow> goFloat option" where
  "parseFloat s = (let signed = (s \<noteq> [] \<and> hd s \<in> {CHR ''-'', CHR ''+''}); neg = (s \<noteq> [] \<and> hd s = CHR ''-'');
       body = (if signed then tl s else s) in
     if toLower body \<in> {''inf'', ''infinity''} then Some Infinite
     else if toLower body = ''nan'' then (if signed then None else Some NaN)
     else let ip = takeWhile isDigit body; r1 = drop (length ip) body;
              dot = (r1 \<noteq> [] \<and> hd r1 = CHR ''.''); fp = (if dot then takeWhile isDigit (tl r1) else []);
              r2 = (if dot then drop (length fp) (tl r1) else r1);
              hasExp = (r2 \<noteq> [] \<and> hd r2 \<in> {CHR ''e'', CHR ''E''}); ex = (if hasExp then tl r2 else []);
              exSigned = (ex \<noteq> [] \<and> hd ex \<in> {CHR ''-'', CHR ''+''}); exDigits = (if exSigned then tl ex else ex);
              exVal = (if exSigned \<and> hd ex = CHR ''-'' then - decVal exDigits else decVal exDigits);
              m = decVal (ip @ fp); digits = int (length (dropWhile (\<lambda>c. c = CHR ''0'') (ip @ fp))) in
       if ip @ fp = [] then None
       else if hasExp then
         (if exDigits = [] \<or> \<not> list_all isDigit exDigits then None
          else decimalInRange (if neg then - m else m) digits (exVal - int (length fp)))
       else if r2 \<noteq> [] then None
       else decimalInRange (if neg then - m else m) digits (- int (length fp)))"

text \<open>\<open>strconv.Unquote\<close>.\<close>

definition utf8Rune :: "int \<Rightarrow> string option" where
  "utf8Rune n = (if 55296 \<le> n \<and> n < 57344 then None
     else if n < 65536 then Some (utf8 n)
     else if n \<le> 1114111 then Some [char_of (nat (240 + n div 262144)), char_of (nat (128 + n div 4096 mod 64)),
            char_of (nat (128 + n div 64 mod 64)), char_of (nat (128 + n mod 64))]
     else None)"

definition unquoteEscape :: "char \<Rightarrow> char \<Rightarrow> char option" where
  "unquoteEscape quote c = (if c = quote \<and> c \<in> {CHR 0x22, CHR 0x27} then Some c
     else map_of [(CHR ''a'', CHR 0x07), (CHR ''b'', CHR 0x08), (CHR ''f'', CHR 0x0C), (CHR ''n'', CHR 0x0A),
       (CHR ''r'', CHR 0x0D), (CHR ''t'', CHR 0x09), (CHR ''v'', CHR 0x0B), (CHR 0x5C, CHR 0x5C)] c)"

definition octalVal :: "string \<Rightarrow> int" where
  "octalVal s = foldl (\<lambda>v c. v * 8 + int (code c - 48)) 0 s"

text \<open>One element of the literal: its bytes and how much text it takes.\<close>

definition unquoteChar :: "char \<Rightarrow> string \<Rightarrow> (string \<times> nat) option" where
  "unquoteChar quote s = (case s of
     [] \<Rightarrow> None
   | c # t \<Rightarrow>
       if c = quote \<or> c = CHR 0x0A then None
       else if c \<noteq> CHR 0x5C then Some ([c], 1)
       else (case t of
           [] \<Rightarrow> None
         | d # u \<Rightarrow>
             if d = CHR ''x'' then (if 2 \<le> length u \<and> list_all isHexDigit (take 2 u)
               then Some ([char_of (nat (hexNum (take 2 u)))], 4) else None)
             else if d = CHR ''u'' then (if 4 \<le> length u \<and> list_all isHexDigit (take 4 u)
               then map_option (\<lambda>b. (b, 6)) (utf8Rune (hexNum (take 4 u))) else None)
             else if d = CHR ''U'' then (if 8 \<le> length u \<and> list_all isHexDigit (take 8 u)
               then map_option (\<lambda>b. (b, 10)) (utf8Rune (hexNum (take 8 u))) else None)
             else if 48 \<le> code d \<and> code d \<le> 55 then
               (if 2 \<le> length u \<and> list_all (\<lambda>x. 48 \<le> code x \<and> code x \<le> 55) (take 2 u) \<and> octalVal (d # take 2 u) \<le> 255
                then Some ([char_of (nat (octalVal (d # take 2 u)))], 4) else None)
             else map_option (\<lambda>e. ([e], 2)) (unquoteEscape quote d)))"

fun unquoteRest :: "nat \<Rightarrow> char \<Rightarrow> string \<Rightarrow> string option" where
  "unquoteRest n quote [] = Some []"
| "unquoteRest 0 quote s = None"
| "unquoteRest (Suc n) quote s = (case unquoteChar quote s of None \<Rightarrow> None
     | Some (b, k) \<Rightarrow> map_option (\<lambda>r. b @ r) (unquoteRest n quote (drop k s)))"

definition unquote :: "string \<Rightarrow> string option" where
  "unquote s = (if length s < 2 \<or> hd s \<noteq> last s then None
     else let body = butlast (tl s) in
       if hd s = CHR 0x60 then (if CHR 0x60 \<in> set body then None else Some (filter (\<lambda>c. c \<noteq> CHR 0x0D) body))
       else if hd s = CHR 0x22 then unquoteRest (length body) CHR 0x22 body
       else if hd s = CHR 0x27 then (case unquoteChar CHR 0x27 body of
           Some (b, k) \<Rightarrow> if k = length body then Some b else None | None \<Rightarrow> None)
       else None)"

section \<open>The parser of the probe\<close>

record HAEtcdMemberTopology =
  et_MemberID :: int
  et_NodeName :: string
  et_ServerID :: string
  et_PeerServerIDs :: "string list"
  et_HealthSuccess :: bool
  et_HasLeader :: bool
  et_IsLeader :: bool
  et_IsLearner :: bool

fun prometheusLabels :: "string list \<Rightarrow> string \<Rightarrow> string option" where
  "prometheusLabels [] name = None"
| "prometheusLabels (label # labels) name = (case cutAt CHR ''='' label of (key, value, ok) \<Rightarrow>
     if \<not> ok \<or> trimSpace key \<noteq> name then prometheusLabels labels name else unquote (trimSpace value))"

definition prometheusLabel :: "string \<Rightarrow> string \<Rightarrow> string option" where
  "prometheusLabel metric name =
     (let start = length (takeWhile (\<lambda>c. c \<noteq> CHR ''{'') metric);
          tail = length (takeWhile (\<lambda>c. c \<noteq> CHR ''}'') (rev metric));
          end = length metric - Suc tail in
      if start = length metric \<or> tail = length metric \<or> end \<le> start then None
      else prometheusLabels (splitOn CHR '','' (drop (Suc start) (take end metric))) name)"

definition formatHex :: "int \<Rightarrow> string" where
  "formatHex n = natToHex n"

definition canonicalHAEtcdServerID :: "string \<Rightarrow> gerror + string" where
  "canonicalHAEtcdServerID value0 = (let value = toLower (trimSpace value0) in
     if value = [] \<or> 16 < length value then Inl (Msg ''invalid etcd server ID'')
     else (case parseUint16 value of
         None \<Rightarrow> Inl (Msg ''invalid etcd server ID'')
       | Some number \<Rightarrow> if number = 0 then Inl (Msg ''invalid etcd server ID'') else Inr (formatHex number)))"

definition parseHAEtcdHealth :: "string \<Rightarrow> gerror + bool" where
  "parseHAEtcdHealth data = (case parseJSON (trimSpace data) of
     None \<Rightarrow> Inl (Msg ''decode local etcd health'')
   | Some j \<Rightarrow> tryS (wrapS ''decode local etcd health'' (objFields j)) (\<lambda>kvs.
       if \<not> list_ex (\<lambda>kv. equalFold (fst kv) ''health'') kvs
       then Inl (Msg ''local etcd health response has an invalid health value'')
       else (case dBool (jField kvs ''health'') of
           Inr b \<Rightarrow> Inr b
         | Inl _ \<Rightarrow> (case dString (jField kvs ''health'') of
               Inr text \<Rightarrow> Inr (equalFold text ''true'')
             | Inl _ \<Rightarrow> Inl (Msg ''local etcd health response has an invalid health value'')))))"

record etcdScan =
  sc_metrics :: "(string \<times> goFloat) list"
  sc_peers :: "string list"
  sc_serverID :: string

definition scanLine :: "etcdScan \<Rightarrow> string \<Rightarrow> gerror + etcdScan" where
  "scanLine sc line0 = (let line = trimSpace line0 in
     if line = [] \<or> hasPrefix line ''#'' then Inr sc
     else let fs = GoStrings.fields line in
       if length fs < 2 then Inr sc
       else let metricWithLabels = hd fs; metricName = takeWhile (\<lambda>c. c \<noteq> CHR ''{'') metricWithLabels;
                sc1 = (case parseFloat (last fs) of None \<Rightarrow> sc
                       | Some v \<Rightarrow> sc\<lparr>sc_metrics := (metricName, v) # sc_metrics sc\<rparr>) in
       tryS (if hasPrefix metricName ''etcd_network_peer_'' then
               (case prometheusLabel metricWithLabels ''To'' of None \<Rightarrow> Inr sc1
                | Some rawID \<Rightarrow> (case canonicalHAEtcdServerID rawID of
                    Inl _ \<Rightarrow> Inl (Msg ''invalid etcd peer server ID'')
                  | Inr canonical \<Rightarrow> Inr (sc1\<lparr>sc_peers := List.insert canonical (sc_peers sc1)\<rparr>)))
             else Inr sc1) (\<lambda>sc2.
       if metricName = ''etcd_server_id'' then
         (case prometheusLabel metricWithLabels ''server_id'' of None \<Rightarrow> Inr sc2
          | Some rawID \<Rightarrow> (case canonicalHAEtcdServerID rawID of
              Inl _ \<Rightarrow> Inl (Msg ''invalid local etcd server ID'')
            | Inr canonical \<Rightarrow> Inr (sc2\<lparr>sc_serverID := canonical\<rparr>)))
       else Inr sc2))"

text \<open>\<open>bufio.Scanner\<close> stops with an error at a line of 64 KiB or more.\<close>

fun scanLines :: "etcdScan \<Rightarrow> string list \<Rightarrow> gerror + etcdScan" where
  "scanLines sc [] = Inr sc"
| "scanLines sc (l # ls) = (if 65536 \<le> int (length l) then Inl (Msg ''scan local etcd metrics: token too long'')
     else tryS (scanLine sc l) (\<lambda>sc'. scanLines sc' ls))"

definition metricOf :: "etcdScan \<Rightarrow> string \<Rightarrow> goFloat option" where
  "metricOf sc name = map_of (sc_metrics sc) name"

definition metricIs :: "etcdScan \<Rightarrow> string \<Rightarrow> int \<Rightarrow> bool" where
  "metricIs sc name n = (case metricOf sc name of None \<Rightarrow> False | Some v \<Rightarrow> scaled v n)"

definition emptyScan :: etcdScan where
  "emptyScan = \<lparr>sc_metrics = [], sc_peers = [], sc_serverID = []\<rparr>"

definition parseHAEtcdLocalState :: "string \<Rightarrow> HAMember \<Rightarrow> gerror + HAEtcdMemberTopology" where
  "parseHAEtcdLocalState output member =
     (case splitFirst ([CHR 0x0A] @ haEtcdOutputSeparator @ [CHR 0x0A]) output of
       None \<Rightarrow> Inl (Msg ''local etcd probe did not return its health/metrics separator'')
     | Some (healthText, metricsText) \<Rightarrow>
       tryS (parseHAEtcdHealth healthText) (\<lambda>healthSuccess.
       tryS (scanLines emptyScan (splitOn CHR 0x0A metricsText)) (\<lambda>sc.
       if sc_serverID sc = [] then Inl (Msg ''local etcd metrics do not contain a valid etcd_server_id'')
       else if \<not> (case metricOf sc ''etcd_server_health_success'' of None \<Rightarrow> False | Some v \<Rightarrow> positiveInteger v)
       then Inl (Msg ''local etcd health success counter is not a positive finite integer'')
       else if \<not> metricIs sc ''etcd_server_has_leader'' 1 then Inl (Msg ''local etcd member has no elected leader'')
       else if \<not> metricIs sc ''etcd_server_is_leader'' 0 \<and> \<not> metricIs sc ''etcd_server_is_leader'' 1
       then Inl (Msg ''local etcd metrics do not expose a valid leader role'')
       else if metricOf sc ''etcd_server_is_learner'' = None
       then Inl (Msg ''local etcd metrics do not expose learner state'')
       else if \<not> metricIs sc ''etcd_server_is_learner'' 0 then Inl (Msg ''local etcd member is still a learner'')
       else if \<not> healthSuccess then Inl (Msg ''local etcd health endpoint did not report success'')
       else let peers = sortStrings (filter (\<lambda>i. i \<noteq> sc_serverID sc) (sc_peers sc)) in
       if int (length peers) \<noteq> haMemberCount - 1
       then Inl (Msg ''local etcd member reports another number of unique peers'')
       else Inr \<lparr>et_MemberID = hm_ID member, et_NodeName = hm_NodeName member, et_ServerID = sc_serverID sc,
              et_PeerServerIDs = peers, et_HealthSuccess = True, et_HasLeader = True,
              et_IsLeader = metricIs sc ''etcd_server_is_leader'' 1, et_IsLearner = False\<rparr>)))"

section \<open>Probing\<close>

definition probeHAEtcdMember :: "'x env \<Rightarrow> HAConfig \<Rightarrow> HAMember \<Rightarrow> ('x, HAEtcdMemberTopology) op" where
  "probeHAEtcdMember E config member =
     tryA (runCmd E (Some haEtcdLocalProbeTimeout)
             [''exec'', HAContainerName (hc_Name config) (hm_ID member), ''/bin/sh'', ''-c'', haEtcdLocalProbeScript]) (\<lambda>res.
     case cr_err res of
       Some e \<Rightarrow> (case cr_ctxErr res of
           Some contextErr \<Rightarrow> errA (Wrap ''probe local etcd state on HA member'' contextErr)
         | None \<Rightarrow> errA (commandError ''probe local etcd state on HA member'' (cr_stderr res) e))
     | None \<Rightarrow> wrapA ''validate local etcd state on HA member''
         (liftA (parseHAEtcdLocalState (docText (cr_stdout res)) member)))"

section \<open>Topology and quorum\<close>

definition equalStringSlices :: "string list \<Rightarrow> string list \<Rightarrow> bool" where
  "equalStringSlices left right \<longleftrightarrow> left = right"

definition boolCount :: "bool list \<Rightarrow> int" where
  "boolCount values = int (length (filter (\<lambda>v. v) values))"

text \<open>Probe each member in turn; a duplicate server ID stops the loop.\<close>

fun probeAll :: "'x env \<Rightarrow> HAConfig \<Rightarrow> HAEtcdMemberTopology list \<Rightarrow> HAMember list \<Rightarrow> ('x, HAEtcdMemberTopology list) op" where
  "probeAll E config acc [] = retA acc"
| "probeAll E config acc (member # members) =
     tryA (probeHAEtcdMember E config member) (\<lambda>state.
     if et_ServerID state \<in> set (map et_ServerID acc)
     then errA (Msg ''HA etcd members report duplicate server ID'')
     else probeAll E config (acc @ [state]) members)"

definition peersExact :: "HAEtcdMemberTopology list \<Rightarrow> HAEtcdMemberTopology \<Rightarrow> bool" where
  "peersExact members m \<longleftrightarrow> equalStringSlices (et_PeerServerIDs m)
     (sortStrings (filter (\<lambda>i. i \<noteq> et_ServerID m) (map et_ServerID members)))"

definition checkTopology :: "HAEtcdMemberTopology list \<Rightarrow> gerror + HAEtcdMemberTopology list" where
  "checkTopology members =
     (if int (length members) \<noteq> haMemberCount then Inl (Msg ''HA etcd topology requires exactly 3 unique members'')
      else if \<not> list_all (peersExact members) members
      then Inl (Msg ''HA etcd member reports unexpected peer IDs'')
      else if boolCount (map et_IsLeader members) \<noteq> 1
      then Inl (Msg ''HA etcd topology reports another number of leaders, expected exactly one'')
      else Inr (sort_key et_MemberID members))"

definition validateHAEtcdTopology :: "'x env \<Rightarrow> HAConfig \<Rightarrow> ('x, HAEtcdMemberTopology list) op" where
  "validateHAEtcdTopology E config =
     tryA (probeAll E config [] (hc_Members config)) (\<lambda>members. liftA (checkTopology members))"

definition repairTargetServerID :: "HAEtcdMemberTopology \<Rightarrow> string \<Rightarrow> gerror + string" where
  "repairTargetServerID member otherVoterID =
     (if int (length (et_PeerServerIDs member)) \<noteq> haMemberCount - 1
         \<or> \<not> containsString (et_PeerServerIDs member) otherVoterID
      then Inl (Msg ''non-target etcd voter does not report the other voter in its exact peer set'')
      else (case find (\<lambda>peerID. peerID \<noteq> otherVoterID) (et_PeerServerIDs member) of
          Some peerID \<Rightarrow> Inr peerID
        | None \<Rightarrow> Inl (Msg ''non-target etcd voter does not report a distinct target peer'')))"

definition checkRepairQuorum :: "HAEtcdMemberTopology list \<Rightarrow> gerror + HAEtcdMemberTopology list" where
  "checkRepairQuorum members = (case members of
     [left, right] \<Rightarrow>
       if et_ServerID left = et_ServerID right then Inl (Msg ''non-target etcd voters report duplicate server ID'')
       else if 1 < boolCount [et_IsLeader left, et_IsLeader right]
       then Inl (Msg ''non-target etcd voters report 2 leaders'')
       else tryS (repairTargetServerID left (et_ServerID right)) (\<lambda>leftTargetID.
         tryS (repairTargetServerID right (et_ServerID left)) (\<lambda>rightTargetID.
         if leftTargetID \<noteq> rightTargetID then Inl (Msg ''non-target etcd voters disagree on the target server ID'')
         else if leftTargetID = et_ServerID left \<or> leftTargetID = et_ServerID right
         then Inl (Msg ''non-target etcd voters do not identify a unique third server ID'')
         else Inr (sort_key et_MemberID members)))
   | _ \<Rightarrow> Inl (Msg ''HA repair requires exactly two non-target etcd voters''))"

definition collectVoter :: "'x env \<Rightarrow> HAConfig \<Rightarrow> HAEtcdMemberTopology list \<Rightarrow> HAMember
    \<Rightarrow> ('x, HAEtcdMemberTopology list) op" where
  "collectVoter E config acc member = tryWrapA ''non-target etcd voter is not healthy for repair''
     (probeHAEtcdMember E config member) (\<lambda>state. retA (acc @ [state]))"

definition validateHAEtcdRepairQuorum :: "'x env \<Rightarrow> HAConfig \<Rightarrow> int \<Rightarrow> ('x, HAEtcdMemberTopology list) op" where
  "validateHAEtcdRepairQuorum E config targetID =
     (if hm_ID (memberByID (hc_Members config) targetID) = 0 then errA (Msg ''HA repair target member is not declared'')
      else tryA (foldA (collectVoter E config) [] (filter (\<lambda>m. hm_ID m \<noteq> targetID) (hc_Members config))) (\<lambda>members.
        liftA (checkRepairQuorum members)))"

section \<open>Lemmas\<close>

text \<open>What a parsed probe says of a member.\<close>

definition healthyVoter :: "HAEtcdMemberTopology \<Rightarrow> bool" where
  "healthyVoter m \<longleftrightarrow> et_HealthSuccess m \<and> et_HasLeader m \<and> \<not> et_IsLearner m \<and> et_ServerID m \<noteq> []
     \<and> distinct (et_PeerServerIDs m) \<and> length (et_PeerServerIDs m) = 2 \<and> et_ServerID m \<notin> set (et_PeerServerIDs m)"

lemma scanLine_distinct: "scanLine sc l = Inr sc' \<Longrightarrow> distinct (sc_peers sc) \<Longrightarrow> distinct (sc_peers sc')"
  by (auto simp: scanLine_def Let_def split: if_splits option.splits sum.splits)

lemma scanLines_distinct: "scanLines sc ls = Inr sc' \<Longrightarrow> distinct (sc_peers sc) \<Longrightarrow> distinct (sc_peers sc')"
  by (induction ls arbitrary: sc) (auto dest: scanLine_distinct)

lemma parseHAEtcdLocalState_sound:
  assumes "parseHAEtcdLocalState output member = Inr m"
  shows "healthyVoter m \<and> et_MemberID m = hm_ID member"
proof -
  from assms obtain sc ls where sc: "scanLines emptyScan ls = Inr sc" and ne: "sc_serverID sc \<noteq> []"
    and len: "length (sortStrings (filter (\<lambda>i. i \<noteq> sc_serverID sc) (sc_peers sc))) = 2"
    and m: "m = \<lparr>et_MemberID = hm_ID member, et_NodeName = hm_NodeName member, et_ServerID = sc_serverID sc,
        et_PeerServerIDs = sortStrings (filter (\<lambda>i. i \<noteq> sc_serverID sc) (sc_peers sc)), et_HealthSuccess = True,
        et_HasLeader = True, et_IsLeader = metricIs sc ''etcd_server_is_leader'' 1, et_IsLearner = False\<rparr>"
    by (auto simp: parseHAEtcdLocalState_def Let_def split: option.splits)
  have "distinct (sc_peers sc)" using scanLines_distinct [OF sc] by (simp add: emptyScan_def)
  with ne len show ?thesis by (simp add: m healthyVoter_def)
qed

lemma probeHAEtcdMember_sound:
  "probeHAEtcdMember E config member w = (Inr m, w') \<Longrightarrow> healthyVoter m \<and> et_MemberID m = hm_ID member"
  by (auto simp: probeHAEtcdMember_def act_apply dest!: parseHAEtcdLocalState_sound
      split: sum.splits prod.splits option.splits)

lemma probeAll_sound:
  assumes "probeAll E config acc ms w = (Inr res, w')"
    and "list_all healthyVoter acc" "distinct (map et_ServerID acc)"
  shows "list_all healthyVoter res \<and> distinct (map et_ServerID res)
    \<and> map et_MemberID res = map et_MemberID acc @ map hm_ID ms"
  using assms
proof (induction ms arbitrary: acc w)
  case Nil
  then show ?case by simp
next
  case (Cons m ms)
  from Cons.prems(1) obtain st w1 where st: "probeHAEtcdMember E config m w = (Inr st, w1)"
    and new: "et_ServerID st \<notin> set (map et_ServerID acc)"
    and rest: "probeAll E config (acc @ [st]) ms w1 = (Inr res, w')"
    by (auto elim!: tryA_InrE split: if_splits)
  from Cons.IH [OF rest] Cons.prems(2,3) new probeHAEtcdMember_sound [OF st] show ?case by simp
qed

lemma quiet_probeHAEtcdMember: "emits quiet (probeHAEtcdMember E config m)"
  unfolding probeHAEtcdMember_def
  by (intro effects) (simp add: quiet_def readsOnlyArgs_def haEtcdLocalProbeScript_def hasPrefix_def)

lemma quiet_probeAll: "emits quiet (probeAll E config acc ms)"
  by (induction ms arbitrary: acc) (auto intro!: effects quiet_probeHAEtcdMember simp del: retA_apply)

lemma quiet_validateHAEtcdTopology: "emits quiet (validateHAEtcdTopology E config)"
  unfolding validateHAEtcdTopology_def by (intro effects quiet_probeAll)

lemma quiet_validateHAEtcdRepairQuorum: "emits quiet (validateHAEtcdRepairQuorum E config i)"
  unfolding validateHAEtcdRepairQuorum_def collectVoter_def by (intro effects quiet_probeHAEtcdMember)

text \<open>The meaning of an accepted topology.\<close>

definition exactTopology :: "HAEtcdMemberTopology list \<Rightarrow> bool" where
  "exactTopology members \<longleftrightarrow> length members = 3 \<and> distinct (map et_ServerID members)
     \<and> list_all healthyVoter members
     \<and> list_all (\<lambda>m. set (et_PeerServerIDs m) = set (map et_ServerID members) - {et_ServerID m}) members
     \<and> length (filter et_IsLeader members) = 1"

lemma filter_map_length: "length (filter (\<lambda>v. v) (map f xs)) = length (filter f xs)"
  by (induction xs) auto

lemma mset_sort_key_filter: "length (filter P (sort_key f xs)) = length (filter P xs)"
  by (metis filter_sort length_sort)

lemma distinct_map_sort_key: "distinct (map g (sort_key f xs)) = distinct (map g xs)"
  by (simp add: distinct_map)

lemma map_insort_key: "map f (insort_key f x xs) = insort (f x) (map f xs)"
  by (induction xs) auto

lemma map_sort_key: "map f (sort_key f xs) = sort (map f xs)"
  by (induction xs) (simp_all add: map_insort_key)

lemma exactTopology_sort: "exactTopology (sort_key et_MemberID members) = exactTopology members"
  by (simp add: exactTopology_def mset_sort_key_filter distinct_map_sort_key list_all_iff)

lemma peersExact_set:
  "peersExact members m \<Longrightarrow> set (et_PeerServerIDs m) = set (map et_ServerID members) - {et_ServerID m}"
  by (auto simp: peersExact_def equalStringSlices_def)

lemma checkTopology_sound:
  assumes "checkTopology members = Inr res" "list_all healthyVoter members" "distinct (map et_ServerID members)"
  shows "exactTopology res \<and> res = sort_key et_MemberID members"
proof -
  have "length (filter et_IsLeader members) = 1" "length members = 3" "list_all (peersExact members) members"
    using assms(1) by (simp_all add: checkTopology_def boolCount_def o_def)
  then have "exactTopology members"
    using assms(2,3) peersExact_set unfolding exactTopology_def list_all_iff by blast
  moreover have "res = sort_key et_MemberID members" using assms(1) by (simp add: checkTopology_def)
  ultimately show ?thesis by (simp add: exactTopology_sort)
qed

lemma validateHAEtcdTopology_sound:
  assumes "validateHAEtcdTopology E config w = (Inr members, w')"
  shows "exactTopology members \<and> map et_MemberID members = sort (map hm_ID (hc_Members config))"
proof -
  from assms obtain ms w1 where ms: "probeAll E config [] (hc_Members config) w = (Inr ms, w1)"
    and c: "checkTopology ms = Inr members"
    unfolding validateHAEtcdTopology_def by (auto elim!: tryA_InrE)
  from probeAll_sound [OF ms] have p: "list_all healthyVoter ms" "distinct (map et_ServerID ms)"
    "map et_MemberID ms = map hm_ID (hc_Members config)" by simp_all
  from checkTopology_sound [OF c p(1,2)] have "exactTopology members" and "members = sort_key et_MemberID ms"
    by blast+
  then show ?thesis using p(3) by (metis map_sort_key)
qed

section \<open>The repair quorum\<close>

text \<open>
  Two voters prove a majority: they are healthy, name each other, agree on one third server
  ID, and are not both leaders.
\<close>

definition provenQuorum :: "HAEtcdMemberTopology list \<Rightarrow> string \<Rightarrow> bool" where
  "provenQuorum members target = (case members of
     [a, b] \<Rightarrow> healthyVoter a \<and> healthyVoter b \<and> et_ServerID a \<noteq> et_ServerID b
       \<and> set (et_PeerServerIDs a) = {et_ServerID b, target} \<and> set (et_PeerServerIDs b) = {et_ServerID a, target}
       \<and> target \<noteq> et_ServerID a \<and> target \<noteq> et_ServerID b \<and> \<not> (et_IsLeader a \<and> et_IsLeader b)
   | _ \<Rightarrow> False)"

lemma repairTarget_sound:
  assumes "repairTargetServerID m other = Inr t" "healthyVoter m"
  shows "set (et_PeerServerIDs m) = {other, t} \<and> t \<noteq> other \<and> t \<noteq> et_ServerID m"
proof -
  from assms(2) obtain x y where xy: "et_PeerServerIDs m = [x, y]" "x \<noteq> y" "et_ServerID m \<notin> {x, y}"
    by (auto simp: healthyVoter_def numeral_2_eq_2 length_Suc_conv)
  with assms(1) show ?thesis
    by (auto simp: repairTargetServerID_def containsString_def split: if_splits)
qed

lemma checkRepairQuorum_sound:
  assumes "checkRepairQuorum members = Inr res" "list_all healthyVoter members"
  shows "\<exists>t. provenQuorum members t \<and> res = sort_key et_MemberID members"
proof -
  from assms(1) obtain l r where m: "members = [l, r]"
    by (auto simp: checkRepairQuorum_def split: list.splits)
  from assms(1) obtain t where t: "repairTargetServerID l (et_ServerID r) = Inr t"
    "repairTargetServerID r (et_ServerID l) = Inr t" "et_ServerID l \<noteq> et_ServerID r"
    "\<not> (et_IsLeader l \<and> et_IsLeader r)" "res = sort_key et_MemberID members"
    by (auto simp: checkRepairQuorum_def m boolCount_def split: if_splits)
  from repairTarget_sound [OF t(1)] repairTarget_sound [OF t(2)] assms(2) t(3-5) show ?thesis
    by (intro exI [of _ t]) (simp add: provenQuorum_def m)
qed

lemma provenQuorum_sort: "provenQuorum members t \<Longrightarrow> provenQuorum (sort_key et_MemberID members) t"
  by (auto simp: provenQuorum_def insert_commute split: list.splits)

lemma probes_sound:
  assumes "foldA (collectVoter E config) acc ms w = (Inr res, w')" "list_all healthyVoter acc"
  shows "list_all healthyVoter res \<and> map et_MemberID res = map et_MemberID acc @ map hm_ID ms"
  using assms
proof (induction ms arbitrary: acc w)
  case Nil
  then show ?case by simp
next
  case (Cons m ms)
  from Cons.prems(1) obtain st w1 where st: "probeHAEtcdMember E config m w = (Inr st, w1)"
    and rest: "foldA (collectVoter E config) (acc @ [st]) ms w1 = (Inr res, w')"
    by (auto elim!: tryA_InrE tryWrapA_InrE simp: collectVoter_def [of _ _ acc])
  from Cons.IH [OF rest] Cons.prems(2) probeHAEtcdMember_sound [OF st] show ?case by simp
qed

section \<open>Server IDs\<close>

lemma hexNum_append: "hexNum (s @ [c]) = hexNum s * 16 + int (hexVal c)"
  by (simp add: hexNum_def)

lemma hexChar_cases: "n < 16 \<Longrightarrow> isHexDigit (hexChar n) \<and> hexVal (hexChar n) = n \<and> lowerChar (hexChar n) = hexChar n
    \<and> \<not> isSpace (hexChar n)"
  by (auto simp: isHexDigit_def hexChar_def hexVal_def isDigit_def lowerChar_def isUpperAlpha_def isSpace_def)

lemma natToHex_small: "n < 16 \<Longrightarrow> natToHex n = [hexChar (nat n)]"
  by (subst natToHex.simps) simp

lemma natToHex_large: "\<not> n < 16 \<Longrightarrow> natToHex n = natToHex (n div 16) @ [hexChar (nat (n mod 16))]"
  by (subst natToHex.simps) simp

lemma natToHex_sound:
  "0 \<le> n \<Longrightarrow> list_all isHexDigit (natToHex n) \<and> hexNum (natToHex n) = n \<and> toLower (natToHex n) = natToHex n
    \<and> natToHex n \<noteq> [] \<and> list_all (\<lambda>c. \<not> isSpace c) (natToHex n)"
proof (induction n rule: natToHex.induct)
  case (1 n)
  show ?case
  proof (cases "n < 16")
    case True
    with 1 show ?thesis using hexChar_cases [of "nat n"]
      by (simp add: natToHex_small hexNum_def toLower_def)
  next
    case False
    have m: "nat (n mod 16) < 16" by simp
    have "int (nat (n mod 16)) = n mod 16" by simp
    with False 1 show ?thesis using hexChar_cases [OF m]
      by (simp add: natToHex_large hexNum_append toLower_def)
  qed
qed

lemma natToHex_length: "0 \<le> n \<Longrightarrow> n < 16 ^ Suc k \<Longrightarrow> length (natToHex n) \<le> Suc k"
proof (induction k arbitrary: n)
  case 0
  then show ?case by (simp add: natToHex_small)
next
  case (Suc k)
  show ?case
  proof (cases "n < 16")
    case True
    then show ?thesis by (simp add: natToHex_small)
  next
    case False
    have "n div 16 < 16 ^ Suc k" using Suc.prems div_less_bound [of 16 n] by (simp add: mult.commute)
    with Suc.IH [of "n div 16"] False Suc.prems show ?thesis by (simp add: natToHex_large)
  qed
qed

lemma trimLeft_id: "list_all (\<lambda>c. \<not> isSpace c) s \<Longrightarrow> trimLeft s = s"
  by (cases s) (auto simp: trimLeft_def)

lemma trimSpace_id: "list_all (\<lambda>c. \<not> isSpace c) s \<Longrightarrow> trimSpace s = s"
proof -
  assume a: "list_all (\<lambda>c. \<not> isSpace c) s"
  then have "list_all (\<lambda>c. \<not> isSpace c) (rev s)" by (simp add: list_all_iff)
  with a show ?thesis by (simp add: trimSpace_def trimLeft_id)
qed

text \<open>The number a server ID stands for.\<close>

definition serverNumber :: "string \<Rightarrow> int" where
  "serverNumber value = hexNum (toLower (trimSpace value))"

lemma canonical_Inr:
  assumes "canonicalHAEtcdServerID value = Inr s"
  shows "s = natToHex (serverNumber value) \<and> 0 < serverNumber value \<and> serverNumber value < 2 ^ 64"
proof -
  have nonneg: "0 \<le> hexNum x" for x
  proof -
    have "0 \<le> v \<Longrightarrow> 0 \<le> foldl (\<lambda>v c. v * 16 + int (hexVal c)) v x" for v
      by (induction x arbitrary: v) auto
    then show ?thesis by (simp add: hexNum_def)
  qed
  from assms show ?thesis
    using nonneg [of "toLower (trimSpace value)"]
    by (auto simp: canonicalHAEtcdServerID_def parseUint16_def serverNumber_def formatHex_def Let_def
        split: if_splits option.splits)
qed

lemma canonical_idem:
  assumes "0 < n" "n < 2 ^ 64"
  shows "canonicalHAEtcdServerID (natToHex n) = Inr (natToHex n)"
proof -
  note h = natToHex_sound [of n]
  have "length (natToHex n) \<le> Suc 15" by (rule natToHex_length) (use assms in simp_all)
  with h assms show ?thesis
    by (simp add: canonicalHAEtcdServerID_def parseUint16_def trimSpace_id formatHex_def Let_def)
qed

section \<open>Properties\<close>

text \<open>An example: three members with server IDs a1, b2 and c3, the first of them the leader.\<close>

definition exampleProbe :: "string \<Rightarrow> string list \<Rightarrow> string \<Rightarrow> string" where
  "exampleProbe own peers leader = ''{'' @ quoted ''health'' @ '':'' @ quoted ''true'' @ ''}'' @ [CHR 0x0A]
     @ haEtcdOutputSeparator @ [CHR 0x0A]
     @ joinWith [CHR 0x0A] ([''etcd_server_id{server_id='' @ quoted own @ ''} 1'']
       @ map (\<lambda>p. ''etcd_network_peer_rtt{To='' @ quoted p @ ''} 7'') peers
       @ [''etcd_server_health_success 3'', ''etcd_server_has_leader 1'', ''etcd_server_is_leader '' @ leader,
          ''etcd_server_is_learner 0''])"

definition etcdAnswer :: "string list \<Rightarrow> cmdResult" where
  "etcdAnswer args = (case args of
     _ # name # _ \<Rightarrow>
       if name = HAContainerName ''ha-lab'' 1 then okResult (Text (exampleProbe ''a1'' [''b2'', ''c3''] ''1''))
       else if name = HAContainerName ''ha-lab'' 2 then okResult (Text (exampleProbe ''b2'' [''a1'', ''c3''] ''0''))
       else okResult (Text (exampleProbe ''c3'' [''b2'', ''a1''] ''0''))
   | _ \<Rightarrow> failedResult [])"

text \<open>
  C22: an accepted etcd topology is exactly three healthy voters with three different server
  IDs, each of which names precisely the other two as its peers, with exactly one leader;
  and it has one entry per declared member, in the order of the member IDs.
\<close>

theorem etcd_topology_exact:
  assumes "validateHAEtcdTopology E config w = (Inr members, w')"
  shows "exactTopology members \<and> map et_MemberID members = sort (map hm_ID (hc_Members config))"
  by (rule validateHAEtcdTopology_sound [OF assms])

theorem etcd_topology_exact_witness:
  "\<exists>members. validateHAEtcdTopology (scriptedEnv etcdAnswer) exampleConfig emptyWorld
       = (Inr members, snd (validateHAEtcdTopology (scriptedEnv etcdAnswer) exampleConfig emptyWorld))
     \<and> exactTopology members"
proof -
  let ?run = "validateHAEtcdTopology (scriptedEnv etcdAnswer) exampleConfig emptyWorld"
  have "isOk (fst ?run)" by code_simp
  then obtain members where "?run = (Inr members, snd ?run)"
    by (metis isOkE prod.collapse)
  with etcd_topology_exact [OF this] show ?thesis by blast
qed

text \<open>
  An accepted repair quorum is two healthy voters other than the target, with
  different server IDs, that name each other and agree on one third server ID for the target,
  and that are not both leaders.
\<close>

lemma etcd_repair_quorum:
  assumes "validateHAEtcdRepairQuorum E config targetID w = (Inr members, w')"
  shows "(\<exists>t. provenQuorum members t)
    \<and> map et_MemberID members = sort (filter (\<lambda>i. i \<noteq> targetID) (map hm_ID (hc_Members config)))"
proof -
  from assms obtain ms w1 where ms: "foldA (collectVoter E config) []
      (filter (\<lambda>m. hm_ID m \<noteq> targetID) (hc_Members config)) w = (Inr ms, w1)" and c: "checkRepairQuorum ms = Inr members"
    by (auto simp: validateHAEtcdRepairQuorum_def act_apply split: if_splits prod.splits sum.splits)
  from probes_sound [OF ms] have p: "list_all healthyVoter ms"
    "map et_MemberID ms = filter (\<lambda>i. i \<noteq> targetID) (map hm_ID (hc_Members config))"
    by (simp_all add: filter_map o_def)
  from checkRepairQuorum_sound [OF c p(1)] obtain t where "provenQuorum ms t" "members = sort_key et_MemberID ms"
    by blast
  then show ?thesis using p(2) by (metis map_sort_key provenQuorum_sort)
qed

theorem etcd_repair_quorum_witness:
  "\<exists>members t. fst (validateHAEtcdRepairQuorum (scriptedEnv etcdAnswer) exampleConfig 1 emptyWorld) = Inr members
     \<and> provenQuorum members t"
proof -
  let ?run = "validateHAEtcdRepairQuorum (scriptedEnv etcdAnswer) exampleConfig 1 emptyWorld"
  have "isOk (fst ?run)" by code_simp
  then obtain members where m: "?run = (Inr members, snd ?run)"
    by (metis isOkE prod.collapse)
  with etcd_repair_quorum [OF m] show ?thesis by (metis fst_conv)
qed

text \<open>
  Two server-ID texts get the same canonical form exactly when they denote the same
  64-bit number, and the canonical form is a fixed point: comparing canonical texts compares
  server identities.
\<close>

lemma canonical_server_ID:
  assumes "canonicalHAEtcdServerID a = Inr s" "canonicalHAEtcdServerID b = Inr t"
  shows "(s = t \<longleftrightarrow> serverNumber a = serverNumber b) \<and> canonicalHAEtcdServerID s = Inr s"
  using canonical_Inr [OF assms(1)] canonical_Inr [OF assms(2)]
  by (metis canonical_idem natToHex_sound less_imp_le)

theorem canonical_server_ID_witness:
  "canonicalHAEtcdServerID ''00AF'' = Inr ''af'' \<and> serverNumber ''00AF'' = serverNumber '' af ''"
proof -
  have a: "canonicalHAEtcdServerID ''00AF'' = Inr ''af''" by code_simp
  have b: "canonicalHAEtcdServerID '' af '' = Inr ''af''" by code_simp
  from canonical_server_ID [OF a b] a show ?thesis by simp
qed

end
