(* ===== verification/Artifacts.thy ===== *)
theory Artifacts
  imports Etcd "HOL-Library.Sublist"
begin

text \<open>
  The pure parts of the recovery code (\<open>ha_recovery.go\<close> lines 26 to 184, 622 to 630, 1069 to
  1135, 1227 to 1249, 1462 to 1583 and 2351 to 2370, 2593 to 2638): names and specifications of
  the helper containers, the arguments of the reset, the sanitized diagnostic, artifact
  names, digests and server tokens.
\<close>

section \<open>Helper containers\<close>

definition HASnapshotHelperContainerName :: "string \<Rightarrow> string" where
  "HASnapshotHelperContainerName name = ''apc-k3s-'' @ name @ ''-ha-snapshot-copy''"

definition HARestoreResetContainerName :: "string \<Rightarrow> string" where
  "HARestoreResetContainerName name = ''apc-k3s-'' @ name @ ''-ha-restore-reset''"

definition HARestoreClearContainerName :: "string \<Rightarrow> int \<Rightarrow> string" where
  "HARestoreClearContainerName name i = ''apc-k3s-'' @ name @ ''-ha-restore-clear-'' @ itoa i"

record haRecoveryHelperSpec =
  hs_Name :: string
  hs_Role :: string
  hs_Member :: HAMember
  hs_Image :: string
  hs_Executable :: string
  hs_Arguments :: "string list"
  hs_CapAdd :: "string list"
  hs_CPUs :: int
  hs_Memory :: string
  hs_VolumeName :: string
  hs_VolumeMount :: string
  hs_BackupDirectory :: string
  hs_BackupReadOnly :: bool
  hs_TokenDirectory :: string
  hs_NetworkName :: string

definition backupImage :: string where
  "backupImage = ''docker.io/library/busybox@sha256:73aaf090f3d85aa34ee199857f03fa3a95c8ede2ffd4cc2cdb5b94e566b11662''"

definition haRestoreTokenInstallScript :: string where
  \<open>haRestoreTokenInstallScript =
     ''umask 077; if [ "$#" -lt 3 ]; then echo "APC restore token installer configuration is invalid" >&2; exit 1; fi; APC_TOKEN_SOURCE=$1; ''
     @ ''APC_TOKEN_DIRECTORY=$2; shift 2; APC_TOKEN_DESTINATION=$APC_TOKEN_DIRECTORY/token; APC_TOKEN_TEMP=; apc_token_cleanup() { APC_TOKEN_STATUS=$?; ''
     @ ''trap - EXIT; if [ -n "$APC_TOKEN_TEMP" ]; then rm -f "$APC_TOKEN_TEMP" >/dev/null 2>&1; fi; exit "$APC_TOKEN_STATUS"; }; ''
     @ ''trap apc_token_cleanup EXIT; trap 'exit 1' HUP INT TERM; ''
     @ ''if [ -L "$APC_TOKEN_SOURCE" ] || [ ! -f "$APC_TOKEN_SOURCE" ] || [ ! -s "$APC_TOKEN_SOURCE" ]; ''
     @ ''then echo "APC restore token source validation failed" >&2; exit 1; fi; ''
     @ ''if [ -L "$APC_TOKEN_DIRECTORY" ] || { [ -e "$APC_TOKEN_DIRECTORY" ] && [ ! -d "$APC_TOKEN_DIRECTORY" ]; }; ''
     @ ''then echo "APC restore token directory validation failed" >&2; exit 1; fi; if ! mkdir -p "$APC_TOKEN_DIRECTORY" 2>/dev/null; ''
     @ ''then echo "APC restore token directory creation failed" >&2; exit 1; fi; ''
     @ ''if [ -L "$APC_TOKEN_DESTINATION" ] || { [ -e "$APC_TOKEN_DESTINATION" ] && [ ! -f "$APC_TOKEN_DESTINATION" ]; }; ''
     @ ''then echo "APC restore token destination validation failed" >&2; exit 1; fi; ''
     @ ''APC_TOKEN_TEMP=$(mktemp "$APC_TOKEN_DIRECTORY/.apc-server-token.XXXXXX" 2>/dev/null) || { echo "APC restore token temporary file creation failed" >&2; ''
     @ ''exit 1; }; if ! cat "$APC_TOKEN_SOURCE" >"$APC_TOKEN_TEMP" 2>/dev/null; then echo "APC restore token copy failed" >&2; exit 1; fi; ''
     @ ''if ! chmod 600 "$APC_TOKEN_TEMP" 2>/dev/null; then echo "APC restore token permission update failed" >&2; exit 1; fi; ''
     @ ''if ! sync "$APC_TOKEN_TEMP" 2>/dev/null; then echo "APC restore token flush failed" >&2; exit 1; fi; ''
     @ ''if ! mv -f "$APC_TOKEN_TEMP" "$APC_TOKEN_DESTINATION" 2>/dev/null; then echo "APC restore token publication failed" >&2; exit 1; fi; ''
     @ ''APC_TOKEN_TEMP=; if [ -L "$APC_TOKEN_DESTINATION" ] || [ ! -f "$APC_TOKEN_DESTINATION" ]; ''
     @ ''then echo "APC restore token publication validation failed" >&2; exit 1; fi; if ! sync "$APC_TOKEN_DIRECTORY" 2>/dev/null; ''
     @ ''then echo "APC restore token directory flush failed" >&2; exit 1; fi; trap - EXIT HUP INT TERM''\<close>

text \<open>
  The init arguments of the reset: the token installer in front of the server's script, no
  \<open>--cluster-init\<close>, the token file of the package, and the reset flags.
\<close>

fun resetArguments :: "string list \<Rightarrow> string list" where
  "resetArguments [] = []"
| "resetArguments [a] = (if a = ''--cluster-init'' then [] else [a])"
| "resetArguments (a # b # rest) =
     (if a = ''--cluster-init'' then resetArguments (b # rest)
      else if a = ''--token-file'' then a # ''/backup/server-token'' # resetArguments rest
      else a # resetArguments (b # rest))"

definition haRestoreResetInitArguments :: "HAConfig \<Rightarrow> HAMember \<Rightarrow> string list" where
  "haRestoreResetInitArguments config member = (case haInitArguments config member of
     a0 # a1 # a2 # rest \<Rightarrow>
       if rest = [] \<or> a0 \<noteq> ''-c'' \<or> trimSpace a1 = [] \<or> trimSpace a2 = []
       then [''-c'', ''echo '' @ quoted ''APC restore token installer initialization failed'' @ '' >&2; exit 1'', ''apc-k3s'']
       else [a0, haRestoreTokenInstallScript @ ''; '' @ a1, a2, ''/backup/server-token'', ''/var/lib/rancher/k3s/server'']
         @ resetArguments rest
         @ [''--cluster-reset'', ''--cluster-reset-restore-path'', ''/backup/etcd-snapshot'', ''--etcd-s3=false'']
   | _ \<Rightarrow> [''-c'', ''echo '' @ quoted ''APC restore token installer initialization failed'' @ '' >&2; exit 1'', ''apc-k3s''])"

definition snapshotHelperSpec :: "HAConfig \<Rightarrow> HAMember \<Rightarrow> string \<Rightarrow> haRecoveryHelperSpec" where
  "snapshotHelperSpec config member output = \<lparr>hs_Name = HASnapshotHelperContainerName (hc_Name config),
     hs_Role = ''ha-snapshot-copy'', hs_Member = member, hs_Image = backupImage, hs_Executable = ''sleep'',
     hs_Arguments = [''300''], hs_CapAdd = [], hs_CPUs = 1, hs_Memory = ''512M'',
     hs_VolumeName = HAVolumeName (hc_Name config) (hm_ID member), hs_VolumeMount = ''/data'',
     hs_BackupDirectory = output, hs_BackupReadOnly = False, hs_TokenDirectory = [], hs_NetworkName = []\<rparr>"

definition restoreResetHelperSpec :: "HAConfig \<Rightarrow> HAMember \<Rightarrow> string \<Rightarrow> haRecoveryHelperSpec" where
  "restoreResetHelperSpec config member input = \<lparr>hs_Name = HARestoreResetContainerName (hc_Name config),
     hs_Role = ''ha-restore-reset'', hs_Member = member, hs_Image = hc_Image config, hs_Executable = ''/bin/sh'',
     hs_Arguments = haRestoreResetInitArguments config member, hs_CapAdd = [''ALL''], hs_CPUs = hc_CPUs config,
     hs_Memory = hc_Memory config, hs_VolumeName = HAVolumeName (hc_Name config) (hm_ID member),
     hs_VolumeMount = ''/var/lib/rancher/k3s'', hs_BackupDirectory = input, hs_BackupReadOnly = True,
     hs_TokenDirectory = [], hs_NetworkName = hc_NetworkName config\<rparr>"

definition restoreClearHelperSpec :: "HAConfig \<Rightarrow> HAMember \<Rightarrow> haRecoveryHelperSpec" where
  "restoreClearHelperSpec config member = \<lparr>hs_Name = HARestoreClearContainerName (hc_Name config) (hm_ID member),
     hs_Role = ''ha-restore-clear'', hs_Member = member, hs_Image = backupImage, hs_Executable = ''sleep'',
     hs_Arguments = [''300''], hs_CapAdd = [], hs_CPUs = 1, hs_Memory = ''512M'',
     hs_VolumeName = HAVolumeName (hc_Name config) (hm_ID member), hs_VolumeMount = ''/data'',
     hs_BackupDirectory = [], hs_BackupReadOnly = False, hs_TokenDirectory = [], hs_NetworkName = []\<rparr>"

definition mountSafe :: "string \<Rightarrow> bool" where
  "mountSafe p \<longleftrightarrow> \<not> containsAny p [CHR '','', CHR 0x00, CHR 0x0D, CHR 0x0A]"

definition validateHARecoveryHelperSpec :: "haRecoveryHelperSpec \<Rightarrow> gerror + unit" where
  "validateHARecoveryHelperSpec spec =
     (if hs_Name spec = [] \<or> hs_Role spec = [] \<or> hm_ID (hs_Member spec) < 1 \<or> haMemberCount < hm_ID (hs_Member spec)
         \<or> hs_Executable spec = [] \<or> hs_VolumeName spec = [] \<or> \<not> isAbsPath (hs_VolumeMount spec)
         \<or> hs_CPUs spec < 1 \<or> hs_Memory spec = []
      then Inl (Msg ''invalid HA recovery helper specification'')
      else if \<not> list_all (\<lambda>p. p = [] \<or> (isAbsPath p \<and> mountSafe p)) [hs_BackupDirectory spec, hs_TokenDirectory spec]
      then Inl (Msg ''HA recovery helper host paths must be absolute and mount-safe'') else Inr ())"

definition helperSuffixes :: "string list" where
  "helperSuffixes = [''-ha-snapshot-copy'', ''-ha-restore-reset'', ''-ha-restore-clear-1'', ''-ha-restore-clear-2'', ''-ha-restore-clear-3'']"

definition clusterNameFromRecoveryHelper :: "string \<Rightarrow> string" where
  "clusterNameFromRecoveryHelper name = (let value = trimPrefix name ''apc-k3s-'' in
     case find (hasSuffix value) helperSuffixes of Some sfx \<Rightarrow> trimSuffix value sfx | None \<Rightarrow> [])"

section \<open>The sanitized diagnostic\<close>

definition resetRules :: "(string \<times> string list) list" where
  "resetRules = [(''permission denied'', [''permission denied'', ''access denied'']),
     (''operation not permitted'', [''operation not permitted'']),
     (''no such file'', [''no such file'', ''file not found'', ''not found'']),
     (''snapshot'', [''snapshot'']),
     (''restore failed'', [''restore failed'', ''failed to restore'', ''restore failure'']),
     (''checksum mismatch'', [''checksum mismatch'', ''checksum failed'', ''digest mismatch'']),
     (''corrupt data'', [''corrupt'', ''malformed database'']),
     (''read-only filesystem'', [''read-only file system'', ''read only file system'']),
     (''no space left'', [''no space left'', ''disk full'']),
     (''I/O error'', [''input/output error'', ''i/o error'']),
     (''timeout'', [''timed out'', ''timeout'', ''deadline exceeded'']),
     (''etcd/datastore'', [''etcd'', ''datastore''])]"

definition resetWindow :: "string \<Rightarrow> string" where
  "resetWindow output = (if 32768 < length output
     then take 16384 output @ [CHR 0x0A] @ drop (length output - 16384) output else output)"

definition sanitizeHARestoreResetOutput :: "string \<Rightarrow> string" where
  "sanitizeHARestoreResetOutput output =
     (if output = [] then []
      else let lower = toLower (resetWindow output) in
        if trimSpace lower = [] then []
        else let keys = take 8 (map fst (filter (\<lambda>(key, phrases). list_ex (containsStr lower) phrases) resetRules)) in
          if keys = [] then ''unclassified failure output''
          else let diagnostic = joinWith '', '' keys in
            if 256 < length diagnostic then take 256 diagnostic else diagnostic)"

definition withHARestoreResetStdoutDiagnostic :: "gerror \<Rightarrow> string \<Rightarrow> gerror" where
  "withHARestoreResetStdoutDiagnostic runErr stdout = (let diagnostic = sanitizeHARestoreResetOutput stdout in
     if diagnostic = [] then runErr else Wrap (''reset helper stdout diagnostic: '' @ diagnostic) runErr)"

definition haRestoreResetRunArguments :: "HAConfig \<Rightarrow> HAMember \<Rightarrow> haRecoveryHelperSpec \<Rightarrow> string list" where
  "haRestoreResetRunArguments config member spec =
     [''run'', ''--name'', hs_Name spec, ''--arch'', ''arm64'', ''--cpus'', itoa (hc_CPUs config),
      ''--memory'', hc_Memory config, ''--network'', hc_NetworkName config @ '',mac='' @ hm_MAC member @ '',mtu=1280'',
      ''--entrypoint'', hs_Executable spec, ''--volume'', hs_VolumeName spec @ '':'' @ hs_VolumeMount spec,
      ''--mount'', ''type=bind,source='' @ hs_BackupDirectory spec @ '',target=/backup,readonly'',
      ''--label'', ''apc.dev/managed=true'', ''--label'', ''apc.dev/cluster='' @ hc_Name config,
      ''--label'', ''apc.dev/role='' @ hs_Role spec, ''--label'', ''apc.dev/member='' @ itoa (hm_ID member),
      ''--progress'', ''plain'']
     @ concat (map (\<lambda>c. [''--cap-add'', c]) (hs_CapAdd spec)) @ [hc_Image config] @ hs_Arguments spec"

section \<open>Names, digests, tokens\<close>

definition artifactChar :: "char \<Rightarrow> bool" where
  "artifactChar c \<longleftrightarrow> isLowerAlpha c \<or> isUpperAlpha c \<or> isDigit c \<or> c \<in> {CHR ''.'', CHR ''_'', CHR ''-''}"

definition validHAArtifactName :: "string \<Rightarrow> bool" where
  "validHAArtifactName value \<longleftrightarrow> value \<noteq> [] \<and> length value \<le> 255 \<and> value \<noteq> ''.'' \<and> value \<noteq> ''..''
     \<and> list_all artifactChar value"

definition validSHA256 :: "string \<Rightarrow> bool" where
  "validSHA256 value \<longleftrightarrow> length value = 64 \<and> value = toLower value \<and> list_all isHexDigit value"

definition normalizeExpectedHAManifestSHA256 :: "string \<Rightarrow> gerror + string" where
  "normalizeExpectedHAManifestSHA256 value0 = (let value = toLower (trimPrefix (trimSpace value0) ''sha256:'') in
     if \<not> validSHA256 value
     then Inl (Msg ''independently retained HA manifest SHA-256 must be exactly 64 hexadecimal characters'')
     else Inr value)"

definition parseStrictToken :: "string \<Rightarrow> gerror + string" where
  "parseStrictToken data = (if data = [] \<or> 4096 < length data then Inl (Msg ''token file must contain one non-empty token'')
     else let token = trimSpace data in
       if token = [] \<or> whitespaceIn token then Inl (Msg ''token file must contain one non-empty token without whitespace'')
       else Inr token)"

definition k3sServerTokenCredential :: "string \<Rightarrow> gerror + string" where
  "k3sServerTokenCredential token = (let value0 = trimSpace token in
     if value0 = [] \<or> whitespaceIn value0 then Inl (Msg ''server token is empty or contains whitespace'')
     else tryS (if hasPrefix value0 ''K10'' then
           (case splitFirst ''::'' value0 of
              None \<Rightarrow> Inl (Msg ''server token has an invalid K3s secure-token prefix'')
            | Some (part0, part1) \<Rightarrow>
                if length part0 \<noteq> 67 then Inl (Msg ''server token has an invalid K3s secure-token prefix'')
                else if \<not> list_all isHexDigit (drop 3 part0) then Inl (Msg ''server token has an invalid K3s CA hash'')
                else if \<not> hasPrefix part1 ''server:'' then Inl (Msg ''K3s secure token does not contain server credentials'')
                else Inr part1)
         else Inr value0) (\<lambda>value1.
       let value = trimPrefix value1 ''server:'' in
       if value = [] \<or> whitespaceIn value then Inl (Msg ''server token has an empty credential'') else Inr value))"

definition sameK3sServerToken :: "string \<Rightarrow> string \<Rightarrow> bool" where
  "sameK3sServerToken left right = (case (k3sServerTokenCredential left, k3sServerTokenCredential right) of
     (Inr l, Inr r) \<Rightarrow> l = r | _ \<Rightarrow> False)"

section \<open>Lemmas\<close>

lemma hasSuffix_append: "length t \<le> length s \<Longrightarrow> hasSuffix (n @ s) t = hasSuffix s t"
  by (simp add: hasSuffix_def hasPrefix_def)

lemma trimSuffix_append: "trimSuffix (n @ s) s = n"
  by (simp add: trimSuffix_def hasSuffix_def hasPrefix_def)

lemma clusterName_suffix:
  assumes "find (hasSuffix s) helperSuffixes = Some s" "17 \<le> length s" "length s \<noteq> 18"
    and "length s = 17 \<Longrightarrow> s \<in> {''-ha-snapshot-copy'', ''-ha-restore-reset''}"
  shows "clusterNameFromRecoveryHelper (''apc-k3s-'' @ n @ s) = n"
proof -
  have "find (hasSuffix (n @ s)) helperSuffixes = Some s"
  proof (cases "length s = 17")
    case True
    then consider "s = ''-ha-snapshot-copy''" | "s = ''-ha-restore-reset''" using assms(4) by blast
    then show ?thesis
      by cases (simp_all add: helperSuffixes_def hasSuffix_append, simp_all add: hasSuffix_def hasPrefix_def)
  next
    case False
    then have "\<forall>t\<in>set helperSuffixes. length t \<le> length s"
      using assms(2,3) by (auto simp: helperSuffixes_def)
    then have "find (hasSuffix (n @ s)) helperSuffixes = find (hasSuffix s) helperSuffixes"
      by (intro find_cong refl hasSuffix_append) blast
    then show ?thesis using assms(1) by simp
  qed
  then show ?thesis
    using trimPrefix_append [of "''apc-k3s-''" "n @ s"] by (simp add: clusterNameFromRecoveryHelper_def trimSuffix_append)
qed

text \<open>The keys that the diagnostic may name; the longest eight of them fit in its bound.\<close>

lemma take_filter_subseq: "subseq (take k (map f (filter P xs))) (map f xs)"
proof -
  have "subseq (take k (map f (filter P xs))) (map f (filter P xs))"
    by (rule prefix_imp_subseq) (rule take_is_prefix)
  moreover have "subseq (map f (filter P xs)) (map f xs)" by (simp add: subseq_map subseq_filter_left)
  ultimately show ?thesis by (rule subseq_order.trans)
qed

lemma set_take_filter: "set (take k (map f (filter P xs))) \<subseteq> set (map f xs)"
  by (rule order_trans [OF set_take_subset]) auto

lemma joinWith_bound: "list_all (\<lambda>k. length k \<le> n) ks \<Longrightarrow> length (joinWith sep ks) \<le> (n + length sep) * length ks"
  by (induction sep ks rule: joinWith.induct) auto

lemma splitFirst_colons:
  "list_all (\<lambda>c. c \<noteq> CHR '':'') a \<Longrightarrow> splitFirst ''::'' (a @ ''::'' @ b) = Some (a, b)"
  by (induction a) (auto simp: hasPrefix_def)

lemma whitespaceIn_none: "list_all (\<lambda>c. \<not> isSpace c) s \<Longrightarrow> \<not> whitespaceIn s"
  by (auto simp: whitespaceIn_def containsAny_def list_ex_iff list_all_iff isSpace_def)

lemma hexDigit_plain: "isHexDigit c \<Longrightarrow> \<not> isSpace c \<and> c \<noteq> CHR '':''"
  by (auto simp: isHexDigit_def isDigit_def isSpace_def)

section \<open>Properties\<close>

text \<open>
  The cluster that owns a helper container is read back from the name it was given,
  whatever the name of the cluster.
\<close>

lemma helper_name_roundtrip:
  "clusterNameFromRecoveryHelper (HASnapshotHelperContainerName name) = name
   \<and> clusterNameFromRecoveryHelper (HARestoreResetContainerName name) = name
   \<and> clusterNameFromRecoveryHelper (HARestoreClearContainerName name 1) = name
   \<and> clusterNameFromRecoveryHelper (HARestoreClearContainerName name 2) = name
   \<and> clusterNameFromRecoveryHelper (HARestoreClearContainerName name 3) = name"
proof -
  have i: "itoa 1 = ''1''" "itoa 2 = ''2''" "itoa 3 = ''3''" by code_simp+
  have f: "list_all (\<lambda>s. find (hasSuffix s) helperSuffixes = Some s) helperSuffixes" by code_simp
  show ?thesis
    unfolding HASnapshotHelperContainerName_def HARestoreResetContainerName_def HARestoreClearContainerName_def i append_assoc
  proof (intro conjI)
    show "clusterNameFromRecoveryHelper (''apc-k3s-'' @ name @ ''-ha-snapshot-copy'') = name"
      by (rule clusterName_suffix) (use f in \<open>simp_all add: helperSuffixes_def\<close>)
    show "clusterNameFromRecoveryHelper (''apc-k3s-'' @ name @ ''-ha-restore-reset'') = name"
      by (rule clusterName_suffix) (use f in \<open>simp_all add: helperSuffixes_def\<close>)
    show "clusterNameFromRecoveryHelper (''apc-k3s-'' @ name @ ''-ha-restore-clear-'' @ ''1'') = name"
      using clusterName_suffix [of "''-ha-restore-clear-1''"] f by (simp add: helperSuffixes_def)
    show "clusterNameFromRecoveryHelper (''apc-k3s-'' @ name @ ''-ha-restore-clear-'' @ ''2'') = name"
      using clusterName_suffix [of "''-ha-restore-clear-2''"] f by (simp add: helperSuffixes_def)
    show "clusterNameFromRecoveryHelper (''apc-k3s-'' @ name @ ''-ha-restore-clear-'' @ ''3'') = name"
      using clusterName_suffix [of "''-ha-restore-clear-3''"] f by (simp add: helperSuffixes_def)
  qed
qed

text \<open>
  The diagnostic of a failed reset never reflects what the helper printed: it is empty,
  one fixed sentence, or at most eight of the twelve fixed keys in their order, and it has at
  most 256 characters.
\<close>

lemma sanitized_vocabulary:
  "length (sanitizeHARestoreResetOutput output) \<le> 256
   \<and> (\<exists>keys. subseq keys (map fst resetRules) \<and> length keys \<le> 8
      \<and> sanitizeHARestoreResetOutput output \<in> {[], ''unclassified failure output'', joinWith '', '' keys})"
proof -
  define keys where "keys = take 8 (map fst (filter (\<lambda>(key, phrases).
    list_ex (containsStr (toLower (resetWindow output))) phrases) resetRules))"
  have sub: "subseq keys (map fst resetRules)" and few: "length keys \<le> 8"
    unfolding keys_def by (rule take_filter_subseq) simp
  have "set keys \<subseteq> set (map fst resetRules)"
    unfolding keys_def by (rule set_take_filter)
  moreover have "list_all (\<lambda>k. length k \<le> 23) (map fst resetRules)" by code_simp
  ultimately have "list_all (\<lambda>k. length k \<le> 23) keys"
    unfolding list_all_iff by blast
  then have "length (joinWith '', '' keys) \<le> 25 * length keys"
    using joinWith_bound [of 23 keys "'', ''"] by simp
  then have short: "length (joinWith '', '' keys) \<le> 256" using few by linarith
  define sentence where "sentence = ''unclassified failure output''"
  have "sanitizeHARestoreResetOutput output = (if output = [] then []
      else if trimSpace (toLower (resetWindow output)) = [] then []
      else if keys = [] then sentence
      else if 256 < length (joinWith '', '' keys) then take 256 (joinWith '', '' keys) else joinWith '', '' keys)"
    by (simp only: sanitizeHARestoreResetOutput_def Let_def keys_def sentence_def)
  with short have "sanitizeHARestoreResetOutput output \<in> {[], sentence, joinWith '', '' keys}"
    by simp
  moreover from this short have "length (sanitizeHARestoreResetOutput output) \<le> 256"
    by (auto simp: sentence_def)
  ultimately show ?thesis unfolding sentence_def using sub few by blast
qed

text \<open>
  The secure form of a server token and its short form are the same credential: a K3s
  token \<open>K10<CA hash>::server:<secret>\<close> matches the secret that APC bootstraps with.
\<close>

lemma secure_token_matches:
  assumes hash: "length h = 64" "list_all isHexDigit h"
    and secret: "s \<noteq> []" "list_all (\<lambda>c. \<not> isSpace c) s" "\<not> hasPrefix s ''K10''" "\<not> hasPrefix s ''server:''"
  shows "k3sServerTokenCredential (''K10'' @ h @ ''::server:'' @ s) = Inr s \<and> sameK3sServerToken (''K10'' @ h @ ''::server:'' @ s) s"
proof -
  let ?secure = "''K10'' @ h @ ''::server:'' @ s"
  have plain: "list_all (\<lambda>c. \<not> isSpace c) ?secure"
  proof -
    have "list_all (\<lambda>c. \<not> isSpace c) h" using hash(2) by (auto simp: list_all_iff dest: hexDigit_plain)
    moreover have "list_all (\<lambda>c. \<not> isSpace c) ''K10''" "list_all (\<lambda>c. \<not> isSpace c) ''::server:''" by code_simp+
    ultimately show ?thesis using secret(2) by (simp only: list_all_append simp_thms)
  qed
  have split: "splitFirst ''::'' ?secure = Some (''K10'' @ h, ''server:'' @ s)"
    using splitFirst_colons [of "''K10'' @ h" "''server:'' @ s"] hash(2) by (auto simp: list_all_iff hexDigit_plain)
  have long: "hasPrefix ?secure ''K10''" "?secure \<noteq> []" "hasPrefix (''server:'' @ s) ''server:''"
    by (simp_all add: hasPrefix_def)
  have parts: "length (''K10'' @ h) = 67" "drop 3 (''K10'' @ h) = h"
    using hash(1) by simp_all
  have a: "k3sServerTokenCredential ?secure = Inr s"
    unfolding k3sServerTokenCredential_def Let_def trimSpace_id [OF plain] split
    using long parts hash(2) secret whitespaceIn_none [OF plain] whitespaceIn_none [OF secret(2)]
    by (simp del: append.simps add: trimPrefix_append)
  have b: "k3sServerTokenCredential s = Inr s"
    unfolding k3sServerTokenCredential_def Let_def trimSpace_id [OF secret(2)]
    using secret whitespaceIn_none [OF secret(2)] by (simp add: trimPrefix_def)
  show ?thesis unfolding sameK3sServerToken_def a b by simp
qed

theorem secure_token_matches_witness:
  "sameK3sServerToken (''K10'' @ replicate 64 CHR ''a'' @ ''::server:'' @ ''secret1'') ''secret1''"
proof -
  have "list_all isHexDigit (replicate 64 CHR ''a'')" by code_simp
  moreover have "list_all (\<lambda>c. \<not> isSpace c) ''secret1''" by code_simp
  ultimately show ?thesis
    using secure_token_matches [of "replicate 64 CHR ''a''" "''secret1''"] by (simp add: hasPrefix_def)
qed

end
