(* ===== verification/Package.thy ===== *)
theory Package
  imports Artifacts Journal
begin

text \<open>
  The snapshot package (\<open>ha_recovery.go\<close> lines 56 to 125 and 2129 to 2349, 2405 to 2652): the
  manifest and its JSON, the topology and the identity of a cluster, and the reading of the
  three artifacts without following links.  A file is read through a \<open>fileObs\<close>, what each
  system call returns, so replacement between two calls is part of the model.
\<close>

section \<open>The manifest\<close>

record HASnapshotTopology =
  tp_NetworkName :: string
  tp_Subnet :: string
  tp_ListenAddress :: string
  tp_CPUs :: int
  tp_Memory :: string
  tp_VolumeSize :: string
  tp_DisableTraefik :: bool
  tp_Members :: "HAMember list"

record HASnapshotK3sMetadata =
  km_Version :: string
  km_SnapshotName :: string
  km_SourceMemberID :: int
  km_SourceNodeName :: string
  km_CreatedAt :: int

record HASnapshotFileMetadata =
  fm_Name :: string
  fm_Size :: int
  fm_SHA256 :: string

text \<open>The two small structs for the cluster and the image are flattened into the manifest.\<close>

record HASnapshotManifest =
  mf_APIVersion :: string
  mf_Kind :: string
  mf_FormatVersion :: int
  mf_CreatedAt :: int
  mf_ClusterName :: string
  mf_ClusterIdentity :: string
  mf_Topology :: HASnapshotTopology
  mf_ImageReference :: string
  mf_ImageArchitecture :: string
  mf_K3s :: HASnapshotK3sMetadata
  mf_Snapshot :: HASnapshotFileMetadata
  mf_ServerToken :: HASnapshotFileMetadata

record haSnapshotPackage =
  sp_Manifest :: HASnapshotManifest
  sp_Path :: string
  sp_ManifestSHA256 :: string
  sp_token :: string
  sp_manifestInfo :: "fileInfo option"
  sp_snapshotInfo :: "fileInfo option"
  sp_tokenInfo :: "fileInfo option"

definition haSnapshotKind :: string where "haSnapshotKind = ''HAEtcdSnapshot''"
definition haSnapshotFormatVersion :: int where "haSnapshotFormatVersion = 1"
definition haSnapshotManifestFilename :: string where "haSnapshotManifestFilename = ''manifest.json''"
definition haSnapshotDataFilename :: string where "haSnapshotDataFilename = ''etcd-snapshot''"
definition haSnapshotTokenFilename :: string where "haSnapshotTokenFilename = ''server-token''"
definition haRecoveryTokenMaximum :: int where "haRecoveryTokenMaximum = 4096"

text \<open>A nil slice of members is written as \<open>null\<close>.\<close>

definition encodeTopology :: "HASnapshotTopology \<Rightarrow> json" where
  "encodeTopology t = JObj [(''networkName'', JStr (tp_NetworkName t)), (''subnet'', JStr (tp_Subnet t)),
     (''listenAddress'', JStr (tp_ListenAddress t)), (''cpus'', JInt (tp_CPUs t)), (''memory'', JStr (tp_Memory t)),
     (''volumeSize'', JStr (tp_VolumeSize t)), (''disableTraefik'', JBool (tp_DisableTraefik t)),
     (''members'', if tp_Members t = [] then JNull else JArr (map encodeHAMember (tp_Members t)))]"

definition encodeK3s :: "HASnapshotK3sMetadata \<Rightarrow> json" where
  "encodeK3s k = JObj [(''version'', JStr (km_Version k)), (''snapshotName'', JStr (km_SnapshotName k)),
     (''sourceMemberID'', JInt (km_SourceMemberID k)), (''sourceNodeName'', JStr (km_SourceNodeName k)),
     (''createdAt'', JTime (km_CreatedAt k))]"

definition encodeFileMetadata :: "HASnapshotFileMetadata \<Rightarrow> json" where
  "encodeFileMetadata m = JObj [(''name'', JStr (fm_Name m)), (''size'', JInt (fm_Size m)), (''sha256'', JStr (fm_SHA256 m))]"

definition encodeImage :: "string \<Rightarrow> string \<Rightarrow> json" where
  "encodeImage reference architecture = JObj [(''reference'', JStr reference), (''architecture'', JStr architecture)]"

definition encodeManifest :: "HASnapshotManifest \<Rightarrow> document" where
  "encodeManifest m = Json (JObj [(''apiVersion'', JStr (mf_APIVersion m)), (''kind'', JStr (mf_Kind m)),
     (''formatVersion'', JInt (mf_FormatVersion m)), (''createdAt'', JTime (mf_CreatedAt m)),
     (''cluster'', JObj [(''name'', JStr (mf_ClusterName m)), (''identity'', JStr (mf_ClusterIdentity m))]),
     (''topology'', encodeTopology (mf_Topology m)),
     (''image'', encodeImage (mf_ImageReference m) (mf_ImageArchitecture m)),
     (''k3s'', encodeK3s (mf_K3s m)), (''snapshot'', encodeFileMetadata (mf_Snapshot m)),
     (''serverToken'', encodeFileMetadata (mf_ServerToken m))])"

text \<open>The strict decoder: \<open>DisallowUnknownFields\<close> applies to every nested struct.\<close>

definition strictFields :: "string list \<Rightarrow> json \<Rightarrow> gerror + (string \<times> json) list" where
  "strictFields names j = tryS (objFields j) (\<lambda>kvs.
     if \<not> onlyFields names kvs then Inl (Msg ''json: unknown field'') else Inr kvs)"

definition dStrictMember :: "HAMember decoder" where
  "dStrictMember j = tryS (strictFields [''id'', ''nodeName'', ''stableIP'', ''mac'', ''hostAPIPort''] j) (\<lambda>_. dHAMember j)"

definition dTopology :: "HASnapshotTopology decoder" where
  "dTopology j = tryS (strictFields [''networkName'', ''subnet'', ''listenAddress'', ''cpus'', ''memory'', ''volumeSize'',
       ''disableTraefik'', ''members''] j) (\<lambda>kvs.
     at dString ''networkName'' kvs (\<lambda>nn. at dString ''subnet'' kvs (\<lambda>sn. at dString ''listenAddress'' kvs (\<lambda>la.
     at dInt ''cpus'' kvs (\<lambda>c. at dString ''memory'' kvs (\<lambda>m. at dString ''volumeSize'' kvs (\<lambda>vs.
     at dBool ''disableTraefik'' kvs (\<lambda>dt. at (dList dStrictMember) ''members'' kvs (\<lambda>ms.
       Inr \<lparr>tp_NetworkName = nn, tp_Subnet = sn, tp_ListenAddress = la, tp_CPUs = c, tp_Memory = m, tp_VolumeSize = vs,
            tp_DisableTraefik = dt, tp_Members = ms\<rparr>)))))))))"

definition dK3s :: "HASnapshotK3sMetadata decoder" where
  "dK3s j = tryS (strictFields [''version'', ''snapshotName'', ''sourceMemberID'', ''sourceNodeName'', ''createdAt''] j) (\<lambda>kvs.
     at dString ''version'' kvs (\<lambda>v. at dString ''snapshotName'' kvs (\<lambda>sn. at dInt ''sourceMemberID'' kvs (\<lambda>i.
     at dString ''sourceNodeName'' kvs (\<lambda>nn. at dTime ''createdAt'' kvs (\<lambda>t.
       Inr \<lparr>km_Version = v, km_SnapshotName = sn, km_SourceMemberID = i, km_SourceNodeName = nn, km_CreatedAt = t\<rparr>))))))"

definition dFileMetadata :: "HASnapshotFileMetadata decoder" where
  "dFileMetadata j = tryS (strictFields [''name'', ''size'', ''sha256''] j) (\<lambda>kvs.
     at dString ''name'' kvs (\<lambda>n. at dInt ''size'' kvs (\<lambda>s. at dString ''sha256'' kvs (\<lambda>h.
       Inr \<lparr>fm_Name = n, fm_Size = s, fm_SHA256 = h\<rparr>))))"

definition dPair :: "string \<Rightarrow> string \<Rightarrow> (string \<times> string) decoder" where
  "dPair a b j = tryS (strictFields [a, b] j) (\<lambda>kvs. at dString a kvs (\<lambda>x. at dString b kvs (\<lambda>y. Inr (x, y))))"

definition dManifest :: "HASnapshotManifest decoder" where
  "dManifest j = tryS (strictFields [''apiVersion'', ''kind'', ''formatVersion'', ''createdAt'', ''cluster'', ''topology'',
       ''image'', ''k3s'', ''snapshot'', ''serverToken''] j) (\<lambda>kvs.
     at dString ''apiVersion'' kvs (\<lambda>a. at dString ''kind'' kvs (\<lambda>k. at dInt ''formatVersion'' kvs (\<lambda>v.
     at dTime ''createdAt'' kvs (\<lambda>t. at (dPair ''name'' ''identity'') ''cluster'' kvs (\<lambda>c.
     at dTopology ''topology'' kvs (\<lambda>tp. at (dPair ''reference'' ''architecture'') ''image'' kvs (\<lambda>im.
     at dK3s ''k3s'' kvs (\<lambda>k3. at dFileMetadata ''snapshot'' kvs (\<lambda>sn. at dFileMetadata ''serverToken'' kvs (\<lambda>st.
       Inr \<lparr>mf_APIVersion = a, mf_Kind = k, mf_FormatVersion = v, mf_CreatedAt = t, mf_ClusterName = fst c,
            mf_ClusterIdentity = snd c, mf_Topology = tp, mf_ImageReference = fst im, mf_ImageArchitecture = snd im,
            mf_K3s = k3, mf_Snapshot = sn, mf_ServerToken = st\<rparr>)))))))))))"

section \<open>Topology and identity\<close>

definition haSnapshotTopology :: "HAConfig \<Rightarrow> HASnapshotTopology" where
  "haSnapshotTopology config = \<lparr>tp_NetworkName = hc_NetworkName config, tp_Subnet = hc_Subnet config,
     tp_ListenAddress = hc_ListenAddress config, tp_CPUs = hc_CPUs config, tp_Memory = hc_Memory config,
     tp_VolumeSize = hc_VolumeSize config, tp_DisableTraefik = hc_DisableTraefik config,
     tp_Members = sort_key hm_ID (hc_Members config)\<rparr>"

definition identityPayload :: "HAConfig \<Rightarrow> string \<Rightarrow> document" where
  "identityPayload config tokenSHA256 = Json (JObj [(''name'', JStr (hc_Name config)),
     (''topology'', encodeTopology (haSnapshotTopology config)), (''image'', encodeImage (hc_Image config) ''arm64''),
     (''tokenSHA256'', JStr (toLower tokenSHA256))])"

definition haClusterIdentity :: "'x env \<Rightarrow> HAConfig \<Rightarrow> string \<Rightarrow> string" where
  "haClusterIdentity E config tokenSHA256 = e_sha256 E (identityPayload config tokenSHA256)"

section \<open>Reading an artifact\<close>

text \<open>\<open>os.SameFile\<close> with equal sizes and modes.\<close>

definition sameArtifact :: "fileInfo \<Rightarrow> fileInfo \<Rightarrow> bool" where
  "sameArtifact a b \<longleftrightarrow> fi_inode a = fi_inode b \<and> fi_size a = fi_size b \<and> fi_perm a = fi_perm b
     \<and> fi_symlink a = fi_symlink b \<and> fi_regular a = fi_regular b \<and> fi_dir a = fi_dir b"

definition secureHAArtifactInfo :: "gerror + fileInfo \<Rightarrow> gerror + fileInfo" where
  "secureHAArtifactInfo lstat = tryS lstat (\<lambda>info.
     if fi_symlink info \<or> \<not> fi_regular info then Inl (Msg ''artifact must be a regular file, not a symbolic link'')
     else if groupOrOther info then Inl (Msg ''artifact permissions must be 0600 or stricter'') else Inr info)"

definition otherThan :: "fileInfo option \<Rightarrow> fileInfo \<Rightarrow> bool" where
  "otherThan expected info = (case expected of None \<Rightarrow> False | Some e \<Rightarrow> \<not> sameArtifact e info)"

definition openHAArtifactNoFollow :: "fileInfo option \<Rightarrow> fileObs \<Rightarrow> gerror + fileInfo" where
  "openHAArtifactNoFollow expected ob =
     tryS (secureHAArtifactInfo (ob_lstat ob)) (\<lambda>before.
     if otherThan expected before then Inl (Msg ''artifact was replaced after validation'')
     else (case ob_open ob of
       Some e \<Rightarrow> Inl (Wrap ''open artifact without following links'' e)
     | None \<Rightarrow> tryS (wrapS ''inspect opened artifact'' (ob_fstat ob)) (\<lambda>opened.
         if \<not> fi_regular opened \<or> groupOrOther opened \<or> fi_inode before \<noteq> fi_inode opened \<or> otherThan expected opened
         then Inl (Msg ''artifact changed while it was being opened'') else Inr opened)))"

definition reinspectHAArtifact :: "fileInfo \<Rightarrow> fileObs \<Rightarrow> gerror + unit" where
  "reinspectHAArtifact opened ob = tryS (secureHAArtifactInfo (ob_final ob)) (\<lambda>final.
     if \<not> sameArtifact opened final then Inl (Msg ''artifact changed while it was being read'') else Inr ())"

definition joinClose :: "gerror option \<Rightarrow> gerror + 'a \<Rightarrow> gerror + 'a" where
  "joinClose c r = (case c of None \<Rightarrow> r | Some e \<Rightarrow> (case r of Inl x \<Rightarrow> Inl (Joined [x, e]) | Inr _ \<Rightarrow> Inl (Joined [e])))"

definition readHAArtifactBytes :: "int \<Rightarrow> fileInfo option \<Rightarrow> fileObs \<Rightarrow> gerror + document \<times> fileInfo" where
  "readHAArtifactBytes maximumBytes expected ob =
     (if maximumBytes \<le> 0 then Inl (Msg ''HA snapshot artifact has an invalid size bound'')
      else tryS (openHAArtifactNoFollow expected ob) (\<lambda>opened. joinClose (ob_close ob)
        (if maximumBytes < fi_size opened then Inl (Msg ''HA snapshot artifact exceeds maximum size'')
         else tryS (wrapS ''read HA snapshot artifact'' (ob_read ob)) (\<lambda>(data, n).
           if maximumBytes < n \<or> n \<noteq> fi_size opened then Inl (Msg ''HA snapshot artifact changed size while it was being read'')
           else tryS (reinspectHAArtifact opened ob) (\<lambda>_. Inr (data, opened))))))"

definition haSnapshotArtifactMaximum :: "HAConfig \<Rightarrow> gerror + int" where
  "haSnapshotArtifactMaximum config =
     tryS (wrapS ''derive HA snapshot size bound from member volume'' (parseHAByteSize (hc_VolumeSize config))) (\<lambda>bytes.
     Inr (min (uint bytes) (2 ^ 63 - 1)))"

text \<open>The digest is taken over the chunks as they are read; their total is bounded on the way.\<close>

definition hashHAArtifactWithIdentity ::
    "'x env \<Rightarrow> gerror option \<Rightarrow> string \<Rightarrow> int \<Rightarrow> fileInfo option \<Rightarrow> fileObs \<Rightarrow> gerror + HASnapshotFileMetadata \<times> fileInfo" where
  "hashHAArtifactWithIdentity E ctxErr name maximumBytes expected ob = (case ctxErr of
     Some e \<Rightarrow> Inl (Wrap ''checksum HA snapshot artifact'' e)
   | None \<Rightarrow>
     if maximumBytes \<le> 0 then Inl (Msg ''HA snapshot artifact has an invalid size bound'')
     else tryS (wrapS ''validate HA snapshot artifact'' (openHAArtifactNoFollow expected ob)) (\<lambda>opened.
       if maximumBytes < fi_size opened then Inl (Msg ''HA snapshot artifact exceeds maximum size'')
       else tryS (wrapS ''checksum HA snapshot artifact'' (ob_read ob)) (\<lambda>(data, size).
         if maximumBytes < size then Inl (Msg ''HA snapshot artifact exceeds maximum size'')
         else if size \<noteq> fi_size opened then Inl (Msg ''HA snapshot artifact changed size during validation'')
         else tryS (reinspectHAArtifact opened ob) (\<lambda>_.
           Inr (\<lparr>fm_Name = name, fm_Size = size, fm_SHA256 = e_sha256 E data\<rparr>, opened)))))"

definition sameHAFileMetadata :: "HASnapshotFileMetadata \<Rightarrow> HASnapshotFileMetadata \<Rightarrow> bool" where
  "sameHAFileMetadata actual expected \<longleftrightarrow> fm_Name actual = fm_Name expected \<and> fm_Size actual = fm_Size expected
     \<and> fm_SHA256 actual = toLower (fm_SHA256 expected)"

definition readStrictTokenFileWithIdentity :: "fileInfo option \<Rightarrow> fileObs \<Rightarrow> gerror + string" where
  "readStrictTokenFileWithIdentity expected ob =
     tryS (readHAArtifactBytes haRecoveryTokenMaximum expected ob) (\<lambda>(data, _). parseStrictToken (docText data))"

definition readHARecoveryToken :: "'x env \<Rightarrow> string \<Rightarrow> ('x, string) op" where
  "readHARecoveryToken E path =
     tryWrapA ''validate protected HA server token'' (validatePrivateTokenFile E path) (\<lambda>_.
     tryWrapA ''inspect protected HA server token'' (statFile E path) (\<lambda>lstat.
     if fi_symlink lstat then errA (Msg ''protected HA server token must not be a symbolic link'')
     else tryA (getA (observeFile E path)) (\<lambda>ob. liftA (readStrictTokenFileWithIdentity None ob))))"

section \<open>Reading and validating a package\<close>

definition writableBits :: "fileInfo \<Rightarrow> bool" where
  "writableBits info \<longleftrightarrow> fi_perm info div 2 mod 2 \<noteq> 0 \<or> fi_perm info div 16 mod 2 \<noteq> 0 \<or> fi_perm info div 128 mod 2 \<noteq> 0"

definition checkManifest :: "int \<Rightarrow> HASnapshotManifest \<Rightarrow> gerror + unit" where
  "checkManifest now m =
     (if mf_APIVersion m \<noteq> haSnapshotAPIVersion \<or> mf_Kind m \<noteq> haSnapshotKind \<or> mf_FormatVersion m \<noteq> haSnapshotFormatVersion
      then Inl (Msg ''unsupported HA snapshot format'')
      else if mf_CreatedAt m = 0 \<or> now + 300 * second < mf_CreatedAt m
      then Inl (Msg ''HA snapshot manifest has an invalid creation time'') else Inr ())"

definition packageDirectory :: "'x env \<Rightarrow> string \<Rightarrow> ('x, string) op" where
  "packageDirectory E input =
     (if trimSpace input = [] then errA (Msg ''HA snapshot input directory is required'')
      else tryWrapA ''resolve HA snapshot path'' (liftA (e_abs E input)) (\<lambda>abs0.
        let abs = cleanPath abs0 in
        if \<not> mountSafe abs then errA (Msg ''HA snapshot path is not mount-safe'')
        else tryA (askExt (\<lambda>x. e_dirInfo E x abs)) (\<lambda>lstatR.
          tryWrapA ''inspect HA snapshot directory'' (liftA lstatR) (\<lambda>lstat.
          if fi_symlink lstat \<or> \<not> fi_dir lstat
          then errA (Msg ''HA snapshot path must be a real directory, not a symbolic link'')
          else tryA (askExt (\<lambda>x. e_evalLinks E x abs)) (\<lambda>resolvedR.
            tryWrapA ''resolve HA snapshot directory'' (liftA resolvedR) (\<lambda>resolved.
            tryA (askExt (\<lambda>x. e_dirInfo E x resolved)) (\<lambda>infoR.
            tryWrapA ''read HA snapshot directory'' (liftA infoR) (\<lambda>info.
            if groupOrOther info then errA (Msg ''HA snapshot directory permissions must be 0700 or stricter'')
            else tryA (askExt (\<lambda>x. e_readDir E x resolved)) (\<lambda>entriesR.
              tryWrapA ''list HA snapshot directory'' (liftA entriesR) (\<lambda>entries.
              if sortStrings entries \<noteq> sortStrings [haSnapshotDataFilename, haSnapshotManifestFilename, haSnapshotTokenFilename]
              then errA (Msg ''HA snapshot directory must contain exactly etcd-snapshot, manifest.json, server-token'')
              else retA resolved))))))))))"

definition readHASnapshotManifest :: "'x env \<Rightarrow> string \<Rightarrow> ('x, haSnapshotPackage) op" where
  "readHASnapshotManifest E input =
     tryA (packageDirectory E input) (\<lambda>abs.
     tryA (getA (observeFile E (joinPath [abs, haSnapshotManifestFilename]))) (\<lambda>ob.
     tryWrapA ''validate HA snapshot manifest'' (liftA (readHAArtifactBytes 1048576 None ob)) (\<lambda>(manifestData, manifestInfo).
     if writableBits manifestInfo then errA (Msg ''HA snapshot manifest must be immutable (mode 0400 or stricter)'')
     else tryWrapA ''decode HA snapshot manifest'' (liftA (decodeDoc dManifest manifestData)) (\<lambda>manifest.
       tryA (askExt (e_now E)) (\<lambda>now.
       tryA (liftA (checkManifest now manifest)) (\<lambda>_.
       retA \<lparr>sp_Manifest = manifest, sp_Path = abs, sp_ManifestSHA256 = e_sha256 E manifestData, sp_token = [],
             sp_manifestInfo = Some manifestInfo, sp_snapshotInfo = None, sp_tokenInfo = None\<rparr>))))))"

text \<open>What is checked of the manifest before any other file is opened.\<close>

definition bindManifest :: "int \<Rightarrow> HAConfig \<Rightarrow> HASnapshotManifest \<Rightarrow> gerror + int" where
  "bindManifest now config m = (let source = memberByID (hc_Members config) (km_SourceMemberID (mf_K3s m)) in
     if mf_ClusterName m \<noteq> hc_Name config then Inl (Msg ''HA snapshot belongs to another cluster'')
     else if \<not> validSHA256 (mf_ClusterIdentity m) then Inl (Msg ''HA snapshot contains an invalid cluster identity'')
     else if mf_Topology m \<noteq> haSnapshotTopology config then Inl (Msg ''HA snapshot topology does not match saved cluster'')
     else if mf_ImageReference m \<noteq> hc_Image config \<or> mf_ImageArchitecture m \<noteq> ''arm64''
     then Inl (Msg ''HA snapshot image identity does not match saved cluster'')
     else if hm_NodeName source = [] \<or> hm_NodeName source \<noteq> km_SourceNodeName (mf_K3s m) \<or> trimSpace (km_Version (mf_K3s m)) = []
       \<or> \<not> validHAArtifactName (km_SnapshotName (mf_K3s m)) \<or> km_CreatedAt (mf_K3s m) = 0 \<or> now + 300 * second < km_CreatedAt (mf_K3s m)
     then Inl (Msg ''HA snapshot contains invalid K3s snapshot metadata'')
     else if fm_Name (mf_Snapshot m) \<noteq> haSnapshotDataFilename \<or> fm_Name (mf_ServerToken m) \<noteq> haSnapshotTokenFilename
     then Inl (Msg ''HA snapshot manifest contains an unsafe artifact path'')
     else if fm_Size (mf_Snapshot m) \<le> 0 \<or> fm_Size (mf_ServerToken m) \<le> 0 \<or> haRecoveryTokenMaximum < fm_Size (mf_ServerToken m)
       \<or> \<not> validSHA256 (fm_SHA256 (mf_Snapshot m)) \<or> \<not> validSHA256 (fm_SHA256 (mf_ServerToken m))
     then Inl (Msg ''HA snapshot manifest contains invalid artifact metadata'')
     else tryS (haSnapshotArtifactMaximum config) (\<lambda>maximum.
       if maximum < fm_Size (mf_Snapshot m) then Inl (Msg ''HA etcd snapshot size exceeds declared member volume bound'')
       else Inr maximum))"

text \<open>The two artifacts, and the token with its binding to the identity.\<close>

definition packageArtifacts :: "'x env \<Rightarrow> haSnapshotPackage \<Rightarrow> int \<Rightarrow> ('x, fileInfo \<times> fileInfo) op" where
  "packageArtifacts E validated snapshotMaximum =
     tryA (askExt (e_ctxErr E)) (\<lambda>c.
     tryA (getA (observeFile E (joinPath [sp_Path validated, haSnapshotDataFilename]))) (\<lambda>ob1.
     tryA (liftA (hashHAArtifactWithIdentity E c haSnapshotDataFilename snapshotMaximum None ob1)) (\<lambda>(actualSnapshot, snapshotInfo).
     tryA (getA (observeFile E (joinPath [sp_Path validated, haSnapshotTokenFilename]))) (\<lambda>ob2.
     tryA (liftA (hashHAArtifactWithIdentity E c haSnapshotTokenFilename haRecoveryTokenMaximum None ob2)) (\<lambda>(actualToken, tokenInfo).
     if \<not> sameHAFileMetadata actualSnapshot (mf_Snapshot (sp_Manifest validated)) then errA (Msg ''HA etcd snapshot checksum or size mismatch'')
     else if \<not> sameHAFileMetadata actualToken (mf_ServerToken (sp_Manifest validated)) then errA (Msg ''HA server token checksum or size mismatch'')
     else retA (snapshotInfo, tokenInfo))))))"

definition checkCurrentToken :: "'x env \<Rightarrow> HAConfig \<Rightarrow> string \<Rightarrow> ('x, unit) op" where
  "checkCurrentToken E config backupToken = tryA (readHARecoveryToken E (hc_TokenFile config)) (\<lambda>currentToken.
     if \<not> sameK3sServerToken backupToken currentToken then errA (Msg ''HA snapshot server token does not match cluster'') else retA ())"

definition packageToken :: "'x env \<Rightarrow> HAConfig \<Rightarrow> haSnapshotPackage \<Rightarrow> fileInfo \<Rightarrow> bool \<Rightarrow> ('x, string) op" where
  "packageToken E config validated tokenInfo requireCurrentToken =
     tryA (getA (observeFile E (joinPath [sp_Path validated, haSnapshotTokenFilename]))) (\<lambda>ob.
     tryWrapA ''validate backed-up HA server token'' (liftA (readStrictTokenFileWithIdentity (Some tokenInfo) ob)) (\<lambda>backupToken.
     tryA (if requireCurrentToken then checkCurrentToken E config backupToken else retA ()) (\<lambda>_.
     tryWrapA ''validate K3s server token binding'' (liftA (k3sServerTokenCredential backupToken)) (\<lambda>tokenCredential.
     if toLower (mf_ClusterIdentity (sp_Manifest validated)) \<noteq> haClusterIdentity E config (e_sha256 E (Text tokenCredential))
     then errA (Msg ''HA snapshot cluster identity does not match the explicit saved identity of cluster'')
     else retA backupToken))))"

definition validateHASnapshotPackage :: "'x env \<Rightarrow> HAConfig \<Rightarrow> string \<Rightarrow> bool \<Rightarrow> ('x, haSnapshotPackage) op" where
  "validateHASnapshotPackage E config input requireCurrentToken =
     tryA (askExt (e_ctxErr E)) (\<lambda>c. case c of Some e \<Rightarrow> errA (Wrap ''validate HA snapshot'' e) | None \<Rightarrow>
     tryA (readHASnapshotManifest E input) (\<lambda>validated.
     tryA (askExt (e_now E)) (\<lambda>now.
     tryA (liftA (bindManifest now config (sp_Manifest validated))) (\<lambda>snapshotMaximum.
     tryA (packageArtifacts E validated snapshotMaximum) (\<lambda>(snapshotInfo, tokenInfo).
     tryA (packageToken E config validated tokenInfo requireCurrentToken) (\<lambda>backupToken.
     retA (validated\<lparr>sp_token := backupToken, sp_snapshotInfo := Some snapshotInfo, sp_tokenInfo := Some tokenInfo\<rparr>)))))))"

section \<open>JSON\<close>

definition goManifest :: "HASnapshotManifest \<Rightarrow> bool" where
  "goManifest m \<longleftrightarrow> list_all goInt [mf_FormatVersion m, tp_CPUs (mf_Topology m), km_SourceMemberID (mf_K3s m),
       fm_Size (mf_Snapshot m), fm_Size (mf_ServerToken m)]
     \<and> list_all (\<lambda>x. goInt (hm_ID x) \<and> goInt (hm_HostAPIPort x)) (tp_Members (mf_Topology m))"

lemma lower_manifest_names:
  "toLower ''formatVersion'' = ''formatversion''" "toLower ''createdAt'' = ''createdat''" "toLower ''topology'' = ''topology''"
  "toLower ''image'' = ''image''" "toLower ''k3s'' = ''k3s''" "toLower ''snapshot'' = ''snapshot''"
  "toLower ''serverToken'' = ''servertoken''" "toLower ''name'' = ''name''" "toLower ''identity'' = ''identity''"
  "toLower ''reference'' = ''reference''" "toLower ''architecture'' = ''architecture''" "toLower ''size'' = ''size''"
  "toLower ''sha256'' = ''sha256''" "toLower ''version'' = ''version''" "toLower ''snapshotName'' = ''snapshotname''"
  "toLower ''sourceMemberID'' = ''sourcememberid''" "toLower ''sourceNodeName'' = ''sourcenodename''"
  "toLower ''networkName'' = ''networkname''" "toLower ''subnet'' = ''subnet''" "toLower ''listenAddress'' = ''listenaddress''"
  "toLower ''cpus'' = ''cpus''" "toLower ''memory'' = ''memory''" "toLower ''volumeSize'' = ''volumesize''"
  "toLower ''disableTraefik'' = ''disabletraefik''" "toLower ''members'' = ''members''" "toLower ''id'' = ''id''"
  "toLower ''nodeName'' = ''nodename''" "toLower ''stableIP'' = ''stableip''" "toLower ''mac'' = ''mac''"
  "toLower ''hostAPIPort'' = ''hostapiport''"
  by (simp_all add: toLower_def lowerChar_def isUpperAlpha_def char_of_def bit_iff_odd)

lemmas manifest_fields = journal_fields lower_manifest_names strictFields_def

lemma decode_member:
  assumes "goInt (hm_ID m)" "goInt (hm_HostAPIPort m)"
  shows "dStrictMember (encodeHAMember m) = Inr m"
  using assms by (simp add: dStrictMember_def dHAMember_def encodeHAMember_def manifest_fields dInt_JInt goInt_def)

lemma decode_topology:
  assumes "goInt (tp_CPUs t)" "list_all (\<lambda>x. goInt (hm_ID x) \<and> goInt (hm_HostAPIPort x)) (tp_Members t)"
  shows "dTopology (encodeTopology t) = Inr t"
proof -
  have "dList dStrictMember (if tp_Members t = [] then JNull else JArr (map encodeHAMember (tp_Members t))) = Inr (tp_Members t)"
    using assms(2) by (auto simp: list_all_iff intro!: dList_JArr_map decode_member simp del: dList.simps(2))
  then show ?thesis
    using assms(1) by (simp add: dTopology_def encodeTopology_def manifest_fields dInt_JInt goInt_def)
qed

lemma decode_parts:
  "goInt (km_SourceMemberID k) \<Longrightarrow> dK3s (encodeK3s k) = Inr k"
  "goInt (fm_Size f) \<Longrightarrow> dFileMetadata (encodeFileMetadata f) = Inr f"
  "dPair ''reference'' ''architecture'' (encodeImage r a) = Inr (r, a)"
  "dPair ''name'' ''identity'' (JObj [(''name'', JStr n), (''identity'', JStr i)]) = Inr (n, i)"
  by (simp_all add: dK3s_def encodeK3s_def dFileMetadata_def encodeFileMetadata_def dPair_def encodeImage_def
      manifest_fields dInt_JInt goInt_def)

text \<open>
  C21: the manifest that a snapshot writes is the manifest that a restore reads, whatever the
  topology, the image and the three artifacts are.
\<close>

theorem manifest_roundtrip:
  assumes "goManifest m"
  shows "decodeDoc dManifest (encodeManifest m) = Inr m"
  using assms
  by (simp add: goManifest_def encodeManifest_def dManifest_def manifest_fields decode_topology decode_parts dInt_JInt goInt_def)

definition exampleManifest :: HASnapshotManifest where
  "exampleManifest = \<lparr>mf_APIVersion = haSnapshotAPIVersion, mf_Kind = haSnapshotKind, mf_FormatVersion = 1, mf_CreatedAt = 900,
     mf_ClusterName = ''ha-lab'', mf_ClusterIdentity = replicate 64 CHR ''0'', mf_Topology = haSnapshotTopology exampleConfig,
     mf_ImageReference = hc_Image exampleConfig, mf_ImageArchitecture = ''arm64'',
     mf_K3s = \<lparr>km_Version = ''v1.30.4+k3s1'', km_SnapshotName = ''apc-ha-lab'', km_SourceMemberID = 1,
       km_SourceNodeName = ''ha-lab-server-1'', km_CreatedAt = 900\<rparr>,
     mf_Snapshot = \<lparr>fm_Name = haSnapshotDataFilename, fm_Size = 100, fm_SHA256 = replicate 64 CHR ''0''\<rparr>,
     mf_ServerToken = \<lparr>fm_Name = haSnapshotTokenFilename, fm_Size = 100, fm_SHA256 = replicate 64 CHR ''0''\<rparr>\<rparr>"

theorem manifest_roundtrip_witness: "decodeDoc dManifest (encodeManifest exampleManifest) = Inr exampleManifest"
proof -
  have "goManifest exampleManifest" by code_simp
  then show ?thesis by (rule manifest_roundtrip)
qed

section \<open>What an accepted package is\<close>

text \<open>The content of a file as the observation of it reads it.\<close>

lemma observed_content:
  assumes "ob_read (observeFile E path w) = Inr (d, n)"
  shows "contentAt path w = Some d \<and> n = e_docSize E d"
  using assms by (auto simp: observeFile_def Let_def readFile_def contentAt_def split: sum.splits option.splits)

lemma joinClose_Inr [simp]: "joinClose c r = Inr x \<longleftrightarrow> c = None \<and> r = Inr x"
  by (auto simp: joinClose_def split: option.split sum.split)

lemma hash_sound:
  assumes "hashHAArtifactWithIdentity E c name maximum expected (observeFile E path w) = Inr (meta, info)"
  shows "\<exists>d. contentAt path w = Some d \<and> meta = \<lparr>fm_Name = name, fm_Size = e_docSize E d, fm_SHA256 = e_sha256 E d\<rparr>
    \<and> e_docSize E d \<le> maximum"
  using assms by (auto simp: hashHAArtifactWithIdentity_def dest!: observed_content split: option.splits if_splits)

lemma read_sound:
  assumes "readHAArtifactBytes maximum expected (observeFile E path w) = Inr (d, info)"
  shows "contentAt path w = Some d"
  using assms by (auto simp: readHAArtifactBytes_def dest!: observed_content split: option.splits if_splits)

definition exactArtifact :: "'x env \<Rightarrow> HASnapshotFileMetadata \<Rightarrow> document \<Rightarrow> bool" where
  "exactArtifact E meta d \<longleftrightarrow> fm_Size meta = e_docSize E d \<and> toLower (fm_SHA256 meta) = e_sha256 E d"

definition exactPackage :: "'x env \<Rightarrow> HAConfig \<Rightarrow> 'x world \<Rightarrow> haSnapshotPackage \<Rightarrow> bool" where
  "exactPackage E config w p \<longleftrightarrow> (let m = sp_Manifest p; file = (\<lambda>name. contentAt (joinPath [sp_Path p, name]) w) in
     mf_ClusterName m = hc_Name config \<and> mf_Topology m = haSnapshotTopology config
     \<and> mf_ImageReference m = hc_Image config \<and> mf_ImageArchitecture m = ''arm64''
     \<and> (\<exists>manifestDoc snapshotDoc tokenDoc credential.
          file ''manifest.json'' = Some manifestDoc \<and> decodeDoc dManifest manifestDoc = Inr m \<and> sp_ManifestSHA256 p = e_sha256 E manifestDoc
        \<and> file ''etcd-snapshot'' = Some snapshotDoc \<and> exactArtifact E (mf_Snapshot m) snapshotDoc
        \<and> file ''server-token'' = Some tokenDoc \<and> exactArtifact E (mf_ServerToken m) tokenDoc
        \<and> parseStrictToken (docText tokenDoc) = Inr (sp_token p) \<and> k3sServerTokenCredential (sp_token p) = Inr credential
        \<and> toLower (mf_ClusterIdentity m) = haClusterIdentity E config (e_sha256 E (Text credential))))"

lemma packageDirectory_world: "packageDirectory E input w = (r, w') \<Longrightarrow> w' = w"
  by (auto simp: packageDirectory_def act_apply askExt_def Let_def split: sum.splits prod.splits if_splits)

lemma readHASnapshotManifest_sound:
  assumes "readHASnapshotManifest E input w = (Inr p, w')"
  shows "w' = w \<and> sp_token p = [] \<and> (\<exists>d. contentAt (joinPath [sp_Path p, ''manifest.json'']) w = Some d
      \<and> decodeDoc dManifest d = Inr (sp_Manifest p) \<and> sp_ManifestSHA256 p = e_sha256 E d)"
  using assms
  by (auto simp: readHASnapshotManifest_def act_apply askExt_def haSnapshotManifestFilename_def
      dest!: read_sound packageDirectory_world split: sum.splits prod.splits if_splits)

lemma validatePrivateToken_world: "validatePrivateTokenFile E path w = (r, w') \<Longrightarrow> w' = w"
  by (auto simp: validatePrivateTokenFile_def act_apply askExt_def statFile_def split: sum.splits prod.splits if_splits option.splits)

lemma readHARecoveryToken_world: "readHARecoveryToken E path w = (r, w') \<Longrightarrow> w' = w"
  by (auto simp: readHARecoveryToken_def act_apply statFile_def dest!: validatePrivateToken_world
      split: sum.splits prod.splits if_splits option.splits)

lemma bindManifest_sound:
  assumes "bindManifest now config m = Inr maximum"
  shows "mf_ClusterName m = hc_Name config" "mf_Topology m = haSnapshotTopology config"
    "mf_ImageReference m = hc_Image config" "mf_ImageArchitecture m = ''arm64''"
  using assms by (auto simp: bindManifest_def Let_def split: if_splits)

lemma packageArtifacts_sound:
  assumes "packageArtifacts E v maximum w = (Inr (i1, i2), w')"
  shows "w' = w \<and> (\<exists>d1 d2. contentAt (joinPath [sp_Path v, ''etcd-snapshot'']) w = Some d1 \<and> exactArtifact E (mf_Snapshot (sp_Manifest v)) d1
    \<and> contentAt (joinPath [sp_Path v, ''server-token'']) w = Some d2 \<and> exactArtifact E (mf_ServerToken (sp_Manifest v)) d2)"
  using assms unfolding packageArtifacts_def askExt_def
  by (elim tryA_InrE) (auto dest!: hash_sound simp: exactArtifact_def sameHAFileMetadata_def haSnapshotDataFilename_def
      haSnapshotTokenFilename_def elim!: tryA_InrE split: if_splits)

lemma checkCurrentToken_world: "checkCurrentToken E config t w = (r, w') \<Longrightarrow> w' = w"
  by (auto simp: checkCurrentToken_def act_apply dest: readHARecoveryToken_world split: prod.splits sum.splits if_splits)

lemma packageToken_sound:
  assumes "packageToken E config v i b w = (Inr t, w')"
  shows "w' = w \<and> (\<exists>d cred. contentAt (joinPath [sp_Path v, ''server-token'']) w = Some d \<and> parseStrictToken (docText d) = Inr t
    \<and> k3sServerTokenCredential t = Inr cred
    \<and> toLower (mf_ClusterIdentity (sp_Manifest v)) = haClusterIdentity E config (e_sha256 E (Text cred)))"
  using assms unfolding packageToken_def
  by (elim tryA_InrE tryWrapA_InrE) (auto simp: readStrictTokenFileWithIdentity_def haSnapshotTokenFilename_def
      dest!: read_sound checkCurrentToken_world split: if_splits)

lemma validateHASnapshotPackage_sound:
  assumes "validateHASnapshotPackage E config input b w = (Inr p, w')"
  shows "w' = w \<and> exactPackage E config w p"
proof -
  obtain v w1 maximum i1 i2 w2 t where
    v: "readHASnapshotManifest E input w = (Inr v, w1)" and bind: "bindManifest (e_now E (w_ext w1)) config (sp_Manifest v) = Inr maximum"
    and arts: "packageArtifacts E v maximum w1 = (Inr (i1, i2), w2)" and tok: "packageToken E config v i2 b w2 = (Inr t, w')"
    and p: "p = v\<lparr>sp_token := t, sp_snapshotInfo := Some i1, sp_tokenInfo := Some i2\<rparr>"
    using assms unfolding validateHASnapshotPackage_def askExt_def
    by (elim tryA_InrE) (auto elim!: tryA_InrE split: option.splits)
  show ?thesis
    using readHASnapshotManifest_sound [OF v] bindManifest_sound [OF bind] packageArtifacts_sound [OF arts] packageToken_sound [OF tok]
    by (auto simp: exactPackage_def Let_def p)
qed

text \<open>
  An accepted package is exact: its manifest is the content of the file and names the saved
  topology and image, both artifacts have the size and the digest it states, and its identity is
  the digest of that topology, that image and the credential in the token file.
\<close>

lemma accepted_package_exact:
  "case validateHASnapshotPackage E config input requireCurrentToken w of
     (Inl _, _) \<Rightarrow> True
   | (Inr p, w') \<Rightarrow> w' = w \<and> exactPackage E config w p"
  by (auto split: prod.split sum.split dest: validateHASnapshotPackage_sound)

section \<open>What the identity binds\<close>

lemma JInt_inject [simp]: "JInt a = JInt b \<longleftrightarrow> a = b"
  using itoa_inject by (auto simp: JInt_def)

lemma encodeTopology_inject: "encodeTopology s = encodeTopology t \<longleftrightarrow> s = t"
proof
  assume e: "encodeTopology s = encodeTopology t"
  have inj: "inj encodeHAMember" by (auto simp: inj_def encodeHAMember_def HAMember.equality)
  have "tp_Members s = tp_Members t"
    using e by (auto simp: encodeTopology_def inj_map_eq_map [OF inj] split: if_splits)
  then show "s = t" using e by (auto simp: encodeTopology_def intro: HASnapshotTopology.equality)
qed simp

text \<open>
  Equal identities mean the same cluster, topology, image and token digest, as long as the
  digest has no collision on the two payloads in question.
\<close>

lemma identity_binds:
  assumes collision_free: "e_sha256 E (identityPayload c s) = e_sha256 E (identityPayload d t) \<Longrightarrow> identityPayload c s = identityPayload d t"
    and same: "haClusterIdentity E c s = haClusterIdentity E d t"
  shows "hc_Name c = hc_Name d \<and> haSnapshotTopology c = haSnapshotTopology d \<and> hc_Image c = hc_Image d \<and> toLower s = toLower t"
  using collision_free [OF same [unfolded haClusterIdentity_def]]
  by (simp add: identityPayload_def encodeTopology_inject encodeImage_def)

theorem identity_binds_witness:
  "haSnapshotTopology (exampleConfig\<lparr>hc_StartupTimeout := 1\<rparr>) = haSnapshotTopology exampleConfig"
proof -
  have p: "identityPayload (exampleConfig\<lparr>hc_StartupTimeout := 1\<rparr>) [] = identityPayload exampleConfig []"
    by (simp add: identityPayload_def haSnapshotTopology_def)
  then have "haClusterIdentity idleEnv (exampleConfig\<lparr>hc_StartupTimeout := 1\<rparr>) [] = haClusterIdentity idleEnv exampleConfig []"
    by (simp add: haClusterIdentity_def)
  from identity_binds [OF p this] show ?thesis by blast
qed

end
