(* ===== verification/Members.thy ===== *)
theory Members
  imports Etcd
begin

text \<open>
  Maintenance of one member (\<open>ha_members.go\<close>) and reconciliation of one server envelope
  (\<open>ha.go\<close> lines 920 to 952): stop, start and restart keep the other two members Ready.
  An operation runs inside the cluster lock; its deadline is measured from entry.
\<close>

section \<open>Locks\<close>

text \<open>
  \<open>acquireHAOperationLock\<close> and \<open>release\<close> are outcomes of the environment (the flock of
  \<open>ha_lock.go\<close>); \<open>withLock\<close> is the deferred release with \<open>errors.Join\<close>.
\<close>

definition withLock :: "'x env \<Rightarrow> string \<Rightarrow> ('x, 'a) op \<Rightarrow> ('x, 'a) op" where
  "withLock E name m =
     tryA (queryExt (\<lambda>x. e_lock E x name)) (\<lambda>acquired.
     tryA (liftA acquired) (\<lambda>_.
     tryA (emitEvent (Locked name)) (\<lambda>_.
     catchA m (\<lambda>r.
     tryA (emitEvent (Unlocked name)) (\<lambda>_.
     tryA (queryExt (\<lambda>x. e_unlock E x name)) (\<lambda>released.
     case errorsJoin [errOf r, released] of
       None \<Rightarrow> liftA r
     | Some e \<Rightarrow> errA e))))))"

section \<open>Reconciling one server\<close>

definition haPreflightTopologyOK :: "HAConfig \<Rightarrow> haPreflight \<Rightarrow> int \<Rightarrow> bool \<Rightarrow> gerror + unit" where
  "haPreflightTopologyOK config preflight targetID allowMissingTarget =
     (if \<not> pf_networkExists preflight then Inl (Msg ''HA member maintenance requires the exact APC-owned network'')
      else if length (pf_volumeExists preflight) \<noteq> length (hc_Members config)
      then Inl (Msg ''HA member maintenance requires all three exact APC-owned member volumes'')
      else if \<not> list_all (\<lambda>m. recordOf preflight (hm_ID m) \<noteq> None \<or> (allowMissingTarget \<and> hm_ID m = targetID))
                (hc_Members config)
      then Inl (Msg ''HA member maintenance requires exact APC-owned server envelope'')
      else Inr ())"

definition preflightHAMemberTopology :: "'x env \<Rightarrow> HAConfig \<Rightarrow> int \<Rightarrow> bool \<Rightarrow> ('x, haPreflight) op" where
  "preflightHAMemberTopology E config targetID allowMissingTarget =
     tryA (preflightHA E config False) (\<lambda>preflight.
     tryA (liftA (haPreflightTopologyOK config preflight targetID allowMissingTarget)) (\<lambda>_. retA preflight))"

text \<open>
  The part of \<open>reconcileHAMember\<close> that both callers reach; \<open>migrate\<close> is what it does with
  a running member in the legacy envelope.
\<close>

definition reconcileWith :: "('x, unit) op \<Rightarrow> 'x env \<Rightarrow> HAConfig \<Rightarrow> HAMember \<Rightarrow> haContainerInspect \<Rightarrow> ('x, unit) op" where
  "reconcileWith migrate E config member record0 =
     (let run = runHAServerEnvelope E config member ''start HA server'' haRuntimeOperationTimeout in
      if ci_Labels record0 = None then run
      else tryA (liftA (validateHAContainer record0 config member)) (\<lambda>_.
        if stateIs record0 ''running'' then
          (if \<not> haContainerUsesLegacyInit record0 config member then retA () else migrate)
        else tryA (runHABounded E ''delete stopped HA server member''
                     [''delete'', HAContainerName (hc_Name config) (hm_ID member)]) (\<lambda>_. run)))"

definition recordOrZero :: "haPreflight \<Rightarrow> int \<Rightarrow> haContainerInspect" where
  "recordOrZero preflight i = (case recordOf preflight i of None \<Rightarrow> zeroContainer | Some r \<Rightarrow> r)"

text \<open>
  \<open>startHAMemberLocked\<close> only reconciles a member that is missing or stopped, so the
  branch for a running one is not reached from here.
\<close>

definition startGuards :: "HAConfig \<Rightarrow> haPreflight \<Rightarrow> HAState \<Rightarrow> int \<Rightarrow> gerror + unit" where
  "startGuards config preflight state i =
     (if \<not> otherHAMembersReady state i
      then Inl (Msg ''refusing to start HA member: the other two node/API pairs must both be Ready'')
      else tryS (wrapS ''refusing to start HA member with an existing runtime/stable IP collision''
                   (validateHACurrentRuntimeIPReservations config (pf_containerRecord preflight))) (\<lambda>_.
        case recordOf preflight i of
          None \<Rightarrow> Inr ()
        | Some r \<Rightarrow> if \<not> stateIs r ''running'' \<and> \<not> stateIs r ''stopped''
            then Inl (Msg ''refusing to replace HA member while its envelope is in another state'') else Inr ()))"

definition needsReconcile :: "haPreflight \<Rightarrow> int \<Rightarrow> bool" where
  "needsReconcile preflight i = (case recordOf preflight i of None \<Rightarrow> True | Some r \<Rightarrow> stateIs r ''stopped'')"

definition startHAMemberLocked :: "'x env \<Rightarrow> HAConfig \<Rightarrow> HAMember \<Rightarrow> ('x, HAState) op" where
  "startHAMemberLocked E config member =
     tryA (preflightHAMemberTopology E config (hm_ID member) True) (\<lambda>preflight.
     tryA (StatusHA E (hc_Name config)) (\<lambda>state.
     if allHAMembersReady state then retA state
     else tryA (liftA (startGuards config preflight state (hm_ID member))) (\<lambda>_.
     tryA (if needsReconcile preflight (hm_ID member)
           then wrapA ''reconcile HA member''
                  (reconcileWith (retA ()) E config member (recordOrZero preflight (hm_ID member)))
           else retA ()) (\<lambda>_.
     waitHAClusterReady E config))))"

section \<open>Stopping one server\<close>

definition stoppedEnough :: "HAState \<Rightarrow> int \<Rightarrow> bool" where
  "stoppedEnough state i = (case haMemberStateByID (st_Members state) i of
     None \<Rightarrow> False
   | Some target \<Rightarrow> \<not> equalFold (ms_RuntimeState target) ''running'' \<and> otherHAMembersReady state i)"

fun waitStoppedLoop :: "'x env \<Rightarrow> HAConfig \<Rightarrow> HAMember \<Rightarrow> nat \<Rightarrow> ('x, HAState) op" where
  "waitStoppedLoop E config member n = catchA (StatusHA E (hc_Name config)) (\<lambda>r.
     tryA (askExt (e_ctxErr E)) (\<lambda>ctxErr.
     let again = (case n of 0 \<Rightarrow> contextDone E ''HA member did not stop with two Ready node/API pairs''
                  | Suc m \<Rightarrow> waitStoppedLoop E config member m) in
     case r of
       Inr state \<Rightarrow> if stoppedEnough state (hm_ID member) then retA state else again
     | Inl e \<Rightarrow> if ctxErr = None then errA e else again))"

declare waitStoppedLoop.simps [simp del]

definition waitHAMemberStopped :: "'x env \<Rightarrow> HAConfig \<Rightarrow> HAMember \<Rightarrow> ('x, HAState) op" where
  "waitHAMemberStopped E config member = tryA (askExt (e_ticks E)) (waitStoppedLoop E config member)"

text \<open>
  \<open>stopHAMemberLocked\<close> returns \<open>(state, restartNeeded, err)\<close>; here the flag comes with
  the error or with the state, as a pair in either.
\<close>

datatype stopResult = StopFailed gerror bool | StopDone HAState bool

definition stopHAMemberLocked :: "'x env \<Rightarrow> HAConfig \<Rightarrow> HAMember \<Rightarrow> ('x, stopResult) op" where
  "stopHAMemberLocked E config member =
     catchA (tryA (preflightHAMemberTopology E config (hm_ID member) True) (\<lambda>preflight.
             tryA (StatusHA E (hc_Name config)) (\<lambda>state. retA (preflight, state)))) (\<lambda>r. case r of
       Inl e \<Rightarrow> retA (StopFailed e False)
     | Inr (preflight, state) \<Rightarrow> (case haMemberStateByID (st_Members state) (hm_ID member) of
         None \<Rightarrow> retA (StopFailed (Msg ''HA status did not include declared member'') False)
       | Some targetState \<Rightarrow>
           if (case recordOf preflight (hm_ID member) of None \<Rightarrow> True | Some record0 \<Rightarrow> stateIs record0 ''stopped'') then
             (if \<not> otherHAMembersReady state (hm_ID member)
              then retA (StopFailed (Msg ''HA member is already offline, but the other two are not both Ready'') False)
              else retA (StopDone state False))
           else if \<not> equalFold (ms_RuntimeState targetState) ''running'' \<or> \<not> allHAMembersReady state
           then retA (StopFailed (Msg ''refusing to stop HA member: all three node/API pairs must be Ready before mutation'') False)
           else catchA (validateHAEtcdTopology E config) (\<lambda>rt. case rt of
               Inl e \<Rightarrow> retA (StopFailed (Wrap ''refusing to stop HA member without exact healthy embedded-etcd topology'' e) False)
             | Inr _ \<Rightarrow>
                 catchA (runHABounded E ''stop HA server member''
                           [''stop'', HAContainerName (hc_Name config) (hm_ID member)]) (\<lambda>rs. case rs of
                   Inl e \<Rightarrow> retA (StopFailed e True)
                 | Inr _ \<Rightarrow> catchA (waitHAMemberStopped E config member) (\<lambda>rw. case rw of
                     Inl e \<Rightarrow> retA (StopFailed e True)
                   | Inr stopped \<Rightarrow> retA (StopDone stopped True))))))"

text \<open>\<open>reconcileHAMember\<close> with the migration of a running legacy envelope.\<close>

definition migrateLegacy :: "'x env \<Rightarrow> HAConfig \<Rightarrow> HAMember \<Rightarrow> ('x, unit) op" where
  "migrateLegacy E config member =
     tryA (stopHAMemberLocked E config member) (\<lambda>stopRes. case stopRes of
       StopFailed stopErr restartNeeded \<Rightarrow>
         let wrapped = Wrap ''stop legacy HA member for guarded-envelope migration'' stopErr in
         if \<not> restartNeeded then errA wrapped
         else catchA (startHAMemberLocked E config member) (\<lambda>recovery.
           case errorsJoin [Some wrapped, errOf recovery] of Some e \<Rightarrow> errA e | None \<Rightarrow> retA ())
     | StopDone _ _ \<Rightarrow> tryWrapA ''start guarded HA member after legacy-envelope migration''
         (startHAMemberLocked E config member) (\<lambda>_. retA ()))"

definition reconcileHAMember :: "'x env \<Rightarrow> HAConfig \<Rightarrow> HAMember \<Rightarrow> haContainerInspect \<Rightarrow> ('x, unit) op" where
  "reconcileHAMember E config member record0 = reconcileWith (migrateLegacy E config member) E config member record0"

section \<open>The operations\<close>

definition haRecoveryAttemptTimeout :: int where
  "haRecoveryAttemptTimeout = 300 * second"

definition validateHAMemberOperationInput :: "string \<Rightarrow> int \<Rightarrow> int \<Rightarrow> gerror + unit" where
  "validateHAMemberOperationInput name i timeout =
     (if \<not> dnsLabel name then Inl (Msg ''cluster name must be a lowercase DNS label'')
      else if i < 1 \<or> haMemberCount < i then Inl (Msg ''HA member ID must be 1, 2, or 3'')
      else if timeout < 0 then Inl (Msg ''HA member operation timeout must not be negative'')
      else if 0 < timeout \<and> timeout < second then Inl (Msg ''HA member operation timeout must be at least 1s'')
      else Inr ())"

definition loadHAMemberOperationLocked :: "'x env \<Rightarrow> string \<Rightarrow> int \<Rightarrow> int \<Rightarrow> ('x, HAConfig \<times> HAMember \<times> int) op" where
  "loadHAMemberOperationLocked E name i timeout0 =
     tryA (loadHAConfig E name) (\<lambda>config.
     let member = memberByID (hc_Members config) i in
     if hm_ID member = 0 then errA (Msg ''HA member is not declared by cluster'')
     else let timeout = (if timeout0 = 0 then hc_StartupTimeout config else timeout0) in
       retA (config\<lparr>hc_StartupTimeout := timeout\<rparr>, member, timeout))"

definition withHAMemberOperation :: "'x env \<Rightarrow> string \<Rightarrow> int \<Rightarrow> int
    \<Rightarrow> (HAConfig \<Rightarrow> HAMember \<Rightarrow> int \<Rightarrow> ('x, 'a) op) \<Rightarrow> ('x, 'a) op" where
  "withHAMemberOperation E name i timeout operation =
     tryA (askExt (e_now E)) (\<lambda>startedAt.
     tryA (liftA (validateHAMemberOperationInput name i timeout)) (\<lambda>_.
     withLock E name (
       tryA (loadHAMemberOperationLocked E name i timeout) (\<lambda>(config, member, operationTimeout).
       tryA (askExt (e_now E)) (\<lambda>now.
       if startedAt + operationTimeout \<le> now
       then errA (Wrap ''HA member operation deadline elapsed while waiting for the operation lock'' DeadlineExceeded)
       else tryA (askExt (e_ctxErr E)) (\<lambda>c. case c of
           Some e \<Rightarrow> errA (Wrap ''HA member operation deadline elapsed before mutation'' e)
         | None \<Rightarrow> operation config member operationTimeout))))))"

definition stopMemberOperation :: "'x env \<Rightarrow> HAConfig \<Rightarrow> HAMember \<Rightarrow> int \<Rightarrow> ('x, HAState) op" where
  "stopMemberOperation E config member operationTimeout =
     tryWrapA ''persist intentional stop for HA member''
       (setHAMemberIntentLocked E (hc_Name config) (hm_ID member) True) (\<lambda>_.
     tryA (stopHAMemberLocked E config member) (\<lambda>r. case r of
       StopFailed e _ \<Rightarrow> errA e | StopDone state _ \<Rightarrow> retA state))"

definition StopHAMember :: "'x env \<Rightarrow> string \<Rightarrow> int \<Rightarrow> int \<Rightarrow> ('x, HAState) op" where
  "StopHAMember E name i timeout = withHAMemberOperation E name i timeout (stopMemberOperation E)"

definition startMemberOperation :: "'x env \<Rightarrow> HAConfig \<Rightarrow> HAMember \<Rightarrow> int \<Rightarrow> ('x, HAState) op" where
  "startMemberOperation E config member operationTimeout =
     tryWrapA ''clear intentional stop for HA member''
       (setHAMemberIntentLocked E (hc_Name config) (hm_ID member) False) (\<lambda>_.
     startHAMemberLocked E config member)"

definition StartHAMember :: "'x env \<Rightarrow> string \<Rightarrow> int \<Rightarrow> int \<Rightarrow> ('x, HAState) op" where
  "StartHAMember E name i timeout = withHAMemberOperation E name i timeout (startMemberOperation E)"

text \<open>
  \<open>restartHAMemberOperation\<close> with its deferred recovery: when the operation fails after
  the member may have been stopped, the member is started again (the state Go returns
  beside the error is not part of the model's result).
\<close>

definition recoverRestart :: "'x env \<Rightarrow> HAConfig \<Rightarrow> HAMember \<Rightarrow> gerror \<Rightarrow> ('x, HAState) op" where
  "recoverRestart E config member err = catchA (startHAMemberLocked E config member) (\<lambda>r. case r of
     Inl recoveryErr \<Rightarrow> errA (Joined [err, Wrap ''best-effort restart recovery for HA member failed'' recoveryErr])
   | Inr _ \<Rightarrow> errA err)"

definition restartHAMemberOperation :: "'x env \<Rightarrow> HAConfig \<Rightarrow> HAMember \<Rightarrow> int \<Rightarrow> ('x, HAState) op" where
  "restartHAMemberOperation E config member operationTimeout =
     tryWrapA ''clear intentional stop before restarting HA member''
       (setHAMemberIntentLocked E (hc_Name config) (hm_ID member) False) (\<lambda>_.
     tryA (preflightHAMemberTopology E config (hm_ID member) False) (\<lambda>_.
     tryA (StatusHA E (hc_Name config)) (\<lambda>state.
     if \<not> allHAMembersReady state
     then errA (Msg ''refusing to restart HA member: all three node/API pairs must be Ready before mutation'')
     else tryA (stopHAMemberLocked E config member) (\<lambda>r. case r of
         StopFailed e restartNeeded \<Rightarrow> if restartNeeded then recoverRestart E config member e else errA e
       | StopDone _ restartNeeded \<Rightarrow> catchA (startHAMemberLocked E config member) (\<lambda>rs. case rs of
             Inr result \<Rightarrow> retA result
           | Inl e \<Rightarrow> if restartNeeded then recoverRestart E config member e else errA e)))))"

definition RestartHAMember :: "'x env \<Rightarrow> string \<Rightarrow> int \<Rightarrow> int \<Rightarrow> ('x, HAState) op" where
  "RestartHAMember E name i timeout = withHAMemberOperation E name i timeout (restartHAMemberOperation E)"

section \<open>Effects\<close>

lemma quiet_preflightTopology: "emits quiet (preflightHAMemberTopology E config i b)"
  unfolding preflightHAMemberTopology_def by (intro effects quiet_observers)

lemma quiet_waitStoppedLoop: "emits quiet (waitStoppedLoop E config member n)"
proof (induction n)
  case 0
  show ?case by (subst waitStoppedLoop.simps) (intro effects quiet_observers, simp_all add: effects)
next
  case (Suc n)
  show ?case by (subst waitStoppedLoop.simps) (intro effects quiet_observers, simp_all add: effects Suc)
qed

lemma quiet_waitHAMemberStopped: "emits quiet (waitHAMemberStopped E config member)"
  unfolding waitHAMemberStopped_def by (intro effects quiet_waitStoppedLoop)

lemmas member_observers = quiet_observers quiet_preflightTopology quiet_waitHAMemberStopped
  quiet_validateHAEtcdTopology quiet_validateHAEtcdRepairQuorum

text \<open>Stopping a member issues, besides reads, the one \<open>stop\<close> of that member.\<close>

definition stopsOnly :: "HAConfig \<Rightarrow> int \<Rightarrow> event \<Rightarrow> bool" where
  "stopsOnly config i e \<longleftrightarrow> quiet e
     \<or> e = Cmd (Some haRuntimeOperationTimeout) [''stop'', HAContainerName (hc_Name config) i]"

lemma emits_stopHAMemberLocked: "emits (stopsOnly config (hm_ID member)) (stopHAMemberLocked E config member)"
proof -
  have q2: "emits quiet m \<Longrightarrow> emits (stopsOnly config (hm_ID member)) m" for m :: "('a, 'c) op"
    by (erule quietly) (simp add: stopsOnly_def)
  show ?thesis
    unfolding stopHAMemberLocked_def
    by (intro effects q2 member_observers) (simp add: stopsOnly_def)
qed

text \<open>When a member is stopped: everything the operation has checked before.\<close>

definition safeToStop :: "'x env \<Rightarrow> HAConfig \<Rightarrow> HAMember \<Rightarrow> 'x world \<Rightarrow> bool" where
  "safeToStop E config member w \<longleftrightarrow> (\<exists>preflight w1 state w2 topology w3.
     preflightHAMemberTopology E config (hm_ID member) True w = (Inr preflight, w1)
     \<and> StatusHA E (hc_Name config) w1 = (Inr state, w2) \<and> allHAMembersReady state
     \<and> validateHAEtcdTopology E config w2 = (Inr topology, w3) \<and> exactTopology topology)"

lemma stop_not_quiet: "\<not> quiet (Cmd b (''stop'' # args))"
  by (simp add: quiet_def readsOnlyArgs_def)

lemma stop_only_when_safe:
  assumes start: "list_all quiet (w_trace w)"
    and stop: "Cmd b (''stop'' # args) \<in> set (w_trace (snd (stopHAMemberLocked E config member w)))"
  shows "safeToStop E config member w"
proof (rule ccontr)
  assume unsafe: "\<not> safeToStop E config member w"
  obtain rp w1 where pre: "preflightHAMemberTopology E config (hm_ID member) True w = (rp, w1)" by fastforce
  obtain rs w2 where status: "StatusHA E (hc_Name config) w1 = (rs, w2)" by fastforce
  obtain rt w3 where top: "validateHAEtcdTopology E config w2 = (rt, w3)" by fastforce
  have q1: "list_all quiet (w_trace w1)" by (rule emits_step [OF quiet_preflightTopology pre start])
  have q2: "list_all quiet (w_trace w2)" by (rule emits_step [OF quiet_StatusHA status q1])
  have q3: "list_all quiet (w_trace w3)" by (rule emits_step [OF quiet_validateHAEtcdTopology top q2])
  have "snd (stopHAMemberLocked E config member w) \<in> {w1, w2, w3}"
  proof (cases rp)
    case (Inl e)
    then show ?thesis by (simp add: stopHAMemberLocked_def act_apply pre)
  next
    case preflight: (Inr preflight)
    show ?thesis
    proof (cases rs)
      case (Inl e)
      then show ?thesis by (simp add: stopHAMemberLocked_def act_apply pre preflight status)
    next
      case (Inr state)
      have "\<not> allHAMembersReady state \<or> \<not> isOk rt"
        using unsafe pre preflight status Inr top validateHAEtcdTopology_sound
        unfolding safeToStop_def by (metis isOkE)
      then show ?thesis
        by (auto simp: stopHAMemberLocked_def act_apply pre preflight status Inr top
            split: option.splits sum.splits)
    qed
  qed
  with q1 q2 q3 have "list_all quiet (w_trace (snd (stopHAMemberLocked E config member w)))" by auto
  with stop stop_not_quiet show False by (auto simp: list_all_iff)
qed

lemma emits_markRunning: "(\<And>p d. P (Wrote p d)) \<Longrightarrow> emits P (markHAClusterRunningLocked E name)"
  unfolding updateDesired_eqs by (rule emits_updateDesired)

lemma emits_markStopped: "(\<And>p d. P (Wrote p d)) \<Longrightarrow> emits P (markHAClusterStoppedLocked E name)"
  unfolding updateDesired_eqs by (rule emits_updateDesired)

lemma emits_setMemberIntent: "(\<And>p d. P (Wrote p d)) \<Longrightarrow> emits P (setHAMemberIntentLocked E name i b)"
  unfolding updateDesired_eqs by (rule emits_updateDesired)

section \<open>Inside the lock\<close>

lemma traces_withLock:
  assumes "traces \<Phi> m"
  shows "traces (\<lambda>es. es = [] \<or> (\<exists>mid. es = Locked name # mid @ [Unlocked name] \<and> \<Phi> mid)) (withLock E name m)"
proof (rule tracesI)
  fix w :: "'a world"
  obtain a x1 where lock: "e_lock E (w_ext w) name = (a, x1)" by fastforce
  let ?w1 = "w\<lparr>w_ext := x1, w_trace := w_trace w @ [Locked name]\<rparr>"
  obtain r w2 where m: "m ?w1 = (r, w2)" by fastforce
  obtain es where es: "w_trace w2 = w_trace ?w1 @ es" "\<Phi> es" using tracesE [OF assms m] .
  show "\<exists>es. w_trace (snd (withLock E name m w)) = w_trace w @ es \<and>
      (es = [] \<or> (\<exists>mid. es = Locked name # mid @ [Unlocked name] \<and> \<Phi> mid))"
  proof (cases a)
    case (Inl e)
    then show ?thesis by (simp add: withLock_def act_apply queryExt_def lock)
  next
    case (Inr u)
    have "w_trace (snd (withLock E name m w)) = w_trace w2 @ [Unlocked name]"
      using m by (auto simp: withLock_def act_apply queryExt_def emitEvent_def lock Inr
          split: prod.splits option.splits)
    then show ?thesis using es by auto
  qed
qed

lemma yields_withLock [results]:
  assumes "yields R m"
  shows "yields R (withLock E name m)"
proof (rule yieldsI)
  fix w x w' assume "withLock E name m w = (Inr x, w')"
  then obtain w1 w2 where "m w1 = (Inr x, w2)"
    by (auto simp: withLock_def act_apply split: sum.splits prod.splits option.splits)
  then show "R x" by (rule yieldsD [OF assms])
qed

lemma yields_startHAMemberLocked: "yields allHAMembersReady (startHAMemberLocked E config member)"
  unfolding startHAMemberLocked_def by (intro results yields_waitHAClusterReady)

lemma yields_restart: "yields allHAMembersReady (restartHAMemberOperation E config member t)"
  unfolding restartHAMemberOperation_def recoverRestart_def
  by (intro results yields_catchA_from [OF yields_startHAMemberLocked] yields_startHAMemberLocked)
    (auto split: stopResult.split intro!: results yields_catchA_from [OF yields_startHAMemberLocked])

section \<open>How members are stopped\<close>

lemma atMost_stopHAMemberLocked: "atMost mutates 1 (stopHAMemberLocked E config member)"
proof -
  have silent: "atMost mutates 1 (retA s)" for s :: stopResult by (intro atMost_none effects)
  show ?thesis
    unfolding stopHAMemberLocked_def
    apply (rule atMost_before_catchA)
    apply (intro emits_not_mutates effects member_observers)
    apply (intro atMost_cases silent)
    apply (rule atMost_before_catchA)
    apply (intro emits_not_mutates member_observers)
    apply (intro atMost_cases silent)
    apply (rule atMost_after_catchA [OF atMost_runHABounded])
    apply (intro effects emits_not_mutates member_observers)
    done
qed

definition stopCommand :: "string \<Rightarrow> int \<Rightarrow> event" where
  "stopCommand cluster i = Cmd (Some haRuntimeOperationTimeout) [''stop'', HAContainerName cluster i]"

lemma stopMemberOperation_traces:
  "traces (\<lambda>es. precedes (wroteIntent E (hc_Name config) (\<lambda>st. haMemberIntentionallyStopped st (hm_ID member))) mutates es
     \<and> (filter mutates es = [] \<or> filter mutates es = [stopCommand (hc_Name config) (hm_ID member)]))
   (stopMemberOperation E config member t)"
proof -
  let ?intent = "wroteIntent E (hc_Name config) (\<lambda>st. haMemberIntentionallyStopped st (hm_ID member))"
  have a: "guarded ?intent mutates (stopMemberOperation E config member t)"
    unfolding stopMemberOperation_def tryWrapA_def
    using ensures_setMemberIntent [of E "hc_Name config" "hm_ID member" True]
    by (intro guarded_after ensures_wrapA effects emits_setMemberIntent emits_mono [OF emits_stopHAMemberLocked]) (auto split: stopResult.split)
  have b: "emits (\<lambda>e. mutates e \<longrightarrow> e = stopCommand (hc_Name config) (hm_ID member)) (stopMemberOperation E config member t)"
    unfolding stopMemberOperation_def
    by (intro effects emits_setMemberIntent emits_mono [OF emits_stopHAMemberLocked])
      (auto simp: stopsOnly_def stopCommand_def quiet_not_mutates split: stopResult.split)
  have c: "atMost mutates (0 + (1 + 0)) (stopMemberOperation E config member t)"
    unfolding stopMemberOperation_def
    by (intro atMost_tryWrapA atMost_tryA atMost_stopHAMemberLocked atMost_none effects emits_setMemberIntent)
       (auto split: stopResult.split)
  show ?thesis
    using traces_conj [OF traces_guarded [OF a] traces_conj [OF traces_emits [OF b] traces_atMost [OF c]]]
    by (rule traces_mono) (metis One_nat_def add_0 add.right_neutral filter_at_most_one)
qed

lemma traces_quiet: "\<Phi> [] \<Longrightarrow> emits (\<lambda>_. False) m \<Longrightarrow> traces \<Phi> m"
  unfolding emits_def traces_def by (metis append_Nil2 list.exhaust list.pred_inject(2))

lemma traces_if: "(b \<Longrightarrow> traces \<Phi> m) \<Longrightarrow> (\<not> b \<Longrightarrow> traces \<Phi> n) \<Longrightarrow> traces \<Phi> (if b then m else n)"
  by simp

lemma traces_case_option:
  "(x = None \<Longrightarrow> traces \<Phi> m) \<Longrightarrow> (\<And>y. x = Some y \<Longrightarrow> traces \<Phi> (f y)) \<Longrightarrow>
     traces \<Phi> (case x of None \<Rightarrow> m | Some y \<Rightarrow> f y)"
  by (cases x) auto

text \<open>
  What reaches the trace of a member operation is what the operation itself does, between
  the two lock events, for the saved configuration and the member it was asked for.
\<close>

lemma traces_withHAMemberOperation:
  assumes "\<And>config t. traces (\<Phi> config) (operation config (memberByID (hc_Members config) i) t)"
    and empty: "\<And>config. \<Phi> config []"
  shows "traces (\<lambda>es. es = [] \<or> (\<exists>config mid. es = Locked name # mid @ [Unlocked name] \<and> \<Phi> config mid))
    (withHAMemberOperation E name i t operation)"
proof -
  have exists_empty: "\<exists>config. \<Phi> config []" using empty by blast
  have locked: "traces (\<lambda>mid. \<exists>config. \<Phi> config mid) (tryA (loadHAMemberOperationLocked E name i t) (\<lambda>(config, member, operationTimeout).
       tryA (askExt (e_now E)) (\<lambda>now.
       if startedAt + operationTimeout \<le> now
       then errA (Wrap ''HA member operation deadline elapsed while waiting for the operation lock'' DeadlineExceeded)
       else tryA (askExt (e_ctxErr E)) (\<lambda>c. case c of
           Some e \<Rightarrow> errA (Wrap ''HA member operation deadline elapsed before mutation'' e)
         | None \<Rightarrow> operation config member operationTimeout))))" for startedAt
  proof (rule traces_tryA_silent)
    show "emits (\<lambda>_. False) (loadHAMemberOperationLocked E name i t)"
      unfolding loadHAMemberOperationLocked_def Let_def by (intro effects)
  next
    show "\<exists>config. \<Phi> config []" using empty by blast
  next
    fix w x w' assume "loadHAMemberOperationLocked E name i t w = (Inr x, w')"
    then obtain config0 config t' where x: "x = (config, memberByID (hc_Members config) i, t')"
      and c: "config = config0\<lparr>hc_StartupTimeout := t'\<rparr>" "loadHAConfig E name w = (Inr config0, w')"
      by (auto simp: loadHAMemberOperationLocked_def act_apply Let_def split: sum.splits prod.splits if_splits)
    show "traces (\<lambda>mid. \<exists>config. \<Phi> config mid) (case x of (config, member, operationTimeout) \<Rightarrow>
       tryA (askExt (e_now E)) (\<lambda>now.
       if startedAt + operationTimeout \<le> now
       then errA (Wrap ''HA member operation deadline elapsed while waiting for the operation lock'' DeadlineExceeded)
       else tryA (askExt (e_ctxErr E)) (\<lambda>c. case c of
           Some e \<Rightarrow> errA (Wrap ''HA member operation deadline elapsed before mutation'' e)
         | None \<Rightarrow> operation config member operationTimeout)))"
      unfolding x prod.case
      by (intro traces_tryA_silent traces_if traces_case_option effects traces_quiet exists_empty
          traces_mono [OF assms(1)] exI)
  qed
  have "traces (\<lambda>es. es = [] \<or> (\<exists>mid. es = Locked name # mid @ [Unlocked name] \<and> (\<exists>config. \<Phi> config mid)))
    (withHAMemberOperation E name i t operation)"
    unfolding withHAMemberOperation_def
    by (intro traces_tryA_silent effects traces_withLock locked disjI1 refl)
  then show ?thesis by (rule traces_mono) blast
qed

lemma member_operation_trace:
  assumes "\<And>config t. traces (\<Phi> config) (operation config (memberByID (hc_Members config) i) t)"
    and "\<And>config. \<Phi> config []"
    and "\<And>config mid. \<Phi> config mid \<Longrightarrow> \<Phi> config (Locked name # mid @ [Unlocked name])"
  shows "\<exists>config. \<Phi> config (w_trace (snd (withHAMemberOperation E name i t operation (w\<lparr>w_trace := []\<rparr>))))"
proof -
  have "traces (\<lambda>es. es = [] \<or> (\<exists>config mid. es = Locked name # mid @ [Unlocked name] \<and> \<Phi> config mid))
      (withHAMemberOperation E name i t operation)"
    using assms(1,2) by (rule traces_withHAMemberOperation)
  from traces_run [OF this, of w] show ?thesis using assms(2,3) by metis
qed

text \<open>The lock events change neither an order nor a selection of other effects.\<close>

lemma framed: "precedes P mutates (mid @ [Unlocked n]) = precedes P mutates mid"
  by (induction mid) auto

text \<open>Starting touches one container, and only after the intent to stop it is withdrawn.\<close>

lemma emits_startHAMemberLocked: "emits (envelopeCommand E config member) (startHAMemberLocked E config member)"
proof -
  have q: "emits quiet m \<Longrightarrow> emits (envelopeCommand E config member) m" for m :: "('a, 'c) op"
    by (erule quietly) (simp add: envelopeCommand_def)
  show ?thesis
    unfolding startHAMemberLocked_def reconcileWith_def Let_def
    by (intro effects q member_observers emits_runHAServerEnvelope) (simp add: envelopeCommand_def cmdArgs_def)
qed

lemma emits_stop_envelope: "emits (envelopeCommand E config member) (stopHAMemberLocked E config member)"
  by (rule emits_mono [OF emits_stopHAMemberLocked]) (auto simp: stopsOnly_def envelopeCommand_def cmdArgs_def)

lemma emits_restart_rest:
  "emits (envelopeCommand E config member) (tryA (preflightHAMemberTopology E config (hm_ID member) False) (\<lambda>_.
     tryA (StatusHA E (hc_Name config)) (\<lambda>state.
     if \<not> allHAMembersReady state
     then errA (Msg ''refusing to restart HA member: all three node/API pairs must be Ready before mutation'')
     else tryA (stopHAMemberLocked E config member) (\<lambda>r. case r of
         StopFailed e restartNeeded \<Rightarrow> if restartNeeded then recoverRestart E config member e else errA e
       | StopDone _ restartNeeded \<Rightarrow> catchA (startHAMemberLocked E config member) (\<lambda>rs. case rs of
             Inr result \<Rightarrow> retA result
           | Inl e \<Rightarrow> if restartNeeded then recoverRestart E config member e else errA e)))))"
proof -
  have q: "emits quiet m \<Longrightarrow> emits (envelopeCommand E config member) m" for m :: "('a, 'c) op"
    by (erule quietly) (simp add: envelopeCommand_def)
  have recover: "emits (envelopeCommand E config member) (recoverRestart E config member e)" for e
    unfolding recoverRestart_def by (intro effects emits_startHAMemberLocked)
  show ?thesis
    by (intro effects q [OF quiet_preflightTopology] q [OF quiet_StatusHA] emits_stop_envelope)
      (auto split: stopResult.split intro!: effects recover emits_startHAMemberLocked)
qed

definition onlyTarget :: "'x env \<Rightarrow> int \<Rightarrow> HAConfig \<Rightarrow> event list \<Rightarrow> bool" where
  "onlyTarget E i config es \<longleftrightarrow>
     precedes (wroteIntent E (hc_Name config) (\<lambda>st. \<not> haMemberIntentionallyStopped st i)) mutates es
     \<and> list_all (\<lambda>e. mutates e \<longrightarrow> envelopeCommand E config (memberByID (hc_Members config) i) e) es"

lemma traces_onlyTarget:
  assumes "emits (envelopeCommand E config (memberByID (hc_Members config) i)) m"
  shows "traces (onlyTarget E i config)
    (tryWrapA msg (setHAMemberIntentLocked E (hc_Name config) (hm_ID (memberByID (hc_Members config) i)) False) (\<lambda>_. m))"
proof -
  have a: "guarded (wroteIntent E (hc_Name config) (\<lambda>st. \<not> haMemberIntentionallyStopped st i)) mutates
      (tryWrapA msg (setHAMemberIntentLocked E (hc_Name config) i False) (\<lambda>_. m))"
    unfolding tryWrapA_def using ensures_setMemberIntent [of E "hc_Name config" i False]
    by (intro guarded_after ensures_wrapA effects emits_setMemberIntent emits_mono [OF assms]) simp_all
  have b: "emits (\<lambda>e. mutates e \<longrightarrow> envelopeCommand E config (memberByID (hc_Members config) i) e)
      (tryWrapA msg (setHAMemberIntentLocked E (hc_Name config) i False) (\<lambda>_. m))"
    by (intro effects emits_setMemberIntent emits_mono [OF assms]) simp_all
  show ?thesis unfolding onlyTarget_def memberByID_ID
    by (rule traces_conj [OF traces_guarded [OF a] traces_emits [OF b]])
qed

lemma yields_withHAMemberOperation:
  assumes "\<And>config ms t. yields R (operation config (memberByID ms i) t)"
  shows "yields R (withHAMemberOperation E name i timeout operation)"
  unfolding withHAMemberOperation_def
proof (rule yields_tryA, rule yields_tryA, rule yields_withLock)
  fix startedAt u
  let ?rest = "\<lambda>(config, member, operationTimeout). tryA (askExt (e_now E)) (\<lambda>now.
       if startedAt + operationTimeout \<le> now
       then errA (Wrap ''HA member operation deadline elapsed while waiting for the operation lock'' DeadlineExceeded)
       else tryA (askExt (e_ctxErr E)) (\<lambda>c. case c of
           Some e \<Rightarrow> errA (Wrap ''HA member operation deadline elapsed before mutation'' e)
         | None \<Rightarrow> operation config member operationTimeout))"
  have "yields (\<lambda>(config, member, t). \<exists>ms. member = memberByID ms i) (loadHAMemberOperationLocked E name i timeout)"
    unfolding loadHAMemberOperationLocked_def Let_def by (intro results) auto
  then show "yields R (tryA (loadHAMemberOperationLocked E name i timeout) ?rest)"
    by (rule yields_tryA_from) (auto intro!: yields_tryA yields_if yields_errA yields_case_option assms)
qed

definition stopsTarget :: "'x env \<Rightarrow> int \<Rightarrow> HAConfig \<Rightarrow> event list \<Rightarrow> bool" where
  "stopsTarget E i config es \<longleftrightarrow>
     precedes (wroteIntent E (hc_Name config) (\<lambda>st. haMemberIntentionallyStopped st i)) mutates es
     \<and> (filter mutates es = [] \<or> filter mutates es = [stopCommand (hc_Name config) i])"

lemma yields_waitStoppedLoop: "yields (\<lambda>st. otherHAMembersReady st (hm_ID member)) (waitStoppedLoop E config member n)"
proof (induction n)
  case 0
  show ?case by (subst waitStoppedLoop.simps)
    (auto simp: stoppedEnough_def Let_def split: sum.split option.splits
      intro!: yields_catchA yields_tryA yields_errA yields_contextDone yields_retA yields_if)
next
  case (Suc n)
  show ?case by (subst waitStoppedLoop.simps)
    (auto simp: stoppedEnough_def Let_def split: sum.split option.splits
      intro!: yields_catchA yields_tryA yields_errA yields_contextDone yields_retA yields_if Suc)
qed

lemma yields_waitHAMemberStopped:
  "yields (\<lambda>st. otherHAMembersReady st (hm_ID member)) (waitHAMemberStopped E config member)"
  unfolding waitHAMemberStopped_def by (intro results yields_waitStoppedLoop)

lemma yields_stopHAMemberLocked:
  "yields (\<lambda>r. case r of StopDone state _ \<Rightarrow> otherHAMembersReady state (hm_ID member) | StopFailed _ _ \<Rightarrow> True)
     (stopHAMemberLocked E config member)"
  unfolding stopHAMemberLocked_def
  by (intro results yields_catchA_from [OF yields_waitHAMemberStopped]) (auto intro: results)

section \<open>Properties\<close>

text \<open>
  C3: \<open>StopHAMember\<close> persists the intent to stop the member before it changes the
  runtime, and the only change it ever makes is one bounded \<open>stop\<close> of that member's own
  container, whatever the runtime, the clock and the file system do.
\<close>

theorem StopHAMember_ordered:
  "\<exists>cluster. let T = w_trace (snd (StopHAMember E name i timeout (w\<lparr>w_trace := []\<rparr>))) in
     precedes (wroteIntent E cluster (\<lambda>st. haMemberIntentionallyStopped st i)) mutates T
     \<and> filter mutates T \<in> {[], [stopCommand cluster i]}"
proof -
  have "traces (stopsTarget E i config) (stopMemberOperation E config (memberByID (hc_Members config) i) t)" for config t
    by (rule traces_mono [OF stopMemberOperation_traces]) (simp add: stopsTarget_def)
  then have "\<exists>config. stopsTarget E i config (w_trace (snd (StopHAMember E name i timeout (w\<lparr>w_trace := []\<rparr>))))"
    unfolding StopHAMember_def by (rule member_operation_trace) (simp_all add: stopsTarget_def framed)
  then show ?thesis by (auto simp: stopsTarget_def Let_def)
qed

text \<open>
  A successful \<open>StopHAMember\<close> leaves a quorum: it returns only a status in which the
  other two members are Ready, reachable and running.
\<close>

lemma StopHAMember_leaves_quorum:
  "case fst (StopHAMember E name i timeout w) of Inl _ \<Rightarrow> True | Inr state \<Rightarrow> otherHAMembersReady state i"
proof (rule yields_run)
  have "yields (\<lambda>st. otherHAMembersReady st i) (stopMemberOperation E config (memberByID ms i) t)" for config ms t
    unfolding stopMemberOperation_def
    by (rule yields_tryWrapA, rule yields_tryA_from [OF yields_stopHAMemberLocked])
      (auto split: stopResult.splits intro: results)
  then show "yields (\<lambda>st. otherHAMembersReady st i) (StopHAMember E name i timeout)"
    unfolding StopHAMember_def by (rule yields_withHAMemberOperation)
qed

text \<open>
  \<open>stopHAMemberLocked\<close> changes nothing unless all three members were Ready and
  the three etcd members formed one exact topology with a single leader.
\<close>

lemma stop_refused_unless_safe:
  "let w0 = w\<lparr>w_trace := []\<rparr> in
   filter mutates (w_trace (snd (stopHAMemberLocked E config member w0))) = [] \<or> safeToStop E config member w0"
proof -
  let ?w0 = "w\<lparr>w_trace := []\<rparr>"
  let ?T = "w_trace (snd (stopHAMemberLocked E config member ?w0))"
  have only: "list_all (stopsOnly config (hm_ID member)) ?T"
    by (rule emits_run [OF emits_stopHAMemberLocked])
  show ?thesis
  proof (cases "\<exists>b args. Cmd b (''stop'' # args) \<in> set ?T")
    case True
    then show ?thesis using stop_only_when_safe [of ?w0] by (auto simp: Let_def)
  next
    case False
    with only have "list_all (\<lambda>e. \<not> mutates e) ?T"
      by (fastforce simp: list_all_iff stopsOnly_def quiet_not_mutates)
    then show ?thesis by (simp add: Let_def filter_empty_conv list_all_iff)
  qed
qed

text \<open>
  Starting or restarting a member touches that member's container only (its \<open>run\<close>,
  \<open>stop\<close> and \<open>delete\<close>), and only after the intent to keep it stopped has been withdrawn.
\<close>

lemma maintenance_only_target:
  "(\<exists>config. onlyTarget E i config (w_trace (snd (StartHAMember E name i timeout (w\<lparr>w_trace := []\<rparr>)))))
   \<and> (\<exists>config. onlyTarget E i config (w_trace (snd (RestartHAMember E name i timeout (w\<lparr>w_trace := []\<rparr>)))))"
proof -
  show ?thesis
    unfolding StartHAMember_def RestartHAMember_def
    by (intro conjI member_operation_trace; (unfold startMemberOperation_def restartHAMemberOperation_def)?;
        (intro traces_onlyTarget emits_startHAMemberLocked emits_restart_rest)?; simp add: onlyTarget_def framed)
qed

end
