(* ===== verification/Helpers.thy ===== *)
theory Helpers
  imports Members Artifacts
begin

text \<open>
  The helper containers of a restore at run time (\<open>ha_recovery.go\<close> lines 1137 to 1225, 1251
  to 1383, 1421 to 1449 and 1585 to 1699): bounded commands, exact inspection, start and
  reconciled deletion of a helper, the reset of the seed, and the operations on the
  member containers during a recovery.
\<close>

section \<open>Commands and inspection\<close>

definition haRecoveryOperationTimeout :: int where
  "haRecoveryOperationTimeout = 120 * second"

definition runHARecoveryCommand :: "'x env \<Rightarrow> string \<Rightarrow> string list \<Rightarrow> ('x, document) op" where
  "runHARecoveryCommand E operation args =
     tryA (runCmd E (Some haRecoveryOperationTimeout) args) (\<lambda>res.
     case cr_err res of
       None \<Rightarrow> retA (cr_stdout res)
     | Some e \<Rightarrow>
         if (case cr_ctxErr res of None \<Rightarrow> False | Some c \<Rightarrow> errorsIs c DeadlineExceeded)
         then errA (Wrap (operation @ '' timed out'') DeadlineExceeded)
         else errA (commandError operation (cr_stderr res) e))"

definition inspectHARecoveryContainer :: "'x env \<Rightarrow> string \<Rightarrow> ('x, haContainerInspect) op" where
  "inspectHARecoveryContainer E name = inspectHAContainer E (Some haRuntimeOperationTimeout) name"

text \<open>
  The reset runs under what is left of the restore's own deadline; its output only goes to
  the collision parser and, as fixed keys, to the error.
\<close>

datatype resetRun = ResetRun string string "gerror option"

definition runHARestoreResetCommandWithinContext ::
    "'x env \<Rightarrow> bool \<Rightarrow> string \<Rightarrow> string list \<Rightarrow> ('x, resetRun) op" where
  "runHARestoreResetCommandWithinContext E hasDeadline operation args =
     (if \<not> hasDeadline then retA (ResetRun [] [] (Some (Msg (operation @ '' requires a bounded restore context''))))
      else tryA (runCmd E None args) (\<lambda>res.
        let stdout = docText (cr_stdout res); stderr = cr_stderr res in
        case cr_ctxErr res of
          Some contextErr \<Rightarrow> retA (ResetRun stdout stderr (Some (Wrap (operation @ '' exceeded the remaining HA restore deadline'') contextErr)))
        | None \<Rightarrow> (case cr_err res of
            None \<Rightarrow> retA (ResetRun stdout stderr None)
          | Some _ \<Rightarrow> (let diagnostic = sanitizeHARestoreResetOutput stderr in
              retA (ResetRun stdout stderr (Some (Msg (if diagnostic = [] then operation @ '' failed''
                else operation @ '' failed; reset helper stderr diagnostic: '' @ diagnostic))))))))"

section \<open>The identity of a helper\<close>

definition helperVolumeMount :: "haRecoveryHelperSpec \<Rightarrow> inspectMount \<Rightarrow> bool" where
  "helperVolumeMount spec m \<longleftrightarrow> im_Destination m = hs_VolumeMount spec
     \<and> im_Volume m = Some (hs_VolumeName spec) \<and> \<not> im_VirtioFS m \<and> im_Options m = []"

definition helperBackupMount :: "haRecoveryHelperSpec \<Rightarrow> inspectMount \<Rightarrow> bool" where
  "helperBackupMount spec m \<longleftrightarrow> im_Destination m = ''/backup'' \<and> im_Source m = hs_BackupDirectory spec
     \<and> im_VirtioFS m \<and> im_Volume m = None \<and> im_Options m = (if hs_BackupReadOnly spec then [''ro''] else [])"

definition helperTokenMount :: "haRecoveryHelperSpec \<Rightarrow> inspectMount \<Rightarrow> bool" where
  "helperTokenMount spec m \<longleftrightarrow> im_Destination m = ''/run/secrets/apc'' \<and> im_Source m = hs_TokenDirectory spec
     \<and> im_VirtioFS m \<and> im_Volume m = None \<and> im_Options m = [''ro'']"

definition helperMountsMatch :: "haContainerInspect \<Rightarrow> haRecoveryHelperSpec \<Rightarrow> bool" where
  "helperMountsMatch record0 spec \<longleftrightarrow> list_ex (helperVolumeMount spec) (ci_Mounts record0)
     \<and> (hs_BackupDirectory spec = [] \<or> list_ex (helperBackupMount spec) (ci_Mounts record0))
     \<and> (hs_TokenDirectory spec = [] \<or> list_ex (helperTokenMount spec) (ci_Mounts record0))"

definition helperNetworkMatches :: "haContainerInspect \<Rightarrow> haRecoveryHelperSpec \<Rightarrow> bool" where
  "helperNetworkMatches record0 spec = (case ci_Networks record0 of
     [n] \<Rightarrow> if hs_NetworkName spec \<noteq> []
       then in_Network n = hs_NetworkName spec \<and> equalFold (in_MAC n) (hm_MAC (hs_Member spec)) \<and> in_MTU n = 1280
       else in_Network n = ''default'' \<and> in_MAC n = [] \<and> in_MTU n = 1280
   | _ \<Rightarrow> False)"

definition helperResourcesMatch :: "haContainerInspect \<Rightarrow> haRecoveryHelperSpec \<Rightarrow> bool" where
  "helperResourcesMatch record0 spec \<longleftrightarrow> (case parseHAByteSize (hs_Memory spec) of
     Inl _ \<Rightarrow> False
   | Inr memoryBytes \<Rightarrow> ci_CPUs record0 = hs_CPUs spec \<and> (of_int (ci_Memory record0) :: 64 word) = memoryBytes)"

definition validateHARecoveryHelper :: "haContainerInspect \<Rightarrow> haRecoveryHelperSpec \<Rightarrow> gerror + unit" where
  "validateHARecoveryHelper record0 spec =
     (let clusterName = clusterNameFromRecoveryHelper (hs_Name spec) in
      tryS (check (clusterName \<noteq> []) ''invalid APC HA recovery helper name'') (\<lambda>_.
      tryS (wrapS ''helper'' (validateHALabels (labelsOf record0) clusterName (hs_Role spec) (hm_ID (hs_Member spec)))) (\<lambda>_.
      tryS (check (ci_Image record0 = hs_Image spec) ''helper uses another image'') (\<lambda>_.
      tryS (check (ci_OS record0 = ''linux'' \<and> ci_Architecture record0 = ''arm64'')
        ''helper does not use the exact linux/arm64 platform'') (\<lambda>_.
      tryS (check (ci_Executable record0 = hs_Executable spec \<and> ci_Arguments record0 = hs_Arguments spec
          \<and> \<not> ci_Terminal record0 \<and> ci_UserID record0 = Some (0, 0))
        ''helper does not match the exact root, non-TTY APC recovery process'') (\<lambda>_.
      tryS (check (ci_CapAdd record0 = hs_CapAdd spec \<and> ci_CapDrop record0 = [])
        ''helper does not use the exact APC recovery capabilities'') (\<lambda>_.
      tryS (check (helperResourcesMatch record0 spec) ''helper does not match the exact APC recovery resources'') (\<lambda>_.
      tryS (check (length (ci_Mounts record0) = 1 + (if hs_BackupDirectory spec \<noteq> [] then 1 else 0)
          + (if hs_TokenDirectory spec \<noteq> [] then 1 else 0)) ''helper has another number of configured mounts'') (\<lambda>_.
      tryS (check (helperMountsMatch record0 spec)
        ''helper does not use the exact protected member volume and backup/token mounts'') (\<lambda>_.
      tryS (check (helperNetworkMatches record0 spec) ''helper does not use the exact recovery network identity'') (\<lambda>_.
      tryS (check (ci_Ports record0 = [] \<and> ci_Sockets record0 = 0) ''helper unexpectedly publishes a port or socket'') (\<lambda>_.
      check (featuresOff record0) ''helper enables an unexpected runtime feature''))))))))))))"

section \<open>Starting and deleting a helper\<close>

definition helperRunArguments :: "haRecoveryHelperSpec \<Rightarrow> string list" where
  "helperRunArguments spec =
     [''run'', ''--detach'', ''--name'', hs_Name spec, ''--arch'', ''arm64'', ''--cpus'', itoa (hs_CPUs spec),
      ''--memory'', hs_Memory spec, ''--volume'', hs_VolumeName spec @ '':'' @ hs_VolumeMount spec,
      ''--network'', (if hs_NetworkName spec \<noteq> []
         then hs_NetworkName spec @ '',mac='' @ hm_MAC (hs_Member spec) @ '',mtu=1280'' else ''default,mtu=1280'')]
     @ concat (map (\<lambda>c. [''--cap-add'', c]) (hs_CapAdd spec))
     @ (if hs_BackupDirectory spec \<noteq> []
        then [''--mount'', ''type=bind,source='' @ hs_BackupDirectory spec @ '',target=/backup''
                @ (if hs_BackupReadOnly spec then '',readonly'' else [])] else [])
     @ (if hs_TokenDirectory spec \<noteq> []
        then [''--mount'', ''type=bind,source='' @ hs_TokenDirectory spec @ '',target=/run/secrets/apc,readonly''] else [])
     @ [''--label'', ''apc.dev/managed=true'',
        ''--label'', ''apc.dev/cluster='' @ clusterNameFromRecoveryHelper (hs_Name spec),
        ''--label'', ''apc.dev/role='' @ hs_Role spec,
        ''--label'', ''apc.dev/member='' @ itoa (hm_ID (hs_Member spec)),
        ''--progress'', ''plain'', hs_Image spec, hs_Executable spec]
     @ hs_Arguments spec"

definition startHARecoveryHelper :: "'x env \<Rightarrow> haRecoveryHelperSpec \<Rightarrow> ('x, unit) op" where
  "startHARecoveryHelper E spec =
     tryA (liftA (validateHARecoveryHelperSpec spec)) (\<lambda>_.
     catchA (inspectHARecoveryContainer E (hs_Name spec)) (\<lambda>r. case r of
       Inr record0 \<Rightarrow> tryA (liftA (validateHARecoveryHelper record0 spec)) (\<lambda>_.
         errA (Msg ''HA recovery helper already exists''))
     | Inl e \<Rightarrow> if \<not> errorsIs e ErrNotFound then errA e
         else tryA (runHARecoveryCommand E ''start HA recovery helper'' (helperRunArguments spec)) (\<lambda>_. retA ())))"

text \<open>
  Every stop and delete is followed by an inspection that decides what really happened;
  \<open>afterHelper\<close> is the text both share, \<open>present\<close> what is done with an exact record.
\<close>

definition afterHelper :: "'x env \<Rightarrow> haRecoveryHelperSpec \<Rightarrow> gerror option \<Rightarrow> string
    \<Rightarrow> (haContainerInspect \<Rightarrow> ('x, unit) op) \<Rightarrow> ('x, unit) op" where
  "afterHelper E spec opErr msg present = catchA (inspectHARecoveryContainer E (hs_Name spec)) (\<lambda>r. case r of
     Inl e \<Rightarrow> if errorsIs e ErrNotFound then retA ()
       else (case errorsJoin [opErr, Some (Wrap msg e)] of Some j \<Rightarrow> errA j | None \<Rightarrow> retA ())
   | Inr record1 \<Rightarrow> (case validateHARecoveryHelper record1 spec of
         Inl v \<Rightarrow> (case errorsJoin [opErr, Some v] of Some j \<Rightarrow> errA j | None \<Rightarrow> retA ())
       | Inr _ \<Rightarrow> present record1))"

definition joinedErr :: "gerror option \<Rightarrow> string \<Rightarrow> ('x, 'a) op" where
  "joinedErr opErr msg = errA (case errorsJoin [opErr, Some (Msg msg)] of Some j \<Rightarrow> j | None \<Rightarrow> Msg msg)"

definition deleteStoppedHelper :: "'x env \<Rightarrow> haRecoveryHelperSpec \<Rightarrow> ('x, unit) op" where
  "deleteStoppedHelper E spec =
     catchA (runHABounded E ''delete HA recovery helper'' [''delete'', hs_Name spec]) (\<lambda>rd.
     afterHelper E spec (errOf rd) ''reconcile deleted HA recovery helper'' (\<lambda>_.
       joinedErr (errOf rd) ''HA recovery helper still exists after delete''))"

definition deleteHARecoveryHelper :: "'x env \<Rightarrow> haRecoveryHelperSpec \<Rightarrow> ('x, unit) op" where
  "deleteHARecoveryHelper E spec = catchA (inspectHARecoveryContainer E (hs_Name spec)) (\<lambda>r. case r of
     Inl e \<Rightarrow> if errorsIs e ErrNotFound then retA () else errA e
   | Inr record0 \<Rightarrow> tryA (liftA (validateHARecoveryHelper record0 spec)) (\<lambda>_.
       if stateIs record0 ''stopped'' then deleteStoppedHelper E spec
       else catchA (runHABounded E ''stop HA recovery helper'' [''stop'', hs_Name spec]) (\<lambda>rs.
         afterHelper E spec (errOf rs) ''reconcile stopped HA recovery helper'' (\<lambda>record1.
           if \<not> stateIs record1 ''stopped''
           then joinedErr (errOf rs) ''HA recovery helper remains in another runtime state after stop''
           else deleteStoppedHelper E spec))))"

section \<open>Resetting the seed\<close>

fun resetAttempts :: "'x env \<Rightarrow> bool \<Rightarrow> HAConfig \<Rightarrow> HAMember \<Rightarrow> haRecoveryHelperSpec \<Rightarrow> nat \<Rightarrow> ('x, unit) op" where
  "resetAttempts E hasDeadline config member spec 0 =
     errA (Msg ''reset K3s embedded-etcd member 1 could not obtain a non-reserved runtime IPv4'')"
| "resetAttempts E hasDeadline config member spec (Suc n) =
     tryA (runHARestoreResetCommandWithinContext E hasDeadline ''reset K3s embedded-etcd member 1 from snapshot''
             (haRestoreResetRunArguments config member spec)) (\<lambda>res. case res of ResetRun stdout stderr runErr \<Rightarrow>
     catchA (deleteHARecoveryHelper E spec) (\<lambda>rc.
     case haRuntimeIPCollisionFromOutput stderr config member of
       None \<Rightarrow> (case runErr of
           Some e \<Rightarrow> (case errorsJoin [Some (withHARestoreResetStdoutDiagnostic e stdout), errOf rc] of
               Some j \<Rightarrow> errA j | None \<Rightarrow> retA ())
         | None \<Rightarrow> liftA rc)
     | Some _ \<Rightarrow> (case rc of
           Inl c \<Rightarrow> errA (Joined [Msg ''reset K3s embedded-etcd member 1 encountered a reserved runtime IPv4 collision'', c])
         | Inr _ \<Rightarrow> resetAttempts E hasDeadline config member spec n)))"

definition runHARestoreReset :: "'x env \<Rightarrow> bool \<Rightarrow> HAConfig \<Rightarrow> HAMember \<Rightarrow> haRecoveryHelperSpec \<Rightarrow> ('x, unit) op" where
  "runHARestoreReset E hasDeadline config member spec =
     tryA (liftA (validateHARecoveryHelperSpec spec)) (\<lambda>_.
     catchA (inspectHARecoveryContainer E (hs_Name spec)) (\<lambda>r. case r of
       Inr _ \<Rightarrow> errA (Msg ''HA restore reset helper already exists'')
     | Inl e \<Rightarrow> if \<not> errorsIs e ErrNotFound then errA e
         else resetAttempts E hasDeadline config member spec (nat haMemberCount)))"

section \<open>Member containers during a recovery\<close>

definition deleteStoppedHAMemberForRecovery :: "'x env \<Rightarrow> HAConfig \<Rightarrow> HAMember \<Rightarrow> ('x, unit) op" where
  "deleteStoppedHAMemberForRecovery E config member = (let name = HAContainerName (hc_Name config) (hm_ID member) in
     tryA (inspectIfPresent (inspectHARecoveryContainer E name) (\<lambda>c. validateHAContainer c config member)) (\<lambda>found.
     case found of
       None \<Rightarrow> retA ()
     | Some record0 \<Rightarrow> if \<not> stateIs record0 ''stopped''
         then errA (Msg ''refusing to delete HA member because it is not stopped'')
         else runHABounded E ''delete stopped HA restore member envelope'' [''delete'', name]))"

definition startHAMemberForRecovery :: "'x env \<Rightarrow> HAConfig \<Rightarrow> HAMember \<Rightarrow> ('x, unit) op" where
  "startHAMemberForRecovery E config member = (let name = HAContainerName (hc_Name config) (hm_ID member);
       run = runHAServerEnvelope E config member ''start HA recovery member'' haRecoveryOperationTimeout in
     tryA (inspectIfPresent (inspectHARecoveryContainer E name) (\<lambda>c. validateHAContainer c config member)) (\<lambda>found.
     case found of
       None \<Rightarrow> run
     | Some record0 \<Rightarrow> if stateIs record0 ''running'' then retA ()
         else tryA (runHABounded E ''delete stopped HA recovery member envelope'' [''delete'', name]) (\<lambda>_. run)))"

definition clearHAPeerDataForRecovery :: "'x env \<Rightarrow> HAConfig \<Rightarrow> HAMember \<Rightarrow> ('x, unit) op" where
  "clearHAPeerDataForRecovery E config member =
     (if hm_ID member = 1 then errA (Msg ''refusing to clear restored seed member data'')
      else tryA (deleteStoppedHAMemberForRecovery E config member) (\<lambda>_.
        let spec = restoreClearHelperSpec config member in
        tryA (startHARecoveryHelper E spec) (\<lambda>_.
        catchA (runHARecoveryCommand E ''clear stale embedded-etcd database''
                  [''exec'', hs_Name spec, ''/bin/rm'', ''-rf'', joinPath [hs_VolumeMount spec, ''server/db'']]) (\<lambda>r.
        catchA (deleteHARecoveryHelper E spec) (\<lambda>rd.
        case errorsJoin [errOf r, errOf rd] of Some j \<Rightarrow> errA j | None \<Rightarrow> retA ())))))"

text \<open>\<open>Members[0]\<close> and \<open>Members[1:]\<close> of a configuration that has members.\<close>

definition seedAt0 :: "HAConfig \<Rightarrow> HAMember" where
  "seedAt0 config = (case hc_Members config of m # _ \<Rightarrow> m | [] \<Rightarrow> memberByID [] 0)"

definition peers :: "HAConfig \<Rightarrow> HAMember list" where
  "peers config = drop 1 (hc_Members config)"

definition ensureNoHelper :: "'x env \<Rightarrow> haRecoveryHelperSpec \<Rightarrow> ('x, unit) op" where
  "ensureNoHelper E spec = catchA (inspectHARecoveryContainer E (hs_Name spec)) (\<lambda>r. case r of
     Inr _ \<Rightarrow> errA (Msg ''refusing HA restore while recovery helper already exists'')
   | Inl e \<Rightarrow> if \<not> errorsIs e ErrNotFound then errA e else retA ())"

definition ensureNoHARecoveryHelpers :: "'x env \<Rightarrow> HAConfig \<Rightarrow> ('x, unit) op" where
  "ensureNoHARecoveryHelpers E config =
     forA ([snapshotHelperSpec config (seedAt0 config) (dirPath (hc_TokenFile config)),
            restoreResetHelperSpec config (seedAt0 config) (dirPath (hc_TokenFile config))]
           @ map (restoreClearHelperSpec config) (peers config)) (ensureNoHelper E)"

definition staleResetSpec :: "HAConfig \<Rightarrow> haContainerInspect \<Rightarrow> string list \<Rightarrow> haRecoveryHelperSpec option" where
  "staleResetSpec config record0 paths =
     find (\<lambda>spec. isOk (validateHARecoveryHelper record0 spec))
       (map (restoreResetHelperSpec config (seedAt0 config)) (filter (\<lambda>p. p \<noteq> []) paths))"

definition cleanupStaleHARestoreHelpers :: "'x env \<Rightarrow> HAConfig \<Rightarrow> string \<Rightarrow> string \<Rightarrow> ('x, unit) op" where
  "cleanupStaleHARestoreHelpers E config input stagedInput =
     tryA (catchA (inspectHARecoveryContainer E (HARestoreResetContainerName (hc_Name config))) (\<lambda>r. case r of
       Inr record0 \<Rightarrow> (case staleResetSpec config record0 [stagedInput, input] of
           None \<Rightarrow> errA (Msg ''reconcile stale HA restore helper before retry: helper does not use the current protected staging directory'')
         | Some matched \<Rightarrow> wrapA ''reconcile stale HA restore helper before retry'' (deleteHARecoveryHelper E matched))
     | Inl e \<Rightarrow> if \<not> errorsIs e ErrNotFound then errA e else retA ())) (\<lambda>_.
     forA (map (restoreClearHelperSpec config) (peers config)) (\<lambda>spec.
       wrapA ''reconcile stale HA restore helper before retry'' (deleteHARecoveryHelper E spec)))"

end
