(* ===== verification/Triples.thy ===== *)
theory Triples
  imports World
begin

text \<open>
  Triples \<open>triple P m Q\<close> over the trace: if \<open>P\<close> holds of the effects so far, then \<open>Q\<close>
  holds of the result of \<open>m\<close> and the effects afterwards.  They relate what an operation
  returns to what it has done, which the operations with a deferred handler need.
\<close>

definition triple :: "(event list \<Rightarrow> bool) \<Rightarrow> ('x, 'a) op \<Rightarrow> (gerror + 'a \<Rightarrow> event list \<Rightarrow> bool) \<Rightarrow> bool" where
  "triple P m Q \<longleftrightarrow> (\<forall>w es. P es \<longrightarrow> (\<exists>fs. w_trace (snd (m w)) = w_trace w @ fs \<and> Q (fst (m w)) (es @ fs)))"

named_theorems steps

lemma tripleI: "(\<And>w es. P es \<Longrightarrow> \<exists>fs. w_trace (snd (m w)) = w_trace w @ fs \<and> Q (fst (m w)) (es @ fs)) \<Longrightarrow> triple P m Q"
  by (simp add: triple_def)

lemma tripleE:
  assumes "triple P m Q" "P es" "m w = (r, w')"
  obtains fs where "w_trace w' = w_trace w @ fs" "Q r (es @ fs)"
  using assms unfolding triple_def by (metis fst_conv snd_conv)

lemma triple_run: "triple P m Q \<Longrightarrow> P [] \<Longrightarrow> Q (fst (m (w\<lparr>w_trace := []\<rparr>))) (w_trace (snd (m (w\<lparr>w_trace := []\<rparr>))))"
  unfolding triple_def by (drule spec [of _ "w\<lparr>w_trace := []\<rparr>"], drule spec [of _ "[]"]) auto

lemma triple_traces: "triple P m Q \<Longrightarrow> P [] \<Longrightarrow> traces (\<lambda>es. \<exists>r. Q r es) m"
  unfolding triple_def traces_def by (metis append_Nil)

lemma triple_conseq:
  "triple P m Q \<Longrightarrow> (\<And>es. P' es \<Longrightarrow> P es) \<Longrightarrow> (\<And>r es. Q r es \<Longrightarrow> Q' r es) \<Longrightarrow> triple P' m Q'"
  unfolding triple_def by blast

lemma triple_conj: "triple P m Q \<Longrightarrow> triple P' m Q' \<Longrightarrow> triple (\<lambda>es. P es \<and> P' es) m (\<lambda>r es. Q r es \<and> Q' r es)"
  unfolding triple_def by (metis same_append_eq)

lemma triple_catchA [steps]:
  assumes "triple P m R" "\<And>r. triple (R r) (h r) Q"
  shows "triple P (catchA m h) Q"
proof (rule tripleI)
  fix w es assume P: "P es"
  obtain r w' where m: "m w = (r, w')" by fastforce
  obtain fs where fs: "w_trace w' = w_trace w @ fs" "R r (es @ fs)" using tripleE [OF assms(1) P m] .
  obtain s w2 where h: "h r w' = (s, w2)" by fastforce
  obtain gs where "w_trace w2 = w_trace w' @ gs" "Q s ((es @ fs) @ gs)" using tripleE [OF assms(2) fs(2) h] .
  then show "\<exists>fs. w_trace (snd (catchA m h w)) = w_trace w @ fs \<and> Q (fst (catchA m h w)) (es @ fs)"
    using fs(1) by (intro exI [of _ "fs @ gs"]) (simp add: catchA_apply m h)
qed

lemma triple_retA [steps]: "(\<And>es. P es \<Longrightarrow> Q (Inr x) es) \<Longrightarrow> triple P (retA x) Q"
  by (simp add: triple_def)

lemma triple_errA [steps]: "(\<And>es. P es \<Longrightarrow> Q (Inl e) es) \<Longrightarrow> triple P (errA e) Q"
  by (simp add: triple_def)

lemma triple_liftA [steps]: "(\<And>es. P es \<Longrightarrow> Q r es) \<Longrightarrow> triple P (liftA r) Q"
  by (simp add: triple_def)

lemma triple_tryA [steps]:
  "triple P m R \<Longrightarrow> (\<And>e es. R (Inl e) es \<Longrightarrow> Q (Inl e) es) \<Longrightarrow> (\<And>x. triple (R (Inr x)) (f x) Q) \<Longrightarrow> triple P (tryA m f) Q"
  unfolding tryA_def by (rule triple_catchA) (auto split: sum.split intro: triple_errA)

lemma triple_if [steps]: "(b \<Longrightarrow> triple P m Q) \<Longrightarrow> (\<not> b \<Longrightarrow> triple P n Q) \<Longrightarrow> triple P (if b then m else n) Q"
  by simp

text \<open>An operation known by its effects.\<close>

lemma triple_emits: "emits X m \<Longrightarrow> (\<And>es fs. P es \<Longrightarrow> list_all X fs \<Longrightarrow> P (es @ fs)) \<Longrightarrow> triple P m (\<lambda>_. P)"
  unfolding triple_def emits_def by blast

lemma triple_yields:
  assumes "triple P m Q" "yields R m"
  shows "triple P m (\<lambda>r es. Q r es \<and> (case r of Inl _ \<Rightarrow> True | Inr x \<Rightarrow> R x))"
proof (rule tripleI)
  fix w es assume P: "P es"
  obtain r w' where m: "m w = (r, w')" by fastforce
  obtain fs where "w_trace w' = w_trace w @ fs" "Q r (es @ fs)" using tripleE [OF assms(1) P m] .
  moreover have "case r of Inl _ \<Rightarrow> True | Inr x \<Rightarrow> R x"
    using assms(2) m by (auto split: sum.split dest: yieldsD)
  ultimately show "\<exists>fs. w_trace (snd (m w)) = w_trace w @ fs
      \<and> Q (fst (m w)) (es @ fs) \<and> (case fst (m w) of Inl _ \<Rightarrow> True | Inr x \<Rightarrow> R x)"
    by (intro exI [of _ fs]) (simp add: m)
qed

section \<open>Order\<close>

text \<open>\<open>B\<close> effects only after an \<open>A\<close> effect; \<open>after\<close> says that there has been one.\<close>

definition after :: "(event \<Rightarrow> bool) \<Rightarrow> (event \<Rightarrow> bool) \<Rightarrow> event list \<Rightarrow> bool" where
  "after A B es \<longleftrightarrow> precedes A B es \<and> list_ex A es"

lemma after_precedes: "after A B es \<Longrightarrow> precedes A B es"
  by (simp add: after_def)

lemma order_before: "emits (\<lambda>e. \<not> B e) m \<Longrightarrow> triple (precedes A B) m (\<lambda>_. precedes A B)"
  by (erule triple_emits) (rule precedes_append, assumption, erule precedes_none)

lemma order_after: "emits (\<lambda>_. True) m \<Longrightarrow> triple (after A B) m (\<lambda>_. after A B)"
  by (erule triple_emits) (simp add: after_def precedes_append_found)

lemma order_switch:
  assumes quiet: "emits (\<lambda>e. \<not> B e) m" and found: "ensures A m"
  shows "triple (precedes A B) m (\<lambda>r. if isOk r then after A B else precedes A B)"
proof (rule tripleI)
  fix w es assume P: "precedes A B es"
  obtain r w' where m: "m w = (r, w')" by fastforce
  obtain fs where fs: "w_trace w' = w_trace w @ fs" "isOk r \<longrightarrow> list_ex A fs" by (rule ensuresE [OF found m]) blast
  moreover have "list_all (\<lambda>e. \<not> B e) fs" using emitsE [OF quiet, of w] m fs(1) by auto
  then have "precedes A B (es @ fs)" by (rule precedes_append [OF P precedes_none])
  ultimately show "\<exists>fs. w_trace (snd (m w)) = w_trace w @ fs
      \<and> (if isOk (fst (m w)) then after A B else precedes A B) (es @ fs)"
    by (intro exI [of _ fs]) (simp add: m after_def)
qed

text \<open>The second part of a call whose error is looked at.\<close>

lemma ensures_catchA_second:
  assumes "emits (\<lambda>_. True) m" "\<And>r. ensures A (h r)"
  shows "ensures A (catchA m h)"
proof (rule ensuresI)
  fix w s w2 assume run: "catchA m h w = (s, w2)"
  obtain r w' where m: "m w = (r, w')" by fastforce
  obtain es where "w_trace w' = w_trace w @ es" using emitsE [OF assms(1), of w] m by auto
  moreover from run m have "h r w' = (s, w2)" by (simp add: catchA_apply)
  with assms(2) obtain fs where "w_trace w2 = w_trace w' @ fs" "isOk s \<longrightarrow> list_ex A fs"
    by (rule ensuresE) blast
  ultimately show "\<exists>es. w_trace w2 = w_trace w @ es \<and> (isOk s \<longrightarrow> list_ex A es)"
    by (intro exI [of _ "es @ fs"]) simp
qed

lemma emits_conj: "emits P m \<Longrightarrow> emits Q m \<Longrightarrow> emits (\<lambda>e. P e \<and> Q e) m"
  unfolding emits_def list_all_iff by (metis same_append_eq)

end
