(* ===== verification/Lifecycle.thy ===== *)
theory Lifecycle
  imports Members "HOL-Library.Sublist"
begin

text \<open>
  The operations on a whole cluster (\<open>ha.go\<close> lines 769 to 918 and 1210 to 1427): create,
  start, stop, delete, and the preparation of the kubeconfig.  Intent and configuration are
  on disk before the first change of the runtime.
\<close>

section \<open>Creating\<close>

definition createHAOwnedNetwork :: "'x env \<Rightarrow> HAConfig \<Rightarrow> ('x, unit) op" where
  "createHAOwnedNetwork E config =
     tryA (runCmd E None [''network'', ''create'', ''--subnet'', hc_Subnet config, ''--label'', ''apc.dev/managed=true'',
             ''--label'', ''apc.dev/cluster='' @ hc_Name config, hc_NetworkName config]) (\<lambda>res.
     case cr_err res of None \<Rightarrow> retA () | Some e \<Rightarrow> errA (commandError ''create HA network'' (cr_stderr res) e))"

definition createHAOwnedVolume :: "'x env \<Rightarrow> HAConfig \<Rightarrow> HAMember \<Rightarrow> ('x, unit) op" where
  "createHAOwnedVolume E config member =
     tryA (runCmd E None [''volume'', ''create'', ''--label'', ''apc.dev/managed=true'',
             ''--label'', ''apc.dev/cluster='' @ hc_Name config, ''--label'', ''apc.dev/role=server'',
             ''--label'', ''apc.dev/member='' @ itoa (hm_ID member), ''-s'', hc_VolumeSize config,
             HAVolumeName (hc_Name config) (hm_ID member)]) (\<lambda>res.
     case cr_err res of None \<Rightarrow> retA ()
     | Some e \<Rightarrow> errA (commandError ''create HA member data volume'' (cr_stderr res) e))"

text \<open>The rollback goes on after an error and joins them all.\<close>

fun rollbackVolumes :: "'x env \<Rightarrow> HAConfig \<Rightarrow> gerror option list \<Rightarrow> int list \<Rightarrow> ('x, gerror option list) op" where
  "rollbackVolumes E config errs [] = retA errs"
| "rollbackVolumes E config errs (i # ids) =
     catchA (runHABounded E ''roll back HA data volume'' [''volume'', ''delete'', HAVolumeName (hc_Name config) i]) (\<lambda>r.
       rollbackVolumes E config (errs @ [errOf r]) ids)"

definition rollbackHAFreshInfrastructure :: "'x env \<Rightarrow> HAConfig \<Rightarrow> int list \<Rightarrow> bool \<Rightarrow> ('x, gerror option) op" where
  "rollbackHAFreshInfrastructure E config volumeIDs networkCreated =
     tryA (rollbackVolumes E config [] (rev volumeIDs)) (\<lambda>errs.
     if networkCreated then
       catchA (runHABounded E ''roll back HA network'' [''network'', ''delete'', hc_NetworkName config]) (\<lambda>r.
         retA (errorsJoin (errs @ [errOf r])))
     else retA (errorsJoin errs))"

fun createVolumes :: "'x env \<Rightarrow> HAConfig \<Rightarrow> haPreflight \<Rightarrow> bool \<Rightarrow> int list \<Rightarrow> HAMember list \<Rightarrow> ('x, unit) op" where
  "createVolumes E config preflight createdNetwork createdVolumes [] = retA ()"
| "createVolumes E config preflight createdNetwork createdVolumes (member # members) =
     (if hm_ID member \<in> set (pf_volumeExists preflight)
      then createVolumes E config preflight createdNetwork createdVolumes members
      else catchA (createHAOwnedVolume E config member) (\<lambda>r. case r of
          Inl createErr \<Rightarrow> tryA (rollbackHAFreshInfrastructure E config createdVolumes createdNetwork) (\<lambda>rollback.
            case errorsJoin [Some createErr, rollback] of Some e \<Rightarrow> errA e | None \<Rightarrow> retA ())
        | Inr _ \<Rightarrow> createVolumes E config preflight createdNetwork (createdVolumes @ [hm_ID member]) members))"

definition reconcileFrom :: "'x env \<Rightarrow> HAConfig \<Rightarrow> haPreflight \<Rightarrow> HAMember \<Rightarrow> ('x, unit) op" where
  "reconcileFrom E config preflight member = reconcileHAMember E config member (recordOrZero preflight (hm_ID member))"

text \<open>
  A fresh cluster is started member by member, the seed first; an existing one has all its
  members started before the first is waited for.
\<close>

definition startMembers :: "'x env \<Rightarrow> HAConfig \<Rightarrow> haPreflight \<Rightarrow> bool \<Rightarrow> ('x, unit) op" where
  "startMembers E config preflight fresh =
     (if fresh then
        forA (hc_Members config) (\<lambda>member. tryA (reconcileFrom E config preflight member) (\<lambda>_.
          waitHAMemberReady E config member))
      else tryA (forA (hc_Members config) (reconcileFrom E config preflight)) (\<lambda>_.
          forA (hc_Members config) (waitHAMemberReady E config)))"

text \<open>The mutating part of \<open>createHALocked\<close>, after configuration and intent are saved.\<close>

definition createRuntime :: "'x env \<Rightarrow> HAConfig \<Rightarrow> haPreflight \<Rightarrow> ('x, HAState) op" where
  "createRuntime E config preflight =
     tryA (if pf_networkExists preflight then retA False
           else tryA (createHAOwnedNetwork E config) (\<lambda>_. retA True)) (\<lambda>createdNetwork.
     tryA (createVolumes E config preflight createdNetwork [] (hc_Members config)) (\<lambda>_.
     tryA (startMembers E config preflight (pf_volumeExists preflight = [])) (\<lambda>_.
     let seed = memberByID (hc_Members config) 1 in
     tryA (readKubeconfig E (HAContainerName (hc_Name config) (hm_ID seed)) (apiEndpoint seed (hc_ListenAddress config))) (\<lambda>kubeconfig.
     tryWrapA ''write HA kubeconfig'' (writePrivateFileAtomic E (hc_KubeconfigPath config) kubeconfig) (\<lambda>_.
     tryA (SetCurrentCluster E (hc_Name config)) (\<lambda>_.
     tryA (waitHAClusterReady E config) (\<lambda>state.
     retA (state\<lparr>st_Kubeconfig := hc_KubeconfigPath config\<rparr>))))))))"

definition sameAsSaved :: "'x env \<Rightarrow> HAConfig \<Rightarrow> ('x, unit) op" where
  "sameAsSaved E config = catchA (loadHAConfig E (hc_Name config)) (\<lambda>r. case r of
     Inr stored \<Rightarrow> if \<not> sameHARuntimeConfig stored config
       then errA (Msg ''saved HA topology differs from the requested configuration'') else retA ()
   | Inl e \<Rightarrow> if errorsIs e ErrNotExist then retA () else errA e)"

definition createHALocked :: "'x env \<Rightarrow> HAConfig \<Rightarrow> ('x, HAState) op" where
  "createHALocked E config =
     tryA (checkHALegacyCollision E (hc_Name config)) (\<lambda>_.
     tryA (sameAsSaved E config) (\<lambda>_.
     tryA (preflightHA E config False) (\<lambda>preflight.
     tryA (liftA (validateHACurrentRuntimeIPReservations config (pf_containerRecord preflight))) (\<lambda>_.
     tryA (ensureHAToken E (hc_TokenFile config) (pf_volumeExists preflight = [])) (\<lambda>_.
     tryA (saveHAConfig E config) (\<lambda>_.
     tryWrapA ''persist running HA intent before create'' (markHAClusterRunningLocked E (hc_Name config)) (\<lambda>_.
     createRuntime E config preflight)))))))"

definition CreateHA :: "'x env \<Rightarrow> HAConfig \<Rightarrow> ('x, HAState) op" where
  "CreateHA E config0 = tryA (liftA (normalizeHAConfig (e_host E) config0)) (\<lambda>config.
     withLock E (hc_Name config) (createHALocked E config))"

section \<open>Starting and stopping\<close>

definition startHALocked :: "'x env \<Rightarrow> string \<Rightarrow> int \<Rightarrow> ('x, HAState) op" where
  "startHALocked E name timeout =
     tryA (loadHAConfig E name) (\<lambda>config.
     tryA (markHAClusterRunningLocked E (hc_Name config)) (\<lambda>_.
     tryA (liftA (normalizeHAConfig (e_host E)
             (if 0 < timeout then config\<lparr>hc_StartupTimeout := timeout\<rparr> else config))) (\<lambda>config'.
     createHALocked E config')))"

definition StartHA :: "'x env \<Rightarrow> string \<Rightarrow> int \<Rightarrow> ('x, HAState) op" where
  "StartHA E name timeout = withLock E name (startHALocked E name timeout)"

definition stopMemberIfRunning :: "'x env \<Rightarrow> HAConfig \<Rightarrow> haPreflight \<Rightarrow> HAMember \<Rightarrow> ('x, unit) op" where
  "stopMemberIfRunning E config preflight member = (case recordOf preflight (hm_ID member) of
     None \<Rightarrow> retA ()
   | Some record0 \<Rightarrow> if stateIs record0 ''stopped'' then retA ()
       else runHABounded E ''stop HA server member'' [''stop'', HAContainerName (hc_Name config) (hm_ID member)])"

definition stopHALocked :: "'x env \<Rightarrow> string \<Rightarrow> ('x, unit) op" where
  "stopHALocked E name =
     tryA (loadHAConfig E name) (\<lambda>config.
     tryA (markHAClusterStoppedLocked E (hc_Name config)) (\<lambda>_.
     tryA (preflightHA E config True) (\<lambda>preflight.
     forA (rev (hc_Members config)) (stopMemberIfRunning E config preflight))))"

definition StopHA :: "'x env \<Rightarrow> string \<Rightarrow> ('x, unit) op" where
  "StopHA E name = withLock E name (stopHALocked E name)"

section \<open>Deleting\<close>

definition deleteEnvelope :: "'x env \<Rightarrow> HAConfig \<Rightarrow> haPreflight \<Rightarrow> HAMember \<Rightarrow> ('x, unit) op" where
  "deleteEnvelope E config preflight member = (case recordOf preflight (hm_ID member) of
     None \<Rightarrow> retA ()
   | Some record0 \<Rightarrow> (let name = HAContainerName (hc_Name config) (hm_ID member) in
       tryA (if stateIs record0 ''stopped'' then retA ()
             else runHABounded E ''stop HA server member before deletion'' [''stop'', name]) (\<lambda>_.
       runHABounded E ''delete HA server member envelope'' [''delete'', name])))"

definition deleteVolume :: "'x env \<Rightarrow> HAConfig \<Rightarrow> haPreflight \<Rightarrow> HAMember \<Rightarrow> ('x, unit) op" where
  "deleteVolume E config preflight member =
     (if hm_ID member \<notin> set (pf_volumeExists preflight) then retA ()
      else runHABounded E ''delete HA member data volume''
             [''volume'', ''delete'', HAVolumeName (hc_Name config) (hm_ID member)])"

definition deleteData :: "'x env \<Rightarrow> HAConfig \<Rightarrow> haPreflight \<Rightarrow> ('x, unit) op" where
  "deleteData E config preflight =
     tryA (forA (rev (hc_Members config)) (deleteVolume E config preflight)) (\<lambda>_.
     tryA (if pf_networkExists preflight
           then runHABounded E ''delete HA network'' [''network'', ''delete'', hc_NetworkName config] else retA ()) (\<lambda>_.
     tryA (liftA (HAConfigPath (e_host E) (hc_Name config))) (\<lambda>configPath.
     tryA (liftA (HARecoveryStatePath (e_host E) (hc_Name config))) (\<lambda>recoveryPath.
     tryA (liftA (haDesiredStatePath (e_host E) (hc_Name config))) (\<lambda>desiredPath.
     tryA (removeExactFiles E [hc_KubeconfigPath config, hc_TokenFile config, recoveryPath, desiredPath, configPath]) (\<lambda>_.
     tryA (clearCurrentCluster E (hc_Name config)) (\<lambda>_.
     removeEmptyClusterDirectory E (hc_Name config))))))))"

definition deleteHALocked :: "'x env \<Rightarrow> string \<Rightarrow> bool \<Rightarrow> ('x, unit) op" where
  "deleteHALocked E name keepData =
     tryA (loadHAConfig E name) (\<lambda>config.
     tryA (if keepData then markHAClusterStoppedLocked E (hc_Name config) else retA ()) (\<lambda>_.
     tryA (preflightHA E config True) (\<lambda>preflight.
     tryA (forA (rev (hc_Members config)) (deleteEnvelope E config preflight)) (\<lambda>_.
     if keepData then retA () else deleteData E config preflight))))"

definition DeleteHA :: "'x env \<Rightarrow> string \<Rightarrow> bool \<Rightarrow> ('x, unit) op" where
  "DeleteHA E name keepData = withLock E name (deleteHALocked E name keepData)"

section \<open>The kubeconfig\<close>

text \<open>
  One turn of the loop of \<open>prepareHAKubeconfigFromConfig\<close>: \<open>Inl attempted\<close> goes on with
  whether the proxy has been tried, \<open>Inr path\<close> is the answer.
\<close>

definition usableMember :: "'x env \<Rightarrow> HAConfig \<Rightarrow> HAMember \<Rightarrow> ('x, document option) op" where
  "usableMember E config member = (let name = HAContainerName (hc_Name config) (hm_ID member) in
     tryA (inspectIfPresent (inspectHAContainer E None name) (\<lambda>c. validateHAContainer c config member)) (\<lambda>found.
     case found of
       None \<Rightarrow> retA None
     | Some record0 \<Rightarrow> if \<not> stateIs record0 ''running'' then retA None
         else catchA (readHAMemberNode E config member) (\<lambda>rn.
           if \<not> (case rn of Inr node \<Rightarrow> nodeDocumentReady node | Inl _ \<Rightarrow> False) then retA None
           else catchA (readKubeconfig E name (apiEndpoint member (hc_ListenAddress config))) (\<lambda>rk. case rk of
               Inl _ \<Rightarrow> retA None
             | Inr kubeconfig \<Rightarrow> (case e_tlsConfig E kubeconfig of Inl _ \<Rightarrow> retA None | Inr _ \<Rightarrow> retA (Some kubeconfig))))))"

definition publishIfReady :: "'x env \<Rightarrow> HAConfig \<Rightarrow> string \<Rightarrow> document \<Rightarrow> document \<Rightarrow> ('x, string option) op" where
  "publishIfReady E config endpoint tlsSource kubeconfig =
     tryA (queryExt (\<lambda>x. e_probeReady E x endpoint tlsSource)) (\<lambda>ready.
     if \<not> ready then retA None
     else tryWrapA ''refresh HA kubeconfig'' (writePrivateFileAtomic E (hc_KubeconfigPath config) kubeconfig) (\<lambda>_.
       retA (Some (hc_KubeconfigPath config))))"

fun prepareFromMembers :: "'x env \<Rightarrow> HAConfig \<Rightarrow> bool \<Rightarrow> HAMember list \<Rightarrow> ('x, string) op" where
  "prepareFromMembers E config proxyAttempted [] = errA (Msg ''HA cluster has no reachable Ready API endpoint'')"
| "prepareFromMembers E config proxyAttempted (member # members) =
     tryA (usableMember E config member) (\<lambda>usable. case usable of
       None \<Rightarrow> prepareFromMembers E config proxyAttempted members
     | Some kubeconfig \<Rightarrow>
         let direct = (\<lambda>attempted. tryA (publishIfReady E config (apiEndpoint member (hc_ListenAddress config)) kubeconfig kubeconfig) (\<lambda>r.
               case r of Some path \<Rightarrow> retA path | None \<Rightarrow> prepareFromMembers E config attempted members)) in
         (case haProxyEndpoint config of
            Inr proxyEndpoint \<Rightarrow>
              if proxyAttempted then direct True
              else tryA (liftA (rewriteHAKubeconfigEndpoint E kubeconfig proxyEndpoint)) (\<lambda>proxyKubeconfig.
                tryA (publishIfReady E config proxyEndpoint kubeconfig proxyKubeconfig) (\<lambda>r.
                case r of Some path \<Rightarrow> retA path | None \<Rightarrow> direct True))
          | Inl _ \<Rightarrow> direct proxyAttempted))"

definition prepareHAKubeconfigFromConfig :: "'x env \<Rightarrow> HAConfig \<Rightarrow> ('x, string) op" where
  "prepareHAKubeconfigFromConfig E config = prepareFromMembers E config False (hc_Members config)"

definition PrepareKubeconfig :: "'x env \<Rightarrow> string \<Rightarrow> ('x, string) op" where
  "PrepareKubeconfig E name = catchA (loadHAConfig E name) (\<lambda>r. case r of
     Inr config \<Rightarrow> prepareHAKubeconfigFromConfig E config
   | Inl e \<Rightarrow> if errorsIs e ErrNotExist then ResolvedKubeconfigPath E name else errA e)"

section \<open>Effects\<close>

text \<open>
  \<open>nothing\<close>-changing prefixes are quiet or write files; the operations below change the
  runtime only after the intent is written.
\<close>

lemma emits_saveHAConfig: "(\<And>p d. P (Wrote p d)) \<Longrightarrow> emits P (saveHAConfig E config)"
  unfolding saveHAConfig_def by (intro effects)

lemma emits_ensureHAToken: "(\<And>p d. P (Wrote p d)) \<Longrightarrow> emits P (ensureHAToken E path b)"
  unfolding ensureHAToken_def validatePrivateTokenFile_def by (intro effects)

lemma emits_sameAsSaved [effects]: "emits P (sameAsSaved E config)"
  unfolding sameAsSaved_def by (intro effects)

section \<open>Success\<close>

lemma yields_createRuntime: "yields allHAMembersReady (createRuntime E config preflight)"
  unfolding createRuntime_def Let_def
  by (intro results yields_tryA_from [OF yields_waitHAClusterReady]) (simp add: allHAMembersReady_def)

lemma yields_createHALocked: "yields allHAMembersReady (createHALocked E config)"
  unfolding createHALocked_def by (intro results yields_createRuntime)

section \<open>What each step may do\<close>

lemma traces_tryA:
  assumes "traces \<Phi> m" "\<And>x. traces \<Psi> (f x)" and stop: "\<And>es. \<Phi> es \<Longrightarrow> \<Theta> es"
    and go: "\<And>es fs. \<Phi> es \<Longrightarrow> \<Psi> fs \<Longrightarrow> \<Theta> (es @ fs)"
  shows "traces \<Theta> (tryA m f)"
proof (rule tracesI)
  fix w
  obtain r w' where m: "m w = (r, w')" by (cases "m w")
  obtain es where es: "w_trace w' = w_trace w @ es" "\<Phi> es" using tracesE [OF assms(1) m] .
  show "\<exists>es. w_trace (snd (tryA m f w)) = w_trace w @ es \<and> \<Theta> es"
  proof (cases r)
    case (Inl e)
    then show ?thesis using es stop by (auto simp: tryA_apply m)
  next
    case (Inr x)
    obtain r2 w2 where f: "f x w' = (r2, w2)" by fastforce
    obtain fs where "w_trace w2 = w_trace w' @ fs" "\<Psi> fs" using tracesE [OF assms(2) f] .
    then show ?thesis using es go Inr by (intro exI [of _ "es @ fs"]) (simp add: tryA_apply m f)
  qed
qed

text \<open>A loop whose turns each issue at most one given command issues a subsequence of them.\<close>

lemma traces_forA_subseq:
  assumes "\<And>x. x \<in> set xs \<Longrightarrow> traces (\<lambda>es. subseq (filter P es) [c x]) (f x)"
  shows "traces (\<lambda>es. subseq (filter P es) (map c xs)) (forA xs f)"
  using assms
proof (induction xs)
  case Nil
  show ?case by (simp only: forA.simps) (rule traces_quiet, simp, rule emits_retA)
next
  case (Cons x xs)
  show ?case unfolding forA.simps
  proof (rule traces_tryA)
    show "traces (\<lambda>es. subseq (filter P es) [c x]) (f x)" using Cons.prems by simp
    show "traces (\<lambda>es. subseq (filter P es) (map c xs)) (forA xs f)" for u :: unit using Cons by simp
    show "subseq (filter P es) (map c (x # xs))" if "subseq (filter P es) [c x]" for es
      using that by (metis append.simps list.simps(9) subseq_append' subseq_order.trans list_emb_append2 subseq_order.refl append_Cons append_Nil prefix_imp_subseq prefixI)
    show "subseq (filter P (es @ fs)) (map c (x # xs))"
      if "subseq (filter P es) [c x]" "subseq (filter P fs) (map c xs)" for es fs
      using list_emb_append_mono [OF that] by simp
  qed
qed

lemma traces_stopMemberIfRunning:
  "traces (\<lambda>es. subseq (filter mutates es) [stopCommand (hc_Name config) (hm_ID member)])
     (stopMemberIfRunning E config preflight member)"
proof -
  have a: "atMost mutates 1 (stopMemberIfRunning E config preflight member)"
    unfolding stopMemberIfRunning_def
    by (intro atMost_cases atMost_runHABounded) (intro atMost_none effects)+
  have b: "emits (\<lambda>e. mutates e \<longrightarrow> e = stopCommand (hc_Name config) (hm_ID member)) (stopMemberIfRunning E config preflight member)"
    unfolding stopMemberIfRunning_def stopCommand_def by (intro effects) simp
  show ?thesis using traces_conj [OF traces_emits [OF b] traces_atMost [OF a]]
    by (rule traces_mono) (use filter_at_most_one in fastforce)
qed

lemma traces_stopHALocked:
  "traces (\<lambda>es. \<exists>cluster. precedes (wroteIntent E cluster (\<lambda>st. ds_ClusterState st = haDesiredStopped)) mutates es
     \<and> subseq (filter mutates es) (map (stopCommand cluster) [3, 2, 1])) (stopHALocked E name)"
  unfolding stopHALocked_def
proof (rule traces_tryA_silent)
  fix w config w'
  assume "loadHAConfig E name w = (Inr config, w')"
  then have ids: "map hm_ID (rev (hc_Members config)) = [3, 2, 1]"
    using loadHAConfig_wf wf_member_ids by (fastforce simp flip: rev_map)
  let ?rest = "tryA (preflightHA E config True) (\<lambda>preflight. forA (rev (hc_Members config)) (stopMemberIfRunning E config preflight))"
  let ?all = "tryA (markHAClusterStoppedLocked E (hc_Name config)) (\<lambda>_. ?rest)"
  have free: "emits (\<lambda>_. True) ?rest"
    unfolding stopMemberIfRunning_def by (intro effects quietly [OF quiet_preflightHA]) simp_all
  have order: "guarded (wroteIntent E (hc_Name config) (\<lambda>st. ds_ClusterState st = haDesiredStopped)) mutates ?all"
    by (intro guarded_after ensures_markStopped emits_markStopped free) simp
  have loop: "traces (\<lambda>es. subseq (filter mutates es) (map (\<lambda>m. stopCommand (hc_Name config) (hm_ID m)) (rev (hc_Members config))))
      (forA (rev (hc_Members config)) (stopMemberIfRunning E config preflight))" for preflight
    by (rule traces_forA_subseq) (rule traces_stopMemberIfRunning)
  have cmds: "map (\<lambda>m. stopCommand (hc_Name config) (hm_ID m)) (rev (hc_Members config)) = map (stopCommand (hc_Name config)) [3, 2, 1]"
    unfolding ids [symmetric] by simp
  have none: "traces (\<lambda>es. filter mutates es = []) m" if "emits (\<lambda>e. \<not> mutates e) m" for m :: "('a, 'c) op"
    using traces_emits [OF that] by (rule traces_mono) (simp add: list_all_iff filter_empty_conv)
  have "traces (\<lambda>es. subseq (filter mutates es) (map (stopCommand (hc_Name config)) [3, 2, 1])) ?all"
    by (rule traces_tryA [OF none traces_tryA [OF none loop [unfolded cmds]]])
      (auto intro: emits_markStopped emits_not_mutates quiet_preflightHA)
  from traces_conj [OF traces_guarded [OF order] this]
  show "traces (\<lambda>es. \<exists>cluster. precedes (wroteIntent E cluster (\<lambda>st. ds_ClusterState st = haDesiredStopped)) mutates es
     \<and> subseq (filter mutates es) (map (stopCommand cluster) [3, 2, 1])) ?all"
    by (rule traces_mono) blast
qed (simp_all add: effects)

lemma lock_run:
  assumes "traces \<Phi> m" "\<Phi> []" "\<And>mid. \<Phi> mid \<Longrightarrow> \<Phi> (Locked name # mid @ [Unlocked name])"
  shows "\<Phi> (w_trace (snd (withLock E name m (w\<lparr>w_trace := []\<rparr>))))"
  using traces_run [OF traces_withLock [OF assms(1)]] assms(2,3) by metis

lemma ensures_saveHAConfig:
  "ensures (\<lambda>e. \<exists>path. HAConfigPath (e_host E) (hc_Name config) = Inr path \<and> e = Wrote path (encodeHAConfig config))
     (saveHAConfig E config)"
proof (cases "HAConfigPath (e_host E) (hc_Name config)")
  case (Inl e)
  then have "saveHAConfig E config = errA e"
    by (simp add: saveHAConfig_def fun_eq_iff act_apply)
  then show ?thesis by (simp add: ensures_errA)
next
  case (Inr path)
  then have "saveHAConfig E config = wrapA ''save HA cluster configuration'' (writePrivateFileAtomic E path (encodeHAConfig config))"
    by (simp add: saveHAConfig_def fun_eq_iff act_apply split: prod.split sum.split)
  then show ?thesis using Inr
    by (simp only:) (intro ensures_wrapA ensures_writePrivateFileAtomic, simp)
qed

lemma free_rollback: "emits (\<lambda>_. True) (rollbackHAFreshInfrastructure E config ids b)"
proof -
  have "emits (\<lambda>_. True) (rollbackVolumes E config errs xs)" for errs xs
    by (induction xs arbitrary: errs) (simp_all only: rollbackVolumes.simps, (intro effects; simp)+)
  then show ?thesis unfolding rollbackHAFreshInfrastructure_def by (intro effects) simp_all
qed

lemma free_createVolumes: "emits (\<lambda>_. True) (createVolumes E config preflight b ids ms)"
  by (induction ms arbitrary: ids)
    (simp_all only: createVolumes.simps createHAOwnedVolume_def, (intro effects free_rollback; simp)+)

lemma free_reconcile: "emits (\<lambda>_. True) (reconcileHAMember E config member record0)"
proof -
  have start: "emits (\<lambda>_. True) (startHAMemberLocked E config member)"
    by (rule emits_mono [OF emits_startHAMemberLocked]) simp
  have stop: "emits (\<lambda>_. True) (stopHAMemberLocked E config member)"
    by (rule emits_mono [OF emits_stopHAMemberLocked]) simp
  have migrate: "emits (\<lambda>_. True) (migrateLegacy E config member)"
    unfolding migrateLegacy_def Let_def
    by (rule emits_tryA [OF stop]) (auto split: stopResult.split intro!: effects start)
  have run: "emits (\<lambda>_. True) (runHAServerEnvelope E config member m t)" for m t
    by (rule emits_mono [OF emits_runHAServerEnvelope]) simp
  show ?thesis unfolding reconcileHAMember_def reconcileWith_def Let_def
    by (intro effects migrate run) simp
qed

lemma free_SetCurrentCluster: "emits (\<lambda>_. True) (SetCurrentCluster E name)"
  unfolding SetCurrentCluster_def writePrivateFile_def by (intro effects) simp_all

lemma free_createRuntime: "emits (\<lambda>_. True) (createRuntime E config preflight)"
proof -
  have q: "emits quiet m \<Longrightarrow> emits (\<lambda>_. True) m" for m :: "('a, 'c) op"
    by (erule quietly) simp
  have "emits (\<lambda>_. True) (startMembers E config preflight fresh)" for fresh
    unfolding startMembers_def reconcileFrom_def
    by (intro effects free_reconcile q [OF quiet_waitHAMemberReady])
  then show ?thesis
    unfolding createRuntime_def Let_def createHAOwnedNetwork_def
    by (intro effects free_createVolumes free_SetCurrentCluster q [OF quiet_readKubeconfig] q [OF quiet_waitHAClusterReady])
      (simp_all add: effects)
qed

lemma guarded_createHALocked:
  assumes save: "ensures P (saveHAConfig E config) \<or> ensures P (markHAClusterRunningLocked E (hc_Name config))"
  shows "guarded P mutates (createHALocked E config)"
proof -
  let ?mark = "\<lambda>preflight. tryWrapA ''persist running HA intent before create'' (markHAClusterRunningLocked E (hc_Name config)) (\<lambda>_.
     createRuntime E config preflight)"
  have free: "emits (\<lambda>_. True) (?mark preflight)" for preflight
    by (intro effects emits_markRunning free_createRuntime) simp
  have last: "guarded P mutates (tryA (saveHAConfig E config) (\<lambda>_. ?mark preflight))" for preflight
    using save
  proof
    assume "ensures P (saveHAConfig E config)"
    then show ?thesis by (intro guarded_after emits_saveHAConfig free) simp_all
  next
    assume "ensures P (markHAClusterRunningLocked E (hc_Name config))"
    then show ?thesis unfolding tryWrapA_def
      by (intro guarded_tryA guarded_after ensures_wrapA guarded_emits emits_saveHAConfig effects emits_markRunning free_createRuntime) simp_all
  qed
  show ?thesis unfolding createHALocked_def
    by (intro guarded_tryA [OF guarded_emits] last effects emits_not_mutates [OF quiet_preflightHA] emits_ensureHAToken) simp
qed

subsection \<open>Deleting\<close>

definition serverContainer :: "string \<Rightarrow> string list \<Rightarrow> bool" where
  "serverContainer cluster args \<longleftrightarrow> list_ex (\<lambda>i. args = [''stop'', HAContainerName cluster i]
     \<or> args = [''delete'', HAContainerName cluster i]) [1, 2, 3]"

definition keepsData :: "string \<Rightarrow> event \<Rightarrow> bool" where
  "keepsData cluster e = (case e of Cmd _ args \<Rightarrow> (if quiet e then True else serverContainer cluster args)
     | Removed _ \<Rightarrow> False | _ \<Rightarrow> True)"

lemma keepsData_quiet: "quiet e \<Longrightarrow> keepsData cluster e"
  by (auto simp: keepsData_def quiet_def split: event.splits)

lemma emits_deleteEnvelope:
  assumes "hm_ID member \<in> {1, 2, 3}"
  shows "emits (keepsData (hc_Name config)) (deleteEnvelope E config preflight member)"
  using assms unfolding deleteEnvelope_def Let_def
  by (intro effects) (auto simp: keepsData_def serverContainer_def)

lemma deleteEnvelopes_keep:
  assumes "wf_HAConfig config"
  shows "emits (keepsData (hc_Name config)) (forA (rev (hc_Members config)) (deleteEnvelope E config preflight))"
proof (rule emits_forA)
  fix m assume "m \<in> set (rev (hc_Members config))"
  then have "hm_ID m \<in> set (map hm_ID (hc_Members config))" by auto
  then have "hm_ID m \<in> {1, 2, 3}" unfolding wf_member_ids [OF assms] by simp
  then show "emits (keepsData (hc_Name config)) (deleteEnvelope E config preflight m)" by (rule emits_deleteEnvelope)
qed

lemma traces_delete_keep:
  "traces (\<lambda>es. \<exists>cluster. precedes (wroteIntent E cluster (\<lambda>st. ds_ClusterState st = haDesiredStopped)) mutates es
     \<and> list_all (keepsData cluster) es) (deleteHALocked E name True)"
  unfolding deleteHALocked_def
proof (rule traces_tryA_silent)
  fix w config w'
  assume "loadHAConfig E name w = (Inr config, w')"
  then have wf: "wf_HAConfig config" using loadHAConfig_wf by blast
  let ?rest = "tryA (preflightHA E config True) (\<lambda>preflight.
     tryA (forA (rev (hc_Members config)) (deleteEnvelope E config preflight)) (\<lambda>_.
     if True then retA () else deleteData E config preflight))"
  let ?all = "tryA (if True then markHAClusterStoppedLocked E (hc_Name config) else retA ()) (\<lambda>_. ?rest)"
  have keep: "emits (keepsData (hc_Name config)) ?rest"
    by (intro effects deleteEnvelopes_keep [OF wf] quietly [OF quiet_preflightHA] keepsData_quiet) simp_all
  have a: "guarded (wroteIntent E (hc_Name config) (\<lambda>st. ds_ClusterState st = haDesiredStopped)) mutates ?all"
    using ensures_markStopped [of E "hc_Name config"]
    by (intro guarded_after emits_mono [OF keep]) (simp_all add: emits_markStopped)
  have b: "emits (keepsData (hc_Name config)) ?all"
    by (intro effects keep emits_markStopped) (simp_all add: keepsData_def)
  show "traces (\<lambda>es. \<exists>cluster. precedes (wroteIntent E cluster (\<lambda>st. ds_ClusterState st = haDesiredStopped)) mutates es
     \<and> list_all (keepsData cluster) es) ?all"
    using traces_conj [OF traces_guarded [OF a] traces_emits [OF b]] by (rule traces_mono) blast
qed (simp_all add: effects)

definition isRemoved :: "event \<Rightarrow> bool" where
  "isRemoved e = (case e of Removed _ \<Rightarrow> True | _ \<Rightarrow> False)"

lemma isRemoved_simps [simp]: "isRemoved (Removed p)" "\<not> isRemoved (Cmd b a)" "\<not> isRemoved (Wrote p d)"
  "\<not> isRemoved (Locked n)" "\<not> isRemoved (Unlocked n)"
  by (simp_all add: isRemoved_def)

lemma quiet_not_removed: "quiet e \<Longrightarrow> \<not> isRemoved e"
  by (auto simp: quiet_def isRemoved_def split: event.splits)

definition filesLast :: "event list \<Rightarrow> bool" where
  "filesLast es = list_all (\<lambda>e. \<not> mutates e) (dropWhile (\<lambda>e. \<not> isRemoved e) es)"

lemma filesLast_none: "list_all (\<lambda>e. \<not> isRemoved e) es \<Longrightarrow> filesLast es"
  by (induction es) (simp_all add: filesLast_def)

lemma filesLast_then:
  "list_all (\<lambda>e. \<not> isRemoved e) es \<Longrightarrow> filesLast fs \<Longrightarrow> filesLast (es @ fs)"
  by (induction es) (simp_all add: filesLast_def)

lemma filesLast_quiet: "list_all (\<lambda>e. \<not> mutates e) es \<Longrightarrow> filesLast es"
  unfolding filesLast_def list_all_iff using set_dropWhileD by fast

lemma traces_filesLast:
  assumes "emits (\<lambda>e. \<not> isRemoved e) m" "\<And>x. traces filesLast (f x)"
  shows "traces filesLast (tryA m f)"
  by (rule traces_tryA [OF traces_emits [OF assms(1)] assms(2)]) (auto intro: filesLast_none filesLast_then)

lemma emits_removeExactPaths:
  "(\<And>p. P (Removed p)) \<Longrightarrow> emits P (removeExactPaths E seen ps)"
  by (induction ps arbitrary: seen)
    (simp_all only: removeExactPaths.simps removeIfPresent_def Let_def, (intro effects; simp)+)

lemma traces_deleteData: "traces filesLast (deleteData E config preflight)"
proof -
  have last: "emits (\<lambda>e. \<not> mutates e) (tryA (liftA (HAConfigPath (e_host E) (hc_Name config))) (\<lambda>configPath.
     tryA (liftA (HARecoveryStatePath (e_host E) (hc_Name config))) (\<lambda>recoveryPath.
     tryA (liftA (haDesiredStatePath (e_host E) (hc_Name config))) (\<lambda>desiredPath.
     tryA (removeExactFiles E [hc_KubeconfigPath config, hc_TokenFile config, recoveryPath, desiredPath, configPath]) (\<lambda>_.
     tryA (clearCurrentCluster E (hc_Name config)) (\<lambda>_.
     removeEmptyClusterDirectory E (hc_Name config)))))))"
    unfolding removeExactFiles_def clearCurrentCluster_def CurrentCluster_def removeEmptyClusterDirectory_def
      removeIfPresent_def Let_def
    by (intro effects emits_removeExactPaths) simp_all
  show ?thesis unfolding deleteData_def deleteVolume_def
    by (intro traces_filesLast effects traces_mono [OF traces_emits [OF last] filesLast_quiet]) simp_all
qed

lemma traces_deleteHALocked: "traces filesLast (deleteHALocked E name False)"
  unfolding deleteHALocked_def if_False
  by (intro traces_filesLast traces_deleteData effects emits_mono [OF quiet_preflightHA] quiet_not_removed)
    (simp_all add: deleteEnvelope_def Let_def effects)

subsection \<open>The lock\<close>

definition isLock :: "event \<Rightarrow> bool" where
  "isLock e = (case e of Locked _ \<Rightarrow> True | Unlocked _ \<Rightarrow> True | _ \<Rightarrow> False)"

definition lockBracket :: "string \<Rightarrow> event list \<Rightarrow> bool" where
  "lockBracket name es = (case es of [] \<Rightarrow> True
     | e # rest \<Rightarrow> e = Locked name \<and> rest \<noteq> [] \<and> last rest = Unlocked name \<and> list_all (\<lambda>x. \<not> isLock x) (butlast rest))"

lemma lockBracket_withLock:
  assumes "emits (\<lambda>e. \<not> isLock e) m"
  shows "lockBracket name (w_trace (snd (withLock E name m (w\<lparr>w_trace := []\<rparr>))))"
proof -
  have "traces (\<lambda>es. es = [] \<or> (\<exists>mid. es = Locked name # mid @ [Unlocked name] \<and> list_all (\<lambda>e. \<not> isLock e) mid)) (withLock E name m)"
    by (rule traces_withLock, rule traces_emits, rule assms)
  from traces_run [OF this, where w = w] show ?thesis by (auto simp: lockBracket_def butlast_append)
qed

lemma isLock_quiet: "quiet e \<Longrightarrow> \<not> isLock e"
  by (auto simp: quiet_def isLock_def split: event.splits)

lemma isLock_simps [simp]: "\<not> isLock (Cmd b args)" "\<not> isLock (Wrote p d)" "\<not> isLock (Removed p)"
  by (simp_all add: isLock_def)

lemma isLock_envelope: "envelopeCommand E config member e \<Longrightarrow> \<not> isLock e"
  by (cases e) (auto simp: envelopeCommand_def quiet_def cmdArgs_def isLock_def HAServerRunArguments_def Let_def)

abbreviation unlocked :: "('x, 'a) op \<Rightarrow> bool" where
  "unlocked m \<equiv> emits (\<lambda>e. \<not> isLock e) m"

lemma unlocked_quiet: "emits quiet m \<Longrightarrow> unlocked m"
  by (erule quietly) (rule isLock_quiet)

lemma unlocked_members:
  "unlocked (startHAMemberLocked E config member)" "unlocked (stopHAMemberLocked E config member)"
  "unlocked (runHAServerEnvelope E config member msg t)"
  by (rule emits_mono [OF emits_startHAMemberLocked] emits_mono [OF emits_stop_envelope]
      emits_mono [OF emits_runHAServerEnvelope]; erule isLock_envelope)+

lemma unlocked_rollback: "unlocked (rollbackHAFreshInfrastructure E config ids b)"
proof -
  have "unlocked (rollbackVolumes E config errs xs)" for errs xs
    by (induction xs arbitrary: errs) (simp_all only: rollbackVolumes.simps, (intro effects; simp)+)
  then show ?thesis unfolding rollbackHAFreshInfrastructure_def by (intro effects) simp_all
qed

lemma unlocked_createVolumes: "unlocked (createVolumes E config preflight b ids ms)"
  by (induction ms arbitrary: ids)
    (simp_all only: createVolumes.simps createHAOwnedVolume_def, (intro effects unlocked_rollback; simp)+)

lemma unlocked_createHALocked: "unlocked (createHALocked E config)"
proof -
  have migrate: "unlocked (migrateLegacy E config member)" for member
    unfolding migrateLegacy_def Let_def
    by (rule emits_tryA [OF unlocked_members(2)]) (auto split: stopResult.split intro!: effects unlocked_members)
  have reconcile: "unlocked (reconcileHAMember E config member r)" for member r
    unfolding reconcileHAMember_def reconcileWith_def Let_def by (intro effects migrate unlocked_members) simp
  have "unlocked (startMembers E config preflight fresh)" for preflight fresh
    unfolding startMembers_def reconcileFrom_def by (intro effects reconcile unlocked_quiet [OF quiet_waitHAMemberReady])
  then have "unlocked (createRuntime E config preflight)" for preflight
    unfolding createRuntime_def Let_def createHAOwnedNetwork_def SetCurrentCluster_def writePrivateFile_def
    by (intro effects unlocked_createVolumes unlocked_quiet [OF quiet_readKubeconfig] unlocked_quiet [OF quiet_waitHAClusterReady])
      (simp_all add: effects)
  then show ?thesis unfolding createHALocked_def
    by (intro effects unlocked_quiet [OF quiet_preflightHA] emits_ensureHAToken emits_saveHAConfig emits_markRunning) simp_all
qed

lemma unlocked_deleteHALocked: "unlocked (deleteHALocked E name keepData)"
  unfolding deleteHALocked_def deleteEnvelope_def deleteData_def deleteVolume_def removeExactFiles_def
    clearCurrentCluster_def CurrentCluster_def removeEmptyClusterDirectory_def removeIfPresent_def Let_def
  by (intro effects emits_removeExactPaths unlocked_quiet [OF quiet_preflightHA] emits_markStopped) simp_all

lemma lockBracket_member:
  assumes "\<And>config ms t. unlocked (operation config (memberByID ms i) t)"
  shows "lockBracket name (w_trace (snd (withHAMemberOperation E name i timeout operation (w\<lparr>w_trace := []\<rparr>))))"
proof -
  have "traces (\<lambda>es. es = [] \<or> (\<exists>(config :: HAConfig) mid. es = Locked name # mid @ [Unlocked name] \<and> list_all (\<lambda>e. \<not> isLock e) mid))
      (withHAMemberOperation E name i timeout operation)"
    by (rule traces_withHAMemberOperation [where \<Phi> = "\<lambda>_. list_all (\<lambda>e. \<not> isLock e)"])
      (simp_all add: traces_emits assms)
  from traces_run [OF this, where w = w] show ?thesis by (auto simp: lockBracket_def butlast_append)
qed

section \<open>Properties\<close>

text \<open>
  C6: creating or reconciling a cluster saves the exact configuration and the intent that
  the cluster runs, with no member held stopped, before the first change of the runtime.
\<close>

theorem createHALocked_ordered:
  "let T = w_trace (snd (createHALocked E config (w\<lparr>w_trace := []\<rparr>))) in
   precedes (\<lambda>e. \<exists>path. HAConfigPath (e_host E) (hc_Name config) = Inr path \<and> e = Wrote path (encodeHAConfig config)) mutates T
   \<and> precedes (wroteIntent E (hc_Name config)
        (\<lambda>st. ds_ClusterState st = haDesiredRunning \<and> ds_StoppedMembers st = [])) mutates T"
  unfolding Let_def
  by (intro conjI guarded_run guarded_createHALocked [OF disjI1 [OF ensures_saveHAConfig]]
      guarded_createHALocked [OF disjI2 [OF ensures_markRunning]])

text \<open>
  \<open>StopHA\<close> persists the stopped intent before its first command; the commands it
  issues are stops of the servers 3, 2, 1, in this order, each at most once.
\<close>

lemma StopHA_ordered:
  "\<exists>cluster. let T = w_trace (snd (StopHA E name (w\<lparr>w_trace := []\<rparr>))) in
     precedes (wroteIntent E cluster (\<lambda>st. ds_ClusterState st = haDesiredStopped)) mutates T
     \<and> subseq (filter mutates T) (map (stopCommand cluster) [3, 2, 1])"
  unfolding StopHA_def Let_def
  by (rule lock_run [OF traces_stopHALocked]) (auto simp: framed wroteIntent_def)

text \<open>
  Deleting with the data kept persists the stopped intent first, touches only the
  server containers, and removes no file, no volume and no network.
\<close>

lemma DeleteHA_keeps_data:
  "\<exists>cluster. let T = w_trace (snd (DeleteHA E name True (w\<lparr>w_trace := []\<rparr>))) in
     precedes (wroteIntent E cluster (\<lambda>st. ds_ClusterState st = haDesiredStopped)) mutates T
     \<and> list_all (keepsData cluster) T"
  unfolding DeleteHA_def Let_def
  by (rule lock_run [OF traces_delete_keep]) (auto simp: framed wroteIntent_def keepsData_def)

text \<open>
  Deleting with the data removes local files only after the last change of the
  runtime: no command that changes it follows the removal of a file.
\<close>

lemma DeleteHA_files_last:
  "filesLast (w_trace (snd (DeleteHA E name False (w\<lparr>w_trace := []\<rparr>))))"
  unfolding DeleteHA_def
proof (rule lock_run [OF traces_deleteHALocked])
  fix mid assume mid: "filesLast mid"
  have "filesLast ([Locked name] @ (mid @ [Unlocked name]))"
  proof (rule filesLast_then)
    show "filesLast (mid @ [Unlocked name])" using mid
      by (induction mid) (auto simp: filesLast_def)
  qed simp
  then show "filesLast (Locked name # mid @ [Unlocked name])" by simp
qed (simp add: filesLast_def)

end
