(* ===== verification/Restore.thy ===== *)
theory Restore
  imports Helpers Triples Lifecycle
begin

text \<open>
  The restore sequence (\<open>ha_recovery.go\<close> lines 156 to 162, 925 to 1067 and 1953 to 2101): the
  journal goes to disk before any change, the members are stopped, the seed is reset from the
  snapshot, the peers are cleared and rejoin; a failure after the first change runs the
  automatic recovery and leaves a failed journal.
\<close>

section \<open>State\<close>

text \<open>The two maps of flags are the lists of members whose flag is true.\<close>

record haRestoreProgress =
  hp_mutationStarted :: bool
  hp_resetAttempted :: bool
  hp_resetComplete :: bool
  hp_newVolumeMembers :: "int list"
  hp_peerDataCleared :: "int list"

text \<open>
  What the body of \<open>restoreHAValidatedLocked\<close> ends with: its error, with the journal record
  and the progress its deferred handler looks at, or the status.
\<close>

datatype restoreOutcome = RestoreFailed gerror HARecoveryState haRestoreProgress | RestoreDone HAState

definition orFail :: "HARecoveryState \<Rightarrow> haRestoreProgress \<Rightarrow> ('x, 'a) op \<Rightarrow> ('a \<Rightarrow> ('x, restoreOutcome) op)
    \<Rightarrow> ('x, restoreOutcome) op" where
  "orFail st pr m f = catchA m (\<lambda>r. case r of Inl e \<Rightarrow> retA (RestoreFailed e st pr) | Inr x \<Rightarrow> f x)"

section \<open>Parts\<close>

definition refreshHARestoreKubeconfig :: "'x env \<Rightarrow> HAConfig \<Rightarrow> HAMember \<Rightarrow> ('x, unit) op" where
  "refreshHARestoreKubeconfig E config seed =
     tryA (readKubeconfig E (HAContainerName (hc_Name config) (hm_ID seed)) (apiEndpoint seed (hc_ListenAddress config))) (\<lambda>kubeconfig.
     wrapA ''refresh restored HA kubeconfig'' (writePrivateFileAtomic E (hc_KubeconfigPath config) kubeconfig))"

text \<open>A loop that goes on after an error; it returns the errors it has seen, in order.\<close>

fun collectErrors :: "('b \<Rightarrow> ('x, unit) op) \<Rightarrow> gerror list \<Rightarrow> 'b list \<Rightarrow> ('x, gerror list) op" where
  "collectErrors f errs [] = retA errs"
| "collectErrors f errs (x # xs) = catchA (f x) (\<lambda>r.
     collectErrors f (case r of Inl e \<Rightarrow> errs @ [e] | Inr _ \<Rightarrow> errs) xs)"

definition joinedErrors :: "gerror list \<Rightarrow> ('x, unit) op" where
  "joinedErrors errs = (case errorsJoin (map Some errs) of Some e \<Rightarrow> errA e | None \<Rightarrow> retA ())"

definition stopExactServer :: "'x env \<Rightarrow> HAConfig \<Rightarrow> HAMember \<Rightarrow> ('x, unit) op" where
  "stopExactServer E config member = (let name = HAContainerName (hc_Name config) (hm_ID member) in
     catchA (inspectHARecoveryContainer E name) (\<lambda>r. case r of
       Inl e \<Rightarrow> if errorsIs e ErrNotFound then retA ()
         else errA (Wrap ''inspect HA recovery member before protective stop'' e)
     | Inr record0 \<Rightarrow> tryWrapA ''refuse protective stop for untrusted HA recovery member''
         (liftA (validateHAContainer record0 config member)) (\<lambda>_.
       catchA (if stateIs record0 ''stopped'' then retA ()
               else runHABounded E ''protectively stop HA recovery member'' [''stop'', name]) (\<lambda>rs.
       catchA (inspectHARecoveryContainer E name) (\<lambda>rf. case rf of
         Inl e \<Rightarrow> if errorsIs e ErrNotFound then retA ()
           else joinedErr (errOf rs) ''verify protective stop for HA recovery member''
       | Inr finalRecord \<Rightarrow> (case validateHAContainer finalRecord config member of
             Inl _ \<Rightarrow> joinedErr (errOf rs) ''verify exact identity after protective stop for HA recovery member''
           | Inr _ \<Rightarrow> if stateIs finalRecord ''stopped'' then retA ()
               else joinedErr (errOf rs) ''HA recovery member remains in another runtime state after protective stop''))))))"

definition stopExactHARecoveryServerEnvelopes :: "'x env \<Rightarrow> HAConfig \<Rightarrow> ('x, unit) op" where
  "stopExactHARecoveryServerEnvelopes E config =
     tryA (collectErrors (stopExactServer E config) [] (hc_Members config)) joinedErrors"

section \<open>Automatic recovery\<close>

definition rejoinPeer :: "'x env \<Rightarrow> HAConfig \<Rightarrow> haRestoreProgress \<Rightarrow> HAMember \<Rightarrow> ('x, unit) op" where
  "rejoinPeer E config pr peer =
     tryA (if hm_ID peer \<in> set (hp_peerDataCleared pr) then retA () else clearHAPeerDataForRecovery E config peer) (\<lambda>_.
     tryA (startHAMemberForRecovery E config peer) (\<lambda>_. waitHAMemberReady E config peer))"

text \<open>The three situations after the clean-up of the helpers, each with the errors so far.\<close>

definition recoverUncertain :: "gerror list \<Rightarrow> ('x, unit) op" where
  "recoverUncertain errs = joinedErrors (errs @ [Msg ''member 1 reset outcome is uncertain; all server members were intentionally left stopped''])"

definition recoverEmptyVolumes :: "'x env \<Rightarrow> HAConfig \<Rightarrow> gerror list \<Rightarrow> ('x, unit) op" where
  "recoverEmptyVolumes E config errs =
     catchA (wrapA ''persist stopped HA intent after pre-reset empty-volume failure'' (markHAClusterStoppedLocked E (hc_Name config))) (\<lambda>r1.
     catchA (stopExactHARecoveryServerEnvelopes E config) (\<lambda>r2.
     joinedErrors (errs @ (case r1 of Inl e \<Rightarrow> [e] | Inr _ \<Rightarrow> []) @ (case r2 of Inl e \<Rightarrow> [e] | Inr _ \<Rightarrow> [])
       @ [Msg ''refusing to start newly created empty HA member volumes before the trusted snapshot reset has been attempted''])))"

definition finishRecovery :: "'x env \<Rightarrow> HAConfig \<Rightarrow> ('x, unit) op" where
  "finishRecovery E config =
     tryA (refreshHARestoreKubeconfig E config (memberByID (hc_Members config) 1)) (\<lambda>_.
     tryA (waitHAClusterReady E config) (\<lambda>_. retA ()))"

definition recoverIntact :: "'x env \<Rightarrow> HAConfig \<Rightarrow> gerror list \<Rightarrow> ('x, unit) op" where
  "recoverIntact E config errs0 =
     tryA (collectErrors (startHAMemberForRecovery E config) errs0 (hc_Members config)) (\<lambda>errs.
     if errs \<noteq> [] then joinedErrors errs
     else tryA (waitHAMemberReady E config (memberByID (hc_Members config) 1)) (\<lambda>_. finishRecovery E config))"

definition recoverAfterReset :: "'x env \<Rightarrow> HAConfig \<Rightarrow> haRestoreProgress \<Rightarrow> gerror list \<Rightarrow> ('x, unit) op" where
  "recoverAfterReset E config pr errs0 = (let seed = memberByID (hc_Members config) 1 in
     catchA (tryA (startHAMemberForRecovery E config seed) (\<lambda>_. waitHAMemberReady E config seed)) (\<lambda>r. case r of
       Inl e \<Rightarrow> joinedErrors (errs0 @ [e])
     | Inr _ \<Rightarrow> tryA (collectErrors (rejoinPeer E config pr) errs0 (peers config)) (\<lambda>errs.
         if errs \<noteq> [] then joinedErrors errs else finishRecovery E config)))"

definition recoverFailedHARestore :: "'x env \<Rightarrow> HAConfig \<Rightarrow> string \<Rightarrow> haRestoreProgress \<Rightarrow> ('x, unit) op" where
  "recoverFailedHARestore E config input pr =
     tryA (collectErrors (deleteHARecoveryHelper E) []
             (restoreResetHelperSpec config (seedAt0 config) input # map (restoreClearHelperSpec config) (peers config))) (\<lambda>errs.
     if hp_resetAttempted pr \<and> \<not> hp_resetComplete pr then recoverUncertain errs
     else if \<not> hp_resetAttempted pr then
       (if list_ex (\<lambda>m. hm_ID m \<in> set (hp_newVolumeMembers pr)) (hc_Members config)
        then recoverEmptyVolumes E config errs else recoverIntact E config errs)
     else recoverAfterReset E config pr errs)"

section \<open>The restore\<close>

fun rejoinPeers :: "'x env \<Rightarrow> HAConfig \<Rightarrow> HARecoveryState \<Rightarrow> haRestoreProgress \<Rightarrow> HAMember list
    \<Rightarrow> (haRestoreProgress \<Rightarrow> ('x, restoreOutcome) op) \<Rightarrow> ('x, restoreOutcome) op" where
  "rejoinPeers E config st pr [] rest = rest pr"
| "rejoinPeers E config st pr (peer # ps) rest =
     orFail st pr (clearHAPeerDataForRecovery E config peer) (\<lambda>_.
     let pr' = pr\<lparr>hp_peerDataCleared := hp_peerDataCleared pr @ [hm_ID peer]\<rparr> in
     orFail st pr' (startHAMemberForRecovery E config peer) (\<lambda>_.
     orFail st pr' (waitHAMemberReady E config peer) (\<lambda>_.
     rejoinPeers E config st pr' ps rest)))"

definition completedJournal :: "int \<Rightarrow> HARecoveryState \<Rightarrow> HARecoveryState" where
  "completedJournal now st = st\<lparr>rs_Phase := ''completed'', rs_UpdatedAt := now, rs_CompletedAt := now,
     rs_RecoverySucceeded := True, rs_Message := ''all three K3s embedded-etcd members are Ready'',
     rs_NextAction := ''verify workloads and create a fresh HA snapshot''\<rparr>"

definition verifyRestored :: "'x env \<Rightarrow> HAConfig \<Rightarrow> HARecoveryState \<Rightarrow> haRestoreProgress \<Rightarrow> ('x, restoreOutcome) op" where
  "verifyRestored E config st0 pr = (let seed = memberByID (hc_Members config) 1 in
     orFail st0 pr (updateHARecoveryPhase E st0 ''verifying'' ''none'') (\<lambda>st.
     orFail st pr (refreshHARestoreKubeconfig E config seed) (\<lambda>_.
     orFail st pr (waitHAClusterReady E config) (\<lambda>state.
     tryA (askExt (e_now E)) (\<lambda>now.
     let st' = completedJournal now st in
     orFail st' pr (saveHARecoveryState E st') (\<lambda>_.
     retA (RestoreDone (state\<lparr>st_Kubeconfig := hc_KubeconfigPath config\<rparr>))))))))"

text \<open>After the seed has been reset.\<close>

definition afterReset :: "'x env \<Rightarrow> HAConfig \<Rightarrow> HARecoveryState \<Rightarrow> haRestoreProgress \<Rightarrow> ('x, restoreOutcome) op" where
  "afterReset E config st0 pr = (let seed = memberByID (hc_Members config) 1 in
     orFail st0 pr (updateHARecoveryPhase E st0 ''starting-member-1'' ''clear stale etcd data on members 2 and 3'') (\<lambda>st1.
     orFail st1 pr (startHAMemberForRecovery E config seed) (\<lambda>_.
     orFail st1 pr (waitHAMemberReady E config seed) (\<lambda>_.
     orFail st1 pr (updateHARecoveryPhase E st1 ''rejoining-peers'' ''wait for all three restored members'') (\<lambda>st2.
     rejoinPeers E config st2 pr (peers config) (verifyRestored E config st2))))))"

text \<open>
  From the first change to the end.  A failed \<open>updateHARecoveryPhase\<close> has already set the
  three fields it sets; the handler sets all three again, so they are left out here.
\<close>

definition restoreSteps :: "'x env \<Rightarrow> HAConfig \<Rightarrow> string \<Rightarrow> haPreflight \<Rightarrow> HARecoveryState \<Rightarrow> haRestoreProgress
    \<Rightarrow> ('x, restoreOutcome) op" where
  "restoreSteps E config stagedInput preflight st0 pr0 = (let seed = memberByID (hc_Members config) 1 in
     orFail st0 pr0 (updateHARecoveryPhase E st0 ''stopping-members'' ''reset member 1 from the validated K3s snapshot'') (\<lambda>st1.
     let pr1 = pr0\<lparr>hp_mutationStarted := True\<rparr> in
     orFail st1 pr1 (forA (rev (hc_Members config)) (stopMemberIfRunning E config preflight)) (\<lambda>_.
     orFail st1 pr1 (updateHARecoveryPhase E st1 ''resetting-member-1'' ''start restored member 1 normally'') (\<lambda>st2.
     orFail st2 pr1 (deleteStoppedHAMemberForRecovery E config seed) (\<lambda>_.
     let pr2 = pr1\<lparr>hp_resetAttempted := True\<rparr> in
     orFail st2 pr2 (runHARestoreReset E True config seed (restoreResetHelperSpec config seed stagedInput)) (\<lambda>_.
     afterReset E config st2 (pr2\<lparr>hp_resetComplete := True\<rparr>)))))))"

definition failedJournal :: "int \<Rightarrow> gerror \<Rightarrow> bool \<Rightarrow> HARecoveryState \<Rightarrow> HARecoveryState" where
  "failedJournal now err recovered st = st\<lparr>rs_Phase := ''failed'', rs_UpdatedAt := now, rs_RecoveryAttempted := True,
     rs_RecoverySucceeded := recovered, rs_Message := errorText err,
     rs_NextAction := (if recovered then ''verify workloads and create a fresh HA snapshot''
       else ''inspect this recovery state and keep all member volumes; rerun restore after resolving the reported error'')\<rparr>"

text \<open>The deferred handler.\<close>

definition restoreHandler :: "'x env \<Rightarrow> HAConfig \<Rightarrow> string \<Rightarrow> restoreOutcome \<Rightarrow> ('x, HAState) op" where
  "restoreHandler E config stagedInput outcome = (case outcome of
     RestoreDone state \<Rightarrow> retA state
   | RestoreFailed err st pr \<Rightarrow>
       if \<not> hp_mutationStarted pr then errA err
       else catchA (recoverFailedHARestore E config stagedInput pr) (\<lambda>recovery.
         tryA (askExt (e_now E)) (\<lambda>now.
         let err1 = (case recovery of Inr _ \<Rightarrow> err | Inl e \<Rightarrow> Joined [err, Wrap ''automatic HA recovery attempt failed'' e]) in
         catchA (saveHARecoveryState E (failedJournal now err (isOk recovery) st)) (\<lambda>saved.
         errA (case saved of Inr _ \<Rightarrow> err1 | Inl e \<Rightarrow> Joined [err1, Wrap ''persist failed HA recovery state'' e])))))"

definition initialJournal :: "int \<Rightarrow> HAConfig \<Rightarrow> string \<Rightarrow> string \<Rightarrow> HARecoveryVolumeProvenance option \<Rightarrow> HARecoveryState" where
  "initialJournal now config identity input provenance = \<lparr>rs_APIVersion = haSnapshotAPIVersion, rs_Kind = haRecoveryStateKind,
     rs_Cluster = hc_Name config, rs_ClusterIdentity = identity, rs_SnapshotPath = input, rs_Phase = ''validated'',
     rs_StartedAt = now, rs_UpdatedAt = now, rs_CompletedAt = 0, rs_RecoveryAttempted = False, rs_RecoverySucceeded = False,
     rs_Message = [], rs_NextAction = ''stop all three HA members'', rs_VolumeProvenance = provenance\<rparr>"

definition initialProgress :: "HARecoveryVolumeProvenance option \<Rightarrow> haRestoreProgress" where
  "initialProgress provenance = \<lparr>hp_mutationStarted = False, hp_resetAttempted = False, hp_resetComplete = False,
     hp_newVolumeMembers = (case provenance of None \<Rightarrow> [] | Some p \<Rightarrow> vp_NewMemberIDs p), hp_peerDataCleared = []\<rparr>"

definition restoreHAValidatedLocked :: "'x env \<Rightarrow> HAConfig \<Rightarrow> string \<Rightarrow> string \<Rightarrow> string \<Rightarrow> haPreflight
    \<Rightarrow> HARecoveryVolumeProvenance option \<Rightarrow> ('x, HAState) op" where
  "restoreHAValidatedLocked E config identity input stagedInput preflight provenance =
     tryA (askExt (e_now E)) (\<lambda>now.
     let st0 = initialJournal now config identity input provenance in
     tryA (saveHARecoveryState E st0) (\<lambda>_.
     tryWrapA ''persist running HA intent before restore'' (markHAClusterRunningLocked E (hc_Name config)) (\<lambda>_.
     tryA (askExt (e_ctxErr E)) (\<lambda>c. case c of
       Some e \<Rightarrow> errA (Wrap ''HA restore deadline reached before member mutation'' e)
     | None \<Rightarrow> tryA (restoreSteps E config stagedInput preflight st0 (initialProgress provenance))
                 (restoreHandler E config stagedInput)))))"

section \<open>Effects\<close>

text \<open>
  \<open>calm\<close>: reads, stops and deletions of containers, and changes of files.  The three kinds of
  command that can harm data or manufacture a cluster are the reset, the removal of a
  database and the \<open>run\<close> of an ordinary server.
\<close>

definition calm :: "event \<Rightarrow> bool" where
  "calm e = (case e of Cmd _ args \<Rightarrow> (quiet e \<or> take 1 args \<in> {[''stop''], [''delete'']}) | Locked _ \<Rightarrow> False | Unlocked _ \<Rightarrow> False | _ \<Rightarrow> True)"

definition resetCommand :: "event \<Rightarrow> bool" where
  "resetCommand e \<longleftrightarrow> take 2 (cmdArgs e) = [''run'', ''--name'']"

definition removesData :: "event \<Rightarrow> bool" where
  "removesData e = (case cmdArgs e of a # _ # c # _ \<Rightarrow> a = ''exec'' \<and> c = ''/bin/rm'' | _ \<Rightarrow> False)"

definition serverRun :: "'x env \<Rightarrow> HAConfig \<Rightarrow> event \<Rightarrow> bool" where
  "serverRun E config e \<longleftrightarrow> list_ex (\<lambda>m. cmdArgs e = HAServerRunArguments (e_host E) config m) (hc_Members config)"

lemma calm_quiet: "quiet e \<Longrightarrow> calm e"
  by (auto simp: calm_def quiet_def split: event.splits)

lemma quiet_not_removes: "quiet e \<Longrightarrow> \<not> removesData e"
  by (auto simp: quiet_def readsOnlyArgs_def removesData_def cmdArgs_def split: event.splits list.splits)

lemma calm_not:
  assumes "calm e"
  shows "\<not> resetCommand e" "\<not> serverRun E config e" "\<not> removesData e"
proof -
  have "\<not> quiet e" if "take 1 (cmdArgs e) = [''run'']"
    using that by (auto simp: quiet_def cmdArgs_def readsOnlyArgs_def split: event.splits list.splits)
  then have no_run: "take 1 (cmdArgs e) \<noteq> [''run'']"
    using assms by (auto simp: calm_def cmdArgs_def split: event.splits)
  then show "\<not> resetCommand e"
    by (cases "cmdArgs e") (auto simp: resetCommand_def)
  show "\<not> serverRun E config e"
    using no_run by (auto simp: serverRun_def list_ex_iff HAServerRunArguments_def Let_def)
  show "\<not> removesData e"
    using assms quiet_not_removes [of e]
    by (auto simp: calm_def removesData_def cmdArgs_def split: event.splits list.splits)
qed

text \<open>The calm operations.\<close>

lemma calmI: "emits quiet m \<Longrightarrow> emits calm m"
  by (erule quietly) (rule calm_quiet)

lemma calm_writes [simp]: "calm (Wrote p d)" "calm (Cmd b (''stop'' # args))" "calm (Cmd b (''delete'' # args))"
  by (simp_all add: calm_def)

lemma quiet_inspectRecovery: "emits quiet (inspectHARecoveryContainer E n)"
  unfolding inspectHARecoveryContainer_def by (rule quiet_inspects)

lemma calm_inspectRecovery: "emits calm (inspectHARecoveryContainer E n)"
  by (rule calmI, rule quiet_inspectRecovery)

lemma calm_deleteHelper: "emits calm (deleteHARecoveryHelper E spec)"
  unfolding deleteHARecoveryHelper_def afterHelper_def deleteStoppedHelper_def joinedErr_def
  by (intro effects calm_inspectRecovery) simp_all

lemma emits_collectErrors: "(\<And>x. x \<in> set xs \<Longrightarrow> emits P (f x)) \<Longrightarrow> emits P (collectErrors f errs xs)"
  by (induction xs arbitrary: errs) (simp_all only: collectErrors.simps, (intro effects; simp)+)

lemma emits_joinedErrors [effects]: "emits P (joinedErrors errs)"
  unfolding joinedErrors_def by (intro effects)

lemma calm_stopExactServers: "emits calm (stopExactHARecoveryServerEnvelopes E config)"
  unfolding stopExactHARecoveryServerEnvelopes_def stopExactServer_def Let_def joinedErr_def
  by (intro effects emits_collectErrors calm_inspectRecovery) simp

lemma calm_stopMembers: "emits calm (forA (rev (hc_Members config)) (stopMemberIfRunning E config preflight))"
  unfolding stopMemberIfRunning_def by (intro effects) simp

lemma calm_deleteStopped: "emits calm (deleteStoppedHAMemberForRecovery E config member)"
  unfolding deleteStoppedHAMemberForRecovery_def Let_def by (intro effects calm_inspectRecovery) simp

lemma calm_journal:
  "emits calm (saveHARecoveryState E st)" "emits calm (updateHARecoveryPhase E st p n)"
  unfolding updateHARecoveryPhase_def Let_def by (intro effects emits_saveHARecoveryState; simp)+

lemma calm_refresh: "emits calm (refreshHARestoreKubeconfig E config seed)"
  unfolding refreshHARestoreKubeconfig_def by (intro effects calmI [OF quiet_readKubeconfig]) simp

lemma calm_finish: "emits calm (finishRecovery E config)"
  unfolding finishRecovery_def by (intro effects calm_refresh calmI [OF quiet_waitHAClusterReady])

lemma calm_emptyVolumes: "emits calm (recoverEmptyVolumes E config errs)"
  unfolding recoverEmptyVolumes_def by (intro effects emits_markStopped calm_stopExactServers) simp

text \<open>The operations that start, clear and reset.\<close>

lemma calm_stop_delete: "cmdArgs e = [''stop'', n] \<or> cmdArgs e = [''delete'', n] \<Longrightarrow> calm e"
  by (cases e) (auto simp: cmdArgs_def)

lemma emits_startForRecovery:
  "emits (\<lambda>e. calm e \<or> cmdArgs e = HAServerRunArguments (e_host E) config member) (startHAMemberForRecovery E config member)"
proof -
  have run: "emits (\<lambda>e. calm e \<or> cmdArgs e = HAServerRunArguments (e_host E) config member)
      (runHAServerEnvelope E config member op t)" for op t
    by (rule emits_mono [OF emits_runHAServerEnvelope])
      (use calm_quiet calm_stop_delete in \<open>auto simp: envelopeCommand_def\<close>)
  show ?thesis unfolding startHAMemberForRecovery_def Let_def
    by (intro effects emits_mono [OF calm_inspectRecovery] run) simp_all
qed

definition clearArguments :: "HAConfig \<Rightarrow> HAMember \<Rightarrow> string list" where
  "clearArguments config member =
     [''exec'', HARestoreClearContainerName (hc_Name config) (hm_ID member), ''/bin/rm'', ''-rf'', joinPath [''/data'', ''server/db'']]"

lemma emits_clearPeer:
  "emits (\<lambda>e. calm e \<or> cmdArgs e = helperRunArguments (restoreClearHelperSpec config member)
     \<or> (hm_ID member \<noteq> 1 \<and> cmdArgs e = clearArguments config member)) (clearHAPeerDataForRecovery E config member)"
  unfolding clearHAPeerDataForRecovery_def Let_def startHARecoveryHelper_def runHARecoveryCommand_def
  by (intro effects emits_mono [OF calm_inspectRecovery] emits_mono [OF calm_deleteHelper] emits_mono [OF calm_deleteStopped])
    (simp_all add: clearArguments_def restoreClearHelperSpec_def cmdArgs_def)

lemma clear_helper_run:
  assumes "cmdArgs e = helperRunArguments (restoreClearHelperSpec config member)"
  shows "\<not> resetCommand e" "\<not> serverRun E config' e" "\<not> removesData e"
  using assms by (simp_all add: helperRunArguments_def resetCommand_def serverRun_def removesData_def
      HAServerRunArguments_def Let_def list_ex_iff)

lemma clear_not_run: "cmdArgs e = clearArguments config member \<Longrightarrow> \<not> serverRun E config' e \<and> \<not> resetCommand e"
  by (simp add: clearArguments_def serverRun_def HAServerRunArguments_def Let_def list_ex_iff resetCommand_def)

lemma server_run_not:
  assumes "cmdArgs e = HAServerRunArguments H config member"
  shows "\<not> resetCommand e" "\<not> removesData e"
  using assms by (simp_all add: HAServerRunArguments_def Let_def resetCommand_def removesData_def)

lemma reset_run:
  assumes "cmdArgs e = haRestoreResetRunArguments config member spec"
  shows "resetCommand e" "\<not> serverRun E config' e" "\<not> removesData e"
  using assms by (simp_all add: haRestoreResetRunArguments_def HAServerRunArguments_def serverRun_def removesData_def
      Let_def list_ex_iff resetCommand_def)

lemma emits_resetCommand:
  "emits (\<lambda>e. calm e \<or> cmdArgs e = args) (runHARestoreResetCommandWithinContext E b op args)"
  unfolding runHARestoreResetCommandWithinContext_def Let_def by (intro effects) (simp add: cmdArgs_def)

lemma emits_resetAttempts:
  "emits (\<lambda>e. calm e \<or> cmdArgs e = haRestoreResetRunArguments config member spec) (resetAttempts E b config member spec n)"
proof (induction n)
  case (Suc n)
  show ?case unfolding resetAttempts.simps
    by (rule emits_tryA [OF emits_resetCommand])
      (auto split: resetRun.split intro!: effects emits_mono [OF calm_deleteHelper] Suc)
qed (simp only: resetAttempts.simps emits_errA)

lemma emits_runReset:
  "emits (\<lambda>e. calm e \<or> cmdArgs e = haRestoreResetRunArguments config member spec) (runHARestoreReset E b config member spec)"
  unfolding runHARestoreReset_def
  by (intro effects emits_mono [OF calm_inspectRecovery] emits_resetAttempts) simp_all

lemma ensures_resetAttempts: "ensures resetCommand (resetAttempts E True config member spec n)"
proof (cases n)
  case (Suc m)
  have first: "ensures resetCommand (runHARestoreResetCommandWithinContext E True op (haRestoreResetRunArguments config member spec))" for op
    unfolding runHARestoreResetCommandWithinContext_def Let_def
    by (auto simp: ensures_def runCmd_def act_apply emitEvent_def queryCmd_def resetCommand_def cmdArgs_def
        haRestoreResetRunArguments_def split: prod.splits option.splits)
  show ?thesis unfolding Suc resetAttempts.simps
    by (rule ensures_tryA_first [OF first])
      (auto split: resetRun.split intro!: effects emits_mono [OF calm_deleteHelper] emits_mono [OF emits_resetAttempts])
qed (simp only: resetAttempts.simps ensures_errA)

lemma ensures_runReset: "ensures resetCommand (runHARestoreReset E True config member spec)"
  unfolding runHARestoreReset_def
  by (rule ensures_tryA_second [OF emits_liftA], rule ensures_catchA_second)
    (auto split: sum.split intro: ensures_errA ensures_resetAttempts emits_mono [OF calm_inspectRecovery])

end
