(* ===== verification/RestoreOrder.thy ===== *)
theory RestoreOrder
  imports Restore
begin

text \<open>
  What a restore does in which order.  The locale \<open>restore_phases\<close> is the contract between a
  property of the effects and the sequence of \<open>restoreHAValidatedLocked\<close> with its deferred
  recovery: what holds before the reset (\<open>I0\<close>), after a completed reset (\<open>I1\<close>) and at the end
  (\<open>F\<close>), and which effects may be added to each.  It is interpreted for the order of the reset
  and the harmful commands, and for the number of reset commands.
\<close>

section \<open>Harmful effects\<close>

text \<open>
  \<open>harmful fresh\<close>: what must not happen before the reset: the removal of a database and,
  when volumes were created empty for this restore, the start of an ordinary server.
\<close>

definition harmful :: "'x env \<Rightarrow> HAConfig \<Rightarrow> bool \<Rightarrow> event \<Rightarrow> bool" where
  "harmful E config fresh e \<longleftrightarrow> removesData e \<or> (fresh \<and> serverRun E config e)"

definition freshVolumes :: "HAConfig \<Rightarrow> haRestoreProgress \<Rightarrow> bool" where
  "freshVolumes config pr \<longleftrightarrow> list_ex (\<lambda>m. hm_ID m \<in> set (hp_newVolumeMembers pr)) (hc_Members config)"

text \<open>An effect that neither resets nor harms, and one that does not reset.\<close>

definition harmless :: "'x env \<Rightarrow> HAConfig \<Rightarrow> bool \<Rightarrow> event \<Rightarrow> bool" where
  "harmless E config fresh e \<longleftrightarrow> \<not> resetCommand e \<and> \<not> harmful E config fresh e"

lemma calm_harmless: "calm e \<Longrightarrow> harmless E config fresh e"
  by (simp add: harmless_def harmful_def calm_not)

abbreviation resetFree :: "('x, 'a) op \<Rightarrow> bool" where
  "resetFree m \<equiv> emits (\<lambda>e. \<not> resetCommand e) m"

lemma free_calm: "emits calm m \<Longrightarrow> resetFree m"
  by (erule emits_mono) (simp add: calm_not)

lemma free_start: "resetFree (startHAMemberForRecovery E config member)"
  by (rule emits_mono [OF emits_startForRecovery]) (auto simp: calm_not server_run_not)

lemma free_clear: "resetFree (clearHAPeerDataForRecovery E config member)"
  by (rule emits_mono [OF emits_clearPeer]) (auto simp: calm_not clear_helper_run clear_not_run)

lemma free_waits: "resetFree (waitHAMemberReady E config member)" "resetFree (waitHAClusterReady E config)"
  by (intro free_calm calmI quiet_waitHAMemberReady quiet_waitHAClusterReady)+

lemma free_recovery: "resetFree (recoverFailedHARestore E config input pr)"
proof -
  have rejoin: "resetFree (rejoinPeer E config pr peer)" for peer
    unfolding rejoinPeer_def by (intro effects free_clear free_start free_waits)
  show ?thesis
    unfolding recoverFailedHARestore_def recoverUncertain_def recoverIntact_def recoverAfterReset_def Let_def
    by (intro effects emits_collectErrors free_calm [OF calm_deleteHelper] free_calm [OF calm_emptyVolumes] rejoin
        free_start free_waits free_calm [OF calm_finish])
qed

text \<open>The recovery before a completed reset is harmless, whichever of its three ways it goes.\<close>

lemma recovery_harmless:
  assumes "\<not> hp_resetComplete pr \<or> \<not> hp_resetAttempted pr"
  shows "emits (harmless E config (freshVolumes config pr)) (recoverFailedHARestore E config input pr)"
proof (cases "hp_resetAttempted pr \<or> freshVolumes config pr")
  case True
  then have "recoverFailedHARestore E config input pr = tryA (collectErrors (deleteHARecoveryHelper E) []
             (restoreResetHelperSpec config (seedAt0 config) input # map (restoreClearHelperSpec config) (peers config)))
      (\<lambda>errs. if hp_resetAttempted pr then recoverUncertain errs else recoverEmptyVolumes E config errs)"
    using assms by (cases "hp_resetAttempted pr") (simp_all add: recoverFailedHARestore_def freshVolumes_def)
  moreover have "emits calm \<dots>"
    unfolding recoverUncertain_def by (intro effects emits_collectErrors calm_deleteHelper calm_emptyVolumes)
  ultimately show ?thesis by (simp add: emits_mono calm_harmless)
next
  case False
  then have "recoverFailedHARestore E config input pr = tryA (collectErrors (deleteHARecoveryHelper E) []
             (restoreResetHelperSpec config (seedAt0 config) input # map (restoreClearHelperSpec config) (peers config)))
      (recoverIntact E config)"
    by (simp add: recoverFailedHARestore_def freshVolumes_def)
  moreover have "emits (\<lambda>e. \<not> removesData e) \<dots>"
    unfolding recoverIntact_def
    by (intro effects emits_collectErrors emits_mono [OF calm_deleteHelper] emits_mono [OF emits_startForRecovery]
        emits_mono [OF quiet_waitHAMemberReady] emits_mono [OF calm_finish])
      (auto simp: calm_not quiet_not_removes server_run_not)
  ultimately have "emits (\<lambda>e. \<not> removesData e) (recoverFailedHARestore E config input pr)" by simp
  then have "emits (\<lambda>e. \<not> removesData e \<and> \<not> resetCommand e) (recoverFailedHARestore E config input pr)"
    by (rule emits_conj) (rule free_recovery)
  then show ?thesis using False by (elim emits_mono) (simp add: harmless_def harmful_def)
qed

section \<open>The contract\<close>

text \<open>What a failed body leaves for the handler.\<close>

definition failedOK :: "(event list \<Rightarrow> bool) \<Rightarrow> (event list \<Rightarrow> bool) \<Rightarrow> int list \<Rightarrow> gerror + restoreOutcome \<Rightarrow> event list \<Rightarrow> bool" where
  "failedOK I1 F ids r es \<longleftrightarrow> F es \<and> (case r of
     Inr (RestoreFailed e st pr) \<Rightarrow> hp_newVolumeMembers pr = ids \<and> (hp_resetComplete pr \<longrightarrow> hp_resetAttempted pr \<and> I1 es)
   | _ \<Rightarrow> True)"

locale restore_phases =
  fixes E :: "'x env" and config :: HAConfig and provenance :: "HARecoveryVolumeProvenance option"
    and I0 :: "event list \<Rightarrow> bool" and I1 :: "event list \<Rightarrow> bool" and F :: "event list \<Rightarrow> bool"
  assumes calm0: "I0 es \<Longrightarrow> list_all calm fs \<Longrightarrow> I0 (es @ fs)"
    and free1: "I1 es \<Longrightarrow> list_all (\<lambda>e. \<not> resetCommand e) fs \<Longrightarrow> I1 (es @ fs)"
    and harmlessF: "F es \<Longrightarrow> list_all (harmless E config (freshVolumes config (initialProgress provenance))) fs \<Longrightarrow> F (es @ fs)"
    and weaken: "I0 es \<Longrightarrow> F es" "I1 es \<Longrightarrow> F es"
    and reset_step: "triple I0 (runHARestoreReset E True config seed spec) (\<lambda>r. if isOk r then I1 else F)"
begin

abbreviation outcomeOK :: "gerror + restoreOutcome \<Rightarrow> event list \<Rightarrow> bool" where
  "outcomeOK \<equiv> failedOK I1 F (hp_newVolumeMembers (initialProgress provenance))"

definition lineage :: "haRestoreProgress \<Rightarrow> bool" where
  "lineage pr \<longleftrightarrow> hp_newVolumeMembers pr = hp_newVolumeMembers (initialProgress provenance)"

lemma triple_calm: "emits calm m \<Longrightarrow> triple I0 m (\<lambda>_. I0)"
  by (rule triple_emits [where X = calm]) (auto intro: calm0)

lemma triple_free: "resetFree m \<Longrightarrow> triple I1 m (\<lambda>_. I1)"
  by (rule triple_emits [where X = "\<lambda>e. \<not> resetCommand e"]) (auto intro: free1)

lemma triple_harmless:
  "emits (harmless E config (freshVolumes config (initialProgress provenance))) m \<Longrightarrow> triple F m (\<lambda>_. F)"
  by (rule triple_emits [where X = "harmless E config (freshVolumes config (initialProgress provenance))"]) (auto intro: harmlessF)

lemma orFail_calm:
  assumes "emits calm m" "lineage pr" "\<not> hp_resetComplete pr" "\<And>x. triple I0 (f x) outcomeOK"
  shows "triple I0 (orFail st pr m f) outcomeOK"
  unfolding orFail_def
  by (rule triple_catchA [OF triple_calm [OF assms(1)]])
    (use assms(2,3) weaken in \<open>auto split: sum.split simp: failedOK_def lineage_def intro!: triple_retA assms(4)\<close>)

lemma orFail_free:
  assumes "resetFree m" "lineage pr" "hp_resetAttempted pr" "\<And>x. triple I1 (f x) outcomeOK"
  shows "triple I1 (orFail st pr m f) outcomeOK"
  unfolding orFail_def
  by (rule triple_catchA [OF triple_free [OF assms(1)]])
    (use assms(2,3) weaken in \<open>auto split: sum.split simp: failedOK_def lineage_def intro!: triple_retA assms(4)\<close>)

lemma orFail_reset:
  assumes "lineage pr" "\<not> hp_resetComplete pr" "\<And>x. triple I1 (f x) outcomeOK"
  shows "triple I0 (orFail st pr (runHARestoreReset E True config seed spec) f) outcomeOK"
  unfolding orFail_def
  by (rule triple_catchA [OF reset_step])
    (use assms(1,2) in \<open>auto split: sum.split simp: failedOK_def lineage_def intro!: triple_retA assms(3)\<close>)

lemma rejoin_phase:
  assumes "lineage pr" "hp_resetAttempted pr"
    and "\<And>pr'. lineage pr' \<Longrightarrow> hp_resetAttempted pr' \<Longrightarrow> triple I1 (rest pr') outcomeOK"
  shows "triple I1 (rejoinPeers E config st pr ps rest) outcomeOK"
  using assms(1,2)
proof (induction ps arbitrary: pr)
  case (Cons p ps)
  note [simp] = Cons.prems
  have [simp]: "lineage (pr\<lparr>hp_peerDataCleared := xs\<rparr>)" for xs using Cons.prems by (simp add: lineage_def)
  show ?case unfolding rejoinPeers.simps Let_def
    by (rule orFail_free [OF free_clear], simp, simp, rule orFail_free [OF free_start], simp, simp,
      rule orFail_free [OF free_waits(1)], simp, simp, rule Cons.IH, simp_all)
qed (simp add: assms(3))

lemma verify_phase:
  assumes [simp]: "lineage pr" "hp_resetAttempted pr"
  shows "triple I1 (verifyRestored E config st pr) outcomeOK"
proof -
  have last: "triple I1 (tryA (askExt (e_now E)) (\<lambda>now. orFail (completedJournal now st') pr
      (saveHARecoveryState E (completedJournal now st')) (\<lambda>_. retA (RestoreDone s)))) outcomeOK" for st' s
    by (rule triple_tryA [OF triple_free [OF emits_askExt]], simp add: failedOK_def weaken,
      rule orFail_free [OF free_calm [OF calm_journal(1)]], simp, simp, rule triple_retA, simp add: failedOK_def weaken)
  show ?thesis unfolding verifyRestored_def Let_def
    by (rule orFail_free [OF free_calm [OF calm_journal(2)]], simp, simp, rule orFail_free [OF free_calm [OF calm_refresh]], simp, simp,
      rule orFail_free [OF free_waits(2)], simp, simp, rule last)
qed

lemma steps_phase: "triple I0 (restoreSteps E config input preflight st0 (initialProgress provenance)) outcomeOK"
proof -
  let ?pr = "initialProgress provenance"
  have [simp]: "\<not> hp_resetComplete ?pr" by (simp add: initialProgress_def)
  have [simp]: "lineage ?pr" "lineage (?pr\<lparr>hp_mutationStarted := a\<rparr>)"
    "lineage (?pr\<lparr>hp_mutationStarted := a, hp_resetAttempted := b\<rparr>)"
    "lineage (?pr\<lparr>hp_mutationStarted := a, hp_resetAttempted := b, hp_resetComplete := c\<rparr>)" for a b c
    by (simp_all add: lineage_def)
  have after: "triple I1 (afterReset E config st pr) outcomeOK" if [simp]: "lineage pr" "hp_resetAttempted pr" for st pr
    unfolding afterReset_def Let_def
    by (rule orFail_free [OF free_calm [OF calm_journal(2)]], simp, simp, rule orFail_free [OF free_start], simp, simp,
      rule orFail_free [OF free_waits(1)], simp, simp, rule orFail_free [OF free_calm [OF calm_journal(2)]], simp, simp,
      rule rejoin_phase, simp, simp, rule verify_phase)
  show ?thesis unfolding restoreSteps_def Let_def
    by (rule orFail_calm [OF calm_journal(2)], simp, simp, rule orFail_calm [OF calm_stopMembers], simp, simp,
      rule orFail_calm [OF calm_journal(2)], simp, simp, rule orFail_calm [OF calm_deleteStopped], simp, simp,
      rule orFail_reset, simp, simp, rule after, simp_all)
qed

lemma handler_phase: "triple (outcomeOK (Inr outcome)) (restoreHandler E config input outcome) (\<lambda>_. F)"
proof (cases outcome)
  case (RestoreDone s)
  then show ?thesis unfolding restoreHandler_def by (auto simp: failedOK_def intro: triple_retA)
next
  case (RestoreFailed err st pr)
  let ?rest = "\<lambda>r. tryA (askExt (e_now E)) (\<lambda>now.
         let err1 = (case r of Inr _ \<Rightarrow> err | Inl e \<Rightarrow> Joined [err, Wrap ''automatic HA recovery attempt failed'' e]) in
         catchA (saveHARecoveryState E (failedJournal now err (isOk r) st)) (\<lambda>saved.
         errA (case saved of Inr _ \<Rightarrow> err1 | Inl e \<Rightarrow> Joined [err1, Wrap ''persist failed HA recovery state'' e])))"
  have last: "emits calm (?rest r)" for r :: "gerror + unit"
    unfolding Let_def by (intro effects calm_journal)
  have "triple (outcomeOK (Inr outcome)) (recoverFailedHARestore E config input pr) (\<lambda>_. F)"
  proof (cases "lineage pr \<and> (hp_resetComplete pr \<longrightarrow> hp_resetAttempted pr)")
    case False
    then have "\<not> outcomeOK (Inr outcome) es" for es
      by (auto simp: failedOK_def RestoreFailed lineage_def)
    then show ?thesis by (simp add: triple_def)
  next
    case True
    then have fresh: "freshVolumes config pr = freshVolumes config (initialProgress provenance)"
      by (simp add: freshVolumes_def lineage_def)
    show ?thesis
    proof (cases "hp_resetComplete pr")
      case True
      then show ?thesis
        by (intro triple_conseq [OF triple_free [OF free_recovery]])
          (auto simp: failedOK_def RestoreFailed weaken)
    next
      case False
      then have "triple F (recoverFailedHARestore E config input pr) (\<lambda>_. F)"
        using recovery_harmless [of pr E config input] unfolding fresh by (intro triple_harmless) simp
      then show ?thesis by (rule triple_conseq) (simp_all add: failedOK_def)
    qed
  qed
  then have all: "triple (outcomeOK (Inr outcome)) (catchA (recoverFailedHARestore E config input pr) ?rest) (\<lambda>_. F)"
    by (rule triple_catchA) (intro triple_harmless emits_mono [OF last] calm_harmless)
  show ?thesis
    unfolding restoreHandler_def RestoreFailed restoreOutcome.case
    by (rule triple_if, rule triple_errA, simp add: failedOK_def, rule all [unfolded RestoreFailed])
qed

lemma restore_phase:
  assumes "I0 []"
  shows "F (w_trace (snd (restoreHAValidatedLocked E config identity input staged preflight provenance (w\<lparr>w_trace := []\<rparr>))))"
proof -
  have mark: "emits calm (wrapA msg (markHAClusterRunningLocked E name))" for msg name
    by (intro effects emits_markRunning) simp
  have "triple I0 (restoreHAValidatedLocked E config identity input staged preflight provenance) (\<lambda>_. F)"
    unfolding restoreHAValidatedLocked_def Let_def tryWrapA_def
    by (rule triple_tryA [OF triple_calm [OF emits_askExt]], simp add: weaken,
      rule triple_tryA [OF triple_calm [OF calm_journal(1)]], simp add: weaken,
      rule triple_tryA [OF triple_calm [OF mark]], simp add: weaken,
      rule triple_tryA [OF triple_calm [OF emits_askExt]], simp add: weaken)
      (auto split: option.split intro!: triple_errA triple_tryA [OF steps_phase] handler_phase simp: weaken failedOK_def)
  from triple_run [OF this assms] show ?thesis .
qed

end

section \<open>Interpretations\<close>

interpretation order: restore_phases E config provenance
  "precedes resetCommand (harmful E config (freshVolumes config (initialProgress provenance)))"
  "after resetCommand (harmful E config (freshVolumes config (initialProgress provenance)))"
  "precedes resetCommand (harmful E config (freshVolumes config (initialProgress provenance)))" for E config provenance
proof (unfold_locales, goal_cases)
  case (6 seed spec)
  let ?B = "harmful E config (freshVolumes config (initialProgress provenance))"
  have "emits (\<lambda>e. \<not> ?B e) (runHARestoreReset E True config seed spec)"
    by (rule emits_mono [OF emits_runReset]) (auto simp: harmful_def calm_not reset_run)
  then show ?case by (rule order_switch [OF _ ensures_runReset])
next
  case (1 es fs)
  then show ?case by (elim precedes_append, intro precedes_none) (auto simp: list_all_iff calm_not harmful_def)
next
  case (3 es fs)
  then show ?case by (elim precedes_append, intro precedes_none) (auto simp: list_all_iff harmless_def)
qed (simp_all add: after_def precedes_append_found)

lemma atMost_resetAttempts: "atMost resetCommand n (resetAttempts E b config member spec n)"
proof (induction n)
  case (Suc n)
  have one: "atMost resetCommand 1 (runHARestoreResetCommandWithinContext E b op args)" for op args
    unfolding runHARestoreResetCommandWithinContext_def Let_def
    by (rule atMost_cases, rule atMost_none, rule effects, rule atMost_tryA [where k = 0, simplified], rule atMost_runCmd, rule atMost_none)
      (auto intro: effects split: option.split)
  have silent: "atMost resetCommand k (errA e)" "atMost resetCommand k (retA ())" "atMost resetCommand k (liftA r)" for k e r
    by (intro atMost_none effects)+
  have "atMost resetCommand (1 + n) (resetAttempts E b config member spec (Suc n))"
    unfolding resetAttempts.simps
  proof (rule atMost_tryA [OF one])
    fix res
    show "atMost resetCommand n (case res of ResetRun stdout stderr runErr \<Rightarrow>
     catchA (deleteHARecoveryHelper E spec) (\<lambda>rc.
     case haRuntimeIPCollisionFromOutput stderr config member of
       None \<Rightarrow> (case runErr of
           Some e \<Rightarrow> (case errorsJoin [Some (withHARestoreResetStdoutDiagnostic e stdout), errOf rc] of
               Some j \<Rightarrow> errA j | None \<Rightarrow> retA ())
         | None \<Rightarrow> liftA rc)
     | Some _ \<Rightarrow> (case rc of
           Inl c \<Rightarrow> errA (Joined [Msg ''reset K3s embedded-etcd member 1 encountered a reserved runtime IPv4 collision'', c])
         | Inr _ \<Rightarrow> resetAttempts E b config member spec n)))"
      by (cases res, simp only: resetRun.case, rule atMost_before_catchA, rule free_calm, rule calm_deleteHelper)
        (intro atMost_cases silent Suc)
  qed
  then show ?case by simp
qed (simp only: resetAttempts.simps, intro atMost_none effects)

lemma atMost_runReset: "atMost resetCommand 3 (runHARestoreReset E b config member spec)"
  unfolding runHARestoreReset_def
  using atMost_resetAttempts [of 3 E b config member spec]
  by (intro atMost_before_catchA [OF emits_mono [OF calm_inspectRecovery]] atMost_tryA [OF atMost_none, where j = 0, simplified] emits_liftA)
    (auto split: sum.split intro!: atMost_none effects simp: calm_not)

interpretation count: restore_phases E config provenance
  "\<lambda>es. filter resetCommand es = []" "\<lambda>es. length (filter resetCommand es) \<le> 3"
  "\<lambda>es. length (filter resetCommand es) \<le> 3" for E config provenance
proof (unfold_locales, goal_cases)
  case (6 seed spec)
  from atMost_runReset [of E True config seed spec] show ?case
    unfolding atMost_def triple_def by fastforce
qed (auto simp: list_all_iff calm_not harmless_def filter_empty_conv)

section \<open>What success means\<close>

text \<open>A successful body ends with the completed journal, written when all members were Ready.\<close>

definition wroteCompleted :: "'x env \<Rightarrow> HAConfig \<Rightarrow> event list \<Rightarrow> bool" where
  "wroteCompleted E config es \<longleftrightarrow> (\<exists>path st now. es \<noteq> [] \<and> last es = Wrote path (encodeJournal (truncateMessage (completedJournal now st)))
     \<and> HARecoveryStatePath (e_host E) (rs_Cluster st) = Inr path)"

lemma wroteCompletedI:
  "es \<noteq> [] \<Longrightarrow> last es = Wrote path (encodeJournal (truncateMessage (completedJournal now st))) \<Longrightarrow>
   HARecoveryStatePath (e_host E) (rs_Cluster st) = Inr path \<Longrightarrow> wroteCompleted E config es"
  unfolding wroteCompleted_def by blast

definition doneOK :: "'x env \<Rightarrow> HAConfig \<Rightarrow> gerror + restoreOutcome \<Rightarrow> event list \<Rightarrow> bool" where
  "doneOK E config r es \<longleftrightarrow> (case r of Inr (RestoreDone s) \<Rightarrow> allHAMembersReady s \<and> wroteCompleted E config es | _ \<Rightarrow> True)"

lemma journal_simps [simp]:
  "rs_Cluster (completedJournal now st) = rs_Cluster st"
  "rs_Cluster (initialJournal now config identity input provenance) = hc_Name config"
  "truncateMessage (initialJournal now config identity input provenance) = initialJournal now config identity input provenance"
  by (simp_all add: completedJournal_def initialJournal_def truncateMessage_def)

lemma triple_any: "emits P m \<Longrightarrow> triple (\<lambda>_. True) m (\<lambda>_ _. True)"
  by (rule triple_emits [where P = "\<lambda>_. True"]) simp_all

lemma triple_grows: "triple (\<lambda>_. True) m Q \<Longrightarrow> grows m"
  unfolding triple_def grows_def by blast

lemma orFail_any:
  assumes "emits P m" "\<And>x. triple (\<lambda>_. True) (f x) (doneOK E config)"
  shows "triple (\<lambda>_. True) (orFail st pr m f) (doneOK E config)"
  unfolding orFail_def
  by (rule triple_catchA [OF triple_any [OF assms(1)]]) (auto split: sum.split intro!: triple_retA assms(2) simp: doneOK_def)

lemma save_step:
  "triple (\<lambda>_. True) (saveHARecoveryState E st) (\<lambda>r es. case r of Inl _ \<Rightarrow> True
     | Inr _ \<Rightarrow> \<exists>path. es \<noteq> [] \<and> last es = Wrote path (encodeJournal (truncateMessage st)) \<and> HARecoveryStatePath (e_host E) (rs_Cluster st) = Inr path)"
proof (rule tripleI)
  fix w es
  obtain r w' where s: "saveHARecoveryState E st w = (r, w')" by fastforce
  from saveHARecoveryState_cases [OF s]
  show "\<exists>fs. w_trace (snd (saveHARecoveryState E st w)) = w_trace w @ fs \<and> (case fst (saveHARecoveryState E st w) of Inl _ \<Rightarrow> True
     | Inr _ \<Rightarrow> \<exists>path. es @ fs \<noteq> [] \<and> last (es @ fs) = Wrote path (encodeJournal (truncateMessage st)) \<and> HARecoveryStatePath (e_host E) (rs_Cluster st) = Inr path)"
  proof
    assume "\<not> isOk r \<and> w' = w"
    then show ?thesis by (cases r) (simp_all add: s)
  next
    assume "\<exists>path. HARecoveryStatePath (e_host E) (rs_Cluster st) = Inr path
         \<and> w' = placed E path (encodeJournal (truncateMessage st)) w"
    then show ?thesis by (cases r) (auto simp: s)
  qed
qed

lemma verify_done: "triple (\<lambda>_. True) (verifyRestored E config st0 pr) (doneOK E config)"
proof -
  have last: "triple (\<lambda>_. True) (tryA (askExt (e_now E)) (\<lambda>now. orFail (completedJournal now st) pr
      (saveHARecoveryState E (completedJournal now st)) (\<lambda>_. retA (RestoreDone (s\<lparr>st_Kubeconfig := k\<rparr>))))) (doneOK E config)"
    if "allHAMembersReady s" for st s k
    unfolding orFail_def using that
    by (intro triple_tryA [OF triple_any [OF emits_askExt]] triple_catchA [OF save_step])
      (auto simp: doneOK_def allHAMembersReady_def split: sum.split intro!: triple_retA elim!: wroteCompletedI)
  have wait: "triple (\<lambda>_. True) (orFail st pr (waitHAClusterReady E config) (\<lambda>s. tryA (askExt (e_now E)) (\<lambda>now.
      orFail (completedJournal now st) pr (saveHARecoveryState E (completedJournal now st))
        (\<lambda>_. retA (RestoreDone (s\<lparr>st_Kubeconfig := k\<rparr>)))))) (doneOK E config)" for st k
    unfolding orFail_def [of st pr "waitHAClusterReady E config"]
  proof (rule triple_catchA [OF triple_yields [OF triple_any [OF quiet_waitHAClusterReady] yields_waitHAClusterReady]])
    fix r :: "gerror + HAState"
    show "triple (\<lambda>es. True \<and> (case r of Inl _ \<Rightarrow> True | Inr x \<Rightarrow> allHAMembersReady x))
       (case r of Inl e \<Rightarrow> retA (RestoreFailed e st pr) | Inr s \<Rightarrow> tryA (askExt (e_now E)) (\<lambda>now.
      orFail (completedJournal now st) pr (saveHARecoveryState E (completedJournal now st))
        (\<lambda>_. retA (RestoreDone (s\<lparr>st_Kubeconfig := k\<rparr>))))) (doneOK E config)"
      using last by (cases r) (auto simp: doneOK_def triple_def)
  qed
  show ?thesis unfolding verifyRestored_def Let_def
    by (rule orFail_any [OF calm_journal(2)], rule orFail_any [OF calm_refresh], rule wait)
qed

lemma rejoin_done:
  "(\<And>pr'. triple (\<lambda>_. True) (rest pr') (doneOK E config)) \<Longrightarrow> triple (\<lambda>_. True) (rejoinPeers E config st pr ps rest) (doneOK E config)"
  by (induction ps arbitrary: pr)
    (simp_all add: Let_def orFail_any [OF free_clear] orFail_any [OF free_start] orFail_any [OF free_waits(1)])

lemma steps_done: "triple (\<lambda>_. True) (restoreSteps E config input preflight st pr) (doneOK E config)"
  unfolding restoreSteps_def afterReset_def Let_def
  by (rule orFail_any, rule calm_journal calm_stopMembers calm_deleteStopped emits_runReset free_start free_waits)+
    (rule rejoin_done, rule verify_done)

lemma handler_done:
  "triple (doneOK E config (Inr outcome)) (restoreHandler E config input outcome)
     (\<lambda>r es. case r of Inl _ \<Rightarrow> True | Inr s \<Rightarrow> allHAMembersReady s \<and> wroteCompleted E config es)"
proof (cases outcome)
  case (RestoreFailed err st pr)
  have e: "triple (\<lambda>_. True) (errA e) (\<lambda>r es. case r of Inl _ \<Rightarrow> True | Inr s \<Rightarrow> allHAMembersReady s \<and> wroteCompleted E config es)" for e
    by (rule triple_errA) simp
  have "triple (\<lambda>_. True) (restoreHandler E config input outcome)
     (\<lambda>r es. case r of Inl _ \<Rightarrow> True | Inr s \<Rightarrow> allHAMembersReady s \<and> wroteCompleted E config es)"
    unfolding restoreHandler_def RestoreFailed restoreOutcome.case Let_def
    by (intro triple_if e triple_catchA [OF triple_any [OF free_recovery]] triple_tryA [OF triple_any [OF emits_askExt]]
        triple_catchA [OF triple_any [OF calm_journal(1)]]) simp
  then show ?thesis by (rule triple_conseq) simp_all
qed (auto simp: restoreHandler_def doneOK_def intro!: triple_retA)

lemma restore_done:
  "triple (\<lambda>_. True) (restoreHAValidatedLocked E config identity input staged preflight provenance)
     (\<lambda>r es. case r of Inl _ \<Rightarrow> True | Inr s \<Rightarrow> allHAMembersReady s \<and> wroteCompleted E config es)"
proof -
  have mark: "emits calm (wrapA msg (markHAClusterRunningLocked E name))" for msg name
    by (intro effects emits_markRunning) simp
  show ?thesis
    unfolding restoreHAValidatedLocked_def Let_def tryWrapA_def
    by (intro triple_tryA [OF triple_any [OF emits_askExt]] triple_tryA [OF triple_any [OF calm_journal(1)]]
        triple_tryA [OF triple_any [OF mark]])
      (auto split: option.split intro!: triple_errA triple_tryA [OF steps_done] handler_done)
qed

lemma yields_restoreValidated:
  "yields allHAMembersReady (restoreHAValidatedLocked E config identity input staged preflight provenance)"
proof (rule yieldsI)
  fix w s w' assume "restoreHAValidatedLocked E config identity input staged preflight provenance w = (Inr s, w')"
  then show "allHAMembersReady s"
    using restore_done [unfolded triple_def, rule_format, OF TrueI, of E config identity input staged preflight provenance w] by auto
qed

text \<open>Every effect of a restore is calm, a server started, a clearing of a peer or a reset.\<close>

lemma emits_restoreValidated:
  assumes calm: "\<And>e. calm e \<Longrightarrow> P e"
    and server: "\<And>e member. cmdArgs e = HAServerRunArguments (e_host E) config member \<Longrightarrow> P e"
    and helper: "\<And>e member. cmdArgs e = helperRunArguments (restoreClearHelperSpec config member) \<Longrightarrow> P e"
    and removal: "\<And>e member. hm_ID member \<noteq> 1 \<Longrightarrow> cmdArgs e = clearArguments config member \<Longrightarrow> P e"
    and reset: "\<And>e member spec. cmdArgs e = haRestoreResetRunArguments config member spec \<Longrightarrow> P e"
  shows "emits P (restoreHAValidatedLocked E config identity input staged preflight provenance)"
proof -
  have q: "emits P m" if "emits calm m" for m :: "('a, 'c) op"
    using that by (rule emits_mono) (rule calm)
  have start: "emits P (startHAMemberForRecovery E config member)" for member
    by (rule emits_mono [OF emits_startForRecovery]) (auto intro: calm server)
  have clear: "emits P (clearHAPeerDataForRecovery E config member)" for member
    by (rule emits_mono [OF emits_clearPeer]) (auto intro: calm helper removal)
  have resetting: "emits P (runHARestoreReset E True config seed spec)" for seed spec
    by (rule emits_mono [OF emits_runReset]) (auto intro: calm reset)
  note parts = start clear resetting q [OF calm_deleteHelper] q [OF calm_emptyVolumes] q [OF calm_finish] q [OF calm_journal(1)]
    q [OF calm_journal(2)] q [OF calm_stopMembers] q [OF calm_deleteStopped] q [OF calm_refresh]
    q [OF calmI [OF quiet_waitHAMemberReady]] q [OF calmI [OF quiet_waitHAClusterReady]]
  have recovery: "emits P (recoverFailedHARestore E config staged pr)" for pr
    unfolding recoverFailedHARestore_def recoverUncertain_def recoverIntact_def recoverAfterReset_def rejoinPeer_def Let_def
    by (intro effects emits_collectErrors parts)
  have handler: "emits P (restoreHandler E config staged outcome)" for outcome
    unfolding restoreHandler_def Let_def
    by (cases outcome) (simp_all only: restoreOutcome.case, (intro effects recovery parts)+)
  have verify: "emits P (verifyRestored E config st pr)" for st pr
    unfolding verifyRestored_def orFail_def Let_def by (intro effects parts)
  have rejoin: "emits P (rejoinPeers E config st pr ps (verifyRestored E config st'))" for st st' pr ps
    by (induction ps arbitrary: pr) (simp_all only: rejoinPeers.simps orFail_def Let_def, (intro effects parts verify; assumption?)+)
  have steps: "emits P (restoreSteps E config staged preflight st pr)" for st pr
    unfolding restoreSteps_def afterReset_def orFail_def Let_def by (intro effects parts rejoin)
  show ?thesis
    unfolding restoreHAValidatedLocked_def Let_def
    by (intro effects parts emits_markRunning steps handler) (rule calm, simp)
qed

section \<open>Properties\<close>

text \<open>
  Before it changes the runtime, a restore has a journal in phase \<open>validated\<close> on disk,
  with the identity of the cluster, the snapshot and the provenance of the volumes.
\<close>

lemma restore_journal_first:
  "precedes (\<lambda>e. \<exists>path now. HARecoveryStatePath (e_host E) (hc_Name config) = Inr path
       \<and> e = Wrote path (encodeJournal (initialJournal now config identity input provenance))) mutates
     (w_trace (snd (restoreHAValidatedLocked E config identity input staged preflight provenance (w\<lparr>w_trace := []\<rparr>))))"
proof (rule guarded_run)
  let ?P = "\<lambda>e. \<exists>path now. HARecoveryStatePath (e_host E) (hc_Name config) = Inr path
       \<and> e = Wrote path (encodeJournal (initialJournal now config identity input provenance))"
  have saved: "ensures ?P (saveHARecoveryState E (initialJournal now config identity input provenance))" for now
    unfolding ensures_def
  proof
    fix w
    let ?st = "initialJournal now config identity input provenance"
    obtain r w' where s: "saveHARecoveryState E ?st w = (r, w')" by fastforce
    from saveHARecoveryState_cases [OF s]
    show "\<exists>es. w_trace (snd (saveHARecoveryState E ?st w)) = w_trace w @ es \<and> (isOk (fst (saveHARecoveryState E ?st w)) \<longrightarrow> list_ex ?P es)"
      by (auto simp: s)
  qed
  have steps: "grows (restoreSteps E config staged preflight st pr)" for st pr
    by (rule triple_grows [OF steps_done])
  have handler: "emits (\<lambda>_. True) (restoreHandler E config staged outcome)" for outcome
    unfolding restoreHandler_def Let_def
    by (auto split: restoreOutcome.split intro!: effects emits_mono [OF free_recovery] emits_mono [OF calm_journal(1)])
  show "guarded ?P mutates (restoreHAValidatedLocked E config identity input staged preflight provenance)"
    unfolding restoreHAValidatedLocked_def Let_def
    by (rule guarded_tryA [OF guarded_emits [OF emits_askExt]], rule guarded_after_grows [OF _ saved])
      (intro growing steps emits_grows [OF handler] emits_grows [OF emits_errA] emits_grows [OF emits_askExt]
        emits_grows [OF emits_markRunning] emits_saveHARecoveryState; simp)+
qed

text \<open>
  No database is removed before a reset command, and when this restore had to create
  empty volumes, no ordinary server is started before it either: neither by the sequence nor
  by the automatic recovery of a failed one.
\<close>

lemma restore_reset_first:
  "precedes resetCommand (harmful E config (freshVolumes config (initialProgress provenance)))
     (w_trace (snd (restoreHAValidatedLocked E config identity input staged preflight provenance (w\<lparr>w_trace := []\<rparr>))))"
  by (rule order.restore_phase) simp

text \<open>
  One restore issues at most three reset commands, however often the runtime gives the
  helper a reserved address and whether or not the recovery runs.
\<close>

lemma restore_reset_bounded:
  "length (filter resetCommand
     (w_trace (snd (restoreHAValidatedLocked E config identity input staged preflight provenance (w\<lparr>w_trace := []\<rparr>))))) \<le> 3"
  by (rule count.restore_phase) simp

text \<open>
  A restore that succeeds returns a status with all three members Ready, and the last
  thing it has done is to write the completed journal.
\<close>

lemma restore_success:
  "case restoreHAValidatedLocked E config identity input staged preflight provenance (w\<lparr>w_trace := []\<rparr>) of
     (Inl _, w') \<Rightarrow> True
   | (Inr state, w') \<Rightarrow> allHAMembersReady state \<and> wroteCompleted E config (w_trace w')"
  using triple_run [OF restore_done, of E config identity input staged preflight provenance w]
  by (auto split: prod.splits sum.splits)

text \<open>
  Every removal of a database that a restore may issue is that of a member other than the
  seed, in the helper that mounts this member's volume.
\<close>

lemma restore_clears_peers_only:
  "list_all (\<lambda>e. \<exists>m. hm_ID m \<noteq> 1 \<and> cmdArgs e = clearArguments config m) (filter removesData
     (w_trace (snd (restoreHAValidatedLocked E config identity input staged preflight provenance (w\<lparr>w_trace := []\<rparr>)))))"
proof -
  have "emits (\<lambda>e. removesData e \<longrightarrow> (\<exists>m. hm_ID m \<noteq> 1 \<and> cmdArgs e = clearArguments config m))
     (restoreHAValidatedLocked E config identity input staged preflight provenance)"
    by (rule emits_restoreValidated) (auto simp: calm_not server_run_not clear_helper_run reset_run)
  from emits_run [OF this, of w] show ?thesis by (auto simp: list_all_iff)
qed

text \<open>
  When the outcome of the reset is uncertain, or the volumes are new and empty and the reset
  has not been tried, the automatic recovery fails and starts nothing: it only reads, stops
  and deletes containers.
\<close>

lemma recovery_refuses:
  "let run = recoverFailedHARestore E config staged pr (w\<lparr>w_trace := []\<rparr>) in
   if (hp_resetAttempted pr \<and> \<not> hp_resetComplete pr) \<or> (\<not> hp_resetAttempted pr \<and> freshVolumes config pr)
   then \<not> isOk (fst run) \<and> list_all calm (w_trace (snd run)) else True"
proof -
  have joined: "errs \<noteq> [] \<Longrightarrow> fst (joinedErrors errs w') \<noteq> Inr ()" for errs w'
    by (cases errs) (simp_all add: joinedErrors_def errorsJoin_def List.map_filter_simps)
  have fails: "yields (\<lambda>_. False) (recoverUncertain errs)" "yields (\<lambda>_. False) (recoverEmptyVolumes E config errs)" for errs
    unfolding recoverUncertain_def recoverEmptyVolumes_def
    by (auto simp: yields_def catchA_apply joined split: prod.splits)
  let ?clean = "collectErrors (deleteHARecoveryHelper E) []
             (restoreResetHelperSpec config (seedAt0 config) staged # map (restoreClearHelperSpec config) (peers config))"
  show ?thesis
  proof (cases "(hp_resetAttempted pr \<and> \<not> hp_resetComplete pr) \<or> (\<not> hp_resetAttempted pr \<and> freshVolumes config pr)")
    case True
    then have eq: "recoverFailedHARestore E config staged pr = tryA ?clean
        (\<lambda>errs. if hp_resetAttempted pr then recoverUncertain errs else recoverEmptyVolumes E config errs)"
      by (cases "hp_resetAttempted pr") (simp_all add: recoverFailedHARestore_def freshVolumes_def)
    have "emits calm (recoverFailedHARestore E config staged pr)"
      unfolding eq recoverUncertain_def by (intro effects emits_collectErrors calm_deleteHelper calm_emptyVolumes)
    moreover have "yields (\<lambda>_. False) (recoverFailedHARestore E config staged pr)"
      unfolding eq by (intro results fails)
    ultimately show ?thesis
      by (auto simp: Let_def yields_def isOk_def emits_run split: sum.splits)
  qed (auto simp: Let_def)
qed

text \<open>
  The journal of a failure after the completed journal could not be saved: \<open>CompletedAt\<close> has been
  set and is not reset by the handler, so the validation of the next load rejects the file.
\<close>

lemma failed_after_completed_rejected:
  assumes "now \<noteq> 0"
  shows "\<not> isOk (validateHARecoveryState t (failedJournal later err recovered (completedJournal now st)))"
  using assms by (auto simp: validateHARecoveryState_def failedJournal_def completedJournal_def Let_def isOk_def tryS_def
      split: sum.splits)

end
