(* ===== verification/Staging.thy ===== *)
theory Staging
  imports Package RestoreOrder
begin

text \<open>
  The protected copy of a package that a restore works from (\<open>ha_recovery.go\<close> lines 1701 to 1951):
  a private directory beside the configuration of the cluster, filled by exclusive copies that
  check size and digest again.  Directories are answers of the environment (\<open>e_dirInfo\<close>,
  \<open>e_dirOp\<close>); the files in them are files of the model.  A file whose copy breaks off is
  represented as an empty one, a failed \<open>os.RemoveAll\<close> as one that removed nothing.
\<close>

section \<open>Directories\<close>

definition dirInfo :: "'x env \<Rightarrow> string \<Rightarrow> ('x, fileInfo) op" where
  "dirInfo E path = tryA (askExt (\<lambda>x. e_dirInfo E x path)) liftA"

definition dirOp :: "'x env \<Rightarrow> string \<Rightarrow> string \<Rightarrow> ('x, unit) op" where
  "dirOp E action path = tryA (queryExt (\<lambda>x. e_dirOp E x action path)) (\<lambda>r. case r of None \<Rightarrow> retA () | Some e \<Rightarrow> errA e)"

definition privateDirectory :: "'x env \<Rightarrow> fileInfo \<Rightarrow> bool" where
  "privateDirectory E info \<longleftrightarrow> \<not> fi_symlink info \<and> fi_dir info \<and> \<not> groupOrOther info \<and> fi_uid info = e_euid E"

definition insideDirectory :: "string \<Rightarrow> string \<Rightarrow> bool" where
  "insideDirectory directory path \<longleftrightarrow> path = directory \<or> hasPrefix path (directory @ ''/'')"

definition removeTree :: "'x env \<Rightarrow> string \<Rightarrow> ('x, unit) op" where
  "removeTree E path = tryA (dirOp E ''removeAll'' path) (\<lambda>_.
     updA (\<lambda>w. w\<lparr>w_fs := (\<lambda>q. if insideDirectory path q then None else w_fs w q), w_trace := w_trace w @ [Removed path]\<rparr>))"

definition removeHAStagingDirectory :: "'x env \<Rightarrow> string \<Rightarrow> ('x, unit) op" where
  "removeHAStagingDirectory E path = catchA (dirInfo E path) (\<lambda>r. case r of
     Inl e \<Rightarrow> if errorsIs e ErrNotExist then retA () else errA (Wrap ''inspect protected HA restore staging directory'' e)
   | Inr info \<Rightarrow>
       if \<not> privateDirectory E info
       then errA (Msg ''HA restore staging path must be a private real directory owned by the current user'')
       else tryWrapA ''remove protected HA restore staging directory'' (removeTree E path) (\<lambda>_.
         wrapA ''durably remove protected HA restore staging directory'' (dirOp E ''sync'' (dirPath path))))"

section \<open>Copying one artifact\<close>

definition placeStaged :: "'x env \<Rightarrow> string \<Rightarrow> int \<Rightarrow> document \<Rightarrow> ('x, unit) op" where
  "placeStaged E path mode doc = updA (\<lambda>w. w\<lparr>w_fs := (w_fs w)(path \<mapsto>
       \<lparr>fn_info = (privateInfo E (w_inode w) doc)\<lparr>fi_perm := mode\<rparr>, fn_doc = doc\<rparr>),
     w_inode := w_inode w + 1, w_trace := w_trace w @ [Wrote path doc]\<rparr>)"

text \<open>A system call on an open file that may fail.\<close>

definition fileCall :: "'x env \<Rightarrow> string \<Rightarrow> string \<Rightarrow> string \<Rightarrow> ('x, unit) op" where
  "fileCall E call path msg = tryA (askExt (\<lambda>x. e_fileFault E x call path)) (\<lambda>f. case f of
     None \<Rightarrow> retA () | Some e \<Rightarrow> errA (Wrap msg e))"

definition createExclusive :: "'x env \<Rightarrow> string \<Rightarrow> int \<Rightarrow> ('x, unit) op" where
  "createExclusive E path mode = tryA (fileCall E ''create'' path ''create staged HA snapshot artifact'') (\<lambda>_.
     tryA (getA (\<lambda>w. w_fs w path)) (\<lambda>n. case n of
       Some _ \<Rightarrow> errA (Msg ''create staged HA snapshot artifact: file exists'')
     | None \<Rightarrow> placeStaged E path mode (Text [])))"

text \<open>\<open>copied\<close> is what the read loop has seen; it never writes more than the expected size.\<close>

definition checkCopied :: "'x env \<Rightarrow> HASnapshotFileMetadata \<Rightarrow> fileInfo \<Rightarrow> fileObs \<Rightarrow> document \<times> int \<Rightarrow> gerror + unit" where
  "checkCopied E expected sourceInfo ob copied =
     (if snd copied \<noteq> fm_Size expected \<or> e_sha256 E (fst copied) \<noteq> toLower (fm_SHA256 expected)
      then Inl (Msg ''HA snapshot artifact changed after validation'')
      else wrapS ''stage HA snapshot artifact'' (reinspectHAArtifact sourceInfo ob))"

definition finishCopy :: "'x env \<Rightarrow> string \<Rightarrow> HASnapshotFileMetadata \<Rightarrow> int \<Rightarrow> ('x, unit) op" where
  "finishCopy E target expected mode =
     tryA (fileCall E ''sync'' target ''flush staged HA snapshot artifact'') (\<lambda>_.
     tryA (fileCall E ''close'' target ''close staged HA snapshot artifact'') (\<lambda>_.
     tryWrapA ''inspect staged HA snapshot artifact'' (statFile E target) (\<lambda>info.
     if \<not> fi_regular info \<or> fi_perm info \<noteq> mode \<or> fi_size info \<noteq> fm_Size expected
     then errA (Msg ''staged HA snapshot artifact failed final mode or size validation'') else retA ())))"

definition copyContents :: "'x env \<Rightarrow> string \<Rightarrow> HASnapshotFileMetadata \<Rightarrow> int \<Rightarrow> fileInfo \<Rightarrow> fileObs \<Rightarrow> ('x, unit) op" where
  "copyContents E target expected mode sourceInfo ob =
     tryWrapA ''read HA snapshot artifact for staging'' (liftA (ob_read ob)) (\<lambda>(data, n).
     if fm_Size expected < n then errA (Msg ''HA snapshot artifact changed size after validation'')
     else tryA (fileCall E ''write'' target ''write staged HA snapshot artifact'') (\<lambda>_.
       tryA (placeStaged E target mode data) (\<lambda>_.
       tryA (liftA (checkCopied E expected sourceInfo ob (data, n))) (\<lambda>_.
       finishCopy E target expected mode))))"

definition copyArtifactBody :: "'x env \<Rightarrow> string \<Rightarrow> HASnapshotFileMetadata \<Rightarrow> int \<Rightarrow> fileInfo \<Rightarrow> fileObs \<Rightarrow> ('x, unit) op" where
  "copyArtifactBody E target expected mode sourceInfo ob =
     (if fi_size sourceInfo \<noteq> fm_Size expected then errA (Msg ''HA snapshot artifact changed size after validation'')
      else tryA (createExclusive E target mode) (\<lambda>_.
        tryA (fileCall E ''chmod'' target ''protect staged HA snapshot artifact'') (\<lambda>_.
        tryA (askExt (e_ctxErr E)) (\<lambda>c. case c of
          Some e \<Rightarrow> errA (Wrap ''stage HA snapshot artifact'' e)
        | None \<Rightarrow> copyContents E target expected mode sourceInfo ob))))"

definition copyHAStagedArtifact :: "'x env \<Rightarrow> string \<Rightarrow> string \<Rightarrow> HASnapshotFileMetadata \<Rightarrow> fileInfo option \<Rightarrow> int \<Rightarrow> ('x, unit) op" where
  "copyHAStagedArtifact E sourcePath destination expected identity mode =
     tryA (askExt (e_ctxErr E)) (\<lambda>c. case c of Some e \<Rightarrow> errA (Wrap ''stage HA snapshot artifact'' e) | None \<Rightarrow>
     if fm_Name expected = [] \<or> basePath (fm_Name expected) \<noteq> fm_Name expected \<or> fm_Size expected < 0
        \<or> \<not> validSHA256 (toLower (fm_SHA256 expected)) \<or> identity = None
     then errA (Msg ''validated HA snapshot artifact metadata is incomplete'')
     else tryA (getA (observeFile E sourcePath)) (\<lambda>ob.
       tryWrapA ''stage HA snapshot artifact'' (liftA (openHAArtifactNoFollow identity ob)) (\<lambda>sourceInfo.
       catchA (copyArtifactBody E (joinPath [destination, fm_Name expected]) expected mode sourceInfo ob) (\<lambda>r.
       liftA (joinClose (ob_close ob) r)))))"

section \<open>Staging the package\<close>

definition haRestoreStagingPath :: "hostEnv \<Rightarrow> HAConfig \<Rightarrow> gerror + string" where
  "haRestoreStagingPath H config = tryS (HAConfigPath H (hc_Name config)) (\<lambda>configPath.
     let path = joinPath [dirPath configPath, ''.ha-restore-stage''] in
     if \<not> isAbsPath path \<or> basePath path \<noteq> ''.ha-restore-stage'' then Inl (Msg ''derive protected HA restore staging path'')
     else Inr path)"

definition packageFiles :: "haSnapshotPackage \<Rightarrow> (HASnapshotFileMetadata \<times> fileInfo option \<times> int) list" where
  "packageFiles snapshot =
     [(\<lparr>fm_Name = haSnapshotManifestFilename, fm_Size = (case sp_manifestInfo snapshot of Some i \<Rightarrow> fi_size i | None \<Rightarrow> 0),
        fm_SHA256 = sp_ManifestSHA256 snapshot\<rparr>, sp_manifestInfo snapshot, 256),
      (mf_Snapshot (sp_Manifest snapshot), sp_snapshotInfo snapshot, 384),
      (mf_ServerToken (sp_Manifest snapshot), sp_tokenInfo snapshot, 384)]"

definition reinspectHAStagingDirectory :: "'x env \<Rightarrow> string \<Rightarrow> fileInfo \<Rightarrow> ('x, unit) op" where
  "reinspectHAStagingDirectory E path opened =
     tryWrapA ''reinspect protected HA restore staging directory'' (dirInfo E path) (\<lambda>info.
     if fi_symlink info \<or> \<not> fi_dir info \<or> fi_perm info \<noteq> 448 \<or> fi_inode opened \<noteq> fi_inode info \<or> fi_uid info \<noteq> e_euid E
     then errA (Msg ''HA restore staging directory changed while the package was being copied'') else retA ())"

text \<open>\<open>defer\<close> of a close whose error is joined to the result.\<close>

definition deferJoin :: "('x, unit) op \<Rightarrow> ('x, 'a) op \<Rightarrow> ('x, 'a) op" where
  "deferJoin cleanup m = catchA m (\<lambda>r. catchA cleanup (\<lambda>c. liftA (joinClose (errOf c) r)))"

definition fillStagingRoot :: "'x env \<Rightarrow> haSnapshotPackage \<Rightarrow> string \<Rightarrow> fileInfo \<Rightarrow> ('x, unit) op" where
  "fillStagingRoot E snapshot destination directoryInfo =
     tryWrapA ''inspect protected HA restore staging root'' (dirInfo E destination) (\<lambda>rootInfo.
     if fi_inode directoryInfo \<noteq> fi_inode rootInfo
     then errA (Msg ''HA restore staging directory changed while its root was being opened'')
     else tryA (forA (packageFiles snapshot) (\<lambda>(metadata, identity, mode).
            copyHAStagedArtifact E (joinPath [sp_Path snapshot, fm_Name metadata]) destination metadata identity mode)) (\<lambda>_.
       tryWrapA ''flush protected HA restore staging package'' (dirOp E ''sync'' destination) (\<lambda>_.
       tryA (reinspectHAStagingDirectory E destination directoryInfo) (\<lambda>_.
       wrapA ''durably publish protected HA restore staging package'' (dirOp E ''sync'' (dirPath destination))))))"

definition fillStaging :: "'x env \<Rightarrow> haSnapshotPackage \<Rightarrow> string \<Rightarrow> ('x, unit) op" where
  "fillStaging E snapshot destination =
     tryWrapA ''protect HA restore staging directory'' (dirOp E ''chmod'' destination) (\<lambda>_.
     tryWrapA ''open protected HA restore staging directory without following links'' (dirOp E ''open'' destination) (\<lambda>_.
     deferJoin (dirOp E ''close'' destination)
     (tryWrapA ''inspect opened HA restore staging directory'' (dirInfo E destination) (\<lambda>directoryInfo.
      tryWrapA ''inspect HA restore staging directory path'' (dirInfo E destination) (\<lambda>pathInfo.
      if \<not> fi_dir directoryInfo \<or> fi_perm directoryInfo \<noteq> 448 \<or> fi_inode directoryInfo \<noteq> fi_inode pathInfo
         \<or> fi_uid directoryInfo \<noteq> e_euid E
      then errA (Msg ''HA restore staging directory changed while it was being opened'')
      else tryWrapA ''open protected HA restore staging root'' (dirOp E ''openRoot'' destination) (\<lambda>_.
        deferJoin (dirOp E ''closeRoot'' destination) (fillStagingRoot E snapshot destination directoryInfo)))))))"

definition stageHASnapshotPackage :: "'x env \<Rightarrow> haSnapshotPackage \<Rightarrow> string \<Rightarrow> ('x, unit) op" where
  "stageHASnapshotPackage E snapshot destination =
     (if sp_manifestInfo snapshot = None \<or> sp_snapshotInfo snapshot = None \<or> sp_tokenInfo snapshot = None
      then errA (Msg ''validated HA snapshot is missing source file identities'')
      else catchA (dirInfo E destination) (\<lambda>r. case r of
        Inr _ \<Rightarrow> errA (Msg ''protected HA restore staging directory already exists'')
      | Inl e \<Rightarrow> if \<not> errorsIs e ErrNotExist then errA (Wrap ''inspect HA restore staging destination'' e)
          else tryWrapA ''inspect HA restore staging parent'' (dirInfo E (dirPath destination)) (\<lambda>parentInfo.
            if \<not> privateDirectory E parentInfo
            then errA (Msg ''HA restore staging parent must be a private real directory owned by the current user'')
            else tryWrapA ''create protected HA restore staging directory'' (dirOp E ''mkdir'' destination) (\<lambda>_.
              catchA (fillStaging E snapshot destination) (\<lambda>filled. case filled of
                Inr _ \<Rightarrow> retA ()
              | Inl err \<Rightarrow> catchA (removeHAStagingDirectory E destination) (\<lambda>rd.
                  case errorsJoin [Some err, errOf rd] of Some j \<Rightarrow> errA j | None \<Rightarrow> retA ()))))))"

definition prepareStagedHASnapshot :: "'x env \<Rightarrow> HAConfig \<Rightarrow> haSnapshotPackage \<Rightarrow> ('x, string) op" where
  "prepareStagedHASnapshot E config snapshot =
     tryA (liftA (haRestoreStagingPath (e_host E) config)) (\<lambda>stagedPath.
     tryA (cleanupStaleHARestoreHelpers E config (sp_Path snapshot) stagedPath) (\<lambda>_.
     tryA (ensureNoHARecoveryHelpers E config) (\<lambda>_.
     tryA (removeHAStagingDirectory E stagedPath) (\<lambda>_.
     tryA (stageHASnapshotPackage E snapshot stagedPath) (\<lambda>_. retA stagedPath)))))"

definition cleanupStagedHASnapshot :: "'x env \<Rightarrow> HAConfig \<Rightarrow> string \<Rightarrow> ('x, unit) op" where
  "cleanupStagedHASnapshot E config stagedPath =
     (if stagedPath = [] then retA ()
      else catchA (inspectHARecoveryContainer E (HARestoreResetContainerName (hc_Name config))) (\<lambda>r. case r of
        Inr _ \<Rightarrow> errA (Msg ''retain protected HA restore staging package because its reset helper still exists'')
      | Inl e \<Rightarrow> if \<not> errorsIs e ErrNotFound then errA (Wrap ''verify HA restore staging cleanup safety'' e)
          else removeHAStagingDirectory E stagedPath))"

section \<open>What a copy is\<close>

lemma fileCall_world: "fileCall E c p m w = (r, w') \<Longrightarrow> w' = w"
  by (auto simp: fileCall_def act_apply askExt_def split: option.splits)

lemma createExclusive_Inr:
  "createExclusive E p mode w = (Inr u, w') \<Longrightarrow> w_fs w p = None \<and> snd (placeStaged E p mode (Text []) w) = w'"
  by (auto simp: createExclusive_def act_apply dest!: fileCall_world split: sum.splits prod.splits option.splits)

lemma placeStaged_simps:
  "placeStaged E p mode d w = (r, w') \<Longrightarrow> r = Inr () \<and> contentAt p w' = Some d \<and> w_ext w' = w_ext w
     \<and> (\<forall>q. q \<noteq> p \<longrightarrow> contentAt q w' = contentAt q w)"
  by (auto simp: placeStaged_def contentAt_def)

lemma finishCopy_world: "finishCopy E target expected mode w = (r, w') \<Longrightarrow> w' = w"
  by (auto simp: finishCopy_def act_apply statFile_def dest!: fileCall_world split: sum.splits prod.splits if_splits option.splits)

text \<open>The two halves of a successful sequence.\<close>

lemma seqA_InrE:
  assumes "tryA m (\<lambda>_. k) w = (Inr y, w'')"
  obtains w' where "m w = (Inr (), w')" and "k w' = (Inr y, w'')"
  using assms by (auto simp: tryA_apply split: prod.splits sum.splits)

lemma copyContents_sound:
  assumes "copyContents E target expected mode info ob w = (Inr (), w')"
  shows "\<exists>d n. ob_read ob = Inr (d, n) \<and> n = fm_Size expected \<and> e_sha256 E d = toLower (fm_SHA256 expected)
    \<and> contentAt target w' = Some d \<and> (\<forall>q. q \<noteq> target \<longrightarrow> contentAt q w' = contentAt q w)"
proof -
  obtain d n where r: "ob_read ob = Inr (d, n)"
    using assms by (cases "ob_read ob") (auto simp: copyContents_def act_apply)
  have small: "\<not> fm_Size expected < n"
    using assms by (auto simp: copyContents_def r act_apply)
  have "tryA (fileCall E ''write'' target ''write staged HA snapshot artifact'') (\<lambda>_.
      tryA (placeStaged E target mode d) (\<lambda>_. tryA (liftA (checkCopied E expected info ob (d, n)))
      (\<lambda>_. finishCopy E target expected mode))) w = (Inr (), w')"
    using assms by (simp add: copyContents_def r act_apply small)
  then obtain w1 where w1: "fileCall E ''write'' target ''write staged HA snapshot artifact'' w = (Inr (), w1)"
    and rest: "tryA (placeStaged E target mode d) (\<lambda>_. tryA (liftA (checkCopied E expected info ob (d, n)))
      (\<lambda>_. finishCopy E target expected mode)) w1 = (Inr (), w')"
    by (rule seqA_InrE)
  from rest obtain w2 where p: "placeStaged E target mode d w = (Inr (), w2)"
    and rest2: "tryA (liftA (checkCopied E expected info ob (d, n))) (\<lambda>_. finishCopy E target expected mode) w2 = (Inr (), w')"
    unfolding fileCall_world [OF w1] by (rule seqA_InrE)
  from rest2 have "checkCopied E expected info ob (d, n) = Inr ()" "finishCopy E target expected mode w2 = (Inr (), w')"
    by (auto simp: act_apply split: sum.splits)
  moreover from this(2) have "w' = w2" by (rule finishCopy_world)
  ultimately have "n = fm_Size expected" "e_sha256 E d = toLower (fm_SHA256 expected)" and w': "placeStaged E target mode d w = (Inr (), w')"
    using p by (simp_all add: checkCopied_def split: if_splits)
  moreover from placeStaged_simps [OF w'] have "contentAt target w' = Some d" "\<forall>q. q \<noteq> target \<longrightarrow> contentAt q w' = contentAt q w"
    by blast+
  ultimately show ?thesis using r by blast
qed

text \<open>A query that gave no answer lets the sequence go on.\<close>

lemma askNone_InrE:
  assumes "tryA (askExt f) (\<lambda>c. case c of Some e \<Rightarrow> errA (g e) | None \<Rightarrow> k) w = (Inr y, w'')"
  shows "k w = (Inr y, w'')"
  using assms by (simp add: askExt_def act_apply split: option.splits)

lemma copyArtifactBody_sound:
  assumes "copyArtifactBody E target expected mode info ob w = (Inr (), w')"
  shows "\<exists>d n. ob_read ob = Inr (d, n) \<and> n = fm_Size expected \<and> e_sha256 E d = toLower (fm_SHA256 expected)
    \<and> contentAt target w = None \<and> contentAt target w' = Some d \<and> (\<forall>q. q \<noteq> target \<longrightarrow> contentAt q w' = contentAt q w)"
proof -
  have "tryA (createExclusive E target mode) (\<lambda>_.
        tryA (fileCall E ''chmod'' target ''protect staged HA snapshot artifact'') (\<lambda>_.
        tryA (askExt (e_ctxErr E)) (\<lambda>c. case c of
          Some e \<Rightarrow> errA (Wrap ''stage HA snapshot artifact'' e)
        | None \<Rightarrow> copyContents E target expected mode info ob))) w = (Inr (), w')"
    using assms by (simp add: copyArtifactBody_def split: if_splits)
  then obtain w1 where c: "createExclusive E target mode w = (Inr (), w1)"
    and r1: "tryA (fileCall E ''chmod'' target ''protect staged HA snapshot artifact'') (\<lambda>_.
        tryA (askExt (e_ctxErr E)) (\<lambda>c. case c of
          Some e \<Rightarrow> errA (Wrap ''stage HA snapshot artifact'' e)
        | None \<Rightarrow> copyContents E target expected mode info ob)) w1 = (Inr (), w')"
    by (rule seqA_InrE)
  from r1 obtain w2 where f: "fileCall E ''chmod'' target ''protect staged HA snapshot artifact'' w1 = (Inr (), w2)"
    and r2: "tryA (askExt (e_ctxErr E)) (\<lambda>c. case c of
          Some e \<Rightarrow> errA (Wrap ''stage HA snapshot artifact'' e)
        | None \<Rightarrow> copyContents E target expected mode info ob) w2 = (Inr (), w')"
    by (rule seqA_InrE)
  from askNone_InrE [OF r2] have d: "copyContents E target expected mode info ob w1 = (Inr (), w')"
    by (simp add: fileCall_world [OF f])
  have "contentAt target w = None" "\<forall>q. q \<noteq> target \<longrightarrow> contentAt q w1 = contentAt q w"
    using createExclusive_Inr [OF c] placeStaged_simps [of E target mode "Text []" w "fst (placeStaged E target mode (Text []) w)" w1]
    by (auto simp: contentAt_def prod_eq_iff)
  with copyContents_sound [OF d] show ?thesis by metis
qed

section \<open>Properties\<close>

text \<open>
  A staged artifact is the validated one: a copy that succeeds created the file, and it holds
  exactly the source's bytes, of the size and the digest that validation accepted; no other
  file changed.
\<close>

lemma staged_artifact_exact:
  "case copyHAStagedArtifact E sourcePath destination expected identity mode w of
     (Inl _, _) \<Rightarrow> True
   | (Inr _, w') \<Rightarrow> (let target = joinPath [destination, fm_Name expected] in
       \<exists>d. contentAt sourcePath w = Some d \<and> e_docSize E d = fm_Size expected \<and> e_sha256 E d = toLower (fm_SHA256 expected)
         \<and> contentAt target w = None
         \<and> (\<lambda>q. contentAt q w') = (\<lambda>q. contentAt q w)(target := Some d))"
proof -
  have "\<exists>d. contentAt sourcePath w = Some d \<and> e_docSize E d = fm_Size expected \<and> e_sha256 E d = toLower (fm_SHA256 expected)
      \<and> contentAt (joinPath [destination, fm_Name expected]) w = None
      \<and> (\<lambda>q. contentAt q w') = (\<lambda>q. contentAt q w)(joinPath [destination, fm_Name expected] := Some d)"
    if ok: "copyHAStagedArtifact E sourcePath destination expected identity mode w = (Inr u, w')" for u w'
  proof -
    obtain info w1 where "copyArtifactBody E (joinPath [destination, fm_Name expected]) expected mode info (observeFile E sourcePath w) w = (Inr (), w')"
      using ok unfolding copyHAStagedArtifact_def askExt_def
      by (auto elim!: tryA_InrE tryWrapA_InrE simp: catchA_apply split: option.splits if_splits prod.splits)
    from copyArtifactBody_sound [OF this] show ?thesis
      by (auto simp: fun_eq_iff dest: observed_content)
  qed
  then show ?thesis by (auto simp: Let_def split: prod.split sum.split)
qed

end
