(* ===== verification/Recover.thy ===== *)
theory Recover
  imports Staging
begin

text \<open>
  The two operations that put a cluster back from a snapshot package (\<open>ha_recovery.go\<close>):
  \<open>RestoreHA\<close> on a host that still has the cluster, \<open>RecoverHA\<close> on one that has lost parts of
  it or everything.  Both end in \<open>restoreHAValidatedLocked\<close>; what comes before it is checks and,
  for \<open>RecoverHA\<close>, the reconstruction of the configuration, the token, the network and the
  volumes.
\<close>

section \<open>The request\<close>

definition operationTimeout :: "string \<Rightarrow> int \<Rightarrow> int \<Rightarrow> gerror + int" where
  "operationTimeout operation timeout0 fallback =
     (if timeout0 < 0 then Inl (Msg (operation @ '' timeout must not be negative''))
      else let timeout = (if timeout0 = 0 then fallback else timeout0) in
        if timeout < second then Inl (Msg (operation @ '' timeout must be at least 1s'')) else Inr timeout)"

text \<open>What \<open>RecoverHA\<close> checks of the package before it creates even the lock.\<close>

definition trustedHeader :: "'x env \<Rightarrow> string \<Rightarrow> string \<Rightarrow> string \<Rightarrow> ('x, haSnapshotPackage) op" where
  "trustedHeader E name expected input =
     tryA (readHASnapshotManifest E input) (\<lambda>header.
     if sp_ManifestSHA256 header \<noteq> expected
     then errA (Msg ''HA snapshot manifest fingerprint does not match the independently retained SHA-256'')
     else if mf_ClusterName (sp_Manifest header) \<noteq> name then errA (Msg ''HA snapshot belongs to another cluster'')
     else if \<not> immutableImageReference (mf_ImageReference (sp_Manifest header))
     then errA (Msg ''HA empty-host recovery requires an immutable OCI sha256 digest image reference'')
     else retA header)"

section \<open>The target of a recovery\<close>

definition reconstructedConfig :: "HAConfig \<Rightarrow> HASnapshotManifest \<Rightarrow> HAConfig" where
  "reconstructedConfig defaults m = (let t = mf_Topology m in defaults\<lparr>hc_NetworkName := tp_NetworkName t,
     hc_Subnet := tp_Subnet t, hc_Image := mf_ImageReference m, hc_ListenAddress := tp_ListenAddress t,
     hc_CPUs := tp_CPUs t, hc_Memory := tp_Memory t, hc_VolumeSize := tp_VolumeSize t,
     hc_DisableTraefik := tp_DisableTraefik t, hc_Members := tp_Members t\<rparr>)"

definition loadOrReconstructHARecoveryConfig :: "'x env \<Rightarrow> string \<Rightarrow> HASnapshotManifest \<Rightarrow> ('x, HAConfig \<times> bool) op" where
  "loadOrReconstructHARecoveryConfig E name manifest = catchA (loadHAConfig E name) (\<lambda>r. case r of
     Inr config \<Rightarrow> retA (config, True)
   | Inl e \<Rightarrow> if \<not> errorsIs e ErrNotExist then errA e
       else tryA (liftA (DefaultHAConfig (e_host E) name)) (\<lambda>defaults.
         tryWrapA ''reconstruct HA configuration from snapshot''
           (liftA (normalizeHAConfig (e_host E) (reconstructedConfig defaults manifest))) (\<lambda>config.
         retA (config, False))))"

definition requireStoppedIntent :: "'x env \<Rightarrow> string \<Rightarrow> ('x, unit) op" where
  "requireStoppedIntent E name = tryA (liftA (haDesiredStatePath (e_host E) name)) (\<lambda>desiredPath.
     tryWrapA ''interrupted HA recovery is missing its durable stopped desired state'' (statFile E desiredPath) (\<lambda>_.
     tryA (loadHADesiredState E name) (\<lambda>desired.
     if ds_ClusterState desired \<noteq> haDesiredStopped
     then errA (Msg ''interrupted HA recovery desired state is not Stopped'') else retA ())))"

definition validateHARecoveryRetryState ::
    "'x env \<Rightarrow> HAConfig \<Rightarrow> haSnapshotPackage \<Rightarrow> bool \<Rightarrow> ('x, HARecoveryState option) op" where
  "validateHARecoveryRetryState E config snapshot configExists = catchA (LoadHARecoveryState E (hc_Name config)) (\<lambda>r. case r of
     Inl e \<Rightarrow> if errorsIs e ErrNotExist then retA None else errA (Wrap ''validate existing HA recovery journal'' e)
   | Inr journal \<Rightarrow>
       if haRecoveryJournalRuntimeSafe journal
       then if \<not> configExists then errA (Msg ''completed HA recovery journal cannot be reused without its saved configuration'')
            else retA None
       else if rs_ClusterIdentity journal \<noteq> mf_ClusterIdentity (sp_Manifest snapshot)
         \<or> cleanPath (rs_SnapshotPath journal) \<noteq> cleanPath (sp_Path snapshot)
       then errA (Msg ''existing HA recovery journal belongs to a different snapshot identity'')
       else tryA (if configExists then retA () else requireStoppedIntent E (hc_Name config)) (\<lambda>_. retA (Some journal)))"

text \<open>
  The provenance of the volumes.  (A journal decodes \<open>null\<close> and \<open>[]\<close> to the same list here; the
  comparison of the code tells them apart and would write the journal once more.)
\<close>

definition recoveryProvenance :: "HAConfig \<Rightarrow> haPreflight \<Rightarrow> HARecoveryState option \<Rightarrow> gerror + HARecoveryVolumeProvenance" where
  "recoveryProvenance config preflight retry = (case retry of
     None \<Rightarrow> Inr (mergeHARecoveryVolumeProvenance config (pf_volumeExists preflight) None)
   | Some journal \<Rightarrow> (case rs_VolumeProvenance journal of
       None \<Rightarrow> Inl (Msg ''interrupted HA recovery lacks durable member-volume provenance'')
     | Some prior \<Rightarrow> Inr (mergeHARecoveryVolumeProvenance config (pf_volumeExists preflight) (Some prior))))"

definition inconsistentTarget :: "haPreflight \<Rightarrow> bool" where
  "inconsistentTarget preflight \<longleftrightarrow> pf_containerRecord preflight \<noteq> []
     \<and> (\<not> pf_networkExists preflight \<or> int (length (pf_volumeExists preflight)) \<noteq> haMemberCount)"

definition persistProvenance :: "'x env \<Rightarrow> HARecoveryState option \<Rightarrow> HARecoveryVolumeProvenance \<Rightarrow> ('x, unit) op" where
  "persistProvenance E retry provenance = (case retry of None \<Rightarrow> retA () | Some journal \<Rightarrow>
     if rs_VolumeProvenance journal = Some provenance then retA ()
     else tryA (askExt (e_now E)) (\<lambda>now.
       wrapA ''persist unsafe member-volume provenance before rejecting inconsistent HA recovery target''
         (saveHARecoveryState E (journal\<lparr>rs_VolumeProvenance := Some provenance, rs_UpdatedAt := now\<rparr>))))"

definition validateHARecoveryTargetToken :: "'x env \<Rightarrow> string \<Rightarrow> string \<Rightarrow> ('x, bool) op" where
  "validateHARecoveryTargetToken E path backupToken = catchA (readHARecoveryToken E path) (\<lambda>r. case r of
     Inl e \<Rightarrow> if errorsIs e ErrNotExist then retA True else errA e
   | Inr currentToken \<Rightarrow> if \<not> sameK3sServerToken currentToken backupToken
       then errA (Msg ''refusing to overwrite an existing HA server token that differs from the trusted snapshot package'')
       else retA False)"

definition ensureEmptyHARecoveryFileState :: "'x env \<Rightarrow> HAConfig \<Rightarrow> ('x, unit) op" where
  "ensureEmptyHARecoveryFileState E config =
     tryA (liftA (haDesiredStatePath (e_host E) (hc_Name config))) (\<lambda>desiredPath.
     tryA (forA [hc_TokenFile config, hc_KubeconfigPath config] (\<lambda>path. catchA (statFile E path) (\<lambda>r. case r of
       Inr _ \<Rightarrow> errA (Msg ''refusing empty-host HA recovery because unexpected local state already exists'')
     | Inl e \<Rightarrow> if errorsIs e ErrNotExist then retA () else errA (Wrap ''inspect empty-host HA recovery state'' e)))) (\<lambda>_.
     catchA (statFile E desiredPath) (\<lambda>r. case r of
       Inl e \<Rightarrow> if errorsIs e ErrNotExist then retA ()
               else errA (Wrap ''inspect empty-host HA recovery desired state'' e)
     | Inr _ \<Rightarrow> tryA (loadHADesiredState E (hc_Name config)) (\<lambda>desired.
         if ds_ClusterState desired \<noteq> haDesiredStopped
         then errA (Msg ''refusing empty-host HA recovery because its orphaned desired state is not Stopped'') else retA ()))))"

definition requireEmptyHost :: "'x env \<Rightarrow> HAConfig \<Rightarrow> haPreflight \<Rightarrow> ('x, unit) op" where
  "requireEmptyHost E config preflight = tryA (ensureEmptyHARecoveryFileState E config) (\<lambda>_.
     if pf_networkExists preflight \<or> pf_volumeExists preflight \<noteq> [] \<or> pf_containerRecord preflight \<noteq> []
     then errA (Msg ''refusing empty-host HA recovery because APC-owned runtime resources already exist without a matching recovery journal'')
     else retA ())"

text \<open>
  What a recovery may work on: whether the token is missing, and the provenance of the volumes.
\<close>

definition recoveryTarget ::
    "'x env \<Rightarrow> HAConfig \<Rightarrow> bool \<Rightarrow> haSnapshotPackage \<Rightarrow> haPreflight \<Rightarrow> ('x, bool \<times> HARecoveryVolumeProvenance) op" where
  "recoveryTarget E config configExists validated preflight =
     tryA (validateHARecoveryRetryState E config validated configExists) (\<lambda>retry.
     tryA (liftA (recoveryProvenance config preflight retry)) (\<lambda>provenance.
     if inconsistentTarget preflight
     then tryA (persistProvenance E retry provenance) (\<lambda>_. errA (Msg ''refusing inconsistent HA recovery target''))
     else tryA (validateHARecoveryTargetToken E (hc_TokenFile config) (sp_token validated)) (\<lambda>tokenMissing.
       tryA (if \<not> configExists \<and> retry = None then requireEmptyHost E config preflight else retA ()) (\<lambda>_.
       retA (tokenMissing, provenance)))))"

section \<open>Installing the token\<close>

text \<open>\<open>os.Link\<close>: it publishes the temporary file unless the destination exists.\<close>

definition linkFile :: "'x env \<Rightarrow> string \<Rightarrow> document \<Rightarrow> ('x, unit) op" where
  "linkFile E path doc = tryA (fileCall E ''link'' path ''publish HA recovery token without replacement'') (\<lambda>_.
     tryA (getA (\<lambda>w. w_fs w path)) (\<lambda>n. case n of
       Some _ \<Rightarrow> errA (Msg ''publish HA recovery token without replacement: file exists'')
     | None \<Rightarrow> placeFile E path doc))"

definition publishToken :: "'x env \<Rightarrow> string \<Rightarrow> string \<Rightarrow> ('x, unit) op" where
  "publishToken E path token =
     tryA (writeStepA E path ChmodTemp ''secure temporary HA recovery token'') (\<lambda>_.
     tryA (writeStepA E path WriteTemp ''write temporary HA recovery token'') (\<lambda>_.
     tryA (writeStepA E path SyncTemp ''flush temporary HA recovery token'') (\<lambda>_.
     tryA (writeStepA E path CloseTemp ''close temporary HA recovery token'') (\<lambda>_.
     tryA (linkFile E path (Text (token @ [CHR 0x0A]))) (\<lambda>_.
     writeStepA E path SyncDir ''durably publish HA recovery token'')))))"

definition installHARecoveryToken :: "'x env \<Rightarrow> string \<Rightarrow> string \<Rightarrow> ('x, unit) op" where
  "installHARecoveryToken E path token = catchA (statFile E path) (\<lambda>r. case r of
     Inr _ \<Rightarrow> errA (Msg ''refusing to overwrite existing HA recovery token file'')
   | Inl e \<Rightarrow> if \<not> errorsIs e ErrNotExist then errA (Wrap ''inspect HA recovery token destination'' e)
       else tryWrapA ''validate HA recovery token before installation'' (liftA (k3sServerTokenCredential token)) (\<lambda>_.
         tryA (writeStepA E path MkdirAll ''create HA recovery token directory'') (\<lambda>_.
         tryA (writeStepA E path ChmodDir ''secure HA recovery token directory'') (\<lambda>_.
         tryA (writeStepA E path CreateTemp ''create temporary HA recovery token'') (\<lambda>_.
         deferJoin (fileCall E ''removeTemp'' path ''remove temporary HA recovery token'') (publishToken E path token))))))"

section \<open>\<open>RecoverHA\<close>\<close>

definition ensureHARecoveryInfrastructure :: "'x env \<Rightarrow> HAConfig \<Rightarrow> haPreflight \<Rightarrow> ('x, unit) op" where
  "ensureHARecoveryInfrastructure E config preflight =
     tryA (if \<not> pf_networkExists preflight then createHAOwnedNetwork E config else retA ()) (\<lambda>_.
     forA (hc_Members config) (\<lambda>member.
       if hm_ID member \<in> set (pf_volumeExists preflight) then retA () else createHAOwnedVolume E config member))"

definition preparationJournal :: "int \<Rightarrow> HAConfig \<Rightarrow> haSnapshotPackage \<Rightarrow> HARecoveryVolumeProvenance \<Rightarrow> HARecoveryState" where
  "preparationJournal now config validated provenance =
     (initialJournal now config (mf_ClusterIdentity (sp_Manifest validated)) (sp_Path validated) (Some provenance))
       \<lparr>rs_NextAction := ''create or validate exact recovery network and member volumes''\<rparr>"

definition recoverPrepared :: "'x env \<Rightarrow> HAConfig \<Rightarrow> bool \<Rightarrow> int \<Rightarrow> haSnapshotPackage \<Rightarrow> haPreflight \<Rightarrow> bool
    \<Rightarrow> HARecoveryVolumeProvenance \<Rightarrow> string \<Rightarrow> ('x, HAState) op" where
  "recoverPrepared E config configExists defaultTimeout validated preflight tokenMissing provenance stagedInput =
     tryA (if tokenMissing then installHARecoveryToken E (hc_TokenFile config) (sp_token validated) else retA ()) (\<lambda>_.
     tryA (if configExists then retA () else saveHAConfig E (config\<lparr>hc_StartupTimeout := defaultTimeout\<rparr>)) (\<lambda>_.
     tryA (ensureHARecoveryInfrastructure E config preflight) (\<lambda>_.
     tryA (preflightHA E config True) (\<lambda>final.
     if \<not> pf_networkExists final \<or> int (length (pf_volumeExists final)) \<noteq> haMemberCount
     then errA (Msg ''HA recovery preparation did not produce the exact network and all three member volumes'')
     else restoreHAValidatedLocked E config (mf_ClusterIdentity (sp_Manifest validated)) (sp_Path validated) stagedInput
            final (Some provenance)))))"

definition recoverStaged :: "'x env \<Rightarrow> HAConfig \<Rightarrow> bool \<Rightarrow> int \<Rightarrow> haSnapshotPackage \<Rightarrow> haPreflight \<Rightarrow> bool
    \<Rightarrow> HARecoveryVolumeProvenance \<Rightarrow> string \<Rightarrow> ('x, HAState) op" where
  "recoverStaged E config configExists defaultTimeout validated preflight tokenMissing provenance stagedInput =
     tryWrapA ''persist stopped HA intent before empty-host recovery'' (markHAClusterStoppedLocked E (hc_Name config)) (\<lambda>_.
     tryA (askExt (e_now E)) (\<lambda>now.
     tryA (saveHARecoveryState E (preparationJournal now config validated provenance)) (\<lambda>_.
     recoverPrepared E config configExists defaultTimeout validated preflight tokenMissing provenance stagedInput)))"

definition recoverConfigured :: "'x env \<Rightarrow> string \<Rightarrow> string \<Rightarrow> int \<Rightarrow> haSnapshotPackage \<Rightarrow> HAConfig \<Rightarrow> bool \<Rightarrow> ('x, HAState) op" where
  "recoverConfigured E name expected defaultTimeout header config configExists =
     tryA (validateHASnapshotPackage E config (sp_Path header) False) (\<lambda>validated.
     if sp_ManifestSHA256 validated \<noteq> expected then errA (Msg ''HA snapshot manifest changed during recovery validation'')
     else tryA (checkHALegacyCollision E name) (\<lambda>_.
       tryA (preflightHA E config True) (\<lambda>preflight.
       tryA (recoveryTarget E config configExists validated preflight) (\<lambda>(tokenMissing, provenance).
       tryA (prepareStagedHASnapshot E config validated) (\<lambda>stagedInput.
       deferJoin (cleanupStagedHASnapshot E config stagedInput)
         (recoverStaged E config configExists defaultTimeout validated preflight tokenMissing provenance stagedInput))))))"

definition recoverHALocked :: "'x env \<Rightarrow> string \<Rightarrow> string \<Rightarrow> int \<Rightarrow> int \<Rightarrow> haSnapshotPackage \<Rightarrow> ('x, HAState) op" where
  "recoverHALocked E name expected defaultTimeout timeout header =
     tryA (loadOrReconstructHARecoveryConfig E name (sp_Manifest header)) (\<lambda>(config, configExists).
     recoverConfigured E name expected defaultTimeout header (config\<lparr>hc_StartupTimeout := timeout\<rparr>) configExists)"

definition RecoverHA :: "'x env \<Rightarrow> string \<Rightarrow> string \<Rightarrow> string \<Rightarrow> int \<Rightarrow> ('x, HAState) op" where
  "RecoverHA E name input expectedManifestSHA256 timeout =
     (if \<not> dnsLabel name then errA (Msg ''cluster name must be a lowercase DNS label'')
      else tryA (liftA (normalizeExpectedHAManifestSHA256 expectedManifestSHA256)) (\<lambda>expected.
        tryA (liftA (DefaultHAConfig (e_host E) name)) (\<lambda>defaults.
        tryA (liftA (operationTimeout ''HA recovery'' timeout (hc_StartupTimeout defaults))) (\<lambda>limit.
        tryA (trustedHeader E name expected input) (\<lambda>header.
        withLock E name (recoverHALocked E name expected (hc_StartupTimeout defaults) limit header))))))"

section \<open>\<open>RestoreHA\<close>\<close>

definition restoreStaged :: "'x env \<Rightarrow> HAConfig \<Rightarrow> haSnapshotPackage \<Rightarrow> haPreflight \<Rightarrow> ('x, HAState) op" where
  "restoreStaged E config validated preflight =
     tryA (prepareStagedHASnapshot E config validated) (\<lambda>stagedInput.
     deferJoin (cleanupStagedHASnapshot E config stagedInput)
       (restoreHAValidatedLocked E config (mf_ClusterIdentity (sp_Manifest validated)) (sp_Path validated) stagedInput preflight None))"

definition restoreHALocked :: "'x env \<Rightarrow> HAConfig \<Rightarrow> string \<Rightarrow> ('x, HAState) op" where
  "restoreHALocked E config input =
     tryA (ensureHARecoveryJournalAllowsRestore E (hc_Name config)) (\<lambda>_.
     tryA (validateHASnapshotPackage E config input True) (\<lambda>validated.
     tryA (askExt (e_ctxErr E)) (\<lambda>c. case c of
       Some e \<Rightarrow> errA (Wrap ''HA restore deadline reached while validating snapshot'' e)
     | None \<Rightarrow> tryA (preflightHA E config True) (\<lambda>preflight.
         if int (length (pf_volumeExists preflight)) \<noteq> haMemberCount
         then errA (Msg ''HA restore requires all three exact APC-owned member volumes'')
         else if \<not> pf_networkExists preflight
         then errA (Msg ''HA restore requires the exact APC-owned network before any member mutation'')
         else restoreStaged E config validated preflight))))"

definition RestoreHA :: "'x env \<Rightarrow> string \<Rightarrow> string \<Rightarrow> int \<Rightarrow> ('x, HAState) op" where
  "RestoreHA E name input timeout =
     (if \<not> dnsLabel name then errA (Msg ''cluster name must be a lowercase DNS label'')
      else tryA (loadHAConfig E name) (\<lambda>config.
        tryA (liftA (operationTimeout ''HA restore'' timeout (hc_StartupTimeout config))) (\<lambda>limit.
        withLock E (hc_Name config) (restoreHALocked E (config\<lparr>hc_StartupTimeout := limit\<rparr>) input))))"

section \<open>What only reads\<close>

lemmas reads_world_facts =
  readsI [OF loadHAConfig_world] readsI [OF loadHADesiredState_world] readsI [OF LoadHARecoveryState_world]

lemma reads_packageDirectory: "reads (packageDirectory E input)"
  unfolding packageDirectory_def Let_def by (intro readonly reads_world)

lemma reads_readHASnapshotManifest: "reads (readHASnapshotManifest E input)"
  unfolding readHASnapshotManifest_def by (intro readonly reads_world reads_packageDirectory)

lemma reads_readHARecoveryToken: "reads (readHARecoveryToken E path)"
  by (rule readsI) (metis readHARecoveryToken_world prod.collapse)

lemma reads_validateHASnapshotPackage: "reads (validateHASnapshotPackage E config input b)"
  unfolding validateHASnapshotPackage_def packageArtifacts_def packageToken_def checkCurrentToken_def
  by (intro readonly reads_world reads_readHASnapshotManifest reads_readHARecoveryToken)

lemma reads_checks:
  "reads (ensureHARecoveryJournalAllowsRestore E name)"
  "reads (loadOrReconstructHARecoveryConfig E name m)"
  "reads (validateHARecoveryRetryState E config p b)"
  "reads (validateHARecoveryTargetToken E path t)"
  "reads (requireEmptyHost E config preflight)"
  "reads (trustedHeader E name expected input)"
  unfolding ensureHARecoveryJournalAllowsRestore_def loadOrReconstructHARecoveryConfig_def validateHARecoveryRetryState_def
    requireStoppedIntent_def validateHARecoveryTargetToken_def requireEmptyHost_def ensureEmptyHARecoveryFileState_def trustedHeader_def
  by (intro readonly reads_world reads_world_facts reads_readHARecoveryToken reads_readHASnapshotManifest)+

lemma contentAt_trace [simp]: "contentAt q (w\<lparr>w_trace := t\<rparr>) = contentAt q w"
  by (simp add: contentAt_def)

lemma reads_fileCall: "reads (fileCall E c p m)"
  by (rule readsI) (metis fileCall_world prod.collapse)

lemma linkFile_cases:
  assumes "linkFile E path d w = (r, w')"
  shows "(w' = w \<and> \<not> isOk r) \<or> (contentAt path w = None \<and> placeFile E path d w = (r, w'))"
  using assms unfolding linkFile_def
  by (elim tryA_reads_cases [OF _ reads_fileCall] tryA_reads_cases [OF _ reads_silent(4)])
    (auto simp: contentAt_def split: option.splits)

lemma publishToken_cases:
  assumes "publishToken E path token w = (r, w')"
  shows "(w' = w \<and> \<not> isOk r) \<or> (contentAt path w = None \<and> placeFile E path (Text (token @ [CHR 0x0A])) w = (Inr (), w'))"
proof -
  obtain r1 w1 where l: "linkFile E path (Text (token @ [CHR 0x0A])) w = (r1, w1)" by fastforce
  have "(w' = w \<and> \<not> isOk r) \<or> tryA (linkFile E path (Text (token @ [CHR 0x0A]))) (\<lambda>_. writeStepA E path SyncDir ''durably publish HA recovery token'') w = (r, w')"
    using assms unfolding publishToken_def by (elim tryA_reads_cases [OF _ reads_world(2)]) auto
  with linkFile_cases [OF l] show ?thesis
    by (auto simp: tryA_apply l placeFile_def dest!: reads_state [OF reads_world(2)] split: sum.splits)
qed

lemma deferJoin_reads:
  assumes "deferJoin c m w = (r, w')" "reads c"
  obtains r0 where "m w = (r0, w')" "isOk r \<Longrightarrow> isOk r0"
proof -
  obtain r0 w1 where m: "m w = (r0, w1)" by fastforce
  with assms have "w1 = w'" "r = joinClose (errOf (fst (c w1))) r0"
    by (auto simp: deferJoin_def catchA_apply [of m] catchA_reads)
  with m show thesis by (intro that [of r0]) (auto simp: isOk_def joinClose_def split: sum.splits option.splits)
qed

lemma yields_deferJoin: "yields R m \<Longrightarrow> yields R (deferJoin c m)"
  unfolding yields_def deferJoin_def by (auto simp: catchA_apply split: prod.splits) (metis fst_conv)

section \<open>Effects\<close>

lemma emits_removeTree: "P (Removed path) \<Longrightarrow> emits P (removeTree E path)"
  unfolding removeTree_def dirOp_def by (intro effects emitsI) (simp_all add: recorded_def updA_def)

lemma emits_placeStaged: "P (Wrote path d) \<Longrightarrow> emits P (placeStaged E path mode d)"
  by (rule emitsI) (simp_all add: placeStaged_def recorded_def)

lemma calm_removed [simp]: "calm (Removed p)"
  by (simp add: calm_def)

lemma emits_dirs [effects]: "emits P (dirInfo E path)" "emits P (dirOp E a path)" "emits P (fileCall E c path m)"
  unfolding dirInfo_def dirOp_def fileCall_def by (intro effects)+

lemma calm_removeStaging: "emits calm (removeHAStagingDirectory E path)"
  unfolding removeHAStagingDirectory_def by (intro effects emits_removeTree) simp

lemma calm_stage: "emits calm (stageHASnapshotPackage E p path)"
  unfolding stageHASnapshotPackage_def fillStaging_def fillStagingRoot_def deferJoin_def copyHAStagedArtifact_def copyArtifactBody_def
    copyContents_def finishCopy_def createExclusive_def reinspectHAStagingDirectory_def Let_def
  by (intro effects emits_placeStaged calm_removeStaging) simp_all

lemma calm_prepareStaged: "emits calm (prepareStagedHASnapshot E config p)"
  unfolding prepareStagedHASnapshot_def cleanupStaleHARestoreHelpers_def ensureNoHARecoveryHelpers_def ensureNoHelper_def Let_def
  by (intro effects calm_stage calm_removeStaging calm_inspectRecovery calm_deleteHelper)

lemma calm_cleanupStaged: "emits calm (cleanupStagedHASnapshot E config path)"
  unfolding cleanupStagedHASnapshot_def by (intro effects calm_removeStaging calm_inspectRecovery)

lemma emits_deferJoin: "emits P c \<Longrightarrow> emits P m \<Longrightarrow> emits P (deferJoin c m)"
  unfolding deferJoin_def by (intro effects)

lemma calm_target: "emits calm (recoveryTarget E config b p preflight)"
  unfolding recoveryTarget_def persistProvenance_def
  by (intro effects emits_reads reads_checks emits_saveHARecoveryState) simp

lemma calm_installToken: "emits calm (installHARecoveryToken E path token)"
  unfolding installHARecoveryToken_def publishToken_def linkFile_def by (intro effects emits_deferJoin) simp

lemma calm_unlocked: "calm e \<Longrightarrow> \<not> isLock e"
  by (auto simp: calm_def isLock_def split: event.splits)

lemma command_unlocked: "cmdArgs e \<noteq> [] \<Longrightarrow> \<not> isLock e"
  by (auto simp: cmdArgs_def isLock_def split: event.splits)

lemma unlocked_calm: "emits calm m \<Longrightarrow> unlocked m"
  by (erule emits_mono) (rule calm_unlocked)

lemma unlocked_restoreValidated: "unlocked (restoreHAValidatedLocked E config identity input staged preflight provenance)"
  by (rule emits_restoreValidated, erule calm_unlocked)
    (simp_all add: command_unlocked HAServerRunArguments_def helperRunArguments_def clearArguments_def haRestoreResetRunArguments_def Let_def)

lemma unlocked_restoreHALocked: "unlocked (restoreHALocked E config input)"
  unfolding restoreHALocked_def restoreStaged_def
  by (intro effects emits_deferJoin unlocked_restoreValidated unlocked_calm [OF calm_prepareStaged] unlocked_calm [OF calm_cleanupStaged]
      unlocked_quiet [OF quiet_preflightHA] emits_reads reads_validateHASnapshotPackage)

lemma unlocked_recoverStaged: "unlocked (recoverStaged E config b t p preflight missing provenance staged)"
  unfolding recoverStaged_def recoverPrepared_def ensureHARecoveryInfrastructure_def createHAOwnedNetwork_def createHAOwnedVolume_def
  by (intro effects unlocked_restoreValidated unlocked_calm [OF calm_installToken] emits_saveHAConfig emits_markStopped
      emits_saveHARecoveryState unlocked_quiet [OF quiet_preflightHA]) simp_all

lemma unlocked_recoverHALocked: "unlocked (recoverHALocked E name expected t limit header)"
  unfolding recoverHALocked_def recoverConfigured_def
  by (intro effects emits_deferJoin unlocked_recoverStaged unlocked_calm [OF calm_prepareStaged] unlocked_calm [OF calm_cleanupStaged]
      unlocked_calm [OF calm_target] unlocked_quiet [OF quiet_preflightHA] emits_reads reads_validateHASnapshotPackage reads_checks)

text \<open>Nothing of the cluster is left.\<close>

definition emptyHost :: "'x env \<Rightarrow> HAConfig \<Rightarrow> haPreflight \<Rightarrow> 'x world \<Rightarrow> bool" where
  "emptyHost E config preflight w \<longleftrightarrow> \<not> pf_networkExists preflight \<and> pf_volumeExists preflight = []
     \<and> pf_containerRecord preflight = [] \<and> isOk (fst (ensureEmptyHARecoveryFileState E config w))"

section \<open>Order\<close>

text \<open>Commands that do more than read, stop or delete.\<close>

definition risky :: "event \<Rightarrow> bool" where
  "risky e \<longleftrightarrow> isCmd e \<and> \<not> calm e"

definition wroteProvenance :: "'x env \<Rightarrow> string \<Rightarrow> event \<Rightarrow> bool" where
  "wroteProvenance E cluster e \<longleftrightarrow> (\<exists>path st. HARecoveryStatePath (e_host E) cluster = Inr path
     \<and> e = Wrote path (encodeJournal (truncateMessage st)) \<and> rs_Cluster st = cluster \<and> rs_Phase st = ''validated''
     \<and> rs_VolumeProvenance st \<noteq> None)"

lemma safe_calm: "emits calm m \<Longrightarrow> emits (\<lambda>e. \<not> risky e) m"
  by (erule emits_mono) (simp add: risky_def)

lemma emits_recoverPrepared: "emits (\<lambda>_. True) (recoverPrepared E config b t p preflight missing provenance staged)"
  unfolding recoverPrepared_def ensureHARecoveryInfrastructure_def createHAOwnedNetwork_def createHAOwnedVolume_def
  by (intro effects emits_restoreValidated emits_mono [OF calm_installToken] emits_saveHAConfig emits_mono [OF quiet_preflightHA]) simp_all

lemma guarded_recoverStaged:
  assumes "ensures P (markHAClusterStoppedLocked E (hc_Name config))
    \<or> (\<forall>now. ensures P (saveHARecoveryState E (preparationJournal now config p provenance)))"
  shows "guarded P risky (recoverStaged E config b t p preflight missing provenance staged)"
proof -
  have rest: "emits (\<lambda>_. True) (tryA (saveHARecoveryState E st) (\<lambda>_.
      recoverPrepared E config b t p preflight missing provenance staged))" for st
    by (intro effects emits_saveHARecoveryState emits_recoverPrepared) simp
  have mark: "emits (\<lambda>e. \<not> risky e) (markHAClusterStoppedLocked E name)" for name
    by (rule emits_markStopped) (simp add: risky_def isCmd_def)
  have save: "emits (\<lambda>e. \<not> risky e) (saveHARecoveryState E st)" for st
    by (rule emits_saveHARecoveryState) (simp add: risky_def isCmd_def)
  show ?thesis using assms
  proof
    assume "ensures P (markHAClusterStoppedLocked E (hc_Name config))"
    then show ?thesis unfolding recoverStaged_def tryWrapA_def
      by (intro guarded_after ensures_wrapA emits_wrapA mark effects rest)
  next
    assume "\<forall>now. ensures P (saveHARecoveryState E (preparationJournal now config p provenance))"
    then have s: "ensures P (saveHARecoveryState E (preparationJournal now config p provenance))" for now by blast
    show ?thesis unfolding recoverStaged_def
      by (intro guarded_tryWrapA guarded_tryA guarded_emits [OF mark] guarded_emits [OF emits_askExt] guarded_after save s emits_recoverPrepared)
  qed
qed

lemma guarded_recoverConfigured:
  assumes "ensures P (markHAClusterStoppedLocked E (hc_Name config))
    \<or> (\<forall>now p provenance. ensures P (saveHARecoveryState E (preparationJournal now config p provenance)))"
  shows "guarded P risky (recoverConfigured E name expected t header config b)"
proof -
  have staged: "guarded P risky (recoverStaged E config b t p preflight missing provenance staged)" for p preflight missing provenance staged
    by (rule guarded_recoverStaged) (use assms in blast)
  have q: "guarded P risky m" if "emits calm m" for m :: "('a, 'c) op"
    by (rule guarded_emits [OF safe_calm [OF that]])
  show ?thesis unfolding recoverConfigured_def deferJoin_def
    by (intro guarded_tryA guarded_if guarded_case_prod guarded_catchA guarded_silent staged q calm_prepareStaged calm_cleanupStaged calm_target
        calmI [OF quiet_preflightHA] emits_checkHALegacyCollision emits_reads [OF reads_validateHASnapshotPackage])
qed

lemma ensures_preparation:
  "\<forall>now p provenance. ensures (wroteProvenance E (hc_Name config)) (saveHARecoveryState E (preparationJournal now config p provenance))"
proof (intro allI ensuresI)
  fix now p provenance w r w'
  assume "saveHARecoveryState E (preparationJournal now config p provenance) w = (r, w')"
  note run = saveHARecoveryState_cases [OF this]
  have "wroteProvenance E (hc_Name config) (Wrote path (encodeJournal (truncateMessage (preparationJournal now config p provenance))))"
    if "HARecoveryStatePath (e_host E) (hc_Name config) = Inr path" for path
    unfolding wroteProvenance_def
    by (rule exI [of _ path], rule exI [of _ "preparationJournal now config p provenance"])
      (simp add: that preparationJournal_def initialJournal_def)
  moreover have "rs_Cluster (preparationJournal now config p provenance) = hc_Name config"
    by (simp add: preparationJournal_def initialJournal_def)
  ultimately show "\<exists>es. w_trace w' = w_trace w @ es \<and> (isOk r \<longrightarrow> list_ex (wroteProvenance E (hc_Name config)) es)"
    using run by auto
qed

section \<open>Properties\<close>

text \<open>
  C7: \<open>RecoverHA\<close> has no effect whatever, not even the lock, unless the manifest in the package
  has the digest the operator kept, and names this cluster and an immutable image.
\<close>

theorem recovery_needs_fingerprint:
  "let run = RecoverHA E name input fingerprint timeout w in
   if \<not> isOk (fst run) \<and> snd run = w then True
   else \<exists>dir d m. normalizeExpectedHAManifestSHA256 fingerprint = Inr (e_sha256 E d)
     \<and> contentAt (joinPath [dir, ''manifest.json'']) w = Some d \<and> decodeDoc dManifest d = Inr m
     \<and> mf_ClusterName m = name \<and> immutableImageReference (mf_ImageReference m)"
proof -
  have header: "\<exists>d. contentAt (joinPath [sp_Path h, ''manifest.json'']) w = Some d \<and> decodeDoc dManifest d = Inr (sp_Manifest h)
      \<and> expected = e_sha256 E d \<and> mf_ClusterName (sp_Manifest h) = name \<and> immutableImageReference (mf_ImageReference (sp_Manifest h))"
    if h: "fst (trustedHeader E name expected input w) = Inr h" for expected h
  proof -
    from h obtain v where "readHASnapshotManifest E input w = (Inr v, w)" and v: "v = h" "sp_ManifestSHA256 h = expected"
      "mf_ClusterName (sp_Manifest h) = name" "immutableImageReference (mf_ImageReference (sp_Manifest h))"
      using reads_state [OF reads_readHASnapshotManifest, of E input w]
      by (auto simp: trustedHeader_def tryA_reads [OF reads_readHASnapshotManifest] prod_eq_iff split: sum.splits if_splits)
    from readHASnapshotManifest_sound [OF this(1)] v show ?thesis by auto
  qed
  show ?thesis
    unfolding RecoverHA_def Let_def
    by (auto simp: tryA_reads [OF reads_checks(6)] tryA_reads [OF reads_silent(3)] dest!: header split: sum.splits)
qed


text \<open>
  Creating, starting, restoring or recovering a cluster, and starting or restarting a member,
  succeeds only with a status in which all three members are Ready, reachable and running.
\<close>

lemma success_means_ready:
  "(case fst (CreateHA E config w) of Inl _ \<Rightarrow> True | Inr st \<Rightarrow> allHAMembersReady st)
   \<and> (case fst (StartHA E name timeout w) of Inl _ \<Rightarrow> True | Inr st \<Rightarrow> allHAMembersReady st)
   \<and> (case fst (RestoreHA E name input timeout w) of Inl _ \<Rightarrow> True | Inr st \<Rightarrow> allHAMembersReady st)
   \<and> (case fst (RecoverHA E name input fingerprint timeout w) of Inl _ \<Rightarrow> True | Inr st \<Rightarrow> allHAMembersReady st)
   \<and> (case fst (StartHAMember E name i timeout w) of Inl _ \<Rightarrow> True | Inr st \<Rightarrow> allHAMembersReady st)
   \<and> (case fst (RestartHAMember E name i timeout w) of Inl _ \<Rightarrow> True | Inr st \<Rightarrow> allHAMembersReady st)"
proof -
  have "yields allHAMembersReady (CreateHA E config)" "yields allHAMembersReady (StartHA E name timeout)"
    "yields allHAMembersReady (StartHAMember E name i timeout)" "yields allHAMembersReady (RestartHAMember E name i timeout)"
    unfolding CreateHA_def StartHA_def startHALocked_def StartHAMember_def startMemberOperation_def RestartHAMember_def
    by (intro results yields_createHALocked yields_withHAMemberOperation yields_startHAMemberLocked yields_restart)+
  moreover have "yields allHAMembersReady (RestoreHA E name input timeout)"
    unfolding RestoreHA_def restoreHALocked_def restoreStaged_def
    by (intro results yields_deferJoin yields_restoreValidated)
  moreover have "yields allHAMembersReady (RecoverHA E name input fingerprint timeout)"
    unfolding RecoverHA_def recoverHALocked_def recoverConfigured_def recoverStaged_def recoverPrepared_def Let_def
    by (intro results yields_deferJoin yields_restoreValidated)
  ultimately show ?thesis by (intro conjI yields_run)
qed

text \<open>
  Installing the recovery token never replaces a file: with a file in place nothing
  changes and the call fails; otherwise success means that the file holds exactly the token and
  a newline, and that nothing else changed.
\<close>

lemma recovery_token_not_replaced:
  "case installHARecoveryToken E path token w of (r, w') \<Rightarrow>
     if contentAt path w \<noteq> None then \<not> isOk r \<and> w' = w
     else if isOk r then (\<lambda>q. contentAt q w') = (\<lambda>q. contentAt q w)(path := Some (Text (token @ [CHR 0x0A])))
     else \<forall>q. q = path \<or> contentAt q w' = contentAt q w"
proof -
  obtain r w' where run: "installHARecoveryToken E path token w = (r, w')" by fastforce
  have "(w' = w \<and> \<not> isOk r) \<or> (contentAt path w = None \<and> placeFile E path (Text (token @ [CHR 0x0A])) w = (Inr (), w'))"
    using run unfolding installHARecoveryToken_def catchA_reads [OF reads_world(3)] tryWrapA_def
    by (auto split: sum.splits if_splits dest!: publishToken_cases
        elim!: tryA_reads_cases [OF _ reads_world(2)] tryA_reads_cases [OF _ reads_wrapA [OF reads_silent(3)]] deferJoin_reads [OF _ reads_fileCall])
  then show ?thesis unfolding run by (auto simp: placeFile_def contentAt_def fun_eq_iff split: if_splits)
qed

text \<open>
  Every effect of every operation on a cluster or a member lies between taking and
  releasing the lock of that cluster, and the lock is released however the operation ends.
\<close>

lemma operations_locked:
  "lockBracket name (w_trace (snd (StartHA E name timeout (w\<lparr>w_trace := []\<rparr>))))
   \<and> lockBracket name (w_trace (snd (StopHA E name (w\<lparr>w_trace := []\<rparr>))))
   \<and> lockBracket name (w_trace (snd (DeleteHA E name keepData (w\<lparr>w_trace := []\<rparr>))))
   \<and> (\<exists>cluster. lockBracket cluster (w_trace (snd (RestoreHA E name input timeout (w\<lparr>w_trace := []\<rparr>)))))
   \<and> lockBracket name (w_trace (snd (RecoverHA E name input fingerprint timeout (w\<lparr>w_trace := []\<rparr>))))
   \<and> lockBracket name (w_trace (snd (StopHAMember E name i timeout (w\<lparr>w_trace := []\<rparr>))))
   \<and> lockBracket name (w_trace (snd (StartHAMember E name i timeout (w\<lparr>w_trace := []\<rparr>))))
   \<and> lockBracket name (w_trace (snd (RestartHAMember E name i timeout (w\<lparr>w_trace := []\<rparr>))))"
proof (intro conjI)
  have start: "unlocked (startHALocked E name timeout)"
    unfolding startHALocked_def by (intro effects unlocked_createHALocked emits_markRunning) simp_all
  have stop: "unlocked (stopHALocked E name)"
    unfolding stopHALocked_def stopMemberIfRunning_def
    by (intro effects unlocked_quiet [OF quiet_preflightHA] emits_markStopped) simp_all
  show "lockBracket name (w_trace (snd (StartHA E name timeout (w\<lparr>w_trace := []\<rparr>))))"
    "lockBracket name (w_trace (snd (StopHA E name (w\<lparr>w_trace := []\<rparr>))))"
    "lockBracket name (w_trace (snd (DeleteHA E name keepData (w\<lparr>w_trace := []\<rparr>))))"
    unfolding StartHA_def StopHA_def DeleteHA_def
    by (intro lockBracket_withLock start stop unlocked_deleteHALocked)+
  show "\<exists>cluster. lockBracket cluster (w_trace (snd (RestoreHA E name input timeout (w\<lparr>w_trace := []\<rparr>))))"
    by (auto simp: RestoreHA_def tryA_reads [OF reads_world_facts(1)] tryA_reads [OF reads_silent(3)] lockBracket_def [of _ "[]"]
        split: sum.split intro!: exI lockBracket_withLock unlocked_restoreHALocked)
  show "lockBracket name (w_trace (snd (RecoverHA E name input fingerprint timeout (w\<lparr>w_trace := []\<rparr>))))"
    by (auto simp: RecoverHA_def tryA_reads [OF reads_checks(6)] tryA_reads [OF reads_silent(3)] lockBracket_def [of _ "[]"]
        split: sum.split intro!: lockBracket_withLock unlocked_recoverHALocked)
  have recover: "unlocked (recoverRestart E config member e)" for config member e
    unfolding recoverRestart_def by (intro effects unlocked_members)
  show "lockBracket name (w_trace (snd (StopHAMember E name i timeout (w\<lparr>w_trace := []\<rparr>))))"
    unfolding StopHAMember_def stopMemberOperation_def
    by (intro lockBracket_member effects emits_setMemberIntent unlocked_members) (auto split: stopResult.split)
  show "lockBracket name (w_trace (snd (StartHAMember E name i timeout (w\<lparr>w_trace := []\<rparr>))))"
    unfolding StartHAMember_def startMemberOperation_def
    by (intro lockBracket_member effects emits_setMemberIntent unlocked_members) simp
  show "lockBracket name (w_trace (snd (RestartHAMember E name i timeout (w\<lparr>w_trace := []\<rparr>))))"
    unfolding RestartHAMember_def restartHAMemberOperation_def
    by (intro lockBracket_member emits_tryWrapA emits_setMemberIntent emits_mono [OF emits_restart_rest isLock_envelope]) simp_all
qed

text \<open>
  Before a recovery creates, starts or resets anything, it has made durable that the cluster is
  meant to be stopped, and has a journal in phase \<open>validated\<close> with the provenance of the volumes.
\<close>

lemma recovery_prepared_first:
  "\<exists>cluster. let T = w_trace (snd (recoverHALocked E name expected t limit header (w\<lparr>w_trace := []\<rparr>))) in
     precedes (wroteIntent E cluster (\<lambda>st. ds_ClusterState st = haDesiredStopped)) risky T
     \<and> precedes (wroteProvenance E cluster) risky T"
proof -
  let ?w = "w\<lparr>w_trace := []\<rparr>"
  show ?thesis
  proof (cases "fst (loadOrReconstructHARecoveryConfig E name (sp_Manifest header) ?w)")
    case (Inl e)
    then show ?thesis by (simp add: recoverHALocked_def tryA_reads [OF reads_checks(2)])
  next
    case (Inr c)
    obtain config0 b where c: "c = (config0, b)" by fastforce
    let ?run = "recoverConfigured E name expected t header (config0\<lparr>hc_StartupTimeout := limit\<rparr>) b"
    have T: "recoverHALocked E name expected t limit header ?w = ?run ?w"
      using Inr by (simp add: recoverHALocked_def tryA_reads [OF reads_checks(2)] c)
    show ?thesis unfolding T Let_def
      using guarded_run [OF guarded_recoverConfigured [OF disjI1 [OF ensures_markStopped]]]
        guarded_run [OF guarded_recoverConfigured [OF disjI2 [OF ensures_preparation]]]
      by fastforce
  qed
qed

text \<open>
  What a recovery accepts as its target is safe: servers exist only with the whole network and all
  volumes; a volume that is missing now, or was new in the interrupted attempt, is recorded as
  new; and without a configuration and an unfinished attempt nothing of the cluster exists
  in the runtime or beside the configuration.
\<close>

lemma recovery_target_safe:
  "case recoveryTarget E config configExists p preflight w of
     (Inl _, _) \<Rightarrow> True
   | (Inr (tokenMissing, provenance), w') \<Rightarrow> w' = w \<and> \<not> inconsistentTarget preflight
       \<and> (\<exists>prior. provenance = mergeHARecoveryVolumeProvenance config (pf_volumeExists preflight) prior
           \<and> (case prior of Some _ \<Rightarrow> True | None \<Rightarrow> if configExists then True else emptyHost E config preflight w))"
proof -
  have safe: "w' = w \<and> \<not> inconsistentTarget preflight
      \<and> (\<exists>prior. provenance = mergeHARecoveryVolumeProvenance config (pf_volumeExists preflight) prior
           \<and> (case prior of Some _ \<Rightarrow> True | None \<Rightarrow> if configExists then True else emptyHost E config preflight w))"
    if ok: "recoveryTarget E config configExists p preflight w = (Inr (missing, provenance), w')" for missing provenance w'
  proof -
    obtain retry where ok1: "tryA (liftA (recoveryProvenance config preflight retry)) (\<lambda>provenance.
       if inconsistentTarget preflight
       then tryA (persistProvenance E retry provenance) (\<lambda>_. errA (Msg ''refusing inconsistent HA recovery target''))
       else tryA (validateHARecoveryTargetToken E (hc_TokenFile config) (sp_token p)) (\<lambda>tokenMissing.
         tryA (if \<not> configExists \<and> retry = None then requireEmptyHost E config preflight else retA ()) (\<lambda>_.
         retA (tokenMissing, provenance)))) w = (Inr (missing, provenance), w')"
      using ok unfolding recoveryTarget_def by (elim tryA_reads_cases [OF _ reads_checks(3)]) auto
    then obtain prov where prov: "recoveryProvenance config preflight retry = Inr prov" by (cases "recoveryProvenance config preflight retry") (simp_all add: tryA_apply)
    have consistent: "\<not> inconsistentTarget preflight"
      using ok1 prov by (auto simp: tryA_apply split: sum.splits prod.splits if_splits)
    have ok2: "tryA (validateHARecoveryTargetToken E (hc_TokenFile config) (sp_token p)) (\<lambda>tokenMissing.
         tryA (if \<not> configExists \<and> retry = None then requireEmptyHost E config preflight else retA ()) (\<lambda>_.
         retA (tokenMissing, prov))) w = (Inr (missing, provenance), w')"
      using ok1 consistent by (simp add: tryA_apply [of "liftA _"] prov)
    then obtain x where ok3: "tryA (if \<not> configExists \<and> retry = None then requireEmptyHost E config preflight else retA ()) (\<lambda>_.
         retA (x, prov)) w = (Inr (missing, provenance), w')"
      by (elim tryA_reads_cases [OF _ reads_checks(4)]) simp_all
    have check: "reads (if \<not> configExists \<and> retry = None then requireEmptyHost E config preflight else retA ())"
      by (intro readonly reads_checks)
    have "provenance = prov \<and> w' = w \<and> (configExists \<or> retry \<noteq> None \<or> emptyHost E config preflight w)"
    proof (rule tryA_reads_cases [OF ok3 check], simp)
      fix u assume passed: "(if \<not> configExists \<and> retry = None then requireEmptyHost E config preflight else retA ()) w = (Inr u, w)"
        and "retA (x, prov) w = (Inr (missing, provenance), w')"
      then show ?thesis
        by (cases "configExists \<or> retry \<noteq> None")
          (auto simp: emptyHost_def requireEmptyHost_def isOk_def tryA_apply split: if_splits sum.splits prod.splits)
    qed
    with consistent prov show ?thesis
      by (auto simp: recoveryProvenance_def split: option.splits)
  qed
  obtain r w' where run: "recoveryTarget E config configExists p preflight w = (r, w')" by fastforce
  show ?thesis
  proof (cases r)
    case (Inr x)
    obtain missing provenance where "x = (missing, provenance)" by fastforce
    with run Inr have ok: "recoveryTarget E config configExists p preflight w = (Inr (missing, provenance), w')" by simp
    from safe [OF this] show ?thesis unfolding ok prod.case sum.case .
  qed (simp add: run)
qed

end
