(* ===== verification/Supervisor.thy ===== *)
theory Supervisor
  imports Recover
begin

text \<open>
  The supervisor of a local cluster (\<open>lifecycle.go\<close>): one reconciliation per tick under the lock
  of the cluster, with an in-memory record of failed repairs and starts in progress, and the retry
  delays of the proxy.  The record survives an error, so a reconciliation returns it together with
  the error (\<open>orReturn\<close>).  An absent entry of a Go map is the zero time, which is before every time.
\<close>

section \<open>Delays\<close>

definition haProxySupervisorInitialRetry :: int where "haProxySupervisorInitialRetry = second"
definition haProxySupervisorMaximumRetry :: int where "haProxySupervisorMaximumRetry = 30 * second"
definition haRepairInitialBackoff :: int where "haRepairInitialBackoff = 30 * second"
definition haRepairMaximumBackoff :: int where "haRepairMaximumBackoff = 300 * second"
definition haSupervisorDefaultInterval :: int where "haSupervisorDefaultInterval = 15 * second"

text \<open>The doubling step both loops share, below the maximum only.\<close>

definition doubled :: "int \<Rightarrow> int \<Rightarrow> int" where
  "doubled maximum delay = (if maximum div 2 < delay then maximum else delay * 2)"

fun backoffLoop :: "nat \<Rightarrow> int \<Rightarrow> int" where
  "backoffLoop 0 delay = delay"
| "backoffLoop (Suc n) delay =
     (if delay < haRepairMaximumBackoff then backoffLoop n (doubled haRepairMaximumBackoff delay) else delay)"

definition nextRetry :: "int \<Rightarrow> int \<Rightarrow> int" where
  "nextRetry maximumRetry retry = (if retry < maximumRetry then doubled maximumRetry retry else retry)"

text \<open>The retry delays of \<open>superviseHAProxy\<close>: the first one, and the one after \<open>n\<close> failures.\<close>

definition proxyRetries :: "int \<Rightarrow> int \<Rightarrow> int \<times> int" where
  "proxyRetries initial maximum = (let retry = (if initial \<le> 0 then haProxySupervisorInitialRetry else initial) in
     (retry, if maximum < retry then retry else maximum))"

definition proxyRetry :: "int \<Rightarrow> int \<Rightarrow> nat \<Rightarrow> int" where
  "proxyRetry initial maximum n = (case proxyRetries initial maximum of (retry, limit) \<Rightarrow> (nextRetry limit ^^ n) retry)"

definition haSupervisorReconcileTimeout :: "int \<Rightarrow> int" where
  "haSupervisorReconcileTimeout interval0 =
     (let interval = (if interval0 \<le> 0 then haSupervisorDefaultInterval else interval0);
          timeout = interval - interval div 5;
          maximum0 = haRuntimeOperationTimeout - second;
          maximum = (if maximum0 \<le> 0 then haRuntimeOperationTimeout else maximum0);
          bounded = (if maximum < timeout then maximum else timeout)
      in if bounded \<le> 0 then second else bounded)"

section \<open>The record of the supervisor\<close>

record haRepairBackoff =
  rb_failures :: int
  rb_next :: int

record haSupervisorState =
  sv_repairs :: "int \<Rightarrow> haRepairBackoff option"
  sv_startupUntil :: "int \<Rightarrow> int option"

definition newHASupervisorState :: haSupervisorState where
  "newHASupervisorState = \<lparr>sv_repairs = (\<lambda>_. None), sv_startupUntil = (\<lambda>_. None)\<rparr>"

definition repairAllowed :: "int \<Rightarrow> haSupervisorState \<Rightarrow> int \<Rightarrow> bool" where
  "repairAllowed now sv i = (case sv_repairs sv i of None \<Rightarrow> True | Some entry \<Rightarrow> \<not> now < rb_next entry)"

definition recordRepair :: "int \<Rightarrow> int \<Rightarrow> bool \<Rightarrow> haSupervisorState \<Rightarrow> haSupervisorState" where
  "recordRepair now i failed sv =
     (if \<not> failed then sv\<lparr>sv_repairs := (sv_repairs sv)(i := None)\<rparr>
      else let failures = (case sv_repairs sv i of None \<Rightarrow> 0 | Some entry \<Rightarrow> rb_failures entry) + 1;
               delay = backoffLoop (nat (failures - 1)) haRepairInitialBackoff
           in sv\<lparr>sv_repairs := (sv_repairs sv)(i \<mapsto> \<lparr>rb_failures = failures, rb_next = now + delay\<rparr>)\<rparr>)"

definition recordStartup :: "int \<Rightarrow> int \<Rightarrow> int \<Rightarrow> haSupervisorState \<Rightarrow> haSupervisorState" where
  "recordStartup now i grace0 sv =
     (let grace = (if grace0 \<le> 0 then haSupervisorDefaultInterval else grace0); until = now + grace in
      if (case sv_startupUntil sv i of None \<Rightarrow> True | Some t \<Rightarrow> t < until)
      then sv\<lparr>sv_startupUntil := (sv_startupUntil sv)(i \<mapsto> until)\<rparr> else sv)"

definition startupInProgress :: "int \<Rightarrow> haSupervisorState \<Rightarrow> int \<Rightarrow> bool" where
  "startupInProgress now sv i = (case sv_startupUntil sv i of None \<Rightarrow> False | Some t \<Rightarrow> now < t)"

definition clearStartup :: "int \<Rightarrow> haSupervisorState \<Rightarrow> haSupervisorState" where
  "clearStartup i sv = sv\<lparr>sv_startupUntil := (sv_startupUntil sv)(i := None)\<rparr>"

section \<open>What a reconciliation may do\<close>

definition ensureAppleContainerService :: "'x env \<Rightarrow> ('x, unit) op" where
  "ensureAppleContainerService E = tryA (runCmd E None [''system'', ''status'']) (\<lambda>status. case cr_err status of
     None \<Rightarrow> retA ()
   | Some e \<Rightarrow> tryA (runCmd E None [''system'', ''start'']) (\<lambda>started. case cr_err started of
       None \<Rightarrow> retA ()
     | Some startErr \<Rightarrow> errA (Joined [commandError ''read Apple container service status'' (cr_stderr status) e,
         commandError ''start Apple container service'' (cr_stderr started) startErr])))"

definition ensureHARecoveryJournalAllowsSupervision :: "'x env \<Rightarrow> string \<Rightarrow> ('x, unit) op" where
  "ensureHARecoveryJournalAllowsSupervision E name = catchA (LoadHARecoveryState E name) (\<lambda>r. case r of
     Inl e \<Rightarrow> if errorsIs e ErrNotExist then retA ()
       else errA (Wrap ''refusing HA supervision because the protected recovery journal cannot be trusted'' e)
   | Inr journal \<Rightarrow> if haRecoveryJournalRuntimeSafe journal then retA ()
       else if haRecoveryJournalRequiresRecover journal
       then errA (Msg ''refusing HA VM reconciliation while recovery journal is in a nonterminal phase; rerun `apc cluster ha recover`'')
       else errA (Msg ''refusing HA VM reconciliation while recovery journal is in a nonterminal phase; rerun `apc cluster ha restore`''))"

definition stopIntentionalUnhealthyHAMemberLocked :: "'x env \<Rightarrow> HAConfig \<Rightarrow> HAMember \<Rightarrow> HAState \<Rightarrow> ('x, unit) op" where
  "stopIntentionalUnhealthyHAMemberLocked E config member state =
     (if \<not> otherHAMembersReady state (hm_ID member)
      then errA (Msg ''refusing to enforce intentional stop for HA member without two Ready peers'')
      else tryA (preflightHAMemberTopology E config (hm_ID member) True) (\<lambda>preflight.
        if (case recordOf preflight (hm_ID member) of None \<Rightarrow> True | Some record0 \<Rightarrow> \<not> stateIs record0 ''running'') then retA ()
        else tryWrapA ''refusing to enforce intentional stop without a proven two-voter etcd majority''
               (validateHAEtcdRepairQuorum E config (hm_ID member)) (\<lambda>_.
          tryA (runHABounded E ''stop intentionally disabled unhealthy HA server member''
                  [''stop'', HAContainerName (hc_Name config) (hm_ID member)]) (\<lambda>_.
          tryA (waitHAMemberStopped E config member) (\<lambda>_. retA ())))))"

definition reconcileHAWithIntentionalMemberStop :: "'x env \<Rightarrow> HAConfig \<Rightarrow> HAState \<Rightarrow> int \<Rightarrow> ('x, unit) op" where
  "reconcileHAWithIntentionalMemberStop E config state intentionalID =
     (case filter (\<lambda>m. ms_ID m \<noteq> intentionalID \<and> \<not> memberUp m) (st_Members state) of
        [] \<Rightarrow> errA (Msg ''intentionally stopped HA member has not reached a stable two-member state'')
      | [target] \<Rightarrow>
          if equalFold (ms_RuntimeState target) ''running''
          then errA (Msg ''HA member is running but unhealthy while another is intentionally stopped; refusing a no-quorum restart'')
          else tryA (preflightHAMemberTopology E config (ms_ID target) True) (\<lambda>preflight.
            let member = memberByID (hc_Members config) (ms_ID target) in
            tryA (reconcileHAMember E config member (recordOrZero preflight (ms_ID target))) (\<lambda>_.
            waitHAMemberReady E config member))
      | _ \<Rightarrow> errA (Msg ''multiple HA members are unavailable while one is intentionally stopped''))"

text \<open>The repair of a running member that is not Ready, with its deferred restart.\<close>

definition repairGuards :: "'x env \<Rightarrow> HAConfig \<Rightarrow> HAMember \<Rightarrow> ('x, unit) op" where
  "repairGuards E config member =
     tryA (preflightHAMemberTopology E config (hm_ID member) False) (\<lambda>_.
     tryA (StatusHA E (hc_Name config)) (\<lambda>state.
     if \<not> otherHAMembersReady state (hm_ID member) then errA (Msg ''refusing to repair unhealthy HA member without two Ready peers'')
     else tryWrapA ''refusing to repair unhealthy HA member without a proven two-voter embedded-etcd majority''
            (validateHAEtcdRepairQuorum E config (hm_ID member)) (\<lambda>_. retA ())))"

definition repairSteps :: "'x env \<Rightarrow> HAConfig \<Rightarrow> HAMember \<Rightarrow> ('x, unit) op" where
  "repairSteps E config member =
     tryA (runHABounded E ''stop unhealthy HA server member'' [''stop'', HAContainerName (hc_Name config) (hm_ID member)]) (\<lambda>_.
     tryA (waitHAMemberStopped E config member) (\<lambda>_.
     tryA (startHAMemberLocked E config member) (\<lambda>_. retA ())))"

definition restartUnhealthyHAMemberLocked :: "'x env \<Rightarrow> HAConfig \<Rightarrow> HAMember \<Rightarrow> ('x, unit) op" where
  "restartUnhealthyHAMemberLocked E config member =
     tryA (repairGuards E config member) (\<lambda>_.
     catchA (repairSteps E config member) (\<lambda>r. case r of
       Inr _ \<Rightarrow> retA ()
     | Inl err \<Rightarrow> catchA (startHAMemberLocked E config member) (\<lambda>recovery. case recovery of
         Inr _ \<Rightarrow> errA err
       | Inl recoveryErr \<Rightarrow> errA (Joined [err, Wrap ''recover unhealthy HA member after failed supervisor repair'' recoveryErr]))))"

section \<open>One reconciliation\<close>

type_synonym 'x reconciliation = "('x, haSupervisorState \<times> gerror option) op"

definition orReturn :: "haSupervisorState \<Rightarrow> ('x, 'a) op \<Rightarrow> ('a \<Rightarrow> 'x reconciliation) \<Rightarrow> 'x reconciliation" where
  "orReturn sv m k = catchA m (\<lambda>r. case r of Inl e \<Rightarrow> retA (sv, Some e) | Inr x \<Rightarrow> k x)"

definition finish :: "haSupervisorState \<Rightarrow> ('x, 'a) op \<Rightarrow> 'x reconciliation" where
  "finish sv m = orReturn sv m (\<lambda>_. retA (sv, None))"

text \<open>One member is meant to be stopped.\<close>

definition enforceMemberStop :: "'x env \<Rightarrow> HAConfig \<Rightarrow> HAState \<Rightarrow> int \<Rightarrow> ('x, unit) op" where
  "enforceMemberStop E config state i = (case haMemberStateByID (st_Members state) i of
     None \<Rightarrow> errA (Msg ''HA status omitted intentionally stopped member'')
   | Some intentional \<Rightarrow>
       if allHAMembersReady state
       then tryA (stopHAMemberLocked E config (memberByID (hc_Members config) i)) (\<lambda>res. case res of
         StopFailed e _ \<Rightarrow> errA e | StopDone _ _ \<Rightarrow> retA ())
       else if otherHAMembersReady state i
       then (if equalFold (ms_RuntimeState intentional) ''running''
             then stopIntentionalUnhealthyHAMemberLocked E config (memberByID (hc_Members config) i) state else retA ())
       else reconcileHAWithIntentionalMemberStop E config state i)"

text \<open>One member is not up, all are meant to run.\<close>

definition superviseTarget :: "'x env \<Rightarrow> HAConfig \<Rightarrow> HAState \<Rightarrow> haSupervisorState \<Rightarrow> HAMemberState \<Rightarrow> 'x reconciliation" where
  "superviseTarget E config state sv targetState = (let target = memberByID (hc_Members config) (ms_ID targetState); i = hm_ID target in
     if \<not> otherHAMembersReady state i
     then retA (sv, Some (Msg ''cannot safely reconcile HA member: the other two node/API pairs are not Ready''))
     else tryA (askExt (e_now E)) (\<lambda>now.
       if \<not> equalFold (ms_RuntimeState targetState) ''running''
       then finish (recordStartup now i (hc_StartupTimeout config) sv) (startHAMemberLocked E config target)
       else if startupInProgress now sv i \<or> \<not> repairAllowed now sv i then retA (sv, None)
       else catchA (restartUnhealthyHAMemberLocked E config target) (\<lambda>r.
         tryA (askExt (e_now E)) (\<lambda>later. retA (recordRepair later i (\<not> isOk r) sv, errOf r)))))"

definition recordStartups :: "int \<Rightarrow> int \<Rightarrow> HAMemberState list \<Rightarrow> haSupervisorState \<Rightarrow> haSupervisorState" where
  "recordStartups now grace ms sv =
     fold (\<lambda>m s. if \<not> equalFold (ms_RuntimeState m) ''running'' then recordStartup now (ms_ID m) grace s else s) ms sv"

definition forgetAll :: "HAMemberState list \<Rightarrow> haSupervisorState \<Rightarrow> haSupervisorState" where
  "forgetAll ms sv = fold (\<lambda>m s. clearStartup (ms_ID m) (recordRepair 0 (ms_ID m) False s)) ms sv"

definition reconcileRunning :: "'x env \<Rightarrow> HAConfig \<Rightarrow> haSupervisorState \<Rightarrow> HAState \<Rightarrow> 'x reconciliation" where
  "reconcileRunning E config sv state =
     (if allHAMembersReady state then retA (forgetAll (st_Members state) sv, None)
      else case filter (\<lambda>m. \<not> memberUp m) (st_Members state) of
        [targetState] \<Rightarrow> superviseTarget E config state sv targetState
      | unready \<Rightarrow> tryA (askExt (e_now E)) (\<lambda>now.
          finish (recordStartups now (hc_StartupTimeout config) unready sv) (startHALocked E (hc_Name config) (180 * second))))"

definition reconcileHALocked :: "'x env \<Rightarrow> string \<Rightarrow> haSupervisorState \<Rightarrow> 'x reconciliation" where
  "reconcileHALocked E name sv =
     orReturn sv (loadHAConfig E name) (\<lambda>config.
     orReturn sv (ensureHARecoveryJournalAllowsSupervision E (hc_Name config)) (\<lambda>_.
     orReturn sv (loadHADesiredState E (hc_Name config)) (\<lambda>desired.
     if ds_ClusterState desired = haDesiredStopped then finish sv (stopHALocked E (hc_Name config))
     else orReturn sv (StatusHA E (hc_Name config)) (\<lambda>state.
       case ds_StoppedMembers desired of
         [i] \<Rightarrow> finish sv (enforceMemberStop E config state i)
       | _ \<Rightarrow> reconcileRunning E config sv state))))"

definition reconcileSupervisedHAAfterService :: "'x env \<Rightarrow> string \<Rightarrow> haSupervisorState \<Rightarrow> 'x reconciliation" where
  "reconcileSupervisedHAAfterService E name sv =
     tryA (queryExt (\<lambda>x. e_lock E x name)) (\<lambda>acquired. case acquired of
       Inl e \<Rightarrow> retA (sv, Some e)
     | Inr _ \<Rightarrow> tryA (emitEvent (Locked name)) (\<lambda>_.
         tryA (reconcileHALocked E name sv) (\<lambda>(sv', err).
         tryA (emitEvent (Unlocked name)) (\<lambda>_.
         tryA (queryExt (\<lambda>x. e_unlock E x name)) (\<lambda>released.
         retA (sv', errorsJoin [err, released]))))))"

definition reconcileSupervisedHA :: "'x env \<Rightarrow> string \<Rightarrow> haSupervisorState \<Rightarrow> 'x reconciliation" where
  "reconcileSupervisedHA E name sv =
     orReturn sv (ensureAppleContainerService E) (\<lambda>_. reconcileSupervisedHAAfterService E name sv)"

section \<open>The loop\<close>

text \<open>
  What the loop of \<open>supervise\<close> for a cluster can reach: it starts with an empty record; a tick reconciles and keeps the
  record whatever the error (it is only logged); between ticks everything outside may change.
\<close>

inductive supervised :: "'x env \<Rightarrow> string \<Rightarrow> haSupervisorState \<Rightarrow> 'x world \<Rightarrow> bool" for E name where
  start: "supervised E name newHASupervisorState w"
| tick: "supervised E name sv w \<Longrightarrow> reconcileSupervisedHA E name sv w = (Inr (sv', err), w') \<Longrightarrow> supervised E name sv' w'"
| outside: "supervised E name sv w \<Longrightarrow> supervised E name sv w'"

inductive_cases supervisedE: "supervised E name sv w"

section \<open>Delays have a closed form\<close>

lemma doubled_min: "delay \<le> maximum \<Longrightarrow> doubled maximum delay = min (2 * delay) maximum"
  by (simp add: doubled_def min_def) presburger

lemma backoffLoop_min:
  "0 < delay \<Longrightarrow> delay \<le> haRepairMaximumBackoff \<Longrightarrow> backoffLoop n delay = min (delay * 2 ^ n) haRepairMaximumBackoff"
proof (induction n arbitrary: delay)
  case (Suc n)
  show ?case
  proof (cases "delay < haRepairMaximumBackoff")
    case True
    let ?next = "min (2 * delay) haRepairMaximumBackoff"
    have "backoffLoop (Suc n) delay = backoffLoop n ?next"
      using True by (simp add: doubled_min)
    also have "\<dots> = min (?next * 2 ^ n) haRepairMaximumBackoff"
      using Suc.prems True by (intro Suc.IH) auto
    also have "\<dots> = min (delay * 2 ^ Suc n) haRepairMaximumBackoff"
    proof (cases "2 * delay \<le> haRepairMaximumBackoff")
      case False
      have "1 \<le> (2::int) ^ n" by simp
      with False Suc.prems True have "haRepairMaximumBackoff \<le> haRepairMaximumBackoff * 2 ^ n" "haRepairMaximumBackoff \<le> 2 * delay * 2 ^ n"
        using mult_mono [of haRepairMaximumBackoff "2 * delay" 1 "2 ^ n"] mult_mono [of haRepairMaximumBackoff haRepairMaximumBackoff 1 "2 ^ n"] by auto
      moreover have "haRepairMaximumBackoff \<noteq> 0" using Suc.prems by simp
      ultimately show ?thesis using False by (simp add: min_def mult.commute mult.left_commute)
    qed (simp add: mult.commute mult.left_commute)
    finally show ?thesis .
  next
    case False
    then have delay: "delay = haRepairMaximumBackoff" using Suc.prems by simp
    have "1 \<le> (2::int) ^ Suc n" by (rule one_le_power) simp
    then have "delay \<le> delay * 2 ^ Suc n" using Suc.prems mult_mono [of delay delay 1 "2 ^ Suc n"] by simp
    then show ?thesis using False delay by (simp add: min_def)
  qed
qed simp

lemma repair_delay: "backoffLoop n haRepairInitialBackoff = min (haRepairInitialBackoff * 2 ^ n) haRepairMaximumBackoff"
  by (rule backoffLoop_min) (simp_all add: haRepairInitialBackoff_def haRepairMaximumBackoff_def second_def)

lemma nextRetry_iterate:
  "0 < retry \<Longrightarrow> retry \<le> limit \<Longrightarrow> (nextRetry limit ^^ n) retry = min (retry * 2 ^ n) limit"
proof (induction n)
  case (Suc n)
  let ?r = "min (retry * 2 ^ n) limit"
  have "(nextRetry limit ^^ Suc n) retry = nextRetry limit ?r" using Suc by simp
  also have "\<dots> = min (2 * ?r) limit"
    using Suc.prems by (auto simp: nextRetry_def doubled_min)
  also have "\<dots> = min (retry * 2 ^ Suc n) limit"
    using Suc.prems by (auto simp: min_def mult.commute mult.left_commute)
  finally show ?case .
qed simp

text \<open>The times of the failures of a member since its last success, the latest first.\<close>

type_synonym repairEvent = "int \<times> int \<times> bool"

definition failureStreak :: "int \<Rightarrow> repairEvent list \<Rightarrow> int list" where
  "failureStreak i events = map fst (takeWhile (\<lambda>(_, _, failed). failed) (rev (filter (\<lambda>(_, j, _). j = i) events)))"

fun allowedAfter :: "int \<Rightarrow> int list \<Rightarrow> bool" where
  "allowedAfter now [] = True"
| "allowedAfter now (t # earlier) = (t + min (haRepairInitialBackoff * 2 ^ length earlier) haRepairMaximumBackoff \<le> now)"

definition recordedRepairs :: "repairEvent list \<Rightarrow> haSupervisorState" where
  "recordedRepairs events = fold (\<lambda>(now, i, failed). recordRepair now i failed) events newHASupervisorState"

lemma failureStreak_snoc:
  "failureStreak i (events @ [(t, j, failed)]) =
     (if j \<noteq> i then failureStreak i events else if failed then t # failureStreak i events else [])"
  by (simp add: failureStreak_def)

lemma recordedRepairs_streak:
  "sv_repairs (recordedRepairs events) i = (case failureStreak i events of
     [] \<Rightarrow> None
   | t # earlier \<Rightarrow> Some \<lparr>rb_failures = int (length earlier) + 1,
       rb_next = t + min (haRepairInitialBackoff * 2 ^ length earlier) haRepairMaximumBackoff\<rparr>)"
proof (induction events rule: rev_induct)
  case Nil
  show ?case by (simp add: recordedRepairs_def newHASupervisorState_def failureStreak_def)
next
  case (snoc e events)
  obtain t j failed where e: "e = (t, j, failed)" by (cases e) auto
  have step: "recordedRepairs (events @ [(t, j, failed)]) = recordRepair t j failed (recordedRepairs events)"
    by (simp add: recordedRepairs_def)
  have succ: "nat (1 + int k) = Suc k" for k by simp
  show ?case
    unfolding e step failureStreak_snoc using snoc.IH
    by (cases "failureStreak i events") (auto simp: recordRepair_def Let_def repair_delay succ)
qed

section \<open>Properties\<close>

text \<open>
  C11: the record of failed repairs refines the history of the repairs: after any sequence of repair
  results a member may be repaired again exactly when its last repair succeeded, or when the delay
  after its latest failure is over, 30 s doubled per earlier failure in a row and at most 5 min;
  the results of the other members do not matter.
\<close>

theorem backoff_refines_history:
  "repairAllowed now (recordedRepairs events) i = allowedAfter now (failureStreak i events)"
  by (cases "failureStreak i events") (auto simp: repairAllowed_def recordedRepairs_streak)

text \<open>
  The delay of the proxy's supervisor after \<open>n\<close> failures is the first delay doubled \<open>n\<close> times,
  cut at the maximum: the doubling never passes the maximum, which is where it would overflow.
\<close>

lemma proxyRetry_exact:
  "case proxyRetries initial maximum of (retry, limit) \<Rightarrow>
     0 < retry \<and> retry \<le> limit \<and> proxyRetry initial maximum n = min (retry * 2 ^ n) limit"
proof -
  obtain retry limit where p: "proxyRetries initial maximum = (retry, limit)" by fastforce
  then have "0 < retry" "retry \<le> limit"
    by (auto simp: proxyRetries_def Let_def haProxySupervisorInitialRetry_def second_def split: if_splits)
  then show ?thesis by (simp add: p proxyRetry_def nextRetry_iterate)
qed

text \<open>
  A reconciliation is always bounded by a positive time below the bound of one command of the
  runtime, and below the interval of the ticks whenever \<open>Supervise\<close> accepts the interval.
\<close>

lemma reconcile_timeout_bounded:
  "let t = haSupervisorReconcileTimeout interval in
     0 < t \<and> t < haRuntimeOperationTimeout \<and> (if interval < 5 * second then True else t < interval)"
  by (auto simp: haSupervisorReconcileTimeout_def Let_def haRuntimeOperationTimeout_def haSupervisorDefaultInterval_def second_def)

section \<open>What a reconciliation may change\<close>

lemma reads_allowsSupervision: "reads (ensureHARecoveryJournalAllowsSupervision E name)"
  unfolding ensureHARecoveryJournalAllowsSupervision_def by (intro readonly reads_world_facts)

lemma orReturn_reads:
  "reads m \<Longrightarrow> orReturn sv m k w = (case fst (m w) of Inl e \<Rightarrow> (Inr (sv, Some e), w) | Inr x \<Rightarrow> k x w)"
  unfolding orReturn_def by (simp add: catchA_reads split: sum.split)

lemma emits_orReturn [effects]: "emits P m \<Longrightarrow> (\<And>x. emits P (k x)) \<Longrightarrow> emits P (orReturn sv m k)"
  unfolding orReturn_def by (intro effects)

lemma emits_finish [effects]: "emits P m \<Longrightarrow> emits P (finish sv m)"
  unfolding finish_def by (intro effects)

lemma traces_catchA_ret: "traces \<Phi> m \<Longrightarrow> (\<And>r. emits (\<lambda>_. False) (h r)) \<Longrightarrow> traces \<Phi> (catchA m h)"
proof (rule tracesI)
  fix w assume m: "traces \<Phi> m" and h: "\<And>r. emits (\<lambda>_. False) (h r)"
  obtain r w1 where run: "m w = (r, w1)" by fastforce
  obtain es where es: "w_trace w1 = w_trace w @ es" "\<Phi> es" using tracesE [OF m run] .
  obtain r' w2 where run2: "h r w1 = (r', w2)" by fastforce
  obtain fs where "w_trace (snd (h r w1)) = w_trace w1 @ fs" "list_all (\<lambda>_. False) fs" by (rule emitsE [OF h])
  then have "w_trace w2 = w_trace w1" by (cases fs) (simp_all add: run2)
  with es show "\<exists>es. w_trace (snd (catchA m h w)) = w_trace w @ es \<and> \<Phi> es" by (simp add: catchA_apply run run2)
qed

lemma traces_finish: "traces \<Phi> m \<Longrightarrow> traces \<Phi> (finish sv m)"
  unfolding finish_def orReturn_def by (rule traces_catchA_ret) (auto split: sum.split)

lemma emits_reconcileHAMember: "emits (envelopeCommand E config member) (reconcileHAMember E config member record0)"
proof -
  have migrate: "emits (envelopeCommand E config member) (migrateLegacy E config member)"
    unfolding migrateLegacy_def
    by (intro effects emits_stop_envelope) (auto simp: Let_def split: stopResult.split option.split intro!: effects emits_startHAMemberLocked)
  show ?thesis unfolding reconcileHAMember_def reconcileWith_def Let_def
    by (intro effects emits_runHAServerEnvelope migrate) (simp add: envelopeCommand_def cmdArgs_def)
qed

text \<open>While member \<open>i\<close> is meant to be stopped: its own \<open>stop\<close>, and commands for another member.\<close>

definition leavesStopped :: "'x env \<Rightarrow> HAConfig \<Rightarrow> int \<Rightarrow> event \<Rightarrow> bool" where
  "leavesStopped E config i e \<longleftrightarrow> quiet e \<or> e = stopCommand (hc_Name config) i
     \<or> (\<exists>other. hm_ID other \<noteq> i \<and> envelopeCommand E config other e)"

lemma leavesStopped_quiet: "emits quiet m \<Longrightarrow> emits (leavesStopped E config i) m"
  by (erule quietly) (simp add: leavesStopped_def)

lemma emits_stopIntentional:
  "emits (stopsOnly config (hm_ID member)) (stopIntentionalUnhealthyHAMemberLocked E config member state)"
proof -
  have q: "emits quiet m \<Longrightarrow> emits (stopsOnly config (hm_ID member)) m" for m :: "('a, 'c) op"
    by (erule quietly) (simp add: stopsOnly_def)
  show ?thesis unfolding stopIntentionalUnhealthyHAMemberLocked_def
    by (intro effects q member_observers) (simp add: stopsOnly_def)
qed

lemma stopsOnly_leaves: "stopsOnly config i e \<Longrightarrow> leavesStopped E config i e"
  by (auto simp: stopsOnly_def leavesStopped_def stopCommand_def)

lemma emits_reconcileOther:
  "emits (leavesStopped E config i) (reconcileHAWithIntentionalMemberStop E config state i)"
proof -
  have other: "emits (leavesStopped E config i) (reconcileHAMember E config (memberByID (hc_Members config) j) r)" if "j \<noteq> i" for j r
    using that by (intro emits_mono [OF emits_reconcileHAMember]) (metis leavesStopped_def memberByID_ID)
  show ?thesis
  proof (cases "filter (\<lambda>m. ms_ID m \<noteq> i \<and> \<not> memberUp m) (st_Members state)")
    case (Cons target rest)
    then have "ms_ID target \<noteq> i" using filter_eq_ConsD [OF Cons] by blast
    with Cons show ?thesis
      unfolding reconcileHAWithIntentionalMemberStop_def
      by (cases rest)
        (auto simp: Let_def intro!: effects other leavesStopped_quiet [OF quiet_preflightTopology] leavesStopped_quiet [OF quiet_waitHAMemberReady])
  qed (simp add: reconcileHAWithIntentionalMemberStop_def)
qed

lemma emits_enforceMemberStop: "emits (leavesStopped E config i) (enforceMemberStop E config state i)"
proof -
  have stop: "emits (leavesStopped E config i) (stopHAMemberLocked E config (memberByID (hc_Members config) i))"
    by (rule emits_mono [OF emits_stopHAMemberLocked]) (metis stopsOnly_leaves memberByID_ID)
  have unhealthy: "emits (leavesStopped E config i) (stopIntentionalUnhealthyHAMemberLocked E config (memberByID (hc_Members config) i) state)"
    by (rule emits_mono [OF emits_stopIntentional]) (metis stopsOnly_leaves memberByID_ID)
  show ?thesis unfolding enforceMemberStop_def
    by (intro effects stop unhealthy emits_reconcileOther) (auto split: stopResult.split)
qed

text \<open>When a running member is repaired: everything that was checked before.\<close>

definition safeToRepair :: "'x env \<Rightarrow> HAConfig \<Rightarrow> HAMember \<Rightarrow> 'x world \<Rightarrow> bool" where
  "safeToRepair E config member w \<longleftrightarrow> (\<exists>preflight w1 state w2 topology w3.
     preflightHAMemberTopology E config (hm_ID member) False w = (Inr preflight, w1)
     \<and> StatusHA E (hc_Name config) w1 = (Inr state, w2) \<and> otherHAMembersReady state (hm_ID member)
     \<and> validateHAEtcdRepairQuorum E config (hm_ID member) w2 = (Inr topology, w3))"

lemma repairGuards_safe: "repairGuards E config member w = (Inr u, w') \<Longrightarrow> safeToRepair E config member w"
  unfolding repairGuards_def safeToRepair_def
  by (elim tryA_InrE tryWrapA_InrE) (auto split: if_splits elim!: tryWrapA_InrE)

lemma quiet_repairGuards: "emits quiet (repairGuards E config member)"
  unfolding repairGuards_def by (intro effects member_observers)

lemma emits_restartUnhealthy: "emits (envelopeCommand E config member) (restartUnhealthyHAMemberLocked E config member)"
proof -
  have q: "emits quiet m \<Longrightarrow> emits (envelopeCommand E config member) m" for m :: "('a, 'c) op"
    by (erule quietly) (simp add: envelopeCommand_def)
  show ?thesis unfolding restartUnhealthyHAMemberLocked_def repairSteps_def
    by (intro effects q [OF quiet_repairGuards] q [OF quiet_waitHAMemberStopped] emits_startHAMemberLocked)
      (simp add: envelopeCommand_def cmdArgs_def)
qed

section \<open>The record stays small\<close>

definition recordGood :: "haSupervisorState \<Rightarrow> bool" where
  "recordGood sv \<longleftrightarrow> dom (sv_repairs sv) \<subseteq> {1, 2, 3} \<and> dom (sv_startupUntil sv) \<subseteq> {1, 2, 3}
     \<and> (\<forall>entry\<in>ran (sv_repairs sv). 1 \<le> rb_failures entry)"

lemma recordGood_new: "recordGood newHASupervisorState"
  by (simp add: recordGood_def newHASupervisorState_def)

lemma recordGood_recordRepair: "recordGood sv \<Longrightarrow> i \<in> {1, 2, 3} \<Longrightarrow> recordGood (recordRepair now i failed sv)"
  by (auto simp: recordGood_def recordRepair_def Let_def ran_def split: option.split)

lemma recordGood_recordStartup: "recordGood sv \<Longrightarrow> i \<in> {1, 2, 3} \<Longrightarrow> recordGood (recordStartup now i grace sv)"
  by (auto simp: recordGood_def recordStartup_def Let_def)

lemma recordGood_clearStartup: "recordGood sv \<Longrightarrow> recordGood (clearStartup i sv)"
  by (auto simp: recordGood_def clearStartup_def)

lemma recordGood_forgetAll: "recordGood sv \<Longrightarrow> ms_ID ` set ms \<subseteq> {1, 2, 3} \<Longrightarrow> recordGood (forgetAll ms sv)"
  unfolding forgetAll_def
  by (induction ms arbitrary: sv) (simp_all add: recordGood_clearStartup recordGood_recordRepair del: insert_iff)

lemma recordGood_recordStartups: "recordGood sv \<Longrightarrow> ms_ID ` set ms \<subseteq> {1, 2, 3} \<Longrightarrow> recordGood (recordStartups now grace ms sv)"
  unfolding recordStartups_def
  by (induction ms arbitrary: sv) (simp_all add: recordGood_recordStartup del: insert_iff)

text \<open>A status lists the three members of the configuration in their order.\<close>

lemma yields_memberStatus_ID: "yields (\<lambda>ms. ms_ID ms = hm_ID member) (memberStatus E config member)"
  unfolding memberStatus_def Let_def by (intro results) (simp_all add: missingMemberState_def)

lemma yields_members_IDs:
  "yields (\<lambda>acc'. map ms_ID acc' = map ms_ID acc @ map hm_ID xs)
     (foldA (\<lambda>acc member. tryA (memberStatus E config member) (\<lambda>ms. retA (acc @ [ms]))) acc xs)"
proof (induction xs arbitrary: acc)
  case Nil
  show ?case unfolding foldA.simps by (intro yields_retA) simp
next
  case (Cons x xs)
  have "yields (\<lambda>a. map ms_ID a = map ms_ID acc @ [hm_ID x]) (tryA (memberStatus E config x) (\<lambda>ms. retA (acc @ [ms])))"
    by (rule yields_tryA_from [OF yields_memberStatus_ID], rule yields_retA) simp
  then show ?case unfolding foldA.simps
    by (rule yields_tryA_from) (rule yields_mono [OF Cons.IH], simp)
qed

lemma yields_StatusHA_IDs: "yields (\<lambda>st. map ms_ID (st_Members st) = [1, 2, 3]) (StatusHA E name)"
  unfolding StatusHA_def
proof (rule yields_tryA_from [where Q = wf_HAConfig])
  show "yields wf_HAConfig (loadHAConfig E name)" by (rule yieldsI) (use loadHAConfig_wf in blast)
next
  fix config assume wf: "wf_HAConfig config"
  show "yields (\<lambda>st. map ms_ID (st_Members st) = [1, 2, 3]) (tryA (foldA (\<lambda>acc member. tryA (memberStatus E config member) (\<lambda>ms. retA (acc @ [ms])))
             [] (hc_Members config)) (\<lambda>members.
     let quorum = int (length (hc_Members config)) div 2 + 1;
         ready = int (length (filter memberReady members)) in
     retA \<lparr>st_Name = hc_Name config, st_NetworkName = hc_NetworkName config, st_Subnet = hc_Subnet config,
       st_Kubeconfig = hc_KubeconfigPath config, st_Quorum = quorum, st_ReadyMembers = ready,
       st_Healthy = (quorum \<le> ready), st_Members = members\<rparr>))"
    unfolding Let_def
    by (rule yields_tryA_from [OF yields_members_IDs], rule yields_retA) (simp add: wf_member_ids [OF wf])
qed

lemma yields_orReturn:
  "yields Q m \<Longrightarrow> R (sv, None) \<Longrightarrow> (\<And>e. R (sv, Some e)) \<Longrightarrow> (\<And>x. Q x \<Longrightarrow> yields R (k x)) \<Longrightarrow> yields R (orReturn sv m k)"
  unfolding orReturn_def by (rule yields_catchA_from) (auto split: sum.split intro: results)

lemma yields_orReturn_any:
  "R (sv, None) \<Longrightarrow> (\<And>e. R (sv, Some e)) \<Longrightarrow> (\<And>x. yields R (k x)) \<Longrightarrow> yields R (orReturn sv m k)"
  unfolding orReturn_def by (rule yields_catchA) (auto split: sum.split intro: results)

abbreviation keepsRecord :: "'x reconciliation \<Rightarrow> bool" where
  "keepsRecord \<equiv> yields (\<lambda>(sv, err). recordGood sv)"

lemma keepsRecord_finish: "recordGood sv \<Longrightarrow> keepsRecord (finish sv m)"
  unfolding finish_def by (rule yields_orReturn_any) (auto intro: results)

lemma keepsRecord_superviseTarget:
  "recordGood sv \<Longrightarrow> ms_ID target \<in> {1, 2, 3} \<Longrightarrow> keepsRecord (superviseTarget E config state sv target)"
  unfolding superviseTarget_def Let_def memberByID_ID
  by (intro yields_if yields_tryA yields_catchA yields_retA keepsRecord_finish recordGood_recordStartup)
    (auto simp: recordGood_recordRepair)

lemma keepsRecord_reconcileRunning:
  assumes "recordGood sv" "map ms_ID (st_Members state) = [1, 2, 3]"
  shows "keepsRecord (reconcileRunning E config sv state)"
proof -
  let ?unready = "filter (\<lambda>m. \<not> memberUp m) (st_Members state)"
  have ids: "ms_ID ` set (st_Members state) \<subseteq> {1, 2, 3}"
    using arg_cong [OF assms(2), of set] by simp
  then have sub: "ms_ID ` set ?unready \<subseteq> {1, 2, 3}" by auto
  have many: "keepsRecord (tryA (askExt (e_now E)) (\<lambda>now.
      finish (recordStartups now (hc_StartupTimeout config) ?unready sv) (startHALocked E (hc_Name config) (180 * second))))"
    by (intro yields_tryA keepsRecord_finish recordGood_recordStartups assms(1) sub)
  show ?thesis
  proof (cases "allHAMembersReady state")
    case True
    then show ?thesis by (simp add: reconcileRunning_def yields_retA recordGood_forgetAll assms(1) ids del: retA_apply)
  next
    case False
    consider (one) t where "?unready = [t]" | (other) "\<nexists>t. ?unready = [t]" by blast
    then show ?thesis
    proof cases
      case one
      then have "ms_ID t \<in> {1, 2, 3}" using sub by simp
      with one False show ?thesis by (simp add: reconcileRunning_def keepsRecord_superviseTarget assms(1) del: insert_iff)
    next
      case other
      then show ?thesis using many False unfolding reconcileRunning_def by (auto split: list.split)
    qed
  qed
qed

lemma keepsRecord_reconcileHALocked: "recordGood sv \<Longrightarrow> keepsRecord (reconcileHALocked E name sv)"
  unfolding reconcileHALocked_def
  by (intro yields_orReturn_any yields_if keepsRecord_finish yields_orReturn [OF yields_StatusHA_IDs])
    (auto split: list.split intro: keepsRecord_finish keepsRecord_reconcileRunning)

lemma keepsRecord_tick: "recordGood sv \<Longrightarrow> keepsRecord (reconcileSupervisedHA E name sv)"
  unfolding reconcileSupervisedHA_def reconcileSupervisedHAAfterService_def
  by (intro yields_orReturn_any yields_tryA yields_case_sum yields_retA
      yields_tryA_from [OF keepsRecord_reconcileHALocked])
    (auto intro: results)

section \<open>Properties\<close>

text \<open>
  C9: the supervisor does not touch a cluster whose recovery is unfinished: with a journal
  that cannot be trusted, or that is not safe for the runtime, a reconciliation is an error and
  changes nothing at all.
\<close>

theorem supervisor_waits_for_recovery:
  "case fst (loadHAConfig E name w) of Inl _ \<Rightarrow> True | Inr config \<Rightarrow>
     (let allowed = (case fst (LoadHARecoveryState E (hc_Name config) w) of
          Inl e \<Rightarrow> errorsIs e ErrNotExist | Inr journal \<Rightarrow> haRecoveryJournalRuntimeSafe journal)
      in if allowed then True else \<exists>e. reconcileHALocked E name sv w = (Inr (sv, Some e), w))"
proof (cases "fst (loadHAConfig E name w)")
  case (Inr config)
  have "\<not> isOk (fst (ensureHARecoveryJournalAllowsSupervision E (hc_Name config) w))"
    if "\<not> (case fst (LoadHARecoveryState E (hc_Name config) w) of
          Inl e \<Rightarrow> errorsIs e ErrNotExist | Inr journal \<Rightarrow> haRecoveryJournalRuntimeSafe journal)"
    using that by (auto simp: ensureHARecoveryJournalAllowsSupervision_def catchA_reads [OF reads_world_facts(3)] split: sum.splits)
  then show ?thesis unfolding reconcileHALocked_def
    by (auto simp: Inr Let_def orReturn_reads [OF reads_world_facts(1)] orReturn_reads [OF reads_allowsSupervision] isOk_def split: sum.splits)
qed simp

text \<open>
  C8: the supervisor never works against the intent of the operator.  When the cluster is meant to be
  stopped, all a reconciliation changes in the runtime is to stop members, 3, 2, 1; when member \<open>i\<close> is meant
  to be stopped, it stops \<open>i\<close> or works on another member, and never starts \<open>i\<close>.
\<close>

theorem supervisor_respects_intent:
  "let w0 = w\<lparr>w_trace := []\<rparr>; T = w_trace (snd (reconcileHALocked E name sv w0)) in
   case fst (loadHAConfig E name w0) of Inl _ \<Rightarrow> T = [] | Inr config \<Rightarrow>
   case fst (loadHADesiredState E (hc_Name config) w0) of Inl _ \<Rightarrow> T = [] | Inr desired \<Rightarrow>
     if ds_ClusterState desired = haDesiredStopped
     then \<exists>cluster. subseq (filter mutates T) (map (stopCommand cluster) [3, 2, 1])
     else case ds_StoppedMembers desired of [i] \<Rightarrow> list_all (leavesStopped E config i) T | _ \<Rightarrow> True"
proof -
  let ?w = "w\<lparr>w_trace := []\<rparr>"
  show ?thesis
  proof (cases "fst (loadHAConfig E name ?w)")
    case config: (Inr config)
    let ?allowed = "fst (ensureHARecoveryJournalAllowsSupervision E (hc_Name config) ?w)"
    note run = reconcileHALocked_def orReturn_reads [OF reads_world_facts(1)] config orReturn_reads [OF reads_allowsSupervision]
      orReturn_reads [OF reads_world_facts(2)]
    have stopped: "\<exists>cluster. subseq (filter mutates (w_trace (snd (finish sv (stopHALocked E (hc_Name config)) ?w))))
        (map (stopCommand cluster) [3, 2, 1])"
      using traces_run [OF traces_finish [OF traces_stopHALocked]] by blast
    have member: "list_all (leavesStopped E config i) (w_trace (snd (orReturn sv (StatusHA E (hc_Name config)) (\<lambda>state.
        finish sv (enforceMemberStop E config state i)) ?w)))" for i
      by (rule emits_run) (intro effects emits_enforceMemberStop leavesStopped_quiet quiet_StatusHA)
    show ?thesis unfolding Let_def
      by (cases ?allowed; cases "fst (loadHADesiredState E (hc_Name config) ?w)")
        (use stopped member in \<open>auto simp: run split: list.splits\<close>)
  qed (simp add: reconcileHALocked_def orReturn_reads [OF reads_world_facts(1)])
qed

text \<open>
  C10: a running member is stopped for a repair only on proof that the cluster survives it: the
  supervisor issues no changing command unless the topology was checked, the other two members were Ready in a
  status just taken, and the two other etcd voters formed a majority; and all it issues is for that member's container.
\<close>

theorem repair_needs_majority:
  "let w0 = w\<lparr>w_trace := []\<rparr>; T = w_trace (snd (restartUnhealthyHAMemberLocked E config member w0)) in
   list_all (envelopeCommand E config member) T \<and> (filter mutates T = [] \<or> safeToRepair E config member w0)"
proof -
  let ?w = "w\<lparr>w_trace := []\<rparr>"
  obtain r w' where guards: "repairGuards E config member ?w = (r, w')" by fastforce
  have quiet: "list_all quiet (w_trace w')" by (rule emits_step [OF quiet_repairGuards guards]) simp
  have "filter mutates (w_trace (snd (restartUnhealthyHAMemberLocked E config member ?w))) = [] \<or> safeToRepair E config member ?w"
  proof (cases r)
    case (Inl e)
    then show ?thesis using quiet
      by (auto simp: restartUnhealthyHAMemberLocked_def tryA_apply guards filter_empty_conv list_all_iff quiet_not_mutates)
  next
    case (Inr u)
    with repairGuards_safe guards show ?thesis by blast
  qed
  then show ?thesis using emits_run [OF emits_restartUnhealthy] by (simp add: Let_def)
qed

text \<open>
  In every state the loop of the supervisor can reach, whatever the host does between the ticks, the
  record has entries for the three members only, and an entry of a repair counts at least one failure.
\<close>

lemma supervised_record_good: "supervised E name sv w \<Longrightarrow> recordGood sv"
proof (induction rule: supervised.induct)
  case (tick sv w sv' err w')
  with keepsRecord_tick have "keepsRecord (reconcileSupervisedHA E name sv)" by blast
  from yieldsD [OF this tick.hyps(2)] show ?case by simp
qed (simp_all add: recordGood_new)

theorem supervised_record_good_witness:
  "\<exists>sv err w'. reconcileSupervisedHA idleEnv ''lab'' newHASupervisorState emptyWorld = (Inr (sv, Some err), w') \<and> recordGood sv"
proof -
  have step: "\<exists>sv err w'. reconcileSupervisedHA idleEnv ''lab'' newHASupervisorState emptyWorld = (Inr (sv, Some err), w')"
    by (simp add: reconcileSupervisedHA_def orReturn_def ensureAppleContainerService_def runCmd_def act_apply queryCmd_def emitEvent_def idleEnv_def scriptedEnv_def failedResult_def)
  then show ?thesis using supervised_record_good [OF supervised.tick [OF supervised.start]] by blast
qed

end
