(* ===== verification/Snapshot.thy ===== *)
theory Snapshot
  imports Recover
begin

text \<open>
  \<open>SnapshotHA\<close> (\<open>ha_recovery.go\<close> lines 186 to 453): a native etcd snapshot is taken, copied out of
  the volume of one stopped member by a helper container, described by a manifest, and published
  by the rename of a private directory, with the stopped member started again before that.  The
  files the helper leaves in the mounted directory are \<open>e_shared\<close>; the two deferred flags of the
  code are arguments of the phases, which are cut where the code changes a flag.
\<close>

record HASnapshotResult =
  sr_Path :: string
  sr_Bytes :: int
  sr_DataSHA256 :: string
  sr_ManifestSHA256 :: string
  sr_CreatedAt :: int
  sr_Manifest :: HASnapshotManifest
  sr_Warning :: string

definition haSnapshotGuestDirectory :: string where
  "haSnapshotGuestDirectory = ''/var/lib/rancher/k3s/server/db/snapshots''"

section \<open>Files and directories\<close>

definition prepareHASnapshotOutput :: "'x env \<Rightarrow> string \<Rightarrow> ('x, string) op" where
  "prepareHASnapshotOutput E output =
     (if trimSpace output = [] then errA (Msg ''HA snapshot output directory is required'')
      else tryWrapA ''resolve HA snapshot output path'' (liftA (e_abs E output)) (\<lambda>abs0.
        let abs = cleanPath abs0; parent = dirPath abs in
        if basePath abs = ''.'' \<or> abs = ''/'' \<or> \<not> mountSafe abs then errA (Msg ''HA snapshot output path is not mount-safe'')
        else tryWrapA ''create HA snapshot parent directory'' (dirOp E ''mkdirAll'' parent) (\<lambda>_.
          tryA (askExt (\<lambda>x. e_evalLinks E x parent)) (\<lambda>resolvedR.
          tryWrapA ''resolve HA snapshot parent directory'' (liftA resolvedR) (\<lambda>resolvedParent.
          let target = joinPath [resolvedParent, basePath abs] in
          catchA (dirInfo E target) (\<lambda>r. case r of
            Inr _ \<Rightarrow> errA (Msg ''HA snapshot output already exists'')
          | Inl e \<Rightarrow> if errorsIs e ErrNotExist then retA target else errA (Wrap ''inspect HA snapshot output'' e)))))))"

definition chmodFile :: "'x env \<Rightarrow> string \<Rightarrow> int \<Rightarrow> string \<Rightarrow> ('x, unit) op" where
  "chmodFile E path mode msg = tryA (fileCall E ''chmod'' path msg) (\<lambda>_.
     updA (\<lambda>w. w\<lparr>w_fs := (w_fs w)(path := map_option (\<lambda>n. n\<lparr>fn_info := (fn_info n)\<lparr>fi_perm := mode\<rparr>\<rparr>) (w_fs w path))\<rparr>))"

definition secureHAArtifact :: "'x env \<Rightarrow> string \<Rightarrow> ('x, unit) op" where
  "secureHAArtifact E path =
     tryWrapA ''inspect HA snapshot artifact'' (statFile E path) (\<lambda>info.
     if fi_symlink info \<or> \<not> fi_regular info then errA (Msg ''HA snapshot artifact must be a regular file'')
     else tryA (chmodFile E path 384 ''secure HA snapshot artifact'') (\<lambda>_.
       tryA (fileCall E ''open'' path ''open HA snapshot artifact'') (\<lambda>_.
       tryA (fileCall E ''sync'' path ''sync HA snapshot artifact'') (\<lambda>_.
       fileCall E ''close'' path ''close HA snapshot artifact''))))"

definition syncHAFile :: "'x env \<Rightarrow> string \<Rightarrow> ('x, unit) op" where
  "syncHAFile E path = tryA (fileCall E ''open'' path ''open'') (\<lambda>_.
     deferJoin (fileCall E ''close'' path ''close'') (fileCall E ''sync'' path ''sync''))"

text \<open>\<open>os.Rename\<close> of a directory: the files in it appear under the new name.\<close>

definition renameTree :: "'x env \<Rightarrow> string \<Rightarrow> string \<Rightarrow> ('x, unit) op" where
  "renameTree E source target = tryA (dirOp E ''rename'' target) (\<lambda>_.
     updA (\<lambda>w. w\<lparr>w_fs := (\<lambda>q. if insideDirectory target q then w_fs w (source @ drop (length target) q)
                          else if insideDirectory source q then None else w_fs w q),
              w_trace := w_trace w @ [Renamed source target]\<rparr>))"

definition hashHAArtifact :: "'x env \<Rightarrow> string \<Rightarrow> string \<Rightarrow> int \<Rightarrow> ('x, HASnapshotFileMetadata) op" where
  "hashHAArtifact E path name maximumBytes =
     tryA (askExt (e_ctxErr E)) (\<lambda>c. tryA (getA (observeFile E path)) (\<lambda>ob.
     tryA (liftA (hashHAArtifactWithIdentity E c name maximumBytes None ob)) (\<lambda>(metadata, _). retA metadata)))"

text \<open>A copy made by the helper: the command, and what it left in the mounted directory.\<close>

definition copyOut :: "'x env \<Rightarrow> string \<Rightarrow> string list \<Rightarrow> string \<Rightarrow> ('x, unit) op" where
  "copyOut E operation args path = catchA (runHARecoveryCommand E operation args) (\<lambda>r.
     tryA (updA (\<lambda>w. w\<lparr>w_fs := (w_fs w)(path := e_shared E (w_ext w) path)\<rparr>)) (\<lambda>_.
     case r of Inl e \<Rightarrow> errA e | Inr _ \<Rightarrow> retA ()))"

section \<open>The snapshot in the cluster\<close>

definition newHASnapshotName :: "'x env \<Rightarrow> string \<Rightarrow> ('x, string) op" where
  "newHASnapshotName E clusterName = tryA (askExt (e_random E)) (\<lambda>random.
     tryWrapA ''generate HA snapshot name'' (liftA random) (\<lambda>digits.
     tryA (askExt (e_stamp E)) (\<lambda>stamp.
     let name = ''apc-'' @ clusterName @ ''-'' @ stamp @ ''-'' @ digits in
     if \<not> validHAArtifactName name then errA (Msg ''generated invalid HA snapshot name'') else retA name)))"

definition snapshotMatches :: "document \<Rightarrow> string list" where
  "snapshotMatches stdout = filter (\<lambda>l. l \<noteq> []) (map trimSpace (splitOn CHR 0x0A (trimSpace (docText stdout))))"

definition findCreatedHASnapshot :: "'x env \<Rightarrow> HAConfig \<Rightarrow> HAMember \<Rightarrow> string \<Rightarrow> ('x, string) op" where
  "findCreatedHASnapshot E config member prefix0 =
     tryA (runHARecoveryCommand E ''locate newly created K3s snapshot''
       [''exec'', HAContainerName (hc_Name config) (hm_ID member), ''find'', haSnapshotGuestDirectory,
        ''-maxdepth'', ''1'', ''-type'', ''f'', ''-name'', prefix0 @ ''*'']) (\<lambda>stdout.
     case snapshotMatches stdout of
       [line] \<Rightarrow> (let guestPath = cleanPath line in
         if dirPath guestPath \<noteq> haSnapshotGuestDirectory \<or> \<not> hasPrefix (basePath guestPath) prefix0
            \<or> \<not> validHAArtifactName (basePath guestPath)
         then errA (Msg ''K3s returned unsafe snapshot path'') else retA guestPath)
     | _ \<Rightarrow> errA (Msg ''K3s snapshot discovery returned another number of files than one''))"

section \<open>The window in which the source is stopped\<close>

text \<open>
  The deferred recovery of the source, with the flags \<open>helperStarted\<close> and \<open>sourceStopped\<close>.
\<close>

definition restartSource :: "'x env \<Rightarrow> HAConfig \<Rightarrow> HAMember \<Rightarrow> ('x, unit) op" where
  "restartSource E config source =
     tryA (startHAMemberForRecovery E config source) (\<lambda>_. waitHAMemberReady E config source)"

definition recoverSnapshotSource ::
    "'x env \<Rightarrow> HAConfig \<Rightarrow> HAMember \<Rightarrow> string \<Rightarrow> bool \<Rightarrow> bool \<Rightarrow> gerror \<Rightarrow> ('x, 'a) op" where
  "recoverSnapshotSource E config source temporary helperStarted sourceStopped err =
     catchA (if helperStarted then deleteHARecoveryHelper E (snapshotHelperSpec config source temporary) else retA ()) (\<lambda>rd.
     catchA (if sourceStopped then restartSource E config source else retA ()) (\<lambda>rs.
     case errorsJoin [errOf rd, errOf rs] of
       None \<Rightarrow> errA err
     | Some j \<Rightarrow> errA (Joined [err, Wrap ''recover source member after HA snapshot failure'' j])))"

text \<open>\<open>copyPhase\<close>: from the start of the helper to its deletion.\<close>

definition copyPhase :: "'x env \<Rightarrow> HAConfig \<Rightarrow> HAMember \<Rightarrow> string \<Rightarrow> string \<Rightarrow> ('x, unit) op" where
  "copyPhase E config source temporary guestSnapshotPath = (let spec = snapshotHelperSpec config source temporary in
     tryA (startHARecoveryHelper E spec) (\<lambda>_.
     tryA (copyOut E ''copy K3s etcd snapshot outside member volume''
             [''exec'', hs_Name spec, ''/bin/cp'', joinPath [''/data'', trimPrefix guestSnapshotPath ''/var/lib/rancher/k3s/''],
              joinPath [''/backup'', haSnapshotDataFilename]] (joinPath [temporary, haSnapshotDataFilename])) (\<lambda>_.
     tryA (copyOut E ''copy matching K3s server token into snapshot package''
             [''exec'', hs_Name spec, ''/bin/cp'', joinPath [''/data'', ''server/token''],
              joinPath [''/backup'', haSnapshotTokenFilename]] (joinPath [temporary, haSnapshotTokenFilename])) (\<lambda>_.
     tryA (runHARecoveryCommand E ''flush HA snapshot package'' [''exec'', hs_Name spec, ''/bin/sync'']) (\<lambda>_.
     deleteHARecoveryHelper E spec)))))"

definition snapshotManifest :: "int \<Rightarrow> HAConfig \<Rightarrow> string \<Rightarrow> HAMember \<Rightarrow> string \<Rightarrow> string
    \<Rightarrow> HASnapshotFileMetadata \<Rightarrow> HASnapshotFileMetadata \<Rightarrow> HASnapshotManifest" where
  "snapshotManifest createdAt config identity source version guestSnapshotPath snapshotMetadata tokenMetadata =
     \<lparr>mf_APIVersion = haSnapshotAPIVersion, mf_Kind = haSnapshotKind, mf_FormatVersion = haSnapshotFormatVersion,
      mf_CreatedAt = createdAt, mf_ClusterName = hc_Name config, mf_ClusterIdentity = identity,
      mf_Topology = haSnapshotTopology config, mf_ImageReference = hc_Image config, mf_ImageArchitecture = ''arm64'',
      mf_K3s = \<lparr>km_Version = version, km_SnapshotName = basePath guestSnapshotPath, km_SourceMemberID = hm_ID source,
        km_SourceNodeName = hm_NodeName source, km_CreatedAt = createdAt\<rparr>,
      mf_Snapshot = snapshotMetadata, mf_ServerToken = tokenMetadata\<rparr>"

text \<open>\<open>describePhase\<close>: the copies are secured and described by the manifest.\<close>

definition writeManifest :: "'x env \<Rightarrow> string \<Rightarrow> HASnapshotManifest \<Rightarrow> ('x, HASnapshotFileMetadata) op" where
  "writeManifest E temporary manifest = (let manifestPath = joinPath [temporary, haSnapshotManifestFilename] in
     tryWrapA ''write HA snapshot manifest'' (writePrivateFileAtomic E manifestPath (encodeManifest manifest)) (\<lambda>_.
     tryA (chmodFile E manifestPath 256 ''make HA snapshot manifest immutable'') (\<lambda>_.
     tryWrapA ''flush HA snapshot manifest metadata'' (syncHAFile E manifestPath) (\<lambda>_.
     wrapA ''fingerprint HA snapshot manifest'' (hashHAArtifact E manifestPath haSnapshotManifestFilename 1048576)))))"

definition readCopiedToken :: "'x env \<Rightarrow> string \<Rightarrow> string \<Rightarrow> ('x, string) op" where
  "readCopiedToken E temporary token = tryA (getA (observeFile E (joinPath [temporary, haSnapshotTokenFilename]))) (\<lambda>ob.
     tryWrapA ''validate copied HA server token'' (liftA (readStrictTokenFileWithIdentity None ob)) (\<lambda>backupToken.
     if \<not> sameK3sServerToken token backupToken
     then errA (Msg ''copied HA server token does not match the protected cluster token'') else retA backupToken))"

definition describeCopies :: "'x env \<Rightarrow> HAConfig \<Rightarrow> HAMember \<Rightarrow> string \<Rightarrow> string \<Rightarrow> string \<Rightarrow> string
    \<Rightarrow> HASnapshotFileMetadata \<Rightarrow> HASnapshotFileMetadata \<Rightarrow> ('x, HASnapshotManifest \<times> HASnapshotFileMetadata) op" where
  "describeCopies E config source version temporary guestSnapshotPath backupToken snapshotMetadata tokenMetadata =
     tryWrapA ''validate K3s server token binding'' (liftA (k3sServerTokenCredential backupToken)) (\<lambda>tokenCredential.
     tryA (askExt (e_now E)) (\<lambda>createdAt.
     let manifest = snapshotManifest createdAt config (haClusterIdentity E config (e_sha256 E (Text tokenCredential)))
           source version guestSnapshotPath snapshotMetadata tokenMetadata in
     tryA (writeManifest E temporary manifest) (\<lambda>manifestMetadata. retA (manifest, manifestMetadata))))"

definition describePhase :: "'x env \<Rightarrow> HAConfig \<Rightarrow> HAMember \<Rightarrow> string \<Rightarrow> string \<Rightarrow> string \<Rightarrow> string
    \<Rightarrow> ('x, HASnapshotManifest \<times> HASnapshotFileMetadata) op" where
  "describePhase E config source version token temporary guestSnapshotPath =
     tryA (secureHAArtifact E (joinPath [temporary, haSnapshotDataFilename])) (\<lambda>_.
     tryA (secureHAArtifact E (joinPath [temporary, haSnapshotTokenFilename])) (\<lambda>_.
     tryA (readCopiedToken E temporary token) (\<lambda>backupToken.
     tryA (liftA (haSnapshotArtifactMaximum config)) (\<lambda>snapshotMaximum.
     tryA (hashHAArtifact E (joinPath [temporary, haSnapshotDataFilename]) haSnapshotDataFilename snapshotMaximum) (\<lambda>snapshotMetadata.
     tryA (hashHAArtifact E (joinPath [temporary, haSnapshotTokenFilename]) haSnapshotTokenFilename haRecoveryTokenMaximum) (\<lambda>tokenMetadata.
     if fm_Size snapshotMetadata = 0 then errA (Msg ''K3s snapshot is empty'')
     else describeCopies E config source version temporary guestSnapshotPath backupToken snapshotMetadata tokenMetadata))))))"

text \<open>\<open>publishPhase\<close>: the cluster is whole again; the package is made durable and renamed.\<close>

definition snapshotResult :: "string \<Rightarrow> HASnapshotManifest \<Rightarrow> HASnapshotFileMetadata \<Rightarrow> HASnapshotResult" where
  "snapshotResult output manifest manifestMetadata = \<lparr>sr_Path = output,
     sr_Bytes = fm_Size (mf_Snapshot manifest) + fm_Size (mf_ServerToken manifest), sr_DataSHA256 = fm_SHA256 (mf_Snapshot manifest),
     sr_ManifestSHA256 = fm_SHA256 manifestMetadata, sr_CreatedAt = mf_CreatedAt manifest, sr_Manifest = manifest, sr_Warning = []\<rparr>"

definition publishPhase :: "'x env \<Rightarrow> HAConfig \<Rightarrow> string \<Rightarrow> string \<Rightarrow> HASnapshotManifest \<Rightarrow> HASnapshotFileMetadata
    \<Rightarrow> ('x, HASnapshotResult) op" where
  "publishPhase E config temporary output manifest manifestMetadata =
     tryA (waitHAClusterReady E config) (\<lambda>_.
     tryWrapA ''durably flush HA snapshot package'' (dirOp E ''sync'' temporary) (\<lambda>_.
     tryWrapA ''publish HA snapshot'' (renameTree E temporary output) (\<lambda>_.
     tryWrapA ''durably publish HA snapshot package'' (dirOp E ''sync'' (dirPath output)) (\<lambda>_.
     retA (snapshotResult output manifest manifestMetadata)))))"

text \<open>A phase whose failure runs the deferred recovery with the flags of that moment.\<close>

definition phase :: "('x, 'a) op \<Rightarrow> (gerror \<Rightarrow> ('x, 'b) op) \<Rightarrow> ('a \<Rightarrow> ('x, 'b) op) \<Rightarrow> ('x, 'b) op" where
  "phase m failed next = catchA m (\<lambda>r. case r of Inl e \<Rightarrow> failed e | Inr x \<Rightarrow> next x)"

definition snapshotWindow :: "'x env \<Rightarrow> HAConfig \<Rightarrow> HAMember \<Rightarrow> string \<Rightarrow> string \<Rightarrow> string \<Rightarrow> string \<Rightarrow> string
    \<Rightarrow> ('x, HASnapshotResult) op" where
  "snapshotWindow E config source version token temporary output guestSnapshotPath =
     (let recover = recoverSnapshotSource E config source temporary in
      phase (runHABounded E ''stop HA snapshot source member'' [''stop'', HAContainerName (hc_Name config) (hm_ID source)]) (recover False True) (\<lambda>_.
      phase (copyPhase E config source temporary guestSnapshotPath) (recover True True) (\<lambda>_.
      phase (describePhase E config source version token temporary guestSnapshotPath) (recover False True) (\<lambda>(manifest, manifestMetadata).
      phase (restartSource E config source) (recover False True) (\<lambda>_.
      phase (publishPhase E config temporary output manifest manifestMetadata) (recover False False) retA)))))"

section \<open>\<open>SnapshotHA\<close>\<close>

definition temporaryDirectory :: "'x env \<Rightarrow> string \<Rightarrow> ('x, string) op" where
  "temporaryDirectory E output = tryWrapA ''create temporary HA snapshot directory'' (dirOp E ''mkdirTemp'' (dirPath output)) (\<lambda>_.
     tryA (askExt (e_random E)) (\<lambda>random. tryWrapA ''create temporary HA snapshot directory'' (liftA random) (\<lambda>suffix.
     retA (joinPath [dirPath output, ''.'' @ basePath output @ ''.partial-'' @ suffix]))))"

definition snapshotExport :: "'x env \<Rightarrow> HAConfig \<Rightarrow> HAMember \<Rightarrow> string \<Rightarrow> string \<Rightarrow> string \<Rightarrow> string
    \<Rightarrow> ('x, HASnapshotResult) op" where
  "snapshotExport E config source version token output guestSnapshotPath =
     tryA (temporaryDirectory E output) (\<lambda>temporary.
     catchA (tryWrapA ''secure temporary HA snapshot directory'' (dirOp E ''chmod'' temporary) (\<lambda>_.
       snapshotWindow E config source version token temporary output guestSnapshotPath)) (\<lambda>r.
     catchA (removeTree E temporary) (\<lambda>_. liftA r)))"

text \<open>The deferred removal of the native snapshot from the volume.\<close>

definition removeGuestSnapshot :: "'x env \<Rightarrow> HAConfig \<Rightarrow> HAMember \<Rightarrow> string \<Rightarrow> gerror + HASnapshotResult \<Rightarrow> ('x, HASnapshotResult) op" where
  "removeGuestSnapshot E config source guestSnapshotPath r =
     catchA (runHARecoveryCommand E ''remove exported K3s snapshot from member volume''
       [''exec'', HAContainerName (hc_Name config) (hm_ID source), ''/bin/k3s'', ''etcd-snapshot'', ''delete'', basePath guestSnapshotPath]) (\<lambda>c.
     case c of
       Inr _ \<Rightarrow> liftA r
     | Inl cleanupErr \<Rightarrow> (case r of
         Inr result \<Rightarrow> if sr_Path result \<noteq> []
           then retA (result\<lparr>sr_Warning := ''snapshot package is safely published, but the temporary in-cluster snapshot could not be removed: '' @ errorText cleanupErr\<rparr>)
           else errA (Joined [Wrap ''remove temporary in-cluster snapshot after HA snapshot failure'' cleanupErr])
       | Inl e \<Rightarrow> errA (Joined [e, Wrap ''remove temporary in-cluster snapshot after HA snapshot failure'' cleanupErr])))"

definition lowestMember :: "HAMemberState list \<Rightarrow> HAMemberState" where
  "lowestMember ms = fold (\<lambda>candidate best. if ms_ID candidate < ms_ID best then candidate else best) ms (hd ms)"

definition takeSnapshot :: "'x env \<Rightarrow> HAConfig \<Rightarrow> HAMember \<Rightarrow> string \<Rightarrow> string \<Rightarrow> string \<Rightarrow> ('x, HASnapshotResult) op" where
  "takeSnapshot E config source version token output =
     tryA (ensureNoHARecoveryHelpers E config) (\<lambda>_.
     tryA (newHASnapshotName E (hc_Name config)) (\<lambda>prefix0.
     tryA (runHARecoveryCommand E ''create K3s embedded-etcd snapshot''
       [''exec'', HAContainerName (hc_Name config) (hm_ID source), ''/bin/k3s'', ''etcd-snapshot'', ''save'', ''--name'', prefix0,
        ''--etcd-snapshot-dir'', haSnapshotGuestDirectory]) (\<lambda>_.
     tryA (findCreatedHASnapshot E config source prefix0) (\<lambda>guestSnapshotPath.
     catchA (snapshotExport E config source version token output guestSnapshotPath)
       (removeGuestSnapshot E config source guestSnapshotPath)))))"

text \<open>
  What is checked before anything is changed: the published path, the token, and the member to
  copy from, which is the one of the smallest ID.
\<close>

definition snapshotSource :: "'x env \<Rightarrow> HAConfig \<Rightarrow> string \<Rightarrow> string \<Rightarrow> ('x, string \<times> string \<times> HAMemberState) op" where
  "snapshotSource E config name output0 =
     tryA (prepareHASnapshotOutput E output0) (\<lambda>output.
     tryA (readHARecoveryToken E (hc_TokenFile config)) (\<lambda>token.
     tryA (preflightHA E config False) (\<lambda>preflight.
     if int (length (pf_volumeExists preflight)) \<noteq> haMemberCount \<or> int (length (pf_containerRecord preflight)) \<noteq> haMemberCount
     then errA (Msg ''HA snapshot requires all three APC-owned member volumes and server envelopes'')
     else tryA (StatusHA E name) (\<lambda>state.
       if \<not> st_Healthy state \<or> st_ReadyMembers state \<noteq> haMemberCount
       then errA (Msg ''refusing HA snapshot: all three members must be Ready to preserve a healthy quorum during export'')
       else tryWrapA ''refusing HA snapshot without exact healthy embedded-etcd topology'' (validateHAEtcdTopology E config) (\<lambda>_.
         if trimSpace (ms_K3sVersion (lowestMember (st_Members state))) = []
         then errA (Msg ''refusing HA snapshot: source member did not report a K3s version'')
         else retA (output, token, lowestMember (st_Members state)))))))"

definition snapshotHALocked :: "'x env \<Rightarrow> HAConfig \<Rightarrow> string \<Rightarrow> string \<Rightarrow> ('x, HASnapshotResult) op" where
  "snapshotHALocked E config name output0 =
     tryA (snapshotSource E config name output0) (\<lambda>(output, token, sourceState).
     takeSnapshot E config (memberByID (hc_Members config) (ms_ID sourceState)) (ms_K3sVersion sourceState) token output)"

definition SnapshotHA :: "'x env \<Rightarrow> string \<Rightarrow> string \<Rightarrow> ('x, HASnapshotResult) op" where
  "SnapshotHA E name output =
     (if \<not> dnsLabel name then errA (Msg ''cluster name must be a lowercase DNS label'')
      else tryA (loadHAConfig E name) (\<lambda>config. withLock E (hc_Name config) (snapshotHALocked E config name output)))"

end
