(* ===== verification/Keeps.thy ===== *)
theory Keeps
  imports Helpers
begin

text \<open>
  Operations that leave every file alone: \<open>keepsFiles m\<close>, with one rule for each way operations
  are composed, and the commands, the observers and the start of a server as instances.
\<close>

definition keepsFiles :: "('x, 'a) op \<Rightarrow> bool" where
  "keepsFiles m \<longleftrightarrow> (\<forall>w. w_fs (snd (m w)) = w_fs w)"

named_theorems keeping

lemma keepsFiles_run: "keepsFiles m \<Longrightarrow> m w = (r, w') \<Longrightarrow> w_fs w' = w_fs w"
  unfolding keepsFiles_def by (metis snd_conv)

lemma keeps_reads: "reads m \<Longrightarrow> keepsFiles m"
  by (simp add: keepsFiles_def reads_def)

lemma keeps_basic [keeping]: "keepsFiles (retA x)" "keepsFiles (errA e)" "keepsFiles (liftA r)" "keepsFiles (getA f)"
  "keepsFiles (askExt g)" "keepsFiles (statFile E p)" "keepsFiles (readFile E p)" "keepsFiles (statTarget E p)"
  by (intro keeps_reads readonly reads_world)+

lemma keeps_queryExt [keeping]: "keepsFiles (queryExt f)"
  by (simp add: keepsFiles_def queryExt_def split: prod.split)

lemma keeps_queryCmd [keeping]: "keepsFiles (queryCmd E b args)"
  by (simp add: keepsFiles_def queryCmd_def split: prod.split)

lemma keeps_emitEvent [keeping]: "keepsFiles (emitEvent e)"
  by (simp add: keepsFiles_def emitEvent_def)

lemma keeps_catchA [keeping]: "keepsFiles m \<Longrightarrow> (\<And>r. keepsFiles (h r)) \<Longrightarrow> keepsFiles (catchA m h)"
  by (auto simp: keepsFiles_def catchA_apply split: prod.split) (metis snd_conv)

lemma keeps_tryA [keeping]: "keepsFiles m \<Longrightarrow> (\<And>x. keepsFiles (f x)) \<Longrightarrow> keepsFiles (tryA m f)"
  unfolding tryA_def by (rule keeps_catchA) (auto split: sum.split intro: keeping)

lemma keeps_wrapA [keeping]: "keepsFiles m \<Longrightarrow> keepsFiles (wrapA msg m)"
  unfolding wrapA_def by (rule keeps_catchA) (auto split: sum.split intro: keeping)

lemma keeps_tryWrapA [keeping]: "keepsFiles m \<Longrightarrow> (\<And>x. keepsFiles (f x)) \<Longrightarrow> keepsFiles (tryWrapA msg m f)"
  unfolding tryWrapA_def by (intro keeping)

lemma keeps_if [keeping]: "(b \<Longrightarrow> keepsFiles m) \<Longrightarrow> (\<not> b \<Longrightarrow> keepsFiles n) \<Longrightarrow> keepsFiles (if b then m else n)"
  by simp

lemma keeps_case_option [keeping]:
  "(x = None \<Longrightarrow> keepsFiles m) \<Longrightarrow> (\<And>y. x = Some y \<Longrightarrow> keepsFiles (f y)) \<Longrightarrow> keepsFiles (case x of None \<Rightarrow> m | Some y \<Rightarrow> f y)"
  by (cases x) auto

lemma keeps_case_sum [keeping]:
  "(\<And>e. x = Inl e \<Longrightarrow> keepsFiles (f e)) \<Longrightarrow> (\<And>y. x = Inr y \<Longrightarrow> keepsFiles (g y)) \<Longrightarrow> keepsFiles (case x of Inl e \<Rightarrow> f e | Inr y \<Rightarrow> g y)"
  by (cases x) auto

lemma keeps_case_prod [keeping]: "(\<And>a b. x = (a, b) \<Longrightarrow> keepsFiles (f a b)) \<Longrightarrow> keepsFiles (case x of (a, b) \<Rightarrow> f a b)"
  by (cases x) auto

lemma keeps_case_list [keeping]:
  "(x = [] \<Longrightarrow> keepsFiles m) \<Longrightarrow> (\<And>y ys. x = y # ys \<Longrightarrow> keepsFiles (f y ys)) \<Longrightarrow> keepsFiles (case x of [] \<Rightarrow> m | y # ys \<Rightarrow> f y ys)"
  by (cases x) auto

lemma keeps_Let [keeping]: "(\<And>x. x = v \<Longrightarrow> keepsFiles (f x)) \<Longrightarrow> keepsFiles (Let v f)"
  by simp

lemma keeps_forA [keeping]: "(\<And>x. x \<in> set xs \<Longrightarrow> keepsFiles (f x)) \<Longrightarrow> keepsFiles (forA xs f)"
  by (induction xs) (auto intro: keeping)

lemma keeps_foldA [keeping]:
  "(\<And>acc x. x \<in> set xs \<Longrightarrow> keepsFiles (f acc x)) \<Longrightarrow> keepsFiles (foldA f acc xs)"
  by (induction xs arbitrary: acc) (auto intro: keeping)

section \<open>Commands and observers\<close>

lemma keeps_runCmd [keeping]: "keepsFiles (runCmd E b args)"
  unfolding runCmd_def by (intro keeping)

lemma keeps_commands [keeping]:
  "keepsFiles (runHABounded E msg args)" "keepsFiles (runHARecoveryCommand E msg args)" "keepsFiles (inspectWith E b args msg d)"
  unfolding runHABounded_def runHARecoveryCommand_def inspectWith_def by (intro keeping)+

lemma keeps_inspects [keeping]:
  "keepsFiles (inspectHAContainer E b n)" "keepsFiles (inspectHAVolume E n)" "keepsFiles (inspectHANetwork E n)"
  "keepsFiles (inspectHARecoveryContainer E n)"
  unfolding inspectHAContainer_def inspectHAVolume_def inspectHANetwork_def inspectHARecoveryContainer_def by (intro keeping)+

lemma keeps_ifPresent [keeping]: "keepsFiles m \<Longrightarrow> keepsFiles (inspectIfPresent m f)"
  unfolding inspectIfPresent_def by (intro keeping)

lemma keeps_node [keeping]: "keepsFiles (readHAMemberNode E config member)" "keepsFiles (contextDone E msg)"
  unfolding readHAMemberNode_def contextDone_def by (intro keeping)+

lemma keeps_loadHAConfig [keeping]: "keepsFiles (loadHAConfig E name)"
  by (rule keeps_reads, rule readsI, rule loadHAConfig_world)

lemma keeps_waitReadyLoop: "keepsFiles (waitReadyLoop E config member n)"
  by (induction n) (simp_all only: waitReadyLoop.simps, (intro keeping; assumption?)+)

lemma keeps_waitHAMemberReady [keeping]: "keepsFiles (waitHAMemberReady E config member)"
  unfolding waitHAMemberReady_def by (intro keeping keeps_waitReadyLoop)

lemma keeps_StatusHA [keeping]: "keepsFiles (StatusHA E name)"
  unfolding StatusHA_def memberStatus_def by (intro keeping)

lemma keeps_waitClusterLoop: "keepsFiles (waitClusterLoop E config n)"
  by (induction n) (subst waitClusterLoop.simps, simp only: nat.case, (intro keeping; assumption?)+)+

lemma keeps_waitHAClusterReady [keeping]: "keepsFiles (waitHAClusterReady E config)"
  unfolding waitHAClusterReady_def by (intro keeping keeps_waitClusterLoop)

section \<open>Starting a server\<close>

lemma keeps_addressStep: "keepsFiles (addressStep E config member)"
  unfolding addressStep_def stoppedBeforeAddress_def by (intro keeping)

lemma keeps_waitAddressLoop: "keepsFiles (waitAddressLoop E config member n)"
  by (induction n) (subst waitAddressLoop.simps, simp only: nat.case, (intro keeping keeps_addressStep; assumption?)+)+

lemma keeps_startEnvelope: "keepsFiles (startEnvelope E config member op t)"
  unfolding startEnvelope_def waitHAServerRuntimeAddress_def by (intro keeping keeps_waitAddressLoop)

lemma keeps_deleteExact: "keepsFiles (deleteExactHAServerEnvelope E config member)"
  unfolding deleteExactHAServerEnvelope_def stopConflicting_def by (intro keeping)

lemma keeps_peers: "keepsFiles (validateHAPeerRuntimeIPReservations E config member)"
  unfolding validateHAPeerRuntimeIPReservations_def peerRecord_def by (intro keeping)

lemma keeps_envelopeAttempts: "keepsFiles (envelopeAttempts E config member op t n)"
  by (induction n) (simp_all only: envelopeAttempts.simps, (intro keeping keeps_peers keeps_startEnvelope keeps_deleteExact; assumption?)+)

lemma keeps_startHAMemberForRecovery [keeping]: "keepsFiles (startHAMemberForRecovery E config member)"
  unfolding startHAMemberForRecovery_def runHAServerEnvelope_def Let_def by (intro keeping keeps_envelopeAttempts)

lemma keeps_helpers [keeping]: "keepsFiles (startHARecoveryHelper E spec)" "keepsFiles (deleteHARecoveryHelper E spec)"
  unfolding startHARecoveryHelper_def deleteHARecoveryHelper_def afterHelper_def deleteStoppedHelper_def joinedErr_def
  by (intro keeping)+

end
