(* ===== verification/SnapshotProps.thy ===== *)
theory SnapshotProps
  imports Snapshot Keeps
begin

text \<open>
  What \<open>SnapshotHA\<close> guarantees: it changes nothing before the cluster was seen whole, the package
  it publishes is exact, and the member it stopped is started again.
\<close>

section \<open>Paths below a clean directory\<close>

definition cleanDirectory :: "string \<Rightarrow> bool" where
  "cleanDirectory d \<longleftrightarrow> isAbsPath d \<and> cleanPath d = d \<and> d \<noteq> ''/''"

definition plainName :: "string \<Rightarrow> bool" where
  "plainName f \<longleftrightarrow> f \<noteq> [] \<and> CHR ''/'' \<notin> set f \<and> f \<noteq> ''.'' \<and> f \<noteq> ''..''"

lemma cleanComponents_snoc: "plainName f \<Longrightarrow> cleanComponents rooted stack (xs @ [f]) = cleanComponents rooted stack xs @ [f]"
  by (induction rooted stack xs rule: cleanComponents.induct) (auto simp: plainName_def split: list.split)

lemma joinPath_below:
  assumes d: "cleanDirectory d" and f: "plainName f"
  shows "joinPath [d, f] = d @ ''/'' @ f"
proof -
  let ?cs = "cleanComponents True [] (splitOn CHR ''/'' d)"
  have abs: "isAbsPath d" "isAbsPath (d @ ''/'' @ f)" and ne: "d \<noteq> []" "f \<noteq> []"
    using d f by (cases d; simp add: cleanDirectory_def plainName_def isAbsPath_def hasPrefix_def)+
  have dc: "d = CHR ''/'' # joinWith ''/'' ?cs"
    using d abs by (simp add: cleanDirectory_def cleanPath_def Let_def)
  have cs: "?cs \<noteq> []"
  proof
    assume "?cs = []"
    with dc have "d = ''/''" by simp
    with d show False by (simp add: cleanDirectory_def)
  qed
  have split: "splitOn CHR ''/'' (d @ ''/'' @ f) = splitOn CHR ''/'' d @ [f]"
    using f splitOn_append [of "CHR ''/''" d f] by (simp add: plainName_def splitOn_no_occurrence)
  have "joinPath [d, f] = cleanPath (d @ ''/'' @ f)"
    using ne by (simp add: joinPath_def)
  also have "\<dots> = CHR ''/'' # joinWith ''/'' (?cs @ [f])"
    unfolding cleanPath_def Let_def split cleanComponents_snoc [OF f] by (simp only: abs if_True)
  also have "\<dots> = (CHR ''/'' # joinWith ''/'' ?cs) @ ''/'' @ f"
    by (simp add: joinWith_snoc [OF cs])
  also have "\<dots> = d @ ''/'' @ f" using dc by simp
  finally show ?thesis .
qed

lemma package_names [simp]: "plainName haSnapshotManifestFilename" "plainName haSnapshotDataFilename" "plainName haSnapshotTokenFilename"
  by (simp_all add: plainName_def haSnapshotManifestFilename_def haSnapshotDataFilename_def haSnapshotTokenFilename_def)

lemma package_names_distinct [simp]:
  "haSnapshotDataFilename \<noteq> haSnapshotManifestFilename" "haSnapshotTokenFilename \<noteq> haSnapshotManifestFilename"
  by (simp_all add: haSnapshotManifestFilename_def haSnapshotDataFilename_def haSnapshotTokenFilename_def)

section \<open>What the phases leave\<close>

lemma reads_syncHAFile: "reads (syncHAFile E path)"
  unfolding syncHAFile_def deferJoin_def by (intro readonly reads_fileCall)

lemma reads_hashHAArtifact: "reads (hashHAArtifact E path name m)"
  unfolding hashHAArtifact_def by (intro readonly reads_world)

lemma hashHAArtifact_sound:
  assumes "hashHAArtifact E path name m w = (Inr meta, w')"
  shows "\<exists>d. contentAt path w = Some d \<and> meta = \<lparr>fm_Name = name, fm_Size = e_docSize E d, fm_SHA256 = e_sha256 E d\<rparr>"
  using assms unfolding hashHAArtifact_def
  by (elim tryA_reads_cases [OF _ reads_world(1)] tryA_reads_cases [OF _ reads_silent(4)] tryA_reads_cases [OF _ reads_silent(3)])
    (auto dest!: hash_sound split: prod.splits)

text \<open>Operations that change no content, though they may change modes.\<close>

definition keepsContent :: "('x, 'a) op \<Rightarrow> bool" where
  "keepsContent m \<longleftrightarrow> (\<forall>w q. contentAt q (snd (m w)) = contentAt q w)"

lemma keepsContentD: "keepsContent m \<Longrightarrow> m w = (r, w') \<Longrightarrow> contentAt q w' = contentAt q w"
  unfolding keepsContent_def by (metis snd_conv)

lemma content_keeps: "keepsFiles m \<Longrightarrow> keepsContent m"
  by (simp add: keepsContent_def keepsFiles_def contentAt_def)

lemma content_tryA: "keepsContent m \<Longrightarrow> (\<And>x. keepsContent (f x)) \<Longrightarrow> keepsContent (tryA m f)"
  unfolding keepsContent_def by (simp add: tryA_apply split: prod.split sum.split) (metis snd_conv)

named_theorems contents

lemmas [contents] = content_tryA

lemma content_if [contents]: "(b \<Longrightarrow> keepsContent m) \<Longrightarrow> (\<not> b \<Longrightarrow> keepsContent n) \<Longrightarrow> keepsContent (if b then m else n)"
  by simp

lemma content_basic [contents]: "keepsContent (errA e)" "keepsContent (fileCall E c p msg)" "keepsContent (wrapA msg (statFile E p))"
  by (intro content_keeps keeping keeps_reads [OF reads_fileCall])+

lemma content_chmodFile [contents]: "keepsContent (chmodFile E path mode msg)"
proof -
  have "keepsContent (updA (\<lambda>w. w\<lparr>w_fs := (w_fs w)(path := map_option (\<lambda>n. n\<lparr>fn_info := fn_info n\<lparr>fi_perm := mode\<rparr>\<rparr>) (w_fs w path))\<rparr>))"
    by (simp add: keepsContent_def contentAt_def option.map_comp comp_def)
  then show ?thesis unfolding chmodFile_def by (intro contents)
qed

lemma content_secure: "keepsContent (secureHAArtifact E path)"
  unfolding secureHAArtifact_def tryWrapA_def by (intro contents)

lemma reads_readCopiedToken: "reads (readCopiedToken E temporary token)"
  unfolding readCopiedToken_def by (intro readonly)

lemma readCopiedToken_sound:
  assumes "readCopiedToken E temporary token w = (Inr t, w')"
  shows "w' = w \<and> sameK3sServerToken token t
    \<and> (\<exists>d. contentAt (joinPath [temporary, haSnapshotTokenFilename]) w = Some d \<and> parseStrictToken (docText d) = Inr t)"
  using assms unfolding readCopiedToken_def
  by (elim tryA_reads_cases [OF _ reads_silent(4)])
    (auto simp: readStrictTokenFileWithIdentity_def act_apply dest!: read_sound split: sum.splits prod.splits if_splits)

lemma writeManifest_sound:
  assumes "writeManifest E temporary m w = (Inr meta, w')"
  shows "contentAt (joinPath [temporary, haSnapshotManifestFilename]) w' = Some (encodeManifest m)
    \<and> fm_SHA256 meta = e_sha256 E (encodeManifest m)
    \<and> (\<forall>q. q \<noteq> joinPath [temporary, haSnapshotManifestFilename] \<longrightarrow> contentAt q w' = contentAt q w)"
proof -
  let ?p = "joinPath [temporary, haSnapshotManifestFilename]"
  obtain w1 where w1: "writePrivateFileAtomic E ?p (encodeManifest m) w = (Inr (), w1)"
    and r1: "tryA (chmodFile E ?p 256 ''make HA snapshot manifest immutable'') (\<lambda>_.
       tryWrapA ''flush HA snapshot manifest metadata'' (syncHAFile E ?p) (\<lambda>_.
       wrapA ''fingerprint HA snapshot manifest'' (hashHAArtifact E ?p haSnapshotManifestFilename 1048576))) w1 = (Inr meta, w')"
    using assms unfolding writeManifest_def Let_def by (rule tryWrapA_InrE) simp
  from r1 obtain w2 where w2: "chmodFile E ?p 256 ''make HA snapshot manifest immutable'' w1 = (Inr (), w2)"
    and r2: "tryA (wrapA ''flush HA snapshot manifest metadata'' (syncHAFile E ?p)) (\<lambda>_.
       wrapA ''fingerprint HA snapshot manifest'' (hashHAArtifact E ?p haSnapshotManifestFilename 1048576)) w2 = (Inr meta, w')"
    unfolding tryWrapA_def by (rule seqA_InrE)
  from r2 have h: "wrapA ''fingerprint HA snapshot manifest'' (hashHAArtifact E ?p haSnapshotManifestFilename 1048576) w2 = (Inr meta, w')"
    by (rule tryA_reads_cases [OF _ reads_wrapA [OF reads_syncHAFile]]) simp_all
  then have "hashHAArtifact E ?p haSnapshotManifestFilename 1048576 w2 = (Inr meta, w')" and "w' = w2"
    by (auto simp: wrapA_apply split: sum.splits prod.splits dest: reads_state [OF reads_hashHAArtifact])
  with hashHAArtifact_sound [of E ?p haSnapshotManifestFilename 1048576 w2 meta w'] keepsContentD [OF content_chmodFile w2]
    writePrivateFileAtomic_ok [OF w1] show ?thesis by auto
qed

section \<open>The package\<close>

text \<open>The three files of a package in a directory, and the manifest that describes them.\<close>

definition packageAt :: "'x env \<Rightarrow> HAConfig \<Rightarrow> string \<Rightarrow> (string \<Rightarrow> document option) \<Rightarrow> HASnapshotManifest \<Rightarrow> bool" where
  "packageAt E config token file m \<longleftrightarrow>
     file ''manifest.json'' = Some (encodeManifest m)
     \<and> mf_ClusterName m = hc_Name config \<and> mf_Topology m = haSnapshotTopology config \<and> mf_ImageReference m = hc_Image config
     \<and> (\<exists>d. file ''etcd-snapshot'' = Some d
          \<and> mf_Snapshot m = \<lparr>fm_Name = ''etcd-snapshot'', fm_Size = e_docSize E d, fm_SHA256 = e_sha256 E d\<rparr>)
     \<and> (\<exists>d copied credential. file ''server-token'' = Some d
          \<and> mf_ServerToken m = \<lparr>fm_Name = ''server-token'', fm_Size = e_docSize E d, fm_SHA256 = e_sha256 E d\<rparr>
          \<and> parseStrictToken (docText d) = Inr copied \<and> sameK3sServerToken token copied
          \<and> k3sServerTokenCredential copied = Inr credential
          \<and> mf_ClusterIdentity m = haClusterIdentity E config (e_sha256 E (Text credential)))"

lemma describePhase_sound:
  assumes run: "describePhase E config source version token temporary guest w = (Inr (m, meta), w')" and dir: "cleanDirectory temporary"
  shows "packageAt E config token (\<lambda>f. contentAt (joinPath [temporary, f]) w') m \<and> fm_SHA256 meta = e_sha256 E (encodeManifest m)"
proof -
  let ?data = "joinPath [temporary, haSnapshotDataFilename]" and ?token = "joinPath [temporary, haSnapshotTokenFilename]"
    and ?manifest = "joinPath [temporary, haSnapshotManifestFilename]"
  obtain w2 copied maximum sm tm where
    copied: "readCopiedToken E temporary token w2 = (Inr copied, w2)"
    and sm: "hashHAArtifact E ?data haSnapshotDataFilename maximum w2 = (Inr sm, w2)"
    and tm: "hashHAArtifact E ?token haSnapshotTokenFilename haRecoveryTokenMaximum w2 = (Inr tm, w2)"
    and described: "describeCopies E config source version temporary guest copied sm tm w2 = (Inr (m, meta), w')"
    using run unfolding describePhase_def
    by (elim tryA_reads_cases [OF _ reads_readCopiedToken] tryA_reads_cases [OF _ reads_hashHAArtifact]
        tryA_reads_cases [OF _ reads_silent(3)] tryA_InrE) (auto split: if_splits)
  obtain credential createdAt where cred: "k3sServerTokenCredential copied = Inr credential"
    and m: "m = snapshotManifest createdAt config (haClusterIdentity E config (e_sha256 E (Text credential))) source version guest sm tm"
    and written: "writeManifest E temporary m w2 = (Inr meta, w')"
    using described unfolding describeCopies_def Let_def
    by (elim tryWrapA_InrE tryA_reads_cases [OF _ reads_world(1)] tryA_InrE) auto
  have paths: "?data \<noteq> ?manifest" "?token \<noteq> ?manifest"
    by (simp_all add: joinPath_below [OF dir])
  from writeManifest_sound [OF written] paths
  have files: "contentAt ?manifest w' = Some (encodeManifest m)" "contentAt ?data w' = contentAt ?data w2"
    "contentAt ?token w' = contentAt ?token w2" "fm_SHA256 meta = e_sha256 E (encodeManifest m)" by simp_all
  from hashHAArtifact_sound [OF sm] hashHAArtifact_sound [OF tm] readCopiedToken_sound [OF copied] files cred
  show ?thesis
    by (auto simp: packageAt_def m snapshotManifest_def haSnapshotManifestFilename_def haSnapshotDataFilename_def haSnapshotTokenFilename_def)
qed

section \<open>The window\<close>

lemma recoverSnapshotSource_fails: "\<not> isOk (fst (recoverSnapshotSource E config source temporary b c err w))"
  by (auto simp: recoverSnapshotSource_def catchA_apply isOk_def split: prod.splits option.splits sum.splits)

lemma phase_InrE:
  assumes "phase m failed next w = (Inr y, w'')" "\<And>e w. \<not> isOk (fst (failed e w))"
  obtains x w' where "m w = (Inr x, w')" "next x w' = (Inr y, w'')"
proof -
  obtain r w' where m: "m w = (r, w')" by fastforce
  with assms(1) assms(2) [of _ w'] that show thesis
    by (cases r) (auto simp: phase_def catchA_apply isOk_def, metis fst_conv sum.simps(6))
qed

lemma renameTree_content:
  assumes "renameTree E source target w = (Inr u, w')" "cleanDirectory source" "cleanDirectory target" "plainName f"
  shows "contentAt (joinPath [target, f]) w' = contentAt (joinPath [source, f]) w"
proof -
  have inside: "insideDirectory target (target @ ''/'' @ f)"
    using hasPrefix_append [of "target @ ''/''" f] by (simp add: insideDirectory_def)
  have "keepsFiles (dirOp E ''rename'' target)" unfolding dirOp_def by (intro keeping)
  from keepsFiles_run [OF this] assms(1) have "w_fs w' = (\<lambda>q. if insideDirectory target q then w_fs w (source @ drop (length target) q)
      else if insideDirectory source q then None else w_fs w q)"
    by (auto simp: renameTree_def tryA_apply split: sum.splits prod.splits)
  then show ?thesis
    unfolding joinPath_below [OF assms(2,4)] joinPath_below [OF assms(3,4)] contentAt_def using inside by simp
qed

lemma publishPhase_sound:
  assumes "publishPhase E config temporary output m meta w = (Inr result, w')" "cleanDirectory temporary" "cleanDirectory output" "plainName f"
  shows "result = snapshotResult output m meta \<and> contentAt (joinPath [output, f]) w' = contentAt (joinPath [temporary, f]) w"
proof -
  have keep: "keepsFiles (wrapA msg (dirOp E a d))" for msg a d unfolding dirOp_def by (intro keeping)
  obtain st w1 w2 w3 where a: "waitHAClusterReady E config w = (Inr st, w1)"
    and b: "wrapA ''durably flush HA snapshot package'' (dirOp E ''sync'' temporary) w1 = (Inr (), w2)"
    and c: "renameTree E temporary output w2 = (Inr (), w3)"
    and d: "wrapA ''durably publish HA snapshot package'' (dirOp E ''sync'' (dirPath output)) w3 = (Inr (), w')"
    and r: "result = snapshotResult output m meta"
    using assms(1) unfolding publishPhase_def tryWrapA_def
    by (elim tryA_InrE) (auto simp: wrapA_apply [of _ "renameTree _ _ _"] split: sum.splits prod.splits)
  have "contentAt q w2 = contentAt q w" "contentAt q w' = contentAt q w3" for q
    using keepsFiles_run [OF keeps_waitHAClusterReady a] keepsFiles_run [OF keep b] keepsFiles_run [OF keep d] by (simp_all add: contentAt_def)
  with renameTree_content [OF c assms(2,3,4)] r show ?thesis by simp
qed

section \<open>Effects of the parts\<close>

lemma emits_phase: "emits P m \<Longrightarrow> (\<And>e. emits P (failed e)) \<Longrightarrow> (\<And>x. emits P (next x)) \<Longrightarrow> emits P (phase m failed next)"
  unfolding phase_def by (intro effects)

lemma emits_removeStarted: "emits (\<lambda>_. True) (recoverSnapshotSource E config source temporary b c err)"
  unfolding recoverSnapshotSource_def restartSource_def
  by (intro effects emits_mono [OF calm_deleteHelper] emits_mono [OF emits_startForRecovery] emits_mono [OF quiet_waitHAMemberReady] TrueI)

lemma emits_updA_any: "(\<And>w. w_trace (f w) = w_trace w \<and> w_answers (f w) = w_answers w) \<Longrightarrow> emits P (updA f)"
  by (rule emits_silent) simp

lemma emits_secure: "emits P (secureHAArtifact E path)"
  unfolding secureHAArtifact_def chmodFile_def by (intro effects emits_updA_any) simp

lemma emits_copyPhase: "emits (\<lambda>_. True) (copyPhase E config source temporary guest)"
  unfolding copyPhase_def copyOut_def startHARecoveryHelper_def runHARecoveryCommand_def Let_def
  by (intro effects emits_mono [OF calm_deleteHelper] emits_mono [OF calm_inspectRecovery] emits_updA_any TrueI) simp_all

lemma emits_describePhase: "emits (\<lambda>_. True) (describePhase E config source version token temporary guest)"
  unfolding describePhase_def describeCopies_def writeManifest_def chmodFile_def Let_def
  by (intro effects emits_secure emits_reads reads_readCopiedToken reads_hashHAArtifact reads_syncHAFile emits_updA_any TrueI) simp_all

lemma emits_publishPhase: "emits (\<lambda>_. True) (publishPhase E config temporary output m meta)"
proof -
  have "emits (\<lambda>_. True) (renameTree E source target)" for source target
    unfolding renameTree_def by (intro effects emitsI) (simp_all add: recorded_def updA_def)
  then show ?thesis unfolding publishPhase_def
    by (intro effects emits_mono [OF quiet_waitHAClusterReady] TrueI)
qed

lemma emits_takeSnapshot: "emits (\<lambda>_. True) (takeSnapshot E config source version token output)"
proof -
  have window: "emits (\<lambda>_. True) (snapshotWindow E config source version token temporary output guest)" for temporary guest
    unfolding snapshotWindow_def restartSource_def Let_def
    by (intro effects emits_phase emits_copyPhase emits_describePhase emits_publishPhase emits_removeStarted emits_runHABounded
        emits_mono [OF emits_startForRecovery] emits_mono [OF quiet_waitHAMemberReady] TrueI)
  show ?thesis
    unfolding takeSnapshot_def ensureNoHARecoveryHelpers_def ensureNoHelper_def newHASnapshotName_def findCreatedHASnapshot_def
      snapshotExport_def temporaryDirectory_def removeGuestSnapshot_def runHARecoveryCommand_def Let_def
    by (intro effects emits_mono [OF calm_inspectRecovery] emits_removeTree window TrueI) (auto split: list.split intro!: effects)
qed

lemma quiet_snapshotSource: "emits quiet (snapshotSource E config name output)"
  unfolding snapshotSource_def prepareHASnapshotOutput_def Let_def
  by (intro effects emits_reads [OF reads_readHARecoveryToken] quiet_preflightHA quiet_StatusHA quiet_validateHAEtcdTopology)

section \<open>Properties\<close>

text \<open>
  A snapshot changes nothing unless it has just seen three Ready members and an exact etcd
  topology: without both it issues only inspections and reads.
\<close>

lemma snapshot_needs_whole_cluster:
  "let run = snapshotHALocked E config name output (w\<lparr>w_trace := []\<rparr>) in
   if list_all quiet (w_trace (snd run)) then True
   else \<exists>w1 w2 w3 state members fs. StatusHA E name w1 = (Inr state, w2) \<and> st_Healthy state \<and> st_ReadyMembers state = haMemberCount
     \<and> validateHAEtcdTopology E config w2 = (Inr members, w3)
     \<and> w_trace (snd run) = w_trace w3 @ fs \<and> list_all quiet (w_trace w3)"
proof -
  let ?w = "w\<lparr>w_trace := []\<rparr>"
  obtain r w3 where source: "snapshotSource E config name output ?w = (r, w3)" by fastforce
  have "list_all quiet (w_trace (snd (snapshotSource E config name output ?w)))" by (rule emits_run [OF quiet_snapshotSource])
  with source have q: "list_all quiet (w_trace w3)" by simp
  show ?thesis
  proof (cases r)
    case (Inl e)
    with source q show ?thesis by (simp add: snapshotHALocked_def tryA_apply)
  next
    case (Inr x)
    obtain out token s where x: "x = (out, token, s)" by (cases x)
    have run: "snapshotHALocked E config name output ?w
        = takeSnapshot E config (memberByID (hc_Members config) (ms_ID s)) (ms_K3sVersion s) token out w3"
      using source by (simp add: snapshotHALocked_def tryA_apply Inr x)
    obtain fs where "w_trace (snd (snapshotHALocked E config name output ?w)) = w_trace w3 @ fs"
      unfolding run by (rule emitsE [OF emits_takeSnapshot])
    moreover obtain w1 w2 state members where "StatusHA E name w1 = (Inr state, w2)" "st_Healthy state" "st_ReadyMembers state = haMemberCount"
      "validateHAEtcdTopology E config w2 = (Inr members, w3)"
      using source unfolding snapshotSource_def Inr
      by (elim tryA_InrE) (auto elim!: tryA_InrE tryWrapA_InrE split: if_splits)
    ultimately show ?thesis using q unfolding Let_def by (metis (no_types, lifting))
  qed
qed

text \<open>
  C12: a package that is published is exact: under the final name are the manifest that the result
  reports, with the digest it reports, and the two artifacts with the sizes and digests the
  manifest states; the copied token is that of the cluster, and the identity in the manifest is
  computed from its credential, the topology and the image.
\<close>

theorem published_package_exact:
  "case snapshotWindow E config source version token temporary output guest w of
     (Inl _, _) \<Rightarrow> True
   | (Inr result, w') \<Rightarrow>
       if cleanDirectory temporary \<and> cleanDirectory output
       then sr_Path result = output \<and> sr_ManifestSHA256 result = e_sha256 E (encodeManifest (sr_Manifest result))
         \<and> packageAt E config token (\<lambda>f. contentAt (joinPath [output, f]) w') (sr_Manifest result)
       else True"
proof -
  have exact: "sr_Path result = output \<and> sr_ManifestSHA256 result = e_sha256 E (encodeManifest (sr_Manifest result))
         \<and> packageAt E config token (\<lambda>f. contentAt (joinPath [output, f]) w') (sr_Manifest result)"
    if run: "snapshotWindow E config source version token temporary output guest w = (Inr result, w')"
      and t: "cleanDirectory temporary" and out: "cleanDirectory output" for result w'
  proof -
    note fails = recoverSnapshotSource_fails [of E config source temporary]
    obtain w1 m meta w2 w3 where describe: "describePhase E config source version token temporary guest w1 = (Inr (m, meta), w2)"
      and restart: "restartSource E config source w2 = (Inr (), w3)"
      and publish: "publishPhase E config temporary output m meta w3 = (Inr result, w')"
      using run unfolding snapshotWindow_def Let_def by (elim phase_InrE [OF _ fails]) (auto elim!: phase_InrE [OF _ fails])
    have "keepsFiles (restartSource E config source)" unfolding restartSource_def by (intro keeping)
    from keepsFiles_run [OF this restart] have kept: "contentAt q w3 = contentAt q w2" for q by (simp add: contentAt_def)
    have moved: "contentAt (joinPath [output, f]) w' = contentAt (joinPath [temporary, f]) w2" if "plainName f" for f
      using publishPhase_sound [OF publish t out that] kept by simp
    have result: "result = snapshotResult output m meta"
      using publishPhase_sound [OF publish t out, of haSnapshotDataFilename] by simp
    from describePhase_sound [OF describe t] show ?thesis
      using moved [OF package_names(1)] moved [OF package_names(2)] moved [OF package_names(3)]
      by (simp add: packageAt_def result snapshotResult_def haSnapshotManifestFilename_def haSnapshotDataFilename_def haSnapshotTokenFilename_def)
  qed
  obtain r w' where run: "snapshotWindow E config source version token temporary output guest w = (r, w')" by fastforce
  show ?thesis
  proof (cases r)
    case (Inr result)
    show ?thesis unfolding run Inr prod.case sum.case using exact [OF run [unfolded Inr]] by presburger
  qed (simp add: run)
qed

section \<open>The source is started again\<close>

text \<open>
  \<open>leavesSource\<close>: the effect is no command that stops, kills or deletes the container of the source.
  \<open>seenReady w w'\<close>: between \<open>w\<close> and \<open>w'\<close> the API server in the container of the source answered with
  the node of the source, and that node has the condition Ready with the status True.
\<close>

definition leavesSource :: "HAConfig \<Rightarrow> HAMember \<Rightarrow> event \<Rightarrow> bool" where
  "leavesSource config source e \<longleftrightarrow> \<not> (cmdArgs e \<noteq> [] \<and> hd (cmdArgs e) \<in> {''stop'', ''kill'', ''delete''}
     \<and> HAContainerName (hc_Name config) (hm_ID source) \<in> set (tl (cmdArgs e)))"

definition seenReady :: "HAConfig \<Rightarrow> HAMember \<Rightarrow> 'x world \<Rightarrow> 'x world \<Rightarrow> bool" where
  "seenReady config source w w' \<longleftrightarrow> (\<exists>res node. told w w' [''exec'', HAContainerName (hc_Name config) (hm_ID source), ''kubectl'',
       ''get'', ''node'', hm_NodeName source, ''-o'', ''json''] res
     \<and> cr_err res = None \<and> decodeDoc dNodeDocument (cr_stdout res) = Inr node
     \<and> nd_Name node = hm_NodeName source \<and> (''Ready'', ''True'') \<in> set (nd_Conditions node))"

text \<open>
  \<open>startedAgain E config source w (r, w')\<close>: on the way from \<open>w\<close> to \<open>w'\<close> nothing touches the source until its
  restart is run.  When that succeeds, the source was seen Ready and nothing touches it any more.
  When it fails, the result is an error that contains that failure, and at most the restart was tried once more.
\<close>

definition startedAgain :: "'x env \<Rightarrow> HAConfig \<Rightarrow> HAMember \<Rightarrow> 'x world \<Rightarrow> (gerror + 'a) \<times> 'x world \<Rightarrow> bool" where
  "startedAgain E config source w run \<longleftrightarrow> (\<exists>w2 es. w_trace w2 = w_trace w @ es \<and> list_all (leavesSource config source) es
     \<and> (case restartSource E config source w2 of
          (Inr _, w3) \<Rightarrow> seenReady config source w (snd run)
            \<and> (\<exists>fs. w_trace (snd run) = w_trace w3 @ fs \<and> list_all (leavesSource config source) fs)
        | (Inl e, w3) \<Rightarrow> (case fst run of Inl err \<Rightarrow> errorsIs err e | Inr _ \<Rightarrow> False)
            \<and> (snd run = w3 \<or> snd run = snd (restartSource E config source w3))))"

lemma seenReady_told: "recorded m \<Longrightarrow> m w0 = (r, w) \<Longrightarrow> seenReady config source w w' \<Longrightarrow> seenReady config source w0 w'"
  by (erule recordedE, assumption) (auto simp: seenReady_def dest: told_from)

lemma seenReady_stays: "recorded m \<Longrightarrow> m w' = (r, w2) \<Longrightarrow> seenReady config source w w' \<Longrightarrow> seenReady config source w w2"
  by (erule recordedE, assumption) (auto simp: seenReady_def dest: told_until)

lemma readNode_seen:
  assumes "readHAMemberNode E config source w = (Inr node, w')" "nodeDocumentReady node"
  shows "seenReady config source w w'"
proof -
  let ?args = "[''exec'', HAContainerName (hc_Name config) (hm_ID source), ''kubectl'', ''get'', ''node'', hm_NodeName source, ''-o'', ''json'']"
  obtain rr w1 where run: "runCmd E None ?args w = (rr, w1)" by fastforce
  with runCmd_told obtain res where res: "rr = Inr res" "told w w1 ?args res" by blast
  have "cr_err res = None \<and> decodeDoc dNodeDocument (cr_stdout res) = Inr node \<and> nd_Name node = hm_NodeName source \<and> w' = w1"
    using assms(1) run res(1)
    by (auto simp: readHAMemberNode_def tryA_apply tryWrapA_def wrapA_apply split: option.splits sum.splits if_splits prod.splits)
  with res(2) assms(2) show ?thesis unfolding seenReady_def nodeDocumentReady_def by (auto simp: list_ex_iff)
qed

lemma waitReady_seen: "waitReadyLoop E config source n w = (Inr u, w') \<Longrightarrow> seenReady config source w w'"
proof (induction n arbitrary: w)
  case 0
  then show ?case
    by (auto simp: catchA_apply contextDone_def tryA_apply askExt_def split: prod.splits sum.splits if_splits intro: readNode_seen)
next
  case (Suc n)
  obtain r w1 where m: "readHAMemberNode E config source w = (r, w1)" by fastforce
  show ?case
  proof (cases "case r of Inr node \<Rightarrow> nodeDocumentReady node | Inl _ \<Rightarrow> False")
    case True
    with m Suc.prems show ?thesis by (auto simp: catchA_apply split: sum.splits intro: readNode_seen)
  next
    case False
    with m Suc.prems have "waitReadyLoop E config source n w1 = (Inr u, w')" by (simp add: catchA_apply)
    from Suc.IH [OF this] show ?thesis by (rule seenReady_told [OF emits_recorded [OF quiet_readHAMemberNode] m])
  qed
qed

lemma recorded_startForRecovery: "recorded (startHAMemberForRecovery E config member)"
  by (rule emits_recorded [OF emits_startForRecovery])

lemma recorded_restart: "recorded (restartSource E config source)"
  unfolding restartSource_def
  by (rule emits_recorded [where P = "\<lambda>_. True"])
    (intro effects emits_mono [OF emits_startForRecovery] emits_mono [OF quiet_waitHAMemberReady] TrueI)

lemma restart_seen:
  assumes "restartSource E config source w = (Inr u, w')"
  shows "seenReady config source w w'"
proof -
  from assms obtain w1 where a: "startHAMemberForRecovery E config source w = (Inr (), w1)" and b: "waitHAMemberReady E config source w1 = (Inr u, w')"
    unfolding restartSource_def by (elim tryA_InrE) auto
  from b obtain n w2 where t: "askExt (e_ticks E) w1 = (Inr n, w2)" and l: "waitReadyLoop E config source n w2 = (Inr u, w')"
    unfolding waitHAMemberReady_def by (elim tryA_InrE)
  show ?thesis
    by (rule seenReady_told [OF recorded_startForRecovery a], rule seenReady_told [OF emits_recorded [OF emits_askExt] t])
      (rule waitReady_seen [OF l])
qed

section \<open>The phases leave the source alone\<close>

lemma leaves_other: "cmdArgs e \<noteq> [] \<Longrightarrow> hd (cmdArgs e) \<notin> {''stop'', ''kill'', ''delete''} \<Longrightarrow> leavesSource config source e"
  by (simp add: leavesSource_def)

lemma leaves_quiet: "quiet e \<Longrightarrow> leavesSource config source e"
  by (auto simp: leavesSource_def quiet_def readsOnlyArgs_def cmdArgs_def split: event.splits list.splits)

lemma leaves_observing: "emits quiet m \<Longrightarrow> emits (leavesSource config source) m"
  by (erule emits_mono, rule leaves_quiet)

lemma helper_not_source [simp]: "hs_Name (snapshotHelperSpec config source temporary) \<noteq> HAContainerName (hc_Name config) i"
  "HAContainerName (hc_Name config) i \<noteq> hs_Name (snapshotHelperSpec config source temporary)"
  by (simp_all add: snapshotHelperSpec_def HASnapshotHelperContainerName_def HAContainerName_def)

lemma leaves_deleteHelper: "emits (leavesSource config source) (deleteHARecoveryHelper E (snapshotHelperSpec config source temporary))"
  unfolding deleteHARecoveryHelper_def afterHelper_def deleteStoppedHelper_def joinedErr_def
  by (intro effects leaves_observing [OF quiet_inspectRecovery]) (simp_all add: leavesSource_def cmdArgs_def)

lemma leaves_copyPhase: "emits (leavesSource config source) (copyPhase E config source temporary guest)"
  unfolding copyPhase_def copyOut_def startHARecoveryHelper_def runHARecoveryCommand_def Let_def
  by (intro effects leaves_deleteHelper leaves_observing [OF quiet_inspectRecovery] emits_updA_any)
    (simp_all add: leavesSource_def cmdArgs_def helperRunArguments_def)

lemma leaves_describePhase: "emits (leavesSource config source) (describePhase E config source version token temporary guest)"
  unfolding describePhase_def describeCopies_def writeManifest_def chmodFile_def Let_def
  by (intro effects emits_secure emits_reads reads_readCopiedToken reads_hashHAArtifact reads_syncHAFile emits_updA_any)
    (simp_all add: leavesSource_def cmdArgs_def)

lemma leaves_publishPhase: "emits (leavesSource config source) (publishPhase E config temporary output m meta)"
proof -
  have "emits (leavesSource config source) (renameTree E d d')" for d d'
    unfolding renameTree_def by (intro effects emitsI) (simp_all add: recorded_def updA_def leavesSource_def cmdArgs_def)
  then show ?thesis unfolding publishPhase_def
    by (intro effects leaves_observing [OF quiet_waitHAClusterReady])
qed

section \<open>The window starts the source again\<close>

lemma errorsIs_refl [simp]: "errorsIs e e"
  by (cases e) simp_all

lemma startedAgain_later:
  assumes m: "emits (leavesSource config source) m" "m w = (r, w')" and run: "startedAgain E config source w' run"
  shows "startedAgain E config source w run"
proof -
  from emitsE [OF m(1), of w] m(2) obtain gs where gs: "w_trace w' = w_trace w @ gs" "list_all (leavesSource config source) gs" by auto
  obtain w2 es where es: "w_trace w2 = w_trace w' @ es" "list_all (leavesSource config source) es"
    and after: "case restartSource E config source w2 of
          (Inr _, w3) \<Rightarrow> seenReady config source w' (snd run)
            \<and> (\<exists>fs. w_trace (snd run) = w_trace w3 @ fs \<and> list_all (leavesSource config source) fs)
        | (Inl e, w3) \<Rightarrow> (case fst run of Inl err \<Rightarrow> errorsIs err e | Inr _ \<Rightarrow> False)
            \<and> (snd run = w3 \<or> snd run = snd (restartSource E config source w3))"
    using run unfolding startedAgain_def by (elim exE conjE) (rule that)
  obtain rr w3 where rr: "restartSource E config source w2 = (rr, w3)" by fastforce
  show ?thesis unfolding startedAgain_def
  proof (rule exI [of _ w2], rule exI [of _ "gs @ es"], intro conjI)
    show "case restartSource E config source w2 of
          (Inr _, w3) \<Rightarrow> seenReady config source w (snd run)
            \<and> (\<exists>fs. w_trace (snd run) = w_trace w3 @ fs \<and> list_all (leavesSource config source) fs)
        | (Inl e, w3) \<Rightarrow> (case fst run of Inl err \<Rightarrow> errorsIs err e | Inr _ \<Rightarrow> False)
            \<and> (snd run = w3 \<or> snd run = snd (restartSource E config source w3))"
      using after seenReady_told [OF emits_recorded [OF m(1)] m(2)] by (cases rr) (simp_all add: rr)
  qed (use gs es in simp_all)
qed

lemma startedAgain_phase:
  assumes "emits (leavesSource config source) m" "\<And>e w. startedAgain E config source w (failed e w)"
    "\<And>x w. startedAgain E config source w (next x w)"
  shows "startedAgain E config source w (phase m failed next w)"
proof -
  obtain r w' where m: "m w = (r, w')" by fastforce
  show ?thesis
    by (rule startedAgain_later [OF assms(1) m]) (use assms(2,3) m in \<open>cases r, simp_all add: phase_def catchA_apply\<close>)
qed

lemma startedAgain_recover:
  "startedAgain E config source w ((recoverSnapshotSource E config source temporary helper True err :: ('x, 'b) op) w)"
proof -
  let ?clean = "if helper then deleteHARecoveryHelper E (snapshotHelperSpec config source temporary) else retA ()"
  have clean: "emits (leavesSource config source) ?clean" by (intro effects leaves_deleteHelper)
  obtain r w' where m: "?clean w = (r, w')" by fastforce
  obtain rs w3 where rs: "restartSource E config source w' = (rs, w3)" by fastforce
  let ?run = "(recoverSnapshotSource E config source temporary helper True err :: ('x, 'b) op) w"
  have run: "snd ?run = w3" "rs = Inl e \<Longrightarrow> \<exists>err. fst ?run = Inl err \<and> errorsIs err e" for e
    using m rs by (auto simp: recoverSnapshotSource_def catchA_apply errorsJoin_def errOf_def List.map_filter_simps
        split: prod.splits option.splits sum.splits list.splits)
  show ?thesis
  proof (rule startedAgain_later [OF clean m])
    show "startedAgain E config source w' ?run"
    proof (cases rs)
      case (Inl e)
      with run show ?thesis unfolding startedAgain_def by (intro exI [of _ w'] exI [of _ "[]"]) (auto simp: rs)
    next
      case (Inr u)
      have "seenReady config source w' w3" by (rule restart_seen [OF rs [unfolded Inr]])
      with Inr run(1) show ?thesis unfolding startedAgain_def by (intro exI [of _ w'] exI [of _ "[]"]) (auto simp: rs)
    qed
  qed
qed

lemma recover_reports: "\<exists>err'. fst (recoverSnapshotSource E config source temporary b c err w) = Inl err' \<and> errorsIs err' err"
  by (auto simp: recoverSnapshotSource_def catchA_apply split: prod.splits option.splits)

lemma startedAgain_restart:
  assumes "\<And>x. emits (leavesSource config source) (next x)"
  shows "startedAgain E config source w (phase (restartSource E config source) (recoverSnapshotSource E config source temporary False True) next w)"
proof -
  let ?run = "phase (restartSource E config source) (recoverSnapshotSource E config source temporary False True) next w"
  obtain r w' where m: "restartSource E config source w = (r, w')" by fastforce
  show ?thesis
  proof (cases r)
    case (Inl e)
    have run: "?run = recoverSnapshotSource E config source temporary False True e w'"
      by (simp add: phase_def catchA_apply m Inl)
    have world: "snd ?run = snd (restartSource E config source w')"
      unfolding run by (auto simp: recoverSnapshotSource_def catchA_apply split: prod.splits option.splits)
    have "\<exists>err'. fst ?run = Inl err' \<and> errorsIs err' e" unfolding run by (rule recover_reports)
    then obtain err' where "fst ?run = Inl err'" "errorsIs err' e" by blast
    with world show ?thesis
      unfolding startedAgain_def by (intro exI [of _ w] exI [of _ "[]"]) (simp add: m Inl)
  next
    case (Inr u)
    have run: "?run = next () w'" by (simp add: phase_def catchA_apply m Inr)
    obtain rn wn where n: "next () w' = (rn, wn)" by fastforce
    from emitsE [OF assms(1) [of "()"], of w'] n obtain fs where "w_trace wn = w_trace w' @ fs" "list_all (leavesSource config source) fs" by auto
    moreover have "seenReady config source w wn"
      by (rule seenReady_stays [OF emits_recorded [OF assms] n restart_seen [OF m [unfolded Inr]]])
    ultimately show ?thesis unfolding startedAgain_def run by (intro exI [of _ w] exI [of _ "[]"]) (auto simp: m Inr n)
  qed
qed

lemma stop_told:
  assumes "runHABounded E msg args w = (r, w1)"
  shows "w_trace w1 = w_trace w @ [Cmd (Some haRuntimeOperationTimeout) args] \<and> (\<exists>res. told w w1 args res)"
proof -
  obtain rr w2 where run: "runCmd E (Some haRuntimeOperationTimeout) args w = (rr, w2)" by fastforce
  with runCmd_told obtain res where res: "rr = Inr res" "told w w2 args res" by blast
  have "w_trace w2 = w_trace w @ [Cmd (Some haRuntimeOperationTimeout) args]"
    using run by (auto simp: runCmd_def tryA_apply emitEvent_def queryCmd_def split: prod.splits)
  moreover have "w1 = w2"
    using assms run res(1) by (auto simp: runHABounded_def tryA_apply split: option.splits if_splits)
  ultimately show ?thesis using res(2) by blast
qed

text \<open>
  C13: however a snapshot ends, the member it stopped is started again.  The first thing the window
  does is the stop of the source.  After it nothing stops, kills or deletes the source until its
  restart is run.  If that restart succeeds, the runtime answered after the stop that the node of the source is
  Ready, and nothing stops, kills or deletes the source afterwards; if it fails, the snapshot fails with an error that
  contains that failure, and has done nothing more than to try the restart once more.
\<close>

theorem snapshot_restarts_source:
  "let stop = [''stop'', HAContainerName (hc_Name config) (hm_ID source)];
       w1 = snd (runHABounded E ''stop HA snapshot source member'' stop w) in
     w_trace w1 = w_trace w @ [Cmd (Some haRuntimeOperationTimeout) stop] \<and> (\<exists>res. told w w1 stop res)
     \<and> startedAgain E config source w1 (snapshotWindow E config source version token temporary output guest w)"
proof -
  let ?stop = "[''stop'', HAContainerName (hc_Name config) (hm_ID source)]"
  obtain r w1 where m: "runHABounded E ''stop HA snapshot source member'' ?stop w = (r, w1)" by fastforce
  let ?next = "\<lambda>_::unit. phase (copyPhase E config source temporary guest) (recoverSnapshotSource E config source temporary True True) (\<lambda>_.
      phase (describePhase E config source version token temporary guest) (recoverSnapshotSource E config source temporary False True) (\<lambda>(manifest, manifestMetadata).
      phase (restartSource E config source) (recoverSnapshotSource E config source temporary False True) (\<lambda>_.
      phase (publishPhase E config temporary output manifest manifestMetadata) (recoverSnapshotSource E config source temporary False False) retA)))"
  have last: "emits (leavesSource config source)
      (phase (publishPhase E config temporary output m me) (recoverSnapshotSource E config source temporary False False) retA)" for m me
    unfolding recoverSnapshotSource_def by (intro emits_phase leaves_publishPhase) (simp_all add: effects)
  have later: "startedAgain E config source v (?next u v)" for u v
    by (intro startedAgain_phase leaves_copyPhase leaves_describePhase startedAgain_recover)
      (simp only: split_beta, intro startedAgain_restart last)
  have "startedAgain E config source w1 (snapshotWindow E config source version token temporary output guest w)"
    unfolding snapshotWindow_def Let_def phase_def [of "runHABounded _ _ _"] catchA_apply m prod.case
    using later startedAgain_recover by (cases r) simp_all
  with stop_told [OF m] show ?thesis by (simp add: Let_def m)
qed

end
