(* ===== verification/GoURL.thy ===== *)
theory GoURL
  imports NetAddr
begin

text \<open>
  \<open>net/url.Parse\<close> and \<open>net.SplitHostPort\<close> as far as the program looks at their results: whether
  there is an error, and the scheme, the host and the decoded path.  User information, query and fragment
  are checked the way \<open>Parse\<close> checks them and dropped.
\<close>

section \<open>Escapes\<close>

datatype urlPart = EncodePath | EncodeHost | EncodeZone | EncodeUser | EncodeFragment

definition urlUnreserved :: "char \<Rightarrow> bool" where
  "urlUnreserved c \<longleftrightarrow> isLowerAlpha c \<or> isUpperAlpha c \<or> isDigit c \<or> c \<in> set ''-_.~''"

text \<open>The characters below 0x80 a host may have unescaped.\<close>

definition urlHostChar :: "char \<Rightarrow> bool" where
  "urlHostChar c \<longleftrightarrow> urlUnreserved c \<or> c \<in> set ''!$&()*+,;=:[]<>'' \<or> c = CHR 0x27 \<or> c = CHR 0x22"

definition isHostPart :: "urlPart \<Rightarrow> bool" where
  "isHostPart part \<longleftrightarrow> part = EncodeHost \<or> part = EncodeZone"

definition urlByte :: "char \<Rightarrow> char \<Rightarrow> char" where
  "urlByte a b = char_of (hexVal a * 16 + hexVal b)"

text \<open>
  \<open>unescape\<close>: in a host only \<open>%25\<close> and bytes from 0x80 on may be escaped; a zone may also escape what it
  could not hold unescaped, and the space.
\<close>

definition urlEscapeOk :: "urlPart \<Rightarrow> char \<Rightarrow> char \<Rightarrow> bool" where
  "urlEscapeOk part a b \<longleftrightarrow> isHexDigit a \<and> isHexDigit b \<and>
     (case part of
        EncodeHost \<Rightarrow> 8 \<le> hexVal a \<or> (a = CHR ''2'' \<and> b = CHR ''5'')
      | EncodeZone \<Rightarrow> urlByte a b = CHR 0x25 \<or> urlByte a b = CHR 0x20 \<or> 128 \<le> hexVal a * 16 + hexVal b \<or> urlHostChar (urlByte a b)
      | _ \<Rightarrow> True)"

fun urlUnescape :: "urlPart \<Rightarrow> string \<Rightarrow> string option" where
  "urlUnescape part [] = Some []"
| "urlUnescape part (c # s) =
     (if c = CHR 0x25 then
        (case s of
           a # b # rest \<Rightarrow> if urlEscapeOk part a b then map_option ((#) (urlByte a b)) (urlUnescape part rest) else None
         | _ \<Rightarrow> None)
      else if isHostPart part \<and> of_char c < (128::nat) \<and> \<not> urlHostChar c then None
      else map_option ((#) c) (urlUnescape part s))"

section \<open>The authority\<close>

definition validOptionalPort :: "string \<Rightarrow> bool" where
  "validOptionalPort s = (case s of [] \<Rightarrow> True | c # p \<Rightarrow> c = CHR '':'' \<and> list_all isDigit p)"

text \<open>The text before and after the last occurrence of a character.\<close>

definition lastCut :: "char \<Rightarrow> string \<Rightarrow> (string \<times> string) option" where
  "lastCut c s = (if c \<in> set s
     then Some (rev (tl (dropWhile (\<lambda>d. d \<noteq> c) (rev s))), rev (takeWhile (\<lambda>d. d \<noteq> c) (rev s))) else None)"

text \<open>The index of the first \<open>%25\<close>, which starts a zone.\<close>

fun zoneCut :: "string \<Rightarrow> (string \<times> string) option" where
  "zoneCut [] = None"
| "zoneCut (c # s) = (if hasPrefix (c # s) ''%25'' then Some ([], c # s)
     else map_option (\<lambda>(a, b). (c # a, b)) (zoneCut s))"

definition joinParts :: "string option list \<Rightarrow> string option" where
  "joinParts ps = (if None \<in> set ps then None else Some (concat (map the ps)))"

definition urlParseHost :: "string \<Rightarrow> string option" where
  "urlParseHost host =
     (if hasPrefix host ''['' then
        (case lastCut CHR '']'' host of
           None \<Rightarrow> None
         | Some (inside, colonPort) \<Rightarrow>
             if \<not> validOptionalPort colonPort then None
             else (case zoneCut inside of
                 Some (before, zone) \<Rightarrow> joinParts [urlUnescape EncodeHost before, urlUnescape EncodeZone zone,
                     urlUnescape EncodeHost ('']'' @ colonPort)]
               | None \<Rightarrow> urlUnescape EncodeHost host))
      else (case lastCut CHR '':'' host of
           Some (_, port) \<Rightarrow> if validOptionalPort (CHR '':'' # port) then urlUnescape EncodeHost host else None
         | None \<Rightarrow> urlUnescape EncodeHost host))"

definition validUserinfo :: "string \<Rightarrow> bool" where
  "validUserinfo s = list_all (\<lambda>c. urlUnreserved c \<or> c \<in> set '':!$&()*+,;=%'' \<or> c = CHR 0x27 \<or> c = CHR 0x40) s"

definition urlParseAuthority :: "string \<Rightarrow> string option" where
  "urlParseAuthority authority = (case lastCut CHR 0x40 authority of
     None \<Rightarrow> urlParseHost authority
   | Some (userinfo, rest) \<Rightarrow> (case urlParseHost rest of
       None \<Rightarrow> None
     | Some host \<Rightarrow> if validUserinfo userinfo \<and> urlUnescape EncodeUser userinfo \<noteq> None then Some host else None))"

section \<open>Parse\<close>

record url =
  u_scheme :: string
  u_host :: string
  u_path :: string

text \<open>\<open>getScheme\<close>: \<open>None\<close> is the error for a missing scheme before a colon.\<close>

fun schemeScan :: "nat \<Rightarrow> string \<Rightarrow> string \<Rightarrow> (string \<times> string) option" where
  "schemeScan i seen [] = Some ([], rev seen)"
| "schemeScan i seen (c # s) =
     (if isLowerAlpha c \<or> isUpperAlpha c then schemeScan (Suc i) (c # seen) s
      else if isDigit c \<or> c \<in> set ''+-.'' then
        (if i = 0 then Some ([], rev seen @ c # s) else schemeScan (Suc i) (c # seen) s)
      else if c = CHR '':'' then (if i = 0 then None else Some (rev seen, s))
      else Some ([], rev seen @ c # s))"

definition hasControlByte :: "string \<Rightarrow> bool" where
  "hasControlByte s = list_ex (\<lambda>c. of_char c < (32::nat) \<or> c = CHR 0x7F) s"

definition withPath :: "string \<Rightarrow> string \<Rightarrow> string \<Rightarrow> url option" where
  "withPath scheme host p = map_option (\<lambda>q. \<lparr>u_scheme = scheme, u_host = host, u_path = q\<rparr>) (urlUnescape EncodePath p)"

definition urlParseBody :: "string \<Rightarrow> url option" where
  "urlParseBody raw =
     (if hasControlByte raw then None
      else if raw = ''*'' then Some \<lparr>u_scheme = [], u_host = [], u_path = ''*''\<rparr>
      else (case schemeScan 0 [] raw of
         None \<Rightarrow> None
       | Some (scheme0, rest0) \<Rightarrow>
           let scheme = toLower scheme0; rest = fst (cutAt CHR ''?'' rest0) in
           if \<not> hasPrefix rest ''/'' \<and> scheme \<noteq> [] then Some \<lparr>u_scheme = scheme, u_host = [], u_path = []\<rparr>
           else if \<not> hasPrefix rest ''/'' \<and> CHR '':'' \<in> set (fst (cutAt CHR ''/'' rest)) then None
           else if (scheme \<noteq> [] \<or> \<not> hasPrefix rest ''///'') \<and> hasPrefix rest ''//'' then
             (let authority = takeWhile (\<lambda>c. c \<noteq> CHR ''/'') (drop 2 rest); path = dropWhile (\<lambda>c. c \<noteq> CHR ''/'') (drop 2 rest) in
              case urlParseAuthority authority of None \<Rightarrow> None | Some host \<Rightarrow> withPath scheme host path)
           else withPath scheme [] rest))"

definition urlParse :: "string \<Rightarrow> url option" where
  "urlParse raw = (case cutAt CHR ''#'' raw of (body, fragment, _) \<Rightarrow>
     (case urlParseBody body of
        None \<Rightarrow> None
      | Some u \<Rightarrow> if fragment = [] \<or> urlUnescape EncodeFragment fragment \<noteq> None then Some u else None))"

section \<open>SplitHostPort\<close>

definition splitHostPort :: "string \<Rightarrow> (string \<times> string) option" where
  "splitHostPort hostport = (case lastCut CHR '':'' hostport of
     None \<Rightarrow> None
   | Some (before, port) \<Rightarrow>
       if hasPrefix hostport ''['' then
         (case cutAt CHR '']'' (tl hostport) of (host, after, found) \<Rightarrow>
            if \<not> found \<or> after \<noteq> CHR '':'' # port then None
            else if CHR ''['' \<in> set (tl hostport) \<or> CHR '']'' \<in> set after then None
            else Some (host, port))
       else if CHR '':'' \<in> set before then None
       else if CHR ''['' \<in> set hostport \<or> CHR '']'' \<in> set hostport then None
       else Some (before, port))"

section \<open>The addresses the program prints can be read back\<close>

definition plainChar :: "char \<Rightarrow> bool" where
  "plainChar c \<longleftrightarrow> isLowerAlpha c \<or> isDigit c \<or> c = CHR ''.'' \<or> c = CHR ''-''"

lemma plainChar_range: "plainChar c \<Longrightarrow> 45 \<le> (of_char c :: nat) \<and> (of_char c :: nat) < 123 \<and> (of_char c :: nat) \<noteq> 58
    \<and> (of_char c :: nat) \<noteq> 47 \<and> (of_char c :: nat) \<noteq> 63 \<and> (of_char c :: nat) \<noteq> 64 \<and> (of_char c :: nat) \<noteq> 91"
  by (auto simp: plainChar_def isLowerAlpha_def isDigit_def)

lemma plainChar_specials [simp]:
  "\<not> plainChar CHR '':''" "\<not> plainChar CHR ''/''" "\<not> plainChar CHR ''?''" "\<not> plainChar CHR ''#''"
  "\<not> plainChar CHR 0x40" "\<not> plainChar CHR 0x25" "\<not> plainChar CHR ''[''" "\<not> plainChar CHR '']''"
  by (simp_all add: plainChar_def isLowerAlpha_def isDigit_def)

lemma plain_no: "list_all plainChar s \<Longrightarrow> \<not> plainChar c \<Longrightarrow> c \<notin> set s"
  by (auto simp: list_all_iff)

lemma plain_no_control: "list_all plainChar s \<Longrightarrow> \<not> hasControlByte s"
proof -
  assume plain: "list_all plainChar s"
  have "\<not> (of_char c < (32::nat) \<or> c = CHR 0x7F)" if "plainChar c" for c
    using plainChar_range [OF that] by auto
  with plain show ?thesis unfolding hasControlByte_def list_ex_iff list_all_iff by blast
qed

lemma hasControlByte_append [simp]: "hasControlByte (s @ t) \<longleftrightarrow> hasControlByte s \<or> hasControlByte t"
  by (simp add: hasControlByte_def)

lemma plainChar_host: "plainChar c \<Longrightarrow> urlHostChar c"
  by (auto simp: plainChar_def urlHostChar_def urlUnreserved_def)

lemma digit_plain: "isDigit c \<Longrightarrow> plainChar c"
  by (simp add: plainChar_def)

lemma urlUnescape_plain:
  "list_all (\<lambda>c. urlHostChar c \<and> c \<noteq> CHR 0x25) s \<Longrightarrow> urlUnescape EncodeHost s = Some s"
  by (induction s) auto

lemma lastCut_append: "c \<notin> set t \<Longrightarrow> lastCut c (s @ c # t) = Some (s, t)"
proof -
  assume "c \<notin> set t"
  then have "takeWhile (\<lambda>d. d \<noteq> c) (rev t @ c # rev s) = rev t" "dropWhile (\<lambda>d. d \<noteq> c) (rev t @ c # rev s) = c # rev s"
    by (simp_all add: takeWhile_append dropWhile_append)
  then show ?thesis by (simp add: lastCut_def)
qed

lemma lastCut_none: "c \<notin> set s \<Longrightarrow> lastCut c s = None"
  by (simp add: lastCut_def)

lemma cutAt_none: "c \<notin> set s \<Longrightarrow> cutAt c s = (s, [], False)"
proof -
  assume "c \<notin> set s"
  then have "takeWhile (\<lambda>ca. ca \<noteq> c) s = s" by (auto simp: takeWhile_eq_all_conv)
  then have "length (takeWhile (\<lambda>ca. ca \<noteq> c) s) = length s" by (rule arg_cong)
  then show ?thesis by (simp add: cutAt_def Let_def)
qed

lemma urlParse_endpoint:
  assumes host: "host \<noteq> []" "list_all plainChar host" and port: "list_all isDigit port"
  shows "urlParse (''https://'' @ host @ '':'' @ port) = Some \<lparr>u_scheme = ''https'', u_host = host @ '':'' @ port, u_path = []\<rparr>"
proof -
  let ?authority = "host @ '':'' @ port"
  have plain: "list_all plainChar port" using port by (auto simp: list_all_iff digit_plain)
  have chars: "c \<in> set ?authority \<Longrightarrow> plainChar c \<or> c = CHR '':''" for c
    using host plain by (auto simp: list_all_iff)
  have no: "CHR ''#'' \<notin> set ?authority" "CHR ''?'' \<notin> set ?authority" "CHR ''/'' \<notin> set ?authority" "CHR 0x40 \<notin> set ?authority" "CHR 0x25 \<notin> set ?authority"
    using plain_no [OF host(2)] plain_no [OF plain] by simp_all
  have first: "\<not> hasPrefix ?authority ''[''"
    using plain_no [OF host(2), of "CHR ''[''"] host(1) by (cases host) (auto simp: hasPrefix_def)
  have ctl: "\<not> hasControlByte (''https://'' @ ?authority)"
    using plain_no_control [OF host(2)] plain_no_control [OF plain] by (simp, simp add: hasControlByte_def)
  have hostOk: "urlParseHost ?authority = Some ?authority"
  proof -
    have "list_all (\<lambda>c. urlHostChar c \<and> c \<noteq> CHR 0x25) ?authority"
    proof -
      have ok: "urlHostChar c \<and> c \<noteq> CHR 0x25" if "plainChar c" for c using plainChar_host [OF that] that by auto
      have "urlHostChar CHR '':''" by (simp add: urlHostChar_def)
      with host(2) plain ok show ?thesis unfolding list_all_append by (simp add: list_all_iff)
    qed
    moreover have "lastCut CHR '':'' ?authority = Some (host, port)"
      using lastCut_append [of "CHR '':''" port host] plain_no [OF plain] by simp
    ultimately show ?thesis using first port by (simp add: urlParseHost_def validOptionalPort_def urlUnescape_plain)
  qed
  have scheme: "schemeScan 0 [] (''https://'' @ ?authority) = Some (''https'', ''//'' @ ?authority)"
    by (simp add: isLowerAlpha_def isDigit_def isUpperAlpha_def)
  have tw: "takeWhile (\<lambda>c. c \<noteq> CHR ''/'') ?authority = ?authority" "dropWhile (\<lambda>c. c \<noteq> CHR ''/'') ?authority = []"
    using no(3) by (auto simp: takeWhile_eq_all_conv dropWhile_eq_Nil_conv)
  have query: "cutAt CHR ''?'' (''//'' @ ?authority) = (''//'' @ ?authority, [], False)"
    using no(2) by (intro cutAt_none) simp
  have body: "urlParseBody (''https://'' @ ?authority) = Some \<lparr>u_scheme = ''https'', u_host = ?authority, u_path = []\<rparr>"
  proof -
    have prefixes: "hasPrefix (''//'' @ ?authority) ''/''" "hasPrefix (''//'' @ ?authority) ''//''"
      and lower: "toLower ''https'' = ''https''" and skip: "drop 2 (''//'' @ ?authority) = ?authority"
      by (simp_all add: hasPrefix_def toLower_def lowerChar_def isUpperAlpha_def)
    have parsed: "urlParseAuthority ?authority = Some ?authority"
      unfolding urlParseAuthority_def lastCut_none [OF no(4)] option.case by (rule hostOk)
    have "withPath ''https'' ?authority [] = Some \<lparr>u_scheme = ''https'', u_host = ?authority, u_path = []\<rparr>"
      by (simp add: withPath_def)
    moreover have "''https://'' @ ?authority \<noteq> ''*''" "''https'' \<noteq> []" by simp_all
    ultimately show ?thesis
      unfolding urlParseBody_def scheme option.case prod.case Let_def query fst_conv lower skip parsed tw
      using ctl prefixes by (simp only: if_False if_True simp_thms option.case)
  qed
  have "cutAt CHR ''#'' (''https://'' @ ?authority) = (''https://'' @ ?authority, [], False)"
    using no(1) by (intro cutAt_none) simp
  then show ?thesis unfolding urlParse_def by (simp only: prod.case body option.case simp_thms if_True)
qed

lemma splitHostPort_endpoint:
  assumes "host \<noteq> []" "list_all plainChar host" "list_all isDigit port"
  shows "splitHostPort (host @ '':'' @ port) = Some (host, port)"
proof -
  have plain: "list_all plainChar port" using assms by (auto simp: list_all_iff digit_plain)
  note no = plain_no [OF plain] plain_no [OF assms(2)]
  have "\<not> hasPrefix (host @ '':'' @ port) ''[''"
    using no(2) [of "CHR ''[''"] assms(1) by (cases host) (auto simp: hasPrefix_def)
  moreover have "lastCut CHR '':'' (host @ '':'' @ port) = Some (host, port)"
    using lastCut_append [of "CHR '':''" port host] no by simp
  moreover have "CHR ''['' \<notin> set (host @ '':'' @ port)" "CHR '']'' \<notin> set (host @ '':'' @ port)" "CHR '':'' \<notin> set host"
    using no by simp_all
  ultimately show ?thesis by (simp add: splitHostPort_def)
qed

end
