(* ===== verification/Proxy.thy ===== *)
theory Proxy
  imports GoURL HARuntime
begin

text \<open>
  The loopback proxy in front of the API servers of a cluster (\<open>ha_proxy.go\<close>): its options, the checks
  before it listens, the pool that chooses a backend for a client, and the serving itself as
  a step relation whose steps are the sections the code runs under a mutex and the calls between them, in any interleaving of
  the clients, the monitor and the shutdown.  A Go map of booleans is a predicate (an absent key is false); a socket is a number.
\<close>

section \<open>Options\<close>

record haProxyOptions =
  po_healthInterval :: int
  po_healthTimeout :: int
  po_identityInterval :: int
  po_identityTimeout :: int
  po_dialTimeout :: int
  po_maxClients :: int

definition defaultHAProxyOptions :: haProxyOptions where
  "defaultHAProxyOptions = \<lparr>po_healthInterval = second, po_healthTimeout = 4 * second, po_identityInterval = 30 * second,
     po_identityTimeout = 10 * second, po_dialTimeout = 2 * second, po_maxClients = 128\<rparr>"

definition orPositive :: "int \<Rightarrow> int \<Rightarrow> int" where
  "orPositive value fallback = (if value \<le> 0 then fallback else value)"

definition normalizeHAProxyOptions :: "haProxyOptions \<Rightarrow> haProxyOptions" where
  "normalizeHAProxyOptions options =
     \<lparr>po_healthInterval = orPositive (po_healthInterval options) (po_healthInterval defaultHAProxyOptions),
      po_healthTimeout = orPositive (po_healthTimeout options) (po_healthTimeout defaultHAProxyOptions),
      po_identityInterval = orPositive (po_identityInterval options) (po_identityInterval defaultHAProxyOptions),
      po_identityTimeout = orPositive (po_identityTimeout options) (po_identityTimeout defaultHAProxyOptions),
      po_dialTimeout = orPositive (po_dialTimeout options) (po_dialTimeout defaultHAProxyOptions),
      po_maxClients = orPositive (po_maxClients options) (po_maxClients defaultHAProxyOptions)\<rparr>"

section \<open>Endpoint and backends\<close>

definition haProxyHost :: string where "haProxyHost = ''127.0.0.1''"

definition haProxyAddress :: "string \<Rightarrow> gerror + string" where
  "haProxyAddress endpoint = (case urlParse endpoint of
     None \<Rightarrow> Inl (Msg ''invalid HA proxy endpoint'')
   | Some parsed \<Rightarrow>
       if u_scheme parsed \<noteq> ''https'' \<or> u_host parsed = [] \<or> u_path parsed \<noteq> [] then Inl (Msg ''invalid HA proxy endpoint'')
       else (case splitHostPort (u_host parsed) of
           None \<Rightarrow> Inl (Msg ''HA proxy endpoint must use loopback host'')
         | Some (host, port) \<Rightarrow>
             if host \<noteq> haProxyHost then Inl (Msg ''HA proxy endpoint must use loopback host'')
             else (case atoi port of
                 None \<Rightarrow> Inl (Msg ''HA proxy endpoint has invalid port'')
               | Some p \<Rightarrow> if p < 1024 \<or> 65535 < p then Inl (Msg ''HA proxy endpoint has invalid port'')
                   else Inr (u_host parsed))))"

record haProxyBackend =
  pb_member :: HAMember
  pb_address :: string

abbreviation backendID :: "haProxyBackend \<Rightarrow> int" where "backendID b \<equiv> hm_ID (pb_member b)"

definition proxyBackend :: "'x env \<Rightarrow> HAConfig \<Rightarrow> HAMember \<Rightarrow> ('x, haProxyBackend) op" where
  "proxyBackend E config member =
     tryA (inspectHAContainer E None (HAContainerName (hc_Name config) (hm_ID member))) (\<lambda>record0.
     tryA (liftA (validateHAContainer record0 config member)) (\<lambda>_.
     case urlParse (apiEndpoint member (hc_ListenAddress config)) of
       None \<Rightarrow> errA (Msg ''HA member has invalid API endpoint'')
     | Some endpoint \<Rightarrow> if u_host endpoint = [] then errA (Msg ''HA member has invalid API endpoint'')
         else retA \<lparr>pb_member = member, pb_address = u_host endpoint\<rparr>))"

definition validateHAProxyBackends :: "'x env \<Rightarrow> HAConfig \<Rightarrow> ('x, haProxyBackend list) op" where
  "validateHAProxyBackends E config =
     tryA (foldA (\<lambda>backends member. tryA (proxyBackend E config member) (\<lambda>b. retA (backends @ [b]))) [] (hc_Members config))
       (\<lambda>backends. retA (sort_key backendID backends))"

text \<open>The probes run side by side and report by member; here they run in the order of the backends.\<close>

definition probeHAProxyReadiness :: "'x env \<Rightarrow> HAConfig \<Rightarrow> haProxyBackend list \<Rightarrow> ('x, int \<Rightarrow> bool) op" where
  "probeHAProxyReadiness E config backends =
     foldA (\<lambda>health b. tryA (queryExt (\<lambda>x. e_probeAPI E x config (pb_member b))) (\<lambda>healthy. retA (health(backendID b := healthy))))
       (\<lambda>_. False) backends"

definition backendTrusted :: "'x env \<Rightarrow> HAConfig \<Rightarrow> haProxyBackend \<Rightarrow> ('x, bool) op" where
  "backendTrusted E config b =
     catchA (inspectHAContainer E None (HAContainerName (hc_Name config) (backendID b))) (\<lambda>r. case r of
       Inl _ \<Rightarrow> retA False
     | Inr record0 \<Rightarrow> retA (isOk (validateHAContainer record0 config (pb_member b)) \<and> stateIs record0 ''running''))"

definition validateHAProxyBackendIdentities :: "'x env \<Rightarrow> HAConfig \<Rightarrow> haProxyBackend list \<Rightarrow> ('x, int \<Rightarrow> bool) op" where
  "validateHAProxyBackendIdentities E config backends =
     foldA (\<lambda>identity b. tryA (backendTrusted E config b) (\<lambda>trusted. retA (identity(backendID b := trusted)))) (\<lambda>_. False) backends"

section \<open>The pool\<close>

record haProxyPool =
  pl_backends :: "haProxyBackend list"
  pl_healthy :: "int \<Rightarrow> bool"
  pl_trusted :: "int \<Rightarrow> bool"
  pl_next :: int

definition newHAProxyPool :: "haProxyBackend list \<Rightarrow> haProxyPool" where
  "newHAProxyPool backends = \<lparr>pl_backends = backends, pl_healthy = (\<lambda>_. False),
     pl_trusted = (\<lambda>i. i \<in> backendID ` set backends), pl_next = 0\<rparr>"

definition replaceHealth :: "(int \<Rightarrow> bool) \<Rightarrow> haProxyPool \<Rightarrow> haProxyPool" where
  "replaceHealth health pool = pool\<lparr>pl_healthy := health\<rparr>"

definition replaceIdentity :: "(int \<Rightarrow> bool) \<Rightarrow> haProxyPool \<Rightarrow> haProxyPool" where
  "replaceIdentity identity pool = pool\<lparr>pl_trusted := identity\<rparr>"

definition eligible :: "haProxyPool \<Rightarrow> haProxyBackend list" where
  "eligible pool = filter (\<lambda>b. pl_healthy pool (backendID b) \<and> pl_trusted pool (backendID b)) (pl_backends pool)"

definition healthyCount :: "haProxyPool \<Rightarrow> int" where
  "healthyCount pool = int (length (eligible pool))"

definition candidates :: "haProxyPool \<Rightarrow> haProxyBackend list \<times> haProxyPool" where
  "candidates pool = (let healthy = eligible pool; n = int (length healthy) in
     if healthy = [] then ([], pool)
     else let start = nat (pl_next pool mod n) in
       (drop start healthy @ take start healthy, pool\<lparr>pl_next := (pl_next pool + 1) mod n\<rparr>))"

definition markUnhealthy :: "int \<Rightarrow> haProxyPool \<Rightarrow> haProxyPool" where
  "markUnhealthy i pool = pool\<lparr>pl_healthy := (pl_healthy pool)(i := False)\<rparr>"

text \<open>One client: the first candidate that answers serves it, the ones before are marked.\<close>

fun tryBackends :: "(string \<Rightarrow> bool) \<Rightarrow> haProxyBackend list \<Rightarrow> haProxyPool \<Rightarrow> haProxyBackend option \<times> haProxyPool" where
  "tryBackends dial [] pool = (None, pool)"
| "tryBackends dial (b # bs) pool =
     (if dial (pb_address b) then (Some b, pool) else tryBackends dial bs (markUnhealthy (backendID b) pool))"

definition handleHAProxyClient :: "(string \<Rightarrow> bool) \<Rightarrow> haProxyPool \<Rightarrow> haProxyBackend option \<times> haProxyPool" where
  "handleHAProxyClient dial pool = (case candidates pool of (bs, pool') \<Rightarrow> tryBackends dial bs pool')"

section \<open>Before it listens\<close>

text \<open>
  \<open>serveHAProxy\<close> up to \<open>options.listen\<close>: \<open>None\<close> is the clean return of a cancelled context.
\<close>

definition whenAlive :: "'x env \<Rightarrow> ('x, 'a option) op \<Rightarrow> ('x, 'a option) op" where
  "whenAlive E m = tryA (askExt (e_ctxErr E)) (\<lambda>c. case c of Some _ \<Rightarrow> retA None | None \<Rightarrow> m)"

type_synonym preparedProxy = "(HAConfig \<times> haProxyPool \<times> string) option"

definition checkHAProxyBackends :: "'x env \<Rightarrow> HAConfig \<Rightarrow> string \<Rightarrow> ('x, preparedProxy) op" where
  "checkHAProxyBackends E config listenAddress =
     catchA (validateHAProxyBackends E config) (\<lambda>r. case r of
       Inl e \<Rightarrow> whenAlive E (errA e)
     | Inr backends \<Rightarrow>
         tryA (probeHAProxyReadiness E config backends) (\<lambda>health.
         let pool = replaceHealth health (newHAProxyPool backends) in
         whenAlive E (
           if healthyCount pool = 0 then errA (Msg ''HA proxy has no healthy API backends'')
           else retA (Some (config, pool, listenAddress)))))"

definition prepareHAProxy :: "'x env \<Rightarrow> string \<Rightarrow> ('x, preparedProxy) op" where
  "prepareHAProxy E name =
     whenAlive E (
     tryA (loadHAConfig E name) (\<lambda>config.
     tryA (liftA (haProxyEndpoint config)) (\<lambda>endpoint.
     tryA (liftA (haProxyAddress endpoint)) (\<lambda>listenAddress.
     checkHAProxyBackends E config listenAddress))))"

section \<open>Serving\<close>

record haProxyConnections =
  cn_connections :: "nat set"
  cn_closed :: bool

datatype clientPhase =
    Accepted
  | Trying "haProxyBackend list"
  | Dialled haProxyBackend nat
  | Relaying haProxyBackend nat
  | Closing

text \<open>The state of the process: \<open>px_slots\<close> is the length of the channel that bounds the clients, \<open>px_open\<close> the open sockets.\<close>

record proxyState =
  px_pool :: haProxyPool
  px_connections :: haProxyConnections
  px_open :: "nat set"
  px_clients :: "nat \<Rightarrow> clientPhase option"
  px_slots :: nat
  px_fresh :: nat

definition newProxyState :: "haProxyPool \<Rightarrow> proxyState" where
  "newProxyState pool = \<lparr>px_pool = pool, px_connections = \<lparr>cn_connections = {}, cn_closed = False\<rparr>, px_open = {},
     px_clients = (\<lambda>_. None), px_slots = 0, px_fresh = 0\<rparr>"

definition addConnection :: "nat \<Rightarrow> proxyState \<Rightarrow> proxyState" where
  "addConnection c s = (let cn = px_connections s in
     if cn_closed cn then s\<lparr>px_open := px_open s - {c}\<rparr>
     else s\<lparr>px_connections := cn\<lparr>cn_connections := insert c (cn_connections cn)\<rparr>\<rparr>)"

definition removeConnection :: "nat \<Rightarrow> proxyState \<Rightarrow> proxyState" where
  "removeConnection c s = s\<lparr>px_connections := (px_connections s)\<lparr>cn_connections := cn_connections (px_connections s) - {c}\<rparr>\<rparr>"

definition closeSocket :: "nat \<Rightarrow> proxyState \<Rightarrow> proxyState" where
  "closeSocket c s = s\<lparr>px_open := px_open s - {c}\<rparr>"

definition closeAll :: "proxyState \<Rightarrow> proxyState" where
  "closeAll s = s\<lparr>px_connections := (px_connections s)\<lparr>cn_closed := True\<rparr>,
     px_open := px_open s - cn_connections (px_connections s)\<rparr>"

definition setPhase :: "nat \<Rightarrow> clientPhase option \<Rightarrow> proxyState \<Rightarrow> proxyState" where
  "setPhase c phase s = s\<lparr>px_clients := (px_clients s)(c := phase)\<rparr>"

datatype proxyEvent =
    Accept
  | Begin nat
  | DialFails nat
  | DialWorks nat
  | Register nat
  | RelayEnds nat
  | Exhausted nat
  | Leave nat
  | Health "int \<Rightarrow> bool"
  | Identity "int \<Rightarrow> bool"
  | Shutdown

definition openSocket :: "proxyState \<Rightarrow> proxyState" where
  "openSocket s = s\<lparr>px_open := insert (px_fresh s) (px_open s), px_fresh := Suc (px_fresh s)\<rparr>"

definition acceptClient :: "nat \<Rightarrow> proxyState \<Rightarrow> proxyState" where
  "acceptClient maxClients s = (let c = px_fresh s in
     if px_slots s < maxClients
     then addConnection c (setPhase c (Some Accepted) (openSocket s))\<lparr>px_slots := Suc (px_slots s)\<rparr>
     else closeSocket c (openSocket s))"

fun proxyStep :: "nat \<Rightarrow> proxyEvent \<Rightarrow> proxyState \<Rightarrow> proxyState option" where
  "proxyStep maxClients Accept s = Some (acceptClient maxClients s)"
| "proxyStep maxClients (Begin c) s = (case px_clients s c of
     Some Accepted \<Rightarrow> (case candidates (px_pool s) of (bs, pool) \<Rightarrow> Some (setPhase c (Some (Trying bs)) s\<lparr>px_pool := pool\<rparr>))
   | _ \<Rightarrow> None)"
| "proxyStep maxClients (DialFails c) s = (case px_clients s c of
     Some (Trying (b # bs)) \<Rightarrow> Some (setPhase c (Some (Trying bs)) s\<lparr>px_pool := markUnhealthy (backendID b) (px_pool s)\<rparr>)
   | _ \<Rightarrow> None)"
| "proxyStep maxClients (DialWorks c) s = (case px_clients s c of
     Some (Trying (b # bs)) \<Rightarrow> Some (setPhase c (Some (Dialled b (px_fresh s))) (openSocket s))
   | _ \<Rightarrow> None)"
| "proxyStep maxClients (Register c) s = (case px_clients s c of
     Some (Dialled b u) \<Rightarrow> Some (addConnection u (setPhase c (Some (Relaying b u)) s))
   | _ \<Rightarrow> None)"
| "proxyStep maxClients (RelayEnds c) s = (case px_clients s c of
     Some (Relaying b u) \<Rightarrow> Some (closeSocket u (removeConnection u (setPhase c (Some Closing) s)))
   | _ \<Rightarrow> None)"
| "proxyStep maxClients (Exhausted c) s = (case px_clients s c of
     Some (Trying []) \<Rightarrow> Some (setPhase c (Some Closing) s)
   | _ \<Rightarrow> None)"
| "proxyStep maxClients (Leave c) s = (case px_clients s c of
     Some Closing \<Rightarrow> Some (removeConnection c (closeSocket c (setPhase c None s))\<lparr>px_slots := px_slots s - 1\<rparr>)
   | _ \<Rightarrow> None)"
| "proxyStep maxClients (Health health) s = Some (s\<lparr>px_pool := replaceHealth health (px_pool s)\<rparr>)"
| "proxyStep maxClients (Identity identity) s = Some (s\<lparr>px_pool := replaceIdentity identity (px_pool s)\<rparr>)"
| "proxyStep maxClients Shutdown s = Some (closeAll s)"

inductive serving :: "nat \<Rightarrow> haProxyPool \<Rightarrow> proxyState \<Rightarrow> bool" for maxClients pool where
  start: "serving maxClients pool (newProxyState pool)"
| step: "serving maxClients pool s \<Longrightarrow> proxyStep maxClients e s = Some s' \<Longrightarrow> serving maxClients pool s'"

inductive_cases servingE: "serving maxClients pool s"

section \<open>Fair selection\<close>

text \<open>
  What a client relies on: a selection is a rotation of what is eligible, changes nothing about
  eligibility, and the next one starts one further.
\<close>

locale rotating_selector =
  fixes pick :: "'p \<Rightarrow> 'b list \<times> 'p"
    and offered :: "'p \<Rightarrow> 'b list"
  assumes pick_rotates: "\<exists>k. fst (pick p) = rotate k (offered p)"
    and pick_keeps: "offered (snd (pick p)) = offered p"
    and pick_advances: "fst (pick (snd (pick p))) = rotate1 (fst (pick p))"
begin

abbreviation after :: "nat \<Rightarrow> 'p \<Rightarrow> 'p" where
  "after n p \<equiv> ((snd \<circ> pick) ^^ n) p"

lemma set_pick: "set (fst (pick p)) = set (offered p)"
  using pick_rotates [of p] by (auto simp: set_rotate)

lemma length_pick: "length (fst (pick p)) = length (offered p)"
  using pick_rotates [of p] by auto

lemma pick_after: "fst (pick (after n p)) = rotate n (fst (pick p))"
proof (induction n)
  case (Suc n)
  have "fst (pick (after (Suc n) p)) = rotate1 (fst (pick (after n p)))"
    by (simp add: pick_advances)
  also have "\<dots> = rotate (Suc n) (fst (pick p))"
    by (simp only: Suc.IH rotate_Suc)
  finally show ?case .
qed simp

lemma fair: "map (\<lambda>n. hd (fst (pick (after n p)))) [0..<length (offered p)] = fst (pick p)"
proof (rule nth_equalityI)
  fix n assume "n < length (map (\<lambda>n. hd (fst (pick (after n p)))) [0..<length (offered p)])"
  then have "n < length (fst (pick p))" by (simp add: length_pick)
  then show "map (\<lambda>n. hd (fst (pick (after n p)))) [0..<length (offered p)] ! n = fst (pick p) ! n"
    by (simp add: pick_after length_pick hd_rotate_conv_nth length_greater_0_conv [symmetric] del: length_greater_0_conv)
qed (simp add: length_pick)

end

lemma eligible_next [simp]: "eligible (pool\<lparr>pl_next := n\<rparr>) = eligible pool"
  by (simp add: eligible_def)

lemma candidates_rotate:
  "candidates pool = (rotate (nat (pl_next pool mod int (length (eligible pool)))) (eligible pool),
     if eligible pool = [] then pool else pool\<lparr>pl_next := (pl_next pool + 1) mod int (length (eligible pool))\<rparr>)"
proof (cases "eligible pool = []")
  case False
  then have "0 < int (length (eligible pool))" by simp
  then have "nat (pl_next pool mod int (length (eligible pool))) < length (eligible pool)"
    by (simp add: nat_less_iff)
  then show ?thesis using False by (simp add: candidates_def Let_def rotate_drop_take)
qed (simp add: candidates_def)

interpretation round_robin: rotating_selector candidates eligible
proof
  fix pool
  let ?n = "int (length (eligible pool))"
  show "\<exists>k. fst (candidates pool) = rotate k (eligible pool)" by (auto simp: candidates_rotate)
  show "eligible (snd (candidates pool)) = eligible pool" by (simp add: candidates_rotate)
  show "fst (candidates (snd (candidates pool))) = rotate1 (fst (candidates pool))"
  proof (cases "eligible pool = []")
    case False
    then have pos: "0 < ?n" by simp
    have "nat ((pl_next pool + 1) mod ?n) = Suc (nat (pl_next pool mod ?n)) mod length (eligible pool)"
      using pos by (simp add: nat_mod_distrib nat_add_distrib flip: mod_add_left_eq [of "pl_next pool"] nat_int_comparison)
    moreover have "rotate (Suc k mod length (eligible pool)) (eligible pool) = rotate1 (rotate k (eligible pool))" for k
      by (metis rotate_conv_mod rotate_Suc)
    ultimately show ?thesis using False by (simp add: candidates_rotate)
  qed (simp add: candidates_rotate)
qed

section \<open>One client\<close>

lemma eligible_markUnhealthy: "eligible (markUnhealthy i pool) = filter (\<lambda>b. backendID b \<noteq> i) (eligible pool)"
  by (auto simp: eligible_def markUnhealthy_def intro: filter_cong)

lemma tryBackends_find:
  "tryBackends dial bs pool = (find (\<lambda>b. dial (pb_address b)) bs,
     fold (\<lambda>b. markUnhealthy (backendID b)) (takeWhile (\<lambda>b. \<not> dial (pb_address b)) bs) pool)"
  by (induction bs arbitrary: pool) auto

lemma eligible_markAll:
  "eligible (fold (\<lambda>b. markUnhealthy (backendID b)) bs pool) = filter (\<lambda>b. backendID b \<notin> backendID ` set bs) (eligible pool)"
proof (induction bs arbitrary: pool)
  case (Cons b bs)
  then show ?case by (auto simp: eligible_markUnhealthy conj_commute intro: filter_cong)
qed simp

section \<open>What serving keeps\<close>

definition dialledBy :: "clientPhase option \<Rightarrow> nat set" where
  "dialledBy phase = (case phase of Some (Dialled b u) \<Rightarrow> {u} | _ \<Rightarrow> {})"

definition dialledSockets :: "(nat \<Rightarrow> clientPhase option) \<Rightarrow> nat set" where
  "dialledSockets clients = (\<Union>c. dialledBy (clients c))"

fun phaseBackends :: "clientPhase \<Rightarrow> haProxyBackend set" where
  "phaseBackends (Trying bs) = set bs"
| "phaseBackends (Dialled b u) = {b}"
| "phaseBackends (Relaying b u) = {b}"
| "phaseBackends _ = {}"

definition proxyInv :: "nat \<Rightarrow> haProxyBackend list \<Rightarrow> proxyState \<Rightarrow> bool" where
  "proxyInv maxClients backends s \<longleftrightarrow> pl_backends (px_pool s) = backends
     \<and> finite (dom (px_clients s)) \<and> px_slots s = card (dom (px_clients s)) \<and> px_slots s \<le> maxClients
     \<and> (\<forall>c\<in>dom (px_clients s) \<union> px_open s \<union> cn_connections (px_connections s) \<union> dialledSockets (px_clients s). c < px_fresh s)
     \<and> (\<forall>c phase. px_clients s c = Some phase \<longrightarrow> phaseBackends phase \<subseteq> set backends)
     \<and> px_open s \<subseteq> cn_connections (px_connections s) \<union> dialledSockets (px_clients s)
     \<and> (cn_closed (px_connections s) \<longrightarrow> px_open s \<inter> cn_connections (px_connections s) = {})"

lemma dialledBy_simps [simp]:
  "dialledBy (Some (Dialled b u)) = {u}" "dialledBy (Some Accepted) = {}" "dialledBy (Some (Trying bs)) = {}"
  "dialledBy (Some (Relaying b u)) = {}" "dialledBy (Some Closing) = {}" "dialledBy None = {}"
  by (simp_all add: dialledBy_def)

lemma dialled_phase:
  "dialledSockets clients \<subseteq> dialledSockets (clients(c := phase)) \<union> dialledBy (clients c)"
  "dialledSockets (clients(c := phase)) \<subseteq> dialledSockets clients \<union> dialledBy phase"
  "dialledBy phase \<subseteq> dialledSockets (clients(c := phase))"
  by (auto simp: dialledSockets_def split: if_splits)

lemma dialledSockets_none [simp]: "dialledSockets (\<lambda>_. None) = {}"
  by (simp add: dialledSockets_def)

lemma proxyInv_backends: "proxyInv maxClients backends s \<Longrightarrow> px_clients s c = Some phase \<Longrightarrow> phaseBackends phase \<subseteq> set backends"
  by (simp add: proxyInv_def)

lemmas proxy_updates = addConnection_def removeConnection_def closeSocket_def openSocket_def closeAll_def setPhase_def Let_def

text \<open>The parts of the invariant, each kept by the changes of one step.\<close>

lemma proxyInv_pool:
  "proxyInv maxClients backends s \<Longrightarrow> pl_backends pool = backends \<Longrightarrow> proxyInv maxClients backends (s\<lparr>px_pool := pool\<rparr>)"
  by (simp add: proxyInv_def)

lemma proxyInv_phase:
  assumes "proxyInv maxClients backends s" "px_clients s c = Some old"
    and "dialledBy (Some old) = {}" "dialledBy (Some phase) = {}" "phaseBackends phase \<subseteq> set backends"
  shows "proxyInv maxClients backends (setPhase c (Some phase) s)"
proof -
  have "dialledSockets ((px_clients s)(c \<mapsto> phase)) = dialledSockets (px_clients s)"
    using dialled_phase(1,2) [where clients = "px_clients s" and c = c and phase = "Some phase"] assms(2-4) by auto
  moreover have "insert c (dom (px_clients s)) = dom (px_clients s)" using assms(2) by auto
  ultimately show ?thesis using assms(1,5) unfolding proxyInv_def by (auto simp: setPhase_def)
qed

lemma proxyInv_register:
  assumes "proxyInv maxClients backends s" "px_clients s c = Some (Dialled b u)"
  shows "proxyInv maxClients backends (addConnection u (setPhase c (Some (Relaying b u)) s))"
proof -
  let ?clients = "(px_clients s)(c \<mapsto> Relaying b u)"
  have b: "b \<in> set backends" using proxyInv_backends [OF assms] by simp
  have u: "u \<in> dialledSockets (px_clients s)" using assms(2) by (auto simp: dialledSockets_def intro!: exI [of _ c])
  then have "u < px_fresh s" using assms(1) by (auto simp: proxyInv_def)
  moreover have "dialledSockets (px_clients s) \<subseteq> insert u (dialledSockets ?clients)" "dialledSockets ?clients \<subseteq> dialledSockets (px_clients s)"
    using dialled_phase(1,2) [where clients = "px_clients s" and c = c and phase = "Some (Relaying b u)"] assms(2) by auto
  moreover have "insert c (dom (px_clients s)) = dom (px_clients s)" using assms(2) by auto
  ultimately show ?thesis using assms(1) b unfolding proxyInv_def
    by (auto simp: addConnection_def setPhase_def Let_def)
qed

lemma proxyInv_dial:
  assumes "proxyInv maxClients backends s" "px_clients s c = Some (Trying (b # bs))"
  shows "proxyInv maxClients backends (setPhase c (Some (Dialled b (px_fresh s))) (openSocket s))"
proof -
  let ?clients = "(px_clients s)(c \<mapsto> Dialled b (px_fresh s))"
  have b: "b \<in> set backends" using proxyInv_backends [OF assms] by simp
  have "dialledSockets ?clients = insert (px_fresh s) (dialledSockets (px_clients s))"
    using dialled_phase [where clients = "px_clients s" and c = c and phase = "Some (Dialled b (px_fresh s))"] assms(2) by auto
  moreover have "insert c (dom (px_clients s)) = dom (px_clients s)" using assms(2) by auto
  ultimately show ?thesis using assms(1) b unfolding proxyInv_def
    by (auto simp: openSocket_def setPhase_def less_Suc_eq)
qed

lemma proxyInv_accept:
  assumes "proxyInv maxClients backends s"
  shows "proxyInv maxClients backends (acceptClient maxClients s)"
proof -
  have new: "px_fresh s \<notin> dom (px_clients s)" "px_fresh s \<notin> px_open s" "px_fresh s \<notin> cn_connections (px_connections s)"
    using assms unfolding proxyInv_def by blast+
  then have "px_clients s (px_fresh s) = None" by blast
  then have "dialledSockets ((px_clients s)(px_fresh s \<mapsto> Accepted)) = dialledSockets (px_clients s)"
    using dialled_phase(1,2) [where clients = "px_clients s" and c = "px_fresh s" and phase = "Some Accepted"] by auto
  with new assms show ?thesis unfolding proxyInv_def
    by (auto simp: acceptClient_def addConnection_def closeSocket_def openSocket_def setPhase_def Let_def less_Suc_eq)
qed

lemma proxyInv_close: "proxyInv maxClients backends s \<Longrightarrow> proxyInv maxClients backends (closeSocket u (removeConnection u s))"
  unfolding proxyInv_def by (auto simp: closeSocket_def removeConnection_def)

lemma proxyInv_closeAll: "proxyInv maxClients backends s \<Longrightarrow> proxyInv maxClients backends (closeAll s)"
  unfolding proxyInv_def by (auto simp: closeAll_def)

lemma proxyInv_leave:
  assumes "proxyInv maxClients backends s" "px_clients s c = Some Closing"
  shows "proxyInv maxClients backends (removeConnection c (closeSocket c (setPhase c None s))\<lparr>px_slots := px_slots s - 1\<rparr>)"
proof -
  have "dialledSockets ((px_clients s)(c := None)) = dialledSockets (px_clients s)"
    using dialled_phase(1,2) [where clients = "px_clients s" and c = c and phase = None] by (auto simp: assms(2))
  moreover have "card (dom (px_clients s) - {c}) = card (dom (px_clients s)) - 1"
    using assms by (intro card_Diff_singleton) auto
  ultimately show ?thesis using assms unfolding proxyInv_def
    by (auto simp: removeConnection_def closeSocket_def setPhase_def split: if_splits)
qed

lemma backends_candidates [simp]: "pl_backends (snd (candidates pool)) = pl_backends pool"
  by (simp add: candidates_rotate)

lemma candidates_subset: "set (fst (candidates pool)) \<subseteq> set (pl_backends pool)"
  unfolding round_robin.set_pick by (auto simp: eligible_def)

lemma proxyInv_step:
  assumes inv: "proxyInv maxClients backends s" and step: "proxyStep maxClients e s = Some s'"
  shows "proxyInv maxClients backends s'"
proof -
  have pool: "pl_backends (px_pool s) = backends" using inv by (simp add: proxyInv_def)
  have sub: "phaseBackends phase \<subseteq> set backends" if "px_clients s c = Some phase" for c phase
    using inv that by (simp add: proxyInv_def)
  show ?thesis
  proof (cases e)
    case Accept
    then show ?thesis using step proxyInv_accept [OF inv] by simp
  next
    case (Begin c)
    then obtain bs pool' where c: "px_clients s c = Some Accepted" "candidates (px_pool s) = (bs, pool')"
      "s' = setPhase c (Some (Trying bs)) s\<lparr>px_pool := pool'\<rparr>"
      using step by (auto split: option.splits clientPhase.splits prod.splits)
    then show ?thesis unfolding c(3)
      using backends_candidates [of "px_pool s"] candidates_subset [of "px_pool s"] pool
      by (intro proxyInv_pool proxyInv_phase [OF inv c(1)]) simp_all
  next
    case (DialFails c)
    then obtain b bs where c: "px_clients s c = Some (Trying (b # bs))"
      "s' = setPhase c (Some (Trying bs)) s\<lparr>px_pool := markUnhealthy (backendID b) (px_pool s)\<rparr>"
      using step by (auto split: option.splits clientPhase.splits list.splits)
    then show ?thesis unfolding c(2) using pool sub [OF c(1)]
      by (intro proxyInv_pool proxyInv_phase [OF inv c(1)]) (simp_all add: markUnhealthy_def)
  next
    case (DialWorks c)
    then show ?thesis using step proxyInv_dial [OF inv] by (auto split: option.splits clientPhase.splits list.splits)
  next
    case (Register c)
    then show ?thesis using step proxyInv_register [OF inv] by (auto split: option.splits clientPhase.splits)
  next
    case (RelayEnds c)
    then obtain b u where c: "px_clients s c = Some (Relaying b u)"
      "s' = closeSocket u (removeConnection u (setPhase c (Some Closing) s))"
      using step by (auto split: option.splits clientPhase.splits)
    then show ?thesis unfolding c(2) by (intro proxyInv_close proxyInv_phase [OF inv c(1)]) simp_all
  next
    case (Exhausted c)
    then show ?thesis using step proxyInv_phase [OF inv, of c _ Closing] by (auto split: option.splits clientPhase.splits list.splits)
  next
    case (Leave c)
    then show ?thesis using step proxyInv_leave [OF inv] by (auto split: option.splits clientPhase.splits)
  next
    case (Health h)
    then have s': "s' = s\<lparr>px_pool := replaceHealth h (px_pool s)\<rparr>" using step by simp
    show ?thesis unfolding s' by (rule proxyInv_pool [OF inv]) (simp add: replaceHealth_def pool)
  next
    case (Identity h)
    then have s': "s' = s\<lparr>px_pool := replaceIdentity h (px_pool s)\<rparr>" using step by simp
    show ?thesis unfolding s' by (rule proxyInv_pool [OF inv]) (simp add: replaceIdentity_def pool)
  next
    case Shutdown
    then show ?thesis using step proxyInv_closeAll [OF inv] by simp
  qed
qed

lemma proxyInv_start: "proxyInv maxClients (pl_backends pool) (newProxyState pool)"
  by (simp add: proxyInv_def newProxyState_def)

lemma serving_inv: "serving maxClients pool s \<Longrightarrow> proxyInv maxClients (pl_backends pool) s"
  by (induction rule: serving.induct) (blast intro: proxyInv_start proxyInv_step)+

section \<open>What is checked before the proxy listens\<close>

lemma yields_proxyBackend: "yields (\<lambda>b. pb_member b = member) (proxyBackend E config member)"
  unfolding proxyBackend_def by (intro results) simp

lemma yields_foldBackends:
  "yields (\<lambda>bs'. map pb_member bs' = map pb_member bs @ ms)
     (foldA (\<lambda>backends member. tryA (proxyBackend E config member) (\<lambda>b. retA (backends @ [b]))) bs ms)"
proof (induction ms arbitrary: bs)
  case Nil
  show ?case unfolding foldA.simps by (intro yields_retA) simp
next
  case (Cons m ms)
  have "yields (\<lambda>bs'. map pb_member bs' = map pb_member bs @ [m]) (tryA (proxyBackend E config m) (\<lambda>b. retA (bs @ [b])))"
    by (rule yields_tryA_from [OF yields_proxyBackend], rule yields_retA) simp
  then show ?case unfolding foldA.simps
    by (rule yields_tryA_from) (rule yields_mono [OF Cons.IH], simp)
qed

lemma yields_validateBackends:
  assumes "wf_HAConfig config"
  shows "yields (\<lambda>bs. map pb_member bs = hc_Members config) (validateHAProxyBackends E config)"
  unfolding validateHAProxyBackends_def
proof (rule yields_tryA_from [OF yields_foldBackends])
  fix bs :: "haProxyBackend list" assume bs: "map pb_member bs = map pb_member [] @ hc_Members config"
  have "map backendID bs = map hm_ID (map pb_member bs)" by simp
  also have "\<dots> = [1, 2, 3]" unfolding bs using wf_member_ids [OF assms] by simp
  finally have "sort_key backendID bs = bs" by (intro sort_key_id_if_sorted) simp
  with bs show "yields (\<lambda>bs. map pb_member bs = hc_Members config) (retA (sort_key backendID bs))"
    by (intro yields_retA) simp
qed

lemma quiet_prepareHAProxy: "emits quiet (prepareHAProxy E name)"
  unfolding prepareHAProxy_def checkHAProxyBackends_def whenAlive_def validateHAProxyBackends_def proxyBackend_def probeHAProxyReadiness_def
  by (intro effects quiet_inspects)

lemma haProxyEndpoint_Inr:
  assumes "haProxyEndpoint config = Inr endpoint"
  obtains port where "1024 \<le> port" "port = Min (set (map hm_HostAPIPort (hc_Members config))) - 1"
    "endpoint = ''https://'' @ haProxyHost @ '':'' @ itoa port" "haProxyAddress endpoint = Inr (haProxyHost @ '':'' @ itoa port)"
proof -
  let ?ports = "map hm_HostAPIPort (hc_Members config)"
  obtain port where p: "haProxyPort config = Inr port"
    using assms by (cases "haProxyPort config") (simp_all add: haProxyEndpoint_def)
  then have "okOf (haProxyPort config) = Some port" by simp
  then have port: "?ports \<noteq> []" "list_all validPort ?ports" "1025 \<le> Min (set ?ports)" "port = Min (set ?ports) - 1"
    unfolding haProxyPort_exact Let_def by (auto split: if_splits)
  have "Min (set ?ports) \<in> set ?ports" using port(1) by (intro Min_in) simp_all
  then have range: "1024 \<le> port" "port \<le> 65535"
    using port(2-4) by (auto simp: list_all_iff validPort_def)
  have host: "haProxyHost \<noteq> []" "list_all plainChar haProxyHost" and nocolon: "joinHostPort ''127.0.0.1'' d = haProxyHost @ '':'' @ d" for d
    by (simp_all add: haProxyHost_def plainChar_def isDigit_def isLowerAlpha_def joinHostPort_def)
  have digits: "list_all isDigit (itoa port)" using range by (simp add: itoa_def natToDec_digits)
  have atoi: "atoi (itoa port) = Some port" using range by (simp add: itoa_def atoi_natToDec)
  have "haProxyAddress (''https://'' @ haProxyHost @ '':'' @ itoa port) = Inr (haProxyHost @ '':'' @ itoa port)"
    unfolding haProxyAddress_def urlParse_endpoint [OF host digits] option.case url.simps splitHostPort_endpoint [OF host digits] prod.case atoi
    using range by simp
  moreover have "endpoint = ''https://'' @ haProxyHost @ '':'' @ itoa port"
    using assms unfolding haProxyEndpoint_def p tryS_simps nocolon by simp
  ultimately show ?thesis using that port(4) range(1) by blast
qed

text \<open>What a prepared proxy is.\<close>

definition preparedGood :: "preparedProxy \<Rightarrow> bool" where
  "preparedGood r = (case r of None \<Rightarrow> True | Some (config, pool, address) \<Rightarrow>
     map backendID (pl_backends pool) = [1, 2, 3] \<and> list_all (\<lambda>b. pl_trusted pool (backendID b)) (pl_backends pool)
     \<and> eligible pool \<noteq> [] \<and> haProxyEndpoint config = Inr (''https://'' @ address))"

lemma yields_whenAlive: "yields preparedGood m \<Longrightarrow> yields preparedGood (whenAlive E m)"
  unfolding whenAlive_def by (intro results) (simp_all add: preparedGood_def)

lemma yields_checkBackends:
  assumes wf: "wf_HAConfig config" and endpoint: "haProxyEndpoint config = Inr (''https://'' @ address)"
  shows "yields preparedGood (checkHAProxyBackends E config address)"
  unfolding checkHAProxyBackends_def
proof (rule yields_catchA_from [OF yields_validateBackends [OF wf]])
  fix r :: "gerror + haProxyBackend list" assume r: "\<And>bs. r = Inr bs \<Longrightarrow> map pb_member bs = hc_Members config"
  have ids: "map backendID bs = [1, 2, 3]" if "r = Inr bs" for bs
  proof -
    have "map backendID bs = map hm_ID (map pb_member bs)" by simp
    then show ?thesis unfolding r [OF that] wf_member_ids [OF wf] .
  qed
  show "yields preparedGood (case r of
       Inl e \<Rightarrow> whenAlive E (errA e)
     | Inr backends \<Rightarrow>
         tryA (probeHAProxyReadiness E config backends) (\<lambda>health.
         let pool = replaceHealth health (newHAProxyPool backends) in
         whenAlive E (
           if healthyCount pool = 0 then errA (Msg ''HA proxy has no healthy API backends'')
           else retA (Some (config, pool, address)))))"
    unfolding Let_def
    by (intro yields_case_sum yields_whenAlive yields_tryA yields_if yields_retA yields_errA)
      (auto simp: preparedGood_def replaceHealth_def newHAProxyPool_def healthyCount_def list_all_iff endpoint ids)
qed

lemma yields_prepareHAProxy: "yields preparedGood (prepareHAProxy E name)"
  unfolding prepareHAProxy_def
proof (intro yields_whenAlive, rule yields_tryA_from [where Q = wf_HAConfig])
  show "yields wf_HAConfig (loadHAConfig E name)" by (rule yieldsI) (use loadHAConfig_wf in blast)
next
  fix config assume wf: "wf_HAConfig config"
  have address: "yields preparedGood (tryA (liftA (haProxyAddress endpoint)) (checkHAProxyBackends E config))"
    if endpoint: "haProxyEndpoint config = Inr endpoint" for endpoint
  proof (rule yields_tryA_from [where Q = "\<lambda>a. endpoint = ''https://'' @ a"])
    show "yields (\<lambda>a. endpoint = ''https://'' @ a) (liftA (haProxyAddress endpoint))"
      by (rule haProxyEndpoint_Inr [OF endpoint]) (auto intro!: yieldsI)
  qed (rule yields_checkBackends [OF wf], simp add: endpoint)
  show "yields preparedGood (tryA (liftA (haProxyEndpoint config)) (\<lambda>endpoint.
      tryA (liftA (haProxyAddress endpoint)) (checkHAProxyBackends E config)))"
    by (rule yields_tryA_from [where Q = "\<lambda>endpoint. haProxyEndpoint config = Inr endpoint"])
      (auto intro!: yieldsI address)
qed

section \<open>Properties\<close>

text \<open>
  What the proxy derives as its endpoint is an address it accepts: the listening address is
  the endpoint without the scheme, on the loopback host, at the unprivileged port just below every API port of a member.
\<close>

lemma proxy_endpoint_accepted:
  "case haProxyEndpoint config of Inl _ \<Rightarrow> True | Inr endpoint \<Rightarrow>
     (\<exists>port. 1024 \<le> port \<and> port = Min (set (map hm_HostAPIPort (hc_Members config))) - 1
        \<and> endpoint = ''https://'' @ haProxyHost @ '':'' @ itoa port
        \<and> haProxyAddress endpoint = Inr (haProxyHost @ '':'' @ itoa port))"
proof (cases "haProxyEndpoint config")
  case (Inr endpoint)
  show ?thesis unfolding Inr sum.case
    by (rule haProxyEndpoint_Inr [OF Inr], rule exI, (rule conjI, assumption)+, assumption)
qed simp

text \<open>
  The proxy listens only for backends it has checked: preparing it changes nothing in the runtime, and
  when it succeeds the backends are the three members of the saved configuration in order, all of them trusted, at least one of them
  answering.
\<close>

lemma proxy_starts_guarded:
  "list_all quiet (w_trace (snd (prepareHAProxy E name (w\<lparr>w_trace := []\<rparr>))))
   \<and> (case fst (prepareHAProxy E name w) of Inl _ \<Rightarrow> True | Inr None \<Rightarrow> True | Inr (Some (config, pool, address)) \<Rightarrow>
        map backendID (pl_backends pool) = [1, 2, 3] \<and> list_all (\<lambda>b. pl_trusted pool (backendID b)) (pl_backends pool)
        \<and> eligible pool \<noteq> [] \<and> haProxyEndpoint config = Inr (''https://'' @ address))"
proof (rule conjI, rule emits_run [OF quiet_prepareHAProxy])
  have "case fst (prepareHAProxy E name w) of Inl _ \<Rightarrow> True | Inr r \<Rightarrow> preparedGood r"
    by (rule yields_run [OF yields_prepareHAProxy])
  then show "case fst (prepareHAProxy E name w) of Inl _ \<Rightarrow> True | Inr None \<Rightarrow> True | Inr (Some (config, pool, address)) \<Rightarrow>
        map backendID (pl_backends pool) = [1, 2, 3] \<and> list_all (\<lambda>b. pl_trusted pool (backendID b)) (pl_backends pool)
        \<and> eligible pool \<noteq> [] \<and> haProxyEndpoint config = Inr (''https://'' @ address)"
    unfolding preparedGood_def by (cases "fst (prepareHAProxy E name w)") (simp_all split: option.splits prod.splits)
qed

text \<open>
  The selection is fair: as long as the health does not change, of as many clients in a row as there are
  eligible backends each backend is the first choice of exactly one, in a rotation of their order.
\<close>

lemma proxy_selection_fair:
  "\<exists>k. map (\<lambda>n. hd (fst (candidates (((snd \<circ> candidates) ^^ n) pool)))) [0..<length (eligible pool)] = rotate k (eligible pool)"
  unfolding round_robin.fair by (rule round_robin.pick_rotates)

text \<open>
  C18: a client is served unless no eligible backend answers: it gets the first one in its rotation that
  does, each one it tried before is marked and no longer offered, and the others stay.
\<close>

theorem proxy_fails_over:
  "case handleHAProxyClient dial pool of (served, pool') \<Rightarrow>
     (let order = fst (candidates pool); failed = takeWhile (\<lambda>b. \<not> dial (pb_address b)) order in
      served = find (\<lambda>b. dial (pb_address b)) order \<and> set order = set (eligible pool)
      \<and> eligible pool' = filter (\<lambda>b. backendID b \<notin> backendID ` set failed) (eligible pool))"
proof -
  obtain bs pool1 where c: "candidates pool = (bs, pool1)" by fastforce
  have "eligible pool1 = eligible pool" "set bs = set (eligible pool)"
    using round_robin.pick_keeps [of pool] round_robin.set_pick [of pool] by (simp_all add: c)
  then show ?thesis by (simp add: handleHAProxyClient_def c tryBackends_find eligible_markAll Let_def)
qed

text \<open>
  However clients, monitor and shutdown interleave, the proxy never has more clients than its bound, and a client
  only ever holds backends of the pool.
\<close>

lemma proxy_clients_bounded:
  assumes "serving maxClients pool s"
  shows "card (dom (px_clients s)) \<le> maxClients \<and> px_slots s = card (dom (px_clients s))
    \<and> (\<forall>c phase. px_clients s c = Some phase \<longrightarrow> phaseBackends phase \<subseteq> set (pl_backends pool))"
  using serving_inv [OF assms] by (simp add: proxyInv_def)

text \<open>
  C19: a shutdown leaves no socket behind: once the connections are closed, the only sockets still open in any reachable
  state are upstreams that were dialled and are about to be registered, which closes them.
\<close>

theorem proxy_shutdown_closes:
  assumes "serving maxClients pool s" "cn_closed (px_connections s)"
  shows "px_open s \<subseteq> dialledSockets (px_clients s)"
  using serving_inv [OF assms(1)] assms(2) unfolding proxyInv_def by blast

definition examplePool :: haProxyPool where
  "examplePool = replaceHealth (\<lambda>_. True) (newHAProxyPool [\<lparr>pb_member = memberByID [] 1, pb_address = ''127.0.0.1:16444''\<rparr>])"

lemma example_serving:
  "serving 1 examplePool (acceptClient 1 (newProxyState examplePool))"
  "serving 1 examplePool (closeAll (acceptClient 1 (newProxyState examplePool)))"
proof -
  show one: "serving 1 examplePool (acceptClient 1 (newProxyState examplePool))"
    by (rule serving.step [OF serving.start, where e = Accept]) simp
  show "serving 1 examplePool (closeAll (acceptClient 1 (newProxyState examplePool)))"
    by (rule serving.step [OF one, where e = Shutdown]) simp
qed

theorem proxy_clients_bounded_witness:
  "card (dom (px_clients (acceptClient 1 (newProxyState examplePool)))) = 1"
proof -
  let ?s = "acceptClient 1 (newProxyState examplePool)"
  have "px_slots ?s = 1" by (simp add: acceptClient_def newProxyState_def proxy_updates)
  with proxy_clients_bounded [OF example_serving(1)] show ?thesis by simp
qed

theorem proxy_shutdown_closes_witness:
  "px_open (acceptClient 1 (newProxyState examplePool)) = {0} \<and> px_open (closeAll (acceptClient 1 (newProxyState examplePool))) = {}"
proof -
  let ?s = "acceptClient 1 (newProxyState examplePool)"
  have "px_open ?s = {0}" "cn_closed (px_connections (closeAll ?s))" "px_clients (closeAll ?s) = [0 \<mapsto> Accepted]"
    by (simp_all add: acceptClient_def newProxyState_def proxy_updates)
  moreover have "dialledSockets [0 \<mapsto> Accepted] = {}" by (auto simp: dialledSockets_def dialledBy_def)
  ultimately show ?thesis using proxy_shutdown_closes [OF example_serving(2)] by simp
qed

end
