(* ===== verification/HostAddr.thy ===== *)
theory HostAddr
  imports NetAddr
begin

text \<open>
  IP addresses of both families as values, as \<open>net.IP\<close> holds them (sixteen bytes, an IPv4 address behind the prefix
  \<open>::ffff:0:0/96\<close>), \<open>net.ParseCIDR\<close>, and the choice of a new address of the host on a known subnet (\<open>cluster.go\<close>).
\<close>

section \<open>Addresses\<close>

text \<open>The loop of \<open>netip.parseIPv6\<close>: the groups read so far and where \<open>::\<close> was.\<close>

fun v6Values :: "nat \<Rightarrow> string \<Rightarrow> int list \<Rightarrow> nat option \<Rightarrow> (int list \<times> nat option) option" where
  "v6Values 0 s groups ellipsis = (if s = [] then Some (groups, ellipsis) else None)"
| "v6Values (Suc r) s groups ellipsis =
     (let digits = takeWhile isHexDigit s; rest = drop (length digits) s; groups' = groups @ [hexNum digits]
      in if digits = [] \<or> 4 < length digits then None
         else if rest = [] then Some (groups', ellipsis)
         else if hd rest = CHR ''.'' then
           (if (ellipsis = None \<and> r \<noteq> 1) \<or> r < 1 then None
            else case parseAddr4 s of
              None \<Rightarrow> None
            | Some w \<Rightarrow> Some (groups @ [uint w div 2 ^ 16, uint w mod 2 ^ 16], ellipsis))
         else if hd rest \<noteq> CHR '':'' \<or> tl rest = [] then None
         else if hd (tl rest) = CHR '':'' then
           (if ellipsis \<noteq> None then None
            else if tl (tl rest) = [] then Some (groups', Some (length groups'))
            else v6Values r (tl (tl rest)) groups' (Some (length groups')))
         else v6Values r (tl rest) groups' ellipsis)"

text \<open>Eight groups, with \<open>::\<close> standing for at least one.\<close>

definition v6Expand :: "int list \<times> nat option \<Rightarrow> int list option" where
  "v6Expand parsed = (case parsed of
     (groups, None) \<Rightarrow> if length groups = 8 then Some groups else None
   | (groups, Some k) \<Rightarrow> if length groups < 8 then Some (take k groups @ replicate (8 - length groups) 0 @ drop k groups) else None)"

definition parseIPv6 :: "string \<Rightarrow> int list option" where
  "parseIPv6 s = (case (if hasPrefix s ''::'' then
        (if drop 2 s = [] then Some ([], Some 0) else v6Values 8 (drop 2 s) [] (Some 0)) else v6Values 8 s [] None) of
     None \<Rightarrow> None | Some parsed \<Rightarrow> v6Expand parsed)"

text \<open>\<open>net.ParseIP\<close>: the sixteen bytes as a number.\<close>

definition v4Mapped :: "int \<Rightarrow> int" where
  "v4Mapped w = 65535 * 2 ^ 32 + w"

definition groupsValue :: "int list \<Rightarrow> int" where
  "groupsValue groups = foldl (\<lambda>v g. v * 2 ^ 16 + g) 0 groups"

definition parseIP :: "string \<Rightarrow> int option" where
  "parseIP s = (if CHR 0x25 \<in> set s then None
     else (case find (\<lambda>c. c = CHR ''.'' \<or> c = CHR '':'') s of
         None \<Rightarrow> None
       | Some c \<Rightarrow> if c = CHR ''.'' then map_option (\<lambda>w. v4Mapped (uint w)) (parseAddr4 s)
           else map_option groupsValue (parseIPv6 s)))"

definition isTo4 :: "int \<Rightarrow> bool" where
  "isTo4 ip \<longleftrightarrow> ip div 2 ^ 32 = 65535"

definition isLoopback :: "int \<Rightarrow> bool" where
  "isLoopback ip \<longleftrightarrow> (if isTo4 ip then (ip mod 2 ^ 32) div 2 ^ 24 = 127 else ip = 1)"

text \<open>\<open>net.ParseIP\<close> of an IPv4 address, and the text \<open>IP.String\<close> prints for it.\<close>

definition parseIPv4Value :: "string \<Rightarrow> ipv4 option" where
  "parseIPv4Value s = (case parseIP s of None \<Rightarrow> None | Some ip \<Rightarrow> if isTo4 ip then Some (word_of_int (ip mod 2 ^ 32)) else None)"

section \<open>Networks\<close>

text \<open>
  A network of \<open>ParseCIDR\<close>: the address, its length of mask and the bits of its family; \<open>Contains\<close> compares what both
  families keep of an address, four bytes when it is IPv4.
\<close>

record ipNet =
  in_IP :: int
  in_bits :: nat

definition parseCIDR :: "string \<Rightarrow> (string \<times> ipNet) option" where
  "parseCIDR s = (case cutAt CHR ''/'' s of (addr, maskText, found) \<Rightarrow>
     if \<not> found then None
     else (case parseIP addr of
         None \<Rightarrow> None
       | Some ip \<Rightarrow>
           let v4 = CHR '':'' \<notin> set addr; n = decVal maskText in
           if maskText = [] \<or> \<not> list_all isDigit maskText \<or> (if v4 then 32 else 128) < n then None
           else Some (addr, \<lparr>in_IP = ip, in_bits = nat (if v4 then n + 96 else n)\<rparr>)))"

definition netContains :: "ipNet \<Rightarrow> int \<Rightarrow> bool" where
  "netContains net ip \<longleftrightarrow> isTo4 (in_IP net) = isTo4 ip
     \<and> (let keep = 128 - (if isTo4 ip then max 96 (in_bits net) else in_bits net) in in_IP net div 2 ^ keep = ip div 2 ^ keep)"

section \<open>The address of the host\<close>

text \<open>
  \<open>updatedAddressOnExistingSubnet\<close>.  An address of an interface is an \<open>IPNet\<close>, given by the text its \<open>String\<close>
  prints; the text before the slash is what \<open>IP.String\<close> prints.
\<close>

definition addressIPNet :: "string \<Rightarrow> (string \<times> ipNet) option" where
  "addressIPNet address = parseCIDR address"

definition addressIs :: "int \<Rightarrow> string \<Rightarrow> bool" where
  "addressIs previousIP address = (case addressIPNet address of None \<Rightarrow> False | Some (_, net) \<Rightarrow> in_IP net = previousIP)"

definition sameSubnet :: "int \<Rightarrow> string \<Rightarrow> bool" where
  "sameSubnet previousIP address = (case addressIPNet address of
     None \<Rightarrow> False
   | Some (_, net) \<Rightarrow> \<not> isLoopback (in_IP net) \<and> isTo4 previousIP = isTo4 (in_IP net) \<and> netContains net previousIP)"

definition updatedAddressOnExistingSubnet :: "string \<Rightarrow> string list \<Rightarrow> string \<times> bool" where
  "updatedAddressOnExistingSubnet previous addresses = (case parseIP previous of
     None \<Rightarrow> (previous, False)
   | Some previousIP \<Rightarrow>
       if list_ex (addressIs previousIP) addresses then (previous, False)
       else (case find (sameSubnet previousIP) addresses of
           None \<Rightarrow> (previous, False)
         | Some address \<Rightarrow> (fst (cutAt CHR ''/'' address), True)))"

section \<open>Lemmas\<close>

lemma find_SomeD: "find P xs = Some x \<Longrightarrow> x \<in> set xs \<and> P x"
  by (auto simp: find_Some_iff)

text \<open>
  An address is replaced only when no interface has it any more, and then by the address of an interface of the same family, not a
  loopback, whose network contains the old address.
\<close>

lemma updatedAddress_cases:
  obtains (kept) "updatedAddressOnExistingSubnet previous addresses = (previous, False)"
  | (moved) previousIP address new net where "updatedAddressOnExistingSubnet previous addresses = (new, True)"
      "parseIP previous = Some previousIP" "list_all (\<lambda>a. \<not> addressIs previousIP a) addresses"
      "address \<in> set addresses" "addressIPNet address = Some (new, net)" "netContains net previousIP" "\<not> isLoopback (in_IP net)"
proof (cases "parseIP previous")
  case None
  then show ?thesis using kept by (simp add: updatedAddressOnExistingSubnet_def)
next
  case (Some previousIP)
  show ?thesis
  proof (cases "list_ex (addressIs previousIP) addresses")
    case True
    then show ?thesis using kept Some by (simp add: updatedAddressOnExistingSubnet_def)
  next
    case absent: False
    show ?thesis
    proof (cases "find (sameSubnet previousIP) addresses")
      case None
      then show ?thesis using kept Some absent by (simp add: updatedAddressOnExistingSubnet_def)
    next
      case found: (Some address)
      then have "address \<in> set addresses" "sameSubnet previousIP address" using find_SomeD by fast+
      then obtain new net where net: "addressIPNet address = Some (new, net)" "netContains net previousIP" "\<not> isLoopback (in_IP net)"
        by (auto simp: sameSubnet_def split: option.splits)
      have "new = fst (cutAt CHR ''/'' address)"
        using net(1) by (auto simp: addressIPNet_def parseCIDR_def Let_def split: prod.splits if_splits option.splits)
      then have "updatedAddressOnExistingSubnet previous addresses = (new, True)"
        using Some absent found by (simp add: updatedAddressOnExistingSubnet_def)
      moreover have "list_all (\<lambda>a. \<not> addressIs previousIP a) addresses"
        using absent by (simp add: list_all_iff list_ex_iff)
      ultimately show ?thesis using moved Some \<open>address \<in> set addresses\<close> net by blast
    qed
  qed
qed

end
