(* ===== verification/NodeConfig.thy ===== *)
theory NodeConfig
  imports HARuntime GoURL HostAddr
begin

text \<open>
  The configurations of a single server and of an agent and the command lines that create their containers
  (\<open>cluster.go\<close>), with their files.  \<open>Config\<close> and \<open>normalizeConfig\<close> are in \<open>ClusterFiles\<close>.
\<close>

section \<open>Names and paths\<close>

definition ContainerName :: "string \<Rightarrow> string" where
  "ContainerName clusterName = ''apc-k3s-'' @ clusterName @ ''-server''"

definition AgentContainerName :: "string \<Rightarrow> string" where
  "AgentContainerName clusterName = ''apc-k3s-'' @ clusterName @ ''-agent''"

definition BackupContainerName :: "string \<Rightarrow> string" where
  "BackupContainerName clusterName = ''apc-k3s-'' @ clusterName @ ''-backup''"

definition ServerVolumeName :: "string \<Rightarrow> string" where
  "ServerVolumeName clusterName = ''apc-k3s-'' @ clusterName @ ''-server-data''"

definition AgentVolumeName :: "string \<Rightarrow> string" where
  "AgentVolumeName clusterName = ''apc-k3s-'' @ clusterName @ ''-agent-data''"

definition AgentTokenPath :: "hostEnv \<Rightarrow> string \<Rightarrow> gerror + string" where
  "AgentTokenPath H clusterName = clusterFile H [''clusters'', clusterName, ''agent-token'']"

text \<open>\<open>DeterministicMAC\<close>: the first six bytes of a digest, made a local unicast address.\<close>

definition hexByte :: "int \<Rightarrow> string" where
  "hexByte b = [hexChar (nat (b div 16)), hexChar (nat (b mod 16))]"

definition localUnicastByte :: "int \<Rightarrow> int" where
  "localUnicastByte b = (let low = b mod 4 in b - low + 2)"

definition DeterministicMAC :: "'x env \<Rightarrow> string \<Rightarrow> string \<Rightarrow> string" where
  "DeterministicMAC E clusterName role =
     (let digest = e_sha256 E (Text (''apc/'' @ clusterName @ ''/'' @ role));
          byte = (\<lambda>k. take 2 (drop (2 * k) digest))
      in joinWith '':'' (hexByte (localUnicastByte (hexNum (byte 0))) # map byte [1, 2, 3, 4, 5]))"

section \<open>The command line of a server\<close>

definition dynamicNodeIPScript :: string where
  "dynamicNodeIPScript =
     ''NODE_IP=$(hostname -i); NODE_IP=${NODE_IP%% *}; NODE_CIDR=$(ip -o -4 addr show ''
     @ ''dev eth0 scope global | awk '' @ [CHR 0x27] @ ''NR == 1 {print $4}'' @ [CHR 0x27]
     @ ''); PREFIX=${NODE_CIDR#*/}; EFFECTIVE_NODE_IP=${APC_STABLE_NODE_IP:-$NODE_IP}; '' @ ''if [ ''
     @ quoted ''$EFFECTIVE_NODE_IP'' @ '' != '' @ quoted ''$NODE_IP'' @ '' ]; then ip address add ''
     @ quoted ''$EFFECTIVE_NODE_IP/$PREFIX'' @ '' dev eth0 2>/dev/null || true; fi; exec /bin/k3s ''
     @ quoted ''$@'' @ '' --node-ip '' @ quoted ''$EFFECTIVE_NODE_IP''"

definition agentNodeIPScript :: string where
  "agentNodeIPScript =
     ''mkdir -p /var/lib/rancher/k3s/apc-node-identity /etc/rancher; if [ ! -L ''
     @ ''/etc/rancher/node ]; then rm -rf /etc/rancher/node; ln -s ''
     @ ''/var/lib/rancher/k3s/apc-node-identity /etc/rancher/node; fi; ''
     @ ''NODE_IP=$(hostname -i); NODE_IP=${NODE_IP%% *}; NODE_CIDR=$(ip -o -4 addr show ''
     @ ''dev eth0 scope global | awk '' @ [CHR 0x27] @ ''NR == 1 {print $4}'' @ [CHR 0x27]
     @ ''); PREFIX=${NODE_CIDR#*/}; STORED_NODE_IP='' @ quoted []
     @ ''; if [ -f /var/lib/rancher/k3s/agent/kubelet.kubeconfig ]; then ''
     @ ''STORED_NODE_IP=$(/bin/kubectl --request-timeout=5s --kubeconfig ''
     @ ''/var/lib/rancher/k3s/agent/kubelet.kubeconfig --server '' @ quoted ''$APC_SERVER_URL''
     @ '' get node '' @ quoted ''$APC_NODE_NAME'' @ '' -o jsonpath='' @ [CHR 0x27]
     @ ''{.status.addresses[?(@.type=='' @ quoted ''InternalIP'' @ '')].address}'' @ [CHR 0x27]
     @ '' 2>/dev/null || true); fi; ''
     @ ''EFFECTIVE_NODE_IP=${STORED_NODE_IP:-$APC_PREVIOUS_NODE_IP}; ''
     @ ''EFFECTIVE_NODE_IP=${EFFECTIVE_NODE_IP:-$NODE_IP}; if [ '' @ quoted ''$EFFECTIVE_NODE_IP''
     @ '' != '' @ quoted ''$NODE_IP'' @ '' ]; then ip address add ''
     @ quoted ''$EFFECTIVE_NODE_IP/$PREFIX'' @ '' dev eth0 2>/dev/null || true; fi; exec /bin/k3s ''
     @ quoted ''$@'' @ '' --node-ip '' @ quoted ''$EFFECTIVE_NODE_IP''"

definition APIAddress :: "Config \<Rightarrow> string" where
  "APIAddress c = (if cf_AdvertiseAddress c \<noteq> [] then cf_AdvertiseAddress c else cf_ListenAddress c)"

definition APIEndpoint :: "Config \<Rightarrow> string" where
  "APIEndpoint c = ''https://'' @ joinHostPort (APIAddress c) (itoa (cf_APIPort c))"

definition zeroConfig :: Config where
  "zeroConfig = \<lparr>cf_Name = [], cf_NodeName = [], cf_Image = [], cf_CPUs = 0, cf_Memory = [], cf_ListenAddress = [],
     cf_AdvertiseAddress = [], cf_APIPort = 0, cf_VXLANPort = 0, cf_KubeletPort = 0, cf_StartupTimeout = 0,
     cf_KubeconfigPath = [], cf_DisableTraefik = False, cf_EnableNetworkPolicy = False, cf_StableNodeIP = []\<rparr>"

definition published :: "string \<Rightarrow> int \<Rightarrow> string \<Rightarrow> string list" where
  "published listenAddress port inside = [''--publish'', listenAddress @ '':'' @ itoa port @ '':'' @ inside]"

definition ownerLabels :: "string \<Rightarrow> string \<Rightarrow> string list" where
  "ownerLabels clusterName role = [''--label'', ''apc.dev/managed=true'', ''--label'', ''apc.dev/cluster='' @ clusterName,
     ''--label'', ''apc.dev/role='' @ role]"

text \<open>The error of \<open>normalizeConfig\<close> is ignored: the configuration is the zero value then.\<close>

definition ServerRunArguments :: "'x env \<Rightarrow> Config \<Rightarrow> string list" where
  "ServerRunArguments E config0 =
     (let config = (case normalizeConfig (e_host E) config0 of Inr c \<Rightarrow> c | Inl _ \<Rightarrow> zeroConfig) in
      [''run'', ''--detach'', ''--name'', ContainerName (cf_Name config),
       ''--arch'', ''arm64'', ''--cpus'', itoa (cf_CPUs config), ''--memory'', cf_Memory config,
       ''--cap-add'', ''ALL'',
       ''--network'', ''default,mac='' @ DeterministicMAC E (cf_Name config) ''server'' @ '',mtu=1280'',
       ''--entrypoint'', ''/bin/sh'',
       ''--volume'', ServerVolumeName (cf_Name config) @ '':/var/lib/rancher/k3s'',
       ''--env'', ''APC_STABLE_NODE_IP='' @ cf_StableNodeIP config]
      @ published (cf_ListenAddress config) (cf_APIPort config) (itoa (cf_APIPort config) @ ''/tcp'')
      @ ownerLabels (cf_Name config) ''server''
      @ [''--label'', ''apc.dev/api-port='' @ itoa (cf_APIPort config), ''--progress'', ''plain'']
      @ (if cf_AdvertiseAddress config \<noteq> [] then
           published (cf_ListenAddress config) (cf_VXLANPort config) ''8472/udp''
           @ published (cf_ListenAddress config) (cf_KubeletPort config) ''10250/tcp'' else [])
      @ [cf_Image config, ''-c'', dynamicNodeIPScript, ''apc-k3s'', ''server'',
         ''--https-listen-port'', itoa (cf_APIPort config), ''--node-name'', cf_NodeName config,
         ''--write-kubeconfig-mode'', ''600'', ''--tls-san'', APIAddress config, ''--flannel-backend'', ''vxlan'']
      @ (if cf_EnableNetworkPolicy config then [] else [''--disable-network-policy''])
      @ (if cf_AdvertiseAddress config \<noteq> [] then [''--node-external-ip'', cf_AdvertiseAddress config, ''--flannel-external-ip''] else [])
      @ (if cf_DisableTraefik config then [''--disable'', ''traefik'', ''--disable'', ''servicelb''] else []))"

section \<open>The configuration of an agent\<close>

record AgentConfig =
  ag_Name :: string
  ag_NodeName :: string
  ag_ServerURL :: string
  ag_TokenFile :: string
  ag_Image :: string
  ag_CPUs :: int
  ag_Memory :: string
  ag_ListenAddress :: string
  ag_AdvertiseAddress :: string
  ag_VXLANPort :: int
  ag_KubeletPort :: int
  ag_StartupTimeout :: int
  ag_PreviousNodeIP :: string

definition httpsURL :: "string \<Rightarrow> bool" where
  "httpsURL s = (case urlParse s of None \<Rightarrow> False | Some u \<Rightarrow> u_scheme u = ''https'' \<and> u_host u \<noteq> [])"

definition normalizeAgentConfig :: "'x env \<Rightarrow> AgentConfig \<Rightarrow> gerror + AgentConfig" where
  "normalizeAgentConfig E config0 =
     (let config = config0\<lparr>ag_Name := orDefault (ag_Name config0) ''lan-spike''\<rparr> in
      if \<not> dnsLabel (ag_Name config) then Inl (Msg ''cluster name must be a lowercase DNS label'')
      else let config = config\<lparr>ag_NodeName := orDefault (ag_NodeName config) (''apc-'' @ ag_Name config @ ''-agent'')\<rparr> in
      if \<not> dnsLabel (ag_NodeName config) then Inl (Msg ''node name must be a lowercase DNS label'')
      else let config = config\<lparr>ag_Image := orDefault (ag_Image config) defaultK3sImage,
                               ag_CPUs := (if ag_CPUs config = 0 then 2 else ag_CPUs config)\<rparr> in
      if ag_CPUs config < 1 then Inl (Msg ''K3s agent requires at least 1 CPU'')
      else let config = config\<lparr>ag_Memory := orDefault (ag_Memory config) ''2G'',
                               ag_ListenAddress := orDefault (ag_ListenAddress config) ''0.0.0.0''\<rparr> in
      if \<not> parsesIP (ag_ListenAddress config) then Inl (Msg ''listen address must be an IP address'')
      else if ag_AdvertiseAddress config = [] \<or> \<not> parsesIP (ag_AdvertiseAddress config)
      then Inl (Msg ''advertise address must be a valid LAN IP address'')
      else if ag_PreviousNodeIP config \<noteq> [] \<and> \<not> parsesIP (ag_PreviousNodeIP config)
      then Inl (Msg ''previous node IP must be a valid IP address'')
      else if ag_ServerURL config = [] then Inl (Msg ''server URL is required'')
      else if \<not> httpsURL (ag_ServerURL config) then Inl (Msg ''server URL must be an https URL'')
      else if ag_TokenFile config = [] then Inl (Msg ''token file is required'')
      else tryS (wrapS ''resolve token file path'' (e_abs E (ag_TokenFile config))) (\<lambda>absoluteTokenPath.
        let config = config\<lparr>ag_TokenFile := absoluteTokenPath,
                            ag_VXLANPort := (if ag_VXLANPort config = 0 then 8472 else ag_VXLANPort config),
                            ag_KubeletPort := (if ag_KubeletPort config = 0 then 10250 else ag_KubeletPort config)\<rparr> in
        if \<not> list_all validPortRange [ag_VXLANPort config, ag_KubeletPort config]
        then Inl (Msg ''port must be between 1 and 65535'')
        else Inr (config\<lparr>ag_StartupTimeout := (if ag_StartupTimeout config = 0 then 45 * second else ag_StartupTimeout config)\<rparr>)))"

definition zeroAgentConfig :: AgentConfig where
  "zeroAgentConfig = \<lparr>ag_Name = [], ag_NodeName = [], ag_ServerURL = [], ag_TokenFile = [], ag_Image = [], ag_CPUs = 0,
     ag_Memory = [], ag_ListenAddress = [], ag_AdvertiseAddress = [], ag_VXLANPort = 0, ag_KubeletPort = 0,
     ag_StartupTimeout = 0, ag_PreviousNodeIP = []\<rparr>"

definition AgentRunArguments :: "'x env \<Rightarrow> AgentConfig \<Rightarrow> string list" where
  "AgentRunArguments E config0 =
     (let config = (case normalizeAgentConfig E config0 of Inr c \<Rightarrow> c | Inl _ \<Rightarrow> zeroAgentConfig) in
      [''run'', ''--detach'', ''--name'', AgentContainerName (ag_Name config),
       ''--arch'', ''arm64'', ''--cpus'', itoa (ag_CPUs config), ''--memory'', ag_Memory config,
       ''--cap-add'', ''ALL'',
       ''--network'', ''default,mac='' @ DeterministicMAC E (ag_Name config) ''agent'' @ '',mtu=1280'',
       ''--entrypoint'', ''/bin/sh'',
       ''--volume'', AgentVolumeName (ag_Name config) @ '':/var/lib/rancher/k3s'']
      @ published (ag_ListenAddress config) (ag_VXLANPort config) ''8472/udp''
      @ published (ag_ListenAddress config) (ag_KubeletPort config) ''10250/tcp''
      @ [''--mount'', ''type=bind,source='' @ dirPath (ag_TokenFile config) @ '',target=/run/secrets/apc,readonly'',
         ''--env'', ''APC_PREVIOUS_NODE_IP='' @ ag_PreviousNodeIP config,
         ''--env'', ''APC_SERVER_URL='' @ ag_ServerURL config,
         ''--env'', ''APC_NODE_NAME='' @ ag_NodeName config]
      @ ownerLabels (ag_Name config) ''agent''
      @ [''--progress'', ''plain'', ag_Image config, ''-c'', agentNodeIPScript, ''apc-k3s'', ''agent'',
         ''--server'', ag_ServerURL config, ''--token-file'', ''/run/secrets/apc/agent-token'',
         ''--node-name'', ag_NodeName config, ''--node-external-ip'', ag_AdvertiseAddress config])"

definition sameAgentRuntimeConfig :: "AgentConfig \<Rightarrow> AgentConfig \<Rightarrow> bool" where
  "sameAgentRuntimeConfig left right \<longleftrightarrow>
     left\<lparr>ag_StartupTimeout := 0, ag_PreviousNodeIP := []\<rparr> = right\<lparr>ag_StartupTimeout := 0, ag_PreviousNodeIP := []\<rparr>"

section \<open>The files\<close>

definition configJSON :: "Config \<Rightarrow> json" where
  "configJSON c = JObj [(''Name'', JStr (cf_Name c)), (''NodeName'', JStr (cf_NodeName c)), (''Image'', JStr (cf_Image c)),
     (''CPUs'', JInt (cf_CPUs c)), (''Memory'', JStr (cf_Memory c)), (''ListenAddress'', JStr (cf_ListenAddress c)),
     (''AdvertiseAddress'', JStr (cf_AdvertiseAddress c)), (''APIPort'', JInt (cf_APIPort c)), (''VXLANPort'', JInt (cf_VXLANPort c)),
     (''KubeletPort'', JInt (cf_KubeletPort c)), (''StartupTimeout'', JInt (cf_StartupTimeout c)),
     (''KubeconfigPath'', JStr (cf_KubeconfigPath c)), (''DisableTraefik'', JBool (cf_DisableTraefik c)),
     (''EnableNetworkPolicy'', JBool (cf_EnableNetworkPolicy c)), (''StableNodeIP'', JStr (cf_StableNodeIP c))]"

definition encodeConfig :: "Config \<Rightarrow> document" where
  "encodeConfig c = Json (configJSON c)"

definition saveClusterConfig :: "'x env \<Rightarrow> Config \<Rightarrow> ('x, unit) op" where
  "saveClusterConfig E config = tryA (liftA (clusterConfigPath (e_host E) (cf_Name config))) (\<lambda>path.
     wrapA ''save cluster configuration'' (writePrivateFile E path (encodeConfig config)))"

definition encodeAgentConfig :: "AgentConfig \<Rightarrow> document" where
  "encodeAgentConfig c = Json (JObj [(''Name'', JStr (ag_Name c)), (''NodeName'', JStr (ag_NodeName c)),
     (''ServerURL'', JStr (ag_ServerURL c)), (''TokenFile'', JStr (ag_TokenFile c)), (''Image'', JStr (ag_Image c)),
     (''CPUs'', JInt (ag_CPUs c)), (''Memory'', JStr (ag_Memory c)), (''ListenAddress'', JStr (ag_ListenAddress c)),
     (''AdvertiseAddress'', JStr (ag_AdvertiseAddress c)), (''VXLANPort'', JInt (ag_VXLANPort c)),
     (''KubeletPort'', JInt (ag_KubeletPort c)), (''StartupTimeout'', JInt (ag_StartupTimeout c)),
     (''PreviousNodeIP'', JStr (ag_PreviousNodeIP c))])"

definition dAgentConfig :: "AgentConfig decoder" where
  "dAgentConfig j = tryS (objFields j) (\<lambda>kvs. at dString ''Name'' kvs (\<lambda>n. at dString ''NodeName'' kvs (\<lambda>nn.
     at dString ''ServerURL'' kvs (\<lambda>su. at dString ''TokenFile'' kvs (\<lambda>tf. at dString ''Image'' kvs (\<lambda>im.
     at dInt ''CPUs'' kvs (\<lambda>cpus. at dString ''Memory'' kvs (\<lambda>mem. at dString ''ListenAddress'' kvs (\<lambda>la.
     at dString ''AdvertiseAddress'' kvs (\<lambda>aa. at dInt ''VXLANPort'' kvs (\<lambda>vp. at dInt ''KubeletPort'' kvs (\<lambda>kp.
     at dInt ''StartupTimeout'' kvs (\<lambda>st. at dString ''PreviousNodeIP'' kvs (\<lambda>pn.
       Inr \<lparr>ag_Name = n, ag_NodeName = nn, ag_ServerURL = su, ag_TokenFile = tf, ag_Image = im, ag_CPUs = cpus, ag_Memory = mem,
            ag_ListenAddress = la, ag_AdvertiseAddress = aa, ag_VXLANPort = vp, ag_KubeletPort = kp, ag_StartupTimeout = st,
            ag_PreviousNodeIP = pn\<rparr>))))))))))))))"

definition saveAgentConfig :: "'x env \<Rightarrow> AgentConfig \<Rightarrow> ('x, unit) op" where
  "saveAgentConfig E config = tryA (liftA (agentConfigPath (e_host E) (ag_Name config))) (\<lambda>path.
     wrapA ''save agent configuration'' (writePrivateFile E path (encodeAgentConfig config)))"

definition loadAgentConfig :: "'x env \<Rightarrow> string \<Rightarrow> ('x, AgentConfig) op" where
  "loadAgentConfig E name = tryA (liftA (agentConfigPath (e_host E) name)) (\<lambda>path.
     tryWrapA ''read agent configuration'' (readFile E path) (\<lambda>data.
     tryWrapA ''decode agent configuration'' (liftA (decodeDoc dAgentConfig data)) (\<lambda>config.
     wrapA ''validate agent configuration'' (liftA (normalizeAgentConfig E config)))))"

section \<open>The address of the host\<close>

definition refreshAdvertiseAddress :: "'x env \<Rightarrow> Config \<Rightarrow> ('x, Config \<times> bool) op" where
  "refreshAdvertiseAddress E config =
     (if cf_AdvertiseAddress config = [] then retA (config, False)
      else tryA (askExt (e_interfaces E)) (\<lambda>r.
        tryWrapA ''list host network addresses'' (liftA r) (\<lambda>addresses.
        case updatedAddressOnExistingSubnet (cf_AdvertiseAddress config) addresses of (updated, changed) \<Rightarrow>
          retA (if changed then config\<lparr>cf_AdvertiseAddress := updated\<rparr> else config, changed))))"

definition refreshAgentAdvertiseAddress :: "'x env \<Rightarrow> AgentConfig \<Rightarrow> ('x, AgentConfig \<times> bool) op" where
  "refreshAgentAdvertiseAddress E config =
     tryA (askExt (e_interfaces E)) (\<lambda>r.
        tryWrapA ''list host network addresses'' (liftA r) (\<lambda>addresses.
        case updatedAddressOnExistingSubnet (ag_AdvertiseAddress config) addresses of (updated, changed) \<Rightarrow>
          retA (if changed then config\<lparr>ag_AdvertiseAddress := updated\<rparr> else config, changed)))"

end
