(* ===== verification/Nodes.thy ===== *)
theory Nodes
  imports NodeConfig
begin

text \<open>
  The operations on a single server and on an agent (\<open>cluster.go\<close>, \<open>lifecycle.go\<close>, \<open>networking.go\<close>): create, join, start, stop,
  status, delete, and the change of the network policy.  Every command on a container or a volume is behind a check
  of its ownership labels.
\<close>

section \<open>Inspection\<close>

record nodePort =
  np_ContainerPort :: int
  np_HostAddress :: string
  np_HostPort :: int
  np_Proto :: string

record inspectRecord =
  ir_Labels :: "(string \<times> string) list"
  ir_Ports :: "nodePort list"
  ir_State :: string
  ir_Networks :: "string list"

record volumeRecord =
  vr_Name :: string
  vr_Labels :: "(string \<times> string) list"

definition dNodePort :: "nodePort decoder" where
  "dNodePort j = tryS (objFields j) (\<lambda>kvs. at dInt ''containerPort'' kvs (\<lambda>cp. at dString ''hostAddress'' kvs (\<lambda>ha.
     at dInt ''hostPort'' kvs (\<lambda>hp. at dString ''proto'' kvs (\<lambda>p.
       Inr \<lparr>np_ContainerPort = cp, np_HostAddress = ha, np_HostPort = hp, np_Proto = p\<rparr>)))))"

definition dInspectRecord :: "inspectRecord decoder" where
  "dInspectRecord j = tryS (objFields j) (\<lambda>fields. at objFields ''configuration'' fields (\<lambda>c. at dStringMap ''labels'' c (\<lambda>l.
     at (dList dNodePort) ''publishedPorts'' c (\<lambda>ps. at objFields ''status'' fields (\<lambda>st. at dString ''state'' st (\<lambda>s.
     at (dList dAddress) ''networks'' st (\<lambda>ns.
       Inr \<lparr>ir_Labels = l, ir_Ports = ps, ir_State = s, ir_Networks = ns\<rparr>)))))))"

definition dVolumeRecord :: "volumeRecord decoder" where
  "dVolumeRecord j = tryS (objFields j) (\<lambda>fields. at objFields ''configuration'' fields (\<lambda>c. at dStringMap ''labels'' c (\<lambda>l.
     at dString ''name'' c (\<lambda>n. Inr \<lparr>vr_Name = n, vr_Labels = l\<rparr>))))"

definition inspectNode :: "'x env \<Rightarrow> string \<Rightarrow> ('x, inspectRecord) op" where
  "inspectNode E name = inspectWith E None [''inspect'', name] ''inspect K3s node'' dInspectRecord"

definition inspectVolume :: "'x env \<Rightarrow> string \<Rightarrow> ('x, volumeRecord) op" where
  "inspectVolume E name = inspectWith E None [''volume'', ''inspect'', name] ''inspect K3s data volume'' dVolumeRecord"

definition ownedBy :: "(string \<times> string) list \<Rightarrow> string \<Rightarrow> string \<Rightarrow> bool" where
  "ownedBy labels clusterName role \<longleftrightarrow> mapGet labels ''apc.dev/managed'' = ''true''
     \<and> mapGet labels ''apc.dev/cluster'' = clusterName \<and> mapGet labels ''apc.dev/role'' = role"

definition validateOwnedContainer :: "inspectRecord \<Rightarrow> string \<Rightarrow> string \<Rightarrow> gerror + unit" where
  "validateOwnedContainer record0 clusterName role =
     (if ownedBy (ir_Labels record0) clusterName role then Inr () else Inl (Msg ''container exists but is not the expected APC node''))"

definition validateOwnedVolume :: "volumeRecord \<Rightarrow> string \<Rightarrow> string \<Rightarrow> string \<Rightarrow> gerror + unit" where
  "validateOwnedVolume record0 volumeName clusterName role =
     (if vr_Name record0 \<noteq> [] \<and> vr_Name record0 \<noteq> volumeName then Inl (Msg ''volume inspect returned unexpected volume'')
      else if ownedBy (vr_Labels record0) clusterName role then Inr ()
      else Inl (Msg ''volume exists but is not the expected APC volume''))"

definition nodeStateIs :: "inspectRecord \<Rightarrow> string \<Rightarrow> bool" where
  "nodeStateIs record0 s = equalFold (ir_State record0) s"

definition nodeAddress :: "inspectRecord \<Rightarrow> string" where
  "nodeAddress record0 = (case ir_Networks record0 of [] \<Rightarrow> [] | a # _ \<Rightarrow> hd (splitOn CHR ''/'' a))"

text \<open>What \<open>strconv.Atoi\<close> returns beside its error: zero, or the nearest bound when the value does not fit.\<close>

definition atoiValue :: "string \<Rightarrow> int" where
  "atoiValue s = (case atoi s of Some i \<Rightarrow> i | None \<Rightarrow>
     let neg = (s \<noteq> [] \<and> hd s = CHR ''-''); body = (if s \<noteq> [] \<and> hd s \<in> {CHR ''-'', CHR ''+''} then tl s else s) in
     if body = [] \<or> \<not> list_all isDigit body then 0 else if neg then - (2 ^ 63) else 2 ^ 63 - 1)"

definition apiEndpointFromRecord :: "inspectRecord \<Rightarrow> string" where
  "apiEndpointFromRecord record0 =
     (let apiPort = atoiValue (mapGet (ir_Labels record0) ''apc.dev/api-port'') in
      case find (\<lambda>p. (np_ContainerPort p = apiPort \<or> (apiPort = 0 \<and> np_ContainerPort p = 6443)) \<and> equalFold (np_Proto p) ''tcp'') (ir_Ports record0) of
        None \<Rightarrow> []
      | Some p \<Rightarrow> ''https://'' @ joinHostPort (if np_HostAddress p \<in> {''0.0.0.0'', ''::'', []} then ''127.0.0.1'' else np_HostAddress p)
          (itoa (np_HostPort p)))"

section \<open>Commands\<close>

definition runNode :: "'x env \<Rightarrow> string \<Rightarrow> string list \<Rightarrow> ('x, unit) op" where
  "runNode E msg args = tryA (runCmd E None args) (\<lambda>res. case cr_err res of
     None \<Rightarrow> retA () | Some e \<Rightarrow> errA (commandError msg (cr_stderr res) e))"

definition ensureVolume :: "'x env \<Rightarrow> string \<Rightarrow> string \<Rightarrow> string \<Rightarrow> ('x, unit) op" where
  "ensureVolume E name clusterName role = catchA (inspectVolume E name) (\<lambda>r. case r of
     Inr record0 \<Rightarrow> liftA (validateOwnedVolume record0 name clusterName role)
   | Inl e \<Rightarrow> if \<not> errorsIs e ErrNotFound then errA e
       else runNode E ''create K3s data volume'' ([''volume'', ''create''] @ ownerLabels clusterName role @ [''-s'', ''8G'', name]))"

definition deleteStoppedContainer :: "'x env \<Rightarrow> string \<Rightarrow> ('x, unit) op" where
  "deleteStoppedContainer E name = runNode E ''delete stopped K3s node'' [''delete'', name]"

text \<open>The container of a role when there is one, after the check of its labels; any other error is returned.\<close>

definition ownedContainer :: "'x env \<Rightarrow> string \<Rightarrow> string \<Rightarrow> string \<Rightarrow> ('x, inspectRecord option) op" where
  "ownedContainer E containerName clusterName role = catchA (inspectNode E containerName) (\<lambda>r. case r of
     Inr record0 \<Rightarrow> tryA (liftA (validateOwnedContainer record0 clusterName role)) (\<lambda>_. retA (Some record0))
   | Inl e \<Rightarrow> if errorsIs e ErrNotFound then retA None else errA e)"

definition deleteOwnedContainer :: "'x env \<Rightarrow> string \<Rightarrow> string \<Rightarrow> string \<Rightarrow> ('x, unit) op" where
  "deleteOwnedContainer E containerName clusterName role =
     tryA (ownedContainer E containerName clusterName role) (\<lambda>found. case found of
       None \<Rightarrow> retA ()
     | Some record0 \<Rightarrow>
         tryA (if nodeStateIs record0 ''stopped'' then retA () else runNode E ''stop APC node before deletion'' [''stop'', containerName]) (\<lambda>_.
         runNode E ''delete APC node'' [''delete'', containerName]))"

definition deleteOwnedVolume :: "'x env \<Rightarrow> string \<Rightarrow> string \<Rightarrow> string \<Rightarrow> ('x, unit) op" where
  "deleteOwnedVolume E volumeName clusterName role = catchA (inspectVolume E volumeName) (\<lambda>r. case r of
     Inl e \<Rightarrow> if errorsIs e ErrNotFound then retA () else errA e
   | Inr record0 \<Rightarrow> tryA (liftA (validateOwnedVolume record0 volumeName clusterName role)) (\<lambda>_.
       runNode E ''delete APC data volume'' [''volume'', ''delete'', volumeName]))"

section \<open>Waiting\<close>

definition readyPath :: "string \<Rightarrow> string" where
  "readyPath scope = ''jsonpath={'' @ scope @ ''.status.conditions[?(@.type=='' @ quoted ''Ready'' @ '')].status};{''
     @ scope @ ''.status.addresses[?(@.type=='' @ quoted ''InternalIP'' @ '')].address}''"

definition readyArguments :: "string \<Rightarrow> string \<Rightarrow> string list" where
  "readyArguments containerName nodeName =
     (if nodeName \<noteq> [] then [''exec'', containerName, ''kubectl'', ''get'', ''node'', nodeName, ''-o'', readyPath []]
      else [''exec'', containerName, ''kubectl'', ''get'', ''nodes'', ''-o'', readyPath ''.items[0]''])"

definition nodeReadyOnce :: "'x env \<Rightarrow> string \<Rightarrow> string \<Rightarrow> string \<Rightarrow> ('x, bool) op" where
  "nodeReadyOnce E containerName nodeName expectedNodeIP =
     tryA (runCmd E None (readyArguments containerName nodeName)) (\<lambda>res.
     if cr_err res \<noteq> None then retA False
     else (case splitOn CHR '';'' (trimSpace (docText (cr_stdout res))) of
         [ready, address] \<Rightarrow>
           if ready \<noteq> ''True'' then retA False
           else if expectedNodeIP \<noteq> [] then retA (address = expectedNodeIP)
           else catchA (inspectNode E containerName) (\<lambda>r. case r of
               Inl _ \<Rightarrow> retA False
             | Inr record0 \<Rightarrow> retA (ir_Networks record0 \<noteq> [] \<and> address = nodeAddress record0))
       | _ \<Rightarrow> retA False))"

fun waitNodeLoop :: "'x env \<Rightarrow> string \<Rightarrow> string \<Rightarrow> string \<Rightarrow> nat \<Rightarrow> ('x, unit) op" where
  "waitNodeLoop E containerName nodeName expectedNodeIP n =
     tryA (nodeReadyOnce E containerName nodeName expectedNodeIP) (\<lambda>ready.
     if ready then retA ()
     else (case n of 0 \<Rightarrow> contextDone E ''K3s node did not become Ready'' | Suc k \<Rightarrow> waitNodeLoop E containerName nodeName expectedNodeIP k))"

declare waitNodeLoop.simps [simp del]

definition waitNodeReady :: "'x env \<Rightarrow> string \<Rightarrow> string \<Rightarrow> string \<Rightarrow> ('x, unit) op" where
  "waitNodeReady E containerName nodeName expectedNodeIP =
     tryA (askExt (e_ticks E)) (waitNodeLoop E containerName nodeName expectedNodeIP)"

text \<open>\<open>currentAgentBootLogs\<close>: from the last start marker on.\<close>

fun lastFrom :: "string \<Rightarrow> string \<Rightarrow> string option" where
  "lastFrom marker [] = (if marker = [] then Some [] else None)"
| "lastFrom marker (c # s) = (case lastFrom marker s of
     Some t \<Rightarrow> Some t | None \<Rightarrow> if hasPrefix (c # s) marker then Some (c # s) else None)"

definition currentAgentBootLogs :: "string \<Rightarrow> string" where
  "currentAgentBootLogs value0 = (case lastFrom ''Starting k3s agent'' value0 of Some t \<Rightarrow> t | None \<Rightarrow> value0)"

datatype agentPoll = AgentConnected | AgentFailed gerror | AgentPending

definition agentPollOnce :: "'x env \<Rightarrow> string \<Rightarrow> ('x, agentPoll) op" where
  "agentPollOnce E containerName = catchA (inspectNode E containerName) (\<lambda>r. case r of
     Inl _ \<Rightarrow> retA AgentPending
   | Inr record0 \<Rightarrow>
       if nodeStateIs record0 ''stopped'' then
         tryA (runCmd E None [''logs'', containerName]) (\<lambda>_. retA (AgentFailed (Msg ''K3s agent stopped during bootstrap'')))
       else if nodeStateIs record0 ''running'' then
         tryA (runCmd E None [''logs'', containerName]) (\<lambda>res.
         let logs = currentAgentBootLogs (docText (cr_stdout res) @ cr_stderr res) in
         if containsStr logs ''Node password rejected''
         then retA (AgentFailed (Msg ''K3s rejected the agent identity for a duplicate node name''))
         else if cr_err res = None \<and> (containsStr logs ''Node controller sync successful'' \<or> containsStr logs ''Running flannel backend.'')
         then retA AgentConnected else retA AgentPending)
       else retA AgentPending)"

fun waitAgentLoop :: "'x env \<Rightarrow> string \<Rightarrow> nat \<Rightarrow> ('x, unit) op" where
  "waitAgentLoop E containerName n = tryA (agentPollOnce E containerName) (\<lambda>poll. case poll of
     AgentConnected \<Rightarrow> retA ()
   | AgentFailed e \<Rightarrow> errA e
   | AgentPending \<Rightarrow> (case n of 0 \<Rightarrow> contextDone E ''K3s agent did not connect'' | Suc k \<Rightarrow> waitAgentLoop E containerName k))"

declare waitAgentLoop.simps [simp del]

definition waitAgentConnected :: "'x env \<Rightarrow> string \<Rightarrow> ('x, unit) op" where
  "waitAgentConnected E containerName = tryA (askExt (e_ticks E)) (waitAgentLoop E containerName)"

section \<open>Status\<close>

record State =
  sn_Name :: string
  sn_Container :: string
  sn_RuntimeState :: string
  sn_Address :: string
  sn_APIEndpoint :: string
  sn_NodeName :: string
  sn_NodeReady :: bool
  sn_K3sVersion :: string
  sn_Kubeconfig :: string
  sn_InternalIP :: string

record nodeItem =
  ni_ItemName :: string
  ni_KubeletVersion :: string
  ni_Conditions :: "(string \<times> string) list"
  ni_Addresses :: "(string \<times> string) list"

definition dTypedAddress :: "(string \<times> string) decoder" where
  "dTypedAddress j = tryS (objFields j) (\<lambda>kvs. at dString ''type'' kvs (\<lambda>t. at dString ''address'' kvs (\<lambda>a. Inr (t, a))))"

definition dNodeItem :: "nodeItem decoder" where
  "dNodeItem j = tryS (objFields j) (\<lambda>fields. at objFields ''metadata'' fields (\<lambda>m. at dString ''name'' m (\<lambda>n.
     at objFields ''status'' fields (\<lambda>st. at objFields ''nodeInfo'' st (\<lambda>ni. at dString ''kubeletVersion'' ni (\<lambda>v.
     at (dList dCondition) ''conditions'' st (\<lambda>cs. at (dList dTypedAddress) ''addresses'' st (\<lambda>as.
       Inr \<lparr>ni_ItemName = n, ni_KubeletVersion = v, ni_Conditions = cs, ni_Addresses = as\<rparr>))))))))"

definition dNodeItems :: "nodeItem list decoder" where
  "dNodeItems j = tryS (objFields j) (\<lambda>fields. at (dList dNodeItem) ''items'' fields Inr)"

text \<open>The node of the cluster: the one with the configured name, else the last one with the address of the container, else the first.\<close>

definition selectNode :: "string \<Rightarrow> string \<Rightarrow> nodeItem list \<Rightarrow> nodeItem option" where
  "selectNode expectedNodeName address items = (case items of
     [] \<Rightarrow> None
   | first # _ \<Rightarrow> Some (
       if expectedNodeName \<noteq> [] then
         (case find (\<lambda>n. ni_ItemName n = expectedNodeName) items of Some n \<Rightarrow> n | None \<Rightarrow> first)
       else (case filter (\<lambda>n. (''InternalIP'', address) \<in> set (ni_Addresses n)) items of
           [] \<Rightarrow> first | matching \<Rightarrow> last matching)))"

definition firstOf :: "string \<Rightarrow> (string \<times> string) list \<Rightarrow> string option" where
  "firstOf key kvs = map_of kvs key"

definition withNode :: "nodeItem option \<Rightarrow> State \<Rightarrow> State" where
  "withNode selected state = (case selected of
     None \<Rightarrow> state
   | Some n \<Rightarrow> state\<lparr>sn_NodeName := ni_ItemName n, sn_K3sVersion := ni_KubeletVersion n,
       sn_NodeReady := (case firstOf ''Ready'' (ni_Conditions n) of Some v \<Rightarrow> v = ''True'' | None \<Rightarrow> sn_NodeReady state),
       sn_InternalIP := (case firstOf ''InternalIP'' (ni_Addresses n) of Some a \<Rightarrow> a | None \<Rightarrow> sn_InternalIP state)\<rparr>)"

definition newState :: "string \<Rightarrow> string \<Rightarrow> inspectRecord \<Rightarrow> State" where
  "newState name containerName record0 = \<lparr>sn_Name = name, sn_Container = containerName, sn_RuntimeState = ir_State record0,
     sn_Address = nodeAddress record0, sn_APIEndpoint = [], sn_NodeName = [], sn_NodeReady = False, sn_K3sVersion = [],
     sn_Kubeconfig = [], sn_InternalIP = []\<rparr>"

definition ownedNode :: "'x env \<Rightarrow> string \<Rightarrow> string \<Rightarrow> string \<Rightarrow> ('x, inspectRecord) op" where
  "ownedNode E containerName name role = tryA (inspectNode E containerName) (\<lambda>record0.
     tryA (liftA (validateOwnedContainer record0 name role)) (\<lambda>_. retA record0))"

definition StatusNode :: "'x env \<Rightarrow> string \<Rightarrow> ('x, State) op" where
  "StatusNode E name =
     (if \<not> dnsLabel name then errA (Msg ''cluster name must be a lowercase DNS label'')
      else tryA (ownedNode E (ContainerName name) name ''server'') (\<lambda>record0.
        let state = (newState name (ContainerName name) record0)\<lparr>sn_APIEndpoint := apiEndpointFromRecord record0\<rparr> in
        if \<not> nodeStateIs record0 ''running'' then retA state
        else tryA (runCmd E None [''exec'', ContainerName name, ''kubectl'', ''get'', ''node'', ''-o'', ''json'']) (\<lambda>res.
          case cr_err res of
            Some e \<Rightarrow> errA (commandError ''read Kubernetes node status'' (cr_stderr res) e)
          | None \<Rightarrow> tryWrapA ''decode Kubernetes node status'' (liftA (decodeDoc dNodeItems (cr_stdout res))) (\<lambda>items.
              catchA (loadClusterConfig E name) (\<lambda>rc.
              let expectedNodeName = (case rc of Inr config \<Rightarrow> cf_NodeName config | Inl _ \<Rightarrow> []);
                  state = withNode (selectNode expectedNodeName (sn_Address state) items) state in
              retA (case KubeconfigPath (e_host E) name of Inr path \<Rightarrow> state\<lparr>sn_Kubeconfig := path\<rparr> | Inl _ \<Rightarrow> state))))))"

definition AgentStatus :: "'x env \<Rightarrow> string \<Rightarrow> ('x, State) op" where
  "AgentStatus E name =
     (if \<not> dnsLabel name then errA (Msg ''cluster name must be a lowercase DNS label'')
      else tryA (ownedNode E (AgentContainerName name) name ''agent'') (\<lambda>record0.
        retA (newState name (AgentContainerName name) record0)))"

section \<open>Create, start, stop\<close>

text \<open>From a running container to its kubeconfig, its saved configuration and the pointer to the current cluster.\<close>

definition readServerKubeconfig :: "'x env \<Rightarrow> Config \<Rightarrow> string \<Rightarrow> ('x, unit) op" where
  "readServerKubeconfig E config containerName =
     tryA (waitNodeReady E containerName (cf_NodeName config) (cf_StableNodeIP config)) (\<lambda>_.
     tryA (readKubeconfig E containerName (APIEndpoint config)) (\<lambda>kubeconfig.
     tryA (writePrivateFile E (cf_KubeconfigPath config) kubeconfig) (\<lambda>_.
     saveClusterConfig E config)))"

definition pinNodeIP :: "'x env \<Rightarrow> Config \<Rightarrow> State \<Rightarrow> ('x, unit) op" where
  "pinNodeIP E config state =
     (if cf_StableNodeIP config = [] \<and> sn_InternalIP state \<noteq> []
      then saveClusterConfig E (config\<lparr>cf_StableNodeIP := sn_InternalIP state\<rparr>) else retA ())"

definition createContainer :: "'x env \<Rightarrow> Config \<Rightarrow> ('x, Config) op" where
  "createContainer E config = (let containerName = ContainerName (cf_Name config) in
     catchA (inspectNode E containerName) (\<lambda>r. case r of
       Inr record0 \<Rightarrow> tryA (liftA (validateOwnedContainer record0 (cf_Name config) ''server'')) (\<lambda>_.
         if nodeStateIs record0 ''stopped'' then
           catchA (loadClusterConfig E (cf_Name config)) (\<lambda>rs. let config' = (case rs of Inr stored \<Rightarrow> stored | Inl _ \<Rightarrow> config) in
           tryA (deleteStoppedContainer E containerName) (\<lambda>_.
           tryA (runNode E ''recreate K3s node'' (ServerRunArguments E config')) (\<lambda>_. retA config')))
         else retA config)
     | Inl e \<Rightarrow> if errorsIs e ErrNotFound
         then tryA (runNode E ''create K3s node'' (ServerRunArguments E config)) (\<lambda>_. retA config)
         else errA e))"

definition Create :: "'x env \<Rightarrow> Config \<Rightarrow> ('x, State) op" where
  "Create E config0 =
     tryA (liftA (normalizeConfig (e_host E) config0)) (\<lambda>normalized.
     tryA (ensureVolume E (ServerVolumeName (cf_Name normalized)) (cf_Name normalized) ''server'') (\<lambda>_.
     tryA (createContainer E normalized) (\<lambda>config.
     tryA (readServerKubeconfig E config (ContainerName (cf_Name normalized))) (\<lambda>_.
     tryA (SetCurrentCluster E (cf_Name config)) (\<lambda>_.
     tryA (StatusNode E (cf_Name config)) (\<lambda>state.
     tryA (pinNodeIP E config state) (\<lambda>_. retA (state\<lparr>sn_Kubeconfig := cf_KubeconfigPath config\<rparr>))))))))"

definition Stop :: "'x env \<Rightarrow> string \<Rightarrow> ('x, unit) op" where
  "Stop E name = tryA (ownedNode E (ContainerName name) name ''server'') (\<lambda>record0.
     if nodeStateIs record0 ''stopped'' then retA () else runNode E ''stop K3s node'' [''stop'', ContainerName name])"

definition StopAgent :: "'x env \<Rightarrow> string \<Rightarrow> ('x, unit) op" where
  "StopAgent E name = tryA (ownedNode E (AgentContainerName name) name ''agent'') (\<lambda>record0.
     if nodeStateIs record0 ''stopped'' then retA () else runNode E ''stop K3s agent'' [''stop'', AgentContainerName name])"

text \<open>
  What \<open>Start\<close> and \<open>StartAgent\<close> share: bring the container to the wanted command line, recreating it when it is
  absent or stopped, or when it runs with an address the host has lost.  A zero record has an empty state.
\<close>

definition recreateContainer :: "'x env \<Rightarrow> string \<Rightarrow> string \<Rightarrow> string \<Rightarrow> string \<Rightarrow> bool \<Rightarrow> string list \<Rightarrow> ('x, unit) op" where
  "recreateContainer E containerName volumeName name role addressChanged runArguments =
     tryA (ownedContainer E containerName name role) (\<lambda>found.
     let runs = (case found of Some record0 \<Rightarrow> nodeStateIs record0 ''running'' | None \<Rightarrow> False);
         stopFirst = addressChanged \<and> runs in
     tryA (if stopFirst then runNode E ''stop K3s node for LAN address update'' [''stop'', containerName] else retA ()) (\<lambda>_.
     let stopped = (case found of Some record0 \<Rightarrow> stopFirst \<or> nodeStateIs record0 ''stopped'' | None \<Rightarrow> False) in
     if found = None \<or> stopped then
       tryA (ensureVolume E volumeName name role) (\<lambda>_.
       tryA (if found \<noteq> None then deleteStoppedContainer E containerName else retA ()) (\<lambda>_.
       runNode E ''recreate K3s node'' runArguments))
     else retA ()))"

definition Start :: "'x env \<Rightarrow> string \<Rightarrow> ('x, State) op" where
  "Start E name =
     tryA (loadClusterConfig E name) (\<lambda>stored.
     tryA (refreshAdvertiseAddress E stored) (\<lambda>(config, addressChanged).
     tryA (recreateContainer E (ContainerName name) (ServerVolumeName name) name ''server'' addressChanged (ServerRunArguments E config)) (\<lambda>_.
     tryA (readServerKubeconfig E config (ContainerName name)) (\<lambda>_.
     tryA (StatusNode E name) (\<lambda>state.
     tryA (SetCurrentCluster E name) (\<lambda>_.
     tryA (pinNodeIP E config state) (\<lambda>_. retA state)))))))"

text \<open>From a connected agent to its saved configuration.\<close>

definition connectAgent :: "'x env \<Rightarrow> AgentConfig \<Rightarrow> string \<Rightarrow> ('x, State) op" where
  "connectAgent E config name =
     tryA (waitAgentConnected E (AgentContainerName name)) (\<lambda>_.
     tryA (AgentStatus E name) (\<lambda>state.
     tryA (saveAgentConfig E (if ag_PreviousNodeIP config = [] then config\<lparr>ag_PreviousNodeIP := sn_Address state\<rparr> else config)) (\<lambda>_.
     retA (state\<lparr>sn_NodeName := ag_NodeName config\<rparr>))))"

definition joinContainer :: "'x env \<Rightarrow> AgentConfig \<Rightarrow> ('x, unit) op" where
  "joinContainer E config = (let containerName = AgentContainerName (ag_Name config) in
     tryA (ownedContainer E containerName (ag_Name config) ''agent'') (\<lambda>found. case found of
       None \<Rightarrow> runNode E ''create K3s agent'' (AgentRunArguments E config)
     | Some record0 \<Rightarrow>
         catchA (loadAgentConfig E (ag_Name config)) (\<lambda>rs.
         let recreate = nodeStateIs record0 ''stopped'' \<or> (case rs of Inl _ \<Rightarrow> True | Inr stored \<Rightarrow> \<not> sameAgentRuntimeConfig stored config) in
         tryA (if recreate \<and> nodeStateIs record0 ''running''
               then runNode E ''stop K3s agent for configuration update'' [''stop'', containerName] else retA ()) (\<lambda>_.
         if recreate then
           tryA (deleteStoppedContainer E containerName) (\<lambda>_. runNode E ''recreate K3s agent'' (AgentRunArguments E config))
         else retA ()))))"

definition Join :: "'x env \<Rightarrow> AgentConfig \<Rightarrow> ('x, State) op" where
  "Join E config0 =
     tryA (liftA (normalizeAgentConfig E config0)) (\<lambda>config.
     tryA (validatePrivateTokenFile E (ag_TokenFile config)) (\<lambda>_.
     tryA (ensureVolume E (AgentVolumeName (ag_Name config)) (ag_Name config) ''agent'') (\<lambda>_.
     tryA (joinContainer E config) (\<lambda>_.
     connectAgent E config (ag_Name config)))))"

definition StartAgent :: "'x env \<Rightarrow> string \<Rightarrow> int \<Rightarrow> ('x, State) op" where
  "StartAgent E name timeout =
     tryA (loadAgentConfig E name) (\<lambda>stored.
     tryA (refreshAgentAdvertiseAddress E (if 0 < timeout then stored\<lparr>ag_StartupTimeout := timeout\<rparr> else stored)) (\<lambda>(config, addressChanged).
     tryA (validatePrivateTokenFile E (ag_TokenFile config)) (\<lambda>_.
     tryA (recreateContainer E (AgentContainerName name) (AgentVolumeName name) name ''agent'' addressChanged (AgentRunArguments E config)) (\<lambda>_.
     connectAgent E config name))))"

section \<open>Delete, token, policy\<close>

definition serverConfigurationFiles :: "'x env \<Rightarrow> string \<Rightarrow> ('x, string list) op" where
  "serverConfigurationFiles E name =
     tryA (liftA (clusterConfigPath (e_host E) name)) (\<lambda>configPath.
     tryA (liftA (KubeconfigPath (e_host E) name)) (\<lambda>kubeconfigPath.
     catchA (loadClusterConfig E name) (\<lambda>r. case r of
       Inr config \<Rightarrow> retA [configPath, cf_KubeconfigPath config]
     | Inl e \<Rightarrow> if errorsIs e ErrNotExist then retA [configPath, kubeconfigPath] else errA e)))"

definition DeleteServer :: "'x env \<Rightarrow> string \<Rightarrow> bool \<Rightarrow> ('x, unit) op" where
  "DeleteServer E name keepData =
     (if \<not> dnsLabel name then errA (Msg ''cluster name must be a lowercase DNS label'')
      else tryA (serverConfigurationFiles E name) (\<lambda>files.
        tryA (deleteOwnedContainer E (ContainerName name) name ''server'') (\<lambda>_.
        if keepData then retA ()
        else tryA (deleteOwnedVolume E (ServerVolumeName name) name ''server'') (\<lambda>_.
          tryA (removeExactFiles E files) (\<lambda>_.
          tryA (clearCurrentCluster E name) (\<lambda>_.
          removeEmptyClusterDirectory E name))))))"

definition DeleteAgent :: "'x env \<Rightarrow> string \<Rightarrow> bool \<Rightarrow> ('x, unit) op" where
  "DeleteAgent E name keepData =
     (if \<not> dnsLabel name then errA (Msg ''cluster name must be a lowercase DNS label'')
      else tryA (deleteOwnedContainer E (AgentContainerName name) name ''agent'') (\<lambda>_.
        if keepData then retA ()
        else tryA (deleteOwnedVolume E (AgentVolumeName name) name ''agent'') (\<lambda>_.
          tryA (liftA (agentConfigPath (e_host E) name)) (\<lambda>path.
          tryA (removeExactFiles E [path]) (\<lambda>_.
          removeEmptyClusterDirectory E name)))))"

definition WriteAgentToken :: "'x env \<Rightarrow> string \<Rightarrow> string \<Rightarrow> ('x, string) op" where
  "WriteAgentToken E name path0 =
     (if \<not> dnsLabel name then errA (Msg ''cluster name must be a lowercase DNS label'')
      else tryA (liftA (if path0 = [] then AgentTokenPath (e_host E) name else Inr path0)) (\<lambda>path.
        tryA (ownedNode E (ContainerName name) name ''server'') (\<lambda>record0.
        if \<not> nodeStateIs record0 ''running'' then errA (Msg ''cluster is not running'')
        else tryA (runCmd E None [''exec'', ContainerName name, ''/bin/cat'', ''/var/lib/rancher/k3s/server/agent-token'']) (\<lambda>res.
          case cr_err res of
            Some e \<Rightarrow> errA (commandError ''read K3s agent token'' (cr_stderr res) e)
          | None \<Rightarrow> let token = trimSpace (docText (cr_stdout res)) in
              if token = [] \<or> whitespaceIn token then errA (Msg ''K3s returned an invalid agent token'')
              else tryWrapA ''write agent token'' (writePrivateFile E path (Text (token @ [CHR 0x0A]))) (\<lambda>_. retA path)))))"

text \<open>\<open>SetNetworkPolicy\<close>, which rolls back to the previous configuration when the new one does not come up.\<close>

definition rollbackPolicy :: "'x env \<Rightarrow> string \<Rightarrow> Config \<Rightarrow> gerror \<Rightarrow> ('x, State) op" where
  "rollbackPolicy E name previous transitionErr =
     catchA (DeleteServer E name True) (\<lambda>cleanup. case cleanup of
       Inl cleanupErr \<Rightarrow> errA (Joined [Wrap ''reconfigure NetworkPolicy controller'' transitionErr, Wrap ''prepare rollback'' cleanupErr])
     | Inr _ \<Rightarrow> catchA (Create E previous) (\<lambda>rollback. case rollback of
         Inl rollbackErr \<Rightarrow> errA (Joined [Wrap ''reconfigure NetworkPolicy controller'' transitionErr, Wrap ''automatic rollback failed'' rollbackErr])
       | Inr _ \<Rightarrow> errA (Wrap ''previous configuration was restored'' transitionErr)))"

definition SetNetworkPolicy :: "'x env \<Rightarrow> string \<Rightarrow> bool \<Rightarrow> int \<Rightarrow> ('x, State) op" where
  "SetNetworkPolicy E name enabled timeout0 =
     tryA (loadClusterConfig E name) (\<lambda>config.
     if cf_EnableNetworkPolicy config = enabled then StatusNode E name
     else let timeout = (if timeout0 = 0 then 120 * second else timeout0) in
       tryA (DeleteServer E name True) (\<lambda>_.
       catchA (Create E (config\<lparr>cf_EnableNetworkPolicy := enabled, cf_StartupTimeout := timeout\<rparr>)) (\<lambda>r. case r of
         Inr state \<Rightarrow> retA state
       | Inl transitionErr \<Rightarrow> rollbackPolicy E name (config\<lparr>cf_StartupTimeout := timeout\<rparr>) transitionErr)))"

end
