(* ===== verification/Backups.thy ===== *)
theory Backups
  imports Nodes Snapshot
begin

text \<open>
  Backup, restore and upgrade of a single server (\<open>backup.go\<close>, \<open>upgrade.go\<close>).  The data volume is copied by a helper container
  while the server is stopped; a backup is a private directory with the archive and a manifest, published by a rename; a
  restore accepts it only after its digest and every entry of the archive have been checked.  The stream of a command is its
  standard output (\<open>cr_stdout\<close>); its standard input is given with \<open>e_feed\<close>; \<open>e_tarEntries\<close> reads an archive.
\<close>

section \<open>The package\<close>

definition backupAPIVersion :: string where "backupAPIVersion = ''apc.dev/v1alpha1''"

definition backupKind :: string where "backupKind = ''ClusterBackup''"

definition backupDataFile :: string where "backupDataFile = ''volume.tar''"

record BackupManifest =
  bm_APIVersion :: string
  bm_Kind :: string
  bm_Cluster :: string
  bm_CreatedAt :: int
  bm_DataFile :: string
  bm_DataSHA256 :: string
  bm_Config :: Config

record BackupResult =
  br_Path :: string
  br_Bytes :: int
  br_DataSHA256 :: string
  br_CreatedAt :: int

definition encodeBackupManifest :: "BackupManifest \<Rightarrow> document" where
  "encodeBackupManifest m = Json (JObj [(''apiVersion'', JStr (bm_APIVersion m)), (''kind'', JStr (bm_Kind m)),
     (''cluster'', JStr (bm_Cluster m)), (''createdAt'', JTime (bm_CreatedAt m)), (''dataFile'', JStr (bm_DataFile m)),
     (''dataSHA256'', JStr (bm_DataSHA256 m)), (''config'', configJSON (bm_Config m))])"

definition dBackupManifest :: "BackupManifest decoder" where
  "dBackupManifest j = tryS (objFields j) (\<lambda>kvs. at dString ''apiVersion'' kvs (\<lambda>v. at dString ''kind'' kvs (\<lambda>k.
     at dString ''cluster'' kvs (\<lambda>c. at dTime ''createdAt'' kvs (\<lambda>t. at dString ''dataFile'' kvs (\<lambda>f.
     at dString ''dataSHA256'' kvs (\<lambda>s. at dConfig ''config'' kvs (\<lambda>cfg.
       Inr \<lparr>bm_APIVersion = v, bm_Kind = k, bm_Cluster = c, bm_CreatedAt = t, bm_DataFile = f, bm_DataSHA256 = s,
            bm_Config = cfg\<rparr>))))))))"

section \<open>The paths in an archive\<close>

definition climbs :: "string \<Rightarrow> bool" where
  "climbs clean \<longleftrightarrow> clean = ''..'' \<or> hasPrefix clean ''../''"

definition validateTarPath :: "string \<Rightarrow> gerror + unit" where
  "validateTarPath value0 =
     (if isAbsPath value0 \<or> climbs (cleanPath value0) then Inl (Msg ''backup contains an unsafe path'') else Inr ())"

definition k3sDataRoot :: string where "k3sDataRoot = ''/var/lib/rancher/k3s/''"

text \<open>Where a symbolic link leads, relative to the root of the archive; \<open>None\<close> for an absolute target outside the data directory.\<close>

definition resolveSymlink :: "string \<Rightarrow> string \<Rightarrow> string option" where
  "resolveSymlink name linkTarget =
     (if isAbsPath linkTarget then
        if \<not> hasPrefix linkTarget k3sDataRoot then None else Some (cleanPath (trimPrefix linkTarget k3sDataRoot))
      else Some (cleanPath (joinPath [dirPath name, linkTarget])))"

definition validateTarEntry :: "tarHeader \<Rightarrow> gerror + unit" where
  "validateTarEntry header =
     tryS (validateTarPath (th_Name header)) (\<lambda>_. case th_Kind header of
       TarHardLink \<Rightarrow> wrapS ''invalid hard link in backup'' (validateTarPath (th_Linkname header))
     | TarSymlink \<Rightarrow> (case resolveSymlink (th_Name header) (th_Linkname header) of
         None \<Rightarrow> Inl (Msg ''backup contains an escaping symbolic link'')
       | Some resolved \<Rightarrow> if climbs resolved then Inl (Msg ''backup contains an escaping symbolic link'') else Inr ())
     | TarOther \<Rightarrow> Inr ())"

fun validateTarEntries :: "tarHeader list \<Rightarrow> gerror + unit" where
  "validateTarEntries [] = Inr ()"
| "validateTarEntries (header # rest) = tryS (validateTarEntry header) (\<lambda>_. validateTarEntries rest)"

section \<open>A backup is checked before it is used\<close>

definition validateManifest :: "'x env \<Rightarrow> string \<Rightarrow> BackupManifest \<Rightarrow> gerror + BackupManifest" where
  "validateManifest E name manifest =
     (if bm_APIVersion manifest \<noteq> backupAPIVersion \<or> bm_Kind manifest \<noteq> backupKind then Inl (Msg ''unsupported APC backup format'')
      else if bm_Cluster manifest \<noteq> name \<or> cf_Name (bm_Config manifest) \<noteq> name then Inl (Msg ''backup belongs to another cluster'')
      else if bm_DataFile manifest \<noteq> backupDataFile then Inl (Msg ''backup manifest contains an invalid data file'')
      else tryS (wrapS ''validate backup cluster configuration'' (normalizeConfig (e_host E) (bm_Config manifest))) (\<lambda>config.
        Inr (manifest\<lparr>bm_Config := config\<rparr>)))"

definition openForRead :: "'x env \<Rightarrow> string \<Rightarrow> ('x, document) op" where
  "openForRead E path = tryA (fileCall E ''open'' path ''open backup data archive'') (\<lambda>_.
     tryA (getA (\<lambda>w. w_fs w path)) (\<lambda>n. case n of
       None \<Rightarrow> errA (Wrap ''open backup data archive'' ErrNotExist) | Some node \<Rightarrow> retA (fn_doc node)))"

text \<open>The digest of the archive, then the entries; every failure closes the file and ignores the error of that.\<close>

definition validateArchive :: "'x env \<Rightarrow> string \<Rightarrow> string \<Rightarrow> ('x, unit) op" where
  "validateArchive E archivePath digest =
     tryA (openForRead E archivePath) (\<lambda>archive.
     tryA (fileCall E ''read'' archivePath ''checksum backup data archive'') (\<lambda>_.
     if \<not> equalFold (e_sha256 E archive) digest then errA (Msg ''backup checksum mismatch'')
     else tryA (fileCall E ''seek'' archivePath ''rewind backup data archive'') (\<lambda>_.
       tryWrapA ''validate backup tar stream'' (liftA (e_tarEntries E archive)) (\<lambda>headers.
       tryA (liftA (validateTarEntries headers)) (\<lambda>_.
       fileCall E ''close'' archivePath ''close backup data archive'')))))"

definition validateBackup :: "'x env \<Rightarrow> string \<Rightarrow> string \<Rightarrow> ('x, BackupManifest \<times> string) op" where
  "validateBackup E name input0 =
     (if \<not> dnsLabel name then errA (Msg ''cluster name must be a lowercase DNS label'')
      else tryWrapA ''resolve backup path'' (liftA (e_abs E input0)) (\<lambda>input.
        tryWrapA ''read backup directory'' (dirInfo E input) (\<lambda>info.
        if \<not> fi_dir info then errA (Msg ''backup path must be a directory'')
        else if groupOrOther info then errA (Msg ''backup directory permissions must be 0700 or stricter'')
        else tryWrapA ''read backup manifest'' (readFile E (joinPath [input, ''manifest.json''])) (\<lambda>manifestData.
          tryWrapA ''decode backup manifest'' (liftA (decodeDoc dBackupManifest manifestData)) (\<lambda>decoded.
          tryA (liftA (validateManifest E name decoded)) (\<lambda>manifest.
          let archivePath = joinPath [input, bm_DataFile manifest] in
          tryA (validateArchive E archivePath (bm_DataSHA256 manifest)) (\<lambda>_.
          retA (manifest, archivePath))))))))"

section \<open>The helper\<close>

definition backupHelperArguments :: "string \<Rightarrow> string list" where
  "backupHelperArguments name = [''run'', ''--detach'', ''--name'', BackupContainerName name,
     ''--arch'', ''arm64'', ''--cpus'', ''1'', ''--memory'', ''512M'', ''--volume'', ServerVolumeName name @ '':/data'']
     @ ownerLabels name ''backup'' @ [''--progress'', ''plain'', backupImage, ''sleep'', ''300'']"

definition startBackupHelper :: "'x env \<Rightarrow> string \<Rightarrow> ('x, unit) op" where
  "startBackupHelper E name = catchA (inspectNode E (BackupContainerName name)) (\<lambda>r. case r of
     Inr record0 \<Rightarrow> tryA (liftA (validateOwnedContainer record0 name ''backup'')) (\<lambda>_. errA (Msg ''backup helper already exists''))
   | Inl e \<Rightarrow> if \<not> errorsIs e ErrNotFound then errA e
       else runNode E ''start APC backup helper'' (backupHelperArguments name))"

definition removeBackupHelper :: "'x env \<Rightarrow> string \<Rightarrow> ('x, unit) op" where
  "removeBackupHelper E name = deleteOwnedContainer E (BackupContainerName name) name ''backup''"

section \<open>Backup\<close>

definition backupDirectory :: "'x env \<Rightarrow> string \<Rightarrow> ('x, string) op" where
  "backupDirectory E output = (let parent = dirPath output in
     tryWrapA ''create backup parent directory'' (dirOp E ''mkdirAll'' parent) (\<lambda>_.
     tryWrapA ''create temporary backup directory'' (dirOp E ''mkdirTemp'' parent) (\<lambda>_.
     tryA (askExt (e_random E)) (\<lambda>random. tryWrapA ''create temporary backup directory'' (liftA random) (\<lambda>suffix.
     let temporary = joinPath [parent, ''.'' @ basePath output @ ''.partial-'' @ suffix] in
     tryWrapA ''secure temporary backup directory'' (dirOp E ''chmod'' temporary) (\<lambda>_. retA temporary))))))"

text \<open>The archive: the output of \<open>tar\<close>, written to a new file and digested; the result is its digest and its length.\<close>

definition streamArchive :: "'x env \<Rightarrow> string \<Rightarrow> string \<Rightarrow> ('x, string \<times> int) op" where
  "streamArchive E name archivePath =
     tryA (fileCall E ''create'' archivePath ''create backup data archive'') (\<lambda>_.
     tryA (getA (\<lambda>w. w_fs w archivePath)) (\<lambda>n. if n \<noteq> None then errA (Msg ''create backup data archive: file exists'') else
     tryA (placeStaged E archivePath 384 (Text [])) (\<lambda>_.
     tryA (runCmd E None [''exec'', BackupContainerName name, ''tar'', ''-C'', ''/data'', ''-cf'', ''-'', ''.'']) (\<lambda>res.
     tryA (askExt (\<lambda>x. e_fileFault E x ''write'' archivePath)) (\<lambda>writeFault.
     tryA (placeStaged E archivePath 384 (cr_stdout res)) (\<lambda>_.
     catchA (fileCall E ''close'' archivePath ''close backup data archive'') (\<lambda>closed.
     case (case cr_err res of Some e \<Rightarrow> Some e | None \<Rightarrow> writeFault) of
       Some e \<Rightarrow> errA (commandError ''archive APC server data'' (cr_stderr res) e)
     | None \<Rightarrow> tryA (liftA closed) (\<lambda>_. retA (e_sha256 E (cr_stdout res), e_docSize E (cr_stdout res))))))))))"

definition backupManifest :: "int \<Rightarrow> string \<Rightarrow> string \<Rightarrow> Config \<Rightarrow> BackupManifest" where
  "backupManifest createdAt name digest config = \<lparr>bm_APIVersion = backupAPIVersion, bm_Kind = backupKind, bm_Cluster = name,
     bm_CreatedAt = createdAt, bm_DataFile = backupDataFile, bm_DataSHA256 = digest, bm_Config = config\<rparr>"

definition packBackup :: "'x env \<Rightarrow> string \<Rightarrow> Config \<Rightarrow> string \<Rightarrow> string \<Rightarrow> ('x, BackupResult) op" where
  "packBackup E name config temporary output =
     tryA (streamArchive E name (joinPath [temporary, backupDataFile])) (\<lambda>(digest, bytes).
     tryA (askExt (e_now E)) (\<lambda>createdAt.
     tryWrapA ''write backup manifest''
       (writePrivateFile E (joinPath [temporary, ''manifest.json'']) (encodeBackupManifest (backupManifest createdAt name digest config))) (\<lambda>_.
     tryWrapA ''publish backup'' (renameTree E temporary output) (\<lambda>_.
     retA \<lparr>br_Path = output, br_Bytes = bytes, br_DataSHA256 = digest, br_CreatedAt = createdAt\<rparr>))))"

text \<open>With the deferred removals of the temporary directory, whose error is ignored, and of the helper.\<close>

definition copyBackup :: "'x env \<Rightarrow> string \<Rightarrow> Config \<Rightarrow> string \<Rightarrow> ('x, BackupResult) op" where
  "copyBackup E name config output =
     tryA (inspectVolume E (ServerVolumeName name)) (\<lambda>volumeRecord0.
     tryA (liftA (validateOwnedVolume volumeRecord0 (ServerVolumeName name) name ''server'')) (\<lambda>_.
     tryA (startBackupHelper E name) (\<lambda>_.
     deferJoin (removeBackupHelper E name)
       (tryA (backupDirectory E output) (\<lambda>temporary.
        catchA (packBackup E name config temporary output) (\<lambda>r. catchA (removeTree E temporary) (\<lambda>_. liftA r)))))))"

definition backupOutput :: "'x env \<Rightarrow> string \<Rightarrow> ('x, string) op" where
  "backupOutput E output0 = tryWrapA ''resolve backup output path'' (liftA (e_abs E output0)) (\<lambda>output.
     catchA (dirInfo E output) (\<lambda>r. case r of
       Inr _ \<Rightarrow> errA (Msg ''backup output already exists'')
     | Inl e \<Rightarrow> if errorsIs e ErrNotExist then retA output else errA (Wrap ''inspect backup output'' e)))"

text \<open>A running server is stopped; the result tells whether it has to be started again.\<close>

definition quiesce :: "'x env \<Rightarrow> string \<Rightarrow> ('x, bool) op" where
  "quiesce E name = tryA (ownedContainer E (ContainerName name) name ''server'') (\<lambda>found. case found of
     None \<Rightarrow> retA False
   | Some record0 \<Rightarrow> if nodeStateIs record0 ''stopped'' then retA False else tryA (Stop E name) (\<lambda>_. retA True))"

definition restartAfterBackup :: "'x env \<Rightarrow> string \<Rightarrow> ('x, unit) op" where
  "restartAfterBackup E name = wrapA ''restart cluster after backup attempt'' (tryA (Start E name) (\<lambda>_. retA ()))"

definition BackupServer :: "'x env \<Rightarrow> string \<Rightarrow> string \<Rightarrow> ('x, BackupResult) op" where
  "BackupServer E name output0 =
     (if \<not> dnsLabel name then errA (Msg ''cluster name must be a lowercase DNS label'')
      else if trimSpace output0 = [] then errA (Msg ''backup output directory is required'')
      else tryA (loadClusterConfig E name) (\<lambda>config.
        tryA (backupOutput E output0) (\<lambda>output.
        tryA (quiesce E name) (\<lambda>wasRunning.
        if wasRunning then deferJoin (restartAfterBackup E name) (copyBackup E name config output)
        else copyBackup E name config output))))"

section \<open>Restore\<close>

definition clearDataArguments :: "string \<Rightarrow> string list" where
  "clearDataArguments name =
     [''exec'', BackupContainerName name, ''sh'', ''-c'', ''rm -rf /data/* /data/.[!.]* /data/..?*'']"

definition extractArguments :: "string \<Rightarrow> string list" where
  "extractArguments name = [''exec'', ''-i'', BackupContainerName name, ''tar'', ''-C'', ''/data'', ''-xf'', ''-'']"

text \<open>\<open>errors.Join(err, cleanup())\<close>.\<close>

definition failWithCleanup :: "('x, unit) op \<Rightarrow> gerror option list \<Rightarrow> ('x, 'a) op" where
  "failWithCleanup cleanup errs = catchA cleanup (\<lambda>c. case errorsJoin (errs @ [errOf c]) of
     Some e \<Rightarrow> errA e | None \<Rightarrow> errA (Msg ''no error''))"

definition replaceData :: "'x env \<Rightarrow> string \<Rightarrow> string \<Rightarrow> ('x, unit) op" where
  "replaceData E name archivePath = (let cleanup = removeBackupHelper E name in
     catchA (runNode E ''clear APC server data before restore'' (clearDataArguments name)) (\<lambda>cleared. case cleared of
       Inl e \<Rightarrow> failWithCleanup cleanup [Some e]
     | Inr _ \<Rightarrow> catchA (openForRead E archivePath) (\<lambda>opened. case opened of
         Inl e \<Rightarrow> failWithCleanup cleanup [Some e]
       | Inr archive \<Rightarrow>
           tryA (updA (\<lambda>w. w\<lparr>w_ext := e_feed E (w_ext w) archive\<rparr>)) (\<lambda>_.
           catchA (runNode E ''restore APC server data'' (extractArguments name)) (\<lambda>extracted.
           catchA (fileCall E ''close'' archivePath ''close backup data archive'') (\<lambda>closed.
           case extracted of
             Inl e \<Rightarrow> failWithCleanup cleanup [Some e, errOf closed]
           | Inr _ \<Rightarrow> (case closed of Inl e \<Rightarrow> failWithCleanup cleanup [Some e] | Inr _ \<Rightarrow> cleanup)))))))"

definition RestoreServer :: "'x env \<Rightarrow> string \<Rightarrow> string \<Rightarrow> ('x, State) op" where
  "RestoreServer E name input =
     tryA (validateBackup E name input) (\<lambda>(manifest, archivePath).
     tryA (quiesce E name) (\<lambda>_.
     tryA (ensureVolume E (ServerVolumeName name) name ''server'') (\<lambda>_.
     tryA (startBackupHelper E name) (\<lambda>_.
     tryA (replaceData E name archivePath) (\<lambda>_.
     tryA (saveClusterConfig E (bm_Config manifest)) (\<lambda>_.
     Start E name))))))"

section \<open>Upgrade\<close>

record UpgradeResult =
  ur_State :: "State option"
  ur_BackupPath :: string
  ur_FromImage :: string
  ur_ToImage :: string
  ur_Changed :: bool

definition DefaultUpgradeBackupPath :: "'x env \<Rightarrow> string \<Rightarrow> ('x, string) op" where
  "DefaultUpgradeBackupPath E name =
     (if \<not> dnsLabel name then errA (Msg ''cluster name must be a lowercase DNS label'')
      else tryWrapA ''resolve user configuration directory'' (liftA (he_UserConfigDir (e_host E))) (\<lambda>configDirectory.
        tryA (askExt (e_stamp E)) (\<lambda>timestamp.
        retA (joinPath [configDirectory, ''apc'', ''backups'', name, map upperChar timestamp @ ''.apcbackup'']))))"

text \<open>The upgrade proper, which has a backup to go back to.\<close>

definition upgradeWith :: "'x env \<Rightarrow> string \<Rightarrow> Config \<Rightarrow> UpgradeResult \<Rightarrow> BackupResult \<Rightarrow> ('x, UpgradeResult) op" where
  "upgradeWith E name config result backup =
     tryWrapA ''remove old server envelope'' (DeleteServer E name True) (\<lambda>_.
     catchA (Create E (config\<lparr>cf_Image := ur_ToImage result\<rparr>)) (\<lambda>created. case created of
       Inr state \<Rightarrow> retA (result\<lparr>ur_BackupPath := br_Path backup, ur_State := Some state, ur_Changed := True\<rparr>)
     | Inl upgradeErr \<Rightarrow> catchA (RestoreServer E name (br_Path backup)) (\<lambda>restored. case restored of
         Inl restoreErr \<Rightarrow> errA (Joined [Wrap ''start upgraded server'' upgradeErr, Wrap ''automatic rollback failed'' restoreErr])
       | Inr _ \<Rightarrow> errA (Wrap ''previous server data was restored'' upgradeErr))))"

definition UpgradeServer :: "'x env \<Rightarrow> string \<Rightarrow> string \<Rightarrow> string \<Rightarrow> ('x, UpgradeResult) op" where
  "UpgradeServer E name newImage backupPath0 =
     (if \<not> dnsLabel name then errA (Msg ''cluster name must be a lowercase DNS label'')
      else if \<not> immutableImageReference newImage then errA (Msg ''upgrade image must be an immutable OCI sha256 digest reference'')
      else tryA (loadClusterConfig E name) (\<lambda>config.
        let result = \<lparr>ur_State = None, ur_BackupPath = [], ur_FromImage = cf_Image config, ur_ToImage = newImage, ur_Changed = False\<rparr> in
        if cf_Image config = newImage then tryA (StatusNode E name) (\<lambda>state. retA (result\<lparr>ur_State := Some state\<rparr>))
        else tryA (if backupPath0 = [] then DefaultUpgradeBackupPath E name else retA backupPath0) (\<lambda>backupPath.
          tryWrapA ''create pre-upgrade backup'' (BackupServer E name backupPath) (upgradeWith E name config result))))"

end
