(* ===== verification/TarPaths.thy ===== *)
theory TarPaths
  imports Backups SnapshotProps
begin

text \<open>
  The check of the paths of an archive, compared with a reference that walks the components of a path and counts the
  depth: a path stays inside when no \<open>..\<close> is met at depth zero.
\<close>

section \<open>The reference\<close>

fun staysInside :: "nat \<Rightarrow> string list \<Rightarrow> bool" where
  "staysInside d [] = True"
| "staysInside d (c # cs) =
     (if c = [] \<or> c = ''.'' then staysInside d cs
      else if c = ''..'' then (case d of 0 \<Rightarrow> False | Suc k \<Rightarrow> staysInside k cs)
      else staysInside (Suc d) cs)"

definition pathInside :: "string \<Rightarrow> bool" where
  "pathInside p \<longleftrightarrow> \<not> isAbsPath p \<and> staysInside 0 (splitOn CHR ''/'' p)"

text \<open>A link of the data directory, and a link relative to the directory of the entry.\<close>

definition linkInside :: "string \<Rightarrow> string \<Rightarrow> bool" where
  "linkInside name target =
     (if isAbsPath target
      then hasPrefix target k3sDataRoot
           \<and> (isAbsPath (trimPrefix target k3sDataRoot) \<or> staysInside 0 (splitOn CHR ''/'' (trimPrefix target k3sDataRoot)))
      else staysInside 0 (splitOn CHR ''/'' (dirPath name) @ splitOn CHR ''/'' target))"

definition entryInside :: "tarHeader \<Rightarrow> bool" where
  "entryInside header \<longleftrightarrow> pathInside (th_Name header) \<and> (case th_Kind header of
     TarHardLink \<Rightarrow> pathInside (th_Linkname header)
   | TarSymlink \<Rightarrow> linkInside (th_Name header) (th_Linkname header)
   | TarOther \<Rightarrow> True)"

section \<open>Cleaning\<close>

lemma cleanComponents_bottom:
  "stack \<noteq> [] \<Longrightarrow> last stack = ''..'' \<Longrightarrow>
   cleanComponents False stack cs \<noteq> [] \<and> hd (cleanComponents False stack cs) = ''..''"
proof (induction "False" stack cs rule: cleanComponents.induct)
  case (1 stack)
  then show ?case by (simp add: hd_rev)
next
  case (2 stack c cs)
  then show ?case by (cases stack) (auto split: if_splits)
qed

lemma cleanComponents_climbs:
  "''..'' \<notin> set stack \<Longrightarrow>
   (if staysInside (length stack) cs then ''..'' \<notin> set (cleanComponents False stack cs)
    else cleanComponents False stack cs \<noteq> [] \<and> hd (cleanComponents False stack cs) = ''..'')"
proof (induction "False" stack cs rule: cleanComponents.induct)
  case (1 stack)
  then show ?case by simp
next
  case (2 stack c cs)
  show ?case
  proof (cases "c = [] \<or> c = ''.''")
    case True
    with 2 show ?thesis by auto
  next
    case plain: False
    show ?thesis
    proof (cases "c = ''..''")
      case up: True
      show ?thesis
      proof (cases stack)
        case Nil
        with up plain show ?thesis using cleanComponents_bottom [of "[''..'']" cs] by simp
      next
        case (Cons t ts)
        with 2 up plain show ?thesis by auto
      qed
    next
      case False
      with 2 plain show ?thesis by auto
    qed
  qed
qed

lemma dotdot_prefix: "CHR ''/'' \<notin> set c \<Longrightarrow> hasPrefix (c @ ''/'' @ r) ''../'' \<longleftrightarrow> c = ''..''"
  by (cases c; cases "tl c"; cases "tl (tl c)") (auto simp: hasPrefix_def split: if_splits)

lemma climbs_joined:
  assumes "\<And>c. c \<in> set comps \<Longrightarrow> CHR ''/'' \<notin> set c"
  shows "climbs (joinWith ''/'' comps) \<longleftrightarrow> comps \<noteq> [] \<and> hd comps = ''..''"
proof (cases comps)
  case Nil
  then show ?thesis by (simp add: climbs_def hasPrefix_def)
next
  case (Cons c cs)
  then have c: "CHR ''/'' \<notin> set c" using assms by simp
  have one: "hasPrefix c ''../'' \<Longrightarrow> False"
    using c by (cases c; cases "tl c"; cases "tl (tl c)") (auto simp: hasPrefix_def)
  show ?thesis
  proof (cases "cs = []")
    case True
    with one show ?thesis unfolding Cons climbs_def by auto
  next
    case False
    have "c @ ''/'' @ joinWith ''/'' cs \<noteq> ''..''"
      by (cases c; cases "tl c"; cases "tl (tl c)") auto
    with False show ?thesis
      using dotdot_prefix [OF c, of "joinWith ''/'' cs"] by (simp add: Cons climbs_def joinWith_parts)
  qed
qed

lemma climbs_cleanPath:
  assumes "\<not> isAbsPath p"
  shows "climbs (cleanPath p) \<longleftrightarrow> \<not> staysInside 0 (splitOn CHR ''/'' p)"
proof -
  let ?cs = "cleanComponents False [] (splitOn CHR ''/'' p)"
  have dot: "\<not> climbs ''.''" by (simp add: climbs_def hasPrefix_def)
  have "climbs (cleanPath p) \<longleftrightarrow> ?cs \<noteq> [] \<and> hd ?cs = ''..''"
    using assms climbs_joined [of ?cs, OF cleaned_no_slash] dot by (simp add: cleanPath_def Let_def)
  also have "\<dots> \<longleftrightarrow> \<not> staysInside 0 (splitOn CHR ''/'' p)"
    using cleanComponents_climbs [of "[]" "splitOn CHR ''/'' p"] by (auto split: if_splits dest: hd_in_set)
  finally show ?thesis .
qed

lemma climbs_rooted: "isAbsPath p \<Longrightarrow> \<not> climbs (cleanPath p)"
  by (simp add: cleanPath_def Let_def climbs_def hasPrefix_def)

lemma validateTarPath_inside: "validateTarPath p = Inr () \<longleftrightarrow> pathInside p"
  using climbs_cleanPath [of p] by (auto simp: validateTarPath_def pathInside_def)

section \<open>Links\<close>

lemma staysInside_plain: "''..'' \<notin> set cs \<Longrightarrow> staysInside d cs"
  by (induction d cs rule: staysInside.induct) (auto split: nat.split)

text \<open>Cleaning a clean path changes nothing about where it leads.\<close>

lemma joined_relative:
  assumes "\<And>c. c \<in> set comps \<Longrightarrow> CHR ''/'' \<notin> set c \<and> c \<noteq> []" "comps \<noteq> []"
  shows "\<not> isAbsPath (joinWith ''/'' comps)"
  using assms(1) [of "hd comps"] assms(2)
  by (cases comps; cases "hd comps") (auto simp: joinWith_parts isAbsPath_def hasPrefix_def)

lemma cleanPath_relative: "\<not> isAbsPath p \<Longrightarrow> \<not> isAbsPath (cleanPath p)"
  using joined_relative [of "cleanComponents False [] (splitOn CHR ''/'' p)"] cleaned_no_slash [of _ False p]
    cleanComponents_nonempty [of "[]" _ False "splitOn CHR ''/'' p"]
  by (auto simp: cleanPath_def Let_def) (simp add: isAbsPath_def hasPrefix_def)

lemma climbs_clean_twice:
  assumes p: "\<not> isAbsPath p"
  shows "climbs (cleanPath (cleanPath p)) \<longleftrightarrow> climbs (cleanPath p)"
proof -
  let ?cs = "cleanComponents False [] (splitOn CHR ''/'' p)"
  have "staysInside 0 (splitOn CHR ''/'' (cleanPath p)) \<longleftrightarrow> staysInside 0 (splitOn CHR ''/'' p)"
  proof (cases "?cs = []")
    case True
    then have "cleanPath p = ''.''" and "staysInside 0 (splitOn CHR ''/'' p)"
      using p cleanComponents_climbs [of "[]" "splitOn CHR ''/'' p"] by (auto simp: cleanPath_def Let_def split: if_splits)
    then show ?thesis by simp
  next
    case False
    then have "splitOn CHR ''/'' (cleanPath p) = ?cs"
      using p splitOn_joinWith [of ?cs "CHR ''/''", OF _ cleaned_no_slash] by (simp add: cleanPath_def Let_def)
    then show ?thesis
      using cleanComponents_climbs [of "[]" "splitOn CHR ''/'' p"] staysInside_plain [of ?cs 0] False
      by (cases ?cs) (auto split: if_splits)
  qed
  then show ?thesis
    using climbs_cleanPath [OF p] climbs_cleanPath [OF cleanPath_relative [OF p]] by simp
qed

lemma cleanPath_nonempty: "cleanPath p \<noteq> []"
  using cleanComponents_nonempty [of "[]" _ "isAbsPath p" "splitOn CHR ''/'' p"]
  by (cases "cleanComponents (isAbsPath p) [] (splitOn CHR ''/'' p)") (auto simp: cleanPath_def Let_def joinWith_parts)

lemma dirPath_relative: "\<not> isAbsPath name \<Longrightarrow> \<not> isAbsPath (dirPath name)"
proof -
  assume name: "\<not> isAbsPath name"
  let ?q = "rev (dropWhile (\<lambda>c. c \<noteq> CHR ''/'') (rev name))"
  have "name = ?q @ rev (takeWhile (\<lambda>c. c \<noteq> CHR ''/'') (rev name))"
    by (simp flip: rev_append)
  with name have "\<not> isAbsPath ?q"
    by (metis append_Nil2 append_assoc hasPrefix_append hasPrefix_def isAbsPath_def append_eq_conv_conj append_take_drop_id)
  then show ?thesis unfolding dirPath_def by (rule cleanPath_relative)
qed

lemma staysInside_trailing: "staysInside d (cs @ [[]]) = staysInside d cs"
  by (induction d cs rule: staysInside.induct) (auto split: nat.split)

lemma resolveSymlink_inside:
  assumes name: "\<not> isAbsPath name"
  shows "(case resolveSymlink name target of None \<Rightarrow> False | Some resolved \<Rightarrow> \<not> climbs resolved) \<longleftrightarrow> linkInside name target"
proof (cases "isAbsPath target")
  case True
  show ?thesis
    using climbs_rooted [of "trimPrefix target k3sDataRoot"] climbs_cleanPath [of "trimPrefix target k3sDataRoot"] True
    by (auto simp: resolveSymlink_def linkInside_def)
next
  case False
  let ?d = "dirPath name"
  let ?q = "if target = [] then ?d else ?d @ ''/'' @ target"
  have d: "\<not> isAbsPath ?d" "?d \<noteq> []"
    using dirPath_relative [OF name] by (simp_all add: dirPath_def cleanPath_nonempty)
  then have q: "\<not> isAbsPath ?q" by (cases ?d) (auto simp: isAbsPath_def hasPrefix_def)
  have "joinPath [?d, target] = cleanPath ?q" using d by (simp add: joinPath_def)
  then have "resolveSymlink name target = Some (cleanPath (cleanPath ?q))" using False by (simp add: resolveSymlink_def)
  moreover have "staysInside 0 (splitOn CHR ''/'' ?q) \<longleftrightarrow> staysInside 0 (splitOn CHR ''/'' ?d @ splitOn CHR ''/'' target)"
    using splitOn_append [of "CHR ''/''" ?d target] staysInside_trailing by simp
  ultimately show ?thesis
    using climbs_clean_twice [OF q] climbs_cleanPath [OF q] False by (simp add: linkInside_def)
qed

lemma validateTarEntry_inside: "validateTarEntry header = Inr () \<longleftrightarrow> entryInside header"
proof (cases "validateTarPath (th_Name header)")
  case (Inl e)
  then show ?thesis using validateTarPath_inside [of "th_Name header"] by (auto simp: validateTarEntry_def entryInside_def)
next
  case (Inr u)
  then have name: "pathInside (th_Name header)" using validateTarPath_inside [of "th_Name header"] by simp
  have link: "wrapS m (validateTarPath q) = Inr () \<longleftrightarrow> pathInside q" for m q
    using validateTarPath_inside [of q] by (cases "validateTarPath q") (auto simp: wrapS_def)
  show ?thesis
    using name resolveSymlink_inside [of "th_Name header" "th_Linkname header"] link Inr
    by (cases "th_Kind header") (auto simp: validateTarEntry_def entryInside_def pathInside_def split: option.split)
qed

lemma validateTarEntries_inside: "validateTarEntries headers = Inr () \<longleftrightarrow> list_all entryInside headers"
proof (induction headers)
  case (Cons header rest)
  then show ?case
    using validateTarEntry_inside [of header] by (cases "validateTarEntry header") auto
qed simp


text \<open>
  The exception for an absolute rest in \<open>linkInside\<close> is real: a link into the data directory with a doubled slash is
  accepted wherever it leads, since cleaning a rooted path swallows every \<open>..\<close>.
\<close>

lemma escaping_link_accepted:
  "validateTarEntry \<lparr>th_Name = ''db'', th_Kind = TarSymlink, th_Linkname = ''/var/lib/rancher/k3s//../../../../etc''\<rparr> = Inr ()"
  "cleanPath ''/var/lib/rancher/k3s//../../../../etc'' = ''/etc''"
  by code_simp+

end
