(* ===== verification/Targets.thy ===== *)
theory Targets
  imports Nodes Supervisor
begin

text \<open>
  The operations that work on a cluster of either kind: \<open>Kubectl\<close>, the targets of an image import
  (\<open>ha_targets.go\<close>), the list of the clusters of this host, and the reconciliation of a single node by the supervisor.
\<close>

section \<open>Kubectl\<close>

text \<open>The first member that runs and is Ready; the members before it are inspected and checked.\<close>

fun readyHAMember :: "'x env \<Rightarrow> HAConfig \<Rightarrow> string \<Rightarrow> HAMember list \<Rightarrow> ('x, HAMember) op" where
  "readyHAMember E config name [] = errA (Msg ''HA cluster has no running Ready server'')"
| "readyHAMember E config name (member # rest) =
     tryA (inspectIfPresent (inspectHAContainer E None (HAContainerName name (hm_ID member)))
             (\<lambda>c. validateHAContainer c config member)) (\<lambda>found. case found of
       None \<Rightarrow> readyHAMember E config name rest
     | Some record0 \<Rightarrow>
         if \<not> stateIs record0 ''running'' then readyHAMember E config name rest
         else catchA (readHAMemberNode E config member) (\<lambda>r. case r of
             Inr node \<Rightarrow> if nodeDocumentReady node then retA member else readyHAMember E config name rest
           | Inl _ \<Rightarrow> readyHAMember E config name rest))"

definition kubectlContainer :: "'x env \<Rightarrow> string \<Rightarrow> ('x, string) op" where
  "kubectlContainer E name = catchA (loadHAConfig E name) (\<lambda>r. case r of
     Inr haConfig \<Rightarrow> tryA (readyHAMember E haConfig name (hc_Members haConfig)) (\<lambda>member. retA (HAContainerName name (hm_ID member)))
   | Inl haErr \<Rightarrow>
       if \<not> errorsIs haErr ErrNotExist then errA haErr
       else tryA (ownedNode E (ContainerName name) name ''server'') (\<lambda>record0.
         if \<not> nodeStateIs record0 ''running'' then errA (Msg ''cluster is not running'') else retA (ContainerName name)))"

text \<open>The result of the command is returned as it is, an exit code included.\<close>

definition Kubectl :: "'x env \<Rightarrow> string \<Rightarrow> string list \<Rightarrow> ('x, cmdResult) op" where
  "Kubectl E name arguments = tryA (kubectlContainer E name) (\<lambda>containerName.
     runCmd E None ([''exec'', containerName, ''kubectl''] @ arguments))"

section \<open>The targets of an image import\<close>

fun importTargets :: "HAConfig \<Rightarrow> haPreflight \<Rightarrow> HAMember list \<Rightarrow> gerror + string list" where
  "importTargets config preflight [] = Inr []"
| "importTargets config preflight (member # rest) = (case recordOf preflight (hm_ID member) of
     None \<Rightarrow> Inl (Msg ''HA member container was not validated'')
   | Some record0 \<Rightarrow>
       if \<not> stateIs record0 ''running'' then Inl (Msg ''all HA image import targets must be running'')
       else tryS (importTargets config preflight rest) (\<lambda>targets.
         Inr (HAContainerName (hc_Name config) (hm_ID member) # targets)))"

definition ImageImportTargets :: "'x env \<Rightarrow> string \<Rightarrow> ('x, string list) op" where
  "ImageImportTargets E name = catchA (loadHAConfig E name) (\<lambda>r. case r of
     Inl e \<Rightarrow> if errorsIs e ErrNotExist then retA [ContainerName name] else errA e
   | Inr config \<Rightarrow> tryWrapA ''validate HA image import targets'' (preflightHA E config False) (\<lambda>preflight.
       if \<not> pf_networkExists preflight then errA (Msg ''image import requires its exact APC-owned network'')
       else if length (pf_volumeExists preflight) \<noteq> length (hc_Members config)
       then errA (Msg ''image import requires all exact APC-owned member volumes'')
       else if length (pf_containerRecord preflight) \<noteq> length (hc_Members config)
       then errA (Msg ''image import requires all exact APC-owned server envelopes'')
       else liftA (importTargets config preflight (hc_Members config))))"

section \<open>The clusters of this host\<close>

definition listedCluster :: "'x env \<Rightarrow> string \<Rightarrow> string \<Rightarrow> ('x, bool) op" where
  "listedCluster E root entry = tryA (askExt (\<lambda>x. e_dirInfo E x (joinPath [root, entry]))) (\<lambda>info.
     if \<not> (case info of Inr i \<Rightarrow> fi_dir i \<and> \<not> fi_symlink i | Inl _ \<Rightarrow> False) \<or> \<not> dnsLabel entry then retA False
     else catchA (ResolvedKubeconfigPath E entry) (\<lambda>rp. case rp of
         Inl _ \<Rightarrow> retA False
       | Inr path \<Rightarrow> catchA (statFile E path) (\<lambda>rs. case rs of Inr i \<Rightarrow> retA (fi_regular i) | Inl _ \<Rightarrow> retA False)))"

definition ListClusters :: "'x env \<Rightarrow> ('x, string list) op" where
  "ListClusters E =
     tryWrapA ''resolve user configuration directory'' (liftA (he_UserConfigDir (e_host E))) (\<lambda>configDirectory.
     let root = joinPath [configDirectory, ''apc'', ''clusters''] in
     catchA (tryA (askExt (\<lambda>x. e_readDir E x root)) liftA) (\<lambda>r. case r of
       Inl e \<Rightarrow> if errorsIs e ErrNotExist then retA [] else errA (Wrap ''list APC clusters'' e)
     | Inr entries \<Rightarrow> tryA (foldA (\<lambda>names entry. tryA (listedCluster E root entry) (\<lambda>listed.
           retA (if listed then names @ [entry] else names))) [] entries) (\<lambda>names. retA (sortStrings names))))"

section \<open>The supervisor of a single node\<close>

definition ignoreResult :: "('x, 'a) op \<Rightarrow> ('x, unit) op" where
  "ignoreResult m = tryA m (\<lambda>_. retA ())"

definition reconcileSupervisedNode :: "'x env \<Rightarrow> string \<Rightarrow> string \<Rightarrow> ('x, unit) op" where
  "reconcileSupervisedNode E role name =
     tryA (ensureAppleContainerService E) (\<lambda>_.
     if role = ''ha'' then
       tryA (reconcileSupervisedHAAfterService E name newHASupervisorState) (\<lambda>(_, err). case err of None \<Rightarrow> retA () | Some e \<Rightarrow> errA e)
     else if role = ''agent'' then
       catchA (AgentStatus E name) (\<lambda>r.
       if (case r of Inr state \<Rightarrow> equalFold (sn_RuntimeState state) ''running'' | Inl _ \<Rightarrow> False) then retA ()
       else ignoreResult (StartAgent E name (45 * second)))
     else
       catchA (StatusNode E name) (\<lambda>r.
       if (case r of Inr state \<Rightarrow> equalFold (sn_RuntimeState state) ''running'' \<and> sn_NodeReady state | Inl _ \<Rightarrow> False) then retA ()
       else ignoreResult (Start E name)))"

end
