(* ===== verification/NodeProps.thy ===== *)
theory NodeProps
  imports Targets
begin

text \<open>
  What the operations on a single server do to the runtime: they observe, they stop, delete and run the disposable
  container of the server, they create its volume; no volume is deleted and no file removed unless a deletion with the
  data was asked for, and nothing is touched that does not carry the ownership labels.
\<close>

section \<open>Observers\<close>

text \<open>A command that only reads; other than \<open>quiet\<close> it is no change of a file either.\<close>

definition observes :: "event \<Rightarrow> bool" where
  "observes e \<longleftrightarrow> isCmd e \<and> readsOnlyArgs (cmdArgs e)"

lemma observes_Cmd [simp]: "observes (Cmd b args) \<longleftrightarrow> readsOnlyArgs args"
  by (simp add: observes_def isCmd_def cmdArgs_def)

lemma observes_inspects: "emits observes (inspectNode E name)" "emits observes (inspectVolume E name)"
  unfolding inspectNode_def inspectVolume_def by (rule emits_inspectWith; simp add: readsOnlyArgs_def)+

lemma observes_owned: "emits observes (ownedContainer E c name role)" "emits observes (ownedNode E c name role)"
  unfolding ownedContainer_def ownedNode_def by (intro effects observes_inspects)+

lemma readyArguments_read: "readsOnlyArgs (readyArguments c node)"
  by (simp add: readsOnlyArgs_def readyArguments_def)

lemma observes_nodeReadyOnce: "emits observes (nodeReadyOnce E c node ip)"
  unfolding nodeReadyOnce_def
  by (intro effects) (auto simp: readyArguments_read intro!: effects observes_inspects split: list.split)

lemma observes_waitNodeReady: "emits observes (waitNodeReady E c node ip)"
proof -
  have "emits observes (waitNodeLoop E c node ip n)" for n
    by (induction n) (subst waitNodeLoop.simps, simp only: nat.case, (intro effects observes_nodeReadyOnce; assumption?)+)+
  then show ?thesis unfolding waitNodeReady_def by (intro effects)
qed

lemma observes_agentPollOnce: "emits observes (agentPollOnce E c)"
  unfolding agentPollOnce_def Let_def by (intro effects observes_inspects) (simp_all add: readsOnlyArgs_def)

lemma emits_case_agentPoll [effects]:
  "emits P a \<Longrightarrow> (\<And>e. emits P (f e)) \<Longrightarrow> emits P c \<Longrightarrow>
     emits P (case poll of AgentConnected \<Rightarrow> a | AgentFailed e \<Rightarrow> f e | AgentPending \<Rightarrow> c)"
  by (cases poll) simp_all

lemma observes_waitAgentConnected: "emits observes (waitAgentConnected E c)"
proof -
  have "emits observes (waitAgentLoop E c n)" for n
    by (induction n) (subst waitAgentLoop.simps, simp only: nat.case,
        (intro effects observes_agentPollOnce; assumption?)+)+
  then show ?thesis unfolding waitAgentConnected_def by (intro effects)
qed

lemma observes_status: "emits observes (StatusNode E name)" "emits observes (AgentStatus E name)"
  unfolding StatusNode_def AgentStatus_def Let_def
  by (intro effects observes_owned; simp add: readsOnlyArgs_def)+

lemma observes_readKubeconfig: "emits observes (readKubeconfig E n ep)"
  unfolding readKubeconfig_def by (intro effects) (simp add: readsOnlyArgs_def)

lemmas node_observers = observes_inspects observes_owned observes_waitNodeReady observes_waitAgentConnected
  observes_status observes_readKubeconfig

lemma observing: "emits observes m \<Longrightarrow> (\<And>b args. readsOnlyArgs args \<Longrightarrow> P (Cmd b args)) \<Longrightarrow> emits P m"
  by (erule emits_mono) (auto simp: observes_def isCmd_def cmdArgs_def split: event.splits)

section \<open>The data is kept\<close>

text \<open>The effects that leave every volume and every file in place.\<close>

definition keepsVolumes :: "event \<Rightarrow> bool" where
  "keepsVolumes e = (case e of
     Cmd _ args \<Rightarrow> readsOnlyArgs args \<or> (\<exists>n. args \<in> {[''stop'', ContainerName n], [''delete'', ContainerName n]})
       \<or> take 3 args = [''run'', ''--detach'', ''--name''] \<or> take 2 args = [''volume'', ''create'']
   | Wrote _ _ \<Rightarrow> True
   | _ \<Rightarrow> False)"

lemma keepsVolumes_simps [simp]:
  "keepsVolumes (Wrote p d)" "readsOnlyArgs args \<Longrightarrow> keepsVolumes (Cmd b args)"
  "keepsVolumes (Cmd b [''stop'', ContainerName n])" "keepsVolumes (Cmd b [''delete'', ContainerName n])"
  "keepsVolumes (Cmd b (''run'' # ''--detach'' # ''--name'' # rest))" "keepsVolumes (Cmd b (''volume'' # ''create'' # rest))"
  by (auto simp: keepsVolumes_def)

lemma run_keeps: "keepsVolumes (Cmd b (ServerRunArguments E config))"
  unfolding ServerRunArguments_def Let_def append_Cons by (rule keepsVolumes_simps)

lemma emits_runNode [effects]: "P (Cmd None args) \<Longrightarrow> emits P (runNode E msg args)"
  unfolding runNode_def by (intro effects)

lemma emits_writePrivateFile [effects]: "(\<And>d. P (Wrote p d)) \<Longrightarrow> emits P (writePrivateFile E p data)"
  unfolding writePrivateFile_def by (intro effects)

lemma emits_SetCurrentCluster [effects]: "(\<And>p d. P (Wrote p d)) \<Longrightarrow> emits P (SetCurrentCluster E name)"
  unfolding SetCurrentCluster_def by (intro effects)

lemma emits_saves [effects]:
  "(\<And>p d. P (Wrote p d)) \<Longrightarrow> emits P (saveClusterConfig E config)"
  "(\<And>p d. P (Wrote p d)) \<Longrightarrow> emits P (pinNodeIP E config state)"
  unfolding saveClusterConfig_def pinNodeIP_def by (intro effects; simp)+

lemma emits_readServerKubeconfig:
  "(\<And>p d. P (Wrote p d)) \<Longrightarrow> (\<And>b args. readsOnlyArgs args \<Longrightarrow> P (Cmd b args)) \<Longrightarrow> emits P (readServerKubeconfig E config c)"
  unfolding readServerKubeconfig_def by (intro effects node_observers [THEN observing])

lemma emits_refresh [effects]: "emits P (refreshAdvertiseAddress E config)"
  unfolding refreshAdvertiseAddress_def by (intro effects)

lemma emits_serverConfigurationFiles [effects]: "emits P (serverConfigurationFiles E name)"
  unfolding serverConfigurationFiles_def by (intro effects)

abbreviation keeping_data :: "('x, 'a) op \<Rightarrow> bool" where
  "keeping_data m \<equiv> emits keepsVolumes m"

lemma observers_keep: "emits observes m \<Longrightarrow> keeping_data m"
  by (erule observing) (rule keepsVolumes_simps(2))

lemmas observed = node_observers [THEN observers_keep]

lemma keep_ensureVolume: "keeping_data (ensureVolume E v name role)"
  unfolding ensureVolume_def append_Cons append_Nil by (intro effects observed keepsVolumes_simps)

lemma keep_deleteStopped: "keeping_data (deleteStoppedContainer E (ContainerName n))"
  unfolding deleteStoppedContainer_def by (intro effects keepsVolumes_simps)

lemma keep_Create: "keeping_data (Create E config)"
  unfolding Create_def createContainer_def Let_def
  by (intro effects observed keep_ensureVolume keep_deleteStopped run_keeps emits_readServerKubeconfig) simp_all

lemma keep_Start: "keeping_data (Start E name)"
  unfolding Start_def recreateContainer_def Let_def
  by (intro effects observed keep_ensureVolume keep_deleteStopped run_keeps emits_readServerKubeconfig) simp_all

lemma keep_Stop: "keeping_data (Stop E name)"
  unfolding Stop_def by (intro effects observed) simp

lemma keep_DeleteServer: "keeping_data (DeleteServer E name True)"
  unfolding DeleteServer_def deleteOwnedContainer_def by (intro effects observed) simp_all

lemma keep_SetNetworkPolicy: "keeping_data (SetNetworkPolicy E name enabled timeout)"
  unfolding SetNetworkPolicy_def rollbackPolicy_def Let_def
  by (intro effects observed keep_Create keep_DeleteServer)

text \<open>
  A change of the network policy keeps the data, whether it succeeds, fails or rolls back: its only effects are
  observations, the stop, deletion and run of disposable server containers, the creation of a volume, and files written.
\<close>

lemma SetNetworkPolicy_keeps_data:
  "list_all keepsVolumes (w_trace (snd (SetNetworkPolicy E name enabled timeout (w\<lparr>w_trace := []\<rparr>))))"
  by (rule emits_run [OF keep_SetNetworkPolicy])

section \<open>Foreign resources\<close>

text \<open>The container of the server exists and does not carry the labels of the cluster.\<close>

definition foreignServer :: "'x env \<Rightarrow> string \<Rightarrow> 'x world \<Rightarrow> bool" where
  "foreignServer E name w = (case fst (inspectNode E (ContainerName name) w) of
     Inr record0 \<Rightarrow> \<not> ownedBy (ir_Labels record0) name ''server'' | Inl _ \<Rightarrow> False)"

definition foreignVolume :: "'x env \<Rightarrow> string \<Rightarrow> string \<Rightarrow> string \<Rightarrow> 'x world \<Rightarrow> bool" where
  "foreignVolume E volume name role w = (case fst (inspectVolume E volume w) of
     Inr record0 \<Rightarrow> \<not> ownedBy (vr_Labels record0) name role | Inl _ \<Rightarrow> False)"

text \<open>The operation fails and has only observed.\<close>

definition refused :: "('x, 'a) op \<Rightarrow> 'x world \<Rightarrow> bool" where
  "refused m w \<longleftrightarrow> \<not> isOk (fst (m w)) \<and> (\<exists>es. w_trace (snd (m w)) = w_trace w @ es \<and> list_all observes es)"

lemma refused_tryA: "refused m w \<Longrightarrow> refused (tryA m f) w"
  by (cases "m w"; cases "fst (m w)") (auto simp: refused_def tryA_apply)

lemma refused_errA: "refused (errA e) w"
  by (simp add: refused_def)

lemma refused_reads:
  "reads m \<Longrightarrow> (\<And>x. m w = (Inr x, w) \<Longrightarrow> refused (f x) w) \<Longrightarrow> refused (tryA m f) w"
  by (cases "m w"; cases "fst (m w)") (auto simp: refused_def tryA_apply dest: reads_state)

lemma refused_if: "(b \<Longrightarrow> refused m w) \<Longrightarrow> (\<not> b \<Longrightarrow> refused n w) \<Longrightarrow> refused (if b then m else n) w"
  by simp

lemma refused_owned:
  assumes "foreignServer E name w"
  shows "refused (ownedContainer E (ContainerName name) name ''server'') w" "refused (ownedNode E (ContainerName name) name ''server'') w"
proof -
  obtain record0 w' where i: "inspectNode E (ContainerName name) w = (Inr record0, w')" "\<not> ownedBy (ir_Labels record0) name ''server''"
    using assms by (cases "inspectNode E (ContainerName name) w") (auto simp: foreignServer_def split: sum.splits)
  have "\<exists>es. w_trace w' = w_trace w @ es \<and> list_all observes es"
    using observes_inspects(1) [of E "ContainerName name"] i unfolding emits_def by (metis snd_conv)
  with i show "refused (ownedContainer E (ContainerName name) name ''server'') w" "refused (ownedNode E (ContainerName name) name ''server'') w"
    by (simp_all add: refused_def ownedContainer_def ownedNode_def catchA_apply tryA_apply validateOwnedContainer_def)
qed

lemma refused_volume:
  assumes "foreignVolume E volume name role w"
  shows "refused (deleteOwnedVolume E volume name role) w" "refused (ensureVolume E volume name role) w"
proof -
  obtain record0 w' where i: "inspectVolume E volume w = (Inr record0, w')" "\<not> ownedBy (vr_Labels record0) name role"
    using assms by (cases "inspectVolume E volume w") (auto simp: foreignVolume_def split: sum.splits)
  have "\<exists>es. w_trace w' = w_trace w @ es \<and> list_all observes es"
    using observes_inspects(2) [of E volume] i unfolding emits_def by (metis snd_conv)
  with i show "refused (deleteOwnedVolume E volume name role) w" "refused (ensureVolume E volume name role) w"
    by (auto simp: refused_def deleteOwnedVolume_def ensureVolume_def catchA_apply tryA_apply validateOwnedVolume_def)
qed

lemma reads_loadClusterConfig [readonly]: "reads (loadClusterConfig E name)"
  unfolding loadClusterConfig_def by (intro readonly reads_world)

lemma reads_refresh [readonly]: "reads (refreshAdvertiseAddress E config)"
  unfolding refreshAdvertiseAddress_def by (intro readonly reads_world)

lemma reads_serverConfigurationFiles [readonly]: "reads (serverConfigurationFiles E name)"
  unfolding serverConfigurationFiles_def by (intro readonly)

lemma foreign_refused:
  assumes f: "foreignServer E name w"
  shows "refused (Stop E name) w" "refused (Start E name) w" "refused (DeleteServer E name keepData) w"
proof -
  show "refused (Stop E name) w"
    unfolding Stop_def by (intro refused_tryA refused_owned [OF f])
  show "refused (Start E name) w"
    unfolding Start_def recreateContainer_def
    by (rule refused_reads [OF reads_loadClusterConfig], rule refused_reads [OF reads_refresh], simp only: split_beta)
      (intro refused_tryA refused_owned [OF f])
  show "refused (DeleteServer E name keepData) w"
    unfolding DeleteServer_def deleteOwnedContainer_def
    by (rule refused_if, rule refused_errA, rule refused_reads [OF reads_serverConfigurationFiles])
      (intro refused_tryA refused_owned [OF f])
qed

section \<open>The saved configuration\<close>

text \<open>What a Go \<open>int\<close> and a \<open>time.Duration\<close> can hold.\<close>

definition repConfig :: "Config \<Rightarrow> bool" where
  "repConfig c \<longleftrightarrow> list_all goInt [cf_CPUs c, cf_APIPort c, cf_VXLANPort c, cf_KubeletPort c, cf_StartupTimeout c]"

lemma lower_config_names:
  "toLower ''Name'' = ''name''"
  "toLower ''NodeName'' = ''nodename''"
  "toLower ''Image'' = ''image''"
  "toLower ''CPUs'' = ''cpus''"
  "toLower ''Memory'' = ''memory''"
  "toLower ''ListenAddress'' = ''listenaddress''"
  "toLower ''AdvertiseAddress'' = ''advertiseaddress''"
  "toLower ''APIPort'' = ''apiport''"
  "toLower ''VXLANPort'' = ''vxlanport''"
  "toLower ''KubeletPort'' = ''kubeletport''"
  "toLower ''StartupTimeout'' = ''startuptimeout''"
  "toLower ''KubeconfigPath'' = ''kubeconfigpath''"
  "toLower ''DisableTraefik'' = ''disabletraefik''"
  "toLower ''EnableNetworkPolicy'' = ''enablenetworkpolicy''"
  "toLower ''StableNodeIP'' = ''stablenodeip''"
  by (simp_all add: toLower_def lowerChar_def isUpperAlpha_def char_of_def bit_iff_odd)

lemmas config_fields = jField_def at_def equalFold_def lower_config_names

lemma dConfig_configJSON: "repConfig c \<Longrightarrow> dConfig (configJSON c) = Inr c"
  by (simp add: dConfig_def configJSON_def repConfig_def config_fields dInt_JInt goInt_def)

text \<open>The configurations that \<open>normalizeConfig\<close> leaves as they are.\<close>

definition normalConfig :: "hostEnv \<Rightarrow> Config \<Rightarrow> bool" where
  "normalConfig H c \<longleftrightarrow> dnsLabel (cf_Name c) \<and> dnsLabel (cf_NodeName c) \<and> cf_Image c \<noteq> [] \<and> 2 \<le> cf_CPUs c \<and> cf_Memory c \<noteq> []
     \<and> cf_ListenAddress c \<noteq> [] \<and> parsesIP (cf_ListenAddress c)
     \<and> (cf_AdvertiseAddress c = [] \<or> parsesIP (cf_AdvertiseAddress c)) \<and> (cf_StableNodeIP c = [] \<or> parsesIP (cf_StableNodeIP c))
     \<and> \<not> (cf_ListenAddress c = ''0.0.0.0'' \<and> cf_AdvertiseAddress c = [])
     \<and> list_all validPortRange [cf_APIPort c, cf_VXLANPort c, cf_KubeletPort c] \<and> cf_StartupTimeout c \<noteq> 0
     \<and> (cf_KubeconfigPath c = [] \<longrightarrow> KubeconfigPath H (cf_Name c) = Inr [])"

lemma orDefault_id: "s \<noteq> [] \<Longrightarrow> orDefault s d = s" and orDefault_nonempty: "d \<noteq> [] \<Longrightarrow> orDefault s d \<noteq> []"
  by (simp_all add: orDefault_def)

lemma dnsLabel_nonempty: "dnsLabel s \<Longrightarrow> s \<noteq> []"
  by (simp add: dnsLabel_def)

lemma config_same: "0 < i \<or> i < 0 \<Longrightarrow> (if i = 0 then d else i) = (i::int)"
  by auto

lemma normalizeConfig_normal:
  assumes "normalConfig H c" shows "normalizeConfig H c = Inr c"
proof -
  have ports: "cf_APIPort c \<noteq> 0" "cf_VXLANPort c \<noteq> 0" "cf_KubeletPort c \<noteq> 0" "cf_CPUs c \<noteq> 0"
    using assms by (auto simp: normalConfig_def validPortRange_def)
  show ?thesis
    using assms ports unfolding normalizeConfig_def Let_def normalConfig_def
    by (simp add: orDefault_id dnsLabel_nonempty)
qed

lemma if_Inl_Inr: "(if b then Inl e else m) = Inr d \<longleftrightarrow> \<not> b \<and> m = Inr d"
  by simp

lemma normalizeConfig_result:
  assumes "normalizeConfig H c = Inr d" shows "normalConfig H d \<and> cf_Name d = orDefault (cf_Name c) ''spike''"
proof -
  define name node img mem la where "name = orDefault (cf_Name c) ''spike''" and "node = orDefault (cf_NodeName c) (''apc-'' @ name @ ''-server'')"
    and "img = orDefault (cf_Image c) defaultK3sImage" and "mem = orDefault (cf_Memory c) ''4G''"
    and "la = orDefault (cf_ListenAddress c) ''127.0.0.1''"
  note defs = this
  define cpus api vx ku st where "cpus = (if cf_CPUs c = 0 then 4 else cf_CPUs c)" and "api = (if cf_APIPort c = 0 then 16443 else cf_APIPort c)"
    and "vx = (if cf_VXLANPort c = 0 then 8472 else cf_VXLANPort c)" and "ku = (if cf_KubeletPort c = 0 then 10250 else cf_KubeletPort c)"
    and "st = (if cf_StartupTimeout c = 0 then 120 * second else cf_StartupTimeout c)"
  note nums = this
  have ne: "img \<noteq> []" "mem \<noteq> []" "la \<noteq> []" "st \<noteq> 0"
    by (simp_all add: defs nums orDefault_nonempty defaultK3sImage_def second_def)
  let ?d = "\<lparr>cf_Name = name, cf_NodeName = node, cf_Image = img, cf_CPUs = cpus, cf_Memory = mem, cf_ListenAddress = la,
     cf_AdvertiseAddress = cf_AdvertiseAddress c, cf_APIPort = api, cf_VXLANPort = vx, cf_KubeletPort = ku, cf_StartupTimeout = st,
     cf_KubeconfigPath = cf_KubeconfigPath c, cf_DisableTraefik = cf_DisableTraefik c,
     cf_EnableNetworkPolicy = cf_EnableNetworkPolicy c, cf_StableNodeIP = cf_StableNodeIP c\<rparr>"
  have "dnsLabel name \<and> dnsLabel node \<and> \<not> cpus < 2 \<and> parsesIP la
      \<and> \<not> (cf_AdvertiseAddress c \<noteq> [] \<and> \<not> parsesIP (cf_AdvertiseAddress c))
      \<and> \<not> (cf_StableNodeIP c \<noteq> [] \<and> \<not> parsesIP (cf_StableNodeIP c))
      \<and> \<not> (la = ''0.0.0.0'' \<and> cf_AdvertiseAddress c = [])
      \<and> list_all validPortRange [api, vx, ku]
      \<and> (if cf_KubeconfigPath c \<noteq> [] then Inr ?d
         else tryS (KubeconfigPath H name) (\<lambda>path. Inr (?d\<lparr>cf_KubeconfigPath := path\<rparr>))) = Inr d"
    using assms unfolding defs nums
    by (cases c) (simp only: normalizeConfig_def Let_def if_Inl_Inr Config.simps Config.update_convs simp_thms)
  with ne show ?thesis
    unfolding normalConfig_def by (auto simp: tryS_def defs(1) split: if_splits sum.splits)
qed

lemma normalizeConfig_accepts: "normalizeConfig H c = Inr d \<Longrightarrow> normalConfig H d"
  using normalizeConfig_result by blast

text \<open>
  C17: the configurations that \<open>normalizeConfig\<close> produces are well formed, and these are its fixed points: a configuration
  normalized twice, as on the way through its file, is the one normalized once.
\<close>

theorem normalizeConfig_wellformed:
  "case normalizeConfig H c of Inl _ \<Rightarrow> True | Inr d \<Rightarrow> normalConfig H d \<and> normalizeConfig H d = Inr d"
  using normalizeConfig_accepts [of H c] normalizeConfig_normal [of H] by (auto split: sum.split)

lemma writePrivateFile_ok:
  "writePrivateFile E path doc w = (Inr u, w') \<Longrightarrow> w' = placed E path doc w"
  unfolding writePrivateFile_def
  by (auto simp: tryA_apply catchA_apply writeStepA_def placeFile_def placed_def split: option.splits)

text \<open>
  A well-formed configuration that was saved is the one the next load returns, so a server is recreated with the
  configuration it was created with.
\<close>

lemma config_load_after_save:
  assumes save: "saveClusterConfig E c w = (Inr (), w')"
    and path: "clusterConfigPath (e_host E) (cf_Name c) = Inr path" and free: "e_fileFault E (w_ext w) ''read'' path = None"
    and rep: "repConfig c" and normal: "normalConfig (e_host E) c"
  shows "loadClusterConfig E (cf_Name c) w' = (Inr c, w')"
proof -
  have "writePrivateFile E path (encodeConfig c) w = (Inr (), w')"
    using save path by (simp add: saveClusterConfig_def tryA_apply wrapA_apply split: sum.splits prod.splits)
  then have w': "w' = placed E path (encodeConfig c) w" by (rule writePrivateFile_ok)
  have "readFile E path w' = (Inr (encodeConfig c), w')"
    unfolding w' using free by (simp add: readFile_def placed_def)
  then show ?thesis
    using path dConfig_configJSON [OF rep] normalizeConfig_normal [OF normal]
    by (simp add: loadClusterConfig_def act_apply encodeConfig_def)
qed

lemma config_load_after_save_witness:
  "\<exists>c. cf_Name c = ''lab'' \<and> (let w = snd (saveClusterConfig idleEnv c emptyWorld) in loadClusterConfig idleEnv ''lab'' w = (Inr c, w))"
proof -
  obtain c where c: "normalizeConfig exampleHost (zeroConfig\<lparr>cf_Name := ''lab''\<rparr>) = Inr c"
    "cf_Name c = ''lab''" "repConfig c"
  proof -
    have "case normalizeConfig exampleHost (zeroConfig\<lparr>cf_Name := ''lab''\<rparr>) of Inl _ \<Rightarrow> False
        | Inr c \<Rightarrow> cf_Name c = ''lab'' \<and> repConfig c" by code_simp
    then show thesis using that by (auto split: sum.splits)
  qed
  have host: "e_host idleEnv = exampleHost" by (simp add: idleEnv_def scriptedEnv_def)
  let ?w = "snd (saveClusterConfig idleEnv c emptyWorld)" and ?path = "''/home/u/.config/apc/clusters/lab/cluster.json''"
  have path: "clusterConfigPath (e_host idleEnv) (cf_Name c) = Inr ?path" unfolding c(2) by code_simp
  have save: "saveClusterConfig idleEnv c emptyWorld = (Inr (), ?w)"
    using path by (auto simp: saveClusterConfig_def writePrivateFile_def idleEnv_def scriptedEnv_def tryA_apply wrapA_apply
        catchA_apply writeStepA_def placeFile_def split: prod.split)
  have free: "e_fileFault idleEnv (w_ext emptyWorld) ''read'' ?path = None" by (simp add: idleEnv_def scriptedEnv_def)
  from config_load_after_save [OF save path free c(3)] normalizeConfig_accepts [OF c(1)] host c(2)
  show ?thesis by (intro exI [of _ c]) simp
qed

section \<open>Success means Ready\<close>

text \<open>Between \<open>w\<close> and \<open>w'\<close> the node of the server reported Ready at its expected address.\<close>

definition nodeReadySeen :: "'x env \<Rightarrow> string \<Rightarrow> 'x world \<Rightarrow> 'x world \<Rightarrow> bool" where
  "nodeReadySeen E containerName w w' \<longleftrightarrow> (\<exists>nodeName expectedNodeIP w0 w1 es fs.
     nodeReadyOnce E containerName nodeName expectedNodeIP w0 = (Inr True, w1)
     \<and> w_trace w0 = w_trace w @ es \<and> w_trace w' = w_trace w1 @ fs)"

lemma trace_grows: "emits P m \<Longrightarrow> m w = (r, w') \<Longrightarrow> \<exists>es. w_trace w' = w_trace w @ es"
  unfolding emits_def by (metis snd_conv)

lemma waitNodeLoop_ok:
  "waitNodeLoop E c node ip n w = (Inr u, w1) \<Longrightarrow>
   \<exists>w0 es. nodeReadyOnce E c node ip w0 = (Inr True, w1) \<and> w_trace w0 = w_trace w @ es"
proof (induction n arbitrary: w)
  case 0
  from 0 obtain ready w2 where r: "nodeReadyOnce E c node ip w = (Inr ready, w2)"
    and rest: "(if ready then retA () else contextDone E ''K3s node did not become Ready'') w2 = (Inr u, w1)"
    by (subst (asm) waitNodeLoop.simps, simp only: nat.case) (rule tryA_InrE)
  from rest have ready by (auto simp: contextDone_def tryA_apply errA_def askExt_def getA_def split: if_splits)
  with r rest show ?case by (intro exI [of _ w]) (auto simp: retA_def)
next
  case (Suc n)
  from Suc.prems obtain ready w2 where r: "nodeReadyOnce E c node ip w = (Inr ready, w2)"
    and rest: "(if ready then retA () else waitNodeLoop E c node ip n) w2 = (Inr u, w1)"
    unfolding waitNodeLoop.simps [of E c node ip "Suc n"] nat.case by (rule tryA_InrE)
  show ?case
  proof (cases ready)
    case True
    with r rest show ?thesis by (intro exI [of _ w]) (auto simp: retA_def)
  next
    case False
    then have "waitNodeLoop E c node ip n w2 = (Inr u, w1)" using rest by simp
    from Suc.IH [OF this] obtain w0 es where "nodeReadyOnce E c node ip w0 = (Inr True, w1)" "w_trace w0 = w_trace w2 @ es" by blast
    moreover obtain es' where "w_trace w2 = w_trace w @ es'" using trace_grows [OF observes_nodeReadyOnce r] by blast
    ultimately show ?thesis by auto
  qed
qed

lemma readServerKubeconfig_ready:
  assumes "readServerKubeconfig E config c w = (Inr u, w')"
  shows "nodeReadySeen E c w w'"
proof -
  from assms obtain u1 w1 where wait: "waitNodeReady E c (cf_NodeName config) (cf_StableNodeIP config) w = (Inr u1, w1)"
    and rest: "tryA (readKubeconfig E c (APIEndpoint config)) (\<lambda>kubeconfig.
       tryA (writePrivateFile E (cf_KubeconfigPath config) kubeconfig) (\<lambda>_. saveClusterConfig E config)) w1 = (Inr u, w')"
    unfolding readServerKubeconfig_def by (rule tryA_InrE)
  from wait obtain n where "waitNodeLoop E c (cf_NodeName config) (cf_StableNodeIP config) n w = (Inr u1, w1)"
    by (auto simp: waitNodeReady_def tryA_apply askExt_def getA_def)
  then obtain w0 es where "nodeReadyOnce E c (cf_NodeName config) (cf_StableNodeIP config) w0 = (Inr True, w1)" "w_trace w0 = w_trace w @ es"
    using waitNodeLoop_ok by blast
  moreover have "keeping_data (tryA (readKubeconfig E c (APIEndpoint config)) (\<lambda>kubeconfig.
       tryA (writePrivateFile E (cf_KubeconfigPath config) kubeconfig) (\<lambda>_. saveClusterConfig E config)))"
    by (intro effects observed; simp)
  from trace_grows [OF this rest] have "\<exists>fs. w_trace w' = w_trace w1 @ fs" .
  ultimately show ?thesis unfolding nodeReadySeen_def by blast
qed

lemma nodeReadySeen_around:
  "nodeReadySeen E c w1 w2 \<Longrightarrow> w_trace w1 = w_trace w @ es \<Longrightarrow> w_trace w' = w_trace w2 @ fs \<Longrightarrow> nodeReadySeen E c w w'"
  unfolding nodeReadySeen_def by (metis append.assoc)

lemma ready_now:
  assumes "tryA (readServerKubeconfig E config c) g w = (Inr y, w')" "\<And>x. keeping_data (g x)"
  shows "nodeReadySeen E c w w'"
proof -
  from assms(1) obtain u w2 where steps: "readServerKubeconfig E config c w = (Inr u, w2)" "g u w2 = (Inr y, w')"
    by (rule tryA_InrE)
  from trace_grows [OF assms(2) steps(2)] show ?thesis
    using nodeReadySeen_around [OF readServerKubeconfig_ready [OF steps(1)], of w "[]"] by auto
qed

lemma ready_later:
  assumes "tryA m f w = (Inr y, w')" "keeping_data m" "\<And>x w1. f x w1 = (Inr y, w') \<Longrightarrow> nodeReadySeen E c w1 w'"
  shows "nodeReadySeen E c w w'"
proof -
  from assms(1) obtain x w1 where steps: "m w = (Inr x, w1)" "f x w1 = (Inr y, w')" by (rule tryA_InrE)
  from trace_grows [OF assms(2) steps(1)] show ?thesis
    using nodeReadySeen_around [OF assms(3) [OF steps(2)], of w _ w' "[]"] by auto
qed

lemma keep_recreate: "keeping_data (recreateContainer E (ContainerName name) v name role changed (ServerRunArguments E config))"
  unfolding recreateContainer_def Let_def
  by (intro effects observed keep_ensureVolume keep_deleteStopped run_keeps) simp_all

lemma keep_createContainer: "keeping_data (createContainer E config)"
  unfolding createContainer_def Let_def by (intro effects observed keep_deleteStopped run_keeps)

lemma Start_ready: "Start E name w = (Inr state, w') \<Longrightarrow> nodeReadySeen E (ContainerName name) w w'"
proof -
  assume run: "Start E name w = (Inr state, w')"
  show ?thesis
  proof (rule ready_later [OF run [unfolded Start_def]], goal_cases)
    case 1 show ?case by (intro effects)
  next
    case (2 stored w1)
    then show ?case
    proof (rule ready_later, goal_cases)
      case 1 show ?case by (intro effects)
    next
      case (2 x w2)
      obtain config changed where x: "x = (config, changed)" by fastforce
      from 2 [unfolded x prod.case] show ?case
      proof (rule ready_later, goal_cases)
        case 1 show ?case by (rule keep_recreate)
      next
        case (2 u w3)
        then show ?case by (rule ready_now) (intro effects observed; simp)
      qed
    qed
  qed
qed


end
