(* ===== verification/BackupProps.thy ===== *)
theory BackupProps
  imports TarPaths NodeProps
begin

text \<open>
  The guarantees of backup, restore and upgrade of a single server: what an accepted backup is, that nothing is done
  without one, that the server is started again, and in which order the data is replaced.
\<close>

section \<open>What is checked first changes nothing\<close>

lemma reads_dirInfo [readonly]: "reads (dirInfo E path)"
  unfolding dirInfo_def by (intro readonly reads_world)

lemma reads_openForRead: "reads (openForRead E path)"
  unfolding openForRead_def by (intro readonly reads_fileCall)

lemma reads_validateArchive: "reads (validateArchive E path digest)"
  unfolding validateArchive_def by (intro readonly reads_fileCall reads_openForRead)

lemma reads_validateBackup: "reads (validateBackup E name input)"
  unfolding validateBackup_def Let_def by (intro readonly reads_world reads_validateArchive)

lemma reads_backupOutput: "reads (backupOutput E output)"
  unfolding backupOutput_def by (intro readonly)

lemma reads_DefaultUpgradeBackupPath: "reads (DefaultUpgradeBackupPath E name)"
  unfolding DefaultUpgradeBackupPath_def by (intro readonly reads_world)

section \<open>An accepted backup\<close>

lemma validateManifest_accepts:
  "validateManifest E name m0 = Inr m \<Longrightarrow> name \<noteq> [] \<Longrightarrow> bm_Cluster m = name \<and> cf_Name (bm_Config m) = name
     \<and> normalConfig (e_host E) (bm_Config m) \<and> bm_DataFile m = backupDataFile"
proof -
  assume m: "validateManifest E name m0 = Inr m" and name: "name \<noteq> []"
  from m obtain config where c: "normalizeConfig (e_host E) (bm_Config m0) = Inr config" "m = m0\<lparr>bm_Config := config\<rparr>"
    and same: "bm_Cluster m0 = name" "cf_Name (bm_Config m0) = name" "bm_DataFile m0 = backupDataFile"
    by (auto simp: validateManifest_def tryS_def wrapS_def split: if_splits sum.splits)
  have "cf_Name config = cf_Name (bm_Config m0)"
    using normalizeConfig_result [OF c(1)] name same(2) by (simp add: orDefault_def)
  then show ?thesis using c same normalizeConfig_accepts [OF c(1)] by simp
qed

text \<open>The archive a check has accepted.\<close>

definition exactArchive :: "'x env \<Rightarrow> string \<Rightarrow> document \<Rightarrow> bool" where
  "exactArchive E digest archive \<longleftrightarrow> equalFold (e_sha256 E archive) digest
     \<and> (case e_tarEntries E archive of Inl _ \<Rightarrow> False | Inr headers \<Rightarrow> list_all entryInside headers)"

lemma openForRead_content: "openForRead E path w = (Inr archive, w') \<Longrightarrow> contentAt path w = Some archive"
  unfolding openForRead_def
  by (elim tryA_reads_cases [OF _ reads_fileCall] tryA_reads_cases [OF _ reads_silent(4)])
    (auto simp: contentAt_def getA_def split: option.splits)

lemma validateArchive_accepts:
  assumes "validateArchive E path digest w = (Inr (), w')"
  shows "\<exists>archive. contentAt path w = Some archive \<and> exactArchive E digest archive"
proof -
  from assms obtain archive where o: "openForRead E path w = (Inr archive, w)"
    and rest: "tryA (fileCall E ''read'' path ''checksum backup data archive'') (\<lambda>_.
       if \<not> equalFold (e_sha256 E archive) digest then errA (Msg ''backup checksum mismatch'')
       else tryA (fileCall E ''seek'' path ''rewind backup data archive'') (\<lambda>_.
         tryWrapA ''validate backup tar stream'' (liftA (e_tarEntries E archive)) (\<lambda>headers.
         tryA (liftA (validateTarEntries headers)) (\<lambda>_. fileCall E ''close'' path ''close backup data archive'')))) w = (Inr (), w')"
    unfolding validateArchive_def by (rule tryA_reads_cases [OF _ reads_openForRead]) simp_all
  from rest have "exactArchive E digest archive"
    by (auto simp: exactArchive_def tryA_apply tryWrapA_def wrapA_apply errA_def liftA_def validateTarEntries_inside [THEN iffD1] split: if_splits sum.splits prod.splits)
  with openForRead_content [OF o] show ?thesis by blast
qed

lemma if_errA_Inr: "(if b then errA e else m) w = (Inr x, w') \<longleftrightarrow> \<not> b \<and> m w = (Inr x, w')"
  by (simp add: errA_def)

lemma liftA_Inr: "liftA r w = (Inr x, w') \<longleftrightarrow> r = Inr x \<and> w' = w"
  by (auto simp: liftA_def)

lemma retA_Inr: "retA y w = (Inr x, w') \<longleftrightarrow> y = x \<and> w' = w"
  by (auto simp: retA_def)

lemma validateBackup_steps:
  assumes "validateBackup E name input w = (Inr (m, path), w')"
  obtains m0 w1 where "dnsLabel name" "validateManifest E name m0 = Inr m" "validateArchive E path (bm_DataSHA256 m) w1 = (Inr (), w')" "w1 = w"
  using assms unfolding validateBackup_def Let_def
  apply (simp only: if_errA_Inr)
  apply (erule conjE)
  apply (erule tryWrapA_InrE)
  apply (erule tryWrapA_InrE)
  apply (simp only: if_errA_Inr)
  apply (erule conjE)+
  apply (erule tryWrapA_InrE)
  apply (erule tryWrapA_InrE)
  apply (erule tryA_InrE)
  apply (erule tryA_InrE)
  apply (drule reads_state [OF reads_dirInfo] reads_state [OF reads_world(4)])+
  apply (simp add: liftA_Inr retA_Inr)
  done

lemma validateBackup_accepts:
  assumes "validateBackup E name input w = (Inr (m, path), w')"
  shows "w' = w \<and> bm_Cluster m = name \<and> cf_Name (bm_Config m) = name \<and> normalConfig (e_host E) (bm_Config m)
    \<and> (\<exists>archive. contentAt path w = Some archive \<and> exactArchive E (bm_DataSHA256 m) archive)"
  using assms
proof (rule validateBackup_steps)
  fix m0 w1
  assume s: "dnsLabel name" "validateManifest E name m0 = Inr m" "validateArchive E path (bm_DataSHA256 m) w1 = (Inr (), w')" "w1 = w"
  then have "w' = w" using reads_state [OF reads_validateArchive] by blast
  with s show ?thesis
    using validateManifest_accepts [OF s(2) dnsLabel_nonempty [OF s(1)]] validateArchive_accepts [OF s(3)] by simp
qed

section \<open>Effects\<close>

definition noVolumeDeleted :: "event \<Rightarrow> bool" where
  "noVolumeDeleted e \<longleftrightarrow> \<not> cmdIs [''volume'', ''delete''] e"

lemma noVolumeDeleted_simps [simp]:
  "noVolumeDeleted (Wrote p d)" "noVolumeDeleted (Removed p)" "noVolumeDeleted (Renamed p q)"
  "a \<noteq> ''volume'' \<Longrightarrow> noVolumeDeleted (Cmd b (a # args))"
  by (simp_all add: noVolumeDeleted_def cmdIs_def isCmd_def cmdArgs_def)

lemma keeps_noVolumeDeleted: "keeping_data m \<Longrightarrow> emits noVolumeDeleted m"
proof (erule emits_mono)
  fix e assume "keepsVolumes e"
  then show "noVolumeDeleted e"
    by (cases e) (auto simp: keepsVolumes_def noVolumeDeleted_def cmdIs_def isCmd_def cmdArgs_def readsOnlyArgs_def take_Suc
        split: list.splits nat.splits)
qed

lemma observes_noVolumeDeleted: "emits observes m \<Longrightarrow> emits noVolumeDeleted m"
  by (rule keeps_noVolumeDeleted) (rule observers_keep)

lemmas unharmed = node_observers [THEN observes_noVolumeDeleted]

lemma emits_renameTree: "P (Renamed a b) \<Longrightarrow> emits P (renameTree E a b)"
  unfolding renameTree_def by (intro effects emitsI) (simp_all add: recorded_def updA_def)

lemma safe_helper: "emits noVolumeDeleted (startBackupHelper E name)" "emits noVolumeDeleted (removeBackupHelper E name)"
  unfolding startBackupHelper_def removeBackupHelper_def deleteOwnedContainer_def backupHelperArguments_def append_Cons append_Nil
  by (intro effects unharmed; simp)+

lemma kept_noVolumeDeleted:
  "emits noVolumeDeleted (Create E config)" "emits noVolumeDeleted (Start E name)" "emits noVolumeDeleted (Stop E name)"
  "emits noVolumeDeleted (DeleteServer E name True)" "emits noVolumeDeleted (ensureVolume E v name role)"
  by (intro keeps_noVolumeDeleted keep_Create keep_Start keep_Stop keep_DeleteServer keep_ensureVolume)+

lemma safe_copyBackup: "emits noVolumeDeleted (copyBackup E name config output)"
  unfolding copyBackup_def packBackup_def streamArchive_def backupDirectory_def Let_def
  by (intro effects unharmed safe_helper emits_deferJoin emits_removeTree emits_placeStaged emits_renameTree) simp_all

lemma safe_BackupServer: "emits noVolumeDeleted (BackupServer E name output)"
  unfolding BackupServer_def quiesce_def restartAfterBackup_def
  by (intro effects unharmed kept_noVolumeDeleted emits_deferJoin safe_copyBackup emits_reads reads_backupOutput)

lemma emits_failWithCleanup: "emits P cleanup \<Longrightarrow> emits P (failWithCleanup cleanup errs)"
  unfolding failWithCleanup_def by (intro effects)

lemma emits_feed: "emits P (updA (\<lambda>w. w\<lparr>w_ext := g w\<rparr>))"
  by (rule emits_silent) (simp add: updA_def)

lemma safe_replaceData: "emits noVolumeDeleted (replaceData E name path)"
  unfolding replaceData_def clearDataArguments_def extractArguments_def Let_def
  by (intro effects safe_helper emits_failWithCleanup emits_feed emits_reads reads_openForRead) simp_all

lemma safe_RestoreServer: "emits noVolumeDeleted (RestoreServer E name input)"
  unfolding RestoreServer_def quiesce_def
  by (intro effects unharmed kept_noVolumeDeleted safe_helper safe_replaceData emits_reads reads_validateBackup) simp_all

lemma safe_UpgradeServer: "emits noVolumeDeleted (UpgradeServer E name newImage path)"
  unfolding UpgradeServer_def upgradeWith_def Let_def
  by (intro effects unharmed kept_noVolumeDeleted safe_BackupServer safe_RestoreServer emits_reads reads_DefaultUpgradeBackupPath)

section \<open>The order of a restore\<close>

definition wroteFile :: "event \<Rightarrow> bool" where
  "wroteFile e = (case e of Wrote _ _ \<Rightarrow> True | _ \<Rightarrow> False)"

lemma wroteFile_Cmd [simp]: "\<not> wroteFile (Cmd b args)"
  by (simp add: wroteFile_def)

text \<open>\<open>always P m\<close>: every run of \<open>m\<close>, failed or not, has a \<open>P\<close> effect.\<close>

definition always :: "(event \<Rightarrow> bool) \<Rightarrow> ('x, 'a) op \<Rightarrow> bool" where
  "always P m \<longleftrightarrow> (\<forall>w. \<exists>es. w_trace (snd (m w)) = w_trace w @ es \<and> list_ex P es)"

lemma always_runNode: "P (Cmd None args) \<Longrightarrow> always P (runNode E msg args)"
  unfolding always_def runNode_def runCmd_def
  by (auto simp: tryA_apply emitEvent_def queryCmd_def split: prod.split option.split)

lemma ensures_catchA_always:
  assumes m: "always P m" and h: "\<And>r. emits (\<lambda>_. True) (h r)"
  shows "ensures P (catchA m h)"
proof (rule ensuresI)
  fix w r w' assume run: "catchA m h w = (r, w')"
  obtain r1 w1 where m1: "m w = (r1, w1)" by (cases "m w")
  obtain es where es: "w_trace w1 = w_trace w @ es" "list_ex P es" using m m1 unfolding always_def by (metis snd_conv)
  obtain fs where "w_trace w' = w_trace w1 @ fs"
    using emitsE [OF h, of r1 w1] run m1 by (auto simp: catchA_apply)
  with es show "\<exists>es. w_trace w' = w_trace w @ es \<and> (isOk r \<longrightarrow> list_ex P es)" by (intro exI [of _ "es @ fs"]) simp
qed

lemma guarded_always:
  assumes m: "always P m" "emits (\<lambda>e. \<not> Q e) m" and h: "\<And>r. emits (\<lambda>_. True) (h r)"
  shows "guarded P Q (catchA m h)"
proof (rule guardedI)
  fix w
  obtain r1 w1 where m1: "m w = (r1, w1)" by (cases "m w")
  obtain es where es: "w_trace w1 = w_trace w @ es" "list_ex P es" using m(1) m1 unfolding always_def by (metis snd_conv)
  then have "list_all (\<lambda>e. \<not> Q e) es" using m(2) m1 unfolding emits_def by (metis same_append_eq snd_conv)
  then have "precedes P Q es" by (rule precedes_none)
  moreover obtain fs where "w_trace (snd (h r1 w1)) = w_trace w1 @ fs" using emitsE [OF h, of r1 w1] by auto
  ultimately show "\<exists>es. w_trace (snd (catchA m h w)) = w_trace w @ es \<and> precedes P Q es"
    using es by (intro exI [of _ "es @ fs"]) (simp add: catchA_apply m1 precedes_append_found)
qed

lemma ensures_catchA:
  assumes m: "emits (\<lambda>_. True) m" and h: "\<And>r. ensures P (h r)"
  shows "ensures P (catchA m h)"
proof (rule ensuresI)
  fix w r w' assume run: "catchA m h w = (r, w')"
  obtain r1 w1 where m1: "m w = (r1, w1)" by (cases "m w")
  obtain es where es: "w_trace w1 = w_trace w @ es" using emitsE [OF m, of w] m1 by auto
  have "h r1 w1 = (r, w')" using run m1 by (simp add: catchA_apply)
  from ensuresE [OF h this] obtain fs where "w_trace w' = w_trace w1 @ fs" "isOk r \<Longrightarrow> list_ex P fs" by blast
  with es show "\<exists>es. w_trace w' = w_trace w @ es \<and> (isOk r \<longrightarrow> list_ex P es)" by (intro exI [of _ "es @ fs"]) auto
qed

lemma ensures_failing: "emits (\<lambda>_. True) m \<Longrightarrow> (\<And>w. \<not> isOk (fst (m w))) \<Longrightarrow> ensures P m"
  unfolding ensures_def emits_def by blast

lemma ensures_failWithCleanup: "emits (\<lambda>_. True) cleanup \<Longrightarrow> ensures P (failWithCleanup cleanup errs)"
  unfolding failWithCleanup_def by (intro ensures_catchA) (auto split: option.split simp: ensures_errA)

lemma free_helper: "emits (\<lambda>_. True) (startBackupHelper E name)" "emits (\<lambda>_. True) (removeBackupHelper E name)"
  by (rule emits_mono [OF safe_helper(1)] emits_mono [OF safe_helper(2)], simp)+

lemma free_replace: "emits (\<lambda>_. True) (replaceData E name path)"
  by (rule emits_mono [OF safe_replaceData]) simp

abbreviation extracted :: "string \<Rightarrow> event \<Rightarrow> bool" where
  "extracted name e \<equiv> e = Cmd None (extractArguments name)"

abbreviation cleared :: "string \<Rightarrow> event \<Rightarrow> bool" where
  "cleared name e \<equiv> e = Cmd None (clearDataArguments name)"

lemma ensures_extracted: "ensures (extracted name) (replaceData E name path)"
proof -
  let ?cleanup = "removeBackupHelper E name"
  have free: "emits (\<lambda>_. True) ?cleanup" by (rule free_helper)
  show ?thesis
    unfolding replaceData_def Let_def
  proof (rule ensures_catchA, goal_cases)
    case 1 show ?case by (intro effects TrueI)
  next
    case (2 r)
    have "ensures (extracted name) (tryA (updA (\<lambda>w. w\<lparr>w_ext := e_feed E (w_ext w) archive\<rparr>)) (\<lambda>_.
           catchA (runNode E ''restore APC server data'' (extractArguments name)) (\<lambda>extracted.
           catchA (fileCall E ''close'' path ''close backup data archive'') (\<lambda>closed.
           case extracted of
             Inl e \<Rightarrow> failWithCleanup ?cleanup [Some e, errOf closed]
           | Inr _ \<Rightarrow> (case closed of Inl e \<Rightarrow> failWithCleanup ?cleanup [Some e] | Inr _ \<Rightarrow> ?cleanup)))))" for archive
      by (intro ensures_tryA_second ensures_catchA_always always_runNode emits_feed refl effects emits_failWithCleanup free)
    then show ?case
      by (cases r) (auto intro!: ensures_catchA ensures_failWithCleanup free emits_reads reads_openForRead split: sum.split)
  qed
qed

lemma extract_not_clear: "clearDataArguments name \<noteq> extractArguments name"
  by (simp add: clearDataArguments_def extractArguments_def BackupContainerName_def)

lemma guarded_replace: "guarded (cleared name) (extracted name) (replaceData E name path)"
  unfolding replaceData_def Let_def
  by (intro guarded_always always_runNode refl effects free_helper emits_failWithCleanup emits_feed emits_reads reads_openForRead)
    (simp_all add: extract_not_clear)

lemma ensures_helper: "ensures (\<lambda>e. e = Cmd None (backupHelperArguments name)) (startBackupHelper E name)"
proof -
  have "ensures (\<lambda>e. e = Cmd None (backupHelperArguments name)) (runNode E msg (backupHelperArguments name))" for msg
    using always_runNode [of "\<lambda>e. e = Cmd None (backupHelperArguments name)" "backupHelperArguments name" E msg]
    unfolding always_def ensures_def by blast
  then show ?thesis
    unfolding startBackupHelper_def
    by (intro ensures_catchA emits_mono [OF observes_inspects(1)])
      (auto simp: ensures_errA intro!: ensures_tryA_second effects split: sum.split)
qed

text \<open>The commands before the helper runs: nothing is cleared, extracted or written.\<close>

definition staysOut :: "event \<Rightarrow> bool" where
  "staysOut e \<longleftrightarrow> isCmd e \<and> cmdArgs e \<noteq> [] \<and> (readsOnlyArgs (cmdArgs e) \<or> hd (cmdArgs e) \<in> {''stop'', ''volume'', ''run''})"

lemma staysOut_not: "staysOut e \<Longrightarrow> \<not> wroteFile e \<and> \<not> cleared name e \<and> \<not> extracted name e"
  by (auto simp: staysOut_def wroteFile_def isCmd_def cmdArgs_def clearDataArguments_def extractArguments_def readsOnlyArgs_def
      BackupContainerName_def split: event.splits)

lemma observes_staysOut: "emits observes m \<Longrightarrow> emits staysOut m"
  by (erule emits_mono) (auto simp: observes_def staysOut_def readsOnlyArgs_def split: list.splits)

lemmas staying = node_observers [THEN observes_staysOut]

lemma out_steps:
  "emits staysOut (quiesce E name)" "emits staysOut (ensureVolume E v name role)" "emits staysOut (startBackupHelper E name)"
  unfolding quiesce_def Stop_def ensureVolume_def startBackupHelper_def backupHelperArguments_def append_Cons append_Nil
  by (intro effects staying; simp add: staysOut_def isCmd_def cmdArgs_def)+

lemma guarded_out: "emits staysOut m \<Longrightarrow> (\<And>e. staysOut e \<Longrightarrow> \<not> Q e) \<Longrightarrow> guarded P Q m"
  by (rule guarded_emits) (erule emits_mono)

lemma free_rest: "emits (\<lambda>_. True) (tryA (replaceData E name path) (\<lambda>_. tryA (saveClusterConfig E config) (\<lambda>_. Start E name)))"
  by (intro effects free_replace emits_mono [OF keep_Start] TrueI)

lemma restore_steps:
  assumes Q: "\<And>e. staysOut e \<Longrightarrow> \<not> Q e"
    and rest: "\<And>path config. guarded P Q (tryA (startBackupHelper E name) (\<lambda>_. tryA (replaceData E name path) (\<lambda>_.
      tryA (saveClusterConfig E config) (\<lambda>_. Start E name))))"
  shows "guarded P Q (RestoreServer E name input)"
  unfolding RestoreServer_def
  by (intro ordering guarded_emits [OF emits_reads] reads_validateBackup guarded_out [OF _ Q] out_steps rest)

lemma observes_unwritten: "emits observes m \<Longrightarrow> emits (\<lambda>e. \<not> wroteFile e) m"
  by (erule observing) simp

lemma unwritten_replace: "emits (\<lambda>e. \<not> wroteFile e) (replaceData E name path)"
  unfolding replaceData_def removeBackupHelper_def deleteOwnedContainer_def Let_def
  by (intro effects node_observers [THEN observes_unwritten] emits_failWithCleanup emits_feed emits_reads reads_openForRead) simp_all

lemma keepsVolumes_not_extracted: "keepsVolumes e \<Longrightarrow> \<not> extracted name e"
  by (auto simp: keepsVolumes_def extractArguments_def readsOnlyArgs_def BackupContainerName_def)

text \<open>
  A restore replaces the data in order: the helper has been started before the old data is cleared, the data is cleared
  before the archive is extracted, and no configuration is written before the extraction.
\<close>

lemma restore_in_order:
  "let T = w_trace (snd (RestoreServer E name input (w\<lparr>w_trace := []\<rparr>))) in
   precedes (\<lambda>e. e = Cmd None (backupHelperArguments name)) (cleared name) T
   \<and> precedes (cleared name) (extracted name) T \<and> precedes (extracted name) wroteFile T"
  unfolding Let_def
proof (intro conjI guarded_run restore_steps)
  fix path config
  let ?start = "tryA (saveClusterConfig E config) (\<lambda>_. Start E name)"
  let ?rest = "tryA (replaceData E name path) (\<lambda>_. ?start)"
  show "guarded (\<lambda>e. e = Cmd None (backupHelperArguments name)) (cleared name) (tryA (startBackupHelper E name) (\<lambda>_. ?rest))"
    by (intro guarded_after emits_mono [OF out_steps(3)] ensures_helper free_rest) (simp add: staysOut_not)
  have "emits (\<lambda>e. \<not> extracted name e) ?start"
    by (rule emits_mono [of keepsVolumes], intro effects keep_Start) (simp_all add: keepsVolumes_not_extracted)
  then have clear: "guarded (cleared name) (extracted name) ?rest"
    by (intro guarded_tryA guarded_replace guarded_emits)
  show "guarded (cleared name) (extracted name) (tryA (startBackupHelper E name) (\<lambda>_. ?rest))"
    by (rule guarded_tryA [OF guarded_out [OF out_steps(3)] clear]) (simp add: staysOut_not)
  have written: "guarded (extracted name) wroteFile ?rest"
    by (intro guarded_after unwritten_replace ensures_extracted effects emits_mono [OF keep_Start] TrueI)
  show "guarded (extracted name) wroteFile (tryA (startBackupHelper E name) (\<lambda>_. ?rest))"
    by (rule guarded_tryA [OF guarded_out [OF out_steps(3)] written]) (simp add: staysOut_not)
qed (simp_all add: staysOut_not)

section \<open>A backup leaves the server as it was\<close>

lemma deferJoin_run:
  "deferJoin cleanup m w = (r, w') \<Longrightarrow> w' = snd (cleanup (snd (m w))) \<and> (isOk r \<longrightarrow> isOk (fst (cleanup (snd (m w)))))"
  by (auto simp: deferJoin_def catchA_apply liftA_def joinClose_def errOf_def split: prod.splits sum.splits option.splits)

lemma BackupServer_outcome:
  assumes q: "quiesce E name w = (Inr True, w1)"
  shows "snd (BackupServer E name destination w) = w
   \<or> (\<exists>config out. BackupServer E name destination w = deferJoin (restartAfterBackup E name) (copyBackup E name config out) w1)"
proof -
  let ?body = "\<lambda>config out. tryA (quiesce E name) (\<lambda>wasRunning.
        if wasRunning then deferJoin (restartAfterBackup E name) (copyBackup E name config out) else copyBackup E name config out)"
  have body: "?body config out w = deferJoin (restartAfterBackup E name) (copyBackup E name config out) w1" for config out
    using q by (simp add: tryA_apply)
  show ?thesis
    unfolding BackupServer_def
    by (auto simp: tryA_reads [OF reads_loadClusterConfig] tryA_reads [OF reads_backupOutput] body errA_def split: sum.split)
qed

text \<open>The run ends with a start of the server, and is a success only if that start is one.\<close>

definition restartedAfter :: "'x env \<Rightarrow> string \<Rightarrow> 'x world \<Rightarrow> (gerror + BackupResult) \<times> 'x world \<Rightarrow> bool" where
  "restartedAfter E name w1 run \<longleftrightarrow> (\<exists>config out. let restart = restartAfterBackup E name (snd (copyBackup E name config out w1)) in
     snd run = snd restart \<and> (if isOk (fst run) then isOk (fst restart) else True))"

text \<open>
  When a backup has stopped the server, the server is started again however the copy ended, and the backup succeeds
  only if that start succeeded.
\<close>

lemma backup_restarts_server:
  "case quiesce E name w of
     (Inr True, w1) \<Rightarrow> snd (BackupServer E name destination w) = w \<or> restartedAfter E name w1 (BackupServer E name destination w)
   | _ \<Rightarrow> True"
proof -
  have "snd (BackupServer E name destination w) = w \<or> restartedAfter E name w1 (BackupServer E name destination w)"
    if q: "quiesce E name w = (Inr True, w1)" for w1
    using BackupServer_outcome [OF q, where destination = destination]
      deferJoin_run [OF prod.collapse [symmetric], of "restartAfterBackup E name" "copyBackup E name _ _" w1]
    unfolding restartedAfter_def Let_def by (auto split: if_splits) metis+
  then show ?thesis by (auto split: sum.split prod.split bool.split)
qed

section \<open>Properties\<close>

text \<open>
  Nothing at all is done with a backup that is not exact: a restore from it fails with the error of the check and the
  world as it was.  An accepted backup is one of this cluster with a well-formed configuration, its archive has the digest
  of the manifest, and every entry of the archive stays inside.
\<close>

lemma restore_needs_exact_backup:
  "case validateBackup E name input w of
     (Inl e, _) \<Rightarrow> RestoreServer E name input w = (Inl e, w)
   | (Inr (m, path), w') \<Rightarrow> w' = w \<and> bm_Cluster m = name \<and> cf_Name (bm_Config m) = name \<and> normalConfig (e_host E) (bm_Config m)
       \<and> (\<exists>archive. contentAt path w = Some archive \<and> exactArchive E (bm_DataSHA256 m) archive)"
proof (cases "validateBackup E name input w")
  case (Pair r w')
  show ?thesis
  proof (cases r)
    case (Inl e)
    then have "w' = w" using Pair reads_state [OF reads_validateBackup] by blast
    then show ?thesis using Pair Inl by (simp add: RestoreServer_def tryA_apply)
  next
    case (Inr x)
    then show ?thesis using Pair by (cases x) (simp add: validateBackup_accepts)
  qed
qed

lemma upgradeWith_changed: "upgradeWith E name config result backup w = (Inr r, w') \<Longrightarrow> ur_Changed r"
  unfolding upgradeWith_def
  by (elim tryWrapA_InrE) (auto simp: catchA_apply errA_def retA_def split: sum.splits prod.splits)

definition unchanged :: "string \<Rightarrow> State \<Rightarrow> UpgradeResult" where
  "unchanged newImage state = \<lparr>ur_State = Some state, ur_BackupPath = [], ur_FromImage = newImage, ur_ToImage = newImage, ur_Changed = False\<rparr>"

lemma UpgradeServer_cases:
  "(\<exists>e. UpgradeServer E name newImage path w = (Inl e, w))
   \<or> UpgradeServer E name newImage path w = tryA (StatusNode E name) (\<lambda>state. retA (unchanged newImage state)) w
   \<or> (\<exists>destination config result. UpgradeServer E name newImage path w
        = tryWrapA ''create pre-upgrade backup'' (BackupServer E name destination) (upgradeWith E name config result) w)"
proof -
  let ?path = "if path = [] then DefaultUpgradeBackupPath E name else retA path"
  have path: "reads ?path" by (intro readonly reads_DefaultUpgradeBackupPath)
  show ?thesis
    unfolding UpgradeServer_def Let_def
    by (cases "fst (loadClusterConfig E name w)"; cases "fst (?path w)")
      (auto simp: tryA_reads [OF reads_loadClusterConfig] tryA_reads [OF path] errA_def unchanged_def simp del: retA_apply)
qed

text \<open>
  An upgrade stands on its backup: when the backup fails the upgrade does nothing more and is an error, and an upgrade
  that reports a change has a backup.
\<close>

lemma upgrade_needs_backup:
  "\<exists>destination. let run = UpgradeServer E name newImage path w; backup = BackupServer E name destination w in
     (case fst run of Inl _ \<Rightarrow> True | Inr result \<Rightarrow> (if ur_Changed result then isOk (fst backup) else snd run = snd (StatusNode E name w)))
     \<and> (if isOk (fst backup) then True else snd run \<in> {w, snd (StatusNode E name w), snd backup})"
proof -
  consider (refused) e where "UpgradeServer E name newImage path w = (Inl e, w)"
    | (same) "UpgradeServer E name newImage path w = tryA (StatusNode E name) (\<lambda>state. retA (unchanged newImage state)) w"
    | (upgrade) destination config result where "UpgradeServer E name newImage path w
        = tryWrapA ''create pre-upgrade backup'' (BackupServer E name destination) (upgradeWith E name config result) w"
    using UpgradeServer_cases [of E name newImage path w] by blast
  then show ?thesis
  proof cases
    case same
    then show ?thesis by (cases "StatusNode E name w") (auto simp: Let_def tryA_apply retA_def unchanged_def split: sum.split)
  next
    case upgrade
    obtain r w1 where b: "BackupServer E name destination w = (r, w1)" by fastforce
    show ?thesis
      by (intro exI [of _ destination], cases r; cases "upgradeWith E name config result (projr r) w1")
        (auto simp: upgrade b Let_def tryWrapA_def tryA_apply wrapA_apply upgradeWith_changed split: sum.split)
  qed (simp add: Let_def)
qed

text \<open>
  No backup, restore or upgrade ever deletes a volume, whether it succeeds, fails or rolls back.
\<close>

lemma volume_survives_upgrade:
  "list_all noVolumeDeleted (w_trace (snd (UpgradeServer E name newImage path (w\<lparr>w_trace := []\<rparr>))))
   \<and> list_all noVolumeDeleted (w_trace (snd (BackupServer E name destination (w\<lparr>w_trace := []\<rparr>))))
   \<and> list_all noVolumeDeleted (w_trace (snd (RestoreServer E name input (w\<lparr>w_trace := []\<rparr>))))"
  by (intro conjI emits_run safe_UpgradeServer safe_BackupServer safe_RestoreServer)


end
