(* ===== verification/SupervisorLog.thy ===== *)
theory SupervisorLog
  imports World
begin

text \<open>
  The bounded log of the unattended supervisor (\<open>supervisor_log.go\<close>): the exact path it may have, how it is opened
  through descriptors without following a link, the check of the access control lists, and the writes, which never let
  the file grow beyond its maximum.  The system calls are the parameters of \<open>logSystem\<close>, on an abstract state \<open>'x\<close>;
  a descriptor is a number (\<open>os.NewFile\<close> does not fail for one that was opened).
\<close>

section \<open>The system\<close>

datatype errno = ENOENT | EEXIST | EOTHER

definition errnoError :: "errno \<Rightarrow> gerror" where
  "errnoError e = (case e of ENOENT \<Rightarrow> ErrNotExist | EEXIST \<Rightarrow> Msg ''file exists'' | EOTHER \<Rightarrow> Msg ''system error'')"

record logStat =
  lt_regular :: bool
  lt_dir :: bool
  lt_symlink :: bool
  lt_perm :: int
  lt_uid :: int
  lt_gid :: int
  lt_size :: int
  lt_inode :: int

record 'x logSystem =
  ls_darwin :: bool
  ls_openDir :: "'x \<Rightarrow> string \<Rightarrow> (errno + int) \<times> 'x"
  ls_openDirAt :: "'x \<Rightarrow> int \<Rightarrow> string \<Rightarrow> (errno + int) \<times> 'x"
  ls_mkdirAt :: "'x \<Rightarrow> int \<Rightarrow> string \<Rightarrow> (errno + unit) \<times> 'x"
  ls_openFileAt :: "'x \<Rightarrow> int \<Rightarrow> string \<Rightarrow> bool \<Rightarrow> (errno + int) \<times> 'x"
  ls_statAt :: "'x \<Rightarrow> int \<Rightarrow> string \<Rightarrow> (errno + logStat) \<times> 'x"
  ls_fstat :: "'x \<Rightarrow> int \<Rightarrow> (gerror + logStat) \<times> 'x"
  ls_lstat :: "'x \<Rightarrow> string \<Rightarrow> (gerror + logStat) \<times> 'x"
  ls_clearACL :: "'x \<Rightarrow> int \<Rightarrow> (gerror + unit) \<times> 'x"
  ls_listACL :: "'x \<Rightarrow> string \<Rightarrow> (gerror + string) \<times> 'x"
  ls_chmod :: "'x \<Rightarrow> int \<Rightarrow> int \<Rightarrow> (gerror + unit) \<times> 'x"
  ls_sync :: "'x \<Rightarrow> int \<Rightarrow> (gerror + unit) \<times> 'x"
  ls_close :: "'x \<Rightarrow> int \<Rightarrow> (gerror + unit) \<times> 'x"
  ls_truncate :: "'x \<Rightarrow> int \<Rightarrow> (gerror + unit) \<times> 'x"
  ls_rewind :: "'x \<Rightarrow> int \<Rightarrow> (gerror + unit) \<times> 'x"
  ls_write :: "'x \<Rightarrow> int \<Rightarrow> string \<Rightarrow> (nat \<times> gerror option) \<times> 'x"

record supervisorLogRuntime =
  lr_home :: string
  lr_uid :: int
  lr_gid :: int
  lr_maximum :: int
  lr_ownership :: "string \<Rightarrow> logStat \<Rightarrow> gerror + int \<times> int"

definition SupervisorLogMaxBytes :: int where "SupervisorLogMaxBytes = 1048576"

definition supervisorLogDirectoryMode :: int where "supervisorLogDirectoryMode = 448"

definition supervisorLogFileMode :: int where "supervisorLogFileMode = 384"

definition supervisorLogFileOwnership :: "string \<Rightarrow> logStat \<Rightarrow> gerror + int \<times> int" where
  "supervisorLogFileOwnership path info = Inr (lt_uid info, lt_gid info)"

text \<open>A failed call whose error is \<open>wrapped\<close>; a clean-up whose error is ignored.\<close>

definition sysA :: "string \<Rightarrow> ('x \<Rightarrow> (gerror + 'a) \<times> 'x) \<Rightarrow> ('x, 'a) act" where
  "sysA msg call = wrapA msg call"

definition failAfter :: "('x, unit) act list \<Rightarrow> gerror \<Rightarrow> ('x, 'a) act" where
  "failAfter closes e = foldr (\<lambda>c rest. catchA c (\<lambda>_. rest)) closes (errA e)"

text \<open>\<open>m\<close>, and when it fails the clean-up before its error is returned.\<close>

definition orClose :: "('x, unit) act list \<Rightarrow> ('x, 'a) act \<Rightarrow> ('a \<Rightarrow> ('x, 'b) act) \<Rightarrow> ('x, 'b) act" where
  "orClose closes m f = catchA m (\<lambda>r. case r of Inl e \<Rightarrow> failAfter closes e | Inr x \<Rightarrow> f x)"

section \<open>Access control lists\<close>

text \<open>A line of \<open>ls -lde\<close> after the first: a numbered entry that denies and does not allow.\<close>

definition aclEntryOk :: "string \<Rightarrow> gerror + unit" where
  "aclEntryOk rawLine = (let line = trimSpace rawLine in
     if line = [] then Inr ()
     else (case cutAt CHR '':'' line of (entry, _, found) \<Rightarrow>
       if \<not> found then Inl (Msg ''ls returned a malformed ACL entry'')
       else if atoi entry = None then Inl (Msg ''ls returned a malformed ACL index'')
       else if containsStr line '' allow '' then Inl (Msg ''allow grant is forbidden'')
       else if containsStr line '' deny '' then Inr ()
       else Inl (Msg ''ls returned an unknown ACL entry'')))"

fun aclEntriesOk :: "string list \<Rightarrow> gerror + unit" where
  "aclEntriesOk [] = Inr ()"
| "aclEntriesOk (line # rest) = tryS (aclEntryOk line) (\<lambda>_. aclEntriesOk rest)"

definition rejectSupervisorACLGrants :: "string \<Rightarrow> gerror + unit" where
  "rejectSupervisorACLGrants listing = (let lines = splitOn CHR 0x0A listing in
     if GoStrings.fields (hd lines) = [] then Inl (Msg ''ls returned malformed output'') else aclEntriesOk (tl lines))"

definition sameLogFile :: "logStat \<Rightarrow> logStat \<Rightarrow> bool" where
  "sameLogFile a b \<longleftrightarrow> lt_inode a = lt_inode b"

definition validateSupervisorNoACLGrants :: "'x logSystem \<Rightarrow> int \<Rightarrow> string \<Rightarrow> ('x, unit) act" where
  "validateSupervisorNoACLGrants S file path =
     (if \<not> ls_darwin S then retA ()
      else tryA (sysA ''inspect supervisor ACL target'' (\<lambda>x. ls_fstat S x file)) (\<lambda>before.
        tryA (sysA ''inspect supervisor extended ACL'' (\<lambda>x. ls_listACL S x path)) (\<lambda>listing.
        tryA (sysA ''reinspect supervisor ACL target'' (\<lambda>x. ls_lstat S x path)) (\<lambda>after.
        if lt_symlink after \<or> \<not> sameLogFile before after
        then errA (Msg ''supervisor ACL target changed during inspection'')
        else wrapA ''supervisor log path has an unsafe extended ACL'' (liftA (rejectSupervisorACLGrants listing))))))"

definition removeSupervisorExtendedACL :: "'x logSystem \<Rightarrow> int \<Rightarrow> ('x, unit) act" where
  "removeSupervisorExtendedACL S file =
     (if \<not> ls_darwin S then retA () else sysA ''remove supervisor extended ACL'' (\<lambda>x. ls_clearACL S x file))"

section \<open>Checks of an open file\<close>

definition ownedByAccount :: "supervisorLogRuntime \<Rightarrow> string \<Rightarrow> string \<Rightarrow> logStat \<Rightarrow> gerror + unit" where
  "ownedByAccount R what path info = tryS (wrapS (''inspect '' @ what @ '' ownership'') (lr_ownership R path info)) (\<lambda>(uid, gid).
     if uid \<noteq> lr_uid R \<or> gid \<noteq> lr_gid R then Inl (Msg (what @ '' must be owned by the effective account'')) else Inr ())"

text \<open>\<open>perm & 0o022 != 0\<close>: writable for the group or for others.\<close>

definition writableByOthers :: "int \<Rightarrow> bool" where
  "writableByOthers perm \<longleftrightarrow> (perm div 16) mod 2 = 1 \<or> (perm div 2) mod 2 = 1"

definition validateSupervisorDirectory :: "'x logSystem \<Rightarrow> supervisorLogRuntime \<Rightarrow> int \<Rightarrow> string \<Rightarrow> bool \<Rightarrow> ('x, unit) act" where
  "validateSupervisorDirectory S R file path exact =
     tryA (sysA ''inspect supervisor log directory'' (\<lambda>x. ls_fstat S x file)) (\<lambda>info.
     if \<not> lt_dir info \<or> writableByOthers (lt_perm info) \<or> (exact \<and> lt_perm info \<noteq> supervisorLogDirectoryMode)
     then errA (Msg ''supervisor log directories must be protected real directories'')
     else tryA (liftA (ownedByAccount R ''supervisor log directory'' path info)) (\<lambda>_.
       validateSupervisorNoACLGrants S file path))"

definition validateSupervisorFile :: "'x logSystem \<Rightarrow> supervisorLogRuntime \<Rightarrow> int \<Rightarrow> string \<Rightarrow> ('x, logStat) act" where
  "validateSupervisorFile S R file path =
     tryA (sysA ''inspect supervisor log file'' (\<lambda>x. ls_fstat S x file)) (\<lambda>info.
     if \<not> lt_regular info \<or> lt_perm info \<noteq> supervisorLogFileMode
     then errA (Msg ''supervisor log must be a regular file with mode 0600'')
     else tryA (liftA (ownedByAccount R ''supervisor log'' path info)) (\<lambda>_.
       tryA (validateSupervisorNoACLGrants S file path) (\<lambda>_. retA info)))"

definition requireSameSupervisorFile :: "'x logSystem \<Rightarrow> int \<Rightarrow> int \<Rightarrow> ('x, unit) act" where
  "requireSameSupervisorFile S expected actual =
     tryA (sysA ''inspect verified supervisor log'' (\<lambda>x. ls_fstat S x expected)) (\<lambda>want.
     tryA (sysA ''inspect reopened supervisor log'' (\<lambda>x. ls_fstat S x actual)) (\<lambda>got.
     if \<not> sameLogFile want got then errA (Msg ''supervisor log changed during verification'') else retA ()))"

section \<open>Opening\<close>

definition errnoA :: "string \<Rightarrow> ('x \<Rightarrow> (errno + 'a) \<times> 'x) \<Rightarrow> ('x, 'a) act" where
  "errnoA msg call = (\<lambda>x. case call x of (Inl e, x') \<Rightarrow> (Inl (Wrap msg (errnoError e)), x') | (Inr a, x') \<Rightarrow> (Inr a, x'))"

text \<open>A call whose error number is looked at.\<close>

definition errnoCase :: "('x \<Rightarrow> (errno + 'a) \<times> 'x) \<Rightarrow> (errno + 'a \<Rightarrow> ('x, 'b) act) \<Rightarrow> ('x, 'b) act" where
  "errnoCase call f = (\<lambda>x. case call x of (r, x') \<Rightarrow> f r x')"

definition openOrCreateSupervisorDirectoryAt :: "'x logSystem \<Rightarrow> int \<Rightarrow> string \<Rightarrow> ('x, int \<times> bool) act" where
  "openOrCreateSupervisorDirectoryAt S parent component =
     errnoCase (\<lambda>x. ls_openDirAt S x parent component) (\<lambda>r. case r of
       Inr directory \<Rightarrow> retA (directory, False)
     | Inl e \<Rightarrow> if e \<noteq> ENOENT then errA (Wrap ''open supervisor log directory'' (errnoError e))
       else errnoCase (\<lambda>x. ls_mkdirAt S x parent component) (\<lambda>m.
         if (case m of Inl me \<Rightarrow> me \<noteq> EEXIST | Inr _ \<Rightarrow> False) then errA (Msg ''create supervisor log directory'')
         else tryA (errnoA ''open created supervisor log directory'' (\<lambda>x. ls_openDirAt S x parent component)) (\<lambda>directory.
           retA (directory, m = Inr ()))))"

definition openOrCreateSupervisorFileAt :: "'x logSystem \<Rightarrow> supervisorLogRuntime \<Rightarrow> int \<Rightarrow> string \<Rightarrow> ('x, int \<times> bool) act" where
  "openOrCreateSupervisorFileAt S R parent component =
     errnoCase (\<lambda>x. ls_openFileAt S x parent component True) (\<lambda>r. case r of
       Inr file \<Rightarrow> retA (file, True)
     | Inl e \<Rightarrow> if e \<noteq> EEXIST then errA (Wrap ''open supervisor log file'' (errnoError e))
       else tryA (errnoA ''inspect existing supervisor log file'' (\<lambda>x. ls_statAt S x parent component)) (\<lambda>stat.
         if \<not> lt_regular stat \<or> lt_perm stat \<noteq> supervisorLogFileMode \<or> lt_uid stat \<noteq> lr_uid R \<or> lt_gid stat \<noteq> lr_gid R
         then errA (Msg ''existing supervisor log must be a mode-0600 regular file owned by the effective account'')
         else tryA (errnoA ''open supervisor log file'' (\<lambda>x. ls_openFileAt S x parent component False)) (\<lambda>file.
           retA (file, False))))"

definition closeFd :: "'x logSystem \<Rightarrow> int \<Rightarrow> ('x, unit) act" where
  "closeFd S file = (\<lambda>x. ls_close S x file)"

text \<open>A directory that was created is stripped of inherited access and made private before its check.\<close>

definition protectDirectory :: "'x logSystem \<Rightarrow> int \<Rightarrow> int \<Rightarrow> ('x, unit) act" where
  "protectDirectory S parent file =
     tryA (wrapA ''remove inherited supervisor log directory ACL'' (removeSupervisorExtendedACL S file)) (\<lambda>_.
     tryA (sysA ''protect supervisor log directory'' (\<lambda>x. ls_chmod S x file supervisorLogDirectoryMode)) (\<lambda>_.
     sysA ''sync supervisor log parent'' (\<lambda>x. ls_sync S x parent)))"

fun descend :: "'x logSystem \<Rightarrow> supervisorLogRuntime \<Rightarrow> int \<Rightarrow> string \<Rightarrow> string list \<Rightarrow> ('x, int) act" where
  "descend S R current currentPath [] = retA current"
| "descend S R current currentPath (component # rest) = (let nextPath = joinPath [currentPath, component] in
     orClose [closeFd S current] (openOrCreateSupervisorDirectoryAt S current component) (\<lambda>(file, created).
     orClose [closeFd S file, closeFd S current] (if created then protectDirectory S current file else retA ()) (\<lambda>_.
     orClose [closeFd S file, closeFd S current] (validateSupervisorDirectory S R file nextPath (rest = [])) (\<lambda>_.
     orClose [closeFd S file] (sysA ''close supervisor log ancestor'' (closeFd S current)) (\<lambda>_.
     descend S R file nextPath rest)))))"

definition logComponents :: "string list" where
  "logComponents = [''Library'', ''Logs'', ''APC'']"

text \<open>\<open>verifySupervisorLogPathStable\<close>: the path is walked again and must lead to the same directory and file.\<close>

fun rewalk :: "'x logSystem \<Rightarrow> int \<Rightarrow> string list \<Rightarrow> ('x, int) act" where
  "rewalk S current [] = retA current"
| "rewalk S current (component # rest) =
     orClose [closeFd S current] (errnoA ''supervisor log path changed during verification'' (\<lambda>x. ls_openDirAt S x current component)) (\<lambda>file.
     orClose [closeFd S file] (sysA ''close supervisor log ancestor'' (closeFd S current)) (\<lambda>_.
     rewalk S file rest))"

definition verifySupervisorLogPathStable :: "'x logSystem \<Rightarrow> string \<Rightarrow> string \<Rightarrow> int \<Rightarrow> int \<Rightarrow> ('x, unit) act" where
  "verifySupervisorLogPathStable S home base expectedDirectory expectedFile =
     tryA (errnoA ''reopen supervisor home'' (\<lambda>x. ls_openDir S x home)) (\<lambda>homeDirectory.
     tryA (rewalk S homeDirectory logComponents) (\<lambda>current.
     catchA (tryA (requireSameSupervisorFile S expectedDirectory current) (\<lambda>_.
       tryA (errnoA ''reopen supervisor log file'' (\<lambda>x. ls_openFileAt S x current base False)) (\<lambda>file.
       catchA (requireSameSupervisorFile S expectedFile file) (\<lambda>r. catchA (closeFd S file) (\<lambda>_. liftA r)))))
       (\<lambda>r. catchA (closeFd S current) (\<lambda>_. liftA r))))"

definition expectedLogPath :: "string \<Rightarrow> string \<Rightarrow> string \<Rightarrow> string" where
  "expectedLogPath home role name = joinPath [joinPath (home # logComponents), role @ ''-'' @ name @ ''-unattended.log'']"

text \<open>The checks before anything is opened: role, name, an exact home, the exact path, a usable context.\<close>

definition validateLogRequest :: "string \<Rightarrow> string \<Rightarrow> string \<Rightarrow> supervisorLogRuntime \<Rightarrow> gerror + unit" where
  "validateLogRequest path role name R =
     (let home = cleanPath (lr_home R) in
      if role \<noteq> ''server'' \<and> role \<noteq> ''agent'' \<and> role \<noteq> ''ha'' then Inl (Msg ''supervisor log role must be server, agent, or ha'')
      else if \<not> dnsLabel name then Inl (Msg ''supervisor log cluster name must be a lowercase DNS label'')
      else if \<not> isAbsPath home \<or> home = ''/'' \<or> home \<noteq> lr_home R \<or> containsAny home [CHR 0x0D, CHR 0x0A]
      then Inl (Msg ''supervisor home must be an exact absolute non-root path'')
      else if cleanPath path \<noteq> path \<or> path \<noteq> expectedLogPath home role name then Inl (Msg ''supervisor log path must be exact'')
      else if lr_uid R < 0 \<or> lr_gid R < 0 \<or> lr_maximum R \<le> 0 then Inl (Msg ''supervisor log security context is invalid'')
      else Inr ())"

record BoundedSupervisorLog =
  bl_file :: int
  bl_maximum :: int
  bl_size :: int
  bl_closed :: bool

definition resetLocked :: "'x logSystem \<Rightarrow> BoundedSupervisorLog \<Rightarrow> ('x, BoundedSupervisorLog) act" where
  "resetLocked S log =
     tryA (sysA ''truncate bounded supervisor log'' (\<lambda>x. ls_truncate S x (bl_file log))) (\<lambda>_.
     tryA (sysA ''rewind bounded supervisor log'' (\<lambda>x. ls_rewind S x (bl_file log))) (\<lambda>_.
     retA (log\<lparr>bl_size := 0\<rparr>)))"

text \<open>A new file is stripped of inherited access, made private and made durable.\<close>

definition protectFile :: "'x logSystem \<Rightarrow> int \<Rightarrow> int \<Rightarrow> ('x, unit) act" where
  "protectFile S directory file =
     tryA (wrapA ''remove inherited supervisor log file ACL'' (removeSupervisorExtendedACL S file)) (\<lambda>_.
     tryA (sysA ''protect supervisor log file'' (\<lambda>x. ls_chmod S x file supervisorLogFileMode)) (\<lambda>_.
     tryA (sysA ''sync new supervisor log file'' (\<lambda>x. ls_sync S x file)) (\<lambda>_.
     sysA ''sync supervisor log directory'' (\<lambda>x. ls_sync S x directory))))"

text \<open>The checks of the opened file; a failure closes file and directory and joins their errors.\<close>

definition verifyOpened :: "'x logSystem \<Rightarrow> supervisorLogRuntime \<Rightarrow> string \<Rightarrow> string \<Rightarrow> int \<Rightarrow> int \<Rightarrow> bool \<Rightarrow> ('x, logStat) act" where
  "verifyOpened S R home path directory file created =
     catchA (tryA (if created then protectFile S directory file else retA ()) (\<lambda>_.
       tryA (validateSupervisorFile S R file path) (\<lambda>info.
       tryA (verifySupervisorLogPathStable S home (basePath path) directory file) (\<lambda>_.
       tryA (validateSupervisorNoACLGrants S directory (joinPath (home # logComponents))) (\<lambda>_.
       tryA (validateSupervisorNoACLGrants S file path) (\<lambda>_. retA info))))))
     (\<lambda>r. case r of
       Inr info \<Rightarrow> retA info
     | Inl e \<Rightarrow> catchA (closeFd S file) (\<lambda>cf. catchA (closeFd S directory) (\<lambda>cd.
         errA (case errorsJoin [Some e, errOf cf, errOf cd] of Some j \<Rightarrow> j | None \<Rightarrow> e))))"

definition openSupervisorLog :: "'x logSystem \<Rightarrow> string \<Rightarrow> string \<Rightarrow> string \<Rightarrow> supervisorLogRuntime \<Rightarrow> ('x, BoundedSupervisorLog) act" where
  "openSupervisorLog S path role name R =
     tryA (liftA (validateLogRequest path role name R)) (\<lambda>_.
     let home = lr_home R in
     tryA (errnoA ''open supervisor home'' (\<lambda>x. ls_openDir S x home)) (\<lambda>homeDirectory.
     orClose [closeFd S homeDirectory] (validateSupervisorDirectory S R homeDirectory home False) (\<lambda>_.
     tryA (descend S R homeDirectory home logComponents) (\<lambda>logDirectory.
     orClose [closeFd S logDirectory] (openOrCreateSupervisorFileAt S R logDirectory (basePath path)) (\<lambda>(logFile, created).
     tryA (verifyOpened S R home path logDirectory logFile created) (\<lambda>info.
     orClose [closeFd S logFile] (sysA ''close verified supervisor log directory'' (closeFd S logDirectory)) (\<lambda>_.
     let sink = \<lparr>bl_file = logFile, bl_maximum = lr_maximum R, bl_size = lt_size info, bl_closed = False\<rparr> in
     if bl_maximum sink < bl_size sink then orClose [closeFd S logFile] (resetLocked S sink) retA else retA sink)))))))"

definition OpenSupervisorLog :: "'x logSystem \<Rightarrow> gerror + string \<Rightarrow> int \<Rightarrow> int \<Rightarrow> string \<Rightarrow> string \<Rightarrow> string
    \<Rightarrow> ('x, BoundedSupervisorLog) act" where
  "OpenSupervisorLog S userHome euid egid path role name =
     tryWrapA ''resolve supervisor home'' (liftA userHome) (\<lambda>home.
     openSupervisorLog S path role name \<lparr>lr_home = home, lr_uid = euid, lr_gid = egid, lr_maximum = SupervisorLogMaxBytes,
       lr_ownership = supervisorLogFileOwnership\<rparr>)"

section \<open>Writing\<close>

text \<open>
  The loop of \<open>Write\<close>: a call that writes nothing ends it, so what is left gets shorter.  By the contract of \<open>io.Writer\<close> a
  call writes at most what it was given.
\<close>

function writeLoop :: "'x logSystem \<Rightarrow> BoundedSupervisorLog \<Rightarrow> string \<Rightarrow> 'x \<Rightarrow> (gerror option \<times> BoundedSupervisorLog) \<times> 'x" where
  "writeLoop S log [] x = ((None, log), x)"
| "writeLoop S log (c # data) x = (case ls_write S x (bl_file log) (c # data) of ((n, err), x') \<Rightarrow>
     let count = min n (length (c # data)); log = log\<lparr>bl_size := bl_size log + int count\<rparr> in
     case err of
       Some e \<Rightarrow> ((Some (Wrap ''write bounded supervisor log'' e), log), x')
     | None \<Rightarrow> if count = 0 then ((Some (Msg ''short write''), log), x') else writeLoop S log (drop count (c # data)) x')"
  by pat_completeness auto

termination by (relation "measure (\<lambda>(S, log, data, x). length data)") auto

text \<open>The last bytes of an input that is too long; the file is emptied when the input does not fit behind what it holds.\<close>

definition kept :: "int \<Rightarrow> string \<Rightarrow> string" where
  "kept maximum input = (if maximum < int (length input) then drop (length input - nat maximum) input else input)"

definition makeRoom :: "'x logSystem \<Rightarrow> BoundedSupervisorLog \<Rightarrow> string \<Rightarrow> ('x, BoundedSupervisorLog) act" where
  "makeRoom S log input =
     (if bl_maximum log < int (length input) then resetLocked S log
      else if bl_maximum log < bl_size log + int (length input) then resetLocked S log else retA log)"

text \<open>\<open>Write\<close> gives the number of bytes of the input, or an error; the log is returned as the call leaves it.\<close>

definition writeLog :: "'x logSystem \<Rightarrow> BoundedSupervisorLog \<Rightarrow> string \<Rightarrow> 'x \<Rightarrow> ((gerror + int) \<times> BoundedSupervisorLog) \<times> 'x" where
  "writeLog S log input x =
     (if bl_closed log then ((Inl (Msg ''file already closed''), log), x)
      else if input = [] then ((Inr 0, log), x)
      else (case ls_fstat S x (bl_file log) of
          (Inl e, x1) \<Rightarrow> ((Inl (Wrap ''inspect bounded supervisor log'' e), log), x1)
        | (Inr info, x1) \<Rightarrow> (let log = log\<lparr>bl_size := lt_size info\<rparr> in
            case makeRoom S log input x1 of
              (Inl e, x2) \<Rightarrow> ((Inl e, log), x2)
            | (Inr log, x2) \<Rightarrow> (case writeLoop S log (kept (bl_maximum log) input) x2 of
                  ((Some e, log), x3) \<Rightarrow> ((Inl e, log), x3)
                | ((None, log), x3) \<Rightarrow> ((Inr (int (length input)), log), x3)))))"

definition closeLog :: "'x logSystem \<Rightarrow> BoundedSupervisorLog \<Rightarrow> 'x \<Rightarrow> (gerror option \<times> BoundedSupervisorLog) \<times> 'x" where
  "closeLog S log x =
     (if bl_closed log then ((None, log), x)
      else (case ls_sync S x (bl_file log) of (rs, x1) \<Rightarrow> case closeFd S (bl_file log) x1 of (rc, x2) \<Rightarrow>
        ((map_option (Wrap ''close bounded supervisor log'') (errorsJoin [errOf rs, errOf rc]), log\<lparr>bl_closed := True\<rparr>), x2)))"

section \<open>The bound\<close>

text \<open>
  What the system calls do to the file behind a descriptor, opened for appending: \<open>content\<close> is what it holds.  A failed
  truncation leaves it as it was; a write appends the part it reports, failed or not.
\<close>

definition appendFile :: "'x logSystem \<Rightarrow> int \<Rightarrow> ('x \<Rightarrow> string) \<Rightarrow> bool" where
  "appendFile S file content \<longleftrightarrow>
     (\<forall>x. content (snd (ls_fstat S x file)) = content x
        \<and> (case fst (ls_fstat S x file) of Inl _ \<Rightarrow> True | Inr info \<Rightarrow> lt_size info = int (length (content x))))
     \<and> (\<forall>x. content (snd (ls_truncate S x file)) = (case fst (ls_truncate S x file) of Inl _ \<Rightarrow> content x | Inr _ \<Rightarrow> []))
     \<and> (\<forall>x. content (snd (ls_rewind S x file)) = content x)
     \<and> (\<forall>x data. content (snd (ls_write S x file data)) = content x @ take (fst (fst (ls_write S x file data))) data)"

lemma appendFile_write:
  "appendFile S file content \<Longrightarrow> ls_write S x file data = ((n, err), x') \<Longrightarrow> content x' = content x @ take n data"
  unfolding appendFile_def by (metis fst_conv snd_conv)

lemma appendFile_fstat:
  "appendFile S file content \<Longrightarrow> ls_fstat S x file = (r, x') \<Longrightarrow>
     content x' = content x \<and> (case r of Inl _ \<Rightarrow> True | Inr info \<Rightarrow> lt_size info = int (length (content x)))"
  unfolding appendFile_def by (metis fst_conv snd_conv)

lemma resetLocked_file: "resetLocked S log x = (Inr log', x') \<Longrightarrow> log' = log\<lparr>bl_size := 0\<rparr>"
  unfolding resetLocked_def by (elim tryA_InrE) (simp add: retA_def)

lemma resetLocked_content:
  assumes "appendFile S (bl_file log) content" "resetLocked S log x = (r, x')"
  shows "content x' = [] \<or> (content x' = content x \<and> \<not> isOk r)"
proof (cases "ls_truncate S x (bl_file log)")
  case (Pair t x1)
  have t: "content x1 = (case t of Inl _ \<Rightarrow> content x | Inr _ \<Rightarrow> [])"
    using assms(1) Pair unfolding appendFile_def by (metis fst_conv snd_conv)
  have r: "content (snd (ls_rewind S x1 (bl_file log))) = content x1" using assms(1) unfolding appendFile_def by blast
  show ?thesis
    using assms(2) Pair t r by (auto simp: resetLocked_def sysA_def tryA_apply wrapA_apply retA_def split: sum.splits prod.splits)
qed

lemma writeLoop_content:
  "appendFile S (bl_file log) content \<Longrightarrow> writeLoop S log data x = ((err, log'), x') \<Longrightarrow>
     \<exists>part rest. data = part @ rest \<and> content x' = content x @ part \<and> (err = None \<longrightarrow> rest = []) \<and> bl_maximum log' = bl_maximum log"
proof (induction S log data x rule: writeLoop.induct)
  case (1 S log x)
  then show ?case by simp
next
  case (2 S log c data x)
  obtain n e x1 where w: "ls_write S x (bl_file log) (c # data) = ((n, e), x1)" by (metis prod.collapse)
  let ?d = "c # data"
  let ?count = "min n (length ?d)"
  have content: "content x1 = content x @ take ?count ?d"
    using appendFile_write [OF "2.prems"(1) w] by (simp add: min_def take_all)
  show ?case
  proof (cases "e = None \<and> ?count \<noteq> 0")
    case False
    then have "content x' = content x1 \<and> err \<noteq> None \<and> bl_maximum log' = bl_maximum log"
      using "2.prems"(2) w by (auto simp: Let_def split: option.splits if_splits)
    then show ?thesis using content by - (rule exI [of _ "take ?count ?d"], rule exI [of _ "drop ?count ?d"], auto)
  next
    case True
    let ?log = "log\<lparr>bl_size := bl_size log + int ?count\<rparr>"
    have step: "writeLoop S ?log (drop ?count ?d) x1 = ((err, log'), x')"
      using "2.prems"(2) w True by (simp only: writeLoop.simps prod.case Let_def option.case if_False)
    have "appendFile S (bl_file ?log) content" using "2.prems"(1) by simp
    from "2.IH" [OF w [symmetric] refl refl refl _ _ this step] True obtain part rest
      where "drop ?count ?d = part @ rest" "content x' = content x1 @ part" "err = None \<longrightarrow> rest = []" "bl_maximum log' = bl_maximum log"
      by auto
    then show ?thesis
      using content by - (rule exI [of _ "take ?count ?d @ part"], rule exI [of _ rest], metis append.assoc append_take_drop_id)
  qed
qed

text \<open>There is room after \<open>makeRoom\<close>.\<close>

lemma makeRoom_content:
  "appendFile S (bl_file log) content \<Longrightarrow> makeRoom S log input x = (r, x') \<Longrightarrow> content x' = [] \<or> content x' = content x"
  using resetLocked_content [of S log content x r x'] by (auto simp: makeRoom_def retA_def split: if_splits)

lemma kept_length: "0 < m \<Longrightarrow> int (length (kept m input)) \<le> m"
  by (simp add: kept_def)

lemma makeRoom_ok:
  assumes contract: "appendFile S (bl_file log) content" and size: "bl_size log = int (length (content x))"
    and max: "0 < bl_maximum log" and run: "makeRoom S log input x = (Inr log', x')"
  shows "bl_file log' = bl_file log \<and> bl_maximum log' = bl_maximum log
    \<and> int (length (content x')) + int (length (kept (bl_maximum log) input)) \<le> bl_maximum log"
proof (cases "bl_maximum log < int (length input) \<or> bl_maximum log < bl_size log + int (length input)")
  case True
  then have r: "resetLocked S log x = (Inr log', x')" using run by (auto simp: makeRoom_def split: if_splits)
  then have "content x' = []" using resetLocked_content [OF contract r] by auto
  then show ?thesis using resetLocked_file [OF r] kept_length [OF max] by simp
next
  case False
  then show ?thesis using run size by (simp add: makeRoom_def kept_def retA_def)
qed

text \<open>What is written into a file that has room for it.\<close>

lemma writeLoop_bounded:
  assumes contract: "appendFile S (bl_file log) content" and room: "int (length (content x)) + int (length data) \<le> m"
    and run: "writeLoop S log data x = ((err, log'), x')"
  shows "int (length (content x')) \<le> m \<and> (err = None \<longrightarrow> content x' = content x @ data)"
  using writeLoop_content [OF contract run] room by auto

text \<open>
  C24: the log is bounded: whatever fails and whoever else has written, one write never makes the file longer than the
  larger of its length and the maximum; one that reports success leaves a file within the maximum that ends with the whole
  input, or with its last bytes when it is longer than the maximum.
\<close>

theorem log_bounded:
  assumes contract: "appendFile S (bl_file log) content" and max: "0 < bl_maximum log"
    and run: "writeLog S log input x = ((r, log'), x')"
  shows "int (length (content x')) \<le> max (bl_maximum log) (int (length (content x)))
    \<and> (case r of Inl _ \<Rightarrow> True | Inr n \<Rightarrow> n = int (length input) \<and> (n = 0 \<or> int (length (content x')) \<le> bl_maximum log)
         \<and> (\<exists>old. content x' = old @ kept (bl_maximum log) input))"
proof (cases "bl_closed log \<or> input = []")
  case True
  then show ?thesis using run by (auto simp: writeLog_def kept_def split: if_splits)
next
  case open_log: False
  obtain st x1 where st: "ls_fstat S x (bl_file log) = (st, x1)" by fastforce
  note content1 = appendFile_fstat [OF contract st]
  show ?thesis
  proof (cases st)
    case (Inl e)
    then show ?thesis using run open_log st content1 by (auto simp: writeLog_def)
  next
    case (Inr info)
    let ?log = "log\<lparr>bl_size := lt_size info\<rparr>"
    have contract': "appendFile S (bl_file ?log) content" using contract by simp
    have size: "bl_size ?log = int (length (content x1))" using content1 Inr by simp
    obtain q x2 where q: "makeRoom S ?log input x1 = (q, x2)" by fastforce
    show ?thesis
    proof (cases q)
      case Inl2: (Inl e)
      then show ?thesis
        using run open_log st Inr q makeRoom_content [OF contract' q] content1 max by (auto simp: writeLog_def)
    next
      case Inr2: (Inr log2)
      note made = makeRoom_ok [OF contract' size _ q [unfolded Inr2]]
      obtain err log3 x3 where loop: "writeLoop S log2 (kept (bl_maximum log) input) x2 = ((err, log3), x3)" by (metis prod.collapse)
      have contract2: "appendFile S (bl_file log2) content" using contract made max by simp
      have "((r, log'), x') = (case err of Some e \<Rightarrow> ((Inl e, log3), x3) | None \<Rightarrow> ((Inr (int (length input)), log3), x3))"
        using run open_log st Inr q Inr2 loop made max by (auto simp: writeLog_def split: option.split)
      then show ?thesis
        using writeLoop_bounded [OF contract2 _ loop, of "bl_maximum log"] made max by (cases err) auto
    qed
  qed
qed

section \<open>A log in memory\<close>

text \<open>A system with one file whose calls succeed and whose writes take at most four bytes; the state counts the writes.\<close>

definition memoryStat :: "string \<Rightarrow> logStat" where
  "memoryStat s = \<lparr>lt_regular = True, lt_dir = True, lt_symlink = False, lt_perm = 384, lt_uid = 501, lt_gid = 20,
     lt_size = int (length s), lt_inode = 1\<rparr>"

definition memorySystem :: "(string \<times> nat) logSystem" where
  "memorySystem = \<lparr>ls_darwin = False, ls_openDir = (\<lambda>x _. (Inr 1, x)), ls_openDirAt = (\<lambda>x _ _. (Inr 1, x)),
     ls_mkdirAt = (\<lambda>x _ _. (Inr (), x)), ls_openFileAt = (\<lambda>x _ _ _. (Inr 2, x)), ls_statAt = (\<lambda>x _ _. (Inr (memoryStat (fst x)), x)),
     ls_fstat = (\<lambda>x _. (Inr (memoryStat (fst x)), x)), ls_lstat = (\<lambda>x _. (Inr (memoryStat (fst x)), x)),
     ls_clearACL = (\<lambda>x _. (Inr (), x)), ls_listACL = (\<lambda>x _. (Inr [], x)), ls_chmod = (\<lambda>x _ _. (Inr (), x)),
     ls_sync = (\<lambda>x _. (Inr (), x)), ls_close = (\<lambda>x _. (Inr (), x)), ls_truncate = (\<lambda>x _. (Inr (), ([], snd x))),
     ls_rewind = (\<lambda>x _. (Inr (), x)), ls_write = (\<lambda>x _ d. ((min 4 (length d), None), (fst x @ take 4 d, Suc (snd x))))\<rparr>"

lemma memorySystem_appends: "appendFile memorySystem 2 fst"
  by (simp add: appendFile_def memorySystem_def memoryStat_def min_def)

definition memoryLog :: BoundedSupervisorLog where
  "memoryLog = \<lparr>bl_file = 2, bl_maximum = 8, bl_size = 0, bl_closed = False\<rparr>"

theorem log_bounded_witness:
  "case writeLog memorySystem memoryLog ''abcdef'' (''12345'', 0) of ((r, log'), x') \<Rightarrow>
     int (length (fst x')) \<le> 8 \<and> (case r of Inl _ \<Rightarrow> False | Inr n \<Rightarrow> n = 6 \<and> (\<exists>old. fst x' = old @ ''abcdef''))"
proof -
  obtain r log' x' where run: "writeLog memorySystem memoryLog ''abcdef'' (''12345'', 0) = ((r, log'), x')" by (metis prod.collapse)
  have ok: "isOk (fst (fst (writeLog memorySystem memoryLog ''abcdef'' (''12345'', 0))))" by code_simp
  have "appendFile memorySystem (bl_file memoryLog) fst" "0 < bl_maximum memoryLog"
    by (simp_all add: memoryLog_def memorySystem_appends)
  from log_bounded [OF this run] ok run show ?thesis by (auto simp: memoryLog_def kept_def split: sum.splits)
qed

section \<open>The loop ends\<close>

text \<open>
  C25: a write comes to an end: it asks the system to write at most as often as there are bytes to write, whatever part of
  them each call takes and even when calls fail.
\<close>

theorem log_write_calls:
  assumes count: "\<And>x data. calls (snd (ls_write S x f data)) = Suc (calls x)"
  shows "bl_file log = f \<Longrightarrow> calls (snd (writeLoop S log data x)) \<le> calls x + length data"
proof (induction data arbitrary: log x rule: length_induct)
  case (1 data)
  show ?case
  proof (cases data)
    case (Cons c rest)
    obtain n e x1 where w: "ls_write S x f (c # rest) = ((n, e), x1)" by (metis prod.collapse)
    have calls1: "calls x1 = Suc (calls x)" using count [of x "c # rest"] w by simp
    show ?thesis
    proof (cases "e = None \<and> min n (length (c # rest)) \<noteq> 0")
      case False
      then show ?thesis using w calls1 "1.prems" Cons by (auto simp: Let_def split: option.splits)
    next
      case True
      let ?k = "min n (length (c # rest))" and ?log = "log\<lparr>bl_size := bl_size log + int (min n (length (c # rest)))\<rparr>"
      have step: "writeLoop S log (c # rest) x = writeLoop S ?log (drop ?k (c # rest)) x1"
        using w True "1.prems" by (simp only: writeLoop.simps prod.case Let_def option.case if_False)
      have shorter: "length (drop ?k (c # rest)) < length data" using True Cons by auto
      have "calls (snd (writeLoop S ?log (drop ?k (c # rest)) x1)) \<le> calls x1 + length (drop ?k (c # rest))"
        by (rule "1.IH" [rule_format, OF shorter]) (simp add: "1.prems")
      then show ?thesis using calls1 step shorter by (simp only: Cons)
    qed
  qed simp
qed

theorem log_write_calls_witness:
  "snd (snd (writeLoop memorySystem memoryLog ''abcdef'' ([], 0))) \<le> 6"
proof -
  have "snd (snd (ls_write memorySystem x 2 d)) = Suc (snd x)" for x d by (simp add: memorySystem_def)
  from log_write_calls [of snd memorySystem 2, OF this, of memoryLog "''abcdef''" "([], 0)"] show ?thesis
    by (simp add: memoryLog_def)
qed

end
