(* ===== verification/OpLock.thy ===== *)
theory OpLock
  imports HANormalize World
begin

text \<open>
  The lock of the operations on a cluster (\<open>ha_lock.go\<close>), one system call at a time: processes that run
  \<open>acquireHAOperationLock\<close> and \<open>release\<close> share the directory of the cluster and the advisory locks of its files, which
  belong to inodes.  The calls of all processes interleave in any order, every call may fail, a process may die, and
  somebody else may put an object of any kind at the path of the lock while there is none.  Nobody removes the lock.
\<close>

section \<open>One process\<close>

definition haOperationLockFilename :: string where "haOperationLockFilename = ''.ha-operation.lock''"

definition haPathOwnedByEffectiveUser :: "int \<Rightarrow> fileInfo \<Rightarrow> bool" where
  "haPathOwnedByEffectiveUser euid info \<longleftrightarrow> fi_uid info = euid"

text \<open>
  Where a process stands: the number is the inode its descriptor is open on; \<open>Closing\<close> is \<open>closeWithError\<close>.
\<close>

datatype lockPc = Begin | MakeDirectory | InspectDirectory | SecureDirectory | OpenLock
  | InspectOpened int | InspectPath int fileInfo | TryLock int | WaitLock int | Closing int gerror
  | Holding int | Unlocking int "gerror option" | Released "gerror option" | NotAcquired gerror

text \<open>
  The directory and the lock file as all processes see them: the inode at the path, what is known of the inodes, who
  holds the advisory lock of an inode, and the next free inode number.
\<close>

record lockShared =
  sh_dir :: "fileInfo option"
  sh_path :: "int option"
  sh_info :: "int \<Rightarrow> fileInfo"
  sh_owner :: "int \<Rightarrow> nat option"
  sh_next :: int

definition ownDirectory :: "int \<Rightarrow> fileInfo" where
  "ownDirectory euid = \<lparr>fi_symlink = False, fi_regular = False, fi_dir = True, fi_perm = 448, fi_uid = euid, fi_gid = 0, fi_inode = 0, fi_size = 0\<rparr>"

definition newLockFile :: "int \<Rightarrow> int \<Rightarrow> fileInfo" where
  "newLockFile euid inode = \<lparr>fi_symlink = False, fi_regular = True, fi_dir = False, fi_perm = 384, fi_uid = euid,
     fi_gid = 0, fi_inode = inode, fi_size = 0\<rparr>"

text \<open>The directory, up to its permissions.\<close>

definition directoryStep :: "hostEnv \<Rightarrow> string \<Rightarrow> int \<Rightarrow> gerror option \<Rightarrow> lockPc \<Rightarrow> lockShared \<Rightarrow> lockPc \<times> lockShared" where
  "directoryStep H name euid fault pc sh = (case pc of
     Begin \<Rightarrow> (case fault of
         Some e \<Rightarrow> (NotAcquired (Wrap ''acquire HA operation lock'' e), sh)
       | None \<Rightarrow> (case HAConfigPath H name of Inl e \<Rightarrow> (NotAcquired e, sh) | Inr _ \<Rightarrow> (MakeDirectory, sh)))
   | MakeDirectory \<Rightarrow> (case fault of
         Some e \<Rightarrow> (NotAcquired (Wrap ''create HA operation lock directory'' e), sh)
       | None \<Rightarrow> (InspectDirectory, if sh_dir sh = None then sh\<lparr>sh_dir := Some (ownDirectory euid)\<rparr> else sh))
   | InspectDirectory \<Rightarrow> (case fault of
         Some e \<Rightarrow> (NotAcquired (Wrap ''inspect HA operation lock directory'' e), sh)
       | None \<Rightarrow> (case sh_dir sh of
           None \<Rightarrow> (NotAcquired (Wrap ''inspect HA operation lock directory'' ErrNotExist), sh)
         | Some info \<Rightarrow>
             if fi_symlink info \<or> \<not> fi_dir info \<or> \<not> haPathOwnedByEffectiveUser euid info
             then (NotAcquired (Msg ''HA operation lock directory must be a real directory owned by the current user''), sh)
             else if groupOrOther info then (SecureDirectory, sh) else (OpenLock, sh)))
   | SecureDirectory \<Rightarrow> (case fault of
         Some e \<Rightarrow> (NotAcquired (Wrap ''secure owned HA operation lock directory'' e), sh)
       | None \<Rightarrow> (OpenLock, sh\<lparr>sh_dir := map_option (\<lambda>info. info\<lparr>fi_perm := 448\<rparr>) (sh_dir sh)\<rparr>))
   | _ \<Rightarrow> (pc, sh))"

text \<open>The file: opened or created without following a link, then compared with what is at the path.\<close>

definition lockFileAccepted :: "int \<Rightarrow> fileInfo \<Rightarrow> fileInfo \<Rightarrow> bool" where
  "lockFileAccepted euid opened path \<longleftrightarrow> \<not> fi_symlink path \<and> fi_regular opened \<and> fi_inode opened = fi_inode path
     \<and> haPathOwnedByEffectiveUser euid opened \<and> \<not> groupOrOther opened"

definition openStep :: "int \<Rightarrow> gerror option \<Rightarrow> lockPc \<Rightarrow> lockShared \<Rightarrow> lockPc \<times> lockShared" where
  "openStep euid fault pc sh = (case pc of
     OpenLock \<Rightarrow> (case fault of
         Some e \<Rightarrow> (NotAcquired (Wrap ''open HA operation lock'' e), sh)
       | None \<Rightarrow> (case sh_path sh of
           None \<Rightarrow> (InspectOpened (sh_next sh), sh\<lparr>sh_path := Some (sh_next sh),
             sh_info := (sh_info sh)(sh_next sh := newLockFile euid (sh_next sh)), sh_next := sh_next sh + 1\<rparr>)
         | Some i \<Rightarrow> if fi_symlink (sh_info sh i) \<or> fi_dir (sh_info sh i)
             then (NotAcquired (Wrap ''open HA operation lock'' (Msg ''not a file'')), sh)
             else (InspectOpened i, sh)))
   | InspectOpened i \<Rightarrow> (case fault of
         Some e \<Rightarrow> (Closing i (Wrap ''inspect opened HA operation lock'' e), sh)
       | None \<Rightarrow> (InspectPath i (sh_info sh i), sh))
   | InspectPath i opened \<Rightarrow> (case fault of
         Some e \<Rightarrow> (Closing i (Wrap ''inspect HA operation lock path'' e), sh)
       | None \<Rightarrow> (case sh_path sh of
           None \<Rightarrow> (Closing i (Wrap ''inspect HA operation lock path'' ErrNotExist), sh)
         | Some j \<Rightarrow> if lockFileAccepted euid opened (sh_info sh j) then (TryLock i, sh)
             else (Closing i (Msg ''HA operation lock must be one private regular file with mode 0600 or stricter''), sh)))
   | _ \<Rightarrow> (pc, sh))"

text \<open>
  The loop: the advisory lock of the inode is taken when nobody has it; otherwise the process waits for the next tick, or
  for the end of its context.
\<close>

definition flockStep :: "nat \<Rightarrow> gerror option \<Rightarrow> lockPc \<Rightarrow> lockShared \<Rightarrow> lockPc \<times> lockShared" where
  "flockStep p fault pc sh = (case pc of
     TryLock i \<Rightarrow> (case fault of
         Some e \<Rightarrow> (Closing i (Wrap ''acquire HA operation lock'' e), sh)
       | None \<Rightarrow> if sh_owner sh i = None then (Holding i, sh\<lparr>sh_owner := (sh_owner sh)(i := Some p)\<rparr>) else (WaitLock i, sh))
   | WaitLock i \<Rightarrow> (case fault of
         Some e \<Rightarrow> (Closing i (Wrap ''wait for HA cluster operation lock'' e), sh)
       | None \<Rightarrow> (TryLock i, sh))
   | Closing i e \<Rightarrow> (NotAcquired (case errorsJoin [Some e, fault] of Some j \<Rightarrow> j | None \<Rightarrow> e), sh)
   | _ \<Rightarrow> (pc, sh))"

definition acquireStep :: "hostEnv \<Rightarrow> string \<Rightarrow> int \<Rightarrow> nat \<Rightarrow> gerror option \<Rightarrow> lockPc \<Rightarrow> lockShared \<Rightarrow> lockPc \<times> lockShared" where
  "acquireStep H name euid p fault pc sh = (case pc of
     Begin \<Rightarrow> directoryStep H name euid fault pc sh
   | MakeDirectory \<Rightarrow> directoryStep H name euid fault pc sh
   | InspectDirectory \<Rightarrow> directoryStep H name euid fault pc sh
   | SecureDirectory \<Rightarrow> directoryStep H name euid fault pc sh
   | OpenLock \<Rightarrow> openStep euid fault pc sh
   | InspectOpened _ \<Rightarrow> openStep euid fault pc sh
   | InspectPath _ _ \<Rightarrow> openStep euid fault pc sh
   | _ \<Rightarrow> flockStep p fault pc sh)"

text \<open>
  \<open>release\<close>: the lock is given back, and the descriptor closed whatever that gave; closing drops a lock that is still held.
\<close>

definition dropLock :: "nat \<Rightarrow> int \<Rightarrow> lockShared \<Rightarrow> lockShared" where
  "dropLock p i sh = (if sh_owner sh i = Some p then sh\<lparr>sh_owner := (sh_owner sh)(i := None)\<rparr> else sh)"

definition releaseStep :: "nat \<Rightarrow> gerror option \<Rightarrow> lockPc \<Rightarrow> lockShared \<Rightarrow> lockPc \<times> lockShared" where
  "releaseStep p fault pc sh = (case pc of
     Holding i \<Rightarrow> (case fault of
         Some e \<Rightarrow> (Unlocking i (Some (Wrap ''release HA operation lock'' e)), sh)
       | None \<Rightarrow> (Unlocking i None, dropLock p i sh))
   | Unlocking i err \<Rightarrow> (Released (errorsJoin [err, map_option (Wrap ''close HA operation lock'') fault]), dropLock p i sh)
   | _ \<Rightarrow> (pc, sh))"

section \<open>All processes\<close>

record lockSystem =
  ly_pc :: "nat \<Rightarrow> lockPc"
  ly_shared :: lockShared

definition processStep :: "hostEnv \<Rightarrow> string \<Rightarrow> int \<Rightarrow> nat \<Rightarrow> gerror option \<Rightarrow> lockSystem \<Rightarrow> lockSystem" where
  "processStep H name euid p fault s =
     (let (pc, sh) = (case ly_pc s p of
         Holding _ \<Rightarrow> releaseStep p fault (ly_pc s p) (ly_shared s)
       | Unlocking _ _ \<Rightarrow> releaseStep p fault (ly_pc s p) (ly_shared s)
       | _ \<Rightarrow> acquireStep H name euid p fault (ly_pc s p) (ly_shared s)) in
      s\<lparr>ly_pc := (ly_pc s)(p := pc), ly_shared := sh\<rparr>)"

text \<open>The system drops the locks of a process that dies.\<close>

definition dieStep :: "nat \<Rightarrow> lockSystem \<Rightarrow> lockSystem" where
  "dieStep p s = s\<lparr>ly_pc := (ly_pc s)(p := NotAcquired (Msg ''killed'')),
     ly_shared := (ly_shared s)\<lparr>sh_owner := (\<lambda>i. if sh_owner (ly_shared s) i = Some p then None else sh_owner (ly_shared s) i)\<rparr>\<rparr>"

definition plantStep :: "fileInfo \<Rightarrow> lockSystem \<Rightarrow> lockSystem" where
  "plantStep info s = (let sh = ly_shared s in
     if sh_path sh = None
     then s\<lparr>ly_shared := sh\<lparr>sh_path := Some (sh_next sh), sh_info := (sh_info sh)(sh_next sh := info\<lparr>fi_inode := sh_next sh\<rparr>),
            sh_next := sh_next sh + 1\<rparr>\<rparr>
     else s)"

definition removeStep :: "lockSystem \<Rightarrow> lockSystem" where
  "removeStep s = s\<lparr>ly_shared := (ly_shared s)\<lparr>sh_path := None\<rparr>\<rparr>"

definition lockStart :: "lockShared \<Rightarrow> lockSystem" where
  "lockStart sh = \<lparr>ly_pc = (\<lambda>_. Begin), ly_shared = sh\<rparr>"

text \<open>What the shared state is at first: inodes know their number, the free ones are the numbers from \<open>sh_next\<close> on.\<close>

definition freshShared :: "lockShared \<Rightarrow> bool" where
  "freshShared sh \<longleftrightarrow> (\<forall>i. i < sh_next sh \<longrightarrow> fi_inode (sh_info sh i) = i) \<and> sh_owner sh = (\<lambda>_. None)
     \<and> (case sh_path sh of None \<Rightarrow> True | Some i \<Rightarrow> i < sh_next sh)"

inductive lockReachable :: "bool \<Rightarrow> hostEnv \<Rightarrow> string \<Rightarrow> int \<Rightarrow> lockSystem \<Rightarrow> bool" for removable H name euid where
  start: "freshShared sh \<Longrightarrow> lockReachable removable H name euid (lockStart sh)"
| process: "lockReachable removable H name euid s \<Longrightarrow> lockReachable removable H name euid (processStep H name euid p fault s)"
| die: "lockReachable removable H name euid s \<Longrightarrow> lockReachable removable H name euid (dieStep p s)"
| plant: "lockReachable removable H name euid s \<Longrightarrow> lockReachable removable H name euid (plantStep info s)"
| remove: "lockReachable removable H name euid s \<Longrightarrow> removable \<Longrightarrow> lockReachable removable H name euid (removeStep s)"

section \<open>Nobody disturbs another process\<close>

text \<open>What a step of process \<open>p\<close> may do to the shared state: inodes and the path stay, locks of others stay.\<close>

definition sharedOk :: "lockShared \<Rightarrow> bool" where
  "sharedOk sh \<longleftrightarrow> (\<forall>i. i < sh_next sh \<longrightarrow> fi_inode (sh_info sh i) = i)
     \<and> (\<forall>i. sh_path sh = Some i \<longrightarrow> i < sh_next sh)"

definition gentle :: "nat \<Rightarrow> lockShared \<Rightarrow> lockShared \<Rightarrow> bool" where
  "gentle p sh sh' \<longleftrightarrow> sh_next sh \<le> sh_next sh' \<and> (\<forall>i. sh_path sh = Some i \<longrightarrow> sh_path sh' = Some i)
     \<and> (\<forall>i q. q \<noteq> p \<longrightarrow> (sh_owner sh' i = Some q) = (sh_owner sh i = Some q)) \<and> (sharedOk sh \<longrightarrow> sharedOk sh')"

text \<open>What holds where a process stands.\<close>

definition pcOk :: "nat \<Rightarrow> lockShared \<Rightarrow> lockPc \<Rightarrow> bool" where
  "pcOk p sh pc \<longleftrightarrow> (case pc of
     InspectOpened i \<Rightarrow> i < sh_next sh
   | InspectPath i opened \<Rightarrow> i < sh_next sh \<and> fi_inode opened = i
   | TryLock i \<Rightarrow> sh_path sh = Some i
   | WaitLock i \<Rightarrow> sh_path sh = Some i
   | Holding i \<Rightarrow> sh_path sh = Some i \<and> sh_owner sh i = Some p
   | _ \<Rightarrow> True)
   \<and> (\<forall>i. sh_owner sh i = Some p \<longrightarrow> pc = Holding i \<or> (\<exists>e. pc = Unlocking i e))"

lemma pcOk_other: "gentle p sh sh' \<Longrightarrow> q \<noteq> p \<Longrightarrow> pcOk q sh pc \<Longrightarrow> pcOk q sh' pc"
  unfolding pcOk_def gentle_def by (cases pc) auto

lemma gentle_refl [simp]: "gentle p sh sh"
  by (simp add: gentle_def)

lemma gentle_dir [simp]: "gentle p sh (sh\<lparr>sh_dir := d\<rparr>)"
  by (simp add: gentle_def sharedOk_def)

lemma gentle_plant: "sh_path sh = None \<Longrightarrow> fi_inode info = sh_next sh \<Longrightarrow>
    gentle p sh (sh\<lparr>sh_path := Some (sh_next sh), sh_info := (sh_info sh)(sh_next sh := info), sh_next := sh_next sh + 1\<rparr>)"
  by (simp add: gentle_def sharedOk_def)

lemma gentle_drop [simp]: "gentle p sh (dropLock p i sh)"
  by (auto simp: gentle_def dropLock_def sharedOk_def)

lemma gentle_take: "sh_owner sh i = None \<Longrightarrow> gentle p sh (sh\<lparr>sh_owner := (sh_owner sh)(i := Some p)\<rparr>)"
  by (simp add: gentle_def sharedOk_def)

lemma directoryStep_gentle: "directoryStep H name euid fault pc sh = (pc', sh') \<Longrightarrow> gentle p sh sh'"
  by (cases pc; cases fault) (auto simp: directoryStep_def split: option.split_asm sum.split_asm if_split_asm)

lemma openStep_gentle: "openStep euid fault pc sh = (pc', sh') \<Longrightarrow> gentle p sh sh'"
  by (cases pc; cases fault) (auto simp: openStep_def newLockFile_def gentle_plant split: option.split_asm if_split_asm)

lemma flockStep_gentle: "flockStep p fault pc sh = (pc', sh') \<Longrightarrow> gentle p sh sh'"
  by (cases pc; cases fault) (auto simp: flockStep_def gentle_take split: if_split_asm)

lemma acquireStep_is: "acquireStep H name euid p fault pc sh = directoryStep H name euid fault pc sh
    \<or> acquireStep H name euid p fault pc sh = openStep euid fault pc sh \<or> acquireStep H name euid p fault pc sh = flockStep p fault pc sh"
  by (cases pc) (simp_all add: acquireStep_def)

lemma acquireStep_gentle: "acquireStep H name euid p fault pc sh = (pc', sh') \<Longrightarrow> gentle p sh sh'"
  using acquireStep_is [of H name euid p fault pc sh] directoryStep_gentle openStep_gentle flockStep_gentle by (elim disjE) simp_all

lemma releaseStep_gentle: "releaseStep p fault pc sh = (pc', sh') \<Longrightarrow> gentle p sh sh'"
  by (cases pc; cases fault) (auto simp: releaseStep_def)

lemma directoryStep_pcOk: "directoryStep H name euid fault pc sh = (pc', sh') \<Longrightarrow> pcOk p sh pc \<Longrightarrow> pcOk p sh' pc'"
  by (cases pc; cases fault) (auto simp: directoryStep_def pcOk_def split: option.split_asm sum.split_asm if_split_asm)

lemma openStep_pcOk: "openStep euid fault pc sh = (pc', sh') \<Longrightarrow> pcOk p sh pc \<Longrightarrow> sharedOk sh \<Longrightarrow> pcOk p sh' pc'"
  by (cases pc; cases fault) (auto simp: openStep_def pcOk_def sharedOk_def lockFileAccepted_def split: option.split_asm if_split_asm)

lemma flockStep_pcOk: "flockStep p fault pc sh = (pc', sh') \<Longrightarrow> pcOk p sh pc \<Longrightarrow> pcOk p sh' pc'"
  by (cases pc; cases fault) (auto simp: flockStep_def pcOk_def split: if_split_asm)

lemma acquireStep_pcOk:
  assumes "acquireStep H name euid p fault pc sh = (pc', sh')" "pcOk p sh pc" "sharedOk sh"
  shows "pcOk p sh' pc'"
  using acquireStep_is [of H name euid p fault pc sh] assms directoryStep_pcOk openStep_pcOk flockStep_pcOk by (elim disjE) simp_all

lemma owner_dropLock: "(sh_owner (dropLock p i sh) j = Some p) = (sh_owner sh j = Some p \<and> j \<noteq> i)"
  by (simp add: dropLock_def)

lemma releaseStep_pcOk:
  assumes "releaseStep p fault pc sh = (pc', sh')" "pcOk p sh pc"
  shows "pcOk p sh' pc'"
proof (cases "\<exists>i. pc = Holding i \<or> (\<exists>e. pc = Unlocking i e)")
  case True
  then obtain i where i: "pc = Holding i \<or> (\<exists>e. pc = Unlocking i e)" by blast
  then have own: "sh_owner sh j = Some p \<Longrightarrow> j = i" for j using assms(2) unfolding pcOk_def by blast
  have r: "(\<exists>e. pc' = Unlocking i e \<and> (sh' = sh \<or> sh' = dropLock p i sh)) \<or> (\<exists>e. pc' = Released e \<and> sh' = dropLock p i sh)"
    using i assms(1) by (auto simp: releaseStep_def split: option.split_asm)
  have "\<forall>j. sh_owner sh' j = Some p \<longrightarrow> pc' = Holding j \<or> (\<exists>e. pc' = Unlocking j e)"
    using r own owner_dropLock by metis
  moreover have "case pc' of Unlocking _ _ \<Rightarrow> True | Released _ \<Rightarrow> True | _ \<Rightarrow> False" using r by auto
  ultimately show ?thesis unfolding pcOk_def by (cases pc') simp_all
next
  case False
  then have "pc' = pc \<and> sh' = sh" using assms(1) by (cases pc) (simp_all add: releaseStep_def)
  then show ?thesis using assms(2) by simp
qed

section \<open>Mutual exclusion\<close>

definition lockInv :: "lockSystem \<Rightarrow> bool" where
  "lockInv s \<longleftrightarrow> sharedOk (ly_shared s) \<and> (\<forall>p. pcOk p (ly_shared s) (ly_pc s p))"

lemma lockInv_step:
  assumes "lockInv s" "gentle p (ly_shared s) sh" "pcOk p sh pc"
  shows "lockInv (s\<lparr>ly_pc := (ly_pc s)(p := pc), ly_shared := sh\<rparr>)"
  using assms pcOk_other [OF assms(2)] unfolding lockInv_def gentle_def by simp

lemma lockInv_process: "lockInv s \<Longrightarrow> lockInv (processStep H name euid p fault s)"
proof -
  assume inv: "lockInv s"
  let ?sh = "ly_shared s" and ?pc = "ly_pc s p"
  have ok: "pcOk p ?sh ?pc" "sharedOk ?sh" using inv by (simp_all add: lockInv_def)
  show ?thesis
  proof (cases "(\<exists>i. ?pc = Holding i) \<or> (\<exists>i e. ?pc = Unlocking i e)")
    case True
    obtain pc' sh' where r: "releaseStep p fault ?pc ?sh = (pc', sh')" by fastforce
    show ?thesis
      using lockInv_step [OF inv releaseStep_gentle [OF r] releaseStep_pcOk [OF r ok(1)]] True r by (auto simp: processStep_def)
  next
    case False
    obtain pc' sh' where r: "acquireStep H name euid p fault ?pc ?sh = (pc', sh')" by fastforce
    have "processStep H name euid p fault s = s\<lparr>ly_pc := (ly_pc s)(p := pc'), ly_shared := sh'\<rparr>"
      using False r by (auto simp: processStep_def split: lockPc.split)
    then show ?thesis using lockInv_step [OF inv acquireStep_gentle [OF r] acquireStep_pcOk [OF r ok]] by simp
  qed
qed

lemma lockInv_die: "lockInv s \<Longrightarrow> lockInv (dieStep p s)"
  unfolding dieStep_def by (rule lockInv_step) (auto simp: gentle_def pcOk_def sharedOk_def lockInv_def)

lemma lockInv_plant: "lockInv s \<Longrightarrow> lockInv (plantStep info s)"
proof -
  assume inv: "lockInv s"
  show ?thesis
  proof (cases "sh_path (ly_shared s) = None")
    case True
    let ?sh = "ly_shared s"
    let ?new = "?sh\<lparr>sh_path := Some (sh_next ?sh), sh_info := (sh_info ?sh)(sh_next ?sh := info\<lparr>fi_inode := sh_next ?sh\<rparr>), sh_next := sh_next ?sh + 1\<rparr>"
    have g: "gentle p ?sh ?new" for p by (rule gentle_plant [OF True]) simp
    have "pcOk p ?new (ly_pc s p)" for p using pcOk_other [OF g, of p "Suc p"] inv by (simp add: lockInv_def)
    then show ?thesis using inv g True unfolding lockInv_def plantStep_def gentle_def Let_def by simp
  qed (use inv in \<open>auto simp: plantStep_def Let_def\<close>)
qed

lemma lockReachable_inv: "lockReachable removable H name euid s \<Longrightarrow> \<not> removable \<Longrightarrow> lockInv s"
proof (induction rule: lockReachable.induct)
  case (start sh)
  then show ?case by (auto simp: lockInv_def lockStart_def freshShared_def sharedOk_def pcOk_def)
qed (simp_all add: lockInv_process lockInv_die lockInv_plant)

lemma lockInv_holding:
  assumes "lockInv s" "ly_pc s p = Holding i"
  shows "sh_path (ly_shared s) = Some i \<and> sh_owner (ly_shared s) i = Some p"
  using assms(1) [unfolded lockInv_def, THEN conjunct2, rule_format, of p] assms(2) by (simp add: pcOk_def)

lemma lockInv_owner:
  assumes "lockInv s" "sh_owner (ly_shared s) i = Some p"
  shows "ly_pc s p = Holding i \<or> (\<exists>e. ly_pc s p = Unlocking i e)"
  using assms(1) [unfolded lockInv_def, THEN conjunct2, rule_format, of p] assms(2) unfolding pcOk_def by blast

section \<open>Two processes\<close>

definition emptyShared :: lockShared where
  "emptyShared = \<lparr>sh_dir = None, sh_path = None, sh_info = (\<lambda>i. newLockFile 501 i), sh_owner = (\<lambda>_. None), sh_next = 1\<rparr>"

definition runLock :: "nat list \<Rightarrow> lockSystem \<Rightarrow> lockSystem" where
  "runLock ps s = fold (\<lambda>p. processStep exampleHost ''c'' 501 p None) ps s"

lemma lockReachable_run: "lockReachable r exampleHost ''c'' 501 s \<Longrightarrow> lockReachable r exampleHost ''c'' 501 (runLock ps s)"
  unfolding runLock_def by (induction ps arbitrary: s) (simp_all add: lockReachable.process)

lemma lockReachable_empty: "lockReachable r H name euid (lockStart emptyShared)"
  by (rule lockReachable.start) (simp add: freshShared_def emptyShared_def newLockFile_def)

text \<open>The second process waits while the first holds the lock.\<close>

definition contended :: lockSystem where
  "contended = runLock ([0, 0, 0, 0, 0, 0, 0] @ [1, 1, 1, 1, 1, 1, 1]) (lockStart emptyShared)"

lemma contended_pcs: "ly_pc contended 0 = Holding 1 \<and> ly_pc contended 1 = WaitLock 1"
  by code_simp

lemma lockReachable_contended: "lockReachable r exampleHost ''c'' 501 contended"
  unfolding contended_def by (intro lockReachable_run lockReachable_empty)

lemma runLock_other: "q \<notin> set ps \<Longrightarrow> ly_pc (runLock ps s) q = ly_pc s q"
  unfolding runLock_def by (induction ps arbitrary: s) (simp_all add: processStep_def split: prod.split)

text \<open>The first is killed, and the second comes to its next try.\<close>

definition afterDeath :: lockSystem where
  "afterDeath = runLock [1] (dieStep 0 contended)"

lemma afterDeath_pcs: "ly_pc afterDeath 1 = TryLock 1 \<and> ly_pc afterDeath 0 = NotAcquired (Msg ''killed'')"
  by code_simp

lemma afterDeath_other: "q \<noteq> 0 \<Longrightarrow> q \<noteq> 1 \<Longrightarrow> ly_pc afterDeath q = Begin"
  by (simp add: afterDeath_def dieStep_def contended_def runLock_other lockStart_def)

text \<open>
  This is why the file stays after the release and even after the cluster is deleted: were it removed while somebody holds
  its lock, the next process would create another one and hold that.
\<close>

lemma removed_lock_breaks_exclusion:
  "\<exists>s. lockReachable True exampleHost ''c'' 501 s \<and> ly_pc s 0 = Holding 1 \<and> ly_pc s 1 = Holding 2"
proof (intro exI conjI)
  let ?s = "runLock [1, 1, 1, 1, 1, 1, 1] (removeStep (runLock [0, 0, 0, 0, 0, 0, 0] (lockStart emptyShared)))"
  show "lockReachable True exampleHost ''c'' 501 ?s" by (intro lockReachable_run lockReachable.remove lockReachable_empty TrueI)
  show "ly_pc ?s 0 = Holding 1" by code_simp
  show "ly_pc ?s 1 = Holding 2" by code_simp
qed

section \<open>Exclusion and hand-over\<close>

text \<open>
  C4: mutual exclusion: however the calls of any number of processes interleave, fail or end with a process, at most
  one of them holds the lock of a cluster, the inode it holds is the one at the path of the lock, and it is the owner of
  the advisory lock.
\<close>

theorem lock_exclusive:
  "lockReachable False H name euid s \<Longrightarrow> ly_pc s p = Holding i \<Longrightarrow>
     sh_path (ly_shared s) = Some i \<and> sh_owner (ly_shared s) i = Some p
     \<and> (case ly_pc s q of Holding j \<Rightarrow> q = p \<and> j = i | _ \<Rightarrow> True)"
proof -
  assume reach: "lockReachable False H name euid s" and hold: "ly_pc s p = Holding i"
  have inv: "lockInv s" by (rule lockReachable_inv [OF reach]) simp
  note mine = lockInv_holding [OF inv hold]
  show ?thesis
  proof (cases "\<exists>j. ly_pc s q = Holding j")
    case True
    then obtain j where q: "ly_pc s q = Holding j" by blast
    show ?thesis using mine lockInv_holding [OF inv q] q by simp
  next
    case False
    then show ?thesis using mine by (simp split: lockPc.split)
  qed
qed

theorem lock_exclusive_witness:
  "sh_path (ly_shared contended) = Some 1 \<and> sh_owner (ly_shared contended) 1 = Some 0"
  using lock_exclusive [of exampleHost "''c''" 501 contended 0 1] lockReachable_contended contended_pcs by simp

text \<open>
  C5: a lock is never left behind: once no process holds or releases it, the next try of any process takes it, however the
  processes before it ended.
\<close>

theorem lock_handed_over:
  "lockReachable False H name euid s \<Longrightarrow> ly_pc s p = TryLock i \<Longrightarrow>
     (\<And>q. case ly_pc s q of Holding j \<Rightarrow> j \<noteq> i | Unlocking j _ \<Rightarrow> j \<noteq> i | _ \<Rightarrow> True) \<Longrightarrow>
     ly_pc (processStep H name euid p None s) p = Holding i"
proof -
  assume reach: "lockReachable False H name euid s" and trying: "ly_pc s p = TryLock i"
    and free: "\<And>q. case ly_pc s q of Holding j \<Rightarrow> j \<noteq> i | Unlocking j _ \<Rightarrow> j \<noteq> i | _ \<Rightarrow> True"
  have "sh_owner (ly_shared s) i \<noteq> Some q" for q
    using lockInv_owner [OF lockReachable_inv [OF reach], of i q] free [of q] by auto
  then have "sh_owner (ly_shared s) i = None" by (cases "sh_owner (ly_shared s) i") auto
  then show ?thesis using trying by (simp add: processStep_def acquireStep_def flockStep_def)
qed

theorem lock_handed_over_witness:
  "ly_pc (processStep exampleHost ''c'' 501 1 None afterDeath) 1 = Holding 1"
proof (rule lock_handed_over)
  show "lockReachable False exampleHost ''c'' 501 afterDeath"
    unfolding afterDeath_def by (intro lockReachable_run lockReachable.die lockReachable_contended)
  show "ly_pc afterDeath 1 = TryLock 1" by (rule afterDeath_pcs [THEN conjunct1])
  show "case ly_pc afterDeath q of Holding j \<Rightarrow> j \<noteq> 1 | Unlocking j _ \<Rightarrow> j \<noteq> 1 | _ \<Rightarrow> True" for q
    using afterDeath_pcs by (cases "q = 0 \<or> q = 1") (auto simp: afterDeath_other)
qed

end
