(* ===== verification/Launchd.thy ===== *)
theory Launchd
  imports ClusterFiles SupervisorLog
begin

text \<open>
  The per-user service of the supervisor (\<open>launchd.go\<close>): its configuration, its property list and the operations on it.
  The commands of \<open>launchctl\<close> are commands of the world whose first argument is the program; the manager's functions
  (the lookups of accounts, of ownership and of a followed path) are the parameters of \<open>launchManager\<close>.
\<close>

section \<open>Configuration\<close>

record LaunchConfig =
  lc_Role :: string
  lc_Cluster :: string
  lc_Executable :: string
  lc_Interval :: int

record accountRecord =
  ac_username :: string
  ac_uid :: int
  ac_gid :: int
  ac_home :: string

record 'x launchManager =
  lm_uid :: int
  lm_euid :: int
  lm_home :: string
  lm_daemonsDirectory :: string
  lm_validationRoot :: string
  lm_lookupAccount :: "'x \<Rightarrow> string \<Rightarrow> gerror + accountRecord"
  lm_lookupGroup :: "'x \<Rightarrow> int \<Rightarrow> gerror + string"
  lm_ownership :: "string \<Rightarrow> fileInfo \<Rightarrow> gerror + int \<times> int"
  lm_darwin :: bool
  lm_stat :: "'x \<Rightarrow> string \<Rightarrow> gerror + fileInfo"

definition defaultOwnershipLookup :: "string \<Rightarrow> fileInfo \<Rightarrow> gerror + int \<times> int" where
  "defaultOwnershipLookup path info = Inr (fi_uid info, fi_gid info)"

definition serviceLabel :: "LaunchConfig \<Rightarrow> string" where
  "serviceLabel config = ''dev.apc.'' @ lc_Role config @ ''.'' @ lc_Cluster config"

text \<open>\<open>perm & 0o111 != 0\<close>: somebody may execute the file.\<close>

definition executable :: "int \<Rightarrow> bool" where
  "executable perm \<longleftrightarrow> (perm div 64) mod 2 = 1 \<or> (perm div 8) mod 2 = 1 \<or> perm mod 2 = 1"

text \<open>\<open>normalizeConfig\<close>; the expression of a cluster name is the one of a DNS label.\<close>

definition normalizeLaunchConfig :: "'x env \<Rightarrow> 'x launchManager \<Rightarrow> LaunchConfig \<Rightarrow> ('x, LaunchConfig) op" where
  "normalizeLaunchConfig E L config =
     (if lc_Role config \<noteq> ''server'' \<and> lc_Role config \<noteq> ''agent'' \<and> lc_Role config \<noteq> ''ha''
      then errA (Msg ''role must be server, agent, or ha'')
      else if \<not> dnsLabel (lc_Cluster config) then errA (Msg ''cluster name must be a lowercase DNS label'')
      else if lc_Executable config = [] then errA (Msg ''APC executable path is required'')
      else tryWrapA ''resolve APC executable'' (liftA (e_abs E (lc_Executable config))) (\<lambda>absolute.
        tryWrapA ''inspect APC executable'' (tryA (askExt (\<lambda>x. lm_stat L x absolute)) liftA) (\<lambda>info.
        if \<not> fi_regular info \<or> \<not> executable (fi_perm info) then errA (Msg ''APC executable must be an executable regular file'')
        else let interval = (if lc_Interval config = 0 then 15 * second else lc_Interval config) in
          if interval < 5 * second then errA (Msg ''supervisor interval must be at least 5s'')
          else retA (config\<lparr>lc_Executable := absolute, lc_Interval := interval\<rparr>))))"

section \<open>Texts\<close>

text \<open>
  \<open>Duration.String\<close> for a duration of at least one second: hours and minutes when there are any, then seconds with a
  fraction without trailing zeros.
\<close>

fun padLeft :: "nat \<Rightarrow> string \<Rightarrow> string" where
  "padLeft n s = replicate (n - length s) CHR ''0'' @ s"

definition fractionString :: "int \<Rightarrow> string" where
  "fractionString nanos = (if nanos = 0 then []
     else CHR ''.'' # rev (dropWhile (\<lambda>c. c = CHR ''0'') (rev (padLeft 9 (itoa nanos)))))"

definition durationString :: "int \<Rightarrow> string" where
  "durationString d = (let secs = d div second; minutes = secs div 60; hours = minutes div 60 in
     (if hours > 0 then itoa hours @ ''h'' else []) @ (if minutes > 0 then itoa (minutes mod 60) @ ''m'' else [])
     @ itoa (secs mod 60) @ fractionString (d mod second) @ ''s'')"

text \<open>\<open>xml.EscapeText\<close> for ASCII text: a control character that XML does not allow becomes the replacement character.\<close>

definition xmlEscapeChar :: "char \<Rightarrow> string" where
  "xmlEscapeChar c = (let n = of_char c :: nat in
     if n = 34 then ''&#34;'' else if n = 39 then ''&#39;'' else if n = 38 then ''&amp;''
     else if n = 60 then ''&lt;'' else if n = 62 then ''&gt;''
     else if n = 9 then ''&#x9;'' else if n = 10 then ''&#xA;'' else if n = 13 then ''&#xD;''
     else if n < 32 then [CHR 0xEF, CHR 0xBF, CHR 0xBD] else [c])"

definition xmlEscape :: "string \<Rightarrow> string" where
  "xmlEscape s = concat (map xmlEscapeChar s)"

definition xmlLines :: "string list \<Rightarrow> string" where
  "xmlLines ls = concat (map (\<lambda>l. l @ [CHR 0x0A]) ls)"

definition xmlString :: "string \<Rightarrow> string \<Rightarrow> string" where
  "xmlString indent value = indent @ ''<string>'' @ xmlEscape value @ ''</string>''"

definition plistHead :: "string list" where
  \<open>plistHead =
     [''<?xml version="1.0" encoding="UTF-8"?>'',
      ''<!DOCTYPE plist PUBLIC "-//Apple//DTD PLIST 1.0//EN" "http://www.apple.com/DTDs/PropertyList-1.0.dtd">'',
      ''<plist version="1.0">'', ''<dict>'', ''  <key>Label</key>'']\<close>

definition supervisorPath :: string where
  "supervisorPath = ''/usr/local/bin:/opt/homebrew/bin:/usr/bin:/bin:/usr/sbin:/sbin''"

definition programArguments :: "LaunchConfig \<Rightarrow> string list" where
  "programArguments config = [lc_Executable config, ''system'', ''supervise'', ''--role'', lc_Role config, ''--cluster'',
     lc_Cluster config, ''--interval'', durationString (lc_Interval config)]"

definition RenderPlist :: "LaunchConfig \<Rightarrow> string \<Rightarrow> string" where
  "RenderPlist config logPath = xmlLines (plistHead
     @ [xmlString ''  '' (serviceLabel config), ''  <key>ProgramArguments</key>'', ''  <array>'']
     @ map (xmlString ''    '') (programArguments config)
     @ [''  </array>'', ''  <key>RunAtLoad</key>'', ''  <true/>'', ''  <key>KeepAlive</key>'', ''  <dict>'',
        ''    <key>SuccessfulExit</key>'', ''    <false/>'', ''  </dict>'', ''  <key>ThrottleInterval</key>'',
        ''  <integer>10</integer>'', ''  <key>ProcessType</key>'', ''  <string>Background</string>'',
        ''  <key>LimitLoadToSessionType</key>'', ''  <string>Background</string>'', ''  <key>EnvironmentVariables</key>'',
        ''  <dict>'', ''    <key>PATH</key>'', ''    <string>'' @ supervisorPath @ ''</string>'', ''  </dict>'',
        ''  <key>StandardOutPath</key>'', xmlString ''  '' logPath, ''  <key>StandardErrorPath</key>'',
        xmlString ''  '' logPath, ''</dict>'', ''</plist>''])"

section \<open>Operations\<close>

definition agentPlistPath :: "string \<Rightarrow> LaunchConfig \<Rightarrow> string" where
  "agentPlistPath home config = joinPath [home, ''Library'', ''LaunchAgents'', serviceLabel config @ ''.plist'']"

definition serviceTarget :: "string \<Rightarrow> int \<Rightarrow> LaunchConfig \<Rightarrow> string" where
  "serviceTarget domain uid config = domain @ ''/'' @ itoa uid @ ''/'' @ serviceLabel config"

definition serviceNotFound :: "string \<Rightarrow> bool" where
  "serviceNotFound stderr = (let value = toLower stderr in
     containsStr value ''could not find service'' \<or> containsStr value ''no such process''
     \<or> containsStr value ''domain does not support specified action'')"

text \<open>A command that has to succeed, and one that may fail because the service is not loaded.\<close>

definition launchctl :: "'x env \<Rightarrow> string \<Rightarrow> string list \<Rightarrow> ('x, unit) op" where
  "launchctl E msg args = tryA (runCmd E None args) (\<lambda>res. case cr_err res of
     None \<Rightarrow> retA () | Some e \<Rightarrow> errA (commandError msg (cr_stderr res) e))"

definition bootout :: "'x env \<Rightarrow> string \<Rightarrow> string \<Rightarrow> string \<Rightarrow> ('x, unit) op" where
  "bootout E msg program target = tryA (runCmd E None [program, ''bootout'', target]) (\<lambda>res. case cr_err res of
     None \<Rightarrow> retA ()
   | Some e \<Rightarrow> if serviceNotFound (cr_stderr res) then retA () else errA (commandError msg (cr_stderr res) e))"

definition rawCall :: "'x env \<Rightarrow> string \<Rightarrow> string \<Rightarrow> ('x, unit) op" where
  "rawCall E call path = tryA (askExt (\<lambda>x. e_fileFault E x call path)) (\<lambda>f. case f of
     None \<Rightarrow> retA () | Some e \<Rightarrow> errA e)"

definition placeWithInfo :: "'x env \<Rightarrow> string \<Rightarrow> (fileInfo \<Rightarrow> fileInfo) \<Rightarrow> document \<Rightarrow> ('x, unit) op" where
  "placeWithInfo E path f doc = updA (\<lambda>w. w\<lparr>w_fs := (w_fs w)(path \<mapsto> \<lparr>fn_info = f (privateInfo E (w_inode w) doc), fn_doc = doc\<rparr>),
     w_inode := w_inode w + 1, w_trace := w_trace w @ [Wrote path doc]\<rparr>)"

text \<open>\<open>writeAtomicFile\<close>: only the rename changes the destination.\<close>

definition writeAtomicFile :: "'x env \<Rightarrow> string \<Rightarrow> document \<Rightarrow> int \<Rightarrow> ('x, unit) op" where
  "writeAtomicFile E path doc mode =
     tryWrapA ''create temporary LaunchAgent plist'' (rawCall E ''create'' path) (\<lambda>_.
     tryWrapA ''write LaunchAgent plist'' (rawCall E ''write'' path) (\<lambda>_.
     tryWrapA ''set LaunchAgent plist mode'' (rawCall E ''chmod'' path) (\<lambda>_.
     tryWrapA ''close LaunchAgent plist'' (rawCall E ''close'' path) (\<lambda>_.
     tryWrapA ''publish LaunchAgent plist'' (rawCall E ''rename'' path) (\<lambda>_.
     placeWithInfo E path (\<lambda>info. info\<lparr>fi_perm := mode\<rparr>) doc)))))"

definition replaceLoaded :: "'x env \<Rightarrow> 'x launchManager \<Rightarrow> LaunchConfig \<Rightarrow> string \<Rightarrow> ('x, unit) op" where
  "replaceLoaded E L config plistPath = catchA (statFile E plistPath) (\<lambda>r. case r of
     Inr _ \<Rightarrow> tryA (runCmd E None [''launchctl'', ''bootout'', serviceTarget ''user'' (lm_uid L) config]) (\<lambda>_.
       tryA (runCmd E None [''launchctl'', ''bootout'', serviceTarget ''gui'' (lm_uid L) config]) (\<lambda>_. retA ()))
   | Inl e \<Rightarrow> if errorsIs e ErrNotExist then retA () else errA (Wrap ''inspect existing LaunchAgent'' e))"

definition Install :: "'x env \<Rightarrow> 'x launchManager \<Rightarrow> LaunchConfig \<Rightarrow> ('x, string) op" where
  "Install E L config0 =
     tryA (normalizeLaunchConfig E L config0) (\<lambda>config.
     let plistPath = agentPlistPath (lm_home L) config; logDirectory = joinPath [lm_home L, ''Library'', ''Logs'', ''APC''] in
     tryWrapA ''create LaunchAgents directory'' (rawCall E ''mkdir'' (dirPath plistPath)) (\<lambda>_.
     tryWrapA ''create APC log directory'' (rawCall E ''mkdir'' logDirectory) (\<lambda>_.
     tryA (replaceLoaded E L config plistPath) (\<lambda>_.
     let logPath = joinPath [logDirectory, lc_Role config @ ''-'' @ lc_Cluster config @ ''.log'']; target = serviceTarget ''user'' (lm_uid L) config in
     tryA (writeAtomicFile E plistPath (Text (RenderPlist config logPath)) 420) (\<lambda>_.
     tryA (launchctl E ''bootstrap LaunchAgent'' [''launchctl'', ''bootstrap'', ''user/'' @ itoa (lm_uid L), plistPath]) (\<lambda>_.
     tryA (launchctl E ''enable LaunchAgent'' [''launchctl'', ''enable'', target]) (\<lambda>_.
     tryA (launchctl E ''start LaunchAgent'' [''launchctl'', ''kickstart'', ''-k'', target]) (\<lambda>_.
     retA plistPath))))))))"

definition Uninstall :: "'x env \<Rightarrow> 'x launchManager \<Rightarrow> LaunchConfig \<Rightarrow> ('x, unit) op" where
  "Uninstall E L config0 =
     tryA (normalizeLaunchConfig E L config0) (\<lambda>config.
     tryA (bootout E ''stop LaunchAgent'' ''launchctl'' (serviceTarget ''user'' (lm_uid L) config)) (\<lambda>_.
     tryA (bootout E ''stop GUI LaunchAgent'' ''launchctl'' (serviceTarget ''gui'' (lm_uid L) config)) (\<lambda>_.
     removeIfPresent E ''remove LaunchAgent plist'' (agentPlistPath (lm_home L) config))))"

definition serviceStatus :: "'x env \<Rightarrow> 'x launchManager \<Rightarrow> LaunchConfig \<Rightarrow> ('x, string) op" where
  "serviceStatus E L config0 =
     tryA (normalizeLaunchConfig E L config0) (\<lambda>config.
     tryA (runCmd E None [''launchctl'', ''print'', serviceTarget ''user'' (lm_uid L) config]) (\<lambda>res. case cr_err res of
       None \<Rightarrow> retA (docText (cr_stdout res))
     | Some e \<Rightarrow> errA (commandError ''read LaunchAgent status'' (cr_stderr res) e)))"

end
