(* ===== verification/LaunchPrint.thy ===== *)
theory LaunchPrint
  imports Launchd
begin

text \<open>
  What \<open>launchctl print\<close> says of a service (\<open>unattended.go\<close>, lines 517 to 623): the scanner of its output, line by line,
  and the check that a service runs with exactly the expected arguments.  \<open>printService\<close> is the form of the output the
  scanner was written for; the scanner gives back what was printed.
\<close>

section \<open>The scanner\<close>

record launchdPrintRecord =
  lp_state :: string
  lp_program :: string
  lp_pid :: int
  lp_lastExit :: string
  lp_arguments :: "string list"

text \<open>\<open>strings.Cut\<close>.\<close>

fun cutStr :: "string \<Rightarrow> string \<Rightarrow> string \<times> string \<times> bool" where
  "cutStr sep [] = (if sep = [] then ([], [], True) else ([], [], False))"
| "cutStr sep (c # s) = (if hasPrefix (c # s) sep then ([], drop (length sep) (c # s), True)
     else (case cutStr sep s of (before, after, found) \<Rightarrow> (c # before, after, found)))"

record printScan =
  pn_inArguments :: bool
  pn_depth :: int
  pn_seen :: "string list"
  pn_record :: launchdPrintRecord

definition printKeys :: "string list" where
  "printKeys = [''state'', ''program'', ''pid'', ''last exit code'']"

definition setPrintKey :: "string \<Rightarrow> string \<Rightarrow> launchdPrintRecord \<Rightarrow> gerror + launchdPrintRecord" where
  "setPrintKey key value record0 =
     (if key = ''state'' then Inr (record0\<lparr>lp_state := value\<rparr>)
      else if key = ''program'' then Inr (record0\<lparr>lp_program := value\<rparr>)
      else if key = ''pid'' then (case atoi value of None \<Rightarrow> Inl (Msg ''launchctl pid is invalid'') | Some pid \<Rightarrow> Inr (record0\<lparr>lp_pid := pid\<rparr>))
      else Inr (record0\<lparr>lp_lastExit := value\<rparr>))"

text \<open>A line at depth one that is neither the start nor the end of a block.\<close>

definition keyLine :: "string \<Rightarrow> printScan \<Rightarrow> gerror + printScan" where
  "keyLine line sc = (case cutStr '' = '' line of (key, value, found) \<Rightarrow>
     if \<not> found \<or> key \<notin> set printKeys then Inr sc
     else if key \<in> set (pn_seen sc) then Inl (Msg ''launchctl output contains duplicate key'')
     else tryS (setPrintKey key value (pn_record sc)) (\<lambda>r. Inr (sc\<lparr>pn_seen := key # pn_seen sc, pn_record := r\<rparr>)))"

text \<open>A trimmed, non-empty line after the header.\<close>

definition scanPrintLine :: "string \<Rightarrow> printScan \<Rightarrow> gerror + printScan" where
  "scanPrintLine line sc =
     (if pn_inArguments sc then
        (if line = ''}'' then Inr (sc\<lparr>pn_inArguments := False, pn_depth := pn_depth sc - 1\<rparr>)
         else Inr (sc\<lparr>pn_record := (pn_record sc)\<lparr>lp_arguments := lp_arguments (pn_record sc) @ [line]\<rparr>\<rparr>))
      else if hasSuffix line '' = {'' then
        (let key = trimSuffix line '' = {'' in
         if pn_depth sc = 1 \<and> key = ''arguments'' then
           (if key \<in> set (pn_seen sc) then Inl (Msg ''launchctl output contains duplicate arguments'')
            else Inr (sc\<lparr>pn_seen := key # pn_seen sc, pn_inArguments := True, pn_depth := pn_depth sc + 1\<rparr>))
         else Inr (sc\<lparr>pn_depth := pn_depth sc + 1\<rparr>))
      else if line = ''}'' then Inr (sc\<lparr>pn_depth := pn_depth sc - 1\<rparr>)
      else if pn_depth sc \<noteq> 1 then Inr sc
      else keyLine line sc)"

fun scanPrintLines :: "string list \<Rightarrow> printScan \<Rightarrow> gerror + printScan" where
  "scanPrintLines [] sc = Inr sc"
| "scanPrintLines (line # rest) sc = tryS (scanPrintLine line sc) (scanPrintLines rest)"

definition emptyPrintScan :: printScan where
  "emptyPrintScan = \<lparr>pn_inArguments = False, pn_depth = 1, pn_seen = [],
     pn_record = \<lparr>lp_state = [], lp_program = [], lp_pid = - 1, lp_lastExit = [], lp_arguments = []\<rparr>\<rparr>"

definition completeScan :: "printScan \<Rightarrow> bool" where
  "completeScan sc \<longleftrightarrow> pn_depth sc = 0 \<and> \<not> pn_inArguments sc
     \<and> {''state'', ''program'', ''pid'', ''arguments''} \<subseteq> set (pn_seen sc)"

definition parseLaunchdPrint :: "string \<Rightarrow> string \<Rightarrow> gerror + launchdPrintRecord" where
  "parseLaunchdPrint text target =
     (case filter (\<lambda>l. l \<noteq> []) (map trimSpace (splitOn CHR 0x0A text)) of
        [] \<Rightarrow> Inl (Msg ''launchctl output is incomplete or malformed'')
      | header # rest \<Rightarrow>
          if header \<noteq> target @ '' = {'' then Inl (Msg ''launchctl output does not identify the service'')
          else tryS (scanPrintLines rest emptyPrintScan) (\<lambda>sc.
            if \<not> completeScan sc then Inl (Msg ''launchctl output is incomplete or malformed'') else Inr (pn_record sc)))"

definition validateRunningLaunchdService :: "string \<Rightarrow> string \<Rightarrow> string list \<Rightarrow> gerror + unit" where
  "validateRunningLaunchdService text target expected = tryS (parseLaunchdPrint text target) (\<lambda>record0.
     if lp_state record0 \<noteq> ''running'' \<or> lp_pid record0 \<le> 0 then Inl (Msg ''launchd state must be running with a positive pid'')
     else if expected = [] \<or> lp_program record0 \<noteq> hd expected \<or> lp_arguments record0 \<noteq> expected
     then Inl (Msg ''launchd program or wrapper arguments do not match the protected definition'')
     else Inr ())"

section \<open>The printed form\<close>

definition printField :: "string \<Rightarrow> string \<Rightarrow> string" where
  "printField key v = key @ '' = '' @ v"

definition printedLines :: "string \<Rightarrow> launchdPrintRecord \<Rightarrow> string list" where
  "printedLines target r =
     [target @ '' = {'', CHR 0x09 # ''active count = 1'', CHR 0x09 # ''path = /Library/LaunchDaemons/service.plist'',
      CHR 0x09 # printField ''state'' (lp_state r), [], CHR 0x09 # printField ''program'' (lp_program r), CHR 0x09 # ''arguments = {'']
     @ map (\<lambda>a. CHR 0x09 # CHR 0x09 # a) (lp_arguments r)
     @ [CHR 0x09 # ''}'', [], CHR 0x09 # ''environment = {'', CHR 0x09 # CHR 0x09 # ''OSLogRateLimit => 64'', CHR 0x09 # ''}'', [],
        CHR 0x09 # printField ''pid'' (itoa (lp_pid r)), CHR 0x09 # printField ''last exit code'' (lp_lastExit r), ''}'', []]"

definition printService :: "string \<Rightarrow> launchdPrintRecord \<Rightarrow> string" where
  "printService target r = joinWith [CHR 0x0A] (printedLines target r)"

text \<open>A text of one line without space around it; a value that does not open a block; an argument that does not close it.\<close>

definition plainText :: "string \<Rightarrow> bool" where
  "plainText v \<longleftrightarrow> v \<noteq> [] \<and> \<not> isSpace (hd v) \<and> \<not> isSpace (last v) \<and> CHR 0x0A \<notin> set v"

definition printable :: "string \<Rightarrow> launchdPrintRecord \<Rightarrow> bool" where
  "printable target r \<longleftrightarrow> plainText target
     \<and> list_all (\<lambda>v. plainText v \<and> last v \<noteq> CHR ''{'') [lp_state r, lp_program r, lp_lastExit r]
     \<and> list_all (\<lambda>a. plainText a \<and> a \<noteq> ''}'') (lp_arguments r) \<and> 0 \<le> lp_pid r \<and> lp_pid r < 2 ^ 63"

section \<open>Round trip\<close>

lemma trimSpace_text: "s \<noteq> [] \<Longrightarrow> \<not> isSpace (hd s) \<Longrightarrow> \<not> isSpace (last s) \<Longrightarrow> trimSpace s = s"
  by (simp add: trimSpace_def trimLeft_def hd_rev dropWhile_eq_self_iff [THEN iffD2])

lemma trimSpace_tab [simp]: "trimSpace (CHR 0x09 # s) = trimSpace s"
  by (simp add: trimSpace_def trimLeft_def isSpace_def)

lemma not_opening: "s \<noteq> [] \<Longrightarrow> last s \<noteq> CHR ''{'' \<Longrightarrow> \<not> hasSuffix s '' = {''"
  by (cases "rev s") (auto simp: hasSuffix_def hasPrefix_def hd_rev [symmetric])

lemma scanPrintLines_append: "scanPrintLines (xs @ ys) sc = tryS (scanPrintLines xs sc) (scanPrintLines ys)"
  by (induction xs arbitrary: sc) (auto simp: tryS_def split: sum.split)

lemma scanPrintLines_arguments:
  "pn_inArguments sc \<Longrightarrow> list_all (\<lambda>a. a \<noteq> ''}'') as \<Longrightarrow>
     scanPrintLines as sc = Inr (sc\<lparr>pn_record := (pn_record sc)\<lparr>lp_arguments := lp_arguments (pn_record sc) @ as\<rparr>\<rparr>)"
  by (induction as arbitrary: sc) (simp_all add: scanPrintLine_def)

lemma scan_key:
  assumes "\<not> pn_inArguments sc" "pn_depth sc = 1" "key \<in> set printKeys" "key \<notin> set (pn_seen sc)" "v \<noteq> []" "last v \<noteq> CHR ''{''"
  shows "scanPrintLine (printField key v) sc =
     tryS (setPrintKey key v (pn_record sc)) (\<lambda>r. Inr (sc\<lparr>pn_seen := key # pn_seen sc, pn_record := r\<rparr>))"
proof -
  have key: "key = ''state'' \<or> key = ''program'' \<or> key = ''pid'' \<or> key = ''last exit code''"
    using assms(3) by (auto simp: printKeys_def)
  have cut: "cutStr '' = '' (printField key v) = (key, v, True)"
    using key unfolding printField_def by (elim disjE) (simp_all add: hasPrefix_def)
  have no_open: "\<not> hasSuffix (printField key v) '' = {''" using assms(5,6) unfolding printField_def by (intro not_opening) auto
  have no_close: "printField key v \<noteq> ''}''" unfolding printField_def by (cases key) auto
  show ?thesis using assms(1-4) no_open no_close by (simp add: scanPrintLine_def keyLine_def cut)
qed

lemma scan_idle:
  assumes "\<not> pn_inArguments sc" "pn_depth sc = 1"
  shows "scanPrintLine ''active count = 1'' sc = Inr sc" "scanPrintLine ''path = /Library/LaunchDaemons/service.plist'' sc = Inr sc"
  using assms by (simp_all add: scanPrintLine_def keyLine_def hasSuffix_def hasPrefix_def printKeys_def)

lemma scan_blocks:
  "\<not> pn_inArguments sc \<Longrightarrow> pn_depth sc = 1 \<Longrightarrow> ''arguments'' \<notin> set (pn_seen sc) \<Longrightarrow> scanPrintLine ''arguments = {'' sc =
     Inr (sc\<lparr>pn_seen := ''arguments'' # pn_seen sc, pn_inArguments := True, pn_depth := 2\<rparr>)"
  "pn_inArguments sc \<Longrightarrow> scanPrintLine ''}'' sc = Inr (sc\<lparr>pn_inArguments := False, pn_depth := pn_depth sc - 1\<rparr>)"
  "\<not> pn_inArguments sc \<Longrightarrow> scanPrintLine ''}'' sc = Inr (sc\<lparr>pn_depth := pn_depth sc - 1\<rparr>)"
  "\<not> pn_inArguments sc \<Longrightarrow> scanPrintLine ''environment = {'' sc = Inr (sc\<lparr>pn_depth := pn_depth sc + 1\<rparr>)"
  "\<not> pn_inArguments sc \<Longrightarrow> pn_depth sc = 2 \<Longrightarrow> scanPrintLine ''OSLogRateLimit => 64'' sc = Inr sc"
  by (simp_all add: scanPrintLine_def hasSuffix_def hasPrefix_def trimSuffix_def)

text \<open>The lines without their indentation and the empty ones.\<close>

definition significantLines :: "launchdPrintRecord \<Rightarrow> string list" where
  "significantLines r =
     [''active count = 1'', ''path = /Library/LaunchDaemons/service.plist'', printField ''state'' (lp_state r),
      printField ''program'' (lp_program r), ''arguments = {''] @ lp_arguments r
     @ [''}'', ''environment = {'', ''OSLogRateLimit => 64'', ''}'', printField ''pid'' (itoa (lp_pid r)), printField ''last exit code'' (lp_lastExit r), ''}'']"

lemma trimSpace_field: "key \<noteq> [] \<Longrightarrow> \<not> isSpace (hd key) \<Longrightarrow> plainText v \<Longrightarrow> trimSpace (printField key v) = printField key v"
  by (rule trimSpace_text) (simp_all add: plainText_def printField_def)

lemma plainText_itoa: "0 \<le> n \<Longrightarrow> plainText (itoa n) \<and> last (itoa n) \<noteq> CHR ''{''"
proof -
  assume n: "0 \<le> n"
  have digits: "\<forall>c\<in>set (natToDec n). isDigit c" using natToDec_digits [of n] by (simp add: list_all_iff)
  have ne: "natToDec n \<noteq> []" by simp
  have "isDigit (hd (natToDec n))" "isDigit (last (natToDec n))" using digits ne by simp_all
  moreover have "isDigit c \<Longrightarrow> \<not> isSpace c \<and> c \<noteq> CHR ''{'' \<and> c \<noteq> CHR 0x0A" for c by (auto simp: isDigit_def isSpace_def)
  ultimately show ?thesis using digits ne n by (auto simp: plainText_def itoa_def)
qed

lemma trimSpace_block: "plainText target \<Longrightarrow> trimSpace (target @ '' = {'') = target @ '' = {''"
  by (rule trimSpace_text) (simp_all add: plainText_def isSpace_def)

lemma trimSpace_literals:
  "trimSpace ''active count = 1'' = ''active count = 1''"
  "trimSpace ''path = /Library/LaunchDaemons/service.plist'' = ''path = /Library/LaunchDaemons/service.plist''"
  "trimSpace ''arguments = {'' = ''arguments = {''" "trimSpace ''}'' = ''}''" "trimSpace [] = []"
  "trimSpace ''environment = {'' = ''environment = {''" "trimSpace ''OSLogRateLimit => 64'' = ''OSLogRateLimit => 64''"
  by code_simp+

lemma trimmed_arguments: "list_all plainText as \<Longrightarrow> filter (\<lambda>l. l \<noteq> []) (map trimSpace as) = as"
  by (induction as) (simp_all add: plainText_def trimSpace_text)

lemma trimmed_lines:
  assumes "printable target r"
  shows "filter (\<lambda>l. l \<noteq> []) (map trimSpace (printedLines target r)) = (target @ '' = {'') # significantLines r"
proof -
  have plain: "plainText target" "plainText (lp_state r)" "plainText (lp_program r)" "plainText (lp_lastExit r)"
      "list_all plainText (lp_arguments r)" "plainText (itoa (lp_pid r))"
    using assms plainText_itoa by (auto simp: printable_def list_all_iff)
  have fields: "trimSpace (printField ''state'' (lp_state r)) = printField ''state'' (lp_state r)"
      "trimSpace (printField ''program'' (lp_program r)) = printField ''program'' (lp_program r)"
      "trimSpace (printField ''pid'' (itoa (lp_pid r))) = printField ''pid'' (itoa (lp_pid r))"
      "trimSpace (printField ''last exit code'' (lp_lastExit r)) = printField ''last exit code'' (lp_lastExit r)"
    using plain by (simp_all add: trimSpace_field isSpace_def)
  have nonempty: "printField key v \<noteq> []" for key v by (simp add: printField_def)
  show ?thesis
    unfolding printedLines_def significantLines_def map_append filter_append list.map filter.simps map_map comp_def
    by (simp only: trimSpace_tab trimSpace_literals fields trimSpace_block [OF plain(1)] trimmed_arguments [OF plain(5)]) (simp add: trimmed_arguments [OF plain(5)] nonempty)
qed

lemma scan_significant:
  assumes "printable target r"
  shows "\<exists>sc. scanPrintLines (significantLines r) emptyPrintScan = Inr sc \<and> completeScan sc \<and> pn_record sc = r"
proof -
  have ok: "v \<in> {lp_state r, lp_program r, lp_lastExit r, itoa (lp_pid r)} \<Longrightarrow> v \<noteq> [] \<and> last v \<noteq> CHR ''{''" for v
    using assms plainText_itoa [of "lp_pid r"] by (auto simp: printable_def plainText_def)
  have pid: "atoi (itoa (lp_pid r)) = Some (lp_pid r)" using assms by (simp add: printable_def itoa_def atoi_natToDec)
  have args: "list_all (\<lambda>a. a \<noteq> ''}'') (lp_arguments r)" using assms by (auto simp: printable_def list_all_iff)
  show ?thesis
    unfolding significantLines_def scanPrintLines_append
    by (simp add: scan_idle emptyPrintScan_def scan_key scan_blocks scanPrintLines_arguments args setPrintKey_def printKeys_def ok pid completeScan_def)
qed

lemma printedLines_no_newline:
  assumes "printable target r"
  shows "list_all (\<lambda>l. CHR 0x0A \<notin> set l) (printedLines target r)"
  using assms plainText_itoa [of "lp_pid r"]
  by (auto simp: printable_def plainText_def printedLines_def printField_def list_all_iff)

text \<open>
  C28: the scanner reads back what was printed: from the printed form of any service it recovers every field and the exact
  argument list, so the check of a running service accepts it exactly when the service runs with a positive process id, its
  program is the first expected argument and its arguments are the expected ones.
\<close>

theorem launchd_print_roundtrip:
  assumes "printable target r"
  shows "parseLaunchdPrint (printService target r) target = Inr r
    \<and> isOk (validateRunningLaunchdService (printService target r) target expected)
        = (lp_state r = ''running'' \<and> 0 < lp_pid r \<and> expected \<noteq> [] \<and> lp_program r = hd expected \<and> lp_arguments r = expected)"
proof -
  have split: "splitOn CHR 0x0A (printService target r) = printedLines target r"
    unfolding printService_def by (rule splitOn_joinWith, simp add: printedLines_def, use printedLines_no_newline [OF assms] in \<open>simp add: list_all_iff\<close>)
  obtain sc where "scanPrintLines (significantLines r) emptyPrintScan = Inr sc" "completeScan sc" "pn_record sc = r"
    using scan_significant [OF assms] by blast
  then have "parseLaunchdPrint (printService target r) target = Inr r"
    by (simp add: parseLaunchdPrint_def split trimmed_lines [OF assms])
  then show ?thesis by (auto simp: validateRunningLaunchdService_def)
qed

definition exampleService :: launchdPrintRecord where
  "exampleService = \<lparr>lp_state = ''running'', lp_program = ''/bin/launchctl'', lp_pid = 4711, lp_lastExit = ''(never exited)'',
     lp_arguments = [''/bin/launchctl'', ''asuser'', ''501'']\<rparr>"

theorem launchd_print_roundtrip_witness:
  "isOk (validateRunningLaunchdService (printService ''system/dev.apc.ha.lab'' exampleService) ''system/dev.apc.ha.lab''
     [''/bin/launchctl'', ''asuser'', ''501''])"
proof -
  have ok: "printable ''system/dev.apc.ha.lab'' exampleService"
    by (simp add: printable_def plainText_def exampleService_def isSpace_def)
  show ?thesis
    using launchd_print_roundtrip [OF ok, of "[''/bin/launchctl'', ''asuser'', ''501'']"] by (simp add: exampleService_def)
qed

end
