(* ===== verification/Unattended.thy ===== *)
theory Unattended
  imports LaunchPrint
begin

text \<open>
  The unattended service (\<open>unattended.go\<close>): a LaunchDaemon owned by root that runs the supervisor as one selected
  account.  A path is opened without following links (\<open>openVerifiedNoFollow\<close>); the files and directories are files of the
  world, whose record carries their owner, and \<open>launchctl\<close>, \<open>chmod -N\<close> and \<open>ls -lde\<close> are commands of the world.
\<close>

section \<open>Paths\<close>

definition callOn :: "'x env \<Rightarrow> string \<Rightarrow> string \<Rightarrow> (fileInfo \<Rightarrow> ('x, 'a) op) \<Rightarrow> ('x, 'a) op" where
  "callOn E call path f = tryA (rawCall E call path) (\<lambda>_. tryA (statFile E path) f)"

definition openVerifiedNoFollow :: "'x env \<Rightarrow> string \<Rightarrow> ('x, fileInfo) op" where
  "openVerifiedNoFollow E path =
     tryA (statFile E path) (\<lambda>before.
     if fi_symlink before then errA (Msg ''path must not be a symbolic link'')
     else tryA (rawCall E ''open'' path) (\<lambda>_.
       callOn E ''fstat'' path (\<lambda>after.
       if fi_inode before \<noteq> fi_inode after then errA (Msg ''path changed while it was being opened'') else retA after)))"

definition inspectPathNoFollow :: "'x env \<Rightarrow> string \<Rightarrow> ('x, fileInfo) op" where
  "inspectPathNoFollow E path = tryA (openVerifiedNoFollow E path) (\<lambda>info.
     tryA (rawCall E ''close'' path) (\<lambda>_. retA info))"

definition readFileNoFollow :: "'x env \<Rightarrow> string \<Rightarrow> int \<Rightarrow> ('x, document) op" where
  "readFileNoFollow E path maximum = tryA (openVerifiedNoFollow E path) (\<lambda>_.
     tryA (readFile E path) (\<lambda>data.
     if maximum < e_docSize E data then errA (Msg ''file exceeds size limit'') else retA data))"

definition syncLaunchDirectory :: "'x env \<Rightarrow> string \<Rightarrow> ('x, unit) op" where
  "syncLaunchDirectory E path =
     tryWrapA ''open LaunchDaemons directory for sync'' (openVerifiedNoFollow E path) (\<lambda>info.
     if \<not> fi_dir info then errA (Msg ''LaunchDaemons path is not a directory'')
     else wrapA ''sync LaunchDaemons directory'' (rawCall E ''sync'' path))"

section \<open>Access control lists\<close>

text \<open>A command of which both outputs are read together.\<close>

definition combinedOutput :: "'x env \<Rightarrow> string \<Rightarrow> string list \<Rightarrow> ('x, string) op" where
  "combinedOutput E msg args = tryA (runCmd E None args) (\<lambda>res. let text = docText (cr_stdout res) @ cr_stderr res in
     case cr_err res of None \<Rightarrow> retA text | Some e \<Rightarrow> errA (commandError msg text e))"

definition noExtendedACL :: "string \<Rightarrow> gerror + unit" where
  "noExtendedACL text = (case cutAt CHR 0x0A text of (firstLine, entries, _) \<Rightarrow>
     (case GoStrings.fields firstLine of
        [] \<Rightarrow> Inl (Msg ''inspect extended ACL: ls returned malformed output'')
      | mode # _ \<Rightarrow> if CHR ''+'' \<in> set mode \<or> trimSpace entries \<noteq> [] then Inl (Msg ''path must not have an extended ACL'') else Inr ()))"

definition validateNoExtendedACL :: "'x env \<Rightarrow> 'x launchManager \<Rightarrow> string \<Rightarrow> ('x, unit) op" where
  "validateNoExtendedACL E L path =
     (if \<not> lm_darwin L then retA ()
      else tryA (combinedOutput E ''inspect extended ACL'' [''/bin/ls'', ''-lde'', path]) (\<lambda>text. liftA (noExtendedACL text)))"

definition removeExtendedACL :: "'x env \<Rightarrow> 'x launchManager \<Rightarrow> string \<Rightarrow> ('x, unit) op" where
  "removeExtendedACL E L path =
     (if \<not> lm_darwin L then retA ()
      else tryA (combinedOutput E ''remove extended ACL'' [''/bin/chmod'', ''-N'', path]) (\<lambda>_. validateNoExtendedACL E L path))"

text \<open>The entries are judged as those of the log's path are.\<close>

definition validateNoACLGrants :: "'x env \<Rightarrow> 'x launchManager \<Rightarrow> string \<Rightarrow> ('x, unit) op" where
  "validateNoACLGrants E L path =
     (if \<not> lm_darwin L then retA ()
      else tryA (combinedOutput E ''inspect extended ACL grants'' [''/bin/ls'', ''-lde'', path]) (\<lambda>text.
        liftA (rejectSupervisorACLGrants text)))"

section \<open>The account and the directory\<close>

record targetIdentity =
  ti_username :: string
  ti_uid :: int
  ti_gid :: int
  ti_home :: string
  ti_groupName :: string

text \<open>\<open>^[A-Za-z_][A-Za-z0-9._-]{0,63}$\<close>\<close>

definition accountHeadChar :: "char \<Rightarrow> bool" where
  "accountHeadChar c \<longleftrightarrow> isLowerAlpha c \<or> isUpperAlpha c \<or> c = CHR ''_''"

definition safeAccountName :: "string \<Rightarrow> bool" where
  "safeAccountName s \<longleftrightarrow> (case s of [] \<Rightarrow> False | c # cs \<Rightarrow> accountHeadChar c \<and> length cs \<le> 63
     \<and> list_all (\<lambda>d. accountHeadChar d \<or> isDigit d \<or> d = CHR ''.'' \<or> d = CHR ''-'') cs)"

definition exactHome :: "string \<Rightarrow> bool" where
  "exactHome path \<longleftrightarrow> isAbsPath path \<and> path \<noteq> ''/'' \<and> cleanPath path = path \<and> \<not> containsAny path [CHR 0x0D, CHR 0x0A]"

definition resolveTargetIdentity :: "'x env \<Rightarrow> 'x launchManager \<Rightarrow> string \<Rightarrow> ('x, targetIdentity) op" where
  "resolveTargetIdentity E L username =
     (if \<not> safeAccountName username then errA (Msg ''target username is invalid'')
      else tryWrapA ''resolve target account'' (tryA (askExt (\<lambda>x. lm_lookupAccount L x username)) liftA) (\<lambda>account.
      if ac_username account \<noteq> username \<or> equalFold (ac_username account) ''root'' \<or> ac_uid account \<le> 0 \<or> ac_gid account \<le> 0
      then errA (Msg ''target account must resolve exactly to a non-root user and group'')
      else tryWrapA ''resolve target group'' (tryA (askExt (\<lambda>x. lm_lookupGroup L x (ac_gid account))) liftA) (\<lambda>groupName.
      if \<not> safeAccountName groupName then errA (Msg ''target group name is invalid'')
      else if \<not> exactHome (ac_home account) then errA (Msg ''target home must be an exact absolute non-root path'')
      else tryWrapA ''inspect target home'' (inspectPathNoFollow E (ac_home account)) (\<lambda>homeInfo.
      if \<not> fi_dir homeInfo \<or> writableByOthers (fi_perm homeInfo) then errA (Msg ''target home must be a protected real directory'')
      else tryWrapA ''inspect target home ownership'' (liftA (lm_ownership L (ac_home account) homeInfo)) (\<lambda>(uid, gid).
      if uid \<noteq> ac_uid account \<or> gid \<noteq> ac_gid account then errA (Msg ''target home ownership does not match the target account'')
      else retA \<lparr>ti_username = username, ti_uid = ac_uid account, ti_gid = ac_gid account, ti_home = ac_home account,
                 ti_groupName = groupName\<rparr>)))))"

definition absoluteDirectoryChain :: "string \<Rightarrow> string list" where
  "absoluteDirectoryChain path = (if path = ''/'' then [path]
     else let components = splitOn CHR ''/'' (trimPrefix path ''/'') in
       rev (foldl (\<lambda>chain component. joinPath [hd chain, component] # chain) [''/''] components))"

text \<open>\<open>filepath.Rel\<close> of two absolute paths.\<close>

fun stripCommon :: "string list \<Rightarrow> string list \<Rightarrow> string list \<times> string list" where
  "stripCommon (a # as) (b # bs) = (if a = b then stripCommon as bs else (a # as, b # bs))"
| "stripCommon as bs = (as, bs)"

definition relPath :: "string \<Rightarrow> string \<Rightarrow> string" where
  "relPath base target = (case stripCommon (cleanComponents True [] (splitOn CHR ''/'' base)) (cleanComponents True [] (splitOn CHR ''/'' target)) of
     (ups, downs) \<Rightarrow> if ups = [] \<and> downs = [] then ''.'' else joinWith ''/'' (map (\<lambda>_. ''..'') ups @ downs))"

definition validateChainLink :: "'x env \<Rightarrow> 'x launchManager \<Rightarrow> string \<Rightarrow> string \<Rightarrow> ('x, unit) op" where
  "validateChainLink E L directory ancestor =
     tryWrapA ''inspect LaunchDaemons directory chain'' (inspectPathNoFollow E ancestor) (\<lambda>info.
     if \<not> fi_dir info \<or> writableByOthers (fi_perm info)
     then errA (Msg ''LaunchDaemons directory chain must contain only protected real directories'')
     else tryWrapA ''inspect LaunchDaemons directory chain ownership'' (liftA (lm_ownership L ancestor info)) (\<lambda>(uid, gid).
       if uid \<noteq> 0 then errA (Msg ''LaunchDaemons directory chain must be owned by root'')
       else if ancestor = directory then
         (if gid \<noteq> 0 then errA (Msg ''LaunchDaemons directory must be owned by root:wheel'')
          else wrapA ''validate LaunchDaemons directory ACL'' (validateNoExtendedACL E L ancestor))
       else wrapA ''validate LaunchDaemons ancestor ACL'' (validateNoACLGrants E L ancestor)))"

definition validateLaunchDaemonsDirectory :: "'x env \<Rightarrow> 'x launchManager \<Rightarrow> ('x, unit) op" where
  "validateLaunchDaemonsDirectory E L =
     (let directory = lm_daemonsDirectory L;
          root = (if lm_validationRoot L = [] then ''/'' else cleanPath (lm_validationRoot L)) in
      if \<not> exactHome directory then errA (Msg ''LaunchDaemons directory must be an explicit absolute path'')
      else if \<not> isAbsPath root \<or> containsAny root [CHR 0x0D, CHR 0x0A]
      then errA (Msg ''LaunchDaemons validation root must be an explicit absolute path'')
      else if relPath root directory = ''..'' \<or> hasPrefix (relPath root directory) ''../''
      then errA (Msg ''LaunchDaemons directory must remain beneath its protected validation root'')
      else (case dropWhile (\<lambda>link. link \<noteq> root) (absoluteDirectoryChain directory) of
          [] \<Rightarrow> errA (Msg ''LaunchDaemons validation root is not an ancestor of its directory'')
        | chain \<Rightarrow> forA chain (validateChainLink E L directory)))"

section \<open>The property list\<close>

definition unattendedProgramArguments :: "LaunchConfig \<Rightarrow> targetIdentity \<Rightarrow> string \<Rightarrow> string list" where
  "unattendedProgramArguments config target logPath =
     [''/bin/launchctl'', ''asuser'', itoa (ti_uid target), ''/usr/bin/sudo'', ''-n'', ''-H'', ''-u'', ti_username target, ''--'',
      ''/usr/bin/env'', ''-i'', ''HOME='' @ ti_home target, ''PATH='' @ supervisorPath, lc_Executable config, ''system'', ''supervise'',
      ''--role'', lc_Role config, ''--cluster'', lc_Cluster config, ''--interval'', durationString (lc_Interval config),
      ''--log-file'', logPath]"

definition renderUnattendedPlist :: "LaunchConfig \<Rightarrow> targetIdentity \<Rightarrow> string \<Rightarrow> string" where
  "renderUnattendedPlist config target logPath = xmlLines (plistHead
     @ [xmlString ''  '' (serviceLabel config), ''  <key>ProgramArguments</key>'', ''  <array>'']
     @ map (xmlString ''    '') (unattendedProgramArguments config target logPath)
     @ [''  </array>'', ''  <key>WorkingDirectory</key>'', xmlString ''  '' (ti_home target),
        ''  <key>EnvironmentVariables</key>'', ''  <dict>'', ''    <key>HOME</key>'', xmlString ''    '' (ti_home target),
        ''    <key>PATH</key>'', ''    <string>'' @ supervisorPath @ ''</string>'', ''  </dict>'',
        ''  <key>SessionCreate</key>'', ''  <true/>'', ''  <key>RunAtLoad</key>'', ''  <true/>'', ''  <key>KeepAlive</key>'', ''  <dict>'',
        ''    <key>SuccessfulExit</key>'', ''    <false/>'', ''  </dict>'', ''  <key>ThrottleInterval</key>'', ''  <integer>30</integer>'',
        ''  <key>ExitTimeOut</key>'', ''  <integer>30</integer>'', ''  <key>ProcessType</key>'', ''  <string>Background</string>'',
        ''  <key>Umask</key>'', ''  <integer>63</integer>'', ''  <key>StandardOutPath</key>'', ''  <string>/dev/null</string>'',
        ''  <key>StandardErrorPath</key>'', ''  <string>/dev/null</string>'', ''</dict>'', ''</plist>''])"

definition unattendedPlistMode :: int where "unattendedPlistMode = 420"

definition validateManagedPlist :: "'x env \<Rightarrow> 'x launchManager \<Rightarrow> string \<Rightarrow> document \<Rightarrow> ('x, unit) op" where
  "validateManagedPlist E L path expected =
     tryA (statFile E path) (\<lambda>info.
     if fi_symlink info \<or> \<not> fi_regular info \<or> fi_perm info \<noteq> unattendedPlistMode
     then errA (Msg ''unattended plist must be a regular non-symlink file with mode 0644'')
     else tryWrapA ''inspect unattended plist ownership'' (liftA (lm_ownership L path info)) (\<lambda>(uid, gid).
     if uid \<noteq> 0 \<or> gid \<noteq> 0 then errA (Msg ''unattended plist must be owned by root:wheel'')
     else tryWrapA ''validate unattended plist ACL'' (validateNoExtendedACL E L path) (\<lambda>_.
     tryWrapA ''read unattended plist'' (readFileNoFollow E path 65536) (\<lambda>data.
     if data \<noteq> expected then errA (Msg ''refusing mismatched existing unattended plist'') else retA ()))))"

definition validateExistingPlistOrAbsent :: "'x env \<Rightarrow> 'x launchManager \<Rightarrow> string \<Rightarrow> document \<Rightarrow> ('x, unit) op" where
  "validateExistingPlistOrAbsent E L path expected = catchA (validateManagedPlist E L path expected) (\<lambda>r. case r of
     Inr _ \<Rightarrow> retA () | Inl e \<Rightarrow> if errorsIs e ErrNotExist then retA () else errA e)"

text \<open>Changes of the mode and of the owner of a file of the world.\<close>

definition setInfo :: "string \<Rightarrow> (fileInfo \<Rightarrow> fileInfo) \<Rightarrow> ('x, unit) op" where
  "setInfo path f = updA (\<lambda>w. w\<lparr>w_fs := (w_fs w)(path := map_option (\<lambda>n. n\<lparr>fn_info := f (fn_info n)\<rparr>) (w_fs w path))\<rparr>)"

definition securePublishedPlist :: "'x env \<Rightarrow> 'x launchManager \<Rightarrow> string \<Rightarrow> ('x, unit) op" where
  "securePublishedPlist E L path =
     tryWrapA ''remove published unattended plist ACL'' (removeExtendedACL E L path) (\<lambda>_.
     tryWrapA ''verify published unattended plist'' (openVerifiedNoFollow E path) (\<lambda>info.
     if \<not> fi_regular info then errA (Msg ''published unattended plist is not a regular file'')
     else tryWrapA ''protect published unattended plist'' (rawCall E ''chmod'' path) (\<lambda>_.
       tryA (setInfo path (\<lambda>i. i\<lparr>fi_perm := unattendedPlistMode\<rparr>)) (\<lambda>_.
       tryWrapA ''own published unattended plist'' (rawCall E ''chown'' path) (\<lambda>_.
       tryA (setInfo path (\<lambda>i. i\<lparr>fi_uid := 0, fi_gid := 0\<rparr>)) (\<lambda>_.
       wrapA ''validate published unattended plist ACL'' (validateNoExtendedACL E L path)))))))"

text \<open>The temporary file, up to its close: it is complete, protected and owned by root before it gets its name.\<close>

definition prepareTemporary :: "'x env \<Rightarrow> 'x launchManager \<Rightarrow> string \<Rightarrow> ('x, unit) op" where
  "prepareTemporary E L path =
     tryWrapA ''create temporary unattended plist'' (tryA (askExt (e_random E)) liftA) (\<lambda>suffix0.
     let temporary = joinPath [dirPath path, ''.apc-launchdaemon-'' @ suffix0 @ ''.tmp''] in
     tryWrapA ''write unattended plist'' (rawCall E ''write'' temporary) (\<lambda>_.
     tryWrapA ''remove inherited unattended plist ACL'' (removeExtendedACL E L temporary) (\<lambda>_.
     tryWrapA ''protect unattended plist'' (rawCall E ''chmod'' temporary) (\<lambda>_.
     tryWrapA ''own unattended plist'' (rawCall E ''chown'' temporary) (\<lambda>_.
     tryWrapA ''validate temporary unattended plist ACL'' (validateNoExtendedACL E L temporary) (\<lambda>_.
     tryWrapA ''sync unattended plist'' (rawCall E ''sync'' temporary) (\<lambda>_.
     wrapA ''close unattended plist'' (rawCall E ''close'' temporary))))))))"

text \<open>\<open>os.Link\<close> never replaces a file; the temporary name is not a file of the world.\<close>

definition publishPlist :: "'x env \<Rightarrow> 'x launchManager \<Rightarrow> string \<Rightarrow> document \<Rightarrow> ('x, bool) op" where
  "publishPlist E L path data =
     tryWrapA ''publish unattended plist'' (rawCall E ''link'' path) (\<lambda>_.
     tryA (getA (\<lambda>w. w_fs w path)) (\<lambda>existing. case existing of
       Some _ \<Rightarrow> tryA (validateManagedPlist E L path data) (\<lambda>_. retA False)
     | None \<Rightarrow>
         tryA (placeWithInfo E path (\<lambda>i. i\<lparr>fi_perm := unattendedPlistMode, fi_uid := 0, fi_gid := 0\<rparr>) data) (\<lambda>_.
         catchA (securePublishedPlist E L path) (\<lambda>r. case r of
           Inl e \<Rightarrow> catchA (removeFile E path) (\<lambda>_. errA e)
         | Inr _ \<Rightarrow> tryA (syncLaunchDirectory E (dirPath path)) (\<lambda>_.
             tryA (validateManagedPlist E L path data) (\<lambda>_. retA True))))))"

definition writeUnattendedPlist :: "'x env \<Rightarrow> 'x launchManager \<Rightarrow> string \<Rightarrow> document \<Rightarrow> ('x, bool) op" where
  "writeUnattendedPlist E L path data =
     tryA (validateExistingPlistOrAbsent E L path data) (\<lambda>_.
     catchA (statFile E path) (\<lambda>r. case r of
       Inr _ \<Rightarrow> retA False
     | Inl e \<Rightarrow> if \<not> errorsIs e ErrNotExist then errA (Wrap ''inspect unattended plist'' e)
         else tryA (prepareTemporary E L path) (\<lambda>_. publishPlist E L path data)))"

section \<open>The plan\<close>

record unattendedPlan =
  up_config :: LaunchConfig
  up_target :: targetIdentity
  up_plistPath :: string
  up_logDir :: string
  up_logPath :: string
  up_plist :: document

definition unattendedUserLogPaths :: "targetIdentity \<Rightarrow> LaunchConfig \<Rightarrow> string \<times> string" where
  "unattendedUserLogPaths target config = (let logDirectory = joinPath [ti_home target, ''Library'', ''Logs'', ''APC''] in
     (logDirectory, joinPath [logDirectory, lc_Role config @ ''-'' @ lc_Cluster config @ ''-unattended.log'']))"

definition normalizeUnattendedConfig :: "'x env \<Rightarrow> 'x launchManager \<Rightarrow> LaunchConfig \<Rightarrow> ('x, LaunchConfig) op" where
  "normalizeUnattendedConfig E L config0 =
     tryA (normalizeLaunchConfig E L config0) (\<lambda>config.
     tryWrapA ''inspect unattended APC executable'' (inspectPathNoFollow E (lc_Executable config)) (\<lambda>info.
     if \<not> fi_regular info \<or> \<not> executable (fi_perm info)
     then errA (Msg ''unattended APC executable must be an executable regular file'') else retA config))"

definition planUnattended :: "'x env \<Rightarrow> 'x launchManager \<Rightarrow> LaunchConfig \<Rightarrow> string \<Rightarrow> ('x, unattendedPlan) op" where
  "planUnattended E L config0 targetUsername =
     tryA (normalizeUnattendedConfig E L config0) (\<lambda>config.
     tryA (resolveTargetIdentity E L targetUsername) (\<lambda>target.
     tryA (validateLaunchDaemonsDirectory E L) (\<lambda>_.
     let (logDirectory, logPath) = unattendedUserLogPaths target config;
         plistPath = joinPath [lm_daemonsDirectory L, serviceLabel config @ ''.plist''] in
     if dirPath plistPath \<noteq> cleanPath (lm_daemonsDirectory L)
     then errA (Msg ''unattended plist escaped the LaunchDaemons directory'')
     else retA \<lparr>up_config = config, up_target = target, up_plistPath = plistPath, up_logDir = logDirectory, up_logPath = logPath,
                up_plist = Text (renderUnattendedPlist config target logPath)\<rparr>)))"

section \<open>Status\<close>

definition systemServiceTarget :: "LaunchConfig \<Rightarrow> string" where
  "systemServiceTarget config = ''system/'' @ serviceLabel config"

text \<open>What \<open>print\<close> says, or nothing when the service is not loaded.\<close>

definition rawServiceStatus :: "'x env \<Rightarrow> string \<Rightarrow> ('x, string option) op" where
  "rawServiceStatus E target = tryA (runCmd E None [''/bin/launchctl'', ''print'', target]) (\<lambda>res. case cr_err res of
     None \<Rightarrow> retA (Some (docText (cr_stdout res)))
   | Some e \<Rightarrow> if serviceNotFound (cr_stderr res) then retA None else errA (commandError ''read launchd service status'' (cr_stderr res) e))"

fun waitUnloadedLoop :: "'x env \<Rightarrow> string \<Rightarrow> nat \<Rightarrow> ('x, unit) op" where
  "waitUnloadedLoop E target n = tryA (rawServiceStatus E target) (\<lambda>loaded. case loaded of
     None \<Rightarrow> retA ()
   | Some _ \<Rightarrow> (case n of
         Suc k \<Rightarrow> waitUnloadedLoop E target k
       | 0 \<Rightarrow> tryA (askExt (e_ctxErr E)) (\<lambda>c. case c of
             Some e \<Rightarrow> errA (Wrap ''wait for unattended LaunchDaemon to unload'' e)
           | None \<Rightarrow> errA (Msg ''timed out waiting for unattended LaunchDaemon to unload''))))"

declare waitUnloadedLoop.simps [simp del]

definition waitSystemServiceUnloaded :: "'x env \<Rightarrow> string \<Rightarrow> ('x, unit) op" where
  "waitSystemServiceUnloaded E target = tryA (askExt (e_ticks E)) (waitUnloadedLoop E target)"

definition systemServiceStatus :: "'x env \<Rightarrow> unattendedPlan \<Rightarrow> ('x, string option) op" where
  "systemServiceStatus E plan = (let target = systemServiceTarget (up_config plan) in
     tryA (rawServiceStatus E target) (\<lambda>loaded. case loaded of
       None \<Rightarrow> retA None
     | Some text \<Rightarrow> tryWrapA ''unattended LaunchDaemon is loaded but unhealthy''
         (liftA (validateRunningLaunchdService text target
            (unattendedProgramArguments (up_config plan) (up_target plan) (up_logPath plan)))) (\<lambda>_. retA (Some text))))"

definition perUserConflictError :: "string \<Rightarrow> gerror" where
  "perUserConflictError detail = Msg (detail @ ''; run the existing per-user uninstall first before using unattended mode'')"

definition refuseLoaded :: "'x env \<Rightarrow> string \<Rightarrow> ('x, unit) op" where
  "refuseLoaded E target = tryA (rawServiceStatus E target) (\<lambda>loaded. case loaded of
     None \<Rightarrow> retA () | Some _ \<Rightarrow> errA (perUserConflictError ''per-user supervisor is loaded''))"

definition refusePerUserSupervisor :: "'x env \<Rightarrow> unattendedPlan \<Rightarrow> ('x, unit) op" where
  "refusePerUserSupervisor E plan = catchA (statFile E (agentPlistPath (ti_home (up_target plan)) (up_config plan))) (\<lambda>r. case r of
     Inr _ \<Rightarrow> errA (perUserConflictError ''per-user LaunchAgent plist exists'')
   | Inl e \<Rightarrow> if \<not> errorsIs e ErrNotExist then errA (Wrap ''inspect per-user LaunchAgent conflict'' e)
       else forA [''user'', ''gui''] (\<lambda>domain. refuseLoaded E (serviceTarget domain (ti_uid (up_target plan)) (up_config plan))))"

section \<open>Operations\<close>

definition requireRootMutation :: "'x launchManager \<Rightarrow> ('x, unit) op" where
  "requireRootMutation L = (if lm_euid L \<noteq> 0 then errA (Msg ''unattended LaunchDaemon mutations require effective uid 0'') else retA ())"

text \<open>A job that is still loaded from another definition is removed before the new one is loaded.\<close>

definition unloadStale :: "'x env \<Rightarrow> string \<Rightarrow> bool \<Rightarrow> bool \<Rightarrow> ('x, bool) op" where
  "unloadStale E target created loaded =
     (if created \<and> loaded then
        tryA (bootout E ''replace stale unattended LaunchDaemon'' ''/bin/launchctl'' target) (\<lambda>_.
        tryA (waitSystemServiceUnloaded E target) (\<lambda>_. retA False))
      else retA loaded)"

definition startUnattended :: "'x env \<Rightarrow> unattendedPlan \<Rightarrow> bool \<Rightarrow> ('x, string) op" where
  "startUnattended E plan loaded = (let target = systemServiceTarget (up_config plan) in
     tryA (if loaded then retA ()
           else launchctl E ''bootstrap unattended LaunchDaemon'' [''/bin/launchctl'', ''bootstrap'', ''system'', up_plistPath plan]) (\<lambda>_.
     tryA (launchctl E ''enable unattended LaunchDaemon'' [''/bin/launchctl'', ''enable'', target]) (\<lambda>_.
     tryA (launchctl E ''start unattended LaunchDaemon'' [''/bin/launchctl'', ''kickstart'', ''-k'', target]) (\<lambda>_.
     tryA (systemServiceStatus E plan) (\<lambda>status. case status of
       None \<Rightarrow> errA (Msg ''unattended LaunchDaemon did not load in the system domain'') | Some _ \<Rightarrow> retA (up_plistPath plan))))))"

definition installPlanned :: "'x env \<Rightarrow> 'x launchManager \<Rightarrow> unattendedPlan \<Rightarrow> ('x, string) op" where
  "installPlanned E L plan =
     tryA (refusePerUserSupervisor E plan) (\<lambda>_.
     tryA (validateExistingPlistOrAbsent E L (up_plistPath plan) (up_plist plan)) (\<lambda>_.
     tryA (writeUnattendedPlist E L (up_plistPath plan) (up_plist plan)) (\<lambda>created.
     tryA (systemServiceStatus E plan) (\<lambda>status.
     tryA (unloadStale E (systemServiceTarget (up_config plan)) created (status \<noteq> None)) (startUnattended E plan)))))"

definition InstallUnattended :: "'x env \<Rightarrow> 'x launchManager \<Rightarrow> LaunchConfig \<Rightarrow> string \<Rightarrow> ('x, string) op" where
  "InstallUnattended E L config targetUsername =
     tryA (requireRootMutation L) (\<lambda>_. tryA (planUnattended E L config targetUsername) (installPlanned E L))"

definition StatusUnattended :: "'x env \<Rightarrow> 'x launchManager \<Rightarrow> LaunchConfig \<Rightarrow> string \<Rightarrow> ('x, string) op" where
  "StatusUnattended E L config targetUsername =
     tryA (planUnattended E L config targetUsername) (\<lambda>plan.
     tryA (refusePerUserSupervisor E plan) (\<lambda>_.
     tryA (validateManagedPlist E L (up_plistPath plan) (up_plist plan)) (\<lambda>_.
     tryA (systemServiceStatus E plan) (\<lambda>status. case status of
       None \<Rightarrow> errA (Msg ''unattended LaunchDaemon is not loaded in the system domain'') | Some text \<Rightarrow> retA text))))"

definition removeLoaded :: "'x env \<Rightarrow> unattendedPlan \<Rightarrow> ('x, unit) op" where
  "removeLoaded E plan = (let target = systemServiceTarget (up_config plan) in
     tryA (bootout E ''stop unattended LaunchDaemon'' ''/bin/launchctl'' target) (\<lambda>_.
     tryA (waitSystemServiceUnloaded E target) (\<lambda>_.
     tryWrapA ''remove unattended LaunchDaemon plist'' (removeFile E (up_plistPath plan)) (\<lambda>_.
     tryA (rawServiceStatus E target) (\<lambda>loaded. case loaded of
       None \<Rightarrow> retA () | Some _ \<Rightarrow> errA (Msg ''unattended LaunchDaemon remained loaded after removal''))))))"

definition UninstallUnattended :: "'x env \<Rightarrow> 'x launchManager \<Rightarrow> LaunchConfig \<Rightarrow> string \<Rightarrow> bool \<Rightarrow> ('x, unit) op" where
  "UninstallUnattended E L config targetUsername confirmed =
     tryA (requireRootMutation L) (\<lambda>_.
     if \<not> confirmed then errA (Msg ''refusing unattended LaunchDaemon removal without explicit confirmation'')
     else tryA (planUnattended E L config targetUsername) (\<lambda>plan.
       catchA (validateManagedPlist E L (up_plistPath plan) (up_plist plan)) (\<lambda>r. case r of
         Inr _ \<Rightarrow> removeLoaded E plan
       | Inl e \<Rightarrow> if errorsIs e ErrNotExist then
             tryA (rawServiceStatus E (systemServiceTarget (up_config plan))) (\<lambda>loaded. case loaded of
               Some _ \<Rightarrow> errA (Msg ''refusing to remove a loaded system service without its exact owned plist'') | None \<Rightarrow> retA ())
           else errA e)))"

end
