(* ===== verification/FileEffects.thy ===== *)
theory FileEffects
  imports Keeps
begin

text \<open>
  What an operation may do to the files: \<open>onlyNew\<close> puts at most one file where there was none, \<open>onlyIn\<close> changes nothing but what is
  at some paths; one rule for each way operations are composed.
\<close>

text \<open>What the operations may do to the files: nothing, or put one file where there was none.\<close>

definition onlyNew :: "string \<Rightarrow> ('x, 'a) op \<Rightarrow> bool" where
  "onlyNew path m \<longleftrightarrow> (\<forall>w. w_fs (snd (m w)) = w_fs w
     \<or> (w_fs w path = None \<and> (\<exists>n. w_fs (snd (m w)) = (w_fs w)(path := n))))"

lemma onlyNew_keeps: "keepsFiles m \<Longrightarrow> onlyNew path m"
  by (simp add: keepsFiles_def onlyNew_def)

lemma onlyNew_first:
  assumes "keepsFiles m" "\<And>x. onlyNew path (f x)"
  shows "onlyNew path (tryA m f)"
  unfolding onlyNew_def
proof
  fix w :: "'a world"
  obtain r w1 where m: "m w = (r, w1)" by fastforce
  have "w_fs w1 = w_fs w" by (rule keepsFiles_run [OF assms(1) m])
  then show "w_fs (snd (tryA m f w)) = w_fs w \<or> (w_fs w path = None \<and> (\<exists>n. w_fs (snd (tryA m f w)) = (w_fs w)(path := n)))"
    using assms(2) unfolding onlyNew_def by (cases r) (simp_all add: tryA_apply m, metis)
qed

lemma onlyNew_last:
  assumes "onlyNew path m" "\<And>x. keepsFiles (f x)"
  shows "onlyNew path (tryA m f)"
  unfolding onlyNew_def
proof
  fix w :: "'a world"
  obtain r w1 where m: "m w = (r, w1)" by fastforce
  have "w_fs (snd (tryA m f w)) = w_fs w1" using assms(2) unfolding keepsFiles_def by (cases r) (simp_all add: tryA_apply m)
  then show "w_fs (snd (tryA m f w)) = w_fs w \<or> (w_fs w path = None \<and> (\<exists>n. w_fs (snd (tryA m f w)) = (w_fs w)(path := n)))"
    using assms(1) [unfolded onlyNew_def, rule_format, of w] m by simp
qed

text \<open>Operations that change nothing but what is at some paths.\<close>

definition onlyIn :: "string set \<Rightarrow> ('x, 'a) op \<Rightarrow> bool" where
  "onlyIn paths m \<longleftrightarrow> (\<forall>w q. q \<notin> paths \<longrightarrow> w_fs (snd (m w)) q = w_fs w q)"

abbreviation onlyAt :: "string \<Rightarrow> ('x, 'a) op \<Rightarrow> bool" where
  "onlyAt path \<equiv> onlyIn {path}"

named_theorems at_path

lemmas [at_path] = singletonI

lemma onlyIn_run: "onlyIn paths m \<Longrightarrow> m w = (r, w') \<Longrightarrow> q \<notin> paths \<Longrightarrow> w_fs w' q = w_fs w q"
  unfolding onlyIn_def by (metis snd_conv)

lemma onlyAt_update:
  assumes "onlyAt path m"
  shows "\<exists>n. w_fs (snd (m w)) = (w_fs w)(path := n)"
proof
  show "w_fs (snd (m w)) = (w_fs w)(path := w_fs (snd (m w)) path)"
    using assms unfolding onlyIn_def by (simp add: fun_eq_iff)
qed

lemma onlyIn_mono: "onlyIn paths m \<Longrightarrow> paths \<subseteq> paths' \<Longrightarrow> onlyIn paths' m"
  unfolding onlyIn_def by blast

lemma onlyAt_in: "onlyAt path m \<Longrightarrow> path \<in> paths \<Longrightarrow> onlyIn paths m"
  by (erule onlyIn_mono) simp

lemma onlyAt_keeps: "keepsFiles m \<Longrightarrow> onlyIn paths m"
  unfolding keepsFiles_def onlyIn_def by simp

lemma onlyAt_catchA [at_path]: "onlyIn paths m \<Longrightarrow> (\<And>r. onlyIn paths (h r)) \<Longrightarrow> onlyIn paths (catchA m h)"
  unfolding onlyIn_def catchA_apply by (metis (no_types, lifting) prod.case_eq_if)

lemma onlyAt_sum [at_path]:
  "(\<And>e. onlyIn paths (f e)) \<Longrightarrow> (\<And>y. onlyIn paths (g y)) \<Longrightarrow> onlyIn paths (case s of Inl e \<Rightarrow> f e | Inr y \<Rightarrow> g y)"
  "onlyIn paths m \<Longrightarrow> onlyIn paths n \<Longrightarrow> onlyIn paths (if b then m else n)"
  "onlyIn paths m \<Longrightarrow> (\<And>y. onlyIn paths (f' y)) \<Longrightarrow> onlyIn paths (case x of None \<Rightarrow> m | Some y \<Rightarrow> f' y)"
  by (simp_all split: sum.split option.split)

lemma onlyAt_tryA [at_path]: "onlyIn paths m \<Longrightarrow> (\<And>x. onlyIn paths (f x)) \<Longrightarrow> onlyIn paths (tryA m f)"
  unfolding tryA_def by (intro at_path onlyAt_keeps [OF keeps_basic(2)])

lemma onlyAt_wrapA [at_path]: "onlyIn paths m \<Longrightarrow> onlyIn paths (wrapA msg m)"
  unfolding wrapA_def by (intro at_path onlyAt_keeps [OF keeps_basic(1)] onlyAt_keeps [OF keeps_basic(2)])

lemma onlyAt_tryWrapA [at_path]: "onlyIn paths m \<Longrightarrow> (\<And>x. onlyIn paths (f x)) \<Longrightarrow> onlyIn paths (tryWrapA msg m f)"
  unfolding tryWrapA_def by (intro at_path)

lemma onlyAt_Let [at_path]: "(\<And>x. onlyIn paths (f x)) \<Longrightarrow> onlyIn paths (Let v f)"
  by simp

lemma onlyAt_removeFile [at_path]: "path \<in> paths \<Longrightarrow> onlyIn paths (removeFile E path)"
  by (auto simp: onlyIn_def removeFile_def split: option.split)

end
