(* ===== verification/UnattendedProps.thy ===== *)
theory UnattendedProps
  imports Unattended FileEffects
begin

text \<open>
  What the operations on the unattended service guarantee: they change no file but the property list, an existing one is
  never replaced, only an exact one is removed, and after an installation the file at its path is the exact definition.
\<close>

section \<open>Operations that keep the files\<close>

lemma keepsFiles_calls [keeping]:
  "keepsFiles (rawCall E call p)" "keepsFiles (launchctl E msg args)" "keepsFiles (bootout E msg program target)"
  "keepsFiles (combinedOutput E msg args)" "keepsFiles (rawServiceStatus E target)"
  unfolding rawCall_def launchctl_def bootout_def combinedOutput_def rawServiceStatus_def by (intro keeping)+

lemma keepsFiles_paths [keeping]:
  "keepsFiles (openVerifiedNoFollow E p)" "keepsFiles (validateNoExtendedACL E L p)" "keepsFiles (validateNoACLGrants E L p)"
  unfolding openVerifiedNoFollow_def callOn_def validateNoExtendedACL_def validateNoACLGrants_def by (intro keeping)+

lemma keepsFiles_checks [keeping]:
  "keepsFiles (inspectPathNoFollow E p)" "keepsFiles (readFileNoFollow E p m)" "keepsFiles (syncLaunchDirectory E p)"
  "keepsFiles (removeExtendedACL E L p)"
  unfolding inspectPathNoFollow_def readFileNoFollow_def syncLaunchDirectory_def removeExtendedACL_def by (intro keeping)+

lemma keepsFiles_list [keeping]: "keepsFiles m \<Longrightarrow> (\<And>y ys. keepsFiles (f y ys)) \<Longrightarrow> keepsFiles (case xs of [] \<Rightarrow> m | y # ys \<Rightarrow> f y ys)"
  by (cases xs) simp_all

lemma keepsFiles_plan [keeping]: "keepsFiles (planUnattended E L config user)"
  unfolding planUnattended_def normalizeUnattendedConfig_def normalizeLaunchConfig_def resolveTargetIdentity_def
    validateLaunchDaemonsDirectory_def validateChainLink_def by (intro keeping)

lemma keepsFiles_validate [keeping]: "keepsFiles (validateManagedPlist E L p d)" "keepsFiles (validateExistingPlistOrAbsent E L p d)"
  unfolding validateExistingPlistOrAbsent_def validateManagedPlist_def by (intro keeping)+

lemma keepsFiles_waitLoop [keeping]: "keepsFiles (waitUnloadedLoop E target n)"
  by (induction n) (subst waitUnloadedLoop.simps, simp only: nat.case, intro keeping, assumption?)+

lemma keepsFiles_status [keeping]:
  "keepsFiles (systemServiceStatus E plan)" "keepsFiles (waitSystemServiceUnloaded E target)"
  "keepsFiles (refusePerUserSupervisor E plan)" "keepsFiles (prepareTemporary E L p)"
  unfolding systemServiceStatus_def waitSystemServiceUnloaded_def refusePerUserSupervisor_def refuseLoaded_def prepareTemporary_def
  by (intro keeping)+

lemma keepsFiles_start [keeping]: "keepsFiles (unloadStale E target created loaded)" "keepsFiles (startUnattended E plan loaded)"
  unfolding unloadStale_def startUnattended_def by (intro keeping)+

section \<open>An exact property list\<close>

definition exactPlist :: "'x launchManager \<Rightarrow> string \<Rightarrow> document \<Rightarrow> 'x world \<Rightarrow> bool" where
  "exactPlist L path d w \<longleftrightarrow> (case w_fs w path of None \<Rightarrow> False | Some n \<Rightarrow> fn_doc n = d \<and> fi_regular (fn_info n)
     \<and> \<not> fi_symlink (fn_info n) \<and> fi_perm (fn_info n) = 420 \<and> lm_ownership L path (fn_info n) = Inr (0, 0))"

lemma exactPlist_files: "w_fs w = w_fs w' \<Longrightarrow> exactPlist L p d w = exactPlist L p d w'"
  by (simp add: exactPlist_def)

lemma statFile_Inr: "statFile E p w = (Inr info, w') \<Longrightarrow> w' = w \<and> (\<exists>n. w_fs w p = Some n \<and> fn_info n = info)"
  by (auto simp: statFile_def split: option.splits)

lemma readFile_Inr: "readFile E p w = (Inr d, w') \<Longrightarrow> w' = w \<and> (\<exists>n. w_fs w p = Some n \<and> fn_doc n = d)"
  by (auto simp: readFile_def split: option.splits)

lemma readFileNoFollow_Inr:
  assumes "readFileNoFollow E p m w = (Inr d, w')"
  shows "\<exists>n. w_fs w p = Some n \<and> fn_doc n = d"
proof -
  obtain info w1 w2 where o: "openVerifiedNoFollow E p w = (Inr info, w1)" and r: "readFile E p w1 = (Inr d, w2)"
    using assms unfolding readFileNoFollow_def by (auto elim!: tryA_InrE split: if_splits)
  have "w_fs w1 = w_fs w" by (rule keepsFiles_run [OF keepsFiles_paths(1) o])
  then show ?thesis using readFile_Inr [OF r] by metis
qed

lemma validateManagedPlist_Inr:
  assumes "validateManagedPlist E L p d w = (Inr u, w')"
  shows "exactPlist L p d w"
proof -
  obtain info w1 v w2 w3 where st: "statFile E p w = (Inr info, w1)" and shape: "\<not> fi_symlink info" "fi_regular info" "fi_perm info = 420"
    and own: "lm_ownership L p info = Inr (0, 0)" and acl: "validateNoExtendedACL E L p w1 = (Inr v, w2)"
    and data: "readFileNoFollow E p 65536 w2 = (Inr d, w3)"
    using assms unfolding validateManagedPlist_def unattendedPlistMode_def
    by (auto elim!: tryA_InrE tryWrapA_InrE split: if_splits prod.splits)
  have "w_fs w2 = w_fs w1" by (rule keepsFiles_run [OF keepsFiles_paths(2) acl])
  then show ?thesis
    using statFile_Inr [OF st] readFileNoFollow_Inr [OF data] own shape by (auto simp: exactPlist_def)
qed

text \<open>
  Failures of an honest system never say of an existing file that it does not exist; the manager's lookup of the owner does
  not look at the file again.
\<close>

definition honestSystem :: "'x env \<Rightarrow> 'x launchManager \<Rightarrow> bool" where
  "honestSystem E L \<longleftrightarrow> (\<forall>x call path e. e_fileFault E x call path = Some e \<longrightarrow> \<not> errorsIs e ErrNotExist)
     \<and> (\<forall>path info e. lm_ownership L path info = Inl e \<longrightarrow> \<not> errorsIs e ErrNotExist)"

text \<open>An error that does not say so.\<close>

definition knows :: "string \<Rightarrow> ('x, 'a) op \<Rightarrow> bool" where
  "knows p m \<longleftrightarrow> keepsFiles m \<and> (\<forall>w :: 'x world. w_fs w p \<noteq> None \<longrightarrow> (case fst (m w) of Inl e \<Rightarrow> \<not> errorsIs e ErrNotExist | Inr _ \<Rightarrow> True))"

named_theorems known

lemma knows_basic [known]: "knows p (retA x)" "knows p (errA (Msg s))"
  by (simp_all add: knows_def keeping)

lemma knows_liftA [known]: "(\<And>e. r = Inl e \<Longrightarrow> \<not> errorsIs e ErrNotExist) \<Longrightarrow> knows p (liftA r)"
  by (auto simp: knows_def keeping split: sum.split)

lemma knows_tryA [known]:
  assumes "knows p m" "\<And>x. knows p (f x)"
  shows "knows p (tryA m f)"
  unfolding knows_def
proof (intro conjI allI impI)
  show "keepsFiles (tryA m f)" using assms by (intro keeping) (simp_all add: knows_def)
  fix w :: "'a world" assume there: "w_fs w p \<noteq> None"
  obtain r w1 where m: "m w = (r, w1)" by fastforce
  have same: "w_fs w1 = w_fs w" using assms(1) m unfolding knows_def by (blast intro: keepsFiles_run)
  have one: "case r of Inl e \<Rightarrow> \<not> errorsIs e ErrNotExist | Inr _ \<Rightarrow> True"
    using assms(1) there m unfolding knows_def by (metis fst_conv)
  have two: "case fst (f x w1) of Inl e \<Rightarrow> \<not> errorsIs e ErrNotExist | Inr _ \<Rightarrow> True" for x
    using assms(2) [of x] there same unfolding knows_def by metis
  show "case fst (tryA m f w) of Inl e \<Rightarrow> \<not> errorsIs e ErrNotExist | Inr _ \<Rightarrow> True"
    using one two by (cases r) (simp_all add: tryA_apply m)
qed

lemma knows_wrapA [known]:
  assumes "knows p m"
  shows "knows p (wrapA msg m)"
  unfolding knows_def
proof (intro conjI allI impI)
  show "keepsFiles (wrapA msg m)" using assms by (intro keeping) (simp add: knows_def)
  fix w :: "'a world" assume there: "w_fs w p \<noteq> None"
  obtain r w1 where m: "m w = (r, w1)" by fastforce
  have "case r of Inl e \<Rightarrow> \<not> errorsIs e ErrNotExist | Inr _ \<Rightarrow> True"
    using assms there m unfolding knows_def by (metis fst_conv)
  then show "case fst (wrapA msg m w) of Inl e \<Rightarrow> \<not> errorsIs e ErrNotExist | Inr _ \<Rightarrow> True"
    by (cases r) (simp_all add: wrapA_apply m)
qed

lemma knows_tryWrapA [known]: "knows p m \<Longrightarrow> (\<And>x. knows p (f x)) \<Longrightarrow> knows p (tryWrapA msg m f)"
  unfolding tryWrapA_def by (intro known)

lemma knows_cases [known]:
  "knows p m \<Longrightarrow> knows p n \<Longrightarrow> knows p (if b then m else n)"
  "(\<And>a b. knows p (h a b)) \<Longrightarrow> knows p (case z of (a, b) \<Rightarrow> h a b)"
  by (simp_all split: prod.split)

lemma knowsI: "keepsFiles m \<Longrightarrow> (\<And>w e w'. w_fs w p \<noteq> None \<Longrightarrow> m w = (Inl e, w') \<Longrightarrow> \<not> errorsIs e ErrNotExist) \<Longrightarrow> knows p m"
  unfolding knows_def by (auto split: sum.split) (metis prod.collapse)

lemma knows_faults:
  assumes "honestSystem E L"
  shows "knows p (rawCall E call q)" "knows p (statFile E p)" "knows p (readFile E p)"
proof -
  have fault: "e_fileFault E x call path = Some e \<Longrightarrow> \<not> errorsIs e ErrNotExist" for x call path e
    using assms by (simp add: honestSystem_def)
  show "knows p (rawCall E call q)"
    by (rule knowsI, rule keeping) (auto simp: rawCall_def tryA_apply askExt_def dest: fault split: option.splits)
  show "knows p (statFile E p)"
    by (rule knowsI, rule keeping) (auto simp: statFile_def dest: fault split: option.splits)
  show "knows p (readFile E p)"
    by (rule knowsI, rule keeping) (auto simp: readFile_def dest: fault split: option.splits)
qed

lemma knows_runCmd [known]: "knows p (runCmd E b args)"
  by (rule knowsI, rule keeping) (auto simp: runCmd_def emitEvent_def queryCmd_def tryA_apply split: prod.splits)

lemma knows_option [known]:
  "knows p m \<Longrightarrow> (\<And>y. knows p (f y)) \<Longrightarrow> knows p (case x of None \<Rightarrow> m | Some y \<Rightarrow> f y)"
  by (simp split: option.split)

lemma knows_Let [known]: "(\<And>x. knows p (f x)) \<Longrightarrow> knows p (Let v f)"
  by simp

lemma knows_commandError [known]: "knows p (errA (commandError msg text e))"
  by (simp add: knows_def keeping commandError_def Let_def)

lemma knows_ACL [known]: "knows p (validateNoExtendedACL E L q)"
proof -
  have "noExtendedACL listing = Inl e \<Longrightarrow> \<not> errorsIs e ErrNotExist" for listing e
    by (auto simp: noExtendedACL_def split: list.splits prod.splits if_splits)
  then show ?thesis unfolding validateNoExtendedACL_def combinedOutput_def by (intro known)
qed

lemma knows_validate:
  assumes "honestSystem E L"
  shows "knows p (validateManagedPlist E L p d)"
proof -
  have "lm_ownership L q info = Inl e \<Longrightarrow> \<not> errorsIs e ErrNotExist" for q info e
    using assms by (simp add: honestSystem_def)
  then show ?thesis
    unfolding validateManagedPlist_def readFileNoFollow_def openVerifiedNoFollow_def callOn_def by (intro known knows_faults [OF assms])
qed

section \<open>The installation\<close>

lemma onlyAt_writes [at_path]:
  "path \<in> paths \<Longrightarrow> onlyIn paths (setInfo path f)" "path \<in> paths \<Longrightarrow> onlyIn paths (placeWithInfo E path f d)"
  by (auto simp: onlyIn_def setInfo_def placeWithInfo_def)

lemmas at_path_keeps = keeps_basic [THEN onlyAt_keeps] keepsFiles_calls [THEN onlyAt_keeps]
  keepsFiles_paths [THEN onlyAt_keeps] keepsFiles_checks [THEN onlyAt_keeps] keepsFiles_validate [THEN onlyAt_keeps]

lemma onlyAt_secure: "onlyAt path (securePublishedPlist E L path)"
  unfolding securePublishedPlist_def by (intro at_path at_path_keeps)

lemma onlyNew_publish: "onlyNew path (publishPlist E L path d)"
proof -
  let ?rest = "tryA (placeWithInfo E path (\<lambda>i. i\<lparr>fi_perm := unattendedPlistMode, fi_uid := 0, fi_gid := 0\<rparr>) d) (\<lambda>_.
    catchA (securePublishedPlist E L path) (\<lambda>r. case r of
      Inl e \<Rightarrow> catchA (removeFile E path) (\<lambda>_. errA e)
    | Inr _ \<Rightarrow> tryA (syncLaunchDirectory E (dirPath path)) (\<lambda>_.
        tryA (validateManagedPlist E L path d) (\<lambda>_. retA True))))"
  have at: "onlyAt path ?rest" by (intro at_path at_path_keeps onlyAt_secure)
  have "onlyNew path (tryA (getA (\<lambda>w. w_fs w path)) (\<lambda>existing. case existing of
      Some _ \<Rightarrow> tryA (validateManagedPlist E L path d) (\<lambda>_. retA False) | None \<Rightarrow> ?rest))"
    unfolding onlyNew_def
  proof
    fix w :: "'a world"
    show "w_fs (snd (tryA (getA (\<lambda>w. w_fs w path)) (\<lambda>existing. case existing of
        Some _ \<Rightarrow> tryA (validateManagedPlist E L path d) (\<lambda>_. retA False) | None \<Rightarrow> ?rest) w)) = w_fs w
      \<or> (w_fs w path = None \<and> (\<exists>n. w_fs (snd (tryA (getA (\<lambda>w. w_fs w path)) (\<lambda>existing. case existing of
        Some _ \<Rightarrow> tryA (validateManagedPlist E L path d) (\<lambda>_. retA False) | None \<Rightarrow> ?rest) w)) = (w_fs w)(path := n)))"
    proof (cases "w_fs w path")
      case None
      then show ?thesis using onlyAt_update [OF at] by (simp add: tryA_apply [of "getA _"])
    next
      case (Some n)
      have "keepsFiles (tryA (validateManagedPlist E L path d) (\<lambda>_. retA False))" by (intro keeping)
      then show ?thesis using Some by (simp add: keepsFiles_def tryA_apply [of "getA _"])
    qed
  qed
  then show ?thesis unfolding publishPlist_def tryWrapA_def by (rule onlyNew_first [rotated]) (intro keeping)
qed

lemma validated_then:
  assumes "tryA (validateManagedPlist E L p d) (\<lambda>_. retA x) w = (Inr y, w')"
  shows "exactPlist L p d w'"
proof -
  obtain u where v: "validateManagedPlist E L p d w = (Inr u, w')" using assms by (auto elim!: tryA_InrE)
  have "w_fs w' = w_fs w" by (rule keepsFiles_run [OF keepsFiles_validate(1) v])
  then show ?thesis using validateManagedPlist_Inr [OF v] exactPlist_files by metis
qed

lemma publishPlist_Inr: "publishPlist E L path d w = (Inr created, w') \<Longrightarrow> exactPlist L path d w'"
  unfolding publishPlist_def
  by (elim tryWrapA_InrE tryA_InrE) (auto simp: catchA_apply elim!: tryA_InrE validated_then split: option.splits sum.splits prod.splits)

lemma onlyNew_write: "onlyNew path (writeUnattendedPlist E L path d)"
proof -
  have "onlyNew path (catchA (statFile E path) (\<lambda>r. case r of
      Inr _ \<Rightarrow> retA False
    | Inl e \<Rightarrow> if \<not> errorsIs e ErrNotExist then errA (Wrap ''inspect unattended plist'' e)
        else tryA (prepareTemporary E L path) (\<lambda>_. publishPlist E L path d)))"
    (is "onlyNew path (catchA _ ?h)")
  proof -
    have "onlyNew path (?h r)" for r
    proof (cases r)
      case (Inl e)
      have "onlyNew path (tryA (prepareTemporary E L path) (\<lambda>_. publishPlist E L path d))"
        by (intro onlyNew_first onlyNew_publish keeping)
      then show ?thesis using Inl by (simp add: onlyNew_keeps keeps_basic)
    next
      case (Inr info)
      then show ?thesis using onlyNew_keeps [OF keeps_basic(1)] by simp
    qed
    moreover have "catchA (statFile E path) ?h w = ?h (fst (statFile E path w)) w" for w :: "'a world"
      by (simp add: catchA_apply statFile_def split: option.split)
    ultimately show ?thesis unfolding onlyNew_def by simp
  qed
  then show ?thesis unfolding writeUnattendedPlist_def by (rule onlyNew_first [rotated]) (rule keeping)
qed

lemma writeUnattendedPlist_Inr:
  assumes honest: "honestSystem E L" and run: "writeUnattendedPlist E L path d w = (Inr created, w')"
  shows "exactPlist L path d w'"
proof -
  let ?rest = "catchA (statFile E path) (\<lambda>r. case r of
      Inr _ \<Rightarrow> retA False
    | Inl e \<Rightarrow> if \<not> errorsIs e ErrNotExist then errA (Wrap ''inspect unattended plist'' e)
        else tryA (prepareTemporary E L path) (\<lambda>_. publishPlist E L path d))"
  obtain u w1 where v: "validateExistingPlistOrAbsent E L path d w = (Inr u, w1)" and rest: "?rest w1 = (Inr created, w')"
    using run unfolding writeUnattendedPlist_def by (auto elim!: tryA_InrE)
  have same: "w_fs w1 = w_fs w" by (rule keepsFiles_run [OF keepsFiles_validate(2) v])
  show ?thesis
  proof (cases "fst (statFile E path w1)")
    case (Inl e)
    then obtain w2 where "statFile E path w1 = (Inl e, w2)" by (metis prod.collapse)
    then show ?thesis using rest by (auto simp: catchA_apply split: if_splits elim!: tryA_InrE intro: publishPlist_Inr)
  next
    case (Inr info)
    then have there: "w_fs w path \<noteq> None" and w': "w' = w1"
      using rest same statFile_Inr [of E path w1 info] by (auto simp: catchA_apply split: prod.splits)
    obtain q w2 where q: "validateManagedPlist E L path d w = (q, w2)" by fastforce
    have "\<not> (case q of Inl e \<Rightarrow> errorsIs e ErrNotExist | Inr _ \<Rightarrow> False)"
      using knows_validate [OF honest, of path d] there q unfolding knows_def by (metis fst_conv sum.case_eq_if)
    then have "isOk q" using v q by (cases q) (auto simp: validateExistingPlistOrAbsent_def catchA_apply split: if_splits)
    then have "exactPlist L path d w" using q validateManagedPlist_Inr by (auto elim!: isOkE)
    then show ?thesis using exactPlist_files [OF same] w' by simp
  qed
qed

lemma resolveTargetIdentity_Inr:
  "resolveTargetIdentity E L user w = (Inr target, w') \<Longrightarrow> 0 < ti_uid target \<and> ti_username target = user \<and> \<not> equalFold user ''root''"
  unfolding resolveTargetIdentity_def
  by (auto elim!: tryWrapA_InrE split: if_splits prod.splits)

lemma planUnattended_Inr:
  assumes "planUnattended E L config user w = (Inr plan, w')"
  shows "0 < ti_uid (up_target plan) \<and> ti_username (up_target plan) = user \<and> \<not> equalFold user ''root''
    \<and> up_plist plan = Text (renderUnattendedPlist (up_config plan) (up_target plan) (up_logPath plan))
    \<and> up_plistPath plan = joinPath [lm_daemonsDirectory L, serviceLabel (up_config plan) @ ''.plist'']"
  using assms unfolding planUnattended_def
  by (auto elim!: tryA_InrE dest!: resolveTargetIdentity_Inr simp: Let_def split: if_splits prod.splits)

text \<open>The answer of \<open>launchctl\<close> that says the service runs with exactly the planned arguments.\<close>

definition sawRunning :: "'x env \<Rightarrow> unattendedPlan \<Rightarrow> bool" where
  "sawRunning E plan \<longleftrightarrow> (\<exists>w w' answer. rawServiceStatus E (systemServiceTarget (up_config plan)) w = (Inr (Some answer), w')
     \<and> isOk (validateRunningLaunchdService answer (systemServiceTarget (up_config plan))
         (unattendedProgramArguments (up_config plan) (up_target plan) (up_logPath plan))))"

lemma startUnattended_Inr:
  "startUnattended E plan loaded w = (Inr path, w') \<Longrightarrow> path = up_plistPath plan \<and> sawRunning E plan"
  unfolding startUnattended_def systemServiceStatus_def Let_def sawRunning_def
  by (elim tryA_InrE tryWrapA_InrE) (force elim!: tryA_InrE tryWrapA_InrE split: option.splits)

lemma onlyNew_install: "onlyNew (up_plistPath plan) (installPlanned E L plan)"
  unfolding installPlanned_def
  by (intro onlyNew_first onlyNew_last [OF onlyNew_write] keeping)

lemma installPlanned_Inr:
  assumes honest: "honestSystem E L" and run: "installPlanned E L plan w = (Inr path, w')"
  shows "path = up_plistPath plan \<and> exactPlist L path (up_plist plan) w' \<and> sawRunning E plan"
proof -
  obtain w1 w2 w3 w4 created status loaded where wr: "writeUnattendedPlist E L (up_plistPath plan) (up_plist plan) w1 = (Inr created, w2)"
    and st: "systemServiceStatus E plan w2 = (Inr status, w3)"
    and un: "unloadStale E (systemServiceTarget (up_config plan)) created (status \<noteq> None) w3 = (Inr loaded, w4)"
    and go: "startUnattended E plan loaded w4 = (Inr path, w')"
    using run unfolding installPlanned_def by (elim tryA_InrE) blast
  have "w_fs w' = w_fs w2"
    using keepsFiles_run [OF keepsFiles_status(1) st] keepsFiles_run [OF keepsFiles_start(1) un] keepsFiles_run [OF keepsFiles_start(2) go] by simp
  then show ?thesis
    using startUnattended_Inr [OF go] writeUnattendedPlist_Inr [OF honest wr] exactPlist_files by metis
qed

section \<open>An example\<close>

text \<open>A host on which the service is loaded once it has been started.\<close>

definition demoDirectory :: "int \<Rightarrow> int \<Rightarrow> fileNode" where
  "demoDirectory uid inode = \<lparr>fn_info = \<lparr>fi_symlink = False, fi_regular = False, fi_dir = True, fi_perm = 493, fi_uid = uid,
     fi_gid = (if uid = 0 then 0 else 20), fi_inode = inode, fi_size = 64\<rparr>, fn_doc = Text []\<rparr>"

definition demoExecutable :: fileNode where
  "demoExecutable = \<lparr>fn_info = \<lparr>fi_symlink = False, fi_regular = True, fi_dir = False, fi_perm = 493, fi_uid = 0, fi_gid = 0,
     fi_inode = 9, fi_size = 100\<rparr>, fn_doc = Text []\<rparr>"

definition demoFiles :: "string \<Rightarrow> fileNode option" where
  "demoFiles path = (if path \<in> {''/'', ''/Library'', ''/Library/LaunchDaemons''} then Some (demoDirectory 0 (int (length path)))
     else if path = ''/Users/u'' then Some (demoDirectory 501 50) else if path = ''/bin/apc'' then Some demoExecutable else None)"

definition demoConfig :: LaunchConfig where
  "demoConfig = \<lparr>lc_Role = ''ha'', lc_Cluster = ''lab'', lc_Executable = ''/bin/apc'', lc_Interval = 15 * second\<rparr>"

definition demoTarget :: targetIdentity where
  "demoTarget = \<lparr>ti_username = ''u'', ti_uid = 501, ti_gid = 20, ti_home = ''/Users/u'', ti_groupName = ''staff''\<rparr>"

definition demoRunning :: string where
  "demoRunning = printService (systemServiceTarget demoConfig) \<lparr>lp_state = ''running'', lp_program = ''/bin/launchctl'', lp_pid = 77,
     lp_lastExit = ''0'', lp_arguments = unattendedProgramArguments demoConfig demoTarget (snd (unattendedUserLogPaths demoTarget demoConfig))\<rparr>"

definition demoRun :: "bool \<Rightarrow> int option \<Rightarrow> string list \<Rightarrow> cmdResult \<times> bool" where
  "demoRun running b args =
     (if args ! 1 = ''kickstart'' then (okResult (Text []), True)
      else if args ! 1 = ''print'' then
        (if running \<and> hasPrefix (args ! 2) ''system/'' then (okResult (Text demoRunning), running)
         else (failedResult ''Could not find service'', running))
      else (okResult (Text []), running))"

definition demoEnv :: "bool env" where
  "demoEnv = \<lparr>e_host = exampleHost, e_euid = 0, e_egid = 0, e_run = demoRun,
     e_probeAPI = (\<lambda>x c m. (True, x)), e_now = (\<lambda>_. 1000), e_ctxErr = (\<lambda>_. None), e_ticks = (\<lambda>_. 2),
     e_lock = (\<lambda>x n. (Inr (), x)), e_unlock = (\<lambda>x n. (None, x)), e_writeFault = (\<lambda>_ _ _. None),
     e_fileFault = (\<lambda>_ _ _. None), e_docSize = (\<lambda>_. 100), e_random = (\<lambda>_. Inr ''ab12''),
     e_dirInfo = (\<lambda>_ _. Inl ErrNotExist), e_yamlParse = (\<lambda>d. Inl ErrNotFound), e_yamlPrint = (\<lambda>n. Text []), e_tlsConfig = (\<lambda>_. Inr ()),
     e_probeReady = (\<lambda>x _ _. (True, x)), e_abs = Inr, e_evalLinks = (\<lambda>_ p. Inr p), e_readDir = (\<lambda>_ _. Inr []),
     e_sha256 = (\<lambda>_. []), e_stamp = (\<lambda>_. []), e_dirOp = (\<lambda>x _ _. (None, x)), e_shared = (\<lambda>_ _. None), e_interfaces = (\<lambda>_. Inr []),
     e_feed = (\<lambda>x _. x), e_tarEntries = (\<lambda>_. Inr [])\<rparr>"

definition demoManager :: "bool launchManager" where
  "demoManager = \<lparr>lm_uid = 0, lm_euid = 0, lm_home = ''/var/root'', lm_daemonsDirectory = ''/Library/LaunchDaemons'', lm_validationRoot = ''/'',
     lm_lookupAccount = (\<lambda>_ _. Inr \<lparr>ac_username = ''u'', ac_uid = 501, ac_gid = 20, ac_home = ''/Users/u''\<rparr>),
     lm_lookupGroup = (\<lambda>_ _. Inr ''staff''), lm_ownership = defaultOwnershipLookup, lm_darwin = False,
     lm_stat = (\<lambda>_ p. case demoFiles p of None \<Rightarrow> Inl ErrNotExist | Some n \<Rightarrow> Inr (fn_info n))\<rparr>"

definition demoWorld :: "bool world" where
  "demoWorld = \<lparr>w_ext = False, w_fs = demoFiles, w_inode = 100, w_trace = [], w_answers = []\<rparr>"

lemma demo_honest: "honestSystem demoEnv demoManager"
  by (simp add: honestSystem_def demoEnv_def demoManager_def defaultOwnershipLookup_def)

section \<open>An installation is exact\<close>



section \<open>The removal\<close>

text \<open>A command that only inspects.\<close>

definition inspects :: "event \<Rightarrow> bool" where
  "inspects e \<longleftrightarrow> (case e of Cmd _ args \<Rightarrow> take 2 args = [''/bin/launchctl'', ''print''] \<or> take 2 args = [''/bin/ls'', ''-lde''] | _ \<Rightarrow> False)"

lemma emits_inspections [effects]:
  "emits inspects (rawCall E call p)" "emits inspects (validateNoExtendedACL E L p)" "emits inspects (validateNoACLGrants E L p)"
  "emits inspects (rawServiceStatus E target)"
  unfolding rawCall_def validateNoExtendedACL_def validateNoACLGrants_def combinedOutput_def rawServiceStatus_def
  by (intro effects; simp add: inspects_def)+

lemma emits_openVerified [effects]: "emits inspects (openVerifiedNoFollow E p)"
  unfolding openVerifiedNoFollow_def callOn_def by (intro effects)

lemma emits_validateManaged [effects]: "emits inspects (validateManagedPlist E L p d)"
  unfolding validateManagedPlist_def readFileNoFollow_def by (intro effects)

lemma emits_list [effects]: "emits P m \<Longrightarrow> (\<And>y ys. emits P (f y ys)) \<Longrightarrow> emits P (case xs of [] \<Rightarrow> m | y # ys \<Rightarrow> f y ys)"
  by (cases xs) simp_all

lemma emits_plan [effects]: "emits inspects (planUnattended E L config user)"
  unfolding planUnattended_def normalizeUnattendedConfig_def normalizeLaunchConfig_def resolveTargetIdentity_def
    validateLaunchDaemonsDirectory_def validateChainLink_def inspectPathNoFollow_def by (intro effects)

lemma onlyAt_removeLoaded: "onlyAt (up_plistPath plan) (removeLoaded E plan)"
  unfolding removeLoaded_def Let_def
  by (intro at_path at_path_keeps onlyAt_keeps [OF keepsFiles_status(2)] onlyAt_keeps keeping)

text \<open>
  C27: a removal never touches anything but an exact property list: either it runs inspections only and changes no file, or
  it is confirmed and run as root, the file at the path had exactly the rendered content, mode and owner before, and no other
  file changes.  So a service whose property list is absent or different is never stopped.
\<close>

theorem unattended_uninstall_exact:
  "let w' = snd (UninstallUnattended E L config user confirmed (w\<lparr>w_trace := []\<rparr>)) in
     (list_all inspects (w_trace w') \<and> w_fs w' = w_fs w)
     \<or> (lm_euid L = 0 \<and> confirmed \<and> (\<exists>(plan :: unattendedPlan) n. exactPlist L (up_plistPath plan) (up_plist plan) w
           \<and> up_plist plan = Text (renderUnattendedPlist (up_config plan) (up_target plan) (up_logPath plan))
           \<and> ti_username (up_target plan) = user \<and> w_fs w' = (w_fs w)(up_plistPath plan := n)))"
proof (cases "lm_euid L = 0 \<and> confirmed")
  case False
  then have "snd (UninstallUnattended E L config user confirmed (w\<lparr>w_trace := []\<rparr>)) = w\<lparr>w_trace := []\<rparr>"
    by (auto simp: UninstallUnattended_def requireRootMutation_def tryA_apply)
  then show ?thesis by (simp add: Let_def)
next
  case True
  let ?absent = "\<lambda>plan e. if errorsIs e ErrNotExist then
      tryA (rawServiceStatus E (systemServiceTarget (up_config plan))) (\<lambda>loaded. case loaded of
        Some _ \<Rightarrow> errA (Msg ''refusing to remove a loaded system service without its exact owned plist'') | None \<Rightarrow> retA ())
    else errA e"
  obtain q w1 where q: "planUnattended E L config user (w\<lparr>w_trace := []\<rparr>) = (q, w1)" by fastforce
  have w1: "w_fs w1 = w_fs w" "list_all inspects (w_trace w1)"
    using keepsFiles_run [OF keepsFiles_plan q] emits_step [OF emits_plan q] by simp_all
  show ?thesis
  proof (cases q)
    case (Inl e)
    then have "snd (UninstallUnattended E L config user confirmed (w\<lparr>w_trace := []\<rparr>)) = w1"
      using True q by (simp add: UninstallUnattended_def requireRootMutation_def tryA_apply)
    then show ?thesis using w1 by simp
  next
    case (Inr plan)
    obtain v w2 where v: "validateManagedPlist E L (up_plistPath plan) (up_plist plan) w1 = (v, w2)" by fastforce
    have w2: "w_fs w2 = w_fs w" "list_all inspects (w_trace w2)"
      using keepsFiles_run [OF keepsFiles_validate(1) v] emits_step [OF emits_validateManaged v] w1 by simp_all
    have run: "UninstallUnattended E L config user confirmed (w\<lparr>w_trace := []\<rparr>)
        = (case v of Inr _ \<Rightarrow> removeLoaded E plan w2 | Inl e \<Rightarrow> ?absent plan e w2)"
      using True q Inr v by (cases v) (simp_all add: UninstallUnattended_def requireRootMutation_def tryA_apply catchA_apply)
    show ?thesis
    proof (cases v)
      case Inl2: (Inl e)
      obtain z w3 where z: "?absent plan e w2 = (z, w3)" by fastforce
      have quietly: "emits inspects (?absent plan e)" "keepsFiles (?absent plan e)" by (intro effects, intro keeping)
      have "w_fs w3 = w_fs w \<and> list_all inspects (w_trace w3)"
        using keepsFiles_run [OF quietly(2) z] emits_step [OF quietly(1) z] w2 by simp
      then show ?thesis using run Inl2 z by simp
    next
      case Inr2: (Inr u)
      obtain n where fs: "w_fs (snd (removeLoaded E plan w2)) = (w_fs w)(up_plistPath plan := n)"
        using onlyAt_update [OF onlyAt_removeLoaded [of plan E], of w2] w2 by metis
      have exact: "exactPlist L (up_plistPath plan) (up_plist plan) w"
        using validateManagedPlist_Inr [OF v [unfolded Inr2]] exactPlist_files [OF w1(1)] by simp
      have run2: "UninstallUnattended E L config user confirmed (w\<lparr>w_trace := []\<rparr>) = removeLoaded E plan w2"
        using run Inr2 by simp
      note planned = planUnattended_Inr [OF q [unfolded Inr]]
      have all: "exactPlist L (up_plistPath plan) (up_plist plan) w
          \<and> up_plist plan = Text (renderUnattendedPlist (up_config plan) (up_target plan) (up_logPath plan))
          \<and> ti_username (up_target plan) = user \<and> w_fs (snd (removeLoaded E plan w2)) = (w_fs w)(up_plistPath plan := n)"
        by (intro conjI exact fs) (use planned in blast)+
      show ?thesis unfolding Let_def run2 using True all by blast
    qed
  qed
qed

end
