(* ===== verification/Firewall.thy ===== *)
theory Firewall
  imports HostAddr Etcd Launchd
begin

text \<open>
  The packet filter rules of a cluster (\<open>firewall.go\<close>).  The rules are data with a text form; \<open>pfDecide\<close> is what
  \<open>pf.conf(5)\<close> documents for rules with \<open>quick\<close>: the first that matches a packet decides.  \<open>pfctl\<close> is a command of the
  world whose standard input is fed; tokens and locks are files of the world.
\<close>

section \<open>Configuration\<close>

record PFConfig =
  pf_Cluster :: string
  pf_Role :: string
  pf_Interface :: string
  pf_LocalIP :: string
  pf_Peers :: "string list"
  pf_APIPort :: int
  pf_VXLANPort :: int
  pf_KubeletPort :: int

text \<open>The interfaces of the host with the addresses of each, or the error of asking for them.\<close>

record 'x pfHost =
  ph_interfaces :: "'x \<Rightarrow> gerror + (string \<times> (gerror + string list)) list"

text \<open>\<open>^[A-Za-z0-9][A-Za-z0-9._-]{0,14}$\<close>\<close>

definition safeInterface :: "string \<Rightarrow> bool" where
  "safeInterface s \<longleftrightarrow> (case s of [] \<Rightarrow> False | c # cs \<Rightarrow> alphanumeric c \<and> length cs \<le> 14
     \<and> list_all (\<lambda>d. alphanumeric d \<or> d \<in> set ''._-'') cs)"

fun parsePeers :: "ipv4 \<Rightarrow> string list \<Rightarrow> gerror + string list" where
  "parsePeers local [] = Inr []"
| "parsePeers local (value # rest) = (case parseIPv4Value value of
     None \<Rightarrow> Inl (Msg ''peer is not a valid IPv4 address'')
   | Some peer \<Rightarrow> if peer = local then Inl (Msg ''peer IP must differ from the local IP'')
       else tryS (parsePeers local rest) (\<lambda>peers. Inr (addrString peer # peers)))"

definition portOk :: "int \<Rightarrow> bool" where
  "portOk port \<longleftrightarrow> 1 \<le> port \<and> port \<le> 65535"

definition normalizePF :: "PFConfig \<Rightarrow> gerror + PFConfig" where
  "normalizePF config0 =
     (let config = config0\<lparr>pf_Interface := orDefault (pf_Interface config0) ''en0''\<rparr> in
      if \<not> dnsLabel (pf_Cluster config) then Inl (Msg ''cluster name must be a lowercase DNS label'')
      else if pf_Role config \<noteq> ''server'' \<and> pf_Role config \<noteq> ''agent'' then Inl (Msg ''role must be server or agent'')
      else if \<not> safeInterface (pf_Interface config) then Inl (Msg ''network interface contains unsupported characters'')
      else (case parseIPv4Value (pf_LocalIP config) of
          None \<Rightarrow> Inl (Msg ''local IP must be a valid IPv4 address'')
        | Some local =>
            if pf_Peers config = [] then Inl (Msg ''at least one peer IPv4 address is required'')
            else tryS (parsePeers local (pf_Peers config)) (\<lambda>peers.
              let config = config\<lparr>pf_LocalIP := addrString local, pf_Peers := sortStrings (remdups peers),
                    pf_APIPort := (if pf_APIPort config = 0 then 16443 else pf_APIPort config),
                    pf_VXLANPort := (if pf_VXLANPort config = 0 then 8472 else pf_VXLANPort config),
                    pf_KubeletPort := (if pf_KubeletPort config = 0 then 10250 else pf_KubeletPort config)\<rparr> in
              if portOk (pf_APIPort config) \<and> portOk (pf_VXLANPort config) \<and> portOk (pf_KubeletPort config) then Inr config
              else Inl (Msg ''port must be between 1 and 65535''))))"

section \<open>Rules\<close>

datatype pfAction = PFPass | PFBlock

datatype pfProto = PFTcp | PFUdp

text \<open>The source of a rule is the table of the peers or any address.\<close>

record pfRule =
  pr_action :: pfAction
  pr_interface :: string
  pr_proto :: pfProto
  pr_peersOnly :: bool
  pr_to :: string
  pr_ports :: "int list"

definition anchorName :: "string \<Rightarrow> string" where
  "anchorName cluster = ''com.apple/apc/'' @ cluster"

definition tableName :: "'x env \<Rightarrow> string \<Rightarrow> string" where
  "tableName E cluster = ''apc_'' @ take 12 (e_sha256 E (Text (''apc/firewall/'' @ cluster))) @ ''_peers''"

definition tcpPorts :: "PFConfig \<Rightarrow> int list" where
  "tcpPorts config = (if pf_Role config = ''server'' then [pf_APIPort config, pf_KubeletPort config] else [pf_KubeletPort config])"

definition pfRules :: "PFConfig \<Rightarrow> pfRule list" where
  "pfRules config = (let rule = (\<lambda>action proto peersOnly ports. \<lparr>pr_action = action, pr_interface = pf_Interface config,
       pr_proto = proto, pr_peersOnly = peersOnly, pr_to = pf_LocalIP config, pr_ports = ports\<rparr>) in
     [rule PFPass PFTcp True (tcpPorts config), rule PFPass PFUdp True [pf_VXLANPort config],
      rule PFBlock PFTcp False (tcpPorts config), rule PFBlock PFUdp False [pf_VXLANPort config]])"

definition pfPorts :: "pfRule \<Rightarrow> string" where
  "pfPorts rule = (case pr_proto rule of
     PFTcp \<Rightarrow> ''{ '' @ joinWith '', '' (map itoa (pr_ports rule)) @ '' }'' | PFUdp \<Rightarrow> itoa (hd (pr_ports rule)))"

definition renderRule :: "string \<Rightarrow> pfRule \<Rightarrow> string" where
  "renderRule table rule = (case pr_action rule of PFPass \<Rightarrow> ''pass in quick on '' | PFBlock \<Rightarrow> ''block in quick log on '')
     @ pr_interface rule @ '' inet proto '' @ (case pr_proto rule of PFTcp \<Rightarrow> ''tcp'' | PFUdp \<Rightarrow> ''udp'')
     @ '' from '' @ (if pr_peersOnly rule then ''<'' @ table @ ''>'' else ''any'') @ '' to '' @ pr_to rule @ '' port '' @ pfPorts rule
     @ (case pr_action rule of PFBlock \<Rightarrow> [] | PFPass \<Rightarrow> (case pr_proto rule of PFTcp \<Rightarrow> '' flags S/SA keep state'' | PFUdp \<Rightarrow> '' keep state''))"

definition pfText :: "string \<Rightarrow> PFConfig \<Rightarrow> string" where
  "pfText table config = xmlLines
     ([''# APC managed rules for '' @ pf_Cluster config @ '' ('' @ pf_Role config @ '')'',
       ''table <'' @ table @ ''> const { '' @ joinWith '', '' (pf_Peers config) @ '' }''] @ map (renderRule table) (pfRules config))"

text \<open>The first interface that has the address.\<close>

fun interfaceWith :: "int \<Rightarrow> (string \<times> (gerror + string list)) list \<Rightarrow> string option" where
  "interfaceWith target [] = None"
| "interfaceWith target ((name, addresses) # rest) =
     (case addresses of Inl _ \<Rightarrow> interfaceWith target rest
      | Inr values \<Rightarrow> if list_ex (addressIs target) values then Some name else interfaceWith target rest)"

definition pfInterfaceForIP :: "'x pfHost \<Rightarrow> string \<Rightarrow> ('x, string) op" where
  "pfInterfaceForIP P address = (case parseIP address of
     None \<Rightarrow> errA (Msg ''local IP must be a valid IP address'')
   | Some target \<Rightarrow> tryWrapA ''list host network interfaces'' (tryA (askExt (ph_interfaces P)) liftA) (\<lambda>interfaces.
       case interfaceWith target interfaces of
         None \<Rightarrow> errA (Msg ''local IP is not assigned to a host network interface'')
       | Some name \<Rightarrow> if \<not> safeInterface name then errA (Msg ''resolved network interface contains unsupported characters'')
           else retA name))"

definition resolvedPF :: "'x pfHost \<Rightarrow> PFConfig \<Rightarrow> ('x, PFConfig) op" where
  "resolvedPF P config0 = tryA (liftA (normalizePF config0)) (\<lambda>config.
     if pf_Interface config = ''auto''
     then tryA (pfInterfaceForIP P (pf_LocalIP config)) (\<lambda>name. retA (config\<lparr>pf_Interface := name\<rparr>)) else retA config)"

definition RenderPF :: "'x env \<Rightarrow> 'x pfHost \<Rightarrow> PFConfig \<Rightarrow> ('x, string) op" where
  "RenderPF E P config0 = tryA (resolvedPF P config0) (\<lambda>config. retA (pfText (tableName E (pf_Cluster config)) config))"

section \<open>What the rules decide\<close>

record pfPacket =
  pk_interface :: string
  pk_proto :: pfProto
  pk_source :: string
  pk_target :: string
  pk_port :: int

definition pfMatches :: "string list \<Rightarrow> pfRule \<Rightarrow> pfPacket \<Rightarrow> bool" where
  "pfMatches peers rule p \<longleftrightarrow> pk_interface p = pr_interface rule \<and> pk_proto p = pr_proto rule
     \<and> (if pr_peersOnly rule then pk_source p \<in> set peers else True) \<and> pk_target p = pr_to rule \<and> pk_port p \<in> set (pr_ports rule)"

fun pfDecide :: "string list \<Rightarrow> pfRule list \<Rightarrow> pfPacket \<Rightarrow> pfAction option" where
  "pfDecide peers [] p = None"
| "pfDecide peers (rule # rest) p = (if pfMatches peers rule p then Some (pr_action rule) else pfDecide peers rest p)"

section \<open>Commands\<close>

definition feedInput :: "'x env \<Rightarrow> string \<Rightarrow> ('x, unit) op" where
  "feedInput E text = updA (\<lambda>w. w\<lparr>w_ext := e_feed E (w_ext w) (Text text)\<rparr>)"

definition runPF :: "'x env \<Rightarrow> string \<Rightarrow> string \<Rightarrow> string list \<Rightarrow> ('x, unit) op" where
  "runPF E msg stdin args = tryA (feedInput E stdin) (\<lambda>_. tryA (runCmd E None (''/sbin/pfctl'' # args)) (\<lambda>res. case cr_err res of
     None \<Rightarrow> retA ()
   | Some e \<Rightarrow> errA (commandError msg (docText (cr_stdout res) @ cr_stderr res) e)))"

definition ValidatePF :: "'x env \<Rightarrow> string \<Rightarrow> ('x, unit) op" where
  "ValidatePF E rules = runPF E ''validate PF rules'' rules [''-vnf'', ''-'']"

text \<open>A command both of whose outputs are read.\<close>

definition runCommand :: "'x env \<Rightarrow> string \<Rightarrow> string list \<Rightarrow> ('x, string) op" where
  "runCommand E msg args = tryA (runCmd E None args) (\<lambda>res. let text = docText (cr_stdout res) @ cr_stderr res in
     case cr_err res of None \<Rightarrow> retA text | Some e \<Rightarrow> errA (commandError msg text e))"

section \<open>The reference to the packet filter\<close>

definition tokenPath :: "string \<Rightarrow> string" where
  "tokenPath cluster = joinPath [''/var/run'', ''apc-firewall-'' @ cluster @ ''.token'']"

definition safeToken :: "string \<Rightarrow> bool" where
  "safeToken token \<longleftrightarrow> trimSpace token \<noteq> [] \<and> list_all isDigit (trimSpace token)"

text \<open>The first match of \<open>Token\s*:\s*([0-9]+)\<close>.\<close>

definition tokenAt :: "string \<Rightarrow> string option" where
  "tokenAt s = (if \<not> hasPrefix s ''Token'' then None
     else (case dropWhile isSpace (drop 5 s) of
        [] \<Rightarrow> None
      | c # rest \<Rightarrow> let digits = takeWhile isDigit (dropWhile isSpace rest) in
          if c = CHR '':'' \<and> digits \<noteq> [] then Some digits else None))"

fun pfToken :: "string \<Rightarrow> string option" where
  "pfToken [] = None"
| "pfToken (c # s) = (case tokenAt (c # s) of Some token \<Rightarrow> Some token | None \<Rightarrow> pfToken s)"

definition trimChars :: "string \<Rightarrow> string \<Rightarrow> string" where
  "trimChars cutset s = (let p = (\<lambda>c. c \<in> set cutset) in rev (dropWhile p (rev (dropWhile p s))))"

definition referenceContains :: "string \<Rightarrow> string \<Rightarrow> bool" where
  "referenceContains text token \<longleftrightarrow> list_ex (\<lambda>field. trimChars ''[](),'' field = token) (GoStrings.fields text)"

text \<open>A file that is complete and owned by root before it gets its name.\<close>

definition ownedByRoot :: "int \<Rightarrow> fileInfo \<Rightarrow> fileInfo" where
  "ownedByRoot mode info = info\<lparr>fi_perm := mode, fi_uid := 0, fi_gid := 0\<rparr>"

definition writeToken :: "'x env \<Rightarrow> string \<Rightarrow> string \<Rightarrow> ('x, unit) op" where
  "writeToken E path token =
     tryWrapA ''create PF reference token'' (rawCall E ''create'' path) (\<lambda>_.
     tryWrapA ''write PF reference token'' (rawCall E ''write'' path) (\<lambda>_.
     tryWrapA ''protect PF reference token'' (rawCall E ''chmod'' path) (\<lambda>_.
     tryWrapA ''own PF reference token'' (rawCall E ''chown'' path) (\<lambda>_.
     tryWrapA ''sync PF reference token'' (rawCall E ''sync'' path) (\<lambda>_.
     tryWrapA ''close PF reference token'' (rawCall E ''close'' path) (\<lambda>_.
     tryWrapA ''publish PF reference token'' (rawCall E ''rename'' path) (\<lambda>_.
     placeWithInfo E path (ownedByRoot 384) (Text (token @ [CHR 0x0A])))))))))"

definition enablePF :: "'x env \<Rightarrow> string \<Rightarrow> ('x, unit) op" where
  "enablePF E path =
     tryA (runCommand E ''enable PF'' [''/sbin/pfctl'', ''-E'']) (\<lambda>text. case pfToken text of
       None \<Rightarrow> errA (Msg ''enable PF: pfctl did not return a reference token'')
     | Some token \<Rightarrow> catchA (writeToken E path token) (\<lambda>r. case r of
         Inr _ \<Rightarrow> retA ()
       | Inl e \<Rightarrow> catchA (runPF E ''configure PF'' [] [''-X'', token]) (\<lambda>_. errA e)))"

definition acquirePFReference :: "'x env \<Rightarrow> string \<Rightarrow> ('x, unit) op" where
  "acquirePFReference E cluster = (let path = tokenPath cluster in
     catchA (readFile E path) (\<lambda>r. case r of
       Inl e \<Rightarrow> if errorsIs e ErrNotExist then enablePF E path else errA (Wrap ''read PF reference token'' e)
     | Inr token \<Rightarrow>
         if \<not> safeToken (docText token) then enablePF E path
         else tryA (runCommand E ''verify PF reference token'' [''/sbin/pfctl'', ''-s'', ''References'']) (\<lambda>text.
           if referenceContains text (trimSpace (docText token)) then retA ()
           else tryA (removeIfPresent E ''remove stale PF reference token'' path) (\<lambda>_. enablePF E path))))"

definition releasePFReference :: "'x env \<Rightarrow> string \<Rightarrow> ('x, unit) op" where
  "releasePFReference E cluster = (let path = tokenPath cluster in
     catchA (readFile E path) (\<lambda>r. case r of
       Inl e \<Rightarrow> if errorsIs e ErrNotExist then retA () else errA (Wrap ''read PF reference token'' e)
     | Inr token \<Rightarrow>
         if \<not> safeToken (docText token) then errA (Msg ''PF reference token is invalid; refusing to pass it to pfctl'')
         else tryA (runPF E ''configure PF'' [] [''-X'', trimSpace (docText token)]) (\<lambda>_.
           removeIfPresent E ''remove PF reference token'' path)))"

section \<open>Loading and removing the rules\<close>

definition clusterLockPath :: "string \<Rightarrow> string" where
  "clusterLockPath cluster = joinPath [''/var/run'', ''apc-firewall-'' @ cluster @ ''.lock'']"

definition withClusterLock :: "'x env \<Rightarrow> string \<Rightarrow> ('x, 'a) op \<Rightarrow> ('x, 'a) op" where
  "withClusterLock E cluster action = (let path = clusterLockPath cluster in
     tryWrapA ''open PF cluster lock'' (rawCall E ''open'' path) (\<lambda>_.
     tryWrapA ''lock PF cluster state'' (tryA (queryExt (\<lambda>x. e_lock E x path)) liftA) (\<lambda>_.
     tryA (emitEvent (Locked path)) (\<lambda>_.
     catchA action (\<lambda>r.
     tryA (emitEvent (Unlocked path)) (\<lambda>_.
     tryA (queryExt (\<lambda>x. e_unlock E x path)) (\<lambda>_. liftA r)))))))"

definition loadRules :: "'x env \<Rightarrow> string \<Rightarrow> string \<Rightarrow> ('x, unit) op" where
  "loadRules E cluster rules =
     tryA (runPF E ''configure PF'' rules [''-a'', anchorName cluster, ''-f'', ''-'']) (\<lambda>_.
     catchA (acquirePFReference E cluster) (\<lambda>r. case r of
       Inr _ \<Rightarrow> retA ()
     | Inl e \<Rightarrow> catchA (runPF E ''configure PF'' [] [''-a'', anchorName cluster, ''-F'', ''rules'']) (\<lambda>_. errA e)))"

definition ApplyPF :: "'x env \<Rightarrow> 'x pfHost \<Rightarrow> PFConfig \<Rightarrow> ('x, unit) op" where
  "ApplyPF E P config =
     tryA (RenderPF E P config) (\<lambda>rules.
     tryA (ValidatePF E rules) (\<lambda>_.
     if e_euid E \<noteq> 0 then errA (Msg ''loading PF rules requires root; rerun this exact command with sudo'')
     else withClusterLock E (pf_Cluster config) (loadRules E (pf_Cluster config) rules)))"

definition unloadRules :: "'x env \<Rightarrow> string \<Rightarrow> ('x, unit) op" where
  "unloadRules E cluster = tryA (runPF E ''configure PF'' [] [''-a'', anchorName cluster, ''-F'', ''rules'']) (\<lambda>_.
     releasePFReference E cluster)"

definition RemovePF :: "'x env \<Rightarrow> string \<Rightarrow> ('x, unit) op" where
  "RemovePF E cluster =
     (if \<not> dnsLabel cluster then errA (Msg ''cluster name must be a lowercase DNS label'')
      else if e_euid E \<noteq> 0 then errA (Msg ''removing PF rules requires root; rerun this exact command with sudo'')
      else withClusterLock E cluster (unloadRules E cluster))"

end
