(* ===== verification/FirewallInstall.thy ===== *)
theory FirewallInstall
  imports Firewall Unattended
begin

text \<open>
  The launch daemon that keeps the rules of a cluster loaded (\<open>persistence.go\<close>): its property list, the privileged copy of the program it runs,
  installation with rollback, verification and removal.
\<close>

section \<open>Paths and names\<close>

definition helperPath :: string where
  "helperPath = ''/Library/PrivilegedHelperTools/dev.apc.firewall''"

definition helperDirectory :: string where
  "helperDirectory = ''/Library/PrivilegedHelperTools''"

definition daemonLabel :: "string \<Rightarrow> string" where
  "daemonLabel cluster = ''dev.apc.firewall.'' @ cluster"

definition daemonPath :: "string \<Rightarrow> string" where
  "daemonPath cluster = joinPath [''/Library/LaunchDaemons'', daemonLabel cluster @ ''.plist'']"

definition daemonTarget :: "string \<Rightarrow> string" where
  "daemonTarget cluster = ''system/'' @ daemonLabel cluster"

section \<open>The property list\<close>

definition daemonArguments :: "PFConfig \<Rightarrow> string list" where
  "daemonArguments config =
     [helperPath, ''--cluster'', pf_Cluster config, ''system'', ''firewall'', ''apply'',
      ''--role'', pf_Role config, ''--interface'', pf_Interface config, ''--local-ip'', pf_LocalIP config,
      ''--api-port'', itoa (pf_APIPort config), ''--vxlan-port'', itoa (pf_VXLANPort config),
      ''--kubelet-port'', itoa (pf_KubeletPort config), ''--yes'']
     @ concat (map (\<lambda>peer. [''--peer'', peer]) (pf_Peers config))"

definition RenderLaunchDaemon :: "PFConfig \<Rightarrow> string" where
  "RenderLaunchDaemon config = xmlLines (plistHead
     @ [xmlString ''  '' (daemonLabel (pf_Cluster config)), ''  <key>ProgramArguments</key>'', ''  <array>'']
     @ map (xmlString ''    '') (daemonArguments config)
     @ [''  </array>'', ''  <key>RunAtLoad</key>'', ''  <true/>'', ''  <key>StartInterval</key>'', ''  <integer>30</integer>'',
        ''  <key>ProcessType</key>'', ''  <string>Background</string>'', ''</dict>'', ''</plist>''])"

section \<open>Commands and files\<close>

definition runLaunchctl :: "'x env \<Rightarrow> string list \<Rightarrow> ('x, string) op" where
  "runLaunchctl E args = runCommand E ''configure PF LaunchDaemon'' (''/bin/launchctl'' # args)"

definition daemonNotFound :: "gerror \<Rightarrow> bool" where
  "daemonNotFound e = (let value = toLower (errorText e) in
     containsStr value ''could not find service'' \<or> containsStr value ''no such process''
     \<or> containsStr value ''service cannot load in requested session'')"

definition writeAtomic :: "'x env \<Rightarrow> string \<Rightarrow> document \<Rightarrow> int \<Rightarrow> ('x, unit) op" where
  "writeAtomic E path data mode =
     tryA (rawCall E ''create'' path) (\<lambda>_.
     tryA (rawCall E ''write'' path) (\<lambda>_.
     tryA (rawCall E ''chmod'' path) (\<lambda>_.
     tryA (rawCall E ''chown'' path) (\<lambda>_.
     tryA (rawCall E ''close'' path) (\<lambda>_.
     tryA (rawCall E ''rename'' path) (\<lambda>_.
     placeWithInfo E path (ownedByRoot mode) data))))))"

definition verifyRootFile :: "'x env \<Rightarrow> string \<Rightarrow> int \<Rightarrow> ('x, unit) op" where
  "verifyRootFile E path expectedMode = tryA (statFile E path) (\<lambda>info.
     if fi_symlink info \<or> \<not> fi_regular info then errA (Msg ''file is not a regular file'')
     else if fi_perm info \<noteq> expectedMode then errA (Msg ''file has another mode than expected'')
     else if fi_uid info \<noteq> 0 \<or> fi_gid info \<noteq> 0 then errA (Msg ''file must be owned by root:wheel'')
     else retA ())"

section \<open>The privileged copy of the program\<close>

text \<open>A call on what is at a path, and a new directory there.\<close>

definition changeInfo :: "'x env \<Rightarrow> string \<Rightarrow> string \<Rightarrow> (fileInfo \<Rightarrow> fileInfo) \<Rightarrow> ('x, unit) op" where
  "changeInfo E call path f = tryA (rawCall E call path) (\<lambda>_. tryA (getA (\<lambda>w. w_fs w path)) (\<lambda>n.
     if n = None then errA ErrNotExist else setInfo path f))"

definition makeDirectory :: "'x env \<Rightarrow> string \<Rightarrow> ('x, unit) op" where
  "makeDirectory E path = tryA (rawCall E ''mkdir'' path) (\<lambda>_.
     placeWithInfo E path (\<lambda>info. info\<lparr>fi_regular := False, fi_dir := True, fi_perm := 493\<rparr>) (Text []))"

definition createHelperDirectory :: "'x env \<Rightarrow> ('x, unit) op" where
  "createHelperDirectory E = catchA (makeDirectory E helperDirectory) (\<lambda>r.
     if (case r of Inl e \<Rightarrow> \<not> errorsIs e (Msg ''file exists'') | Inr _ \<Rightarrow> False)
     then tryWrapA ''create privileged helper directory'' (liftA r) (\<lambda>_. retA ())
     else tryWrapA ''own privileged helper directory'' (changeInfo E ''chown'' helperDirectory (\<lambda>i. i\<lparr>fi_uid := 0, fi_gid := 0\<rparr>)) (\<lambda>_.
          tryWrapA ''protect privileged helper directory'' (changeInfo E ''chmod'' helperDirectory (\<lambda>i. i\<lparr>fi_perm := 493\<rparr>)) (\<lambda>_. retA ())))"

definition ensurePrivilegedHelperDirectory :: "'x env \<Rightarrow> ('x, unit) op" where
  "ensurePrivilegedHelperDirectory E =
     catchA (statFile E helperDirectory) (\<lambda>r0.
     tryA (case r0 of Inl e \<Rightarrow> if errorsIs e ErrNotExist then createHelperDirectory E else retA () | Inr _ \<Rightarrow> retA ()) (\<lambda>_.
     catchA (case r0 of Inl e \<Rightarrow> if errorsIs e ErrNotExist then statFile E helperDirectory else errA e | Inr info \<Rightarrow> retA info) (\<lambda>r.
     tryWrapA ''inspect privileged helper directory'' (liftA r) (\<lambda>info.
     if \<not> fi_dir info \<or> fi_symlink info then errA (Msg ''privileged helper directory is not a real directory'')
     else if fi_uid info \<noteq> 0 \<or> fi_gid info \<noteq> 0 then errA (Msg ''privileged helper directory must be owned by root:wheel'')
     else if fi_perm info \<noteq> 493 then errA (Msg ''privileged helper directory has another mode than 0755'')
     else retA ()))))"

definition installHelper :: "'x env \<Rightarrow> string \<Rightarrow> ('x, unit) op" where
  "installHelper E source =
     tryA (ensurePrivilegedHelperDirectory E) (\<lambda>_.
     tryWrapA ''open APC executable'' (rawCall E ''open'' source) (\<lambda>_.
     tryWrapA ''create privileged helper'' (rawCall E ''create'' helperPath) (\<lambda>_.
     tryWrapA ''copy privileged helper'' (tryA (readFile E source) (\<lambda>data. tryA (rawCall E ''write'' helperPath) (\<lambda>_. retA data))) (\<lambda>data.
     tryWrapA ''protect privileged helper'' (rawCall E ''chmod'' helperPath) (\<lambda>_.
     tryWrapA ''own privileged helper'' (rawCall E ''chown'' helperPath) (\<lambda>_.
     tryWrapA ''sync privileged helper'' (rawCall E ''sync'' helperPath) (\<lambda>_.
     tryWrapA ''close privileged helper'' (rawCall E ''close'' helperPath) (\<lambda>_.
     tryWrapA ''publish privileged helper'' (rawCall E ''rename'' helperPath) (\<lambda>_.
     placeWithInfo E helperPath (ownedByRoot 493) data)))))))))"

section \<open>Verification\<close>

record InstallationStatus =
  is_Cluster :: string
  is_Anchor :: string
  is_DaemonLabel :: string
  is_PlistPath :: string
  is_HelperPath :: string
  is_RuleCount :: int
  is_ReferenceSet :: bool

definition requiredValues :: "string \<Rightarrow> string list" where
  "requiredValues cluster = [helperPath, daemonLabel cluster, ''<string>firewall</string>'', ''<string>apply</string>'', ''<string>--yes</string>'']"

definition countRules :: "string \<Rightarrow> nat" where
  "countRules rules = length (filter (\<lambda>line. trimSpace line \<noteq> []) (splitOn (CHR 0x0A) (trimSpace rules)))"

definition completeRules :: "string \<Rightarrow> bool" where
  "completeRules rules \<longleftrightarrow> 4 \<le> countRules rules \<and> containsStr rules ''pass in quick'' \<and> containsStr rules ''block''"

definition verifyReference :: "'x env \<Rightarrow> string \<Rightarrow> ('x, unit) op" where
  "verifyReference E cluster =
     tryWrapA ''verify PF reference token'' (verifyRootFile E (tokenPath cluster) 384) (\<lambda>_.
     tryWrapA ''read PF reference token'' (readFile E (tokenPath cluster)) (\<lambda>token.
     if \<not> safeToken (docText token) then errA (Msg ''PF reference token is invalid'')
     else tryA (runCommand E ''read PF references'' [''/sbin/pfctl'', ''-s'', ''References'']) (\<lambda>references.
       if \<not> referenceContains references (trimSpace (docText token))
       then errA (Msg ''PF reference token is not held by the running packet filter'') else retA ())))"

definition verifyDaemon :: "'x env \<Rightarrow> string \<Rightarrow> ('x, unit) op" where
  "verifyDaemon E cluster =
     tryWrapA ''verify privileged helper'' (verifyRootFile E helperPath 493) (\<lambda>_.
     tryWrapA ''verify PF LaunchDaemon'' (verifyRootFile E (daemonPath cluster) 420) (\<lambda>_.
     tryWrapA ''read PF LaunchDaemon'' (readFile E (daemonPath cluster)) (\<lambda>plist.
     if \<not> list_all (containsStr (docText plist)) (requiredValues cluster) then errA (Msg ''PF LaunchDaemon is missing a required value'')
     else tryA (runCommand E ''validate PF LaunchDaemon'' [''/usr/bin/plutil'', ''-lint'', daemonPath cluster]) (\<lambda>_.
       tryA (runLaunchctl E [''print'', daemonTarget cluster]) (\<lambda>_. retA ())))))"

text \<open>The status of a failed verification has no reader: only that of a complete one is a value here.\<close>

definition VerifyPF :: "'x env \<Rightarrow> string \<Rightarrow> ('x, InstallationStatus) op" where
  "VerifyPF E cluster =
     (if \<not> dnsLabel cluster then errA (Msg ''cluster name must be a lowercase DNS label'')
      else if e_euid E \<noteq> 0 then errA (Msg ''verifying the PF installation requires root; rerun this exact command with sudo'')
      else tryA (verifyDaemon E cluster) (\<lambda>_.
        tryA (runCommand E ''read APC PF anchor'' [''/sbin/pfctl'', ''-a'', anchorName cluster, ''-sr'']) (\<lambda>rules.
        if \<not> completeRules rules then errA (Msg ''PF anchor does not contain the complete allow/block rules'')
        else tryA (verifyReference E cluster) (\<lambda>_.
          retA \<lparr>is_Cluster = cluster, is_Anchor = anchorName cluster, is_DaemonLabel = daemonLabel cluster,
                is_PlistPath = daemonPath cluster, is_HelperPath = helperPath, is_RuleCount = int (countRules rules),
                is_ReferenceSet = True\<rparr>))))"

section \<open>Installation\<close>

definition restorePrevious :: "'x env \<Rightarrow> string \<Rightarrow> document option \<Rightarrow> ('x, unit) op" where
  "restorePrevious E cluster previous = (case previous of
     Some data \<Rightarrow> tryA (writeAtomic E (daemonPath cluster) data 420) (\<lambda>_.
       tryA (runLaunchctl E [''bootstrap'', ''system'', daemonPath cluster]) (\<lambda>_.
       tryA (runLaunchctl E [''kickstart'', ''-k'', daemonTarget cluster]) (\<lambda>_. retA ())))
   | None \<Rightarrow> catchA (removeFile E (daemonPath cluster)) (\<lambda>r. case r of
       Inl e \<Rightarrow> if errorsIs e ErrNotExist then retA () else errA e | Inr _ \<Rightarrow> retA ()))"

definition rollback :: "'x env \<Rightarrow> string \<Rightarrow> document option \<Rightarrow> gerror \<Rightarrow> ('x, 'a) op" where
  "rollback E cluster previous cause =
     catchA (runLaunchctl E [''bootout'', daemonTarget cluster]) (\<lambda>_.
     catchA (restorePrevious E cluster previous) (\<lambda>r. case r of
       Inl e \<Rightarrow> errA (Joined [cause, Wrap ''restore previous PF LaunchDaemon'' e])
     | Inr _ \<Rightarrow> errA cause))"

text \<open>A step that is rolled back when it fails.\<close>

definition orRollback :: "'x env \<Rightarrow> string \<Rightarrow> document option \<Rightarrow> ('x, 'b) op \<Rightarrow> ('b \<Rightarrow> ('x, 'a) op) \<Rightarrow> ('x, 'a) op" where
  "orRollback E cluster previous m f = catchA m (\<lambda>r. case r of Inl e \<Rightarrow> rollback E cluster previous e | Inr x \<Rightarrow> f x)"

definition bootoutDaemon :: "'x env \<Rightarrow> string \<Rightarrow> ('x, unit) op" where
  "bootoutDaemon E cluster = catchA (runLaunchctl E [''bootout'', daemonTarget cluster]) (\<lambda>r. case r of
     Inl e \<Rightarrow> if daemonNotFound e then retA () else errA e | Inr _ \<Rightarrow> retA ())"

definition verifyOrRemove :: "'x env \<Rightarrow> string \<Rightarrow> ('x, unit) op" where
  "verifyOrRemove E cluster = catchA (VerifyPF E cluster) (\<lambda>r. case r of
     Inl e \<Rightarrow> catchA (RemovePF E cluster) (\<lambda>_. errA e) | Inr _ \<Rightarrow> retA ())"

definition activateDaemon :: "'x env \<Rightarrow> 'x pfHost \<Rightarrow> PFConfig \<Rightarrow> document option \<Rightarrow> ('x, string) op" where
  "activateDaemon E P config previous = (let cluster = pf_Cluster config in
     orRollback E cluster previous (bootoutDaemon E cluster) (\<lambda>_.
     orRollback E cluster previous (runLaunchctl E [''bootstrap'', ''system'', daemonPath cluster]) (\<lambda>_.
     orRollback E cluster previous (runLaunchctl E [''enable'', daemonTarget cluster]) (\<lambda>_.
     orRollback E cluster previous (runLaunchctl E [''kickstart'', ''-k'', daemonTarget cluster]) (\<lambda>_.
     orRollback E cluster previous (ApplyPF E P config) (\<lambda>_.
     orRollback E cluster previous (verifyOrRemove E cluster) (\<lambda>_. retA (daemonPath cluster))))))))"

definition publishDaemon :: "'x env \<Rightarrow> 'x pfHost \<Rightarrow> PFConfig \<Rightarrow> document option \<Rightarrow> ('x, string) op" where
  "publishDaemon E P config previous =
     tryWrapA ''install PF LaunchDaemon'' (writeAtomic E (daemonPath (pf_Cluster config)) (Text (RenderLaunchDaemon config)) 420) (\<lambda>_.
     activateDaemon E P config previous)"

definition readPrevious :: "'x env \<Rightarrow> string \<Rightarrow> ('x, document option) op" where
  "readPrevious E path = catchA (readFile E path) (\<lambda>r. case r of
     Inl e \<Rightarrow> if errorsIs e ErrNotExist then retA None else errA (Wrap ''read existing PF LaunchDaemon'' e)
   | Inr data \<Rightarrow> retA (Some data))"

definition checkedExecutable :: "'x env \<Rightarrow> string \<Rightarrow> ('x, string) op" where
  "checkedExecutable E path =
     tryWrapA ''resolve APC executable'' (tryA (askExt (\<lambda>x. e_evalLinks E x path)) liftA) (\<lambda>resolved.
     tryWrapA ''inspect APC executable'' (statFile E resolved) (\<lambda>info.
     if \<not> fi_regular info \<or> \<not> executable (fi_perm info) then errA (Msg ''APC executable must be an executable regular file'')
     else retA resolved))"

definition InstallPF :: "'x env \<Rightarrow> 'x pfHost \<Rightarrow> PFConfig \<Rightarrow> string \<Rightarrow> ('x, string) op" where
  "InstallPF E P config0 path =
     tryA (liftA (normalizePF config0)) (\<lambda>config.
     if e_euid E \<noteq> 0 then errA (Msg ''installing the PF LaunchDaemon requires root; rerun this exact command with sudo'')
     else tryA (checkedExecutable E path) (\<lambda>resolved.
       tryA (installHelper E resolved) (\<lambda>_.
       tryA (readPrevious E (daemonPath (pf_Cluster config))) (\<lambda>previous.
       publishDaemon E P config previous))))"

section \<open>Removal\<close>

definition UninstallPF :: "'x env \<Rightarrow> string \<Rightarrow> ('x, unit) op" where
  "UninstallPF E cluster =
     (if \<not> dnsLabel cluster then errA (Msg ''cluster name must be a lowercase DNS label'')
      else if e_euid E \<noteq> 0 then errA (Msg ''uninstalling the PF LaunchDaemon requires root; rerun this exact command with sudo'')
      else tryA (bootoutDaemon E cluster) (\<lambda>_.
        catchA (RemovePF E cluster) (\<lambda>r. case r of
          Inl e \<Rightarrow> catchA (statFile E (daemonPath cluster)) (\<lambda>rs. case rs of
              Inl _ \<Rightarrow> errA e
            | Inr _ \<Rightarrow> catchA (runLaunchctl E [''bootstrap'', ''system'', daemonPath cluster]) (\<lambda>_.
                catchA (runLaunchctl E [''kickstart'', ''-k'', daemonTarget cluster]) (\<lambda>_. errA e)))
        | Inr _ \<Rightarrow> removeIfPresent E ''remove PF LaunchDaemon'' (daemonPath cluster))))"

end
