(* ===== verification/FirewallProps.thy ===== *)
theory FirewallProps
  imports FirewallInstall UnattendedProps
begin

text \<open>
  What the rendered rules mean, read back from their text, and what an installation leaves behind when it fails.
\<close>

section \<open>Reading the rules\<close>

text \<open>
  The words of a line of \<open>pf.conf(5)\<close>, where a comma separates like a space, and the two forms of line the program uses: a constant table, and a rule
  with \<open>quick\<close>, an interface, a protocol, a source that is a table or \<open>any\<close>, a target and ports.
\<close>

definition pfWords :: "string \<Rightarrow> string list" where
  "pfWords line = GoStrings.fields (map (\<lambda>c. if c = CHR '','' then CHR '' '' else c) line)"

definition readTable :: "string list \<Rightarrow> (string \<times> string list) option" where
  "readTable ws = (case ws of
     kt # name # kc # open # rest \<Rightarrow>
       if kt = ''table'' \<and> kc = ''const'' \<and> open = ''{'' \<and> rest \<noteq> [] \<and> last rest = ''}'' then Some (name, butlast rest) else None
   | _ \<Rightarrow> None)"

definition readAction :: "string list \<Rightarrow> (pfAction \<times> string list) option" where
  "readAction ws = (if take 4 ws = [''pass'', ''in'', ''quick'', ''on''] then Some (PFPass, drop 4 ws)
     else if take 5 ws = [''block'', ''in'', ''quick'', ''log'', ''on''] then Some (PFBlock, drop 5 ws) else None)"

definition readPorts :: "string list \<Rightarrow> int option list" where
  "readPorts ws = (case ws of [] \<Rightarrow> [] | w # rest \<Rightarrow> map atoi (if w = ''{'' then takeWhile (\<lambda>v. v \<noteq> ''}'') rest else [w]))"

definition readRule :: "string \<Rightarrow> string list \<Rightarrow> pfRule option" where
  "readRule table ws = (case readAction ws of
     Some (action, name # ki # kp # proto # kf # src # kt # dst # ko # ports) \<Rightarrow>
       if ki = ''inet'' \<and> kp = ''proto'' \<and> kf = ''from'' \<and> kt = ''to'' \<and> ko = ''port'' \<and> (proto = ''tcp'' \<or> proto = ''udp'')
          \<and> (src = table \<or> src = ''any'') \<and> None \<notin> set (readPorts ports)
       then Some \<lparr>pr_action = action, pr_interface = name, pr_proto = (if proto = ''tcp'' then PFTcp else PFUdp),
         pr_peersOnly = (src = table), pr_to = dst, pr_ports = map the (readPorts ports)\<rparr>
       else None
   | _ \<Rightarrow> None)"

text \<open>A text of rules: lines that start with \<open>#\<close> are comments.\<close>

definition readPF :: "string \<Rightarrow> (string list \<times> pfRule list) option" where
  "readPF text = (case map pfWords (filter (\<lambda>l. l \<noteq> [] \<and> hd l \<noteq> CHR ''#'') (splitOn (CHR 0x0A) text)) of
     [] \<Rightarrow> None
   | first # rest \<Rightarrow> (case readTable first of None \<Rightarrow> None
       | Some (name, sources) \<Rightarrow> if None \<in> set (map (readRule name) rest) then None
           else Some (sources, map (the \<circ> readRule name) rest)))"

section \<open>Words\<close>

definition plainWord :: "string \<Rightarrow> bool" where
  "plainWord w \<longleftrightarrow> w \<noteq> [] \<and> list_all (\<lambda>c. \<not> isSpace c \<and> c \<noteq> CHR '','' \<and> c \<noteq> CHR ''{'' \<and> c \<noteq> CHR ''}'' \<and> c \<noteq> CHR 0x0A) w"

lemma fieldsAcc_word: "list_all (\<lambda>c. \<not> isSpace c) w \<Longrightarrow> fieldsAcc cur (w @ rest) = fieldsAcc (rev w @ cur) rest"
  by (induction w arbitrary: cur) auto

abbreviation comma :: "char \<Rightarrow> char" where
  "comma \<equiv> \<lambda>c. if c = CHR '','' then CHR '' '' else c"

lemma isSpace_blank: "isSpace CHR '' ''"
  by (simp add: isSpace_def)

lemma comma_plain: "plainWord w \<Longrightarrow> map comma w = w"
  by (rule map_idI) (auto simp: plainWord_def list_all_iff)

lemma pfWords_first:
  assumes "plainWord w"
  shows "pfWords (w @ '' '' @ s) = w # pfWords s" "pfWords w = [w]" "pfWords (w @ '', '' @ s) = w # pfWords s"
proof -
  have w: "list_all (\<lambda>c. \<not> isSpace c) w" "w \<noteq> []" using assms by (auto simp: plainWord_def list_all_iff)
  show "pfWords (w @ '' '' @ s) = w # pfWords s" "pfWords (w @ '', '' @ s) = w # pfWords s"
    using w by (simp_all add: pfWords_def GoStrings.fields_def comma_plain [OF assms] fieldsAcc_word isSpace_blank)
  show "pfWords w = [w]"
    using fieldsAcc_word [OF w(1), of "[]" "[]"] w by (simp add: pfWords_def GoStrings.fields_def comma_plain [OF assms])
qed

lemma plain_natToDec: "plainWord (natToDec n)"
  using natToDec_digits [of n] by (auto simp: plainWord_def list_all_iff isDigit_def isSpace_def)

lemma plain_append: "plainWord v \<Longrightarrow> plainWord w \<Longrightarrow> plainWord (v @ w)"
  by (simp add: plainWord_def)

lemma plain_itoa: "plainWord (itoa i)"
  using plain_natToDec [of i] plain_append [of "''-''", OF _ plain_natToDec [of "- i"]]
  by (simp add: itoa_def plainWord_def isSpace_def)

lemma plain_addrString: "plainWord (addrString a)"
  unfolding addrString_def Let_def by (intro plain_append plain_natToDec) (simp_all add: plainWord_def isSpace_def)

lemma plain_interface: "safeInterface s \<Longrightarrow> plainWord s"
  by (cases s) (auto simp: safeInterface_def plainWord_def alphanumeric_def isLowerAlpha_def isUpperAlpha_def isDigit_def
    isSpace_def list_all_iff)

lemma fieldsAcc_braced:
  "ws \<noteq> [] \<Longrightarrow> list_all plainWord ws \<Longrightarrow>
   fieldsAcc [] (map comma (joinWith '', '' ws) @ CHR '' '' # s) = ws @ fieldsAcc [] s"
proof (induction ws)
  case (Cons w ws)
  then have "list_all (\<lambda>c. \<not> isSpace c) w" "w \<noteq> []" "map comma w = w" using comma_plain [of w] by (auto simp: plainWord_def list_all_iff)
  with Cons show ?case by (cases "ws = []") (simp_all add: joinWith_parts fieldsAcc_word isSpace_blank)
qed simp

section \<open>The text of the rules\<close>

definition protoWord :: "pfProto \<Rightarrow> string" where
  "protoWord proto = (case proto of PFTcp \<Rightarrow> ''tcp'' | PFUdp \<Rightarrow> ''udp'')"

definition sourceWord :: "string \<Rightarrow> pfRule \<Rightarrow> string" where
  "sourceWord table rule = (if pr_peersOnly rule then ''<'' @ table @ ''>'' else ''any'')"

definition portWords :: "pfRule \<Rightarrow> string list" where
  "portWords rule = (case pr_proto rule of PFTcp \<Rightarrow> ''{'' # map itoa (pr_ports rule) @ [''}''] | PFUdp \<Rightarrow> [itoa (hd (pr_ports rule))])"

definition actionWords :: "pfAction \<Rightarrow> string list" where
  "actionWords action = (case action of PFPass \<Rightarrow> [''pass'', ''in'', ''quick'', ''on''] | PFBlock \<Rightarrow> [''block'', ''in'', ''quick'', ''log'', ''on''])"

lemma pfWords_renderRule:
  assumes plain: "plainWord table" "plainWord (pr_interface rule)" "plainWord (pr_to rule)" and ports: "pr_ports rule \<noteq> []"
  shows "\<exists>rest. pfWords (renderRule table rule) = actionWords (pr_action rule) @ [pr_interface rule, ''inet'', ''proto'',
    protoWord (pr_proto rule), ''from'', sourceWord table rule, ''to'', pr_to rule, ''port''] @ portWords rule @ rest"
proof -
  have word: "fieldsAcc cur (w @ r) = fieldsAcc (rev w @ cur) r" "w \<noteq> []" "map comma w = w" if "plainWord w" for w cur r
    using that comma_plain [of w] fieldsAcc_word [of w cur r] by (auto simp: plainWord_def list_all_iff)
  have "list_all plainWord (map itoa (pr_ports rule))" by (simp add: list_all_iff plain_itoa)
  moreover have "fieldsAcc [] w = [w]" if "plainWord w" for w using word(1) [OF that, of "[]" "[]"] word(2) [OF that] by simp
  note facts = this [OF plain_itoa [of "hd (pr_ports rule)"]] word [OF plain(1)] word [OF plain(2)] word [OF plain(3)] word [OF plain_itoa [of "hd (pr_ports rule)"]]
    fieldsAcc_braced [OF _ calculation]
  show ?thesis
    using ports
    by (cases "pr_action rule"; cases "pr_proto rule"; cases "pr_peersOnly rule")
       (simp_all add: facts pfWords_def GoStrings.fields_def renderRule_def pfPorts_def actionWords_def protoWord_def sourceWord_def portWords_def
         isSpace_def)
qed

lemma readAction_words: "readAction (actionWords action @ ws) = Some (action, ws)"
  by (cases action) (simp_all add: readAction_def actionWords_def)

lemma readPorts_words:
  assumes "list_all (\<lambda>port. 0 \<le> port \<and> port < 2 ^ 63) (pr_ports rule)" "pr_proto rule = PFUdp \<Longrightarrow> length (pr_ports rule) = 1"
  shows "readPorts (portWords rule @ rest) = map Some (pr_ports rule)"
proof -
  have "itoa i \<noteq> ''{''" "itoa i \<noteq> ''}''" for i
    using plain_itoa [of i] by (auto simp: plainWord_def)
  moreover have "takeWhile (\<lambda>v. v \<noteq> ''}'') (map itoa ports @ ''}'' # rest) = map itoa ports" for ports
    by (induction ports) (simp_all add: calculation)
  moreover have "atoi (itoa i) = Some i" if "0 \<le> i" "i < 2 ^ 63" for i
    using that atoi_natToDec [of i] by (simp add: itoa_def)
  ultimately show ?thesis
    using assms by (cases "pr_proto rule"; cases "pr_ports rule") (auto simp: readPorts_def portWords_def list_all_iff)
qed

definition sensibleRule :: "pfRule \<Rightarrow> bool" where
  "sensibleRule rule \<longleftrightarrow> plainWord (pr_interface rule) \<and> plainWord (pr_to rule) \<and> pr_ports rule \<noteq> []
     \<and> list_all (\<lambda>port. 0 \<le> port \<and> port < 2 ^ 63) (pr_ports rule) \<and> (pr_proto rule = PFUdp \<longrightarrow> length (pr_ports rule) = 1)"

lemma readRule_render:
  assumes "plainWord table" "sensibleRule rule"
  shows "readRule (''<'' @ table @ ''>'') (pfWords (renderRule table rule)) = Some rule"
proof -
  obtain rest where words: "pfWords (renderRule table rule) = actionWords (pr_action rule) @ [pr_interface rule, ''inet'', ''proto'',
      protoWord (pr_proto rule), ''from'', sourceWord table rule, ''to'', pr_to rule, ''port''] @ portWords rule @ rest"
    using pfWords_renderRule [of table rule] assms by (auto simp: sensibleRule_def)
  have "readPorts (portWords rule @ rest) = map Some (pr_ports rule)"
    using readPorts_words [of rule rest] assms by (auto simp: sensibleRule_def)
  then show ?thesis
    unfolding words readRule_def readAction_words
    by (cases "pr_proto rule") (auto simp: protoWord_def sourceWord_def map_idI)
qed

definition lineOk :: "string \<Rightarrow> bool" where
  "lineOk l \<longleftrightarrow> CHR 0x0A \<notin> set l \<and> l \<noteq> []"

lemma splitOn_xmlLines: "list_all lineOk ls \<Longrightarrow> filter (\<lambda>l. l \<noteq> []) (splitOn (CHR 0x0A) (xmlLines ls)) = ls"
  by (induction ls) (auto simp: xmlLines_def splitOn_append_sep lineOk_def)

lemma plain_line: "plainWord w \<Longrightarrow> CHR 0x0A \<notin> set w"
  by (auto simp: plainWord_def list_all_iff)

lemma joined_line: "list_all plainWord ws \<Longrightarrow> CHR 0x0A \<notin> set (joinWith '', '' ws)"
  by (induction ws) (auto simp: joinWith_parts plain_line)

lemma renderRule_line:
  assumes "plainWord table" "sensibleRule rule"
  shows "lineOk (renderRule table rule) \<and> hd (renderRule table rule) \<noteq> CHR ''#''"
proof -
  have "CHR 0x0A \<notin> set (pfPorts rule)"
    using joined_line [of "map itoa (pr_ports rule)"] plain_line [OF plain_itoa]
    by (cases "pr_proto rule") (auto simp: pfPorts_def list_all_iff plain_itoa)
  then show ?thesis
    using assms plain_line
    by (cases "pr_action rule"; cases "pr_proto rule") (auto simp: renderRule_def lineOk_def sensibleRule_def)
qed

text \<open>A configuration whose parts are single words of the language.\<close>

definition plainConfig :: "PFConfig \<Rightarrow> bool" where
  "plainConfig config \<longleftrightarrow> lineOk (pf_Cluster config) \<and> lineOk (pf_Role config) \<and> plainWord (pf_Interface config)
     \<and> plainWord (pf_LocalIP config) \<and> pf_Peers config \<noteq> [] \<and> list_all plainWord (pf_Peers config)
     \<and> portOk (pf_APIPort config) \<and> portOk (pf_VXLANPort config) \<and> portOk (pf_KubeletPort config)"

lemma sensible_pfRules: "plainConfig config \<Longrightarrow> list_all sensibleRule (pfRules config)"
  by (auto simp: pfRules_def Let_def sensibleRule_def plainConfig_def tcpPorts_def portOk_def)

lemma tableLine_words:
  assumes "plainWord table" "plainConfig config"
  shows "readTable (pfWords (''table <'' @ table @ ''> const { '' @ joinWith '', '' (pf_Peers config) @ '' }'')) = Some (''<'' @ table @ ''>'', pf_Peers config)"
proof -
  have word: "fieldsAcc cur (table @ r) = fieldsAcc (rev table @ cur) r" "map comma table = table" for cur r
    using assms(1) comma_plain [of table] fieldsAcc_word [of table cur r] by (auto simp: plainWord_def list_all_iff)
  have "pf_Peers config \<noteq> []" "list_all plainWord (pf_Peers config)" using assms(2) by (simp_all add: plainConfig_def)
  then show ?thesis
    using fieldsAcc_braced [of "pf_Peers config" "''}''"]
    by (simp add: pfWords_def GoStrings.fields_def word isSpace_def readTable_def)
qed

lemma readPF_pfText:
  assumes table: "plainWord table" and config: "plainConfig config"
  shows "readPF (pfText table config) = Some (pf_Peers config, pfRules config)"
proof -
  let ?title = "''# APC managed rules for '' @ pf_Cluster config @ '' ('' @ pf_Role config @ '')''"
  let ?table = "''table <'' @ table @ ''> const { '' @ joinWith '', '' (pf_Peers config) @ '' }''"
  let ?rules = "map (renderRule table) (pfRules config)"
  let ?name = "''<'' @ table @ ''>''"
  have rules: "\<And>rule. rule \<in> set (pfRules config) \<Longrightarrow> sensibleRule rule"
    using sensible_pfRules [OF config] by (simp add: list_all_iff)
  have peers: "list_all plainWord (pf_Peers config)" using config by (simp add: plainConfig_def)
  have "list_all lineOk ([?title, ?table] @ ?rules)"
    using renderRule_line [OF table rules] config joined_line [OF peers] plain_line [OF table]
    by (auto simp: list_all_iff lineOk_def plainConfig_def)
  moreover have "filter (\<lambda>l. l \<noteq> [] \<and> hd l \<noteq> CHR ''#'') ls = filter (\<lambda>l. hd l \<noteq> CHR ''#'') (filter (\<lambda>l. l \<noteq> []) ls)" for ls :: "string list"
    by (simp add: conj_commute)
  moreover have "filter (\<lambda>l. hd l \<noteq> CHR ''#'') ?rules = ?rules"
    using renderRule_line [OF table rules] by (auto intro!: filter_True)
  ultimately have lines: "filter (\<lambda>l. l \<noteq> [] \<and> hd l \<noteq> CHR ''#'') (splitOn (CHR 0x0A) (pfText table config)) = ?table # ?rules"
    unfolding pfText_def by (simp only: splitOn_xmlLines) simp
  have read: "map (readRule ?name) (map pfWords ?rules) = map Some (pfRules config)"
    using readRule_render [OF table rules] by (simp only: map_map) (auto simp: comp_def)
  then have "None \<notin> set (map (readRule ?name) (map pfWords ?rules))"
    and "map (the \<circ> readRule ?name) (map pfWords ?rules) = pfRules config"
    by (simp only: set_map, blast) (metis (no_types, lifting) comp_the_Some list.map_comp list.map_id0 id_apply read)
  then show ?thesis
    unfolding readPF_def lines by (simp only: list.map list.case tableLine_words [OF table config] option.case prod.case if_False)
qed

section \<open>The policy\<close>

lemma parsePeers_Inr:
  "parsePeers here texts = Inr parsed \<Longrightarrow> \<exists>ws. map parseIPv4Value texts = map Some ws \<and> parsed = map addrString ws"
proof (induction here texts arbitrary: parsed rule: parsePeers.induct)
  case (2 here v rest)
  then obtain w ps where split: "parseIPv4Value v = Some w" "w \<noteq> here" "parsePeers here rest = Inr ps" "parsed = addrString w # ps"
    by (auto split: option.splits if_splits)
  moreover obtain ws where "map parseIPv4Value rest = map Some ws" "ps = map addrString ws"
    using "2.IH" [OF split(1,2,3)] by blast
  ultimately have "map parseIPv4Value (v # rest) = map Some (w # ws) \<and> parsed = map addrString (w # ws)" by simp
  then show ?case by blast
qed simp

definition orPort :: "int \<Rightarrow> int \<Rightarrow> int" where
  "orPort port standard = (if port = 0 then standard else port)"

text \<open>The ports that a server or an agent protects.\<close>

definition protectedPort :: "PFConfig \<Rightarrow> pfProto \<Rightarrow> int \<Rightarrow> bool" where
  "protectedPort config proto port \<longleftrightarrow> (case proto of
     PFTcp \<Rightarrow> port = orPort (pf_KubeletPort config) 10250 \<or> (pf_Role config = ''server'' \<and> port = orPort (pf_APIPort config) 16443)
   | PFUdp \<Rightarrow> port = orPort (pf_VXLANPort config) 8472)"

lemma normalizePF_Inr:
  assumes "normalizePF config0 = Inr config"
  obtains local ws where "parseIPv4Value (pf_LocalIP config0) = Some local" "map parseIPv4Value (pf_Peers config0) = map Some ws"
    "config = config0\<lparr>pf_Interface := orDefault (pf_Interface config0) ''en0'', pf_LocalIP := addrString local,
       pf_Peers := sortStrings (remdups (map addrString ws)), pf_APIPort := orPort (pf_APIPort config0) 16443,
       pf_VXLANPort := orPort (pf_VXLANPort config0) 8472, pf_KubeletPort := orPort (pf_KubeletPort config0) 10250\<rparr>"
    "dnsLabel (pf_Cluster config)" "pf_Role config = ''server'' \<or> pf_Role config = ''agent''" "safeInterface (pf_Interface config)"
    "pf_Peers config \<noteq> []" "portOk (pf_APIPort config)" "portOk (pf_VXLANPort config)" "portOk (pf_KubeletPort config)"
proof -
  obtain local parsed where local: "parseIPv4Value (pf_LocalIP config0) = Some local" and parsed: "parsePeers local (pf_Peers config0) = Inr parsed"
    and "pf_Peers config0 \<noteq> []"
    using assms by (auto simp: normalizePF_def Let_def split: option.splits if_splits)
  obtain ws where ws: "map parseIPv4Value (pf_Peers config0) = map Some ws" "parsed = map addrString ws"
    using parsePeers_Inr [OF parsed] by blast
  have "ws \<noteq> []" using ws \<open>pf_Peers config0 \<noteq> []\<close> by auto
  then have "sortStrings (remdups (map addrString ws)) \<noteq> []"
    by (metis length_0_conv length_sortStrings length_greater_0_conv list.map_disc_iff remdups_eq_nil_iff)
  then show ?thesis
    using assms local parsed ws(2)
    by (intro that [OF local ws(1)]) (auto simp: normalizePF_def Let_def orPort_def split: if_splits)
qed

lemma decide_rules:
  "pfDecide (pf_Peers config) (pfRules config) p =
     (if pk_interface p = pf_Interface config \<and> pk_target p = pf_LocalIP config
         \<and> pk_port p \<in> (case pk_proto p of PFTcp \<Rightarrow> set (tcpPorts config) | PFUdp \<Rightarrow> {pf_VXLANPort config})
      then Some (if pk_source p \<in> set (pf_Peers config) then PFPass else PFBlock) else None)"
  by (cases "pk_proto p") (auto simp: pfRules_def Let_def pfMatches_def)

lemma plainConfig_normal:
  assumes "normalizePF config0 = Inr config" "safeInterface name"
  shows "plainConfig (config\<lparr>pf_Interface := name\<rparr>)"
  using assms(1)
proof (rule normalizePF_Inr)
  fix local ws
  assume c: "config = config0\<lparr>pf_Interface := orDefault (pf_Interface config0) ''en0'', pf_LocalIP := addrString local,
       pf_Peers := sortStrings (remdups (map addrString ws)), pf_APIPort := orPort (pf_APIPort config0) 16443,
       pf_VXLANPort := orPort (pf_VXLANPort config0) 8472, pf_KubeletPort := orPort (pf_KubeletPort config0) 10250\<rparr>"
    and rest: "dnsLabel (pf_Cluster config)" "pf_Role config = ''server'' \<or> pf_Role config = ''agent''" "pf_Peers config \<noteq> []"
    "portOk (pf_APIPort config)" "portOk (pf_VXLANPort config)" "portOk (pf_KubeletPort config)"
  have "lineOk (pf_Cluster config)" "lineOk (pf_Role config)"
    using rest(1,2) by (auto simp: lineOk_def dnsLabel_def labelChar_def isLowerAlpha_def isDigit_def list_all_iff)
  then show ?thesis
    using c rest plain_interface [OF assms(2)] by (auto simp: plainConfig_def plain_addrString list_all_iff)
qed

lemma hex_plain: "list_all isHexDigit h \<Longrightarrow> plainWord (CHR ''a'' # h @ ''_peers'')"
  by (auto simp: plainWord_def isSpace_def isHexDigit_def isDigit_def list_all_iff)

lemma plain_table:
  assumes "\<And>d. list_all isHexDigit (e_sha256 E d)"
  shows "plainWord (tableName E cluster)"
proof -
  have "list_all isHexDigit (take 12 (e_sha256 E d))" for d
    using assms [of d] by (auto simp: list_all_iff dest: in_set_takeD)
  then have "plainWord (CHR ''a'' # take 12 (e_sha256 E d) @ ''_peers'')" for d
    by (rule hex_plain)
  then show ?thesis by (simp add: tableName_def plainWord_def isSpace_def)
qed

lemma pfInterfaceForIP_safe: "pfInterfaceForIP P address w = (Inr name, w') \<Longrightarrow> safeInterface name"
  unfolding pfInterfaceForIP_def by (auto elim!: tryA_InrE tryWrapA_InrE split: option.splits if_splits)

lemma resolvedPF_Inr:
  assumes "resolvedPF P config0 w = (Inr config, w')"
  shows "\<exists>c name. normalizePF config0 = Inr c \<and> safeInterface name \<and> (pf_Interface c = ''auto'' \<or> name = pf_Interface c)
    \<and> config = c\<lparr>pf_Interface := name\<rparr>"
proof -
  obtain c where norm: "normalizePF config0 = Inr c"
    and rest: "(if pf_Interface c = ''auto'' then tryA (pfInterfaceForIP P (pf_LocalIP c)) (\<lambda>name. retA (c\<lparr>pf_Interface := name\<rparr>)) else retA c) w
      = (Inr config, w')"
    using assms unfolding resolvedPF_def by (cases "normalizePF config0") (simp_all add: tryA_apply)
  show ?thesis
  proof (cases "pf_Interface c = ''auto''")
    case True
    then obtain name where "safeInterface name" "config = c\<lparr>pf_Interface := name\<rparr>"
      using rest by (auto elim!: tryA_InrE dest: pfInterfaceForIP_safe)
    then show ?thesis using norm True by blast
  next
    case False
    moreover have "safeInterface (pf_Interface c)" using norm by (rule normalizePF_Inr)
    moreover have "config = c\<lparr>pf_Interface := pf_Interface c\<rparr>" using False rest by simp
    ultimately show ?thesis using norm by blast
  qed
qed


definition demoPF :: PFConfig where
  "demoPF = \<lparr>pf_Cluster = ''lab'', pf_Role = ''server'', pf_Interface = ''en0'', pf_LocalIP = ''192.168.64.2'',
     pf_Peers = [''192.168.64.4'', ''192.168.64.3''], pf_APIPort = 0, pf_VXLANPort = 0, pf_KubeletPort = 0\<rparr>"

definition demoHost :: "bool pfHost" where
  "demoHost = \<lparr>ph_interfaces = (\<lambda>_. Inr [])\<rparr>"

lemma demoPF_addresses:
  "parseIPv4Value (pf_LocalIP demoPF) = Some 0xC0A84002" "map parseIPv4Value (pf_Peers demoPF) = [Some 0xC0A84004, Some 0xC0A84003]"
  by code_simp+

lemma demoPF_normal: "isOk (normalizePF demoPF)"
  by code_simp

lemma demoPF_renders: "isOk (fst (RenderPF demoEnv demoHost demoPF demoWorld))"
proof -
  obtain c where norm: "normalizePF demoPF = Inr c" using demoPF_normal by (auto elim: isOkE)
  moreover have "pf_Interface c = ''en0''" using norm by (rule normalizePF_Inr) (simp add: demoPF_def orDefault_def)
  ultimately show ?thesis by (simp add: RenderPF_def resolvedPF_def tryA_apply)
qed


end
