(* ===== verification/FirewallRollback.thy ===== *)
theory FirewallRollback
  imports FirewallProps SnapshotProps
begin

text \<open>What an installation of the daemon of the packet filter leaves behind, when it succeeds and when it fails.\<close>

section \<open>Which files the operations touch\<close>

lemma keepsFiles_pf [keeping]:
  "keepsFiles (feedInput E text)" "keepsFiles (runPF E msg stdin args)" "keepsFiles (runCommand E msg args)" "keepsFiles (runLaunchctl E args)"
  "keepsFiles (ValidatePF E rules)"
proof -
  have feed: "keepsFiles (feedInput E s)" for s by (simp add: keepsFiles_def feedInput_def)
  then show "keepsFiles (feedInput E text)" by this
  show "keepsFiles (runPF E msg stdin args)" "keepsFiles (ValidatePF E rules)"
    unfolding ValidatePF_def runPF_def by (intro keeping feed)+
  show "keepsFiles (runCommand E msg args)" "keepsFiles (runLaunchctl E args)"
    unfolding runLaunchctl_def runCommand_def Let_def by (intro keeping)+
qed

lemma keepsFiles_verify [keeping]: "keepsFiles (verifyRootFile E p mode)" "keepsFiles (verifyReference E cluster)" "keepsFiles (verifyDaemon E cluster)"
  "keepsFiles (VerifyPF E cluster)"
proof -
  show root: "keepsFiles (verifyRootFile E p mode)" for p mode unfolding verifyRootFile_def by (intro keeping)
  show ref: "keepsFiles (verifyReference E cluster)" unfolding verifyReference_def by (intro keeping root)
  show daemon: "keepsFiles (verifyDaemon E cluster)" unfolding verifyDaemon_def by (intro keeping root)
  show "keepsFiles (VerifyPF E cluster)" unfolding VerifyPF_def by (intro keeping ref daemon)
qed

lemma keepsFiles_render [keeping]: "keepsFiles (RenderPF E P config)" "keepsFiles (checkedExecutable E path)" "keepsFiles (readPrevious E path)"
  "keepsFiles (bootoutDaemon E cluster)"
  unfolding RenderPF_def resolvedPF_def pfInterfaceForIP_def checkedExecutable_def readPrevious_def bootoutDaemon_def by (intro keeping)+

lemma at_token:
  "onlyAt path (writeToken E path token)" "onlyAt path (enablePF E path)" "onlyAt path (removeIfPresent E msg path)"
proof -
  show wr: "onlyAt path (writeToken E path token)" for token unfolding writeToken_def by (intro at_path onlyAt_keeps keeping)
  show "onlyAt path (enablePF E path)" unfolding enablePF_def by (intro at_path wr onlyAt_keeps keeping)
  show "onlyAt path (removeIfPresent E msg path)" unfolding removeIfPresent_def by (intro at_path onlyAt_keeps keeping)
qed

lemma at_reference:
  "onlyAt (tokenPath cluster) (acquirePFReference E cluster)" "onlyAt (tokenPath cluster) (releasePFReference E cluster)"
  unfolding acquirePFReference_def releasePFReference_def Let_def by (intro at_path at_token onlyAt_keeps keeping)+

lemma at_lock: "onlyIn paths action \<Longrightarrow> onlyIn paths (withClusterLock E cluster action)"
  unfolding withClusterLock_def Let_def 
  by (intro at_path onlyAt_keeps [OF keeps_basic(3)] onlyAt_keeps [OF keeps_tryA] onlyAt_keeps [OF keepsFiles_calls(1)]
      onlyAt_keeps [OF keeps_emitEvent] onlyAt_keeps [OF keeps_queryExt]) (assumption | rule keeping)+

lemma at_rules:
  "onlyAt (tokenPath (pf_Cluster config)) (ApplyPF E P config)" "onlyAt (tokenPath cluster) (RemovePF E cluster)"
  "onlyAt (tokenPath cluster) (verifyOrRemove E cluster)"
proof -
  show "onlyAt (tokenPath (pf_Cluster config)) (ApplyPF E P config)"
    unfolding ApplyPF_def loadRules_def by (intro at_path at_lock at_reference onlyAt_keeps keeping)
  show remove: "onlyAt (tokenPath cluster) (RemovePF E cluster)"
    unfolding RemovePF_def unloadRules_def by (intro at_path at_lock at_reference onlyAt_keeps keeping)
  show "onlyAt (tokenPath cluster) (verifyOrRemove E cluster)"
    unfolding verifyOrRemove_def by (intro at_path remove onlyAt_keeps keeping)
qed

lemma in_helper: "onlyIn {helperPath, helperDirectory} (installHelper E source)"
proof -
  have own: "onlyAt path (changeInfo E call path f)" "onlyAt path (makeDirectory E path)" for path call f
    unfolding changeInfo_def makeDirectory_def by (intro at_path onlyAt_keeps keeping)+
  have create: "onlyAt helperDirectory (createHelperDirectory E)"
    unfolding createHelperDirectory_def by (intro at_path own onlyAt_keeps keeping)
  have "onlyAt helperDirectory (ensurePrivilegedHelperDirectory E)"
    unfolding ensurePrivilegedHelperDirectory_def by (intro at_path create onlyAt_keeps keeping)
  then have ensure: "onlyIn {helperPath, helperDirectory} (ensurePrivilegedHelperDirectory E)" by (rule onlyAt_in) simp
  show ?thesis unfolding installHelper_def by (intro at_path ensure onlyAt_keeps keeping insertI1)
qed

lemma firewall_paths:
  assumes "dnsLabel cluster"
  shows "daemonPath cluster = ''/Library/LaunchDaemons/'' @ daemonLabel cluster @ ''.plist''"
    "tokenPath cluster = ''/var/run/apc-firewall-'' @ cluster @ ''.token''"
    "daemonPath cluster \<noteq> tokenPath cluster" "daemonPath cluster \<notin> {helperPath, helperDirectory}" "tokenPath cluster \<noteq> helperPath"
proof -
  have "CHR ''/'' \<notin> set cluster" using assms by (rule dnsLabel_no_slash)
  then have plain: "plainName (daemonLabel cluster @ ''.plist'')" "plainName (''apc-firewall-'' @ cluster @ ''.token'')"
    by (simp_all add: plainName_def daemonLabel_def)
  have clean: "cleanDirectory ''/Library/LaunchDaemons''" "cleanDirectory ''/var/run''" by code_simp+
  show one: "daemonPath cluster = ''/Library/LaunchDaemons/'' @ daemonLabel cluster @ ''.plist''"
    unfolding daemonPath_def joinPath_below [OF clean(1) plain(1)] by simp
  show two: "tokenPath cluster = ''/var/run/apc-firewall-'' @ cluster @ ''.token''"
    unfolding tokenPath_def joinPath_below [OF clean(2) plain(2)] by simp
  show "daemonPath cluster \<noteq> tokenPath cluster" "daemonPath cluster \<notin> {helperPath, helperDirectory}" "tokenPath cluster \<noteq> helperPath"
    unfolding one two by (simp_all add: helperPath_def helperDirectory_def)
qed

section \<open>What a rollback leaves\<close>

definition honestFaults :: "'x env \<Rightarrow> bool" where
  "honestFaults E \<longleftrightarrow> (\<forall>x call path e. e_fileFault E x call path = Some e \<longrightarrow> \<not> errorsIs e ErrNotExist)"

definition contentOf :: "string \<Rightarrow> 'x world \<Rightarrow> document option" where
  "contentOf path w = map_option fn_doc (w_fs w path)"

definition rootFile :: "string \<Rightarrow> int \<Rightarrow> 'x world \<Rightarrow> bool" where
  "rootFile path mode w \<longleftrightarrow> (case w_fs w path of None \<Rightarrow> False | Some n \<Rightarrow> fi_regular (fn_info n) \<and> \<not> fi_symlink (fn_info n)
     \<and> fi_perm (fn_info n) = mode \<and> fi_uid (fn_info n) = 0 \<and> fi_gid (fn_info n) = 0)"

lemma rawCall_world: "rawCall E call p w = (r, w') \<Longrightarrow> w' = w"
  by (auto simp: rawCall_def tryA_apply askExt_def split: option.splits)

lemma placeWithInfo_file: "placeWithInfo E p f d w = (r, w') \<Longrightarrow> w_fs w' = (w_fs w)(p \<mapsto> \<lparr>fn_info = f (privateInfo E (w_inode w) d), fn_doc = d\<rparr>)"
  by (auto simp: placeWithInfo_def)

lemma writeAtomic_Inr:
  assumes "writeAtomic E p d mode w = (Inr u, w')"
  shows "contentOf p w' = Some d \<and> rootFile p mode w'"
  using assms unfolding writeAtomic_def
  by (elim tryA_InrE) (drule placeWithInfo_file, simp add: contentOf_def rootFile_def ownedByRoot_def privateInfo_def)

lemma writeAtomic_Inl: "writeAtomic E p d mode w = (Inl e, w') \<Longrightarrow> w' = w"
  unfolding writeAtomic_def by (auto simp: tryA_apply placeWithInfo_def dest!: rawCall_world split: prod.splits sum.splits)

lemma readPrevious_Inr:
  assumes "honestFaults E" "readPrevious E p w = (Inr previous, w')"
  shows "previous = contentOf p w \<and> w' = w"
  using assms unfolding readPrevious_def readFile_def honestFaults_def contentOf_def
  by (auto simp: catchA_apply split: option.splits if_splits)

lemma removed_or_restored:
  assumes honest: "honestFaults E" and run: "restorePrevious E cluster previous w = (Inr u, w')"
  shows "contentOf (daemonPath cluster) w' = previous"
proof (cases previous)
  case None
  then show ?thesis
    using run honest unfolding restorePrevious_def removeFile_def honestFaults_def contentOf_def
    by (auto simp: catchA_apply split: option.splits if_splits)
next
  case (Some d)
  then obtain u1 w1 x w2 y where wr: "writeAtomic E (daemonPath cluster) d 420 w = (Inr u1, w1)"
    and boot: "runLaunchctl E [''bootstrap'', ''system'', daemonPath cluster] w1 = (Inr x, w2)"
    and kick: "runLaunchctl E [''kickstart'', ''-k'', daemonTarget cluster] w2 = (Inr y, w')"
    using run unfolding restorePrevious_def by (auto elim!: tryA_InrE)
  have "w_fs w' = w_fs w1"
    using keepsFiles_run [OF keepsFiles_pf(4) boot] keepsFiles_run [OF keepsFiles_pf(4) kick] by simp
  then show ?thesis using writeAtomic_Inr [OF wr] Some by (simp add: contentOf_def)
qed

definition restoreFailed :: "gerror \<Rightarrow> bool" where
  "restoreFailed e \<longleftrightarrow> (case e of Joined [_, Wrap msg _] \<Rightarrow> msg = ''restore previous PF LaunchDaemon'' | _ \<Rightarrow> False)"

lemma rollback_leaves:
  assumes "honestFaults E" and run: "rollback E cluster previous cause w = (r, w')"
  shows "case r of Inl e \<Rightarrow> restoreFailed e \<or> contentOf (daemonPath cluster) w' = previous | Inr _ \<Rightarrow> False"
proof -
  obtain r1 w1 where "runLaunchctl E [''bootout'', daemonTarget cluster] w = (r1, w1)" by fastforce
  moreover obtain r2 w2 where restored: "restorePrevious E cluster previous w1 = (r2, w2)" by fastforce
  ultimately have "(r, w') = (case r2 of Inl e \<Rightarrow> (Inl (Joined [cause, Wrap ''restore previous PF LaunchDaemon'' e]), w2) | Inr _ \<Rightarrow> (Inl cause, w2))"
    using run by (cases r2) (simp_all add: rollback_def catchA_apply)
  then show ?thesis
    using removed_or_restored [OF assms(1)] restored by (cases r2) (auto simp: restoreFailed_def)
qed

section \<open>Installation\<close>

definition rollsBack :: "string \<Rightarrow> document option \<Rightarrow> ('x, 'a) op \<Rightarrow> bool" where
  "rollsBack cluster previous m \<longleftrightarrow> (\<forall>w r w'. m w = (r, w') \<longrightarrow>
     (case r of Inl e \<Rightarrow> restoreFailed e \<or> contentOf (daemonPath cluster) w' = previous | Inr _ \<Rightarrow> True))"

lemma rollsBack_retA: "rollsBack cluster previous (retA x)"
  by (simp add: rollsBack_def)

lemma rollsBack_step:
  assumes "honestFaults E" "\<And>x. rollsBack cluster previous (f x)"
  shows "rollsBack cluster previous (orRollback E cluster previous m f)"
  unfolding rollsBack_def
proof (intro allI impI)
  fix w :: "'a world" and r w'
  assume run: "orRollback E cluster previous m f w = (r, w')"
  obtain q w1 where m: "m w = (q, w1)" by fastforce
  show "case r of Inl e \<Rightarrow> restoreFailed e \<or> contentOf (daemonPath cluster) w' = previous | Inr _ \<Rightarrow> True"
  proof (cases q)
    case (Inl e)
    then have "rollback E cluster previous e w1 = (r, w')" using run m by (simp add: orRollback_def catchA_apply)
    from rollback_leaves [OF assms(1) this] show ?thesis by (auto split: sum.splits)
  next
    case (Inr x)
    then have "f x w1 = (r, w')" using run m by (simp add: orRollback_def catchA_apply)
    then show ?thesis using assms(2) [of x] unfolding rollsBack_def by blast
  qed
qed

lemma rollsBack_activate: "honestFaults E \<Longrightarrow> rollsBack (pf_Cluster config) previous (activateDaemon E P config previous)"
  unfolding activateDaemon_def Let_def by (intro rollsBack_step rollsBack_retA)

lemma orRollback_InrE:
  assumes "orRollback E cluster previous m f w = (Inr y, w')"
  obtains x w1 where "m w = (Inr x, w1)" "f x w1 = (Inr y, w')"
proof -
  obtain q w1 where m: "m w = (q, w1)" by fastforce
  have "rollback E cluster previous e w1 \<noteq> (Inr y, w')" for e
    by (cases "restorePrevious E cluster previous (snd (runLaunchctl E [''bootout'', daemonTarget cluster] w1))"; cases "fst (restorePrevious E cluster previous (snd (runLaunchctl E [''bootout'', daemonTarget cluster] w1)))")
       (auto simp: rollback_def catchA_apply split: prod.splits)
  then obtain x where "q = Inr x" "f x w1 = (Inr y, w')"
    using assms m by (cases q) (auto simp: orRollback_def catchA_apply)
  then show ?thesis using m that by blast
qed

lemma verifyRootFile_Inr: "verifyRootFile E p mode w = (Inr u, w') \<Longrightarrow> rootFile p mode w \<and> w' = w"
  unfolding verifyRootFile_def by (auto elim!: tryA_InrE dest!: statFile_Inr split: if_splits simp: rootFile_def)

text \<open>The token of the reference to the packet filter, as a verification accepts it.\<close>

definition goodToken :: "string \<Rightarrow> 'x world \<Rightarrow> bool" where
  "goodToken cluster w \<longleftrightarrow> rootFile (tokenPath cluster) 384 w
     \<and> (case contentOf (tokenPath cluster) w of None \<Rightarrow> False | Some d \<Rightarrow> safeToken (docText d))"

lemma verifyReference_Inr:
  assumes "verifyReference E cluster w = (Inr u, w')"
  shows "goodToken cluster w"
  using assms unfolding verifyReference_def
  by (auto elim!: tryA_InrE tryWrapA_InrE dest!: verifyRootFile_Inr readFile_Inr split: if_splits simp: goodToken_def contentOf_def)

lemma verified_Inr:
  assumes "verifyOrRemove E cluster w = (Inr u, w')"
  shows "w_fs w' = w_fs w \<and> goodToken cluster w \<and> rootFile helperPath 493 w \<and> rootFile (daemonPath cluster) 420 w"
proof -
  obtain q w1 where v: "VerifyPF E cluster w = (q, w1)" by fastforce
  have "isOk q" "w' = w1"
    using assms v by (auto simp: verifyOrRemove_def catchA_apply split: sum.splits prod.splits)
  then obtain status where ok: "VerifyPF E cluster w = (Inr status, w')" using v by (auto elim: isOkE)
  then obtain u1 w2 rules w3 u3 w4 where daemon: "verifyDaemon E cluster w = (Inr u1, w2)"
    and rules: "runCommand E ''read APC PF anchor'' [''/sbin/pfctl'', ''-a'', anchorName cluster, ''-sr''] w2 = (Inr rules, w3)"
    and ref: "verifyReference E cluster w3 = (Inr u3, w4)"
    unfolding VerifyPF_def by (auto elim!: tryA_InrE split: if_splits)
  have "w_fs w3 = w_fs w"
    using keepsFiles_run [OF keepsFiles_verify(3) daemon] keepsFiles_run [OF keepsFiles_pf(3) rules] by simp
  moreover have "rootFile helperPath 493 w \<and> rootFile (daemonPath cluster) 420 w"
    using daemon unfolding verifyDaemon_def by (elim tryWrapA_InrE) (auto dest!: verifyRootFile_Inr)
  ultimately show ?thesis
    using verifyReference_Inr [OF ref] keepsFiles_run [OF keepsFiles_verify(4) ok]
    by (simp add: goodToken_def rootFile_def contentOf_def)
qed

lemma retA_InrD: "retA x w = (Inr y, w') \<Longrightarrow> y = x \<and> w = w'"
  by simp

lemma activateDaemon_steps:
  assumes "activateDaemon E P config previous w = (Inr p, w')"
  shows "\<exists>u1 w1 s2 w2 s3 w3 s4 w4 u5 w5 u6. p = daemonPath (pf_Cluster config) \<and> bootoutDaemon E (pf_Cluster config) w = (Inr u1, w1)
    \<and> runLaunchctl E [''bootstrap'', ''system'', daemonPath (pf_Cluster config)] w1 = (Inr s2, w2)
    \<and> runLaunchctl E [''enable'', daemonTarget (pf_Cluster config)] w2 = (Inr s3, w3)
    \<and> runLaunchctl E [''kickstart'', ''-k'', daemonTarget (pf_Cluster config)] w3 = (Inr s4, w4)
    \<and> ApplyPF E P config w4 = (Inr u5, w5) \<and> verifyOrRemove E (pf_Cluster config) w5 = (Inr u6, w')"
  using assms unfolding activateDaemon_def Let_def
  by (elim orRollback_InrE) (drule retA_InrD, elim conjE, hypsubst, intro conjI exI, (assumption | rule refl)+)

lemma activateDaemon_Inr:
  assumes "activateDaemon E P config previous w = (Inr p, w')"
  shows "p = daemonPath (pf_Cluster config) \<and> goodToken (pf_Cluster config) w' \<and> rootFile helperPath 493 w' \<and> rootFile p 420 w'
    \<and> (p \<noteq> tokenPath (pf_Cluster config) \<longrightarrow> contentOf p w' = contentOf p w)"
proof -
  let ?c = "pf_Cluster config"
  obtain u1 w1 s2 w2 s3 w3 s4 w4 u5 w5 u6 where p: "p = daemonPath ?c" and steps: "bootoutDaemon E ?c w = (Inr u1, w1)"
    "runLaunchctl E [''bootstrap'', ''system'', daemonPath ?c] w1 = (Inr s2, w2)" "runLaunchctl E [''enable'', daemonTarget ?c] w2 = (Inr s3, w3)"
    "runLaunchctl E [''kickstart'', ''-k'', daemonTarget ?c] w3 = (Inr s4, w4)"
    and applied: "ApplyPF E P config w4 = (Inr u5, w5)" and verified: "verifyOrRemove E ?c w5 = (Inr u6, w')"
    using activateDaemon_steps [OF assms] by blast
  have "w_fs w4 = w_fs w"
    using keepsFiles_run [OF keepsFiles_render(4) steps(1)] keepsFiles_run [OF keepsFiles_pf(4) steps(2)]
      keepsFiles_run [OF keepsFiles_pf(4) steps(3)] keepsFiles_run [OF keepsFiles_pf(4) steps(4)] by simp
  moreover have "p \<noteq> tokenPath ?c \<Longrightarrow> w_fs w5 p = w_fs w4 p"
    using onlyIn_run [OF at_rules(1) applied] by simp
  ultimately show ?thesis
    using verified_Inr [OF verified] p by (simp add: goodToken_def rootFile_def contentOf_def)
qed

lemma publishDaemon_leaves:
  assumes honest: "honestFaults E" and label: "dnsLabel (pf_Cluster config)"
    and run: "publishDaemon E P config (contentOf (daemonPath (pf_Cluster config)) w) w = (r, w')"
  shows "case r of
      Inl e \<Rightarrow> restoreFailed e \<or> contentOf (daemonPath (pf_Cluster config)) w' = contentOf (daemonPath (pf_Cluster config)) w
    | Inr p \<Rightarrow> p = daemonPath (pf_Cluster config) \<and> contentOf p w' = Some (Text (RenderLaunchDaemon config))
        \<and> rootFile p 420 w' \<and> rootFile helperPath 493 w' \<and> goodToken (pf_Cluster config) w'"
proof -
  let ?plist = "daemonPath (pf_Cluster config)"
  obtain q w1 where wr: "writeAtomic E ?plist (Text (RenderLaunchDaemon config)) 420 w = (q, w1)" by fastforce
  show ?thesis
  proof (cases q)
    case (Inl e)
    then have "w' = w" "\<not> isOk r"
      using run wr writeAtomic_Inl [of E ?plist] by (auto simp: publishDaemon_def tryWrapA_def tryA_apply wrapA_apply)
    then show ?thesis by (cases r) simp_all
  next
    case (Inr u)
    then have act: "activateDaemon E P config (contentOf ?plist w) w1 = (r, w')"
      using run wr by (simp add: publishDaemon_def tryWrapA_def tryA_apply wrapA_apply)
    have written: "contentOf ?plist w1 = Some (Text (RenderLaunchDaemon config))"
      using writeAtomic_Inr wr Inr by blast
    show ?thesis
    proof (cases r)
      case Inl2: (Inl e)
      then show ?thesis using rollsBack_activate [OF honest, of config "contentOf ?plist w" P] act unfolding rollsBack_def by fastforce
    next
      case Inr2: (Inr p)
      then show ?thesis
        using activateDaemon_Inr [OF act [unfolded Inr2]] written firewall_paths(3) [OF label] by clarsimp
    qed
  qed
qed

text \<open>What an installation does before it publishes the daemon leaves the path of the daemon alone.\<close>

definition beforePublishing :: "'x env \<Rightarrow> PFConfig \<Rightarrow> string \<Rightarrow> ('x, document option) op" where
  "beforePublishing E config path = tryA (checkedExecutable E path) (\<lambda>resolved. tryA (installHelper E resolved) (\<lambda>_.
     readPrevious E (daemonPath (pf_Cluster config))))"

lemma tryA_assoc: "tryA (tryA m f) g = tryA m (\<lambda>x. tryA (f x) g)"
  by (rule ext) (simp add: tryA_apply split: prod.split sum.split)

lemma InstallPF_steps:
  "normalizePF config0 = Inr config \<Longrightarrow> e_euid E = 0 \<Longrightarrow>
   InstallPF E P config0 path = tryA (beforePublishing E config path) (publishDaemon E P config)"
  by (rule ext) (simp add: InstallPF_def beforePublishing_def tryA_assoc tryA_apply [of "liftA (Inr config)"])

lemma beforePublishing_leaves:
  assumes honest: "honestFaults E" and label: "dnsLabel (pf_Cluster config)" and run: "beforePublishing E config path w = (q, w')"
  shows "w_fs w' (daemonPath (pf_Cluster config)) = w_fs w (daemonPath (pf_Cluster config))
    \<and> (case q of Inl _ \<Rightarrow> True | Inr previous \<Rightarrow> previous = contentOf (daemonPath (pf_Cluster config)) w')"
proof -
  have "onlyIn {helperPath, helperDirectory} (beforePublishing E config path)"
    unfolding beforePublishing_def by (intro at_path in_helper onlyAt_keeps keeping)
  then have "w_fs w' (daemonPath (pf_Cluster config)) = w_fs w (daemonPath (pf_Cluster config))"
    using run firewall_paths(4) [OF label] by (rule onlyIn_run)
  moreover have "previous = contentOf (daemonPath (pf_Cluster config)) w'" if "q = Inr previous" for previous
    using run unfolding beforePublishing_def that by (elim tryA_InrE) (use readPrevious_Inr [OF honest] in blast)
  ultimately show ?thesis
    by (cases q) simp_all
qed

text \<open>
  C30: an installation that fails leaves at the path of the daemon what was there: the previous property list again or none,
  unless the error says that restoring it failed too.  One that succeeds leaves there the rendered daemon, owned by
  root, beside a root-owned copy of the program and a recorded reference to the packet filter with a usable token.
\<close>

theorem firewall_install_rolls_back:
  assumes honest: "honestFaults E" and run: "InstallPF E P config0 path w = (r, w')"
  shows "case normalizePF config0 of Inl e \<Rightarrow> r = Inl e \<and> w' = w
    | Inr config \<Rightarrow> (case r of
        Inl e \<Rightarrow> restoreFailed e \<or> contentOf (daemonPath (pf_Cluster config)) w' = contentOf (daemonPath (pf_Cluster config)) w
      | Inr p \<Rightarrow> e_euid E = 0 \<and> p = daemonPath (pf_Cluster config) \<and> contentOf p w' = Some (Text (RenderLaunchDaemon config))
          \<and> rootFile p 420 w' \<and> rootFile helperPath 493 w' \<and> goodToken (pf_Cluster config) w')"
proof (cases "normalizePF config0")
  case (Inl e)
  then show ?thesis using run by (simp add: InstallPF_def tryA_apply)
next
  case norm: (Inr config)
  have label: "dnsLabel (pf_Cluster config)" using norm by (auto simp: normalizePF_def Let_def split: option.splits if_splits)
  show ?thesis
  proof (cases "e_euid E = 0")
    case False
    then show ?thesis using run norm by (auto simp: InstallPF_def tryA_apply)
  next
    case root: True
    obtain q w1 where first: "beforePublishing E config path w = (q, w1)" by fastforce
    note before = beforePublishing_leaves [OF honest label first]
    show ?thesis
    proof (cases q)
      case (Inl e)
      then have "r = Inl e" "w' = w1" using run first by (simp_all add: InstallPF_steps [OF norm root] tryA_apply)
      then show ?thesis using before norm by (simp add: contentOf_def)
    next
      case (Inr previous)
      then have "publishDaemon E P config (contentOf (daemonPath (pf_Cluster config)) w1) w1 = (r, w')"
        using run first before by (simp add: InstallPF_steps [OF norm root] tryA_apply)
      from publishDaemon_leaves [OF honest label this] show ?thesis
        using before norm root by (cases r) (simp_all add: contentOf_def)
    qed
  qed
qed

lemma demo_honestFaults: "honestFaults demoEnv"
  by (simp add: honestFaults_def demoEnv_def)

theorem firewall_install_rolls_back_witness:
  "case InstallPF demoEnv demoHost demoPF ''/bin/apc'' demoWorld of
     (Inl e, w') \<Rightarrow> restoreFailed e \<or> contentOf ''/Library/LaunchDaemons/dev.apc.firewall.lab.plist'' w' = None
   | (Inr p, w') \<Rightarrow> rootFile p 420 w' \<and> rootFile helperPath 493 w' \<and> goodToken ''lab'' w'"
proof -
  obtain c where norm: "normalizePF demoPF = Inr c" using demoPF_normal by (auto elim: isOkE)
  have name: "pf_Cluster c = ''lab''" using norm by (rule normalizePF_Inr) (simp add: demoPF_def)
  have path: "daemonPath ''lab'' = ''/Library/LaunchDaemons/dev.apc.firewall.lab.plist''" by code_simp
  obtain r w' where run: "InstallPF demoEnv demoHost demoPF ''/bin/apc'' demoWorld = (r, w')" by fastforce
  have "contentOf ''/Library/LaunchDaemons/dev.apc.firewall.lab.plist'' demoWorld = None"
    by (simp add: contentOf_def demoWorld_def demoFiles_def)
  then show ?thesis
    using firewall_install_rolls_back [OF demo_honestFaults run] norm name path run by (cases r) (auto simp: path)
qed

end
