(* ===== verification/Images.thy ===== *)
theory Images
  imports Targets
begin

text \<open>
  The transfer of images into the nodes of a cluster (\<open>images/transport.go\<close>).  Commands of the container runtime and of \<open>ssh\<close> are
  commands of the world; the directory the archive is staged in, and the archive the runtime writes there, belong to the world too.  The runtime commands are those of the configured binary.
\<close>

section \<open>Options\<close>

record ImageOptions =
  io_Cluster :: string
  io_Images :: "string list"
  io_Peers :: "string list"
  io_Platform :: string
  io_Pull :: bool
  io_ContainerBinary :: string
  io_SSHBinary :: string

record TransferResult =
  tr_Images :: "string list"
  tr_Targets :: "string list"
  tr_ArchiveBytes :: int

text \<open>The staging area: \<open>os.MkdirTemp\<close>, the information of the archive, and opening it to be read.\<close>

record 'x imageHost =
  im_mkdirTemp :: "'x \<Rightarrow> gerror + string"
  im_stat :: "'x \<Rightarrow> string \<Rightarrow> gerror + fileInfo"
  im_open :: "'x \<Rightarrow> string \<Rightarrow> gerror + document"

definition DefaultPlatform :: string where
  "DefaultPlatform = ''linux/arm64''"

text \<open>\<open>^[A-Za-z0-9][A-Za-z0-9._/@:+-]*$\<close>\<close>

definition imagePattern :: "string \<Rightarrow> bool" where
  "imagePattern s \<longleftrightarrow> s \<noteq> [] \<and> alphanumeric (hd s) \<and> list_all (\<lambda>c. alphanumeric c \<or> c \<in> set ''._/@:+-'') s"

text \<open>\<open>^[a-z0-9]+/[a-z0-9]+(?:/[A-Za-z0-9._-]+)?$\<close>; no part contains a slash.\<close>

definition platformPart :: "string \<Rightarrow> bool" where
  "platformPart s \<longleftrightarrow> s \<noteq> [] \<and> list_all (\<lambda>c. isLowerAlpha c \<or> isDigit c) s"

definition platformPattern :: "string \<Rightarrow> bool" where
  "platformPattern s \<longleftrightarrow> (case splitOn (CHR ''/'') s of
     [os, arch] \<Rightarrow> platformPart os \<and> platformPart arch
   | [os, arch, variant] \<Rightarrow> platformPart os \<and> platformPart arch
       \<and> variant \<noteq> [] \<and> list_all (\<lambda>c. alphanumeric c \<or> c \<in> set ''._-'') variant
   | _ \<Rightarrow> False)"

text \<open>\<open>^[A-Za-z0-9._-]+(?:@[A-Za-z0-9._:-]+)?$\<close>; no part contains an at sign.\<close>

definition peerPattern :: "string \<Rightarrow> bool" where
  "peerPattern s \<longleftrightarrow> (case splitOn (CHR ''@'') s of
     [host] \<Rightarrow> host \<noteq> [] \<and> list_all (\<lambda>c. alphanumeric c \<or> c \<in> set ''._-'') host
   | [user, host] \<Rightarrow> user \<noteq> [] \<and> list_all (\<lambda>c. alphanumeric c \<or> c \<in> set ''._-'') user
       \<and> host \<noteq> [] \<and> list_all (\<lambda>c. alphanumeric c \<or> c \<in> set ''._:-'') host
   | _ \<Rightarrow> False)"

fun uniqueImages :: "string list \<Rightarrow> string list \<Rightarrow> gerror + string list" where
  "uniqueImages seen [] = Inr []"
| "uniqueImages seen (ref # rest) =
     (if \<not> imagePattern ref \<or> hasPrefix ref ''-'' then Inl (Msg ''invalid image reference'')
      else if ref \<in> set seen then uniqueImages seen rest
      else tryS (uniqueImages (ref # seen) rest) (\<lambda>images. Inr (ref # images)))"

definition normalizeTransfer :: "ImageOptions \<Rightarrow> gerror + ImageOptions" where
  "normalizeTransfer options0 =
     (if \<not> dnsLabel (io_Cluster options0) then Inl (Msg ''cluster name must be a lowercase DNS label'')
      else if io_Images options0 = [] then Inl (Msg ''at least one image reference is required'')
      else tryS (uniqueImages [] (io_Images options0)) (\<lambda>images.
        let options = options0\<lparr>io_Images := images, io_Platform := orDefault (io_Platform options0) DefaultPlatform\<rparr> in
        if \<not> platformPattern (io_Platform options) then Inl (Msg ''platform must use os/architecture[/variant] format'')
        else if list_ex (\<lambda>peer. \<not> peerPattern peer \<or> hasPrefix peer ''-'') (io_Peers options) then Inl (Msg ''invalid SSH peer'')
        else Inr (options\<lparr>io_ContainerBinary := orDefault (io_ContainerBinary options) ''/usr/local/bin/container'',
          io_SSHBinary := orDefault (io_SSHBinary options) ''/usr/bin/ssh''\<rparr>)))"

section \<open>Commands\<close>

text \<open>A command whose output nobody reads but the terminal, and one whose output is read.\<close>

definition runFor :: "'x env \<Rightarrow> string list \<Rightarrow> ('x, string) op" where
  "runFor E args = tryA (runCmd E None args) (\<lambda>res. case cr_err res of
     Some e \<Rightarrow> errA e | None \<Rightarrow> retA (docText (cr_stdout res)))"

definition feedArchive :: "'x env \<Rightarrow> 'x imageHost \<Rightarrow> string \<Rightarrow> ('x, unit) op" where
  "feedArchive E H archive = tryWrapA ''open OCI image archive'' (tryA (askExt (\<lambda>x. im_open H x archive)) liftA) (\<lambda>data.
     updA (\<lambda>w. w\<lparr>w_ext := e_feed E (w_ext w) data\<rparr>))"

text \<open>How the words of a command reach a node: by the runtime here, or by \<open>ssh\<close> there.\<close>

definition localCommand :: "string \<Rightarrow> string list \<Rightarrow> string list \<Rightarrow> string list" where
  "localCommand container flags words = [''exec''] @ flags @ [container] @ words"

definition remoteCommand :: "string \<Rightarrow> string \<Rightarrow> string \<Rightarrow> string list \<Rightarrow> string list \<Rightarrow> string list" where
  "remoteCommand ssh peer container flags words =
     [ssh, ''-o'', ''BatchMode=yes'', peer, ''/usr/local/bin/container'', ''exec''] @ flags @ [container] @ words"

definition importWords :: "ImageOptions \<Rightarrow> string list" where
  "importWords options = [''ctr'', ''-n'', ''k8s.io'', ''images'', ''import'', ''--platform'', io_Platform options, ''-'']"

definition listWords :: "string \<Rightarrow> string list" where
  "listWords ref = [''ctr'', ''-n'', ''k8s.io'', ''images'', ''list'', ''-q'', ''name=='' @ ref]"

definition verifyImage :: "'x env \<Rightarrow> (string list \<Rightarrow> string list \<Rightarrow> string list) \<Rightarrow> string \<Rightarrow> ('x, unit) op" where
  "verifyImage E command ref = tryWrapA ''verify image'' (runFor E (command [] (listWords ref))) (\<lambda>found.
     if trimSpace found \<noteq> ref then errA (Msg ''image was not found after import'') else retA ())"

definition importInto :: "'x env \<Rightarrow> 'x imageHost \<Rightarrow> ImageOptions \<Rightarrow> string \<Rightarrow> string \<Rightarrow> (string list \<Rightarrow> string list \<Rightarrow> string list) \<Rightarrow> ('x, unit) op" where
  "importInto E H options archive msg command =
     tryA (feedArchive E H archive) (\<lambda>_.
     tryWrapA msg (runFor E (command [''-i''] (importWords options))) (\<lambda>_.
     forA (io_Images options) (verifyImage E command)))"

definition importLocal :: "'x env \<Rightarrow> 'x imageHost \<Rightarrow> ImageOptions \<Rightarrow> string \<Rightarrow> string \<Rightarrow> ('x, unit) op" where
  "importLocal E H options archive container =
     importInto E H options archive ''import images into local K3s node'' (localCommand container)"

definition importRemote :: "'x env \<Rightarrow> 'x imageHost \<Rightarrow> ImageOptions \<Rightarrow> string \<Rightarrow> string \<Rightarrow> string \<Rightarrow> ('x, unit) op" where
  "importRemote E H options archive peer container =
     importInto E H options archive ''stream images'' (remoteCommand (io_SSHBinary options) peer container)"

section \<open>The transfer\<close>

definition pullImage :: "'x env \<Rightarrow> ImageOptions \<Rightarrow> string \<Rightarrow> ('x, unit) op" where
  "pullImage E options ref = (if \<not> io_Pull options then retA ()
     else tryWrapA ''pull image'' (runFor E [''image'', ''pull'', ''--platform'', io_Platform options, ''--progress'', ''plain'', ref]) (\<lambda>_. retA ()))"

definition agentContainer :: "ImageOptions \<Rightarrow> string" where
  "agentContainer options = ''apc-k3s-'' @ io_Cluster options @ ''-agent''"

definition exportArchive :: "'x env \<Rightarrow> 'x imageHost \<Rightarrow> ImageOptions \<Rightarrow> string \<Rightarrow> ('x, int) op" where
  "exportArchive E H options archive =
     tryWrapA ''export OCI image archive''
       (runFor E ([''image'', ''save'', ''--platform'', io_Platform options, ''--output'', archive] @ io_Images options)) (\<lambda>_.
     tryWrapA ''inspect OCI image archive'' (tryA (askExt (\<lambda>x. im_stat H x archive)) liftA) (\<lambda>info.
     if \<not> fi_regular info \<or> fi_size info = 0 then errA (Msg ''OCI image archive is empty or not a regular file'')
     else retA (fi_size info)))"

definition importEverywhere :: "'x env \<Rightarrow> 'x imageHost \<Rightarrow> ImageOptions \<Rightarrow> string list \<Rightarrow> string \<Rightarrow> ('x, TransferResult) op" where
  "importEverywhere E H options localTargets archive =
     tryA (exportArchive E H options archive) (\<lambda>bytes.
     tryA (forA localTargets (importLocal E H options archive)) (\<lambda>_.
     tryA (forA (io_Peers options) (\<lambda>peer. importRemote E H options archive peer (agentContainer options))) (\<lambda>_.
     retA \<lparr>tr_Images = io_Images options,
           tr_Targets = localTargets @ map (\<lambda>peer. peer @ ''/'' @ agentContainer options) (io_Peers options),
           tr_ArchiveBytes = bytes\<rparr>)))"

text \<open>The deferred removal of the archive and of its directory, whatever happened.\<close>

definition removeStaging :: "string \<Rightarrow> ('x, unit) op" where
  "removeStaging directory = tryA (emitEvent (Removed (joinPath [directory, ''images.tar'']))) (\<lambda>_. emitEvent (Removed directory))"

definition staged :: "string \<Rightarrow> ('x, 'a) op \<Rightarrow> ('x, 'a) op" where
  "staged directory m = catchA m (\<lambda>r. tryA (removeStaging directory) (\<lambda>_. liftA r))"

text \<open>What a failed transfer had reached by then is printed nowhere: only the error is its value.\<close>

definition Transfer :: "'x env \<Rightarrow> 'x imageHost \<Rightarrow> ImageOptions \<Rightarrow> ('x, TransferResult) op" where
  "Transfer E H options0 =
     tryA (liftA (normalizeTransfer options0)) (\<lambda>options.
     tryWrapA ''resolve local image import targets'' (ImageImportTargets E (io_Cluster options)) (\<lambda>localTargets.
     if localTargets = [] then errA (Msg ''cluster has no validated local image import targets'')
     else tryA (forA (io_Images options) (pullImage E options)) (\<lambda>_.
       tryWrapA ''create private image staging directory'' (tryA (askExt (im_mkdirTemp H)) liftA) (\<lambda>directory.
       staged directory (importEverywhere E H options localTargets (joinPath [directory, ''images.tar'']))))))"

end
