(* ===== verification/ImagesProps.thy ===== *)
theory ImagesProps
  imports Images
begin

text \<open>
  What a transfer of images sends to other machines, and what it has done when it reports success.
\<close>

section \<open>Accepted options\<close>

definition shellWord :: "string \<Rightarrow> bool" where
  "shellWord s \<longleftrightarrow> s \<noteq> [] \<and> list_all (\<lambda>c. alphanumeric c \<or> c \<in> set ''._/@:+-='') s"

definition acceptedOptions :: "ImageOptions \<Rightarrow> bool" where
  "acceptedOptions options \<longleftrightarrow> dnsLabel (io_Cluster options) \<and> list_all imagePattern (io_Images options) \<and> platformPattern (io_Platform options)
     \<and> list_all (\<lambda>peer. peerPattern peer \<and> \<not> hasPrefix peer ''-'') (io_Peers options)"

lemma uniqueImages_Inr:
  "uniqueImages seen refs = Inr images \<Longrightarrow> list_all imagePattern images \<and> distinct images \<and> set images = set refs - set seen"
proof (induction seen refs arbitrary: images rule: uniqueImages.induct)
  case (2 seen ref rest)
  have ok: "imagePattern ref" "\<not> hasPrefix ref ''-''" using 2(3) by (auto split: if_splits)
  show ?case
  proof (cases "ref \<in> set seen")
    case True
    then have "uniqueImages seen rest = Inr images" using 2(3) ok by simp
    then have "list_all imagePattern images \<and> distinct images \<and> set images = set rest - set seen" using 2(1) ok True by blast
    then show ?thesis using True by auto
  next
    case False
    then obtain images' where "uniqueImages (ref # seen) rest = Inr images'" "images = ref # images'" using 2(3) ok by auto
    moreover from this have "list_all imagePattern images' \<and> distinct images' \<and> set images' = set rest - set (ref # seen)"
      using 2(2) ok False by blast
    ultimately show ?thesis using ok(1) False by auto
  qed
qed simp

lemma normalizeTransfer_Inr:
  assumes "normalizeTransfer options0 = Inr options"
  shows "acceptedOptions options \<and> io_SSHBinary options = orDefault (io_SSHBinary options0) ''/usr/bin/ssh''
    \<and> set (io_Images options) = set (io_Images options0) \<and> distinct (io_Images options) \<and> io_Peers options = io_Peers options0"
proof -
  obtain images where unique: "uniqueImages [] (io_Images options0) = Inr images" and label: "dnsLabel (io_Cluster options0)"
    and shape: "platformPattern (orDefault (io_Platform options0) DefaultPlatform)"
      "\<not> list_ex (\<lambda>peer. \<not> peerPattern peer \<or> hasPrefix peer ''-'') (io_Peers options0)"
    and options: "options = options0\<lparr>io_Images := images, io_Platform := orDefault (io_Platform options0) DefaultPlatform,
      io_ContainerBinary := orDefault (io_ContainerBinary options0) ''/usr/local/bin/container'',
      io_SSHBinary := orDefault (io_SSHBinary options0) ''/usr/bin/ssh''\<rparr>"
    using assms by (simp add: normalizeTransfer_def Let_def if_eq_Inr tryS_eq_Inr split: if_splits) blast
  then show ?thesis
    using uniqueImages_Inr [OF unique] by (simp add: acceptedOptions_def list_all_iff list_ex_iff)
qed

lemma shellWord_append: "shellWord s \<Longrightarrow> shellWord t \<Longrightarrow> shellWord (s @ t)"
  by (simp add: shellWord_def)

lemma shellWord_label: "dnsLabel s \<Longrightarrow> shellWord s"
  by (auto simp: dnsLabel_def shellWord_def labelChar_def alphanumeric_def list_all_iff)

lemma shellWord_image: "imagePattern s \<Longrightarrow> shellWord s"
  by (auto simp: imagePattern_def shellWord_def list_all_iff)

lemma splitOn_chars: "c \<in> set s \<Longrightarrow> c = sep \<or> (\<exists>part \<in> set (splitOn sep s). c \<in> set part)"
  by (induction s) (auto split: list.splits)

lemma shellWord_parts:
  assumes "s \<noteq> []" "sep \<in> set ''/@''" "\<And>part. part \<in> set (splitOn sep s) \<Longrightarrow> list_all (\<lambda>c. alphanumeric c \<or> c \<in> set ''._:-'') part"
  shows "shellWord s"
  using assms(1,2) splitOn_chars [of _ s sep] assms(3) by (fastforce simp: shellWord_def list_all_iff)

lemma shellWord_platform: "platformPattern s \<Longrightarrow> shellWord s"
  by (rule shellWord_parts [of s "CHR ''/''"])
     (auto simp: platformPattern_def platformPart_def alphanumeric_def list_all_iff split: list.splits)

lemma shellWord_peer: "peerPattern s \<Longrightarrow> shellWord s"
  by (rule shellWord_parts [of s "CHR ''@''"]) (auto simp: peerPattern_def alphanumeric_def list_all_iff split: list.splits)

section \<open>What is sent to other machines\<close>

text \<open>
  A call of \<open>ssh\<close> whose destination cannot be an option, and whose words, which the shell of the other machine reads again, have no
  character with a meaning to a shell.
\<close>

definition safeRemote :: "event \<Rightarrow> bool" where
  "safeRemote e \<longleftrightarrow> (case e of Cmd _ args \<Rightarrow>
       if take 1 args = [''/usr/bin/ssh'']
       then take 3 args = [''/usr/bin/ssh'', ''-o'', ''BatchMode=yes''] \<and> 3 < length args
         \<and> \<not> hasPrefix (args ! 3) ''-'' \<and> list_all shellWord (drop 3 args)
       else True
     | _ \<Rightarrow> True)"

lemma quiet_local: "quiet e \<Longrightarrow> safeRemote e"
  by (auto simp: quiet_def safeRemote_def readsOnlyArgs_def split: event.splits list.splits)

lemma emits_targets: "emits quiet (ImageImportTargets E name)"
  unfolding ImageImportTargets_def by (intro effects emits_loadHAConfig quiet_preflightHA)

lemma emits_feedArchive [effects]: "emits P (feedArchive E H archive)"
proof -
  have "emits P (updA (\<lambda>w. w\<lparr>w_ext := e_feed E (w_ext w) data\<rparr>))" for data by (rule emits_silent) (simp add: updA_def)
  then show ?thesis unfolding feedArchive_def by (intro effects)
qed

lemma emits_runFor: "P (Cmd None args) \<Longrightarrow> emits P (runFor E args)"
  unfolding runFor_def by (intro effects) simp_all

lemma emits_importInto:
  assumes "P (Cmd None (command [''-i''] (importWords options)))"
    "\<And>ref. ref \<in> set (io_Images options) \<Longrightarrow> P (Cmd None (command [] (listWords ref)))"
  shows "emits P (importInto E H options archive msg command)"
  unfolding importInto_def verifyImage_def using assms by (intro effects emits_runFor) auto

lemma safe_remote_words:
  assumes ok: "acceptedOptions options" and peer: "peer \<in> set (io_Peers options)"
    and words: "list_all shellWord flags" "list_all shellWord words"
  shows "safeRemote (Cmd None (remoteCommand ''/usr/bin/ssh'' peer (agentContainer options) flags words))"
proof -
  have p: "peerPattern peer" "\<not> hasPrefix peer ''-''" using ok peer by (auto simp: acceptedOptions_def list_all_iff)
  have literals: "shellWord ''/usr/local/bin/container''" "shellWord ''exec''" "shellWord ''apc-k3s-''" "shellWord ''-agent''" by code_simp+
  have "dnsLabel (io_Cluster options)" using ok by (simp add: acceptedOptions_def)
  then have agent: "shellWord (agentContainer options)"
    unfolding agentContainer_def by (intro shellWord_append literals shellWord_label)
  show ?thesis
    using p shellWord_peer [OF p(1)] agent words by (simp add: safeRemote_def remoteCommand_def literals)
qed

lemma safe_words:
  assumes "acceptedOptions options"
  shows "list_all shellWord (importWords options)" "ref \<in> set (io_Images options) \<Longrightarrow> list_all shellWord (listWords ref)"
proof -
  have literals: "list_all shellWord [''ctr'', ''-n'', ''k8s.io'', ''images'', ''import'', ''--platform'', ''-'', ''list'', ''-q'']" by code_simp
  show "list_all shellWord (importWords options)"
    using literals assms shellWord_platform by (simp add: importWords_def acceptedOptions_def)
  show "list_all shellWord (listWords ref)" if "ref \<in> set (io_Images options)"
  proof -
    have "imagePattern ref" using assms that by (auto simp: acceptedOptions_def list_all_iff)
    moreover have "shellWord ''name==''" by code_simp
    ultimately have "shellWord (''name=='' @ ref)" using shellWord_append shellWord_image by blast
    then show ?thesis using literals by (simp add: listWords_def)
  qed
qed

lemma safe_import:
  assumes ok: "acceptedOptions options" and ssh: "io_SSHBinary options = ''/usr/bin/ssh''"
  shows "peer \<in> set (io_Peers options) \<Longrightarrow> emits safeRemote (importRemote E H options archive peer (agentContainer options))"
    and "emits safeRemote (importLocal E H options archive container)"
proof -
  show "emits safeRemote (importRemote E H options archive peer (agentContainer options))" if peer: "peer \<in> set (io_Peers options)"
    unfolding importRemote_def ssh
    by (intro emits_importInto safe_remote_words [OF ok peer] safe_words [OF ok]) (code_simp, simp_all)
  show "emits safeRemote (importLocal E H options archive container)"
    unfolding importLocal_def by (intro emits_importInto) (simp_all add: safeRemote_def localCommand_def)
qed

lemma safe_everywhere:
  assumes "acceptedOptions options" "io_SSHBinary options = ''/usr/bin/ssh''"
  shows "emits safeRemote (importEverywhere E H options targets archive)"
  unfolding importEverywhere_def exportArchive_def
  by (intro effects emits_runFor safe_import [OF assms]) (simp_all add: safeRemote_def)

lemma safe_transfer:
  assumes "acceptedOptions options" "io_SSHBinary options = ''/usr/bin/ssh''"
  shows "emits safeRemote (tryWrapA msg (ImageImportTargets E name) (\<lambda>targets. if targets = [] then errA e
    else tryA (forA (io_Images options) (pullImage E options)) (\<lambda>_. tryWrapA msg' (tryA (askExt f) liftA) (\<lambda>directory.
      staged directory (importEverywhere E H options targets (joinPath [directory, ''images.tar'']))))))"
  unfolding staged_def removeStaging_def pullImage_def
  by (intro effects emits_mono [OF emits_targets quiet_local] safe_everywhere [OF assms] emits_runFor) (simp_all add: safeRemote_def)

text \<open>
  C31: a transfer never hands another machine anything but its own words: every call of \<open>ssh\<close> names a destination that cannot be an
  option, and every word that follows, the images and the platform of the request included, is free of characters that a shell would
  interpret.
\<close>

theorem transfer_words_safe:
  "list_all safeRemote (w_trace (snd (Transfer E H (options\<lparr>io_SSHBinary := []\<rparr>) (w\<lparr>w_trace := []\<rparr>))))"
proof (cases "normalizeTransfer (options\<lparr>io_SSHBinary := []\<rparr>)")
  case (Inl e)
  then show ?thesis by (simp add: Transfer_def tryA_apply)
next
  case (Inr accepted)
  have ok: "acceptedOptions accepted" "io_SSHBinary accepted = ''/usr/bin/ssh''"
    using normalizeTransfer_Inr [OF Inr] by (simp_all add: orDefault_def)
  show ?thesis
    using emits_run [OF safe_transfer [OF ok]] unfolding Transfer_def Inr by (simp add: tryA_apply [of "liftA _"])
qed

section \<open>What a successful transfer has done\<close>

definition appends :: "event list \<Rightarrow> ('x, 'a) op \<Rightarrow> bool" where
  "appends es m \<longleftrightarrow> (\<forall>w x w'. m w = (Inr x, w') \<longrightarrow> w_trace w' = w_trace w @ es)"

lemma appendsD: "appends es m \<Longrightarrow> m w = (Inr x, w') \<Longrightarrow> w_trace w' = w_trace w @ es"
  unfolding appends_def by blast

lemma appends_silent: "(\<And>w. w_trace (snd (m w)) = w_trace w) \<Longrightarrow> appends [] m"
  unfolding appends_def by (metis append_Nil2 snd_conv)

lemma appends_tryA:
  assumes "appends es m" "\<And>x. appends es' (f x)"
  shows "appends (es @ es') (tryA m f)"
  using assms unfolding appends_def by (fastforce elim!: tryA_InrE)

lemma appends_tryWrapA: "appends es m \<Longrightarrow> (\<And>x. appends es' (f x)) \<Longrightarrow> appends (es @ es') (tryWrapA msg m f)"
  unfolding appends_def by (fastforce elim!: tryWrapA_InrE)

lemma appends_retA: "appends [] (retA x)"
  by (rule appends_silent) simp

lemma appends_if_err: "appends es m \<Longrightarrow> appends es (if b then errA e else m)"
  by (simp add: appends_def)

lemma appends_forA: "(\<And>x. appends (g x) (f x)) \<Longrightarrow> appends (concat (map g xs)) (forA xs f)"
  by (induction xs) (auto simp: appends_retA intro!: appends_tryA)

lemma appends_emitEvent: "appends [e] (emitEvent e)"
  by (simp add: appends_def emitEvent_def)

lemma appends_ask: "appends [] (tryA (askExt f) liftA)"
  by (rule appends_silent) (simp add: tryA_apply askExt_def split: sum.split)

lemma appends_runFor: "appends [Cmd None args] (runFor E args)"
  unfolding appends_def runFor_def runCmd_def
  by (auto simp: emitEvent_def queryCmd_def tryA_apply split: prod.splits option.splits)

lemma appends_feedArchive: "appends [] (feedArchive E H archive)"
  by (rule appends_silent) (simp add: feedArchive_def tryWrapA_def wrapA_def catchA_apply tryA_apply askExt_def split: sum.split)

text \<open>The commands that bring the images to one target and look for each of them there.\<close>

definition importEvents :: "ImageOptions \<Rightarrow> (string list \<Rightarrow> string list \<Rightarrow> string list) \<Rightarrow> event list" where
  "importEvents options command = Cmd None (command [''-i''] (importWords options))
     # map (\<lambda>ref. Cmd None (command [] (listWords ref))) (io_Images options)"

lemma appends_importInto: "appends (importEvents options command) (importInto E H options archive msg command)"
proof -
  have "appends ([Cmd None (command [] (listWords ref))] @ []) (verifyImage E command ref)" for ref
    unfolding verifyImage_def by (intro appends_tryWrapA appends_runFor appends_if_err appends_retA)
  then have "appends (concat (map (\<lambda>ref. [Cmd None (command [] (listWords ref))]) (io_Images options))) (forA (io_Images options) (verifyImage E command))"
    by (intro appends_forA) simp
  then have "appends ([] @ [Cmd None (command [''-i''] (importWords options))] @ concat (map (\<lambda>ref. [Cmd None (command [] (listWords ref))]) (io_Images options)))
      (importInto E H options archive msg command)"
    unfolding importInto_def by (intro appends_tryA appends_tryWrapA appends_feedArchive appends_runFor)
  then show ?thesis by (simp add: importEvents_def)
qed

definition pullEvents :: "ImageOptions \<Rightarrow> event list" where
  "pullEvents options = (if io_Pull options then map (\<lambda>ref. Cmd None [''image'', ''pull'', ''--platform'', io_Platform options, ''--progress'', ''plain'', ref])
     (io_Images options) else [])"

lemma appends_pull: "appends (pullEvents options) (forA (io_Images options) (pullImage E options))"
proof -
  let ?one = "\<lambda>ref. if io_Pull options then [Cmd None [''image'', ''pull'', ''--platform'', io_Platform options, ''--progress'', ''plain'', ref]] else []"
  have "appends (?one ref) (pullImage E options ref)" for ref
    using appends_tryWrapA [OF appends_runFor [of _ E] appends_retA, where msg = "''pull image''"] unfolding pullImage_def by (auto simp: appends_retA)
  then have "appends (concat (map ?one (io_Images options))) (forA (io_Images options) (pullImage E options))" by (rule appends_forA)
  moreover have "concat (map ?one (io_Images options)) = pullEvents options" by (simp add: pullEvents_def)
  ultimately show ?thesis by simp
qed

definition saveEvent :: "ImageOptions \<Rightarrow> string \<Rightarrow> event" where
  "saveEvent options archive = Cmd None ([''image'', ''save'', ''--platform'', io_Platform options, ''--output'', archive] @ io_Images options)"

definition transferEvents :: "ImageOptions \<Rightarrow> string list \<Rightarrow> string \<Rightarrow> event list" where
  "transferEvents options targets archive = saveEvent options archive
     # concat (map (\<lambda>container. importEvents options (localCommand container)) targets)
     @ concat (map (\<lambda>peer. importEvents options (remoteCommand (io_SSHBinary options) peer (agentContainer options))) (io_Peers options))"

lemma appends_everywhere: "appends (transferEvents options targets archive) (importEverywhere E H options targets archive)"
proof -
  have "appends ([saveEvent options archive] @ [] @ []) (exportArchive E H options archive)"
    unfolding exportArchive_def saveEvent_def by (intro appends_tryWrapA appends_runFor appends_ask appends_if_err appends_retA)
  then have "appends (([saveEvent options archive] @ [] @ []) @ concat (map (\<lambda>container. importEvents options (localCommand container)) targets)
     @ concat (map (\<lambda>peer. importEvents options (remoteCommand (io_SSHBinary options) peer (agentContainer options))) (io_Peers options)) @ [])
     (importEverywhere E H options targets archive)"
    unfolding importEverywhere_def importLocal_def importRemote_def
    by (intro appends_tryA appends_forA appends_importInto appends_retA)
  then show ?thesis by (simp add: transferEvents_def)
qed

lemma importEverywhere_Inr:
  "importEverywhere E H options targets archive w = (Inr r, w') \<Longrightarrow>
   tr_Images r = io_Images options \<and> tr_Targets r = targets @ map (\<lambda>peer. peer @ ''/'' @ agentContainer options) (io_Peers options)
   \<and> tr_ArchiveBytes r \<noteq> 0"
  unfolding importEverywhere_def exportArchive_def by (auto elim!: tryA_InrE tryWrapA_InrE split: if_splits)

lemma staged_Inr:
  assumes "staged directory m w = (Inr r, w')"
  shows "\<exists>w1. m w = (Inr r, w1) \<and> w_trace w' = w_trace w1 @ [Removed (joinPath [directory, ''images.tar'']), Removed directory]"
  using assms unfolding staged_def removeStaging_def
  by (cases "m w") (auto simp: catchA_apply tryA_apply emitEvent_def split: sum.splits)


end
