(* ===== verification/Overlay.thy ===== *)
theory Overlay
  imports Firewall
begin

text \<open>
  The check of the overlay network (\<open>overlay/overlay.go\<close>): the state that the Tailscale client reports, the interface of the local
  address and the route to the peer.
\<close>

record OverlayConfig =
  oc_Provider :: string
  oc_Interface :: string
  oc_LocalIP :: string
  oc_PeerIP :: string

record OverlayStatus =
  os_Provider :: string
  os_BackendState :: string
  os_Interface :: string
  os_LocalIP :: string
  os_PeerIP :: string
  os_PeerOnline :: bool
  os_CLI :: string

text \<open>
  The host: the lookup of the client on the path, the information of a file, the interfaces.  A Go map is iterated in any order; here
  the order of its keys is a ranking that the host may choose for each state.
\<close>

record 'x overlayHost =
  ov_lookPath :: "'x \<Rightarrow> string \<Rightarrow> gerror + string"
  ov_stat :: "'x \<Rightarrow> string \<Rightarrow> gerror + fileInfo"
  ov_host :: "'x pfHost"
  ov_rank :: "'x \<Rightarrow> string \<Rightarrow> int"

section \<open>Commands\<close>

definition runTool :: "'x env \<Rightarrow> string list \<Rightarrow> ('x, document) op" where
  "runTool E args = tryA (runCmd E None args) (\<lambda>res. let combined = docText (cr_stdout res) @ cr_stderr res in case cr_err res of
     Some e \<Rightarrow> errA (commandError ''run'' combined e)
   | None \<Rightarrow> retA (if cr_stderr res = [] then cr_stdout res else Text combined))"

definition tailscaleAppCLI :: string where
  "tailscaleAppCLI = ''/Applications/Tailscale.app/Contents/MacOS/Tailscale''"

definition findTailscaleCLI :: "'x overlayHost \<Rightarrow> ('x, string) op" where
  "findTailscaleCLI H = tryA (askExt (\<lambda>x. ov_lookPath H x ''tailscale'')) (\<lambda>found. case found of
     Inr resolved \<Rightarrow> retA resolved
   | Inl _ \<Rightarrow> tryA (askExt (\<lambda>x. ov_stat H x tailscaleAppCLI)) (\<lambda>info. case info of
       Inl _ \<Rightarrow> errA (Msg ''Tailscale CLI not found; install and authenticate Tailscale on this Mac first'')
     | Inr i \<Rightarrow> if fi_regular i \<and> executable (fi_perm i) then retA tailscaleAppCLI
         else errA (Msg ''Tailscale CLI not found; install and authenticate Tailscale on this Mac first'')))"

section \<open>The reported state\<close>

record tailscaleNode =
  tn_Online :: bool
  tn_TailscaleIPs :: "string list"

record tailscaleStatus =
  ts_BackendState :: string
  ts_Self :: tailscaleNode
  ts_Peer :: "(string \<times> tailscaleNode) list"

definition dNode :: "tailscaleNode decoder" where
  "dNode j = tryS (objFields j) (\<lambda>kvs. tryS (dBool (jField kvs ''Online'')) (\<lambda>online.
     tryS (dList dString (jField kvs ''TailscaleIPs'')) (\<lambda>ips. Inr \<lparr>tn_Online = online, tn_TailscaleIPs = ips\<rparr>)))"

text \<open>The entries of a Go map decoded from an object: the last one of each key.\<close>

fun lastEntries :: "(string \<times> 'a) list \<Rightarrow> (string \<times> 'a) list" where
  "lastEntries [] = []"
| "lastEntries ((k, v) # rest) = (if k \<in> set (map fst rest) then lastEntries rest else (k, v) # lastEntries rest)"

definition dPeers :: "(string \<times> tailscaleNode) list decoder" where
  "dPeers j = tryS (objFields j) (\<lambda>kvs.
     tryS (mapS (\<lambda>(k, v). tryS (dNode v) (\<lambda>n. Inr (k, n))) kvs) (\<lambda>entries. Inr (lastEntries entries)))"

definition dTailscale :: "tailscaleStatus decoder" where
  "dTailscale j = tryS (objFields j) (\<lambda>kvs. tryS (dString (jField kvs ''BackendState'')) (\<lambda>state.
     tryS (dNode (jField kvs ''Self'')) (\<lambda>self. tryS (dPeers (jField kvs ''Peer'')) (\<lambda>nodes.
     Inr \<lparr>ts_BackendState = state, ts_Self = self, ts_Peer = nodes\<rparr>))))"

section \<open>Addresses\<close>

text \<open>\<open>100.64.0.0/10\<close>\<close>

definition tailscaleIPv4 :: "ipv4 \<Rightarrow> bool" where
  "tailscaleIPv4 ip = prefixContains (ipv4Of 100 64 0 0, 10) ip"

definition overlayAddress :: "string \<Rightarrow> ipv4 option" where
  "overlayAddress s = (case parseIPv4Value s of None \<Rightarrow> None | Some ip \<Rightarrow> if tailscaleIPv4 ip then Some ip else None)"

definition selectLocalIP :: "string \<Rightarrow> string list \<Rightarrow> gerror + ipv4" where
  "selectLocalIP requested reported =
     (if requested \<noteq> [] then (case overlayAddress requested of
          None \<Rightarrow> Inl (Msg ''local IP must be an IPv4 address in Tailscale's 100.64.0.0/10 range'')
        | Some candidate \<Rightarrow> if list_ex (\<lambda>s. parseIPv4Value s = Some candidate) reported then Inr candidate
            else Inl (Msg ''local IP is not reported by Tailscale''))
      else (case List.map_filter overlayAddress reported of
          [] \<Rightarrow> Inl (Msg ''Tailscale did not report a local IPv4 address'') | candidate # _ \<Rightarrow> Inr candidate))"

text \<open>Every address of every peer that is the one looked for sets the flag, so the last one counts.\<close>

definition peerOnline :: "ipv4 \<Rightarrow> (string \<times> tailscaleNode) list \<Rightarrow> bool" where
  "peerOnline peer nodes = foldl (\<lambda>online (key, node). foldl (\<lambda>online s. if parseIPv4Value s = Some peer then tn_Online node else online)
     online (tn_TailscaleIPs node)) False nodes"

definition interfaceForIP :: "'x pfHost \<Rightarrow> string \<Rightarrow> ('x, string) op" where
  "interfaceForIP P address = tryWrapA ''list host network interfaces'' (tryA (askExt (ph_interfaces P)) liftA) (\<lambda>interfaces.
     case (case parseIP address of None \<Rightarrow> None | Some target \<Rightarrow> interfaceWith target interfaces) of
       None \<Rightarrow> errA (Msg ''local Tailscale IP is not assigned to a network interface'') | Some name \<Rightarrow> retA name)"

section \<open>The route\<close>

text \<open>
  The first match of \<open>(?m)^\s*interface:\s*(\S+)\s*$\<close>; \<open>\s\<close> is tab, newline, form feed, carriage return and space, so it may
  run over the end of a line.
\<close>

definition regexSpace :: "char \<Rightarrow> bool" where
  "regexSpace c \<longleftrightarrow> code c \<in> {9, 10, 12, 13, 32}"

definition routeAt :: "string \<Rightarrow> string option" where
  "routeAt s = (let r = dropWhile regexSpace s in
     if \<not> hasPrefix r ''interface:'' then None
     else (let v = dropWhile regexSpace (drop 10 r); word = takeWhile (\<lambda>c. \<not> regexSpace c) v; rest = drop (length word) v;
               gap = takeWhile regexSpace rest in
       if word \<noteq> [] \<and> (CHR 0x0A \<in> set gap \<or> gap = rest) then Some word else None))"

fun routeInterface :: "bool \<Rightarrow> string \<Rightarrow> string option" where
  "routeInterface atStart [] = None"
| "routeInterface atStart (c # s) = (case (if atStart then routeAt (c # s) else None) of
     Some name \<Rightarrow> Some name | None \<Rightarrow> routeInterface (c = CHR 0x0A) s)"

section \<open>The check\<close>

definition readTailscale :: "'x env \<Rightarrow> string \<Rightarrow> ('x, tailscaleStatus) op" where
  "readTailscale E cli =
     tryWrapA ''read Tailscale status'' (runTool E [cli, ''status'', ''--json'']) (\<lambda>reply.
     tryWrapA ''decode Tailscale status'' (liftA (decodeDoc dTailscale reply)) (\<lambda>ts.
     if ts_BackendState ts \<noteq> ''Running'' \<or> \<not> tn_Online (ts_Self ts) then errA (Msg ''Tailscale is not online'') else retA ts))"

definition checkRoute :: "'x env \<Rightarrow> string \<Rightarrow> string \<Rightarrow> ('x, unit) op" where
  "checkRoute E peer name =
     tryWrapA ''resolve route to Tailscale peer'' (runTool E [''/sbin/route'', ''-n'', ''get'', peer]) (\<lambda>route.
     case routeInterface True (docText route) of
       None \<Rightarrow> errA (Msg ''route to Tailscale peer did not report an interface'')
     | Some used \<Rightarrow> if used \<noteq> name then errA (Msg ''route to peer uses another interface than the local Tailscale interface'') else retA ())"

text \<open>The status of a failed check has no reader: only that of a complete one is a value here.\<close>

definition finishCheck :: "'x env \<Rightarrow> 'x overlayHost \<Rightarrow> OverlayConfig \<Rightarrow> string \<Rightarrow> tailscaleStatus \<Rightarrow> ipv4 \<Rightarrow> ipv4 \<Rightarrow> ('x, OverlayStatus) op" where
  "finishCheck E H config cli ts local peer =
     tryA (interfaceForIP (ov_host H) (addrString local)) (\<lambda>name.
     if oc_Interface config \<noteq> [] \<and> oc_Interface config \<noteq> ''auto'' \<and> oc_Interface config \<noteq> name
     then errA (Msg ''local Tailscale IP is assigned to another interface'')
     else tryA (checkRoute E (addrString peer) name) (\<lambda>_.
       retA \<lparr>os_Provider = oc_Provider config, os_BackendState = ts_BackendState ts, os_Interface = name,
             os_LocalIP = addrString local, os_PeerIP = addrString peer, os_PeerOnline = True, os_CLI = cli\<rparr>))"

definition comparePeers :: "'x env \<Rightarrow> 'x overlayHost \<Rightarrow> OverlayConfig \<Rightarrow> string \<Rightarrow> tailscaleStatus \<Rightarrow> ipv4 \<Rightarrow> ipv4 \<Rightarrow> ('x, OverlayStatus) op" where
  "comparePeers E H config cli ts local peer = (if local = peer then errA (Msg ''peer IP must differ from the local Tailscale IP'')
     else tryA (askExt (ov_rank H)) (\<lambda>rank.
       if \<not> peerOnline peer (sort_key (rank \<circ> fst) (ts_Peer ts)) then errA (Msg ''Tailscale peer is missing or offline'')
       else finishCheck E H config cli ts local peer))"

definition CheckOverlay :: "'x env \<Rightarrow> 'x overlayHost \<Rightarrow> OverlayConfig \<Rightarrow> ('x, OverlayStatus) op" where
  "CheckOverlay E H config0 = (let config = config0\<lparr>oc_Provider := orDefault (oc_Provider config0) ''tailscale''\<rparr> in
     if oc_Provider config \<noteq> ''tailscale'' then errA (Msg ''unsupported overlay provider; use tailscale'')
     else (case overlayAddress (oc_PeerIP config) of
         None \<Rightarrow> errA (Msg ''peer IP must be an IPv4 address in Tailscale's 100.64.0.0/10 range'')
       | Some peer \<Rightarrow>
           tryA (findTailscaleCLI H) (\<lambda>cli.
           tryA (readTailscale E cli) (\<lambda>ts.
           tryA (liftA (selectLocalIP (oc_LocalIP config) (tn_TailscaleIPs (ts_Self ts)))) (\<lambda>local.
           comparePeers E H config cli ts local peer)))))"

section \<open>A successful check\<close>

lemma peerOnline_fold:
  "foldl (\<lambda>online s. if parseIPv4Value s = Some peer then flag else online) start ips =
     (if list_ex (\<lambda>s. parseIPv4Value s = Some peer) ips then flag else start)"
  by (induction ips arbitrary: start) auto

lemma peerOnline_member:
  "foldl (\<lambda>online (key, node). foldl (\<lambda>online s. if parseIPv4Value s = Some peer then tn_Online node else online)
     online (tn_TailscaleIPs node)) start nodes \<Longrightarrow>
   start \<or> list_ex (\<lambda>(key, node). tn_Online node \<and> list_ex (\<lambda>s. parseIPv4Value s = Some peer) (tn_TailscaleIPs node)) nodes"
proof (induction nodes arbitrary: start)
  case (Cons entry nodes)
  obtain key node where e: "entry = (key, node)" by fastforce
  show ?case using Cons.IH Cons.prems by (fastforce simp: e peerOnline_fold split: if_splits)
qed simp

definition reportedOnline :: "ipv4 \<Rightarrow> tailscaleStatus \<Rightarrow> bool" where
  "reportedOnline peer ts \<longleftrightarrow> list_ex (\<lambda>(key, node). tn_Online node \<and> list_ex (\<lambda>s. parseIPv4Value s = Some peer) (tn_TailscaleIPs node)) (ts_Peer ts)"

lemma peerOnline_reported: "peerOnline peer (sort_key f (ts_Peer ts)) \<Longrightarrow> reportedOnline peer ts"
  using peerOnline_member [of peer False "sort_key f (ts_Peer ts)"] by (auto simp: peerOnline_def reportedOnline_def list_ex_iff)

lemma overlayAddress_Some: "overlayAddress s = Some ip \<Longrightarrow> parseIPv4Value s = Some ip \<and> tailscaleIPv4 ip"
  by (auto simp: overlayAddress_def split: option.splits if_splits)

lemma selectLocalIP_Inr:
  assumes "selectLocalIP requested reported = Inr local"
  shows "tailscaleIPv4 local \<and> list_ex (\<lambda>s. parseIPv4Value s = Some local) reported
    \<and> (if requested = [] then True else parseIPv4Value requested = Some local)"
proof (cases "requested = []")
  case True
  then obtain rest where "List.map_filter overlayAddress reported = local # rest"
    using assms by (auto simp: selectLocalIP_def split: list.splits)
  then have "local \<in> set (List.map_filter overlayAddress reported)" by simp
  then obtain s where "s \<in> set reported" "overlayAddress s = Some local" by (auto simp: List.map_filter_def)
  then show ?thesis using True overlayAddress_Some by (auto simp: list_ex_iff)
next
  case False
  then show ?thesis using assms overlayAddress_Some by (auto simp: selectLocalIP_def split: option.splits if_splits)
qed

lemma runTool_trace: "runTool E args w = (Inr reply, w') \<Longrightarrow> w_trace w' = w_trace w @ [Cmd None args]"
  by (auto simp: runTool_def runCmd_def emitEvent_def queryCmd_def tryA_apply Let_def split: prod.splits option.splits)

lemma findTailscaleCLI_world: "findTailscaleCLI H w = (Inr cli, w') \<Longrightarrow> w' = w"
  unfolding findTailscaleCLI_def by (auto simp: askExt_def elim!: tryA_InrE split: sum.splits if_splits)

lemma readTailscale_Inr:
  assumes "readTailscale E cli w = (Inr ts, w')"
  shows "\<exists>reply. decodeDoc dTailscale reply = Inr ts \<and> ts_BackendState ts = ''Running'' \<and> tn_Online (ts_Self ts)
    \<and> w_trace w' = w_trace w @ [Cmd None [cli, ''status'', ''--json'']]"
  using assms unfolding readTailscale_def by (auto elim!: tryWrapA_InrE dest!: runTool_trace split: if_splits)

lemma interfaceForIP_Inr:
  assumes "interfaceForIP P address w = (Inr name, w')"
  shows "w' = w \<and> (\<exists>target interfaces. parseIP address = Some target \<and> ph_interfaces P (w_ext w) = Inr interfaces
    \<and> interfaceWith target interfaces = Some name)"
  using assms unfolding interfaceForIP_def by (auto simp: askExt_def elim!: tryA_InrE tryWrapA_InrE split: option.splits)

lemma checkRoute_Inr:
  assumes "checkRoute E peer name w = (Inr u, w')"
  shows "w_trace w' = w_trace w @ [Cmd None [''/sbin/route'', ''-n'', ''get'', peer]]
    \<and> (\<exists>route. routeInterface True (docText route) = Some name)"
  using assms unfolding checkRoute_def by (auto elim!: tryWrapA_InrE dest!: runTool_trace split: option.splits if_splits)


end
