(* ===== verification/Diagnostics.thy ===== *)
theory Diagnostics
  imports Targets Launchd
begin

text \<open>
  The diagnosis of a cluster (\<open>diagnostics.go\<close>): the state of its control plane and its nodes, and, when these are fit for it,
  probe Pods and a Service that are deleted again.  The contexts with a deadline are the environment's: a command that runs out of
  time is one that fails.  The table of \<open>WriteText\<close> is not modelled.
\<close>

section \<open>Reports\<close>

datatype DiagnosticStatus = DiagnosticPass | DiagnosticWarn | DiagnosticFail

record DiagnosticResult =
  dr_Name :: string
  dr_Status :: DiagnosticStatus
  dr_Detail :: string
  dr_Remediation :: string

record DiagnosticReport =
  dg_Cluster :: string
  dg_Namespace :: string
  dg_Results :: "DiagnosticResult list"

record DiagnoseOptions =
  do_Image :: string
  do_Timeout :: int
  do_ProbeTimeout :: int
  do_Keep :: bool
  do_SkipEgress :: bool

definition FailureCount :: "DiagnosticReport \<Rightarrow> nat" where
  "FailureCount r = length (filter (\<lambda>result. dr_Status result = DiagnosticFail) (dg_Results r))"

definition WarningCount :: "DiagnosticReport \<Rightarrow> nat" where
  "WarningCount r = length (filter (\<lambda>result. dr_Status result = DiagnosticWarn) (dg_Results r))"

definition PassedCount :: "DiagnosticReport \<Rightarrow> int" where
  "PassedCount r = int (length (dg_Results r)) - int (FailureCount r) - int (WarningCount r)"

definition result :: "string \<Rightarrow> DiagnosticStatus \<Rightarrow> string \<Rightarrow> string \<Rightarrow> DiagnosticResult" where
  "result subject status detail remediation =
     \<lparr>dr_Name = subject, dr_Status = status, dr_Detail = detail, dr_Remediation = remediation\<rparr>"

section \<open>Texts\<close>

definition tailLines :: "string \<Rightarrow> nat \<Rightarrow> string" where
  "tailLines s n = (let parts = splitOn (CHR 0x0A) (trimSpace s) in joinWith [CHR 0x0A] (drop (length parts - n) parts))"

definition conciseError :: "gerror \<Rightarrow> string" where
  "conciseError e = (let text = joinWith '' '' (GoStrings.fields (tailLines (errorText e) 3)) in
     if 280 < length text then take 277 text @ ''...'' else text)"

text \<open>\<open>Duration.String\<close>: a duration below a second in the largest unit that fits, with the sign in front.\<close>

definition fractionDigits :: "nat \<Rightarrow> int \<Rightarrow> string" where
  "fractionDigits n v = (if v = 0 then [] else CHR ''.'' # rev (dropWhile (\<lambda>c. c = CHR ''0'') (rev (padLeft n (itoa v)))))"

definition goDuration :: "int \<Rightarrow> string" where
  "goDuration d = (let u = abs d; text =
       (if u = 0 then ''0s''
        else if u < 1000 then itoa u @ ''ns''
        else if u < 1000000 then itoa (u div 1000) @ fractionDigits 3 (u mod 1000) @ [CHR 0xC2, CHR 0xB5, CHR ''s'']
        else if u < second then itoa (u div 1000000) @ fractionDigits 6 (u mod 1000000) @ ''ms''
        else durationString u) in
     if d < 0 then CHR ''-'' # text else text)"

text \<open>A string as \<open>json.Marshal\<close> writes it; its input is valid UTF-8 without the separators U+2028 and U+2029.\<close>

definition jsonChar :: "char \<Rightarrow> string" where
  "jsonChar c = (let n = of_char c :: nat in
     if n = 34 then [CHR 0x5C, CHR 0x22] else if n = 92 then [CHR 0x5C, CHR 0x5C]
     else if n = 8 then [CHR 0x5C, CHR ''b''] else if n = 12 then [CHR 0x5C, CHR ''f''] else if n = 10 then [CHR 0x5C, CHR ''n'']
     else if n = 13 then [CHR 0x5C, CHR ''r''] else if n = 9 then [CHR 0x5C, CHR ''t'']
     else if n < 32 \<or> n = 60 \<or> n = 62 \<or> n = 38 then CHR 0x5C # ''u'' @ padLeft 4 (natToHex (int n))
     else [c])"

definition jsonText :: "string \<Rightarrow> string" where
  "jsonText s = [CHR 0x22] @ concat (map jsonChar s) @ [CHR 0x22]"

text \<open>Go's division of integers, which truncates towards zero.\<close>

definition truncDiv :: "int \<Rightarrow> int \<Rightarrow> int" where
  "truncDiv a b = sgn a * (abs a div b)"

section \<open>Nodes\<close>

record diagnosticNode =
  dn_Name :: string
  dn_Unschedulable :: bool
  dn_Conditions :: "(string \<times> string) list"
  dn_Addresses :: "(string \<times> string) list"

record diagnosticPod =
  dp_Name :: string
  dp_Node :: string
  dp_IP :: string

definition dDiagnosticNode :: "diagnosticNode decoder" where
  "dDiagnosticNode j = tryS (objFields j) (\<lambda>top. at objFields ''metadata'' top (\<lambda>m. at dString ''name'' m (\<lambda>n.
     at objFields ''spec'' top (\<lambda>sp. at dBool ''unschedulable'' sp (\<lambda>u.
     at objFields ''status'' top (\<lambda>st. at (dList dCondition) ''conditions'' st (\<lambda>cs. at (dList dTypedAddress) ''addresses'' st (\<lambda>as.
       Inr \<lparr>dn_Name = n, dn_Unschedulable = u, dn_Conditions = cs, dn_Addresses = as\<rparr>))))))))"

definition dNodeList :: "diagnosticNode list decoder" where
  "dNodeList j = tryS (objFields j) (\<lambda>top. at (dList dDiagnosticNode) ''items'' top Inr)"

definition nodeReady :: "diagnosticNode \<Rightarrow> bool" where
  "nodeReady node = (case firstOf ''Ready'' (dn_Conditions node) of None \<Rightarrow> False | Some status \<Rightarrow> status = ''True'')"

definition nodeAddressSummary :: "diagnosticNode \<Rightarrow> string" where
  "nodeAddressSummary node =
     (let addresses = map (\<lambda>(t, a). t @ ''='' @ a) (filter (\<lambda>(t, a). t = ''InternalIP'' \<or> t = ''ExternalIP'') (dn_Addresses node)) in
      if addresses = [] then ''no node IPs'' else joinWith '', '' addresses)"

text \<open>The owners of the internal addresses seen so far, and what an address that is met again adds.\<close>

fun addressResults :: "string \<Rightarrow> (string \<times> string) list \<Rightarrow> (string \<times> string) list \<Rightarrow> (string \<times> string) list \<times> DiagnosticResult list" where
  "addressResults node owners [] = (owners, [])"
| "addressResults node owners ((t, a) # rest) =
     (if t \<noteq> ''InternalIP'' \<or> parseIP a = None then addressResults node owners rest
      else (case map_of owners a of
          Some owner \<Rightarrow> (case addressResults node owners rest of (owners', rs) \<Rightarrow> (owners',
            result (''node-internal-ip/'' @ a) DiagnosticFail (owner @ '' and '' @ node @ '' advertise the same InternalIP'')
              ''recreate one APC node envelope before scheduling workloads'' # rs))
        | None \<Rightarrow> addressResults node ((a, node) # owners) rest))"

definition nodeResult :: "diagnosticNode \<Rightarrow> DiagnosticResult" where
  "nodeResult node = (let detail = nodeAddressSummary node @ (if dn_Unschedulable node then '', cordoned'' else []) in
     if nodeReady node then result (''node/'' @ dn_Name node) DiagnosticPass (''Ready, '' @ detail) []
     else result (''node/'' @ dn_Name node) DiagnosticFail (''NotReady, '' @ detail) ''inspect node conditions and kubelet logs'')"

fun nodeResults :: "(string \<times> string) list \<Rightarrow> diagnosticNode list \<Rightarrow> DiagnosticResult list" where
  "nodeResults owners [] = []"
| "nodeResults owners (node # rest) = (case addressResults (dn_Name node) owners (dn_Addresses node) of
     (owners', rs) \<Rightarrow> nodeResult node # rs @ nodeResults owners' rest)"

section \<open>Commands in the cluster\<close>

definition diagnosticKubectl :: "'x env \<Rightarrow> string \<Rightarrow> string list \<Rightarrow> ('x, document) op" where
  "diagnosticKubectl E name arguments = catchA (loadHAConfig E name) (\<lambda>r. case r of
     Inl haErr \<Rightarrow>
       if \<not> errorsIs haErr ErrNotExist then errA haErr
       else tryA (runCmd E None ([''exec'', ContainerName name, ''kubectl''] @ arguments)) (\<lambda>res. case cr_err res of
         Some e \<Rightarrow> errA (commandError (''kubectl '' @ joinWith '' '' arguments) (cr_stderr res) e) | None \<Rightarrow> retA (cr_stdout res))
   | Inr _ \<Rightarrow> catchA (Kubectl E name arguments) (\<lambda>r. case r of
       Inl e \<Rightarrow> errA (commandError (''kubectl '' @ joinWith '' '' arguments) [] e)
     | Inr res \<Rightarrow> (case cr_err res of
         Some e \<Rightarrow> errA (commandError (''kubectl '' @ joinWith '' '' arguments) (cr_stderr res) e) | None \<Rightarrow> retA (cr_stdout res))))"

definition podProbe :: "'x env \<Rightarrow> string \<Rightarrow> int \<Rightarrow> string \<Rightarrow> string \<Rightarrow> string list \<Rightarrow> ('x, unit) op" where
  "podProbe E name timeout namespace pod command = tryA (diagnosticKubectl E name
     ([''--request-timeout='' @ goDuration timeout, ''exec'', ''-n'', namespace, pod, ''--''] @ command)) (\<lambda>_. retA ())"

text \<open>The result of a probe that passed or failed.\<close>

definition probed :: "string \<Rightarrow> string \<Rightarrow> string \<Rightarrow> ('x, 'a) op \<Rightarrow> ('x, DiagnosticResult) op" where
  "probed subject detail remediation m = catchA m (\<lambda>r. case r of
     Inl e \<Rightarrow> retA (result subject DiagnosticFail (conciseError e) remediation)
   | Inr _ \<Rightarrow> retA (result subject DiagnosticPass detail []))"

section \<open>The control plane\<close>

definition memberResults :: "string \<Rightarrow> HAMemberState \<Rightarrow> DiagnosticResult list" where
  "memberResults name member = (let memberName = orDefault (ms_NodeName member) (''member-'' @ itoa (ms_ID member)) in
     [if equalFold (ms_RuntimeState member) ''running''
      then result (''ha-runtime/'' @ memberName) DiagnosticPass (ms_Container member @ '' is running'') []
      else result (''ha-runtime/'' @ memberName) DiagnosticFail (ms_Container member @ '' is '' @ ms_RuntimeState member)
        (''run: apc cluster ha start '' @ name),
      if ms_APIReady member then result (''host-api/'' @ memberName) DiagnosticPass (ms_APIEndpoint member @ '' is Ready'') []
      else result (''host-api/'' @ memberName) DiagnosticFail (ms_APIEndpoint member @ '' is not Ready'')
        ''verify the published API port, TLS credentials and member logs'',
      if ms_NodeReady member then result (''ha-node/'' @ memberName) DiagnosticPass (memberName @ '' is Kubernetes Ready''
        @ (if ms_K3sVersion member \<noteq> [] then '' ('' @ ms_K3sVersion member @ '')'' else [])) []
      else result (''ha-node/'' @ memberName) DiagnosticFail (memberName @ '' is not Kubernetes Ready'') ''inspect K3s and kubelet logs''])"

definition quorumDetail :: "HAState \<Rightarrow> string" where
  "quorumDetail state = itoa (st_ReadyMembers state) @ ''/'' @ itoa (int (length (st_Members state)))
     @ '' Ready node/API pairs; quorum requires '' @ itoa (st_Quorum state)"

text \<open>The results, and whether the diagnosis goes on.\<close>

definition haControlPlane :: "'x env \<Rightarrow> string \<Rightarrow> HAConfig \<Rightarrow> ('x, DiagnosticResult list \<times> bool) op" where
  "haControlPlane E name haConfig = catchA (StatusHA E name) (\<lambda>rs. case rs of
     Inl e \<Rightarrow> retA ([result ''control-plane'' DiagnosticFail (conciseError e) (''run: apc cluster ha status '' @ name)], False)
   | Inr state \<Rightarrow> let members = concat (map (memberResults name) (st_Members state)) in
       if \<not> st_Healthy state
       then retA (members @ [result ''etcd-quorum'' DiagnosticFail (quorumDetail state)
         (''restore at least '' @ itoa (st_Quorum state) @ '' HA members before running workload probes'')], False)
       else catchA (validateHAEtcdTopology E haConfig) (\<lambda>rt.
         let quorum = result ''etcd-quorum'' DiagnosticPass (quorumDetail state) [] in case rt of
           Inl e \<Rightarrow> retA (members @ [quorum, result ''etcd-topology'' DiagnosticFail (conciseError e)
             ''repair embedded-etcd membership before creating diagnostic workloads or stopping a member''], False)
         | Inr topology \<Rightarrow> retA (members @ [quorum, result ''etcd-topology'' DiagnosticPass
             (itoa (int (length topology)) @ '' unique healthy voting members with exact peer topology'') []], True)))"

definition hostAPI :: "('x \<Rightarrow> string \<Rightarrow> gerror option \<times> 'x) \<Rightarrow> string \<Rightarrow> ('x, DiagnosticResult) op" where
  "hostAPI dialTCP endpoint = (let invalid = result ''host-api'' DiagnosticFail (''invalid published API endpoint '' @ endpoint) ''recreate the server node'' in
     case urlParse endpoint of
       None \<Rightarrow> retA invalid
     | Some u \<Rightarrow> if u_host u = [] then retA invalid
         else probed ''host-api'' (u_host u @ '' accepts TCP connections'') ''verify the published API port and host firewall''
           (tryA (queryExt (\<lambda>x. dialTCP x (u_host u))) (\<lambda>failed. case failed of Some e \<Rightarrow> errA e | None \<Rightarrow> retA ())))"

definition singleControlPlane :: "'x env \<Rightarrow> ('x \<Rightarrow> string \<Rightarrow> gerror option \<times> 'x) \<Rightarrow> string \<Rightarrow> ('x, DiagnosticResult list \<times> bool) op" where
  "singleControlPlane E dialTCP name = catchA (StatusNode E name) (\<lambda>rs. case rs of
     Inl e \<Rightarrow> retA ([result ''control-plane'' DiagnosticFail (conciseError e) (''run: apc cluster status '' @ name)], False)
   | Inr state \<Rightarrow>
       if \<not> equalFold (sn_RuntimeState state) ''running''
       then retA ([result ''control-plane'' DiagnosticFail (''Apple VM is '' @ sn_RuntimeState state) (''run: apc cluster start '' @ name)], False)
       else tryA (hostAPI dialTCP (sn_APIEndpoint state)) (\<lambda>api.
         retA ([if sn_NodeReady state
            then result ''control-plane'' DiagnosticPass (sn_NodeName state @ '' is Kubernetes Ready ('' @ sn_K3sVersion state @ '')'') []
            else result ''control-plane'' DiagnosticFail (sn_NodeName state @ '' is not Kubernetes Ready'') ''inspect K3s and kubelet logs'', api], True)))"

definition controlPlane :: "'x env \<Rightarrow> ('x \<Rightarrow> string \<Rightarrow> gerror option \<times> 'x) \<Rightarrow> string \<Rightarrow> ('x, DiagnosticResult list \<times> bool) op" where
  "controlPlane E dialTCP name = catchA (loadHAConfig E name) (\<lambda>r. case r of
     Inr haConfig \<Rightarrow> haControlPlane E name haConfig
   | Inl e \<Rightarrow> if \<not> errorsIs e ErrNotExist
       then retA ([result ''control-plane'' DiagnosticFail (conciseError e) ''repair the protected HA cluster configuration''], False)
       else singleControlPlane E dialTCP name)"

text \<open>The nodes: the results, and the Ready nodes when there are any.\<close>

definition diagnoseNodes :: "'x env \<Rightarrow> string \<Rightarrow> ('x, DiagnosticResult list \<times> diagnosticNode list) op" where
  "diagnoseNodes E name = catchA (diagnosticKubectl E name [''get'', ''nodes'', ''-o'', ''json'']) (\<lambda>r. case r of
     Inl e \<Rightarrow> retA ([result ''nodes'' DiagnosticFail (conciseError e) ''run: apc get nodes -o wide''], [])
   | Inr reply \<Rightarrow> (case decodeDoc dNodeList reply of
       Inl e \<Rightarrow> retA ([result ''nodes'' DiagnosticFail (''decode Kubernetes node list: '' @ errorText e) []], [])
     | Inr nodes \<Rightarrow> let ready = filter nodeReady nodes in
         retA (nodeResults [] nodes @ (if ready = [] then [result ''probe-workloads'' DiagnosticFail ''no Ready nodes available'' ''restore at least one node''] else []),
               ready)))"

section \<open>Probes\<close>

definition probeNamespace :: string where
  "probeNamespace = ''default''"

definition podNameOf :: "string \<Rightarrow> nat \<Rightarrow> string" where
  "podNameOf runPrefix index = runPrefix @ ''-'' @ itoa (int index)"

definition podOverrides :: "string \<Rightarrow> string" where
  "podOverrides node = (let q = (\<lambda>s. [CHR 0x22] @ s @ [CHR 0x22]) in
     ''{'' @ q ''apiVersion'' @ '':'' @ q ''v1'' @ '','' @ q ''spec'' @ '':{'' @ q ''nodeName'' @ '':'' @ jsonText node
     @ '','' @ q ''terminationGracePeriodSeconds'' @ '':0}}'')"

definition waitTimeout :: "DiagnoseOptions \<Rightarrow> int" where
  "waitTimeout options = min (truncDiv (do_Timeout options) 2) (60 * second)"

definition runPodArguments :: "DiagnoseOptions \<Rightarrow> string \<Rightarrow> string \<Rightarrow> string \<Rightarrow> string list" where
  "runPodArguments options suf podName node = [''run'', podName, ''-n'', probeNamespace, ''--image'', do_Image options,
     ''--image-pull-policy'', ''IfNotPresent'', ''--restart'', ''Never'',
     ''--labels'', ''apc.dev/diagnostic='' @ suf @ '',apc.dev/probe='' @ podName, ''--overrides'', podOverrides node]"

text \<open>One probe Pod: created, awaited, and asked for its address.\<close>

definition startPod :: "'x env \<Rightarrow> string \<Rightarrow> DiagnoseOptions \<Rightarrow> string \<Rightarrow> string \<Rightarrow> string \<Rightarrow> ('x, DiagnosticResult \<times> diagnosticPod option) op" where
  "startPod E name options suf podName node = (let failed = (\<lambda>detail remediation.
       retA (result (''probe-pod/'' @ node) DiagnosticFail detail remediation, None)) in
     catchA (diagnosticKubectl E name (runPodArguments options suf podName node)) (\<lambda>r1. case r1 of
       Inl e \<Rightarrow> failed (conciseError e) ''inspect image availability and node admission''
     | Inr _ \<Rightarrow> catchA (diagnosticKubectl E name [''wait'', ''-n'', probeNamespace, ''--for=condition=Ready'', ''pod/'' @ podName,
           ''--timeout'', goDuration (waitTimeout options)]) (\<lambda>r2. case r2 of
         Inl e \<Rightarrow> failed (conciseError e) ''inspect the probe Pod events''
       | Inr _ \<Rightarrow> catchA (diagnosticKubectl E name [''get'', ''pod'', podName, ''-n'', probeNamespace, ''-o'', ''jsonpath={.status.podIP}'']) (\<lambda>r3. case r3 of
           Inl e \<Rightarrow> failed ''Pod has no valid IP'' ''inspect CNI initialization''
         | Inr reply \<Rightarrow> let podIP = trimSpace (docText reply) in
             if parseIP podIP = None then failed ''Pod has no valid IP'' ''inspect CNI initialization''
             else retA (result (''probe-pod/'' @ node) DiagnosticPass (podName @ '' Ready at '' @ podIP) [],
                        Some \<lparr>dp_Name = podName, dp_Node = node, dp_IP = podIP\<rparr>)))))"

fun startPods :: "'x env \<Rightarrow> string \<Rightarrow> DiagnoseOptions \<Rightarrow> string \<Rightarrow> string \<Rightarrow> nat \<Rightarrow> diagnosticNode list
    \<Rightarrow> ('x, DiagnosticResult list \<times> diagnosticPod list) op" where
  "startPods E name options suf runPrefix index [] = retA ([], [])"
| "startPods E name options suf runPrefix index (node # rest) =
     tryA (startPod E name options suf (podNameOf runPrefix index) (dn_Name node)) (\<lambda>(r, pod).
     tryA (startPods E name options suf runPrefix (Suc index) rest) (\<lambda>(rs, pods).
     retA (r # rs, (case pod of Some p \<Rightarrow> p # pods | None \<Rightarrow> pods))))"

definition wgetWords :: "DiagnoseOptions \<Rightarrow> string \<Rightarrow> string list" where
  "wgetWords options target = [''wget'', ''-q'', ''-T'', itoa (max 1 (truncDiv (do_ProbeTimeout options) second - 1)), ''-O'', ''/dev/null'', target]"

definition probeIn :: "'x env \<Rightarrow> string \<Rightarrow> DiagnoseOptions \<Rightarrow> diagnosticPod \<Rightarrow> string list \<Rightarrow> ('x, unit) op" where
  "probeIn E name options pod command = podProbe E name (do_ProbeTimeout options) probeNamespace (dp_Name pod) command"

definition probePod :: "'x env \<Rightarrow> string \<Rightarrow> DiagnoseOptions \<Rightarrow> diagnosticPod \<Rightarrow> ('x, DiagnosticResult list) op" where
  "probePod E name options pod =
     tryA (probed (''kubelet-exec/'' @ dp_Node pod) ''exec succeeded'' ''verify TCP 10250 and K3s remotedialer connectivity''
       (probeIn E name options pod [''true''])) (\<lambda>r1.
     tryA (probed (''dns/'' @ dp_Node pod) ''kubernetes.default.svc.cluster.local resolved'' ''verify CoreDNS and Pod-to-Service routing''
       (probeIn E name options pod [''nslookup'', ''kubernetes.default.svc.cluster.local''])) (\<lambda>r2.
     tryA (if do_SkipEgress options then retA (result (''egress/'' @ dp_Node pod) DiagnosticWarn ''skipped by request'' [])
       else probed (''egress/'' @ dp_Node pod) ''HTTPS egress succeeded''
         ''verify Apple VM NAT, DNS and host routing; host tunnel default routes may block forwarded VM traffic''
         (probeIn E name options pod (wgetWords options ''https://example.com/''))) (\<lambda>r3.
     retA [r1, r2, r3])))"

fun collectA :: "('a \<Rightarrow> ('x, 'b) op) \<Rightarrow> 'a list \<Rightarrow> ('x, 'b list) op" where
  "collectA f [] = retA []"
| "collectA f (a # as) = tryA (f a) (\<lambda>b. tryA (collectA f as) (\<lambda>bs. retA (b # bs)))"

definition probeAcross :: "'x env \<Rightarrow> string \<Rightarrow> DiagnoseOptions \<Rightarrow> diagnosticPod list \<Rightarrow> ('x, DiagnosticResult list) op" where
  "probeAcross E name options pods =
     (if length pods < 2 then retA [result ''cross-node-vxlan'' DiagnosticWarn ''only one Ready probe Pod'' ''join another node for the VXLAN gate'']
      else collectA (\<lambda>(source, destination).
          probed (''pod-network/'' @ dp_Node source @ ''->'' @ dp_Node destination) (''HTTP reached '' @ dp_IP destination)
            ''verify bidirectional UDP 8472, VM-to-LAN routing and Flannel annotations''
            (probeIn E name options source (wgetWords options (''http://'' @ dp_IP destination @ ''/''))))
        (filter (\<lambda>(source, destination). dp_Node source \<noteq> dp_Node destination)
          (concat (map (\<lambda>source. map (\<lambda>destination. (source, destination)) pods) pods))))"

definition probeService :: "'x env \<Rightarrow> string \<Rightarrow> DiagnoseOptions \<Rightarrow> string \<Rightarrow> diagnosticPod list \<Rightarrow> ('x, DiagnosticResult list) op" where
  "probeService E name options runPrefix pods =
     catchA (diagnosticKubectl E name [''expose'', ''pod'', dp_Name (hd pods), ''-n'', probeNamespace, ''--name'', runPrefix,
        ''--port'', ''80'', ''--target-port'', ''80'']) (\<lambda>r. case r of
       Inl e \<Rightarrow> retA [result ''clusterip'' DiagnosticFail (conciseError e) ''inspect Service admission'']
     | Inr _ \<Rightarrow> collectA (\<lambda>pod. probed (''clusterip/'' @ dp_Node pod) ''Service DNS and ClusterIP request succeeded''
           ''verify CoreDNS, kube-proxy and cross-node Pod routing''
           (probeIn E name options pod (wgetWords options (''http://'' @ runPrefix @ ''.'' @ probeNamespace @ ''.svc.cluster.local/'')))) pods)"

definition probePods :: "'x env \<Rightarrow> string \<Rightarrow> DiagnoseOptions \<Rightarrow> string \<Rightarrow> diagnosticPod list \<Rightarrow> ('x, DiagnosticResult list) op" where
  "probePods E name options runPrefix pods =
     (if pods = [] then retA []
      else tryA (collectA (probePod E name options) pods) (\<lambda>rs1.
        tryA (probeAcross E name options pods) (\<lambda>rs2.
        tryA (probeService E name options runPrefix pods) (\<lambda>rs3.
        retA (concat rs1 @ rs2 @ rs3)))))"

text \<open>
  The names registered for deletion: a Pod before it is created, for every Ready node, and the Service before it is exposed, which
  happens when there is a Pod to expose.
\<close>

definition registered :: "string \<Rightarrow> nat \<Rightarrow> bool \<Rightarrow> string list" where
  "registered runPrefix count exposed = map (\<lambda>index. ''pod/'' @ podNameOf runPrefix index) [0..<count]
     @ (if exposed then [''service/'' @ runPrefix] else [])"

definition deleteArguments :: "string list \<Rightarrow> string list" where
  "deleteArguments resources = [''delete'', ''-n'', probeNamespace, ''--ignore-not-found=true'', ''--wait=true'', ''--timeout=12s'',
     ''--force'', ''--grace-period=0''] @ resources"

definition cleanup :: "'x env \<Rightarrow> string \<Rightarrow> DiagnoseOptions \<Rightarrow> string list \<Rightarrow> ('x, DiagnosticResult) op" where
  "cleanup E name options resources =
     (if do_Keep options
      then retA (result ''cleanup'' DiagnosticWarn (joinWith '', '' resources @ '' retained by request'') ''delete the listed resources after inspection'')
      else if resources = [] then retA (result ''cleanup'' DiagnosticPass ''no probe resources to delete'' [])
      else catchA (diagnosticKubectl E name (deleteArguments resources)) (\<lambda>r. case r of
          Inl e \<Rightarrow> retA (result ''cleanup'' DiagnosticWarn (conciseError e) (''delete '' @ joinWith '' '' resources @ '' manually''))
        | Inr _ \<Rightarrow> retA (result ''cleanup'' DiagnosticPass ''probe Pods and Service deleted'' [])))"

definition diagnoseWorkloads :: "'x env \<Rightarrow> string \<Rightarrow> DiagnoseOptions \<Rightarrow> string \<Rightarrow> diagnosticNode list \<Rightarrow> ('x, DiagnosticResult list) op" where
  "diagnoseWorkloads E name options suf ready = (let runPrefix = ''apc-doctor-'' @ suf in
     tryA (startPods E name options suf runPrefix 0 ready) (\<lambda>(rs1, pods).
     tryA (probePods E name options runPrefix pods) (\<lambda>rs2.
     tryA (cleanup E name options (registered runPrefix (length ready) (pods \<noteq> []))) (\<lambda>r.
     retA (result ''probe-scope'' DiagnosticPass (probeNamespace @ '' namespace, run '' @ runPrefix) [] # rs1 @ rs2 @ [r])))))"

section \<open>The diagnosis\<close>

definition normalizeDiagnose :: "DiagnoseOptions \<Rightarrow> gerror + DiagnoseOptions" where
  "normalizeDiagnose options0 = (let options = options0\<lparr>do_Image := orDefault (do_Image options0) ''docker.io/library/nginx:alpine'',
       do_Timeout := (if do_Timeout options0 = 0 then 120 * second else do_Timeout options0),
       do_ProbeTimeout := (if do_ProbeTimeout options0 = 0 then 8 * second else do_ProbeTimeout options0)\<rparr> in
     if do_Timeout options < do_ProbeTimeout options
     then Inl (Msg ''diagnostic timeout must be greater than or equal to probe timeout'') else Inr options)"

definition Diagnose :: "'x env \<Rightarrow> ('x \<Rightarrow> string \<Rightarrow> gerror option \<times> 'x) \<Rightarrow> string \<Rightarrow> DiagnoseOptions \<Rightarrow> ('x, DiagnosticReport) op" where
  "Diagnose E dialTCP name options0 =
     (if \<not> dnsLabel name then errA (Msg ''cluster name must be a lowercase DNS label'')
      else tryA (liftA (normalizeDiagnose options0)) (\<lambda>options.
        let report = (\<lambda>namespace rs. \<lparr>dg_Cluster = name, dg_Namespace = namespace, dg_Results = rs\<rparr>) in
        tryA (controlPlane E dialTCP name) (\<lambda>(rs1, go).
        if \<not> go then retA (report [] rs1)
        else tryA (diagnoseNodes E name) (\<lambda>(rs2, ready).
          if ready = [] then retA (report [] (rs1 @ rs2))
          else tryWrapA ''generate diagnostic namespace'' (tryA (askExt (e_random E)) liftA) (\<lambda>suf.
            tryA (diagnoseWorkloads E name options suf ready) (\<lambda>rs3. retA (report probeNamespace (rs1 @ rs2 @ rs3))))))))"

end
