(* ===== verification/Totals.thy ===== *)
theory Totals
  imports World
begin

text \<open>
  Operations that never end with an error, with one rule for each way operations are composed.
\<close>

lemma emits_appends: "emits P m \<Longrightarrow> m w = (r, w') \<Longrightarrow> \<exists>es. w_trace w' = w_trace w @ es \<and> list_all P es"
  unfolding emits_def by (metis snd_conv)

definition total :: "('x, 'a) op \<Rightarrow> bool" where
  "total m \<longleftrightarrow> (\<forall>w. isOk (fst (m w)))"

named_theorems totals

lemma total_retA [totals]: "total (retA x)"
  by (simp add: total_def)

lemma total_catchA [totals]: "(\<And>r. total (h r)) \<Longrightarrow> total (catchA m h)"
  by (simp add: total_def catchA_apply split: prod.split)

lemma total_run: "total m \<Longrightarrow> \<exists>x w'. m w = (Inr x, w')"
  unfolding total_def by (metis isOkE prod.collapse)

lemma total_tryA [totals]: "total m \<Longrightarrow> (\<And>x. total (f x)) \<Longrightarrow> total (tryA m f)"
  unfolding total_def [of "tryA m f"] total_def [of "f _"]
  using total_run [of m] by (metis (no_types, lifting) tryA_apply old.prod.case old.sum.simps(6))

lemma total_cases [totals]:
  "(\<And>e. total (f e)) \<Longrightarrow> (\<And>y. total (g y)) \<Longrightarrow> total (case s of Inl e \<Rightarrow> f e | Inr y \<Rightarrow> g y)"
  "(\<And>a b. total (h a b)) \<Longrightarrow> total (case p of (a, b) \<Rightarrow> h a b)"
  "total m \<Longrightarrow> total n \<Longrightarrow> total (if b then m else n)"
  by (simp_all split: sum.split prod.split)

lemma total_Let [totals]: "(\<And>x. total (f x)) \<Longrightarrow> total (Let v f)"
  by simp

lemma total_case_option [totals]: "total m \<Longrightarrow> (\<And>y. total (g y)) \<Longrightarrow> total (case x of None \<Rightarrow> m | Some y \<Rightarrow> g y)"
  by (cases x) simp_all

lemma total_askExt [totals]: "total (askExt f)" "total (queryExt g)"
  by (simp_all add: total_def askExt_def queryExt_def split: prod.split)

end
