(* ===== verification/DiagnosticsProps.thy ===== *)
theory DiagnosticsProps
  imports Diagnostics NodeProps Totals
begin

text \<open>
  What a diagnosis leaves behind: the Pods and the Service that its commands create, and the command that deletes them.
\<close>

section \<open>Created resources\<close>

definition createdBy :: "event \<Rightarrow> string list" where
  "createdBy e = (case e of
     Cmd b (x # c # k # v # rest) \<Rightarrow>
       if x \<noteq> ''exec'' \<or> k \<noteq> ''kubectl'' then []
       else if v = ''run'' then map (\<lambda>n. ''pod/'' @ n) (take 1 rest)
       else if v = ''expose'' then map (\<lambda>n. ''service/'' @ n) (take 1 (drop 5 rest))
       else []
   | _ \<Rightarrow> [])"

definition created :: "event list \<Rightarrow> string list" where
  "created es = concat (map createdBy es)"

definition deletes :: "string list \<Rightarrow> event \<Rightarrow> bool" where
  "deletes resources e = (case e of
     Cmd b (x # c # k # rest) \<Rightarrow> x = ''exec'' \<and> k = ''kubectl'' \<and> rest = deleteArguments resources
   | _ \<Rightarrow> False)"

abbreviation within :: "string list \<Rightarrow> event \<Rightarrow> bool" where
  "within resources e \<equiv> set (createdBy e) \<subseteq> set resources"

lemma created_append [simp]: "created (es @ fs) = created es @ created fs"
  by (simp add: created_def)

lemma created_within: "list_all (within resources) es \<Longrightarrow> set (created es) \<subseteq> set resources"
  by (induction es) (auto simp: created_def)

lemma created_none: "list_all (within []) es \<Longrightarrow> created es = []"
  using created_within [of "[]" es] by simp

lemma createdBy_exec:
  "createdBy (Cmd b (''exec'' # c # ''kubectl'' # v # rest)) =
     (if v = ''run'' then map (\<lambda>n. ''pod/'' @ n) (take 1 rest)
      else if v = ''expose'' then map (\<lambda>n. ''service/'' @ n) (take 1 (drop 5 rest)) else [])"
  by (simp add: createdBy_def)

lemma createdBy_quiet: "quiet e \<Longrightarrow> createdBy e = []"
  by (auto simp: quiet_def readsOnlyArgs_def createdBy_def split: event.splits list.splits if_splits)

lemma within_quiet: "emits quiet m \<Longrightarrow> emits (within resources) m"
  by (erule emits_mono) (simp add: createdBy_quiet)

lemma quiet_observes: "emits observes m \<Longrightarrow> emits quiet m"
  by (erule observing) (simp add: quiet_def)

lemma quiet_readyHAMember: "emits quiet (readyHAMember E config name ms)"
proof (induction ms)
  case (Cons member ms)
  then show ?case unfolding readyHAMember.simps by (intro effects quiet_inspects quiet_readHAMemberNode) 
qed (simp only: readyHAMember.simps emits_errA)

lemma quiet_kubectlContainer: "emits quiet (kubectlContainer E name)"
  unfolding kubectlContainer_def by (intro effects quiet_observes [OF observes_owned(2)] quiet_readyHAMember)

lemma within_diagnosticKubectl:
  assumes "\<And>b c. within resources (Cmd b (''exec'' # c # ''kubectl'' # arguments))"
  shows "emits (within resources) (diagnosticKubectl E name arguments)"
  unfolding diagnosticKubectl_def Kubectl_def
  by (intro effects within_quiet [OF quiet_kubectlContainer]) (use assms in simp_all)

text \<open>The verbs of the probes create nothing; the two that create name what they create.\<close>

lemma within_verb:
  "v \<noteq> ''run'' \<Longrightarrow> v \<noteq> ''expose'' \<Longrightarrow> emits (within resources) (diagnosticKubectl E name (v # rest))"
  by (rule within_diagnosticKubectl) (simp add: createdBy_exec)

lemma within_run:
  "''pod/'' @ podName \<in> set resources \<Longrightarrow> emits (within resources) (diagnosticKubectl E name (runPodArguments options suf podName node))"
  by (rule within_diagnosticKubectl) (simp add: createdBy_exec runPodArguments_def)

lemma within_expose:
  "''service/'' @ n \<in> set resources \<Longrightarrow>
     emits (within resources) (diagnosticKubectl E name (''expose'' # a1 # a2 # a3 # a4 # a5 # n # rest))"
  by (rule within_diagnosticKubectl) (simp add: createdBy_exec)

lemma emits_probed [effects]: "emits P m \<Longrightarrow> emits P (probed subject detail remediation m)"
  unfolding probed_def by (intro effects)

lemma emits_collectA [effects]: "(\<And>a. emits P (f a)) \<Longrightarrow> emits P (collectA f as)"
  by (induction as) (auto intro!: effects)

lemma within_probeIn [effects]: "emits (within resources) (probeIn E name options pod command)"
  unfolding probeIn_def podProbe_def by (intro effects) (simp add: within_verb)

lemma within_startPod:
  "''pod/'' @ podName \<in> set resources \<Longrightarrow> emits (within resources) (startPod E name options suf podName node)"
  unfolding startPod_def Let_def by (intro effects within_run) (simp_all add: within_verb)

lemma within_startPods:
  "(\<And>i. i < length ready \<Longrightarrow> ''pod/'' @ podNameOf runPrefix (index + i) \<in> set resources) \<Longrightarrow>
     emits (within resources) (startPods E name options suf runPrefix index ready)"
proof (induction ready arbitrary: index)
  case (Cons node ready)
  have "''pod/'' @ podNameOf runPrefix (Suc index + i) \<in> set resources" if "i < length ready" for i
    using Cons.prems [of "Suc i"] that by simp
  then show ?case using Cons.prems [of 0] by (auto intro!: effects within_startPod Cons.IH)
qed simp

lemma within_probePods:
  assumes "pods \<noteq> [] \<Longrightarrow> ''service/'' @ runPrefix \<in> set resources"
  shows "emits (within resources) (probePods E name options runPrefix pods)"
proof -
  have each: "emits (within resources) (probePod E name options pod)" for pod
    unfolding probePod_def by (intro effects)
  have across: "emits (within resources) (probeAcross E name options pods)"
    unfolding probeAcross_def by (intro effects)
  show ?thesis
    unfolding probePods_def probeService_def by (intro effects each across within_expose assms)
qed

section \<open>Parts that do not fail\<close>

lemma total_collectA [totals]: "(\<And>a. total (f a)) \<Longrightarrow> total (collectA f as)"
proof (induction as)
  case (Cons a as)
  show ?case unfolding collectA.simps by (intro totals Cons.IH Cons.prems)
qed (simp only: collectA.simps total_retA)

lemma total_probed [totals]: "total (probed subject detail remediation m)"
  unfolding probed_def by (intro totals)

lemma total_startPods: "total (startPods E name options suf runPrefix index ready)"
proof (induction ready arbitrary: index)
  case (Cons node ready)
  have "total (startPod E name options suf podName (dn_Name node))" for podName
    unfolding startPod_def Let_def by (intro totals)
  then show ?case unfolding startPods.simps by (intro totals Cons.IH)
qed (simp only: startPods.simps total_retA)

lemma total_probePods: "total (probePods E name options runPrefix pods)"
  unfolding probePods_def probePod_def probeAcross_def probeService_def by (intro totals)

section \<open>The deletion\<close>

lemma ensures_runCmd: "P (Cmd b args) \<Longrightarrow> ensures P (runCmd E b args)"
  unfolding ensures_def runCmd_def by (auto simp: tryA_apply emitEvent_def queryCmd_def split: prod.splits)

lemma ensures_catchA_first:
  assumes m: "ensures P m" and failed: "\<And>e. ensures P (h (Inl e))" and h: "\<And>x. emits (\<lambda>_. True) (h (Inr x))"
  shows "ensures P (catchA m h)"
proof (rule ensuresI)
  fix w s w2 assume run: "catchA m h w = (s, w2)"
  obtain r w' where r: "m w = (r, w')" by fastforce
  obtain es where es: "w_trace w' = w_trace w @ es" "isOk r \<Longrightarrow> list_ex P es" using ensuresE [OF m r] by blast
  have step: "h r w' = (s, w2)" using run r by (simp add: catchA_apply)
  have "\<exists>fs. w_trace w2 = w_trace w' @ fs \<and> (isOk s \<longrightarrow> isOk r \<or> list_ex P fs)"
  proof (cases r)
    case (Inl e)
    then show ?thesis using ensuresE [OF failed step [unfolded Inl]] by blast
  next
    case (Inr x)
    then show ?thesis using emitsE [OF h, of x w'] step by fastforce
  qed
  then show "\<exists>es. w_trace w2 = w_trace w @ es \<and> (isOk s \<longrightarrow> list_ex P es)" using es by fastforce
qed

lemma ensures_diagnosticKubectl:
  assumes "\<And>c. P (Cmd None (''exec'' # c # ''kubectl'' # arguments))"
  shows "ensures P (diagnosticKubectl E name arguments)"
proof -
  have cmd: "ensures P (runCmd E None ([''exec'', c, ''kubectl''] @ arguments))" for c
    by (rule ensures_runCmd) (simp add: assms)
  have kubectl: "ensures P (Kubectl E name arguments)"
    unfolding Kubectl_def by (intro ensures_tryA_second cmd emits_mono [OF quiet_kubectlContainer] TrueI)
  have finish: "emits (\<lambda>_. True) (case cr_err res of None \<Rightarrow> retA (cr_stdout res) | Some e \<Rightarrow> errA (f e))" for res f
    by (intro effects)
  show ?thesis
    unfolding diagnosticKubectl_def
    by (rule ensures_catchA_second [OF emits_loadHAConfig])
      (auto intro!: ensures_catchA_first kubectl finish ensures_tryA_first cmd [unfolded append_Cons append_Nil] split: sum.split simp: ensures_errA)
qed

text \<open>The verdict on the resources: kept as requested, deleted by a command among the effects, or named as still to be deleted.\<close>

definition accounted :: "DiagnoseOptions \<Rightarrow> string list \<Rightarrow> DiagnosticResult \<Rightarrow> event list \<Rightarrow> bool" where
  "accounted options resources verdict es \<longleftrightarrow>
     (if do_Keep options then dr_Status verdict = DiagnosticWarn \<and> dr_Detail verdict = joinWith '', '' resources @ '' retained by request''
        else if dr_Status verdict = DiagnosticPass then list_ex (deletes resources) es
        else dr_Status verdict = DiagnosticWarn \<and> dr_Remediation verdict = ''delete '' @ joinWith '' '' resources @ '' manually'')"

lemma cleanup_run:
  assumes "cleanup E name options resources w = (r, w')" "resources \<noteq> []"
  shows "\<exists>es verdict. r = Inr verdict \<and> w_trace w' = w_trace w @ es \<and> created es = [] \<and> dr_Name verdict = ''cleanup''
     \<and> accounted options resources verdict es"
proof (cases "do_Keep options")
  case True
  then show ?thesis using assms by (auto simp: cleanup_def result_def created_def retA_def accounted_def)
next
  case False
  obtain s w1 where s: "diagnosticKubectl E name (deleteArguments resources) w = (s, w1)" by fastforce
  have "ensures (deletes resources) (diagnosticKubectl E name (deleteArguments resources))"
    by (rule ensures_diagnosticKubectl) (simp add: deletes_def)
  then obtain es where es: "w_trace w1 = w_trace w @ es" "isOk s \<Longrightarrow> list_ex (deletes resources) es"
    using s by (rule ensuresE) blast
  have "emits (within []) (diagnosticKubectl E name (deleteArguments resources))"
    unfolding deleteArguments_def append_Cons by (rule within_verb) simp_all
  then have "list_all (within []) es"
    using s es(1) by (metis emitsE same_append_eq snd_conv)
  then have "created es = []" by (rule created_none)
  then show ?thesis using assms False s es
    by (cases s) (auto simp: cleanup_def result_def catchA_apply retA_def accounted_def)
qed

section \<open>The diagnosis\<close>

lemma diagnoseWorkloads_run:
  assumes run: "diagnoseWorkloads E name options suf ready w = (r, w')" and ready: "ready \<noteq> []"
  obtains rs verdict exposed es fs resources where "r = Inr (rs @ [verdict])"
    "resources = registered (''apc-doctor-'' @ suf) (length ready) exposed"
    "w_trace w' = w_trace w @ es @ fs" "set (created es) \<subseteq> set resources" "created fs = []" "dr_Name verdict = ''cleanup''"
    "accounted options resources verdict fs"
proof -
  let ?prefix = "''apc-doctor-'' @ suf"
  obtain rs1 pods w1 where start: "startPods E name options suf ?prefix 0 ready w = (Inr (rs1, pods), w1)"
    using total_run [OF total_startPods] by (metis prod.collapse)
  obtain rs2 w2 where probe: "probePods E name options ?prefix pods w1 = (Inr rs2, w2)"
    using total_run [OF total_probePods] by metis
  let ?resources = "registered ?prefix (length ready) (pods \<noteq> [])"
  have some: "?resources \<noteq> []" using ready by (simp add: registered_def)
  have "emits (within ?resources) (startPods E name options suf ?prefix 0 ready)"
    by (rule within_startPods) (simp add: registered_def)
  from emits_appends [OF this start] obtain es1 where es1: "w_trace w1 = w_trace w @ es1" "list_all (within ?resources) es1" by blast
  have "emits (within ?resources) (probePods E name options ?prefix pods)"
    by (rule within_probePods) (simp add: registered_def)
  from emits_appends [OF this probe] obtain es2 where es2: "w_trace w2 = w_trace w1 @ es2" "list_all (within ?resources) es2" by blast
  obtain c w3 where c: "cleanup E name options ?resources w2 = (c, w3)" by fastforce
  then obtain fs verdict where verdict: "c = Inr verdict" "w_trace w3 = w_trace w2 @ fs" "created fs = []" "dr_Name verdict = ''cleanup''"
      "accounted options ?resources verdict fs"
    using cleanup_run [OF _ some] by blast
  have result: "r = Inr ((result ''probe-scope'' DiagnosticPass (probeNamespace @ '' namespace, run '' @ ?prefix) [] # rs1 @ rs2) @ [verdict])"
      "w' = w3"
    using run start probe c verdict(1) by (simp_all add: diagnoseWorkloads_def Let_def tryA_apply retA_def)
  have "set (created (es1 @ es2)) \<subseteq> set ?resources" using es1(2) es2(2) by (simp add: created_within)
  then show thesis
    using es1(1) es2(1) verdict(2) result(2)
    by (intro that [OF result(1) refl _ _ verdict(3-5), of "es1 @ es2"]) simp_all
qed

lemma within_controlPlane: "emits (within []) (controlPlane E dialTCP name)"
proof -
  have "emits (within []) (StatusNode E name)" "emits (within []) (StatusHA E name)"
      "emits (within []) (validateHAEtcdTopology E config)" for config
    by (intro within_quiet quiet_observes [OF observes_status(1)] quiet_StatusHA quiet_validateHAEtcdTopology)+
  then show ?thesis
    unfolding controlPlane_def haControlPlane_def singleControlPlane_def hostAPI_def Let_def by (intro effects)
qed

lemma within_diagnoseNodes: "emits (within []) (diagnoseNodes E name)"
  unfolding diagnoseNodes_def Let_def by (intro effects within_verb) simp_all

text \<open>
  C34: a diagnosis leaves nothing behind unsaid.  It creates Pods and the Service only after the check of the control plane let it go on.  Every Pod and Service its
  commands create is among the resources registered for the run, also when creating, awaiting or probing it failed, and the last
  result accounts for all of them: nothing is created after it, and it says that they are kept as requested, or they were deleted by
  one command, or it warns and tells the command that deletes them.  A diagnosis that ends with an error has created nothing.
\<close>

theorem diagnose_accounts_for_workloads:
  "case Diagnose E dialTCP name options0 (w\<lparr>w_trace := []\<rparr>) of
     (Inl _, w') \<Rightarrow> created (w_trace w') = []
   | (Inr report, w') \<Rightarrow> created (w_trace w') = []
       \<or> (\<exists>options suf count exposed es fs rs w1 resources. normalizeDiagnose options0 = Inr options
          \<and> controlPlane E dialTCP name (w\<lparr>w_trace := []\<rparr>) = (Inr (rs, True), w1)
          \<and> resources = registered (''apc-doctor-'' @ suf) count exposed
          \<and> w_trace w' = es @ fs \<and> set (created es) \<subseteq> set resources \<and> created fs = []
          \<and> dr_Name (last (dg_Results report)) = ''cleanup'' \<and> accounted options resources (last (dg_Results report)) fs)"
proof (cases "dnsLabel name")
  case False
  then show ?thesis by (simp add: Diagnose_def errA_def created_def)
next
  case label: True
  let ?w = "w\<lparr>w_trace := []\<rparr>"
  show ?thesis
  proof (cases "normalizeDiagnose options0")
    case (Inl e)
    then show ?thesis using label by (simp add: Diagnose_def tryA_apply liftA_def created_def)
  next
    case options: (Inr options)
    obtain c w1 where c: "controlPlane E dialTCP name ?w = (c, w1)" by fastforce
    from emits_appends [OF within_controlPlane c] have t1: "created (w_trace w1) = []" by (auto simp: created_def list_all_iff)
    show ?thesis
    proof (cases "\<exists>rs. c = Inr (rs, True)")
      case False
      then show ?thesis using label options c t1
        by (cases c) (auto simp: Diagnose_def tryA_apply liftA_def retA_def)
    next
      case True
      then obtain rs where rs: "c = Inr (rs, True)" by blast
      obtain n w2 where n: "diagnoseNodes E name w1 = (n, w2)" by fastforce
      from emits_appends [OF within_diagnoseNodes n] t1 have t2: "created (w_trace w2) = []" by (auto simp: created_def list_all_iff)
      show ?thesis
      proof (cases "\<exists>rs2 ready suf. n = Inr (rs2, ready) \<and> ready \<noteq> [] \<and> e_random E (w_ext w2) = Inr suf")
        case False
        then show ?thesis using label options c rs n t2
          by (cases n; cases "e_random E (w_ext w2)")
            (auto simp: Diagnose_def tryA_apply tryWrapA_def wrapA_apply liftA_def retA_def askExt_def split: if_splits)
      next
        case True
        then obtain rs2 ready suf where more: "n = Inr (rs2, ready)" "ready \<noteq> []" "e_random E (w_ext w2) = Inr suf" by blast
        obtain r w3 where r: "diagnoseWorkloads E name options suf ready w2 = (r, w3)" by fastforce
        obtain x verdict exposed es fs resources where out: "r = Inr (x @ [verdict])"
          "resources = registered (''apc-doctor-'' @ suf) (length ready) exposed"
          "w_trace w3 = w_trace w2 @ es @ fs" "set (created es) \<subseteq> set resources" "created fs = []" "dr_Name verdict = ''cleanup''"
          "accounted options resources verdict fs"
          by (rule diagnoseWorkloads_run [OF r more(2)]) blast
        have run: "Diagnose E dialTCP name options0 ?w =
            (Inr \<lparr>dg_Cluster = name, dg_Namespace = probeNamespace, dg_Results = rs @ rs2 @ x @ [verdict]\<rparr>, w3)"
          using label options c rs n more r out(1)
          by (simp add: Diagnose_def tryA_apply tryWrapA_def wrapA_apply liftA_def retA_def askExt_def)
        have "w_trace w3 = (w_trace w2 @ es) @ fs" "set (created (w_trace w2 @ es)) \<subseteq> set resources"
          using out(3,4) t2 by simp_all
        then show ?thesis
          unfolding run prod.case sum.case using options c rs out(2,5-7)
          by (intro disjI2 exI conjI) (assumption | simp)+
      qed
    qed
  qed
qed

end
