(* ===== verification/Passthrough.thy ===== *)
theory Passthrough
  imports Lifecycle
begin

text \<open>
  The command lines that are handed to \<open>kubectl\<close> and \<open>helm\<close> (\<open>cli/kubectl_passthrough.go\<close>, \<open>cli/helm.go\<close>): which words are forwarded,
  which cluster is meant, and the checks of its kubeconfig.  The tool is a command of the world whose first word is the one variable the
  program sets in its environment.
\<close>

section \<open>Routing\<close>

definition apcCommands :: "string list" where
  "apcCommands = [''__complete'', ''__completeNoDesc'', ''cluster'', ''completion'', ''config'', ''doctor'', ''help'',
     ''helm'', ''image'', ''kubeconfig'', ''kubectl'', ''node'', ''system'', ''version'']"

definition leadingFlagsWithValues :: "string list" where
  "leadingFlagsWithValues = [''--as'', ''--as-group'', ''--cache-dir'', ''--certificate-authority'', ''--client-certificate'',
     ''--client-key'', ''--context'', ''--kubeconfig'', ''--namespace'', ''--password'', ''--profile'', ''--profile-output'',
     ''--request-timeout'', ''--server'', ''--tls-server-name'', ''--token'', ''--user'', ''--username'', ''-n'']"

text \<open>What the selector \<open>--cluster\<close> does with the words that follow.\<close>

datatype selector = NotSelector | NeedsName | Selects string "string list"

definition clusterSelector :: "string list \<Rightarrow> selector" where
  "clusterSelector arguments = (case arguments of
     [] \<Rightarrow> NotSelector
   | argument # rest \<Rightarrow>
       if argument = ''--cluster'' then (case rest of
           [] \<Rightarrow> NeedsName
         | name # rest' \<Rightarrow> if hasPrefix name ''-'' then NeedsName else Selects name rest')
       else if hasPrefix argument ''--cluster='' then
         (let name = trimPrefix argument ''--cluster='' in if name = [] then NeedsName else Selects name rest)
       else NotSelector)"

datatype routing = RouteError gerror | RouteInternal | Routed "string list" string bool

lemma clusterSelector_shorter [termination_simp]: "clusterSelector arguments = Selects name rest \<Longrightarrow> length rest < length arguments"
  by (auto simp: clusterSelector_def Let_def split: list.splits if_splits)

text \<open>
  The loop over the words: the cluster named so far, whether the command of \<open>kubectl\<close> has been seen, and the words forwarded so far, the last
  one first.
\<close>

function routeLoop :: "string \<Rightarrow> bool \<Rightarrow> string list \<Rightarrow> string list \<Rightarrow> routing" where
  "routeLoop clusterName command forwarded [] = Routed (rev forwarded) clusterName command"
| "routeLoop clusterName command forwarded (argument # rest) =
     (if command \<and> argument = ''--'' then Routed (rev forwarded @ argument # rest) clusterName command
      else (case clusterSelector (argument # rest) of
          NeedsName \<Rightarrow> RouteError (Msg ''--cluster requires a name'')
        | Selects name rest' \<Rightarrow> routeLoop name command forwarded rest'
        | NotSelector \<Rightarrow>
            if \<not> command \<and> argument \<in> set leadingFlagsWithValues then (case rest of
                [] \<Rightarrow> routeLoop clusterName command (argument # forwarded) []
              | v # rest' \<Rightarrow> routeLoop clusterName command (v # argument # forwarded) rest')
            else if \<not> command \<and> \<not> hasPrefix argument ''-'' then
              (if argument \<in> set apcCommands then RouteInternal else routeLoop clusterName True (argument # forwarded) rest)
            else routeLoop clusterName command (argument # forwarded) rest))"
  by pat_completeness auto
termination
  by (relation "measure (\<lambda>(_, _, _, arguments). length arguments)") (auto dest: clusterSelector_shorter)

definition routeKubernetesArguments :: "string list \<Rightarrow> routing" where
  "routeKubernetesArguments arguments = routeLoop [] False [] arguments"

text \<open>Helm's words: the last selector counts, and everything from \<open>--\<close> on is left alone.\<close>

function helmLoop :: "string \<Rightarrow> string list \<Rightarrow> string list \<Rightarrow> gerror + string \<times> string list" where
  "helmLoop selected forwarded [] = Inr (selected, rev forwarded)"
| "helmLoop selected forwarded (argument # rest) =
     (if argument = ''--'' then Inr (selected, rev forwarded @ argument # rest)
      else (case clusterSelector (argument # rest) of
          NeedsName \<Rightarrow> Inl (Msg ''--cluster requires a name'')
        | Selects name rest' \<Rightarrow> helmLoop name forwarded rest'
        | NotSelector \<Rightarrow> helmLoop selected (argument # forwarded) rest))"
  by pat_completeness auto
termination
  by (relation "measure (\<lambda>(_, _, arguments). length arguments)") (auto dest: clusterSelector_shorter)

definition helmSelectedCluster :: "string \<Rightarrow> string list \<Rightarrow> gerror + string \<times> string list" where
  "helmSelectedCluster selected arguments = helmLoop selected [] arguments"

section \<open>Running the tool\<close>

record 'x toolHost =
  th_getenv :: "string \<Rightarrow> string"
  th_lookPath :: "'x \<Rightarrow> string \<Rightarrow> gerror + string"

definition errNoSelectedCluster :: gerror where
  "errNoSelectedCluster = Msg ''no APC K3s cluster selected; run apc config use-cluster NAME or pass --cluster NAME''"

text \<open>The cluster: the one named, the one of the environment variable, the current one.\<close>

definition selectedCluster :: "'x env \<Rightarrow> 'x toolHost \<Rightarrow> (gerror \<Rightarrow> gerror) \<Rightarrow> string \<Rightarrow> ('x, string) op" where
  "selectedCluster E H failure named =
     (if named \<noteq> [] then retA named
      else if th_getenv H ''APC_CLUSTER'' \<noteq> [] then retA (th_getenv H ''APC_CLUSTER'')
      else catchA (CurrentCluster E) (\<lambda>r. case r of
          Inl e \<Rightarrow> if errorsIs e ErrNoCurrentCluster then errA errNoSelectedCluster else errA (failure e)
        | Inr name \<Rightarrow> if name = [] then errA errNoSelectedCluster else retA name))"

definition toolCommand :: "string \<Rightarrow> string \<Rightarrow> string list \<Rightarrow> string list" where
  "toolCommand kubeconfig binary arguments = (''KUBECONFIG='' @ kubeconfig) # binary # arguments"

text \<open>The kubeconfig is prepared and checked before the tool is looked up and run.\<close>

definition runNative :: "'x env \<Rightarrow> 'x toolHost \<Rightarrow> string \<Rightarrow> string \<Rightarrow> string list \<Rightarrow> ('x, unit) op" where
  "runNative E H tool clusterName arguments =
     tryWrapA ''resolve kubeconfig for cluster'' (PrepareKubeconfig E clusterName) (\<lambda>kubeconfig.
     tryWrapA ''read kubeconfig for cluster'' (statTarget E kubeconfig) (\<lambda>info.
     if \<not> fi_regular info then errA (Msg ''kubeconfig is not a regular file'')
     else if groupOrOther info then errA (Msg ''kubeconfig must have mode 0600 or stricter'')
     else tryWrapA ''native tool is required'' (tryA (askExt (\<lambda>x. th_lookPath H x tool)) liftA) (\<lambda>binary.
       tryA (runCmd E None (toolCommand kubeconfig binary arguments)) (\<lambda>res. case cr_err res of
         Some e \<Rightarrow> errA (Wrap tool e) | None \<Rightarrow> retA ()))))"

text \<open>Whether the words were for \<open>kubectl\<close>, with the error of running it.\<close>

definition tryKubernetesPassthrough :: "'x env \<Rightarrow> 'x toolHost \<Rightarrow> string list \<Rightarrow> ('x, bool \<times> gerror option) op" where
  "tryKubernetesPassthrough E H arguments = (case routeKubernetesArguments arguments of
     RouteError e \<Rightarrow> retA (True, Some e)
   | RouteInternal \<Rightarrow> retA (False, None)
   | Routed forwarded explicitCluster kubernetesCommand \<Rightarrow>
       if \<not> kubernetesCommand then retA (False, None)
       else catchA (tryA (selectedCluster E H id explicitCluster) (\<lambda>clusterName. runNative E H ''kubectl'' clusterName forwarded))
         (\<lambda>r. retA (True, errOf r)))"

definition helmCommand :: "'x env \<Rightarrow> 'x toolHost \<Rightarrow> string \<Rightarrow> string list \<Rightarrow> ('x, unit) op" where
  "helmCommand E H selected arguments =
     tryA (liftA (helmSelectedCluster selected arguments)) (\<lambda>(name, forwarded).
     tryA (selectedCluster E H (Wrap ''resolve current APC cluster'') name) (\<lambda>clusterName. runNative E H ''helm'' clusterName forwarded))"

end
