(* ===== verification/PassthroughProps.thy ===== *)
theory PassthroughProps
  imports Passthrough NodeProps
begin

text \<open>
  The words handed to \<open>kubectl\<close> and \<open>helm\<close>, against a reading of the command line in pieces: selectors of the cluster, leading options
  with their value, and other words.
\<close>

section \<open>Command lines in pieces\<close>

datatype piece = Bare string | Valued string string | Named string | Assigned string

fun pieceWords :: "piece \<Rightarrow> string list" where
  "pieceWords (Bare x) = [x]"
| "pieceWords (Valued x v) = [x, v]"
| "pieceWords (Named n) = [''--cluster'', n]"
| "pieceWords (Assigned n) = [''--cluster='' @ n]"

fun keptWords :: "piece \<Rightarrow> string list" where
  "keptWords (Bare x) = [x]"
| "keptWords (Valued x v) = [x, v]"
| "keptWords _ = []"

fun pieceCluster :: "piece \<Rightarrow> string list" where
  "pieceCluster (Named n) = [n]"
| "pieceCluster (Assigned n) = [n]"
| "pieceCluster _ = []"

definition lastCluster :: "string \<Rightarrow> piece list \<Rightarrow> string" where
  "lastCluster start pieces = last (start # concat (map pieceCluster pieces))"

definition selectorWord :: "string \<Rightarrow> bool" where
  "selectorWord x \<longleftrightarrow> x = ''--cluster'' \<or> hasPrefix x ''--cluster=''"

text \<open>
  How the pieces may follow each other, when the command of \<open>kubectl\<close> has been seen or not: options with a value only before the
  command, one without its value only as the last word, and as the command none of the program's own.
\<close>

fun reading :: "bool \<Rightarrow> piece list \<Rightarrow> bool" where
  "reading seen [] = True"
| "reading seen (Bare x # pieces) = (\<not> selectorWord x \<and>
     (if seen then x \<noteq> ''--'' \<and> reading True pieces
      else if x \<in> set leadingFlagsWithValues then pieces = []
      else if hasPrefix x ''-'' then reading False pieces
      else x \<notin> set apcCommands \<and> reading True pieces))"
| "reading seen (Valued x v # pieces) = (\<not> seen \<and> x \<in> set leadingFlagsWithValues \<and> reading False pieces)"
| "reading seen (Named n # pieces) = (\<not> hasPrefix n ''-'' \<and> reading seen pieces)"
| "reading seen (Assigned n # pieces) = (n \<noteq> [] \<and> reading seen pieces)"

definition verbIn :: "piece \<Rightarrow> bool" where
  "verbIn p = (case p of Bare x \<Rightarrow> \<not> hasPrefix x ''-'' | _ \<Rightarrow> False)"

text \<open>A selector without a name at the start of the words.\<close>

definition nameless :: "string list \<Rightarrow> bool" where
  "nameless arguments \<longleftrightarrow> arguments \<noteq> [] \<and>
     (hd arguments = ''--cluster='' \<or> (hd arguments = ''--cluster'' \<and> (case tl arguments of [] \<Rightarrow> True | n # _ \<Rightarrow> hasPrefix n ''-'')))"

lemma lastCluster_simps [simp]:
  "lastCluster start [] = start"
  "lastCluster start (Bare x # pieces) = lastCluster start pieces"
  "lastCluster start (Valued x v # pieces) = lastCluster start pieces"
  "lastCluster start (Named n # pieces) = lastCluster n pieces"
  "lastCluster start (Assigned n # pieces) = lastCluster n pieces"
  by (simp_all add: lastCluster_def)

lemma trimPrefix_split: "hasPrefix s p \<Longrightarrow> p @ trimPrefix s p = s"
  by (simp add: hasPrefix_def trimPrefix_def) (metis append_take_drop_id)

lemma clusterSelector_Selects:
  assumes "clusterSelector arguments = Selects n rest"
  shows "(arguments = pieceWords (Named n) @ rest \<and> \<not> hasPrefix n ''-'') \<or> (arguments = pieceWords (Assigned n) @ rest \<and> n \<noteq> [])"
  using assms trimPrefix_split [of _ "''--cluster=''"]
  by (auto simp: clusterSelector_def Let_def split: list.splits if_splits)

lemma clusterSelector_NeedsName: "clusterSelector arguments = NeedsName \<Longrightarrow> nameless arguments"
  using trimPrefix_split [of _ "''--cluster=''"]
  by (fastforce simp: clusterSelector_def nameless_def Let_def split: list.splits if_splits)

lemma clusterSelector_Not: "clusterSelector (argument # rest) = NotSelector \<longleftrightarrow> \<not> selectorWord argument"
  by (auto simp: clusterSelector_def selectorWord_def Let_def split: list.splits if_splits)

lemma clusterSelector_Named: "\<not> hasPrefix n ''-'' \<Longrightarrow> clusterSelector (''--cluster'' # n # rest) = Selects n rest"
  by (simp add: clusterSelector_def)

lemma clusterSelector_Assigned: "n \<noteq> [] \<Longrightarrow> clusterSelector ((''--cluster='' @ n) # rest) = Selects n rest"
  by (simp add: clusterSelector_def hasPrefix_def trimPrefix_def)

section \<open>The words of \<open>kubectl\<close>\<close>

definition readAs :: "string \<Rightarrow> bool \<Rightarrow> string list \<Rightarrow> string list \<Rightarrow> routing \<Rightarrow> bool" where
  "readAs clusterName seen forwarded arguments r = (case r of
     Routed kept name command \<Rightarrow> \<exists>pieces tail. arguments = concat (map pieceWords pieces) @ tail
       \<and> kept = rev forwarded @ concat (map keptWords pieces) @ tail \<and> name = lastCluster clusterName pieces
       \<and> command = (seen \<or> list_ex verbIn pieces) \<and> reading seen pieces \<and> (tail = [] \<or> (command \<and> hd tail = ''--''))
   | RouteError e \<Rightarrow> e = Msg ''--cluster requires a name'' \<and> (\<exists>pieces rest. arguments = concat (map pieceWords pieces) @ rest
       \<and> reading seen pieces \<and> nameless rest)
   | RouteInternal \<Rightarrow> \<exists>pieces x rest. arguments = concat (map pieceWords pieces) @ x # rest
       \<and> reading seen pieces \<and> \<not> seen \<and> \<not> list_ex verbIn pieces \<and> x \<in> set apcCommands)"

lemma leadingFlags_dash: "x \<in> set leadingFlagsWithValues \<Longrightarrow> hasPrefix x ''-''"
  by (auto simp: leadingFlagsWithValues_def hasPrefix_def)

lemma readAs_Cons:
  assumes "readAs name' (seen \<or> verbIn p) (rev (keptWords p) @ forwarded) rest r"
    and "\<And>pieces. lastCluster clusterName (p # pieces) = lastCluster name' pieces"
    and "\<And>pieces. reading (seen \<or> verbIn p) pieces \<Longrightarrow> reading seen (p # pieces)"
  shows "readAs clusterName seen forwarded (pieceWords p @ rest) r"
proof (cases r)
  case (RouteError e)
  then obtain pieces more where "e = Msg ''--cluster requires a name''" "rest = concat (map pieceWords pieces) @ more"
    "reading (seen \<or> verbIn p) pieces" "nameless more" using assms(1) by (auto simp: readAs_def)
  then show ?thesis using assms(3) RouteError
    by (simp add: readAs_def) (intro exI [of _ "p # pieces"] exI [of _ more], simp)
next
  case RouteInternal
  then obtain pieces x more where "rest = concat (map pieceWords pieces) @ x # more" "reading (seen \<or> verbIn p) pieces" "\<not> (seen \<or> verbIn p)"
    "\<not> list_ex verbIn pieces" "x \<in> set apcCommands" using assms(1) by (auto simp: readAs_def)
  then show ?thesis using assms(3) RouteInternal
    by (simp add: readAs_def) (intro exI [of _ "p # pieces"] exI [of _ x], simp)
next
  case (Routed kept name command)
  then obtain pieces tail where "rest = concat (map pieceWords pieces) @ tail"
      "kept = rev (rev (keptWords p) @ forwarded) @ concat (map keptWords pieces) @ tail" "name = lastCluster name' pieces"
      "command = ((seen \<or> verbIn p) \<or> list_ex verbIn pieces)" "reading (seen \<or> verbIn p) pieces" "tail = [] \<or> (command \<and> hd tail = ''--'')"
    using assms(1) by (auto simp: readAs_def)
  then show ?thesis using assms(2,3) Routed
    by (simp add: readAs_def) (intro exI [of _ "p # pieces"] exI [of _ tail], simp)
qed

lemma routeLoop_readAs: "readAs clusterName seen forwarded arguments (routeLoop clusterName seen forwarded arguments)"
proof (induction clusterName seen forwarded arguments rule: routeLoop.induct)
  case (1 clusterName seen forwarded)
  show ?case by (auto simp: readAs_def intro!: exI [of _ "[]"])
next
  case (2 clusterName seen forwarded argument rest)
  let ?arguments = "argument # rest"
  consider (literal) "seen" "argument = ''--''"
    | (nameless) "\<not> (seen \<and> argument = ''--'')" "clusterSelector ?arguments = NeedsName"
    | (selects) name' rest' where "\<not> (seen \<and> argument = ''--'')" "clusterSelector ?arguments = Selects name' rest'"
    | (other) "\<not> (seen \<and> argument = ''--'')" "clusterSelector ?arguments = NotSelector"
    by (cases "clusterSelector ?arguments") auto
  then show ?case
  proof cases
    case literal
    then show ?thesis
      by (simp only: routeLoop.simps readAs_def routing.case simp_thms if_True) (intro exI [of _ "[]"] exI [of _ ?arguments], simp)
  next
    case nameless
    then have "routeLoop clusterName seen forwarded ?arguments = RouteError (Msg ''--cluster requires a name'')" by simp
    then show ?thesis using clusterSelector_NeedsName [OF nameless(2)]
      by (simp add: readAs_def) (intro exI [of _ "[]"] exI [of _ ?arguments], simp)
  next
    case selects
    then have step: "readAs name' seen forwarded rest' (routeLoop clusterName seen forwarded ?arguments)"
      using 2(5) [OF selects] by (simp only: routeLoop.simps selects if_False selector.case)
    from clusterSelector_Selects [OF selects(2)] show ?thesis
    proof (elim disjE conjE)
      assume "?arguments = pieceWords (Named name') @ rest'" "\<not> hasPrefix name' ''-''"
      then show ?thesis using step readAs_Cons [of name' seen "Named name'" forwarded rest'] by (simp add: verbIn_def)
    next
      assume "?arguments = pieceWords (Assigned name') @ rest'" "name' \<noteq> []"
      then show ?thesis using step readAs_Cons [of name' seen "Assigned name'" forwarded rest'] by (simp add: verbIn_def)
    qed
  next
    case other
    note not_selector = other(2) [unfolded clusterSelector_Not]
    show ?thesis
    proof (cases "\<not> seen \<and> argument \<in> set leadingFlagsWithValues")
      case flag: True
      show ?thesis
      proof (cases rest)
        case Nil
        then show ?thesis using flag other not_selector leadingFlags_dash
          by (simp add: readAs_def verbIn_def) (intro exI [of _ "[Bare argument]"] exI [of _ "[]"], simp add: verbIn_def)
      next
        case (Cons v more)
        then show ?thesis using flag other 2(2) [OF other flag Cons] readAs_Cons [of clusterName seen "Valued argument v" forwarded more]
          by (simp add: verbIn_def)
      qed
    next
      case no_flag: False
      show ?thesis
      proof (cases "\<not> seen \<and> argument \<in> set apcCommands \<and> \<not> hasPrefix argument ''-''")
        case True
        then show ?thesis using other no_flag
          by (simp add: readAs_def) (intro exI [of _ "[]"] exI [of _ argument] exI [of _ rest], simp)
      next
        case False
        have "readAs clusterName (seen \<or> verbIn (Bare argument)) (rev (keptWords (Bare argument)) @ forwarded) rest (routeLoop clusterName seen forwarded ?arguments)"
          using False other no_flag 2 by (auto simp: verbIn_def)
        then have "readAs clusterName seen forwarded (pieceWords (Bare argument) @ rest) (routeLoop clusterName seen forwarded ?arguments)"
          by (rule readAs_Cons) (use False other(1) no_flag not_selector in \<open>auto simp: verbIn_def split: if_splits\<close>)
        then show ?thesis by simp
      qed
    qed
  qed
qed

text \<open>The other direction: every reading is the one that the loop finds.\<close>

lemma routeLoop_reads:
  "reading seen pieces \<Longrightarrow> (tail = [] \<or> ((seen \<or> list_ex verbIn pieces) \<and> hd tail = ''--'')) \<Longrightarrow>
     routeLoop clusterName seen forwarded (concat (map pieceWords pieces) @ tail) =
       Routed (rev forwarded @ concat (map keptWords pieces) @ tail) (lastCluster clusterName pieces) (seen \<or> list_ex verbIn pieces)"
proof (induction pieces arbitrary: seen clusterName forwarded)
  case Nil
  then show ?case by (cases tail) auto
next
  case (Cons p pieces)
  show ?case
  proof (cases p)
    case (Bare x)
    have not: "\<not> (seen \<and> x = ''--'')" "clusterSelector (x # rest) = NotSelector" for rest
      using Cons.prems(1) by (auto simp: Bare clusterSelector_Not)
    show ?thesis
    proof (cases "\<not> seen \<and> x \<in> set leadingFlagsWithValues")
      case True
      then show ?thesis using Cons.prems not by (auto simp: Bare verbIn_def leadingFlags_dash)
    next
      case False
      then show ?thesis
        using Cons.IH [of "seen \<or> verbIn p" clusterName "x # forwarded"] Cons.prems not
        by (cases "seen"; cases "hasPrefix x ''-''") (simp_all add: Bare verbIn_def)
    qed
  next
    case (Valued x v)
    then have "clusterSelector (x # rest) = NotSelector" for rest
      using Cons.prems(1) by (auto simp: clusterSelector_Not selectorWord_def leadingFlagsWithValues_def hasPrefix_def)
    then show ?thesis using Cons.IH [of False clusterName "v # x # forwarded"] Cons.prems by (simp add: Valued verbIn_def)
  next
    case (Named n)
    then show ?thesis using Cons.IH [of seen n forwarded] Cons.prems by (simp add: Named verbIn_def clusterSelector_Named)
  next
    case (Assigned n)
    then show ?thesis using Cons.IH [of seen n forwarded] Cons.prems clusterSelector_Assigned [of n] by (simp add: Assigned verbIn_def)
  qed
qed

text \<open>
  C35: what is forwarded to \<open>kubectl\<close> is exactly determined by the reading of the command line: the selectors of the cluster are taken out,
  the last of them counts, an option that takes a value keeps its value with it, the command is the first bare word and is none of the
  program's own commands, and after a \<open>--\<close> that follows the command every word is forwarded as it is.
\<close>

theorem kubectl_words_exact:
  "(routeKubernetesArguments arguments = Routed kept name command) =
     (\<exists>pieces tail. arguments = concat (map pieceWords pieces) @ tail \<and> reading False pieces
       \<and> kept = concat (map keptWords pieces) @ tail \<and> name = lastCluster [] pieces \<and> command = list_ex verbIn pieces
       \<and> (tail = [] \<or> (command \<and> hd tail = ''--'')))" (is "?routed = ?read")
proof
  show "?routed \<Longrightarrow> ?read"
    using routeLoop_readAs [of "[]" False "[]" arguments] by (auto simp: routeKubernetesArguments_def readAs_def)
  show "?read \<Longrightarrow> ?routed"
    using routeLoop_reads [of False _ _ "[]" "[]"] by (auto simp: routeKubernetesArguments_def)
qed

section \<open>Running the tool\<close>

definition runsTool :: "event \<Rightarrow> bool" where
  "runsTool e = (case e of Cmd b args \<Rightarrow> args \<noteq> [] \<and> hasPrefix (hd args) ''KUBECONFIG='' | _ \<Rightarrow> False)"

abbreviation untooled :: "('x, 'a) op \<Rightarrow> bool" where
  "untooled \<equiv> emits (\<lambda>e. \<not> runsTool e)"

lemma readsOnly_no_tool: "readsOnlyArgs args \<Longrightarrow> \<not> runsTool (Cmd b args)"
  by (auto simp: readsOnlyArgs_def runsTool_def hasPrefix_def split: list.splits)

lemma quiet_no_tool: "emits quiet m \<Longrightarrow> untooled m"
  by (erule emits_mono) (auto simp: quiet_def readsOnly_no_tool split: event.splits)

lemma runsTool_simps [simp]: "\<not> runsTool (Wrote p d)" "\<not> runsTool (Removed p)"
  by (simp_all add: runsTool_def)

lemma untooled_CurrentCluster: "untooled (CurrentCluster E)"
  unfolding CurrentCluster_def Let_def by (intro effects)

lemma untooled_selectedCluster: "untooled (selectedCluster E H failure named)"
  unfolding selectedCluster_def by (intro effects untooled_CurrentCluster)

lemma untooled_prepareFromMembers: "untooled (prepareFromMembers E config attempted ms)"
proof (induction ms arbitrary: attempted)
  case (Cons member ms)
  have usable: "untooled (usableMember E config member)"
    unfolding usableMember_def Let_def by (intro effects quiet_no_tool [OF quiet_inspects(1)] quiet_no_tool [OF quiet_readHAMemberNode]
        quiet_no_tool [OF quiet_readKubeconfig])
  have publish: "untooled (publishIfReady E config endpoint tls kubeconfig)" for endpoint tls kubeconfig
    unfolding publishIfReady_def by (intro effects) simp
  show ?case unfolding prepareFromMembers.simps Let_def by (intro effects usable publish Cons.IH)
qed (simp only: prepareFromMembers.simps emits_errA)

lemma untooled_PrepareKubeconfig: "untooled (PrepareKubeconfig E name)"
  unfolding PrepareKubeconfig_def prepareHAKubeconfigFromConfig_def ResolvedKubeconfigPath_def
  by (intro effects untooled_prepareFromMembers)

text \<open>The run of a tool: its kubeconfig was prepared for the cluster and found to be a regular file that only the owner can use.\<close>

definition checkedRun :: "'x env \<Rightarrow> 'x toolHost \<Rightarrow> string \<Rightarrow> string \<Rightarrow> string list \<Rightarrow> 'x world \<Rightarrow> 'x world \<Rightarrow> bool" where
  "checkedRun E H tool name forwarded w w' \<longleftrightarrow> (\<exists>kubeconfig w1 info binary. PrepareKubeconfig E name w = (Inr kubeconfig, w1)
     \<and> statTarget E kubeconfig w1 = (Inr info, w1) \<and> fi_regular info \<and> \<not> groupOrOther info \<and> th_lookPath H (w_ext w1) tool = Inr binary
     \<and> w_trace w' = w_trace w1 @ [Cmd None (toolCommand kubeconfig binary forwarded)])"

lemma statTarget_world: "statTarget E path w = (r, w') \<Longrightarrow> w' = w"
  by (auto simp: statTarget_def statFile_def split: option.splits if_splits sum.splits)

lemma untooled_step: "untooled m \<Longrightarrow> m w = (r, w') \<Longrightarrow> filter runsTool (w_trace w') = filter runsTool (w_trace w)"
  unfolding emits_def list_all_iff by (drule conjunct1, drule spec [of _ w]) auto

lemma runCmd_trace: "runCmd E b args w = (r, w') \<Longrightarrow> w_trace w' = w_trace w @ [Cmd b args]"
  by (auto simp: runCmd_def tryA_apply emitEvent_def queryCmd_def split: prod.splits sum.splits option.splits)

definition launchTool :: "'x env \<Rightarrow> string \<Rightarrow> string list \<Rightarrow> ('x, unit) op" where
  "launchTool E tool command = tryA (runCmd E None command) (\<lambda>res. case cr_err res of Some e \<Rightarrow> errA (Wrap tool e) | None \<Rightarrow> retA ())"

lemma launchTool_trace: "launchTool E tool command w = (r, w') \<Longrightarrow> w_trace w' = w_trace w @ [Cmd None command]"
  using runCmd_trace [of E None command w]
  by (cases "runCmd E None command w") (auto simp: launchTool_def tryA_apply errA_def retA_def split: sum.splits option.splits)

lemma runNative_run:
  assumes run: "runNative E H tool name forwarded w = (r, w')"
  shows "filter runsTool (w_trace w') = filter runsTool (w_trace w) \<or> checkedRun E H tool name forwarded w w'"
proof (cases "fst (PrepareKubeconfig E name w)")
  case (Inl e)
  then obtain w1 where p: "PrepareKubeconfig E name w = (Inl e, w1)" by (cases "PrepareKubeconfig E name w") simp
  with run have "w' = w1" by (simp add: runNative_def tryWrapA_def tryA_apply wrapA_apply)
  then show ?thesis using untooled_step [OF untooled_PrepareKubeconfig p] by simp
next
  case (Inr kubeconfig)
  then obtain w1 where p: "PrepareKubeconfig E name w = (Inr kubeconfig, w1)" by (cases "PrepareKubeconfig E name w") simp
  obtain s where s: "statTarget E kubeconfig w1 = (s, w1)" using statTarget_world by (metis prod.collapse)
  show ?thesis
  proof (cases "\<exists>info binary. s = Inr info \<and> fi_regular info \<and> \<not> groupOrOther info \<and> th_lookPath H (w_ext w1) tool = Inr binary")
    case True
    then obtain info binary where ok: "s = Inr info" "fi_regular info" "\<not> groupOrOther info" "th_lookPath H (w_ext w1) tool = Inr binary"
      by blast
    then have "launchTool E tool (toolCommand kubeconfig binary forwarded) w1 = (r, w')"
      using run p s by (simp add: runNative_def launchTool_def tryWrapA_def tryA_apply wrapA_apply askExt_def liftA_def)
    from launchTool_trace [OF this] show ?thesis using p s ok by (auto simp: checkedRun_def)
  next
    case False
    then have "w' = w1"
      using run p s by (cases s; cases "th_lookPath H (w_ext w1) tool")
        (auto simp: runNative_def tryWrapA_def tryA_apply wrapA_apply askExt_def liftA_def errA_def split: if_splits)
    then show ?thesis using untooled_step [OF untooled_PrepareKubeconfig p] by simp
  qed
qed

text \<open>A cluster is selected, and the tool is run for it.\<close>

lemma selected_run:
  assumes run: "tryA (selectedCluster E H failure named) (\<lambda>name. runNative E H tool name forwarded) (w\<lparr>w_trace := []\<rparr>) = (r, w')"
  shows "filter runsTool (w_trace w') = [] \<or>
    (\<exists>name w0. selectedCluster E H failure named (w\<lparr>w_trace := []\<rparr>) = (Inr name, w0) \<and> checkedRun E H tool name forwarded w0 w')"
proof -
  obtain s w0 where s: "selectedCluster E H failure named (w\<lparr>w_trace := []\<rparr>) = (s, w0)" by fastforce
  have none: "filter runsTool (w_trace w0) = []" using untooled_step [OF untooled_selectedCluster s] by simp
  show ?thesis
  proof (cases s)
    case (Inl e)
    then show ?thesis using run s none by (simp add: tryA_apply)
  next
    case (Inr name)
    then have "runNative E H tool name forwarded w0 = (r, w')" using run s by (simp add: tryA_apply)
    then show ?thesis using runNative_run none s Inr by fastforce
  qed
qed

text \<open>
  C36: \<open>kubectl\<close> and \<open>helm\<close> are run for the selected cluster only, as the last thing a command does, with the words that are left when the
  selectors are taken out, and with the kubeconfig that was prepared for that cluster, which at that moment was a regular file
  without access for the group or others; the environment variable that names it is the only one the program sets.  In every other
  case neither is run.
\<close>

theorem native_tools_run_checked:
  "(case tryKubernetesPassthrough E H arguments (w\<lparr>w_trace := []\<rparr>) of (outcome, w') \<Rightarrow>
      filter runsTool (w_trace w') = [] \<or>
      (\<exists>kept explicit name w0 failure. outcome = Inr (True, failure) \<and> routeKubernetesArguments arguments = Routed kept explicit True
         \<and> selectedCluster E H id explicit (w\<lparr>w_trace := []\<rparr>) = (Inr name, w0) \<and> checkedRun E H ''kubectl'' name kept w0 w'))
   \<and> (case helmCommand E H selected arguments (w\<lparr>w_trace := []\<rparr>) of (_, w') \<Rightarrow>
      filter runsTool (w_trace w') = [] \<or>
      (\<exists>kept explicit name w0. helmSelectedCluster selected arguments = Inr (explicit, kept)
         \<and> selectedCluster E H (Wrap ''resolve current APC cluster'') explicit (w\<lparr>w_trace := []\<rparr>) = (Inr name, w0)
         \<and> checkedRun E H ''helm'' name kept w0 w'))"
proof (intro conjI, goal_cases)
  case 1
  show ?case
  proof (cases "\<exists>kept explicit. routeKubernetesArguments arguments = Routed kept explicit True")
    case True
    then obtain kept explicit where route: "routeKubernetesArguments arguments = Routed kept explicit True" by blast
    obtain r w' where run: "tryA (selectedCluster E H id explicit) (\<lambda>name. runNative E H ''kubectl'' name kept) (w\<lparr>w_trace := []\<rparr>) = (r, w')"
      by fastforce
    then have "tryKubernetesPassthrough E H arguments (w\<lparr>w_trace := []\<rparr>) = (Inr (True, errOf r), w')"
      by (simp add: tryKubernetesPassthrough_def route catchA_apply retA_def)
    then show ?thesis using selected_run [OF run] route by auto
  next
    case False
    then show ?thesis
      by (cases "routeKubernetesArguments arguments") (auto simp: tryKubernetesPassthrough_def retA_def)
  qed
next
  case 2
  show ?case
  proof (cases "helmSelectedCluster selected arguments")
    case (Inl e)
    then show ?thesis by (simp add: helmCommand_def tryA_apply liftA_def)
  next
    case (Inr p)
    obtain explicit kept where p: "p = (explicit, kept)" by fastforce
    obtain r w' where run: "tryA (selectedCluster E H (Wrap ''resolve current APC cluster'') explicit)
        (\<lambda>name. runNative E H ''helm'' name kept) (w\<lparr>w_trace := []\<rparr>) = (r, w')" by fastforce
    then have "helmCommand E H selected arguments (w\<lparr>w_trace := []\<rparr>) = (r, w')"
      by (simp add: helmCommand_def Inr p tryA_apply)
    then show ?thesis using selected_run [OF run] Inr p by auto
  qed
qed

end
