(* ===== verification/Doctor.thy ===== *)
theory Doctor
  imports Etcd GoURL Launchd
begin

text \<open>
  The check of a host (\<open>doctor/doctor.go\<close>): its platform, its resources, the runtime's command line, the ports of a node, the native
  tools and a peer.  A command's reply is its combined output.  The texts of \<open>WriteText\<close> and \<open>WriteJSON\<close> are not modelled.
\<close>

section \<open>Reports\<close>

datatype CheckStatus = CheckPass | CheckWarn | CheckFail

record CheckResult =
  ck_Name :: string
  ck_Status :: CheckStatus
  ck_Detail :: string
  ck_Remediation :: string

record HostReport =
  hr_Role :: string
  hr_Results :: "CheckResult list"

record DoctorOptions =
  op_Role :: string
  op_ContainerBinary :: string
  op_ListenAddress :: string
  op_APIPort :: int
  op_FlannelPort :: int
  op_Peer :: string
  op_Timeout :: int

definition failedChecks :: "HostReport \<Rightarrow> nat" where
  "failedChecks r = length (filter (\<lambda>c. ck_Status c = CheckFail) (hr_Results r))"

definition warnedChecks :: "HostReport \<Rightarrow> nat" where
  "warnedChecks r = length (filter (\<lambda>c. ck_Status c = CheckWarn) (hr_Results r))"

definition passedChecks :: "HostReport \<Rightarrow> int" where
  "passedChecks r = int (length (hr_Results r)) - int (failedChecks r) - int (warnedChecks r)"

definition checked :: "string \<Rightarrow> CheckStatus \<Rightarrow> string \<Rightarrow> string \<Rightarrow> CheckResult" where
  "checked subject status detail remediation =
     \<lparr>ck_Name = subject, ck_Status = status, ck_Detail = detail, ck_Remediation = remediation\<rparr>"

definition defaultOptions :: "DoctorOptions \<Rightarrow> DoctorOptions" where
  "defaultOptions options = options\<lparr>op_Role := orDefault (op_Role options) ''server'',
     op_ContainerBinary := orDefault (op_ContainerBinary options) ''container'',
     op_ListenAddress := orDefault (op_ListenAddress options) ''127.0.0.1'',
     op_APIPort := (if op_APIPort options = 0 then 16443 else op_APIPort options),
     op_FlannelPort := (if op_FlannelPort options = 0 then 8472 else op_FlannelPort options),
     op_Timeout := (if op_Timeout options = 0 then 3 * second else op_Timeout options)\<rparr>"

section \<open>The host\<close>

text \<open>
  The answers of the host.  A listener is opened and closed again: \<open>None\<close> is success.
\<close>

record 'x doctorHost =
  dh_goos :: string
  dh_goarch :: string
  dh_numCPU :: int
  dh_execLookPath :: "'x \<Rightarrow> string \<Rightarrow> gerror + string"
  dh_stat :: "'x \<Rightarrow> string \<Rightarrow> gerror + fileInfo"
  dh_listenTCP :: "'x \<Rightarrow> string \<Rightarrow> gerror option"
  dh_listenUDP :: "'x \<Rightarrow> string \<Rightarrow> gerror option"
  dh_lookupHost :: "'x \<Rightarrow> string \<Rightarrow> (gerror + string list) \<times> 'x"
  dh_dialTCP :: "'x \<Rightarrow> string \<Rightarrow> gerror option \<times> 'x"

text \<open>The runtime's command line is looked for at its usual place when it is not on the path.\<close>

definition lookTool :: "'x doctorHost \<Rightarrow> string \<Rightarrow> ('x, gerror + string) op" where
  "lookTool H binary = askExt (\<lambda>x. case dh_execLookPath H x binary of
     Inr path \<Rightarrow> Inr path
   | Inl e \<Rightarrow> if binary \<noteq> ''container'' then Inl e
       else (case dh_stat H x ''/usr/local/bin/container'' of
           Inr info \<Rightarrow> if fi_regular info \<and> executable (fi_perm info) then Inr ''/usr/local/bin/container'' else Inl e
         | Inl _ \<Rightarrow> Inl e))"

definition runWithTimeout :: "'x env \<Rightarrow> string list \<Rightarrow> ('x, document) op" where
  "runWithTimeout E command = tryA (runCmd E None command) (\<lambda>res. case cr_err res of
     Some e \<Rightarrow> errA e | None \<Rightarrow> retA (cr_stdout res))"

text \<open>The trimmed text of the reply, or the error.\<close>

definition replyText :: "'x env \<Rightarrow> string list \<Rightarrow> ('x, gerror + string) op" where
  "replyText E command = catchA (runWithTimeout E command) (\<lambda>r. case r of
     Inl e \<Rightarrow> retA (Inl e) | Inr reply \<Rightarrow> retA (Inr (trimSpace (docText reply))))"

definition memoryBytes :: "'x env \<Rightarrow> ('x, gerror + int) op" where
  "memoryBytes E = tryA (replyText E [''sysctl'', ''-n'', ''hw.memsize'']) (\<lambda>r. retA (case r of
     Inl e \<Rightarrow> Inl e
   | Inr text \<Rightarrow> (case atoi text of None \<Rightarrow> Inl (Msg ''strconv.ParseInt: invalid syntax'') | Some n \<Rightarrow> Inr n)))"

section \<open>Texts\<close>

text \<open>A quotient rounded to the nearest integer, to the even one in the middle.\<close>

definition roundDiv :: "int \<Rightarrow> int \<Rightarrow> int" where
  "roundDiv n d = (let q = n div d; r = n mod d in if d < 2 * r \<or> (2 * r = d \<and> odd q) then q + 1 else q)"

text \<open>The values of less than \<open>2\<^bold>^53\<close> bytes, which a floating point number holds exactly.\<close>

definition humanBytes :: "int \<Rightarrow> string" where
  "humanBytes v =
     (if v \<ge> 2 ^ 30 then (let tenths = roundDiv (v * 10) (2 ^ 30) in itoa (tenths div 10) @ ''.'' @ itoa (tenths mod 10) @ '' GiB'')
      else (if v < 0 then ''-'' else []) @ itoa (roundDiv \<bar>v\<bar> (2 ^ 20)) @ '' MiB'')"

text \<open>The value after the first occurrence of a marker, which is looked for in lower case.\<close>

fun afterMarker :: "string \<Rightarrow> string \<Rightarrow> string option" where
  "afterMarker marker [] = None"
| "afterMarker marker (c # cs) =
     (if hasPrefix (toLower (c # cs)) marker then Some (drop (length marker) (c # cs)) else afterMarker marker cs)"

definition supportedContainerVersion :: "string \<Rightarrow> bool" where
  "supportedContainerVersion v = (case afterMarker ''version '' v of
     None \<Rightarrow> False
   | Some version \<Rightarrow> (case atoi (fst (cutAt CHR ''.'' version)) of None \<Rightarrow> False | Some major \<Rightarrow> 1 \<le> major))"

definition missingOptions :: "string \<Rightarrow> string list \<Rightarrow> string list" where
  "missingOptions help options = filter (\<lambda>option. \<not> containsStr help option) options"

section \<open>The default route\<close>

definition routeInterfaceName :: "string \<Rightarrow> bool" where
  "routeInterfaceName s \<longleftrightarrow> (case s of [] \<Rightarrow> False | c # cs \<Rightarrow>
     (isLowerAlpha c \<or> isUpperAlpha c) \<and> length cs \<le> 15 \<and> list_all alphanumeric cs)"

definition tunnelInterface :: "string \<Rightarrow> bool" where
  "tunnelInterface s \<longleftrightarrow> hasPrefix s ''utun'' \<and> drop 4 s \<noteq> [] \<and> list_all isDigit (drop 4 s)"

text \<open>The candidate that a line names.\<close>

definition lineInterface :: "string \<Rightarrow> string option" where
  "lineInterface line = (case cutAt CHR '':'' (trimSpace line) of
     (key, v, found) \<Rightarrow> if \<not> found \<or> \<not> equalFold (trimSpace key) ''interface'' then None else Some (trimSpace v))"

fun routeInterfaceLoop :: "string \<Rightarrow> string list \<Rightarrow> string \<times> bool" where
  "routeInterfaceLoop interfaceName [] = (interfaceName, interfaceName \<noteq> [])"
| "routeInterfaceLoop interfaceName (line # rest) = (case lineInterface line of
     None \<Rightarrow> routeInterfaceLoop interfaceName rest
   | Some candidate \<Rightarrow>
       if \<not> routeInterfaceName candidate then ([], False)
       else if interfaceName \<noteq> [] \<and> interfaceName \<noteq> candidate then ([], False)
       else routeInterfaceLoop candidate rest)"

definition parseDefaultRouteInterface :: "string \<Rightarrow> string \<times> bool" where
  "parseDefaultRouteInterface reply = routeInterfaceLoop [] (splitOn (CHR 0x0A) reply)"

definition checkDefaultRoute :: "'x env \<Rightarrow> ('x, CheckResult) op" where
  "checkDefaultRoute E = tryA (replyText E [''/sbin/route'', ''-n'', ''get'', ''default'']) (\<lambda>r.
     let warn = (\<lambda>detail. checked ''host-default-route'' CheckWarn detail
           ''verify host routing and Apple vmnet NAT before relying on VM/pod egress'') in
     retA (case r of
       Inl _ \<Rightarrow> warn ''default route lookup unavailable''
     | Inr reply \<Rightarrow> (case parseDefaultRouteInterface reply of (interfaceName, ok) \<Rightarrow>
         if \<not> ok then warn ''default route interface could not be determined''
         else if tunnelInterface interfaceName
         then checked ''host-default-route'' CheckWarn (''default route uses tunnel interface '' @ interfaceName @ ''; VM/pod egress may be affected'')
           ''verify the tunnel permits Apple vmnet NAT traffic''
         else checked ''host-default-route'' CheckPass (''default route uses non-tunnel interface '' @ interfaceName) [])))"

section \<open>The owner of a port\<close>

record listedContainer =
  lc_ID :: string
  lc_ConfigurationID :: string
  lc_Labels :: "(string \<times> string) list"
  lc_PublishedPorts :: "(int \<times> string) list"

definition dPublished :: "(int \<times> string) decoder" where
  "dPublished j = tryS (objFields j) (\<lambda>p. at dInt ''hostPort'' p (\<lambda>port. at dString ''proto'' p (\<lambda>proto. Inr (port, proto))))"

definition dListed :: "listedContainer decoder" where
  "dListed j = tryS (objFields j) (\<lambda>top. at dString ''id'' top (\<lambda>i. at objFields ''configuration'' top (\<lambda>c.
     at dString ''id'' c (\<lambda>ci. at dStringMap ''labels'' c (\<lambda>l. at (dList dPublished) ''publishedPorts'' c (\<lambda>ps.
       Inr \<lparr>lc_ID = i, lc_ConfigurationID = ci, lc_Labels = l, lc_PublishedPorts = ps\<rparr>))))))"

definition managedNode :: "listedContainer \<Rightarrow> bool" where
  "managedNode c \<longleftrightarrow> mapGet (lc_Labels c) ''apc.dev/managed'' = ''true''
     \<and> (mapGet (lc_Labels c) ''apc.dev/role'' = ''server'' \<or> mapGet (lc_Labels c) ''apc.dev/role'' = ''agent'')"

definition publishes :: "string \<Rightarrow> int \<Rightarrow> listedContainer \<Rightarrow> bool" where
  "publishes network port c \<longleftrightarrow> list_ex (\<lambda>(hostPort, proto). hostPort = port \<and> equalFold proto network) (lc_PublishedPorts c)"

definition managedPortOwner :: "'x env \<Rightarrow> string \<Rightarrow> string \<Rightarrow> int \<Rightarrow> ('x, string option) op" where
  "managedPortOwner E binary network port = catchA (runWithTimeout E [binary, ''list'', ''--format'', ''json'']) (\<lambda>r. case r of
     Inl _ \<Rightarrow> retA None
   | Inr reply \<Rightarrow> (case decodeDoc (dList dListed) reply of
       Inl _ \<Rightarrow> retA None
     | Inr containers \<Rightarrow> retA (case filter (\<lambda>c. managedNode c \<and> publishes network port c) containers of
         [] \<Rightarrow> None | c # _ \<Rightarrow> Some (orDefault (lc_ID c) (lc_ConfigurationID c)))))"

section \<open>The checks\<close>

definition roleResult :: "DoctorOptions \<Rightarrow> CheckResult" where
  "roleResult options = (if op_Role options \<noteq> ''server'' \<and> op_Role options \<noteq> ''agent''
     then checked ''role'' CheckFail ''unsupported role'' ''use server or agent'' else checked ''role'' CheckPass (op_Role options) [])"

definition appleSilicon :: "'x doctorHost \<Rightarrow> bool" where
  "appleSilicon H \<longleftrightarrow> dh_goos H = ''darwin'' \<and> dh_goarch H = ''arm64''"

definition platformResults :: "'x env \<Rightarrow> 'x doctorHost \<Rightarrow> ('x, CheckResult list) op" where
  "platformResults E H = (if appleSilicon H
     then tryA (checkDefaultRoute E) (\<lambda>route. retA [checked ''platform'' CheckPass ''darwin/arm64'' [], route])
     else retA [checked ''platform'' CheckFail (dh_goos H @ ''/'' @ dh_goarch H) ''APC K3s nodes require Apple Silicon macOS''])"

definition minimumCPU :: "DoctorOptions \<Rightarrow> int" where
  "minimumCPU options = (if op_Role options = ''server'' then 2 else 1)"

definition minimumMemory :: "DoctorOptions \<Rightarrow> int" where
  "minimumMemory options = (if op_Role options = ''server'' then 2 * 2 ^ 30 else 512 * 2 ^ 20)"

definition cpuResult :: "'x doctorHost \<Rightarrow> DoctorOptions \<Rightarrow> CheckResult" where
  "cpuResult H options = (if minimumCPU options \<le> dh_numCPU H then checked ''cpu'' CheckPass (itoa (dh_numCPU H) @ '' logical CPUs'') []
     else checked ''cpu'' CheckFail (itoa (dh_numCPU H) @ '' logical CPUs'') (''at least '' @ itoa (minimumCPU options) @ '' required''))"

definition memoryResult :: "DoctorOptions \<Rightarrow> gerror + int \<Rightarrow> CheckResult" where
  "memoryResult options r = (case r of
     Inl e \<Rightarrow> checked ''memory'' CheckWarn ''could not determine host memory'' (errorText e)
   | Inr memory \<Rightarrow> if memory < minimumMemory options
       then checked ''memory'' CheckFail (humanBytes memory) (''at least '' @ humanBytes (minimumMemory options) @ '' required'')
       else checked ''memory'' CheckPass (humanBytes memory) [])"

definition versionResult :: "gerror + string \<Rightarrow> CheckResult" where
  "versionResult r = (case r of
     Inl e \<Rightarrow> checked ''container-cli'' CheckFail ''could not execute'' (errorText e)
   | Inr version \<Rightarrow> if \<not> supportedContainerVersion version
       then checked ''container-cli'' CheckFail version ''apple/container 1.0 or newer is required'' else checked ''container-cli'' CheckPass version [])"

definition systemResult :: "gerror + string \<Rightarrow> CheckResult" where
  "systemResult r = (let running = (case r of Inl _ \<Rightarrow> False
       | Inr status \<Rightarrow> containsStr (toLower status) ''status'' \<and> containsStr (toLower status) ''running'') in
     if \<not> running then checked ''container-system'' CheckFail ''not running'' ''run: container system start''
     else checked ''container-system'' CheckPass ''running'' [])"

definition runResult :: "gerror + string \<Rightarrow> CheckResult" where
  "runResult r = (case r of
     Inl e \<Rightarrow> checked ''container-run'' CheckFail ''cannot inspect capabilities'' (errorText e)
   | Inr help \<Rightarrow> let missing = missingOptions help [''--publish'', ''--cap-add'', ''--mount'', ''--arch''] in
       if missing \<noteq> [] then checked ''container-run'' CheckFail (''missing '' @ joinWith '', '' missing) ''upgrade apple/container''
       else checked ''container-run'' CheckPass ''publish, capabilities, mounts and arm64 supported'' [])"

definition machineResult :: "gerror + string \<Rightarrow> CheckResult" where
  "machineResult r = (case r of
     Inl e \<Rightarrow> checked ''container-machine'' CheckWarn ''machine API unavailable'' ''the run-based node envelope remains usable''
   | Inr help \<Rightarrow> if \<not> containsStr help ''--publish''
       then checked ''container-machine'' CheckWarn ''no host port publishing in container 1.0'' ''APC creates K3s nodes with container run''
       else checked ''container-machine'' CheckPass ''host port publishing supported'' [])"

definition checkPort :: "'x env \<Rightarrow> DoctorOptions \<Rightarrow> string \<Rightarrow> string \<Rightarrow> string \<Rightarrow> int \<Rightarrow> ('x \<Rightarrow> string \<Rightarrow> gerror option) \<Rightarrow> ('x, CheckResult) op" where
  "checkPort E options binary subject network port listener = (let address = joinHostPort (op_ListenAddress options) (itoa port) in
     tryA (askExt (\<lambda>x. listener x address)) (\<lambda>failed. case failed of
       None \<Rightarrow> retA (checked subject CheckPass (network @ '' '' @ address @ '' available'') [])
     | Some e \<Rightarrow> tryA (managedPortOwner E binary network port) (\<lambda>owner. case owner of
         Some name \<Rightarrow> retA (checked subject CheckPass (network @ '' '' @ address @ '' in use by APC node '' @ name) [])
       | None \<Rightarrow> retA (checked subject CheckFail (network @ '' '' @ address @ '' unavailable'') (errorText e)))))"

definition toolResult :: "'x doctorHost \<Rightarrow> string \<Rightarrow> ('x, CheckResult) op" where
  "toolResult H tool = tryA (lookTool H tool) (\<lambda>r. retA (case r of
     Inl _ \<Rightarrow> checked tool CheckWarn ''not installed'' ''install it for native Kubernetes workflows''
   | Inr path \<Rightarrow> checked tool CheckPass path []))"

definition peerResults :: "'x doctorHost \<Rightarrow> string \<Rightarrow> ('x, CheckResult list) op" where
  "peerResults H peer =
     (if peer = [] then retA []
      else let peerHost = (case splitHostPort peer of Some (host, _) \<Rightarrow> host | None \<Rightarrow> peer);
               sshAddress = (case splitHostPort peer of Some _ \<Rightarrow> peer | None \<Rightarrow> joinHostPort peer ''22'') in
        tryA (queryExt (\<lambda>x. dh_lookupHost H x peerHost)) (\<lambda>found.
        tryA (queryExt (\<lambda>x. dh_dialTCP H x sshAddress)) (\<lambda>failed.
        retA [case found of
            Inl _ \<Rightarrow> checked ''peer-dns'' CheckFail peer ''peer hostname or address is not resolvable''
          | Inr addresses \<Rightarrow> if addresses = [] then checked ''peer-dns'' CheckFail peer ''peer hostname or address is not resolvable''
              else checked ''peer-dns'' CheckPass (joinWith '', '' addresses) [],
          case failed of
            Some e \<Rightarrow> checked ''peer-ssh'' CheckFail sshAddress (errorText e) | None \<Rightarrow> checked ''peer-ssh'' CheckPass sshAddress []])))"

text \<open>The checks that need the runtime's command line.\<close>

definition containerResults :: "'x env \<Rightarrow> 'x doctorHost \<Rightarrow> DoctorOptions \<Rightarrow> string \<Rightarrow> ('x, CheckResult list) op" where
  "containerResults E H options binary =
     tryA (replyText E [binary, ''--version'']) (\<lambda>version.
     tryA (replyText E [binary, ''system'', ''status'']) (\<lambda>status.
     tryA (replyText E [binary, ''run'', ''--help'']) (\<lambda>runHelp.
     tryA (replyText E [binary, ''machine'', ''create'', ''--help'']) (\<lambda>machineHelp.
     tryA (if op_Role options = ''server''
       then tryA (checkPort E options binary ''kubernetes-api-port'' ''tcp'' (op_APIPort options) (dh_listenTCP H)) (\<lambda>r. retA [r])
       else retA []) (\<lambda>api.
     tryA (checkPort E options binary ''flannel-vxlan-port'' ''udp'' (op_FlannelPort options) (dh_listenUDP H)) (\<lambda>vxlan.
     tryA (toolResult H ''kubectl'') (\<lambda>kubectl.
     tryA (toolResult H ''helm'') (\<lambda>helm.
     tryA (peerResults H (op_Peer options)) (\<lambda>peer.
     retA ([versionResult version, systemResult status, runResult runHelp, machineResult machineHelp] @ api @ [vxlan, kubectl, helm] @ peer))))))))))"

definition doctorRun :: "'x env \<Rightarrow> 'x doctorHost \<Rightarrow> DoctorOptions \<Rightarrow> ('x, HostReport) op" where
  "doctorRun E H options0 = (let options = defaultOptions options0 in
     tryA (platformResults E H) (\<lambda>platform.
     tryA (memoryBytes E) (\<lambda>memory.
     let host = [roleResult options] @ platform @ [cpuResult H options, memoryResult options memory] in
     tryA (lookTool H (op_ContainerBinary options)) (\<lambda>found. case found of
       Inl _ \<Rightarrow> retA \<lparr>hr_Role = op_Role options,
           hr_Results = host @ [checked ''container-cli'' CheckFail ''not found'' ''install apple/container 1.0 or newer'']\<rparr>
     | Inr binary \<Rightarrow> tryA (containerResults E H options binary) (\<lambda>more.
         retA \<lparr>hr_Role = op_Role options, hr_Results = host @ more\<rparr>)))))"

end
