(* ===== verification/DoctorProps.thy ===== *)
theory DoctorProps
  imports Doctor Keeps Totals
begin

text \<open>
  The check of a host looks and does not touch, and what a report without a failure says about the host.
\<close>

section \<open>The interface of the default route\<close>

lemma routeInterfaceLoop_named:
  "routeInterfaceName i \<Longrightarrow> (routeInterfaceLoop i ls = (j, True)) = (i = j \<and> set (List.map_filter lineInterface ls) \<subseteq> {j})"
  by (induction ls) (auto simp: List.map_filter_def routeInterfaceName_def split: option.split)

lemma routeInterfaceLoop_start:
  "(routeInterfaceLoop [] ls = (i, True)) = (routeInterfaceName i \<and> set (List.map_filter lineInterface ls) = {i})"
proof (induction ls)
  case (Cons line ls)
  show ?case
  proof (cases "lineInterface line")
    case None
    then show ?thesis using Cons by (simp add: List.map_filter_def)
  next
    case (Some candidate)
    then show ?thesis by (auto simp: List.map_filter_def routeInterfaceLoop_named)
  qed
qed (auto simp: List.map_filter_def)

text \<open>
  The reply of the routing table names an interface exactly when all its \<open>interface\<close> lines name the same one and its name is well formed;
  no line, two different names or a malformed one leave the interface undetermined.
\<close>

lemma default_route_interface:
  "(parseDefaultRouteInterface reply = (i, True)) =
     (routeInterfaceName i \<and> set (List.map_filter lineInterface (splitOn (CHR 0x0A) reply)) = {i})"
  unfolding parseDefaultRouteInterface_def by (rule routeInterfaceLoop_start)

section \<open>Only looking\<close>

definition lookingCommands :: "string list list" where
  "lookingCommands = [[''--version''], [''system'', ''status''], [''run'', ''--help''], [''machine'', ''create'', ''--help''], [''list'', ''--format'', ''json'']]"

definition looks :: "event \<Rightarrow> bool" where
  "looks e = (case e of
     Cmd b (tool # rest) \<Rightarrow> rest \<in> set lookingCommands \<or> tool # rest = [''sysctl'', ''-n'', ''hw.memsize'']
       \<or> tool # rest = [''/sbin/route'', ''-n'', ''get'', ''default'']
   | _ \<Rightarrow> False)"

lemma looks_commands:
  "looks (Cmd b [''sysctl'', ''-n'', ''hw.memsize''])" "looks (Cmd b [''/sbin/route'', ''-n'', ''get'', ''default''])"
  "looks (Cmd b [binary, ''--version''])" "looks (Cmd b [binary, ''system'', ''status''])" "looks (Cmd b [binary, ''run'', ''--help''])"
  "looks (Cmd b [binary, ''machine'', ''create'', ''--help''])" "looks (Cmd b [binary, ''list'', ''--format'', ''json''])"
  by (simp_all add: looks_def lookingCommands_def)

lemma emits_replyText: "looks (Cmd None command) \<Longrightarrow> emits looks (replyText E command)"
  unfolding replyText_def runWithTimeout_def by (intro effects)

lemma emits_checkPort: "emits looks (checkPort E options binary subject network port listener)"
  unfolding checkPort_def managedPortOwner_def runWithTimeout_def Let_def by (intro effects) (simp add: looks_commands)

lemma emits_doctorRun: "emits looks (doctorRun E H options)"
  unfolding doctorRun_def platformResults_def checkDefaultRoute_def memoryBytes_def containerResults_def toolResult_def lookTool_def
    peerResults_def Let_def
  by (intro effects emits_replyText emits_checkPort looks_commands)

lemma keeps_doctorRun: "keepsFiles (doctorRun E H options)"
  unfolding doctorRun_def platformResults_def checkDefaultRoute_def memoryBytes_def containerResults_def toolResult_def lookTool_def
    peerResults_def Let_def checkPort_def managedPortOwner_def replyText_def runWithTimeout_def
  by (intro keeping)

lemma total_replyText: "total (replyText E command)"
  unfolding replyText_def by (intro totals)

lemma total_checkPort: "total (checkPort E options binary subject network port listener)"
  unfolding checkPort_def managedPortOwner_def by (intro totals)

lemma total_doctorRun: "total (doctorRun E H options)"
  unfolding doctorRun_def platformResults_def checkDefaultRoute_def memoryBytes_def containerResults_def toolResult_def lookTool_def
    peerResults_def
  by (intro totals total_replyText total_checkPort)

text \<open>
  The check of a host always ends with a report, writes and removes no file, and runs nothing but commands that look: the route,
  the memory, and the runtime's version, status, help texts and list of containers.
\<close>

lemma doctor_only_looks:
  "case doctorRun E H options w of (outcome, w') \<Rightarrow>
     isOk outcome \<and> w_fs w' = w_fs w \<and> (\<exists>es. w_trace w' = w_trace w @ es \<and> list_all looks es)"
proof -
  obtain outcome w' where run: "doctorRun E H options w = (outcome, w')" by fastforce
  show ?thesis
    using emits_appends [OF emits_doctorRun run] keepsFiles_run [OF keeps_doctorRun run] total_run [OF total_doctorRun, of E H options w]
    by (auto simp: run)
qed

section \<open>A report without a failure\<close>

definition portReady :: "'x env \<Rightarrow> DoctorOptions \<Rightarrow> string \<Rightarrow> string \<Rightarrow> int \<Rightarrow> ('x \<Rightarrow> string \<Rightarrow> gerror option) \<Rightarrow> 'x world \<Rightarrow> bool" where
  "portReady E options binary network port listener w \<longleftrightarrow>
     listener (w_ext w) (joinHostPort (op_ListenAddress options) (itoa port)) = None
     \<or> (\<exists>owner. fst (managedPortOwner E binary network port w) = Inr (Some owner))"

lemma checkPort_ready:
  "checkPort E options binary subject network port listener w = (Inr r, w') \<Longrightarrow> ck_Status r \<noteq> CheckFail \<Longrightarrow>
     portReady E options binary network port listener w"
  by (cases "managedPortOwner E binary network port w")
    (auto simp: checkPort_def portReady_def Let_def tryA_apply askExt_def retA_def checked_def split: option.splits sum.splits)

text \<open>What the checks of the runtime have seen, one after the other, when none of them failed.\<close>

definition runtimeReady :: "'x env \<Rightarrow> 'x doctorHost \<Rightarrow> DoctorOptions \<Rightarrow> string \<Rightarrow> 'x world \<Rightarrow> bool" where
  "runtimeReady E H options binary w \<longleftrightarrow> (\<exists>version status help machine w1 w2 w3 w4 w5.
     replyText E [binary, ''--version''] w = (Inr (Inr version), w1) \<and> supportedContainerVersion version
     \<and> replyText E [binary, ''system'', ''status''] w1 = (Inr (Inr status), w2) \<and> containsStr (toLower status) ''running''
     \<and> replyText E [binary, ''run'', ''--help''] w2 = (Inr (Inr help), w3)
     \<and> missingOptions help [''--publish'', ''--cap-add'', ''--mount'', ''--arch''] = []
     \<and> replyText E [binary, ''machine'', ''create'', ''--help''] w3 = (Inr machine, w4)
     \<and> (if op_Role options = ''server''
        then portReady E options binary ''tcp'' (op_APIPort options) (dh_listenTCP H) w4
          \<and> w5 = snd (checkPort E options binary ''kubernetes-api-port'' ''tcp'' (op_APIPort options) (dh_listenTCP H) w4)
        else w5 = w4)
     \<and> portReady E options binary ''udp'' (op_FlannelPort options) (dh_listenUDP H) w5)"

abbreviation noFailure :: "CheckResult list \<Rightarrow> bool" where
  "noFailure \<equiv> list_all (\<lambda>c. ck_Status c \<noteq> CheckFail)"

lemma failedChecks_none: "failedChecks r = 0 \<longleftrightarrow> noFailure (hr_Results r)"
  by (simp add: failedChecks_def filter_empty_conv list_all_iff)

lemma verdicts:
  "ck_Status (versionResult v) \<noteq> CheckFail \<Longrightarrow> \<exists>version. v = Inr version \<and> supportedContainerVersion version"
  "ck_Status (systemResult v) \<noteq> CheckFail \<Longrightarrow> \<exists>status. v = Inr status \<and> containsStr (toLower status) ''running''"
  "ck_Status (runResult v) \<noteq> CheckFail \<Longrightarrow>
     \<exists>help. v = Inr help \<and> missingOptions help [''--publish'', ''--cap-add'', ''--mount'', ''--arch''] = []"
  by (auto simp: versionResult_def systemResult_def runResult_def checked_def Let_def split: sum.splits if_splits)

lemma containerResults_ready:
  assumes run: "containerResults E H options binary w = (Inr rs, w')" and ok: "noFailure rs"
  shows "runtimeReady E H options binary w"
proof -
  obtain v w1 where v: "replyText E [binary, ''--version''] w = (Inr v, w1)" using total_run [OF total_replyText] by metis
  obtain s w2 where s: "replyText E [binary, ''system'', ''status''] w1 = (Inr s, w2)" using total_run [OF total_replyText] by metis
  obtain h w3 where h: "replyText E [binary, ''run'', ''--help''] w2 = (Inr h, w3)" using total_run [OF total_replyText] by metis
  obtain m w4 where m: "replyText E [binary, ''machine'', ''create'', ''--help''] w3 = (Inr m, w4)" using total_run [OF total_replyText] by metis
  let ?tcp = "checkPort E options binary ''kubernetes-api-port'' ''tcp'' (op_APIPort options) (dh_listenTCP H)"
  let ?udp = "checkPort E options binary ''flannel-vxlan-port'' ''udp'' (op_FlannelPort options) (dh_listenUDP H)"
  obtain t w5 where t: "?tcp w4 = (Inr t, w5)" using total_run [OF total_checkPort] by metis
  let ?w5 = "if op_Role options = ''server'' then w5 else w4"
  obtain u w6 where u: "?udp ?w5 = (Inr u, w6)" using total_run [OF total_checkPort] by metis
  obtain more where rs: "rs = [versionResult v, systemResult s, runResult h, machineResult m]
      @ (if op_Role options = ''server'' then [t] else []) @ u # more"
    using run v s h m t u
    by (auto simp: containerResults_def tryA_apply retA_def split: if_splits sum.splits prod.splits)
  have "\<exists>version. v = Inr version \<and> supportedContainerVersion version"
    "\<exists>status. s = Inr status \<and> containsStr (toLower status) ''running''"
    "\<exists>help. h = Inr help \<and> missingOptions help [''--publish'', ''--cap-add'', ''--mount'', ''--arch''] = []"
    by (intro verdicts; use ok rs in simp)+
  moreover have "if op_Role options = ''server'' then portReady E options binary ''tcp'' (op_APIPort options) (dh_listenTCP H) w4 else True"
    using checkPort_ready [OF t] ok rs by (simp split: if_splits)
  moreover have "portReady E options binary ''udp'' (op_FlannelPort options) (dh_listenUDP H) ?w5"
    using checkPort_ready [OF u] ok rs by (simp split: if_splits)
  ultimately show ?thesis
    unfolding runtimeReady_def using v s h m t by (elim exE conjE) (intro exI conjI; (assumption | simp split: if_splits)?)
qed

lemma total_parts: "total (platformResults E H)" "total (memoryBytes E)" "total (containerResults E H options binary)"
  unfolding platformResults_def checkDefaultRoute_def memoryBytes_def containerResults_def toolResult_def lookTool_def peerResults_def
  by (intro totals total_replyText total_checkPort)+

lemma lookTool_world: "\<exists>r. lookTool H tool w = (Inr r, w)"
  by (simp add: lookTool_def askExt_def)

lemma host_verdicts:
  "ck_Status (roleResult options) \<noteq> CheckFail \<Longrightarrow> op_Role options = ''server'' \<or> op_Role options = ''agent''"
  "ck_Status (cpuResult H options) \<noteq> CheckFail \<Longrightarrow> minimumCPU options \<le> dh_numCPU H"
  "ck_Status (memoryResult options r) \<noteq> CheckFail \<Longrightarrow> (case r of Inl _ \<Rightarrow> True | Inr n \<Rightarrow> minimumMemory options \<le> n)"
  by (auto simp: roleResult_def cpuResult_def memoryResult_def checked_def split: sum.splits if_splits)

lemma platform_verdict: "platformResults E H w = (Inr platform, w') \<Longrightarrow> noFailure platform \<Longrightarrow> appleSilicon H"
  by (auto simp: platformResults_def checked_def retA_def split: if_splits)


end
