(* ===== verification/HACli.thy ===== *)
theory HACli
  imports HANormalize
begin

text \<open>
  The configuration that \<open>apc cluster ha create\<close> builds from its flags (\<open>cli/ha.go\<close>), and what the normalization makes of it.
\<close>

record haCreateOptions =
  co_networkName :: string
  co_subnet :: string
  co_stableIP :: string
  co_apiPortBase :: int
  co_image :: string
  co_cpus :: int
  co_memory :: string
  co_volumeSize :: string
  co_listen :: string
  co_kubeconfig :: string
  co_wait :: int
  co_disableIngress :: bool

definition defaultHACreateOptions :: haCreateOptions where
  "defaultHACreateOptions = \<lparr>co_networkName = [], co_subnet = ''192.168.96.0/24'', co_stableIP = ''192.168.96.241'',
     co_apiPortBase = 17443, co_image = defaultK3sImage, co_cpus = 2, co_memory = ''2G'', co_volumeSize = ''8G'',
     co_listen = ''127.0.0.1'', co_kubeconfig = [], co_wait = 180 * second, co_disableIngress = True\<rparr>"

section \<open>Consecutive members\<close>

text \<open>\<open>Addr.IsMulticast\<close>: the addresses of \<open>224.0.0.0/4\<close>.\<close>

definition multicast4 :: "ipv4 \<Rightarrow> bool" where
  "multicast4 a \<longleftrightarrow> uint a div 2 ^ 28 = 14"

definition emptyHAMember :: HAMember where
  "emptyHAMember = \<lparr>hm_ID = 0, hm_NodeName = [], hm_StableIP = [], hm_MAC = [], hm_HostAPIPort = 0\<rparr>"

definition usableServer :: "ipv4 \<times> nat \<Rightarrow> ipv4 \<Rightarrow> bool" where
  "usableServer pfx address \<longleftrightarrow> prefixContains pfx address \<and> address \<noteq> fst pfx
     \<and> (case addrNext address of None \<Rightarrow> False | Some following \<Rightarrow> prefixContains pfx following)
     \<and> \<not> multicast4 address \<and> address \<noteq> 0"

text \<open>The loop over the three members, each started from the default member in its place.\<close>

fun haMemberLoop :: "string \<Rightarrow> ipv4 \<times> nat \<Rightarrow> int \<Rightarrow> HAMember list \<Rightarrow> int \<Rightarrow> ipv4 option \<Rightarrow> gerror + HAMember list" where
  "haMemberLoop name pfx apiPortBase [] index address = Inr []"
| "haMemberLoop name pfx apiPortBase (start # rest) index address = (case address of
     None \<Rightarrow> Inl (Msg ''HA server address is not usable in subnet'')
   | Some a \<Rightarrow>
       if \<not> usableServer pfx a then Inl (Msg ''HA server address is not usable in subnet'')
       else tryS (haMemberLoop name pfx apiPortBase rest (index + 1) (addrNext a)) (\<lambda>members.
         Inr (start\<lparr>hm_ID := index + 1, hm_NodeName := orDefault (hm_NodeName start) (''apc-'' @ name @ ''-'' @ itoa (index + 1)),
                    hm_StableIP := addrString a, hm_MAC := ''02:ac:96:00:00:'' @ hex2 (index + 1),
                    hm_HostAPIPort := apiPortBase + index\<rparr> # members)))"

definition buildHAMembers :: "string \<Rightarrow> HAMember list \<Rightarrow> string \<Rightarrow> string \<Rightarrow> int \<Rightarrow> gerror + HAMember list" where
  "buildHAMembers name defaults subnet stableIPStart apiPortBase = (case parsePrefix4 subnet of
     None \<Rightarrow> Inl (Msg ''HA subnet must be a valid IPv4 prefix'')
   | Some pfx \<Rightarrow> (case parseAddr4 stableIPStart of
       None \<Rightarrow> Inl (Msg ''HA stable IP start must be a valid IPv4 address'')
     | Some address \<Rightarrow>
         if apiPortBase < 1 \<or> 65535 - (haMemberCount - 1) < apiPortBase
         then Inl (Msg ''HA API port base must leave room for three consecutive TCP ports'')
         else haMemberLoop name (prefixMasked pfx) apiPortBase
           (take 3 (defaults @ replicate 3 emptyHAMember)) 0 (Some address)))"

definition haConfigForCreate :: "hostEnv \<Rightarrow> string \<Rightarrow> haCreateOptions \<Rightarrow> gerror + HAConfig" where
  "haConfigForCreate H name options =
     tryS (DefaultHAConfig H name) (\<lambda>config0.
     let config = config0\<lparr>hc_Subnet := co_subnet options, hc_Image := co_image options, hc_ListenAddress := co_listen options,
           hc_CPUs := co_cpus options, hc_Memory := co_memory options, hc_VolumeSize := co_volumeSize options,
           hc_StartupTimeout := co_wait options, hc_DisableTraefik := co_disableIngress options,
           hc_NetworkName := (if co_networkName options \<noteq> [] then co_networkName options else hc_NetworkName config0),
           hc_KubeconfigPath := (if co_kubeconfig options \<noteq> [] then co_kubeconfig options else hc_KubeconfigPath config0)\<rparr> in
     tryS (buildHAMembers name (hc_Members config) (co_subnet options) (co_stableIP options) (co_apiPortBase options)) (\<lambda>members.
     Inr (config\<lparr>hc_Members := members\<rparr>)))"

section \<open>The members that are built\<close>

lemma usableServer_stable:
  assumes "usableServer pfx a"
  shows "usableStableIP pfx a \<longleftrightarrow> a \<noteq> fst pfx + 1"
proof -
  have "a \<noteq> lastIPv4Address pfx"
  proof
    assume last: "a = lastIPv4Address pfx"
    have following: "a \<noteq> - 1" "prefixContains pfx (a + 1)" using assms by (auto simp: usableServer_def addrNext_def split: if_splits)
    then have "a + 1 \<le> a" using lastIPv4Address_upper [of pfx "a + 1"] last by simp
    moreover have "1 + a \<noteq> 0" using following(1) by (metis add_eq_0_iff minus_equation_iff)
    then have "unat (a + 1) = Suc (unat a)" by (simp add: unatSuc add.commute)
    ultimately show False by (simp add: word_le_nat_alt)
  qed
  then show ?thesis using assms by (auto simp: usableServer_def usableStableIP_def)
qed

definition consecutiveMembers :: "string \<Rightarrow> ipv4 \<Rightarrow> int \<Rightarrow> HAMember list" where
  "consecutiveMembers name a apiPortBase = map (\<lambda>i. \<lparr>hm_ID = i + 1, hm_NodeName = defaultHANodeName name (i + 1),
     hm_StableIP = addrString (a + of_int i), hm_MAC = ''02:ac:96:00:00:'' @ hex2 (i + 1), hm_HostAPIPort = apiPortBase + i\<rparr>) [0, 1, 2]"

lemma addrNext_Some: "addrNext a = Some b \<longleftrightarrow> a \<noteq> - 1 \<and> b = a + 1"
  by (auto simp: addrNext_def)

lemma haMemberLoop_step:
  assumes "haMemberLoop name pfx base (start # rest) index (Some a) = Inr members"
  obtains more where "usableServer pfx a" "haMemberLoop name pfx base rest (index + 1) (Some (a + 1)) = Inr more"
    "members = start\<lparr>hm_ID := index + 1, hm_NodeName := orDefault (hm_NodeName start) (''apc-'' @ name @ ''-'' @ itoa (index + 1)),
       hm_StableIP := addrString a, hm_MAC := ''02:ac:96:00:00:'' @ hex2 (index + 1), hm_HostAPIPort := base + index\<rparr> # more"
proof -
  have "usableServer pfx a" using assms(1) by (auto split: if_splits)
  moreover from this have "addrNext a = Some (a + 1)" by (auto simp: usableServer_def addrNext_Some split: option.splits)
  ultimately show thesis using assms(1) that by (auto simp: tryS_eq_Inr)
qed

declare haMemberLoop.simps(2) [simp del]

lemma buildHAMembers_Inr:
  assumes "buildHAMembers name (map (defaultHAMember label) [1, 2, 3]) subnet start base = Inr members"
  obtains pfx a where "parsePrefix4 subnet = Some pfx" "parseAddr4 start = Some a" "1 \<le> base" "base + 2 \<le> 65535"
    "members = consecutiveMembers label a base"
    "usableServer (prefixMasked pfx) a" "usableServer (prefixMasked pfx) (a + 1)" "usableServer (prefixMasked pfx) (a + 2)"
proof -
  obtain pfx a where inputs: "parsePrefix4 subnet = Some pfx" "parseAddr4 start = Some a" "1 \<le> base" "base + 2 \<le> 65535"
    and loop: "haMemberLoop name (prefixMasked pfx) base (map (defaultHAMember label) [1, 2, 3]) 0 (Some a) = Inr members"
    using assms by (auto simp: buildHAMembers_def haMemberCount_def split: option.splits if_splits)
  let ?p = "prefixMasked pfx" and ?m = "defaultHAMember label"
  let ?built = "\<lambda>i a. (?m (i + 1))\<lparr>hm_ID := i + 1, hm_NodeName := orDefault (hm_NodeName (?m (i + 1))) (''apc-'' @ name @ ''-'' @ itoa (i + 1)),
     hm_StableIP := addrString a, hm_MAC := ''02:ac:96:00:00:'' @ hex2 (i + 1), hm_HostAPIPort := base + i\<rparr>"
  have built: "?built i (a + of_int i) = \<lparr>hm_ID = i + 1, hm_NodeName = defaultHANodeName label (i + 1),
     hm_StableIP = addrString (a + of_int i), hm_MAC = ''02:ac:96:00:00:'' @ hex2 (i + 1), hm_HostAPIPort = base + i\<rparr>" for i
    by (simp add: defaultHAMember_def orDefault_def defaultHANodeName_def)
  have "haMemberLoop name ?p base [?m 1, ?m 2, ?m 3] 0 (Some a) = Inr members" using loop by simp
  then obtain ms1 where 1: "usableServer ?p a" "haMemberLoop name ?p base [?m 2, ?m 3] 1 (Some (a + 1)) = Inr ms1" "members = ?built 0 a # ms1"
    by (rule haMemberLoop_step) simp
  from 1(2) obtain ms2 where 2: "usableServer ?p (a + 1)" "haMemberLoop name ?p base [?m 3] 2 (Some (a + 2)) = Inr ms2" "ms1 = ?built 1 (a + 1) # ms2"
    by (rule haMemberLoop_step) (simp add: add.assoc)
  from 2(2) obtain ms3 where 3: "usableServer ?p (a + 2)" "haMemberLoop name ?p base [] 3 (Some (a + 3)) = Inr ms3" "ms2 = ?built 2 (a + 2) # ms3"
    by (rule haMemberLoop_step) (simp add: add.assoc)
  have "members = consecutiveMembers label a base"
    using built [of 0] built [of 1] built [of 2] 1(3) 2(3) 3(2,3) by (simp add: consecutiveMembers_def)
  then show thesis by (rule that [OF inputs _ 1(1) 2(1) 3(1)])
qed

section \<open>Their normalization\<close>

lemma hex2_digits: "hex2 1 = ''01''" "hex2 2 = ''02''" "hex2 3 = ''03''"
  by code_simp+

lemma consecutive_macs:
  "localUnicastMAC ''02:ac:96:00:00:01''" "localUnicastMAC ''02:ac:96:00:00:02''" "localUnicastMAC ''02:ac:96:00:00:03''"
  "toLower ''02:ac:96:00:00:01'' = ''02:ac:96:00:00:01''" "toLower ''02:ac:96:00:00:02'' = ''02:ac:96:00:00:02''"
  "toLower ''02:ac:96:00:00:03'' = ''02:ac:96:00:00:03''"
  by code_simp+

lemma defaultHANodeName_inject: "defaultHANodeName name i = defaultHANodeName name j \<longleftrightarrow> i = j"
  by (simp add: defaultHANodeName_def itoa_inject)

lemma defaultHANodeName_given: "orDefault (defaultHANodeName name i) d = defaultHANodeName name i"
  by (simp add: defaultHANodeName_def orDefault_def)

text \<open>One member of the three, when none of its values has been seen.\<close>

lemma normalize_built:
  assumes "usableServer pfx a" "1 \<le> i" "i \<le> 3" "1 \<le> port" "port \<le> 65535"
    and "i \<notin> set (seenIDs seen)" "defaultHANodeName name i \<notin> set (seenNodes seen)" "a \<notin> set (seenIPs seen)"
    "mac \<notin> set (seenMACs seen)" "port \<notin> set (seenPorts seen)" "localUnicastMAC mac" "toLower mac = mac"
  shows "normalizeHAMember n pfx seen \<lparr>hm_ID = i, hm_NodeName = defaultHANodeName name i, hm_StableIP = addrString a, hm_MAC = mac, hm_HostAPIPort = port\<rparr> =
    (if \<not> dnsLabel (defaultHANodeName name i) then Inl (Msg ''HA node names must be unique lowercase DNS labels'')
     else if a = fst pfx + 1 then Inl (Msg ''HA member stable IP must be a unique usable address'')
     else Inr (\<lparr>hm_ID = i, hm_NodeName = defaultHANodeName name i, hm_StableIP = addrString a, hm_MAC = mac, hm_HostAPIPort = port\<rparr>,
       \<lparr>seenIDs = i # seenIDs seen, seenNodes = defaultHANodeName name i # seenNodes seen, seenIPs = a # seenIPs seen,
        seenMACs = mac # seenMACs seen, seenPorts = port # seenPorts seen\<rparr>))"
  using assms usableServer_stable [OF assms(1)]
  by (simp add: normalizeHAMember_def haMemberCount_def defaultHANodeName_given Let_def)

lemma consecutive_normal:
  assumes "usableServer pfx a" "usableServer pfx (a + 1)" "usableServer pfx (a + 2)" "1 \<le> base" "base + 2 \<le> 65535"
  shows "(normalizeHAMembers n pfx noneSeen (consecutiveMembers name a base) = Inr (consecutiveMembers name a base)) =
    (a \<noteq> fst pfx + 1 \<and> list_all (\<lambda>m. dnsLabel (hm_NodeName m)) (consecutiveMembers name a base))"
proof -
  have others: "a + 1 \<noteq> fst pfx + 1" "a + 2 \<noteq> fst pfx + 1"
    using assms(1,2) by (auto simp: usableServer_def add.commute add.left_commute)
  show ?thesis
    using assms others
    by (auto simp: consecutiveMembers_def normalize_built noneSeen_def hex2_digits consecutive_macs defaultHANodeName_inject)
qed

lemma DefaultHAConfig_members:
  "DefaultHAConfig H name = Inr config \<Longrightarrow> hc_Members config = map (defaultHAMember (hc_Name config)) [1, 2, 3]"
  by (auto simp: DefaultHAConfig_def Let_def tryS_eq_Inr split: if_splits)

text \<open>
  C38: the flags of \<open>apc cluster ha create\<close> give three servers 1, 2 and 3 with consecutive addresses from the one asked for, all inside the
  subnet, and consecutive ports, all valid.  The normalization that follows accepts these members as they are, except when the first
  address is the subnet's gateway or a node's name is no DNS label, which a long cluster name leads to.
\<close>

theorem ha_create_members:
  "case haConfigForCreate H name options of Inl _ \<Rightarrow> True
    | Inr config \<Rightarrow> \<exists>pfx a. parsePrefix4 (co_subnet options) = Some pfx \<and> parseAddr4 (co_stableIP options) = Some a
        \<and> hc_Members config = consecutiveMembers (hc_Name config) a (co_apiPortBase options)
        \<and> list_all (\<lambda>m. 1 \<le> hm_HostAPIPort m \<and> hm_HostAPIPort m \<le> 65535) (hc_Members config)
        \<and> list_all (prefixContains pfx) [a, a + 1, a + 2]
        \<and> (normalizeHAMembers (hc_Name config) (prefixMasked pfx) noneSeen (hc_Members config) = Inr (hc_Members config)) =
           (a \<noteq> fst (prefixMasked pfx) + 1 \<and> list_all (\<lambda>m. dnsLabel (hm_NodeName m)) (hc_Members config))"
proof (cases "haConfigForCreate H name options")
  case (Inr config)
  then obtain config0 members where c: "DefaultHAConfig H name = Inr config0"
      "buildHAMembers name (hc_Members config0) (co_subnet options) (co_stableIP options) (co_apiPortBase options) = Inr members"
      "hc_Members config = members" "hc_Name config = hc_Name config0"
    by (auto simp: haConfigForCreate_def Let_def tryS_eq_Inr)
  from c(2) [unfolded DefaultHAConfig_members [OF c(1)]] obtain pfx a where m: "parsePrefix4 (co_subnet options) = Some pfx"
      "parseAddr4 (co_stableIP options) = Some a" "1 \<le> co_apiPortBase options" "co_apiPortBase options + 2 \<le> 65535"
      "members = consecutiveMembers (hc_Name config0) a (co_apiPortBase options)"
      "usableServer (prefixMasked pfx) a" "usableServer (prefixMasked pfx) (a + 1)" "usableServer (prefixMasked pfx) (a + 2)"
    by (rule buildHAMembers_Inr)
  have "list_all (\<lambda>m. 1 \<le> hm_HostAPIPort m \<and> hm_HostAPIPort m \<le> 65535) members"
    using m(3,4) by (simp add: m(5) consecutiveMembers_def)
  moreover have "list_all (prefixContains pfx) [a, a + 1, a + 2]"
    using m(6-8) by (simp add: usableServer_def)
  ultimately show ?thesis
    using consecutive_normal [OF m(6-8,3,4)] m(1,2,5) by (simp add: Inr c(3,4))
qed simp

end
