(* ===== verification/Commands.thy ===== *)
theory Commands
  imports HACli Passthrough Diagnostics Doctor Images Overlay Backups Snapshot Recover FirewallInstall Unattended
begin

text \<open>
  The handlers of the commands (\<open>cli/cli.go\<close>, \<open>cli/ha.go\<close>, \<open>cli/ha_operations.go\<close>): the flags and arguments a handler gets, the order of its
  checks and calls, and what it prints.  Parsing the command line is cobra's; a flag is an argument of its handler.  A table or an
  object in JSON or YAML is printed by a library and stands here for its format.
\<close>

section \<open>What is printed\<close>

datatype printed = Out string | Err string | Rendered string

definition line :: "string \<Rightarrow> printed" where
  "line s = Out (s @ [CHR 0x0A])"

definition errLine :: "string \<Rightarrow> printed" where
  "errLine s = Err (s @ [CHR 0x0A])"

type_synonym 'x handler = "('x, printed list) op"

definition refuse :: "string \<Rightarrow> 'x handler" where
  "refuse s = errA (Msg s)"

definition printObject :: "string \<Rightarrow> gerror + printed list" where
  "printObject format = (if format \<in> {[], ''yaml'', ''json''} then Inr [Rendered format] else Inl (Msg ''unsupported output format''))"

text \<open>A table for the formats in \<open>tables\<close>, an object for those in \<open>objects\<close>, an error for any other.\<close>

definition printAs :: "string list \<Rightarrow> string list \<Rightarrow> string \<Rightarrow> gerror + printed list" where
  "printAs tables objects format = (if format \<in> set tables then Inr [Rendered ''table'']
     else if format \<in> set objects then printObject format
     else Inl (Msg ''unsupported output format''))"

definition byteSize :: "int \<Rightarrow> string" where
  "byteSize v =
     (if v \<ge> 2 ^ 30 then (let tenths = roundDiv (v * 10) (2 ^ 30) in itoa (tenths div 10) @ ''.'' @ itoa (tenths mod 10) @ ''Gi'')
      else (if v < 0 then ''-'' else []) @ itoa (roundDiv \<bar>v\<bar> (2 ^ 20)) @ ''Mi'')"

section \<open>The selected cluster\<close>

record 'x cli =
  cl_cluster :: string
  cl_tools :: "'x toolHost"
  cl_executable :: "'x \<Rightarrow> gerror + string"
  cl_launch :: "gerror + 'x launchManager"
  cl_pf :: "'x pfHost"
  cl_images :: "'x imageHost"
  cl_overlay :: "'x overlayHost"
  cl_doctor :: "'x doctorHost"
  cl_dialTCP :: "'x \<Rightarrow> string \<Rightarrow> gerror option \<times> 'x"

definition clusterName :: "'x env \<Rightarrow> 'x cli \<Rightarrow> string list \<Rightarrow> ('x, string) op" where
  "clusterName E C arguments =
     (if arguments \<noteq> [] \<and> hd arguments \<noteq> [] then retA (hd arguments)
      else if cl_cluster C \<noteq> [] then retA (cl_cluster C)
      else if th_getenv (cl_tools C) ''APC_CLUSTER'' \<noteq> [] then retA (th_getenv (cl_tools C) ''APC_CLUSTER'')
      else catchA (CurrentCluster E) (\<lambda>r. case r of Inr current \<Rightarrow> retA current | Inl _ \<Rightarrow> retA ''spike''))"

section \<open>Clusters of three servers\<close>

definition readyServers :: "HAState \<Rightarrow> string" where
  "readyServers state = ''('' @ itoa (st_ReadyMembers state) @ ''/'' @ itoa haMemberCount @ '' servers)''"

definition haCreateHandler :: "'x env \<Rightarrow> haCreateOptions \<Rightarrow> string \<Rightarrow> 'x handler" where
  "haCreateHandler E options name =
     tryA (liftA (haConfigForCreate (e_host E) name options)) (\<lambda>desired.
     tryA (CreateHA E desired) (\<lambda>state.
     retA [line (''cluster.apc.dev/'' @ st_Name state @ '' ready '' @ readyServers state), line (''kubeconfig: '' @ st_Kubeconfig state)]))"

definition haStatusHandler :: "'x env \<Rightarrow> 'x cli \<Rightarrow> string \<Rightarrow> string list \<Rightarrow> 'x handler" where
  "haStatusHandler E C format arguments = tryA (clusterName E C arguments) (\<lambda>name.
     tryA (StatusHA E name) (\<lambda>_. liftA (printAs [[], ''wide''] [''json'', ''yaml''] format)))"

definition haStartHandler :: "'x env \<Rightarrow> 'x cli \<Rightarrow> int \<Rightarrow> string list \<Rightarrow> 'x handler" where
  "haStartHandler E C timeout arguments = tryA (clusterName E C arguments) (\<lambda>name.
     tryA (StartHA E name timeout) (\<lambda>state. retA [line (''cluster.apc.dev/'' @ st_Name state @ '' ready '' @ readyServers state)]))"

definition haStopHandler :: "'x env \<Rightarrow> 'x cli \<Rightarrow> string list \<Rightarrow> 'x handler" where
  "haStopHandler E C arguments = tryA (clusterName E C arguments) (\<lambda>name.
     tryA (StopHA E name) (\<lambda>_. retA [line (''cluster.apc.dev/'' @ name @ '' stopped'')]))"

definition haDeleteHandler :: "'x env \<Rightarrow> 'x cli \<Rightarrow> bool \<Rightarrow> bool \<Rightarrow> string list \<Rightarrow> 'x handler" where
  "haDeleteHandler E C confirmed keepData arguments =
     (if \<not> confirmed then refuse ''refusing destructive HA cluster deletion without --yes''
      else tryA (clusterName E C arguments) (\<lambda>name. tryA (DeleteHA E name keepData) (\<lambda>_.
        retA [line (''cluster.apc.dev/'' @ name @ (if keepData then '' VMs removed; data retained'' else '' deleted''))])))"

definition haSnapshotHandler :: "'x env \<Rightarrow> 'x cli \<Rightarrow> string \<Rightarrow> string \<Rightarrow> string list \<Rightarrow> 'x handler" where
  "haSnapshotHandler E C output format arguments = tryA (clusterName E C arguments) (\<lambda>name.
     tryA (SnapshotHA E name output) (\<lambda>res.
     if format \<in> {[], ''wide''} then retA (
         [line (''snapshot.apc.dev created: '' @ sr_Path res @ '' ('' @ itoa (sr_Bytes res) @ '' bytes, data-sha256:'' @ sr_DataSHA256 res
            @ '', manifest-sha256:'' @ sr_ManifestSHA256 res @ '')''),
          errLine ''warning: retain the manifest SHA-256 separately from the snapshot package; empty-host recovery requires both'']
         @ (if sr_Warning res \<noteq> [] then [errLine (''warning: '' @ sr_Warning res)] else []))
     else liftA (printAs [] [''json'', ''yaml''] format)))"

definition haRecoverHandler :: "'x env \<Rightarrow> 'x cli \<Rightarrow> bool \<Rightarrow> string \<Rightarrow> string \<Rightarrow> int \<Rightarrow> string list \<Rightarrow> 'x handler" where
  "haRecoverHandler E C confirmed input expectedManifestSHA256 timeout arguments =
     (if \<not> confirmed then refuse ''refusing destructive empty-host HA recovery without --yes''
      else tryA (clusterName E C arguments) (\<lambda>name. tryA (RecoverHA E name input expectedManifestSHA256 timeout) (\<lambda>state.
        retA [line (''cluster.apc.dev/'' @ st_Name state @ '' recovered and ready '' @ readyServers state)])))"

definition haRestoreHandler :: "'x env \<Rightarrow> 'x cli \<Rightarrow> bool \<Rightarrow> string \<Rightarrow> int \<Rightarrow> string list \<Rightarrow> 'x handler" where
  "haRestoreHandler E C confirmed input timeout arguments =
     (if \<not> confirmed then refuse ''refusing destructive HA restore without --yes''
      else tryA (clusterName E C arguments) (\<lambda>name. tryA (RestoreHA E name input timeout) (\<lambda>state.
        retA [line (''cluster.apc.dev/'' @ st_Name state @ '' restored and ready '' @ readyServers state)])))"

datatype memberOperation = StopMember | StartMember | RestartMember

definition haMemberHandler :: "'x env \<Rightarrow> 'x cli \<Rightarrow> memberOperation \<Rightarrow> bool \<Rightarrow> int \<Rightarrow> string list \<Rightarrow> 'x handler" where
  "haMemberHandler E C operation confirmed timeout arguments = (case atoi (hd arguments) of
     None \<Rightarrow> refuse ''HA member must be numeric (1, 2, or 3)''
   | Some memberID \<Rightarrow> tryA (clusterName E C (tl arguments)) (\<lambda>name.
       if operation \<noteq> StartMember \<and> \<not> confirmed then refuse ''refusing HA member operation without --yes''
       else tryA (case operation of
           StopMember \<Rightarrow> StopHAMember E name memberID timeout
         | StartMember \<Rightarrow> StartHAMember E name memberID timeout
         | RestartMember \<Rightarrow> RestartHAMember E name memberID timeout) (\<lambda>state.
         retA [line (''member.apc.dev/'' @ name @ ''-'' @ itoa memberID @ '' ''
           @ (case operation of StopMember \<Rightarrow> ''stopped'' | StartMember \<Rightarrow> ''started'' | RestartMember \<Rightarrow> ''restarted'')
           @ '' (cluster ready '' @ itoa (st_ReadyMembers state) @ ''/'' @ itoa haMemberCount @ '')'')])))"

section \<open>Single clusters\<close>

definition networkPolicyHandler :: "'x env \<Rightarrow> 'x cli \<Rightarrow> bool \<Rightarrow> int \<Rightarrow> string list \<Rightarrow> 'x handler" where
  "networkPolicyHandler E C confirmed timeout arguments =
     (if \<not> confirmed then refuse ''refusing server network reconfiguration without --yes''
      else if hd arguments \<noteq> ''enable'' \<and> hd arguments \<noteq> ''disable'' then refuse ''network-policy action must be enable or disable''
      else let enabled = (hd arguments = ''enable'') in
        tryA (clusterName E C (if length arguments = 2 then tl arguments else [])) (\<lambda>name.
        tryA (SetNetworkPolicy E name enabled timeout) (\<lambda>state.
        retA [line (''networkpolicy.apc.dev/'' @ sn_Name state @ '' '' @ (if enabled then ''enabled'' else ''disabled'')
          @ ''; node/'' @ sn_NodeName state @ '' Ready'')])))"

definition upgradeHandler :: "'x env \<Rightarrow> 'x cli \<Rightarrow> bool \<Rightarrow> string \<Rightarrow> string \<Rightarrow> string list \<Rightarrow> 'x handler" where
  "upgradeHandler E C confirmed img backupPath arguments =
     (if \<not> confirmed then refuse ''refusing cluster upgrade without --yes''
      else tryA (clusterName E C arguments) (\<lambda>name. tryA (UpgradeServer E name img backupPath) (\<lambda>res.
        let state = ur_State res; stateName = (case state of Some s \<Rightarrow> sn_Name s | None \<Rightarrow> []);
            version = (case state of Some s \<Rightarrow> sn_K3sVersion s | None \<Rightarrow> []) in
        if \<not> ur_Changed res then retA [line (''cluster.apc.dev/'' @ stateName @ '' already uses '' @ ur_ToImage res)]
        else retA [line (''cluster.apc.dev/'' @ stateName @ '' upgraded and Ready ('' @ version @ '')''), line (''rollback backup: '' @ ur_BackupPath res)])))"

definition backupHandler :: "'x env \<Rightarrow> 'x cli \<Rightarrow> string \<Rightarrow> string list \<Rightarrow> 'x handler" where
  "backupHandler E C output arguments = tryA (clusterName E C arguments) (\<lambda>name. tryA (BackupServer E name output) (\<lambda>res.
     retA [line (''backup.apc.dev created at '' @ br_Path res @ '' ('' @ byteSize (br_Bytes res) @ '', sha256:'' @ br_DataSHA256 res @ '')'')]))"

definition restoreServerHandler :: "'x env \<Rightarrow> 'x cli \<Rightarrow> bool \<Rightarrow> string \<Rightarrow> string list \<Rightarrow> 'x handler" where
  "restoreServerHandler E C confirmed input arguments =
     (if \<not> confirmed then refuse ''refusing destructive cluster restore without --yes''
      else tryA (clusterName E C arguments) (\<lambda>name. tryA (RestoreServer E name input) (\<lambda>state.
        retA [line (''cluster.apc.dev/'' @ sn_Name state @ '' restored and Ready ('' @ sn_K3sVersion state @ '')'')])))"

definition deleteHandler :: "'x env \<Rightarrow> 'x cli \<Rightarrow> bool \<Rightarrow> bool \<Rightarrow> string list \<Rightarrow> 'x handler" where
  "deleteHandler E C confirmed keepData arguments =
     (if \<not> confirmed then refuse ''refusing destructive cluster deletion without --yes''
      else tryA (clusterName E C arguments) (\<lambda>name. tryA (DeleteServer E name keepData) (\<lambda>_.
        retA [line (''cluster.apc.dev/'' @ name @ (if keepData then '' VM removed; data retained'' else '' deleted''))])))"

text \<open>A diagnosis with a failure prints its report and then fails.\<close>

definition diagnoseHandler :: "'x env \<Rightarrow> 'x cli \<Rightarrow> DiagnoseOptions \<Rightarrow> string \<Rightarrow> string list \<Rightarrow> ('x, printed list \<times> gerror option) op" where
  "diagnoseHandler E C options format arguments = tryA (clusterName E C arguments) (\<lambda>name.
     tryA (Diagnose E (cl_dialTCP C) name options) (\<lambda>report.
     tryA (liftA (printAs [[], ''text''] [''json'', ''yaml''] format)) (\<lambda>output.
     retA (output, if 0 < FailureCount report then Some (Msg (itoa (int (FailureCount report)) @ '' cluster checks failed'')) else None))))"

text \<open>The path is printed as \<open>%q\<close> prints it; it is plain ASCII without quotes and backslashes.\<close>

definition createHandler :: "'x env \<Rightarrow> Config \<Rightarrow> string list \<Rightarrow> 'x handler" where
  "createHandler E flags arguments =
     tryA (Create E (if length arguments = 1 then flags\<lparr>cf_Name := hd arguments\<rparr> else flags)) (\<lambda>state.
     retA [line (''cluster.apc.dev/'' @ sn_Name state @ '' ready''),
           line (''node/'' @ sn_NodeName state @ '' Ready ('' @ sn_K3sVersion state @ '')''),
           line (''kubeconfig: '' @ sn_Kubeconfig state), line (''export KUBECONFIG='' @ quoted (sn_Kubeconfig state))])"

definition statusHandler :: "'x env \<Rightarrow> 'x cli \<Rightarrow> string \<Rightarrow> string list \<Rightarrow> 'x handler" where
  "statusHandler E C format arguments = tryA (clusterName E C arguments) (\<lambda>name. tryA (StatusNode E name) (\<lambda>_.
     liftA (printAs [[], ''wide''] [''json'', ''yaml''] format)))"

definition startHandler :: "'x env \<Rightarrow> 'x cli \<Rightarrow> string list \<Rightarrow> 'x handler" where
  "startHandler E C arguments = tryA (clusterName E C arguments) (\<lambda>name. tryA (Start E name) (\<lambda>state.
     retA [line (''cluster.apc.dev/'' @ sn_Name state @ '' ready'')]))"

definition stopHandler :: "'x env \<Rightarrow> 'x cli \<Rightarrow> string list \<Rightarrow> 'x handler" where
  "stopHandler E C arguments = tryA (clusterName E C arguments) (\<lambda>name. tryA (Stop E name) (\<lambda>_.
     retA [line (''cluster.apc.dev/'' @ name @ '' stopped'')]))"

definition writeJoinTokenHandler :: "'x env \<Rightarrow> 'x cli \<Rightarrow> string \<Rightarrow> string list \<Rightarrow> 'x handler" where
  "writeJoinTokenHandler E C outputPath arguments = tryA (clusterName E C arguments) (\<lambda>name. tryA (WriteAgentToken E name outputPath) (\<lambda>path.
     retA [line (''join token written to '' @ path @ '' (mode 0600)'')]))"

section \<open>Agents\<close>

definition nodeRemoveHandler :: "'x env \<Rightarrow> 'x cli \<Rightarrow> bool \<Rightarrow> bool \<Rightarrow> string list \<Rightarrow> 'x handler" where
  "nodeRemoveHandler E C confirmed keepData arguments =
     (if \<not> confirmed then refuse ''refusing destructive node removal without --yes''
      else tryA (clusterName E C arguments) (\<lambda>name. tryA (DeleteAgent E name keepData) (\<lambda>_.
        retA [line (''node.apc.dev/'' @ name @ (if keepData then '' VM removed; data retained'' else '' removed''))])))"

definition connected :: "State \<Rightarrow> printed list" where
  "connected state = [line (''node.apc.dev/'' @ sn_NodeName state @ '' connected ('' @ sn_RuntimeState state @ '')'')]"

definition nodeStartHandler :: "'x env \<Rightarrow> 'x cli \<Rightarrow> int \<Rightarrow> string list \<Rightarrow> 'x handler" where
  "nodeStartHandler E C timeout arguments = tryA (clusterName E C arguments) (\<lambda>name. tryA (StartAgent E name timeout) (\<lambda>state. retA (connected state)))"

definition nodeStopHandler :: "'x env \<Rightarrow> 'x cli \<Rightarrow> string list \<Rightarrow> 'x handler" where
  "nodeStopHandler E C arguments = tryA (clusterName E C arguments) (\<lambda>name. tryA (StopAgent E name) (\<lambda>_.
     retA [line (''node.apc.dev/'' @ name @ '' stopped'')]))"

definition nodeJoinHandler :: "'x env \<Rightarrow> 'x cli \<Rightarrow> AgentConfig \<Rightarrow> string list \<Rightarrow> 'x handler" where
  "nodeJoinHandler E C flags arguments = tryA (clusterName E C arguments) (\<lambda>name.
     tryA (Join E (flags\<lparr>ag_Name := name\<rparr>)) (\<lambda>state. retA (connected state)))"

definition nodeStatusHandler :: "'x env \<Rightarrow> 'x cli \<Rightarrow> string list \<Rightarrow> 'x handler" where
  "nodeStatusHandler E C arguments = tryA (clusterName E C arguments) (\<lambda>name. tryA (AgentStatus E name) (\<lambda>_. retA [Rendered ''table'']))"

section \<open>The host\<close>

definition overlayCheckHandler :: "'x env \<Rightarrow> 'x cli \<Rightarrow> OverlayConfig \<Rightarrow> string \<Rightarrow> 'x handler" where
  "overlayCheckHandler E C flags format = tryA (CheckOverlay E (cl_overlay C) flags) (\<lambda>_.
     liftA (printAs [[], ''wide''] [''json'', ''yaml''] format))"

definition firewallStatusHandler :: "'x env \<Rightarrow> 'x cli \<Rightarrow> string \<Rightarrow> 'x handler" where
  "firewallStatusHandler E C format = tryA (clusterName E C []) (\<lambda>name. tryA (VerifyPF E name) (\<lambda>_.
     liftA (printAs [[], ''wide''] [''json'', ''yaml''] format)))"

text \<open>The program itself, when no other executable is named.\<close>

definition executableOr :: "'x cli \<Rightarrow> string \<Rightarrow> ('x, string) op" where
  "executableOr C named = (if named \<noteq> [] then retA named
     else wrapA ''resolve APC executable'' (tryA (askExt (cl_executable C)) liftA))"

definition firewallInstallHandler :: "'x env \<Rightarrow> 'x cli \<Rightarrow> bool \<Rightarrow> PFConfig \<Rightarrow> string \<Rightarrow> 'x handler" where
  "firewallInstallHandler E C confirmed flags program =
     (if \<not> confirmed then refuse ''refusing privileged firewall installation without --yes''
      else tryA (clusterName E C []) (\<lambda>name. tryA (executableOr C program) (\<lambda>executable.
        tryA (InstallPF E (cl_pf C) (flags\<lparr>pf_Cluster := name\<rparr>) executable) (\<lambda>path.
        retA [line (''firewall.apc.dev/'' @ name @ '' installed at '' @ path)]))))"

definition firewallUninstallHandler :: "'x env \<Rightarrow> 'x cli \<Rightarrow> bool \<Rightarrow> 'x handler" where
  "firewallUninstallHandler E C confirmed =
     (if \<not> confirmed then refuse ''refusing privileged firewall removal without --yes''
      else tryA (clusterName E C []) (\<lambda>name. tryA (UninstallPF E name) (\<lambda>_. retA [line (''firewall.apc.dev/'' @ name @ '' uninstalled'')])))"

definition firewallRenderHandler :: "'x env \<Rightarrow> 'x cli \<Rightarrow> PFConfig \<Rightarrow> 'x handler" where
  "firewallRenderHandler E C flags = tryA (clusterName E C []) (\<lambda>name.
     tryA (RenderPF E (cl_pf C) (flags\<lparr>pf_Cluster := name\<rparr>)) (\<lambda>rules.
     tryA (ValidatePF E rules) (\<lambda>_. retA [Out rules])))"

definition firewallApplyHandler :: "'x env \<Rightarrow> 'x cli \<Rightarrow> bool \<Rightarrow> PFConfig \<Rightarrow> 'x handler" where
  "firewallApplyHandler E C confirmed flags =
     (if \<not> confirmed then refuse ''refusing host firewall reconfiguration without --yes''
      else tryA (clusterName E C []) (\<lambda>name. tryA (ApplyPF E (cl_pf C) (flags\<lparr>pf_Cluster := name\<rparr>)) (\<lambda>_.
        retA [line (''firewall.apc.dev/'' @ name @ '' loaded for '' @ pf_Role flags @ '' peers'')])))"

definition firewallRemoveHandler :: "'x env \<Rightarrow> 'x cli \<Rightarrow> bool \<Rightarrow> 'x handler" where
  "firewallRemoveHandler E C confirmed =
     (if \<not> confirmed then refuse ''refusing host firewall removal without --yes''
      else tryA (clusterName E C []) (\<lambda>name. tryA (RemovePF E name) (\<lambda>_. retA [line (''firewall.apc.dev/'' @ name @ '' removed'')])))"

definition serviceConfig :: "'x env \<Rightarrow> 'x cli \<Rightarrow> LaunchConfig \<Rightarrow> ('x, LaunchConfig) op" where
  "serviceConfig E C flags = tryA (clusterName E C []) (\<lambda>name. tryA (executableOr C (lc_Executable flags)) (\<lambda>executable.
     retA (flags\<lparr>lc_Cluster := name, lc_Executable := executable\<rparr>)))"

definition systemInstallHandler :: "'x env \<Rightarrow> 'x cli \<Rightarrow> LaunchConfig \<Rightarrow> bool \<Rightarrow> bool \<Rightarrow> string \<Rightarrow> 'x handler" where
  "systemInstallHandler E C flags unattended confirmed targetUser =
     tryA (serviceConfig E C flags) (\<lambda>config. tryA (liftA (cl_launch C)) (\<lambda>manager.
     if unattended then
       (if \<not> confirmed then refuse ''refusing privileged unattended service installation without --yes''
        else if targetUser = [] then refuse ''--user is required with --unattended''
        else tryA (InstallUnattended E manager config targetUser) (\<lambda>path.
          retA [line (''launchdaemon.apc.dev/'' @ lc_Role config @ ''-'' @ lc_Cluster config @ '' installed at '' @ path)]))
     else if targetUser \<noteq> [] \<or> confirmed then refuse ''--user and --yes require --unattended''
     else tryA (Install E manager config) (\<lambda>path.
       retA [line (''launchagent.apc.dev/'' @ lc_Role config @ ''-'' @ lc_Cluster config @ '' installed at '' @ path)])))"

definition systemUninstallHandler :: "'x env \<Rightarrow> 'x cli \<Rightarrow> LaunchConfig \<Rightarrow> bool \<Rightarrow> bool \<Rightarrow> string \<Rightarrow> 'x handler" where
  "systemUninstallHandler E C flags unattended confirmed targetUser =
     tryA (clusterName E C []) (\<lambda>name.
     if unattended \<and> \<not> confirmed then refuse ''refusing unattended LaunchDaemon removal without explicit confirmation''
     else tryA (executableOr C (lc_Executable flags)) (\<lambda>executable.
       let config = flags\<lparr>lc_Cluster := name, lc_Executable := executable\<rparr> in
       tryA (liftA (cl_launch C)) (\<lambda>manager.
       if unattended then
         (if targetUser = [] then refuse ''--user is required with --unattended''
          else tryA (UninstallUnattended E manager config targetUser confirmed) (\<lambda>_.
            retA [line (''launchdaemon.apc.dev/'' @ lc_Role config @ ''-'' @ lc_Cluster config @ '' removed'')]))
       else if targetUser \<noteq> [] \<or> confirmed then refuse ''--user and --yes require --unattended''
       else tryA (Uninstall E manager config) (\<lambda>_.
         retA [line (''launchagent.apc.dev/'' @ lc_Role config @ ''-'' @ lc_Cluster config @ '' removed'')]))))"

definition systemStatusHandler :: "'x env \<Rightarrow> 'x cli \<Rightarrow> LaunchConfig \<Rightarrow> bool \<Rightarrow> string \<Rightarrow> 'x handler" where
  "systemStatusHandler E C flags unattended targetUser =
     tryA (serviceConfig E C flags) (\<lambda>config. tryA (liftA (cl_launch C)) (\<lambda>manager.
     if unattended \<and> targetUser = [] then refuse ''--user is required with --unattended''
     else if \<not> unattended \<and> targetUser \<noteq> [] then refuse ''--user requires --unattended''
     else tryA (if unattended then StatusUnattended E manager config targetUser else serviceStatus E manager config) (\<lambda>status.
       retA [Out status])))"

section \<open>Images, checks and contexts\<close>

definition transferred :: "string \<Rightarrow> TransferResult \<Rightarrow> printed list" where
  "transferred verb res = [line (verb @ '' '' @ itoa (int (length (tr_Images res))) @ '' image(s), '' @ byteSize (tr_ArchiveBytes res)
     @ '' archive, '' @ itoa (int (length (tr_Targets res))) @ '' target(s)'')]"

definition imagePrefetchHandler :: "'x env \<Rightarrow> 'x cli \<Rightarrow> ImageOptions \<Rightarrow> string list \<Rightarrow> 'x handler" where
  "imagePrefetchHandler E C flags arguments = tryA (clusterName E C []) (\<lambda>name.
     tryA (Transfer E (cl_images C) (flags\<lparr>io_Cluster := name, io_Images := arguments\<rparr>)) (\<lambda>res. retA (transferred ''prefetched'' res)))"

definition imageSyncHandler :: "'x env \<Rightarrow> 'x cli \<Rightarrow> ImageOptions \<Rightarrow> string list \<Rightarrow> 'x handler" where
  "imageSyncHandler E C flags arguments =
     (if io_Peers flags = [] then refuse ''at least one --peer is required''
      else tryA (clusterName E C []) (\<lambda>name.
        tryA (Transfer E (cl_images C) (flags\<lparr>io_Cluster := name, io_Images := arguments\<rparr>)) (\<lambda>res. retA (transferred ''synced'' res))))"

definition doctorHandler :: "'x env \<Rightarrow> 'x cli \<Rightarrow> DoctorOptions \<Rightarrow> string \<Rightarrow> ('x, printed list \<times> gerror option) op" where
  "doctorHandler E C options format = tryA (doctorRun E (cl_doctor C) options) (\<lambda>report.
     if format \<notin> {[], ''text'', ''json''} then errA (Msg ''unsupported output format'')
     else retA ([Rendered format], if 0 < failedChecks report then Some (Msg (itoa (int (failedChecks report)) @ '' required checks failed'')) else None))"

definition kubeconfigPathHandler :: "'x env \<Rightarrow> 'x cli \<Rightarrow> string list \<Rightarrow> 'x handler" where
  "kubeconfigPathHandler E C arguments = tryA (clusterName E C arguments) (\<lambda>name. tryA (PrepareKubeconfig E name) (\<lambda>path. retA [line path]))"

definition useClusterHandler :: "'x env \<Rightarrow> string \<Rightarrow> 'x handler" where
  "useClusterHandler E name = tryA (SetCurrentCluster E name) (\<lambda>_. retA [line (''Switched to APC cluster '' @ quoted name @ ''.'')])"

definition currentClusterHandler :: "'x env \<Rightarrow> 'x handler" where
  "currentClusterHandler E = tryA (CurrentCluster E) (\<lambda>name. retA [line name])"

definition getClustersHandler :: "'x env \<Rightarrow> 'x handler" where
  "getClustersHandler E = tryA (ListClusters E) (\<lambda>names. catchA (CurrentCluster E) (\<lambda>_. retA [Rendered ''table'']))"

definition kubectlHandler :: "'x env \<Rightarrow> string list \<Rightarrow> ('x, printed list \<times> gerror option) op" where
  "kubectlHandler E args = (let arguments = (if hd (tl args) = ''--'' then tl (tl args) else tl args) in
     if arguments = [] then errA (Msg ''kubectl command is required'')
     else catchA (Kubectl E (hd args) arguments) (\<lambda>r. case r of
         Inl e \<Rightarrow> retA ([], Some (Wrap ''kubectl failed'' e))
       | Inr res \<Rightarrow> retA ((if docText (cr_stdout res) \<noteq> [] then [Out (docText (cr_stdout res))] else [])
             @ (if cr_stderr res \<noteq> [] then [Err (cr_stderr res)] else []),
           (case cr_err res of Some e \<Rightarrow> Some (Wrap ''kubectl failed'' e) | None \<Rightarrow> None))))"

end
