(* ===== verification/CommandsProps.thy ===== *)
theory CommandsProps
  imports Commands
begin

text \<open>
  The destructive commands without their confirmation, and the selected cluster.
\<close>

section \<open>Without confirmation\<close>

lemma reads_CurrentCluster: "reads (CurrentCluster E)"
  unfolding CurrentCluster_def Let_def by (intro readonly reads_world)

lemma reads_clusterName: "reads (clusterName E C arguments)"
  unfolding clusterName_def by (intro readonly reads_world reads_CurrentCluster)

lemma reads_executableOr: "reads (executableOr C program)"
  unfolding executableOr_def by (intro readonly reads_world)

lemma reads_serviceConfig: "reads (serviceConfig E C flags)"
  unfolding serviceConfig_def by (intro readonly reads_world reads_clusterName reads_executableOr)

definition refuses :: "'x world \<Rightarrow> 'x handler \<Rightarrow> bool" where
  "refuses w h \<longleftrightarrow> \<not> isOk (fst (h w)) \<and> snd (h w) = w"

lemma refuses_refuse: "refuses w (refuse s)"
  by (simp add: refuses_def refuse_def errA_def)

lemma refuses_after: "reads m \<Longrightarrow> (\<And>x. refuses w (f x)) \<Longrightarrow> refuses w (tryA m f)"
proof -
  assume m: "reads m" and f: "\<And>x. refuses w (f x)"
  obtain r where r: "m w = (r, w)" using m by (metis prod.collapse reads_def)
  show ?thesis using f by (cases r) (simp_all add: refuses_def tryA_apply r)
qed

lemma reads_liftA: "reads (liftA r)"
  by (simp add: reads_def liftA_def)

text \<open>
  C39: without \<open>--yes\<close> no command that deletes, restores, recovers, upgrades or reconfigures a cluster, stops one of its servers, removes a
  node, or changes the firewall or a system service of the host does anything: it fails and leaves the world, with its files and the
  commands issued so far, as it was.
\<close>

theorem unconfirmed_commands_do_nothing:
  "list_all (refuses w)
     [haDeleteHandler E C False keepData arguments, haRecoverHandler E C False input digest timeout arguments,
      haRestoreHandler E C False input timeout arguments, haMemberHandler E C StopMember False timeout arguments,
      haMemberHandler E C RestartMember False timeout arguments,
      deleteHandler E C False keepData arguments, restoreServerHandler E C False input arguments, upgradeHandler E C False img backupPath arguments,
      networkPolicyHandler E C False timeout arguments, nodeRemoveHandler E C False keepData arguments,
      firewallInstallHandler E C False rules program, firewallUninstallHandler E C False, firewallApplyHandler E C False rules,
      firewallRemoveHandler E C False, systemInstallHandler E C service True False user, systemUninstallHandler E C service True False user]"
proof -
  have member: "operation \<noteq> StartMember \<Longrightarrow> refuses w (haMemberHandler E C operation False timeout arguments)" for operation
    by (auto simp: haMemberHandler_def intro: refuses_refuse refuses_after [OF reads_clusterName] split: option.split)
  have service: "refuses w (systemInstallHandler E C service True False user)" "refuses w (systemUninstallHandler E C service True False user)"
    by (auto simp: systemInstallHandler_def systemUninstallHandler_def
        intro!: refuses_refuse refuses_after [OF reads_serviceConfig] refuses_after [OF reads_clusterName] refuses_after [OF reads_liftA])
  show ?thesis
    using member service
    by (simp add: haDeleteHandler_def haRecoverHandler_def haRestoreHandler_def deleteHandler_def restoreServerHandler_def upgradeHandler_def
        networkPolicyHandler_def nodeRemoveHandler_def firewallInstallHandler_def firewallUninstallHandler_def firewallApplyHandler_def
        firewallRemoveHandler_def refuses_refuse)
qed

section \<open>The selected cluster\<close>

lemma trimSpace_label: "dnsLabel name \<Longrightarrow> trimSpace (name @ [CHR 0x0A]) = name"
proof -
  assume label: "dnsLabel name"
  have space: "\<not> isSpace c" if "labelChar c" for c
    using that by (auto simp: labelChar_def isLowerAlpha_def isDigit_def isSpace_def)
  obtain c cs where name: "name = c # cs" using label by (cases name) (auto simp: dnsLabel_def)
  obtain ds d where rev: "name = ds @ [d]" using label by (cases name rule: rev_cases) (auto simp: dnsLabel_def)
  have "labelChar (hd name)" "labelChar (last name)" using label by (simp_all add: dnsLabel_def)
  then have "\<not> isSpace (hd name)" "\<not> isSpace (last name)" using space by blast+
  moreover have "hd name = c" by (simp add: name)
  moreover have "last name = d" by (simp add: rev)
  ultimately have ends: "\<not> isSpace c" "\<not> isSpace d" by simp_all
  have nl: "isSpace (CHR 0x0A)" by code_simp
  have "trimLeft (name @ [CHR 0x0A]) = name @ [CHR 0x0A]" using ends(1) by (simp add: name trimLeft_def)
  then have "trimSpace (name @ [CHR 0x0A]) = rev (trimLeft (CHR 0x0A # rev name))" by (simp add: trimSpace_def)
  also have "\<dots> = name" using ends(2) nl by (simp add: rev trimLeft_def)
  finally show ?thesis .
qed

lemma writePrivateFile_file:
  "writePrivateFile E path doc w = (Inr u, w') \<Longrightarrow> w_ext w' = w_ext w \<and> (\<exists>i. w_fs w' path = Some \<lparr>fn_info = i, fn_doc = doc\<rparr>)"
  by (auto simp: writePrivateFile_def tryA_apply catchA_apply writeStepA_def placeFile_def updA_apply split: option.splits)

lemma SetCurrentCluster_file:
  assumes "SetCurrentCluster E name w = (Inr u, w')"
  obtains path i where "dnsLabel name" "currentClusterPath (e_host E) = Inr path"
    "w_fs w' path = Some \<lparr>fn_info = i, fn_doc = Text (name @ [CHR 0x0A])\<rparr>"
proof -
  have label: "dnsLabel name" using assms by (auto simp: SetCurrentCluster_def errA_def split: if_splits)
  have "\<exists>path i. currentClusterPath (e_host E) = Inr path \<and> w_fs w' path = Some \<lparr>fn_info = i, fn_doc = Text (name @ [CHR 0x0A])\<rparr>"
    using assms label unfolding SetCurrentCluster_def
    by (auto simp: wrapA_apply liftA_def dest!: writePrivateFile_file elim!: tryA_InrE tryWrapA_InrE split: if_splits sum.splits prod.splits)
  then show thesis using label that by blast
qed

text \<open>
  C40: \<open>apc config use-cluster\<close> selects: once it has succeeded for a name, that name is the one read back, and the one every command
  without an explicit cluster means, as long as the file can be read; an argument, the option or the environment variable goes
  before it, in this order.
\<close>

theorem use_cluster_selects:
  "case useClusterHandler E name w of (Inl _, _) \<Rightarrow> True
    | (Inr _, w') \<Rightarrow> (case CurrentCluster E w' of
         (Inl e, _) \<Rightarrow> \<exists>path f. currentClusterPath (e_host E) = Inr path \<and> e_fileFault E (w_ext w') ''read'' path = Some f
       | (Inr current, w2) \<Rightarrow> current = name \<and> w2 = w'
           \<and> clusterName E C arguments w' = (Inr (if arguments \<noteq> [] \<and> hd arguments \<noteq> [] then hd arguments
               else if cl_cluster C \<noteq> [] then cl_cluster C
               else orDefault (th_getenv (cl_tools C) ''APC_CLUSTER'') name), w'))"
proof (cases "fst (useClusterHandler E name w)")
  case (Inl e)
  then show ?thesis by (cases "useClusterHandler E name w") simp
next
  case (Inr printed)
  then obtain w' where run: "useClusterHandler E name w = (Inr printed, w')" by (cases "useClusterHandler E name w") simp
  then obtain u where "SetCurrentCluster E name w = (Inr u, w')"
    unfolding useClusterHandler_def by (auto elim!: tryA_InrE simp: retA_def)
  then obtain path i where p: "dnsLabel name" "currentClusterPath (e_host E) = Inr path"
      "w_fs w' path = Some \<lparr>fn_info = i, fn_doc = Text (name @ [CHR 0x0A])\<rparr>" by (rule SetCurrentCluster_file)
  show ?thesis
  proof (cases "e_fileFault E (w_ext w') ''read'' path")
    case None
    then have current: "CurrentCluster E w' = (Inr name, w')"
      using p trimSpace_label [OF p(1)] by (simp add: CurrentCluster_def tryA_apply catchA_apply liftA_def readFile_def docText_def retA_def)
    then show ?thesis by (auto simp: run clusterName_def catchA_apply retA_def orDefault_def)
  next
    case (Some f)
    then obtain e where "CurrentCluster E w' = (Inl e, w')"
      using p by (cases "errorsIs f ErrNotExist") (auto simp: CurrentCluster_def tryA_apply catchA_apply liftA_def readFile_def errA_def)
    then show ?thesis using p Some by (simp add: run)
  qed
qed

end
